(* ===== verification/Errors.thy ===== *)
theory Errors
  imports Main
begin

text \<open>
  The error values of the program: \<^verbatim>\<open>packages/core/src/errors.ts\<close>. A thrown
  exception is a value of \<open>js_error\<close>; the program's own classes are the constructors of
  \<open>domain_error\<close>, and the exceptions the JavaScript runtime or the database client raise on
  the paths the model covers are the other constructors of \<open>js_error\<close>. A \<open>string\<close> is a
  list of code units below 256.
\<close>

section \<open>Domain errors\<close>

datatype DomainErrorCode =
    VALIDATION_ERROR | AUTHENTICATION_ERROR | INSUFFICIENT_FUNDS | UNSUPPORTED_CURRENCY
  | RECIPIENT_RESOLUTION_FAILURE | UNSUPPORTED_RAIL | CONFLICT | EXTERNAL_RAIL_FAILURE
  | REFUND_NOT_SUPPORTED | INTERNAL_ERROR | AUTHORIZATION_ERROR | IDEMPOTENCY_CONFLICT
  | IDEMPOTENCY_KEY_REUSED | POLICY_DENIED | APPROVAL_REQUIRED | REVIEW_REQUIRED_ERROR
  | DEPENDENCY_UNAVAILABLE | CUSTODY_UNAVAILABLE | INVALID_STATE | RATE_LIMITED | NOT_FOUND

datatype RailFailureKind = DETERMINISTIC | RETRYABLE | AMBIGUOUS

type_synonym details = "(string \<times> string) list option"

text \<open>One constructor per subclass of \<^verbatim>\<open>DomainError\<close>, with its message and, where the
  class takes them, its details and its rail failure kind.\<close>

datatype domain_error =
    ValidationError string details
  | AuthenticationError string
  | AuthorizationError string
  | IdempotencyConflictError string
  | IdempotencyKeyReusedError string
  | PolicyDeniedError string details
  | ApprovalRequiredError string details
  | ReviewRequiredError string details
  | DependencyUnavailableError string
  | CustodyUnavailableError string
  | InvalidStateError string
  | RateLimitedError string
  | NotFoundError string
  | InsufficientFundsError string details
  | UnsupportedCurrencyError string
  | RecipientResolutionError string
  | UnsupportedRailError string
  | ConflictError string
  | ExternalRailError string RailFailureKind details
  | RefundNotSupportedError string
  | InternalError string

fun error_code :: "domain_error \<Rightarrow> DomainErrorCode" where
  "error_code (ValidationError _ _) = VALIDATION_ERROR"
| "error_code (AuthenticationError _) = AUTHENTICATION_ERROR"
| "error_code (AuthorizationError _) = AUTHORIZATION_ERROR"
| "error_code (IdempotencyConflictError _) = IDEMPOTENCY_CONFLICT"
| "error_code (IdempotencyKeyReusedError _) = IDEMPOTENCY_KEY_REUSED"
| "error_code (PolicyDeniedError _ _) = POLICY_DENIED"
| "error_code (ApprovalRequiredError _ _) = APPROVAL_REQUIRED"
| "error_code (ReviewRequiredError _ _) = REVIEW_REQUIRED_ERROR"
| "error_code (DependencyUnavailableError _) = DEPENDENCY_UNAVAILABLE"
| "error_code (CustodyUnavailableError _) = CUSTODY_UNAVAILABLE"
| "error_code (InvalidStateError _) = INVALID_STATE"
| "error_code (RateLimitedError _) = RATE_LIMITED"
| "error_code (NotFoundError _) = NOT_FOUND"
| "error_code (InsufficientFundsError _ _) = INSUFFICIENT_FUNDS"
| "error_code (UnsupportedCurrencyError _) = UNSUPPORTED_CURRENCY"
| "error_code (RecipientResolutionError _) = RECIPIENT_RESOLUTION_FAILURE"
| "error_code (UnsupportedRailError _) = UNSUPPORTED_RAIL"
| "error_code (ConflictError _) = CONFLICT"
| "error_code (ExternalRailError _ _ _) = EXTERNAL_RAIL_FAILURE"
| "error_code (RefundNotSupportedError _) = REFUND_NOT_SUPPORTED"
| "error_code (InternalError _) = INTERNAL_ERROR"

text \<open>The wire form of a code, as \<^verbatim>\<open>DOMAIN_ERROR_CODES\<close> lists it.\<close>

fun DOMAIN_ERROR_CODES :: "DomainErrorCode \<Rightarrow> string" where
  "DOMAIN_ERROR_CODES VALIDATION_ERROR = ''VALIDATION_ERROR''"
| "DOMAIN_ERROR_CODES AUTHENTICATION_ERROR = ''AUTHENTICATION_ERROR''"
| "DOMAIN_ERROR_CODES INSUFFICIENT_FUNDS = ''INSUFFICIENT_FUNDS''"
| "DOMAIN_ERROR_CODES UNSUPPORTED_CURRENCY = ''UNSUPPORTED_CURRENCY''"
| "DOMAIN_ERROR_CODES RECIPIENT_RESOLUTION_FAILURE = ''RECIPIENT_RESOLUTION_FAILURE''"
| "DOMAIN_ERROR_CODES UNSUPPORTED_RAIL = ''UNSUPPORTED_RAIL''"
| "DOMAIN_ERROR_CODES CONFLICT = ''CONFLICT''"
| "DOMAIN_ERROR_CODES EXTERNAL_RAIL_FAILURE = ''EXTERNAL_RAIL_FAILURE''"
| "DOMAIN_ERROR_CODES REFUND_NOT_SUPPORTED = ''REFUND_NOT_SUPPORTED''"
| "DOMAIN_ERROR_CODES INTERNAL_ERROR = ''INTERNAL_ERROR''"
| "DOMAIN_ERROR_CODES AUTHORIZATION_ERROR = ''AUTHORIZATION_ERROR''"
| "DOMAIN_ERROR_CODES IDEMPOTENCY_CONFLICT = ''IDEMPOTENCY_CONFLICT''"
| "DOMAIN_ERROR_CODES IDEMPOTENCY_KEY_REUSED = ''IDEMPOTENCY_KEY_REUSED''"
| "DOMAIN_ERROR_CODES POLICY_DENIED = ''POLICY_DENIED''"
| "DOMAIN_ERROR_CODES APPROVAL_REQUIRED = ''APPROVAL_REQUIRED''"
| "DOMAIN_ERROR_CODES REVIEW_REQUIRED_ERROR = ''REVIEW_REQUIRED''"
| "DOMAIN_ERROR_CODES DEPENDENCY_UNAVAILABLE = ''DEPENDENCY_UNAVAILABLE''"
| "DOMAIN_ERROR_CODES CUSTODY_UNAVAILABLE = ''CUSTODY_UNAVAILABLE''"
| "DOMAIN_ERROR_CODES INVALID_STATE = ''INVALID_STATE''"
| "DOMAIN_ERROR_CODES RATE_LIMITED = ''RATE_LIMITED''"
| "DOMAIN_ERROR_CODES NOT_FOUND = ''NOT_FOUND''"

section \<open>Everything that can be thrown\<close>

text \<open>
  \<open>RangeError\<close>: BigInt division by zero or a negative BigInt exponent; \<open>TypeError\<close>: a
  member access on \<^verbatim>\<open>undefined\<close>; \<open>JsError\<close>: a plain \<^verbatim>\<open>Error\<close>; \<open>UniqueViolation\<close>,
  \<open>RecordNotFound\<close>, \<open>InvalidEnumValue\<close>: a write the database client rejects because a
  declared unique key would be duplicated, a row that an \<^verbatim>\<open>OrThrow\<close> query or a single-row
  update does not find, a value outside a column's enumeration.
\<close>

datatype js_error =
    DomainErr domain_error
  | RangeError
  | TypeError
  | JsError string
  | UniqueViolation string
  | RecordNotFound string
  | InvalidEnumValue string

type_synonym 'a result = "js_error + 'a"

fun isDomainError :: "js_error \<Rightarrow> bool" where
  "isDomainError (DomainErr _) = True"
| "isDomainError _ = False"

abbreviation throwValidation :: "string \<Rightarrow> 'a result" where
  "throwValidation m \<equiv> Inl (DomainErr (ValidationError m None))"

abbreviation throwConflict :: "string \<Rightarrow> 'a result" where
  "throwConflict m \<equiv> Inl (DomainErr (ConflictError m))"

abbreviation throwInvalidState :: "string \<Rightarrow> 'a result" where
  "throwInvalidState m \<equiv> Inl (DomainErr (InvalidStateError m))"

definition insufficientFunds :: js_error where
  "insufficientFunds = DomainErr (InsufficientFundsError ''Insufficient funds'' None)"

definition unsupportedRail :: "string \<Rightarrow> js_error" where
  "unsupportedRail rail =
     DomainErr (UnsupportedRailError (''Unsupported payment rail: '' @ rail))"

definition unsupportedCurrency :: "string \<Rightarrow> js_error" where
  "unsupportedCurrency c =
     DomainErr (UnsupportedCurrencyError (''Unsupported currency: '' @ c))"

definition idempotencyConflict :: js_error where
  "idempotencyConflict = DomainErr
     (IdempotencyConflictError ''Idempotency key was already used for another request'')"

end
