(* ===== verification/Prelude.thy ===== *)
theory Prelude
  imports Errors "HOL-Library.Char_ord" "HOL-Library.List_Lexorder" "HOL-Library.Signed_Division"
    "HOL-Library.Multiset"
begin

text \<open>
  What every component shares: the collections of simplification rules the component proofs
  use, results that may be errors, the JavaScript numbers, strings and BigInt operations that
  the sources call, the decimal digit strings, the composite sort key
  \<open>order_key\<close> with its linear order, and the stable sort by a comparison function.
\<close>

named_theorems result_simps
named_theorems js_simps

section \<open>Results\<close>

definition bind_r :: "'a result \<Rightarrow> ('a \<Rightarrow> 'b result) \<Rightarrow> 'b result" where
  "bind_r m k = (case m of Inl e \<Rightarrow> Inl e | Inr x \<Rightarrow> k x)"

text \<open>\<open>throw_if b e\<close> is the statement \<^verbatim>\<open>if (b) throw e\<close>.\<close>

definition throw_if :: "bool \<Rightarrow> js_error \<Rightarrow> unit result" where
  "throw_if b e = (if b then Inl e else Inr ())"

lemma bind_r_simps [simp]: "bind_r (Inl e) k = Inl e" "bind_r (Inr x) k = k x"
  by (simp_all add: bind_r_def)

lemma bind_r_Inr_iff [result_simps]:
  "bind_r m k = Inr y \<longleftrightarrow> (\<exists>x. m = Inr x \<and> k x = Inr y)"
  by (cases m) auto

lemma throw_if_simps [simp]: "throw_if True e = Inl e" "throw_if False e = Inr ()"
  by (simp_all add: throw_if_def)

lemma throw_if_Inr_iff [result_simps]: "throw_if b e = Inr u \<longleftrightarrow> \<not> b"
  by (simp add: throw_if_def)

lemma throw_if_Inl_iff [result_simps]: "throw_if b e = Inl e' \<longleftrightarrow> b \<and> e' = e"
  by (auto simp: throw_if_def)

text \<open>The exception-carrying \<^verbatim>\<open>map\<close> of a list: the first error wins.\<close>

fun map_r :: "('a \<Rightarrow> 'b result) \<Rightarrow> 'a list \<Rightarrow> 'b list result" where
  "map_r f [] = Inr []"
| "map_r f (x # xs) = bind_r (f x) (\<lambda>y. bind_r (map_r f xs) (\<lambda>ys. Inr (y # ys)))"

fun opt_r :: "('a \<Rightarrow> 'b result) \<Rightarrow> 'a option \<Rightarrow> 'b option result" where
  "opt_r f None = Inr None"
| "opt_r f (Some x) = bind_r (f x) (\<lambda>y. Inr (Some y))"

lemma map_r_length [simp]: "map_r f xs = Inr ys \<Longrightarrow> length ys = length xs"
  by (induction xs arbitrary: ys) (auto simp: result_simps)

section \<open>Numbers\<close>

text \<open>
  A JavaScript number, as the validating functions see it: an integer, or a value that
  \<^verbatim>\<open>Number.isInteger\<close> rejects (a fraction, NaN, an infinity), kept with its printed form.
\<close>

datatype number = IntNum int | NonIntNum string

fun isInteger :: "number \<Rightarrow> bool" where
  "isInteger (IntNum _) = True"
| "isInteger (NonIntNum _) = False"

fun num_val :: "number \<Rightarrow> int" where
  "num_val (IntNum i) = i"
| "num_val (NonIntNum _) = 0"

text \<open>BigInt arithmetic: division truncates towards zero and raises on zero, and an exponent
  must not be negative.\<close>

definition bigint_div :: "int \<Rightarrow> int \<Rightarrow> int result" where
  "bigint_div a b = (if b = 0 then Inl RangeError else Inr (a sdiv b))"

definition bigint_mod :: "int \<Rightarrow> int \<Rightarrow> int result" where
  "bigint_mod a b = (if b = 0 then Inl RangeError else Inr (a smod b))"

definition bigint_pow :: "int \<Rightarrow> int \<Rightarrow> int result" where
  "bigint_pow a e = (if e < 0 then Inl RangeError else Inr (a ^ nat e))"

lemma sdiv_nonneg [js_simps]: "0 \<le> a \<Longrightarrow> 0 < b \<Longrightarrow> a sdiv b = a div (b::int)"
  by (cases "a = 0") (simp_all add: signed_divide_int_def)

lemma smod_nonneg [js_simps]: "0 \<le> a \<Longrightarrow> 0 < b \<Longrightarrow> a smod b = a mod (b::int)"
  by (cases "a = 0") (simp_all add: signed_modulo_int_def sdiv_nonneg)

lemma bigint_div_nonneg [js_simps]: "0 \<le> a \<Longrightarrow> 0 < b \<Longrightarrow> bigint_div a b = Inr (a div b)"
  by (simp add: bigint_div_def sdiv_nonneg)

lemma bigint_mod_nonneg [js_simps]: "0 \<le> a \<Longrightarrow> 0 < b \<Longrightarrow> bigint_mod a b = Inr (a mod b)"
  by (simp add: bigint_mod_def smod_nonneg)

lemma bigint_pow_nonneg [js_simps]: "0 \<le> e \<Longrightarrow> bigint_pow a e = Inr (a ^ nat e)"
  by (simp add: bigint_pow_def)

section \<open>Strings\<close>

definition code_unit :: "char \<Rightarrow> nat" where
  "code_unit c = of_char c"

definition is_digit :: "char \<Rightarrow> bool" where
  "is_digit c \<longleftrightarrow> 48 \<le> code_unit c \<and> code_unit c \<le> 57"

definition digit_val :: "char \<Rightarrow> nat" where
  "digit_val c = code_unit c - 48"

definition digit_char :: "nat \<Rightarrow> char" where
  "digit_char n = char_of (48 + n)"

text \<open>The white space \<^verbatim>\<open>String.prototype.trim\<close> removes, among code units below 256.\<close>

definition is_space :: "char \<Rightarrow> bool" where
  "is_space c \<longleftrightarrow> code_unit c \<in> {9, 10, 11, 12, 13, 32, 160}"

definition trim :: "string \<Rightarrow> string" where
  "trim s = rev (dropWhile is_space (rev (dropWhile is_space s)))"

definition padStart :: "int \<Rightarrow> string \<Rightarrow> string" where
  "padStart n s = replicate (nat n - length s) (CHR ''0'') @ s"

definition padEnd :: "int \<Rightarrow> string \<Rightarrow> string" where
  "padEnd n s = s @ replicate (nat n - length s) (CHR ''0'')"

text \<open>\<open>strip_leading_zeros\<close> is \<^verbatim>\<open>replace(/^0+(?=\d)/u, '')\<close>: a zero goes while a digit
  follows it. \<open>strip_trailing_zeros\<close> is \<^verbatim>\<open>replace(/0+$/u, '')\<close>.\<close>

fun strip_leading_zeros :: "string \<Rightarrow> string" where
  "strip_leading_zeros (c # d # s) =
     (if c = CHR ''0'' \<and> is_digit d then strip_leading_zeros (d # s) else c # d # s)"
| "strip_leading_zeros s = s"

definition strip_trailing_zeros :: "string \<Rightarrow> string" where
  "strip_trailing_zeros s = rev (dropWhile (\<lambda>c. c = CHR ''0'') (rev s))"

section \<open>Decimal digits\<close>

definition digits_val :: "string \<Rightarrow> nat" where
  "digits_val s = foldl (\<lambda>n c. 10 * n + digit_val c) 0 s"

fun nat_to_string :: "nat \<Rightarrow> string" where
  "nat_to_string n =
     (if n < 10 then [digit_char n] else nat_to_string (n div 10) @ [digit_char (n mod 10)])"

definition int_to_string :: "int \<Rightarrow> string" where
  "int_to_string i = (if i < 0 then CHR ''-'' # nat_to_string (nat (- i)) else nat_to_string (nat i))"

fun number_to_string :: "number \<Rightarrow> string" where
  "number_to_string (IntNum i) = int_to_string i"
| "number_to_string (NonIntNum s) = s"

declare nat_to_string.simps [simp del]

definition all_digits :: "string \<Rightarrow> bool" where
  "all_digits s \<longleftrightarrow> list_all is_digit s"

section \<open>Lemmas on digits\<close>

lemma code_unit_char_of [simp]: "n < 256 \<Longrightarrow> code_unit (char_of n) = n"
  by (simp add: code_unit_def)

lemma digit_char_digit [simp]: "n < 10 \<Longrightarrow> is_digit (digit_char n)"
  by (simp add: is_digit_def digit_char_def)

lemma digit_val_digit_char [simp]: "n < 10 \<Longrightarrow> digit_val (digit_char n) = n"
  by (simp add: digit_val_def digit_char_def)

lemma digit_char_digit_val [simp]: "is_digit c \<Longrightarrow> digit_char (digit_val c) = c"
  by (simp add: is_digit_def digit_char_def digit_val_def code_unit_def)

lemma digit_val_less [simp]: "is_digit c \<Longrightarrow> digit_val c < 10"
  by (auto simp: is_digit_def digit_val_def)

lemma digit_val_inj: "is_digit c \<Longrightarrow> is_digit d \<Longrightarrow> digit_val c = digit_val d \<Longrightarrow> c = d"
  by (metis digit_char_digit_val)

lemma is_digit_zero [simp]: "is_digit (CHR ''0'')" and digit_val_zero [simp]: "digit_val (CHR ''0'') = 0"
  and not_digit_dot [simp]: "\<not> is_digit (CHR ''.'')"
  by (simp_all add: is_digit_def digit_val_def code_unit_def)

lemma digit_char_0 [simp]: "digit_char 0 = CHR ''0''"
  by (metis digit_char_digit_val digit_val_zero is_digit_zero)

lemma digit_val_eq_0_iff: "is_digit c \<Longrightarrow> digit_val c = 0 \<longleftrightarrow> c = CHR ''0''"
  using digit_val_inj [of c "CHR ''0''"] by auto

lemma all_digits_simps [simp]:
  "all_digits []" "all_digits (c # s) \<longleftrightarrow> is_digit c \<and> all_digits s"
  "all_digits (s @ t) \<longleftrightarrow> all_digits s \<and> all_digits t"
  "all_digits (replicate n (CHR ''0''))" "all_digits (rev s) \<longleftrightarrow> all_digits s"
  by (auto simp: all_digits_def list_all_iff)

lemma digits_val_Nil [simp]: "digits_val [] = 0"
  by (simp add: digits_val_def)

lemma digits_val_snoc [simp]: "digits_val (s @ [c]) = 10 * digits_val s + digit_val c"
  by (simp add: digits_val_def)

lemma digits_val_single [simp]: "digits_val [c] = digit_val c"
  by (simp add: digits_val_def)

lemma digits_val_append: "digits_val (s @ t) = digits_val s * 10 ^ length t + digits_val t"
proof (induction t rule: rev_induct)
  case Nil
  then show ?case by simp
next
  case (snoc c t)
  have "digits_val (s @ t @ [c]) = 10 * digits_val (s @ t) + digit_val c"
    using digits_val_snoc [of "s @ t" c] by simp
  then show ?case using snoc by (simp add: algebra_simps)
qed

lemma digits_val_Cons: "digits_val (c # s) = digit_val c * 10 ^ length s + digits_val s"
  using digits_val_append [of "[c]" s] by simp

lemma digits_val_zeros [simp]: "digits_val (replicate n (CHR ''0'')) = 0"
  by (induction n) (simp_all add: digits_val_Cons)

lemma digits_val_bound: "all_digits s \<Longrightarrow> digits_val s < 10 ^ length s"
proof (induction s rule: rev_induct)
  case (snoc c s)
  then have "digits_val s + 1 \<le> 10 ^ length s" and "digit_val c < 10" by auto
  then show ?case by simp
qed simp

lemma digits_val_fixed_inj:
  "all_digits s \<Longrightarrow> all_digits t \<Longrightarrow> length s = length t \<Longrightarrow> digits_val s = digits_val t \<Longrightarrow> s = t"
proof (induction s arbitrary: t rule: rev_induct)
  case (snoc c s)
  then obtain t' d where t: "t = t' @ [d]"
    by (metis append_butlast_last_id length_0_conv snoc_eq_iff_butlast)
  have eq: "10 * digits_val s + digit_val c = 10 * digits_val t' + digit_val d"
    and small: "digit_val c < 10" "digit_val d < 10"
    using snoc.prems t by auto
  then have "digit_val c = digit_val d" "digits_val s = digits_val t'" by arith+
  then show ?case using snoc t by (auto intro: digit_val_inj)
qed simp

lemma nat_to_string_small [simp]: "n < 10 \<Longrightarrow> nat_to_string n = [digit_char n]"
  by (simp add: nat_to_string.simps [of n])

lemma nat_to_string_step:
  "0 < n \<Longrightarrow> d < 10 \<Longrightarrow> nat_to_string (10 * n + d) = nat_to_string n @ [digit_char d]"
proof -
  assume a: "0 < n" "d < 10"
  then have "(10 * n + d) div 10 = n" "(10 * n + d) mod 10 = d" "\<not> 10 * n + d < 10"
    by auto
  then show ?thesis by (subst nat_to_string.simps) simp
qed

lemma nat_to_string_nonempty [simp]: "nat_to_string n \<noteq> []"
  by (subst nat_to_string.simps) simp

lemma all_digits_nat_to_string [simp]: "all_digits (nat_to_string n)"
proof (induction n rule: nat_to_string.induct)
  case (1 n)
  then show ?case by (cases "n < 10") (simp_all add: nat_to_string.simps [of n])
qed

lemma digits_val_nat_to_string [simp]: "digits_val (nat_to_string n) = n"
proof (induction n rule: nat_to_string.induct)
  case (1 n)
  then show ?case by (cases "n < 10") (simp_all add: nat_to_string.simps [of n])
qed

lemma nat_to_string_inj [simp]: "nat_to_string m = nat_to_string n \<longleftrightarrow> m = n"
  by (metis digits_val_nat_to_string)

lemma length_nat_to_string: "n < 10 ^ k \<Longrightarrow> 0 < k \<Longrightarrow> length (nat_to_string n) \<le> k"
proof (induction k arbitrary: n)
  case (Suc k)
  show ?case
  proof (cases "n < 10")
    case False
    then have "n div 10 < 10 ^ k" "0 < k"
      using Suc.prems by (auto simp: less_mult_imp_div_less mult.commute intro: Nat.gr0I)
    then show ?thesis using Suc.IH False by (simp add: nat_to_string.simps [of n])
  qed simp
qed simp

subsection \<open>Canonical whole parts\<close>

lemma strip_leading_zeros_props:
  "all_digits s \<Longrightarrow> s \<noteq> [] \<Longrightarrow>
     all_digits (strip_leading_zeros s) \<and> strip_leading_zeros s \<noteq> [] \<and>
     digits_val (strip_leading_zeros s) = digits_val s \<and>
     (hd (strip_leading_zeros s) = CHR ''0'' \<longrightarrow> length (strip_leading_zeros s) = 1)"
  by (induction s rule: strip_leading_zeros.induct) (auto simp: digits_val_Cons)

lemma nat_to_string_canonical:
  assumes "all_digits s" "s \<noteq> []" "hd s = CHR ''0'' \<Longrightarrow> length s = 1"
  shows "nat_to_string (digits_val s) = s"
  using assms
proof (induction s rule: rev_induct)
  case (snoc c s)
  show ?case
  proof (cases "s = []")
    case True
    then show ?thesis using snoc.prems by simp
  next
    case False
    then have hd: "hd s \<noteq> CHR ''0''"
      using snoc.prems(3) by auto
    have digs: "all_digits s" "is_digit c"
      using snoc.prems(1) by simp_all
    from hd digs have IH: "nat_to_string (digits_val s) = s" using snoc.IH False by simp
    have "0 < digits_val s"
      using hd digs False by (cases s) (auto simp: digits_val_Cons digit_val_eq_0_iff intro: Nat.gr0I)
    then show ?thesis using IH digs nat_to_string_step [of "digits_val s" "digit_val c"] by simp
  qed
qed simp

lemma nat_to_string_digits_val:
  assumes "all_digits s" "s \<noteq> []"
  shows "nat_to_string (digits_val s) = strip_leading_zeros s"
  using nat_to_string_canonical [of "strip_leading_zeros s"] strip_leading_zeros_props [OF assms]
  by auto

lemma strip_leading_zeros_nat_to_string [simp]:
  "strip_leading_zeros (nat_to_string n) = nat_to_string n"
  using nat_to_string_digits_val [of "nat_to_string n"] by simp

lemma strip_leading_zeros_idem:
  "all_digits s \<Longrightarrow> s \<noteq> [] \<Longrightarrow> strip_leading_zeros (strip_leading_zeros s) = strip_leading_zeros s"
  by (metis nat_to_string_digits_val strip_leading_zeros_nat_to_string)

subsection \<open>Fraction parts\<close>

lemma all_digits_strip_trailing [simp]: "all_digits s \<Longrightarrow> all_digits (strip_trailing_zeros s)"
  by (auto simp: strip_trailing_zeros_def all_digits_def list_all_iff dest: set_dropWhileD)

lemma strip_trailing_split:
  "\<exists>n. s = strip_trailing_zeros s @ replicate n (CHR ''0'')"
proof -
  let ?z = "takeWhile (\<lambda>c. c = CHR ''0'') (rev s)"
  have "s = rev (dropWhile (\<lambda>c. c = CHR ''0'') (rev s)) @ rev ?z"
    by (metis rev_append rev_rev_ident takeWhile_dropWhile_id)
  moreover have "rev ?z = replicate (length ?z) (CHR ''0'')"
    by (rule replicate_eqI) (auto dest: set_takeWhileD)
  ultimately show ?thesis unfolding strip_trailing_zeros_def by metis
qed

lemma length_strip_trailing: "length (strip_trailing_zeros s) \<le> length s"
  using length_dropWhile_le [of _ "rev s"] by (simp add: strip_trailing_zeros_def)

lemma padEnd_strip_trailing: "nat k = length s \<Longrightarrow> padEnd k (strip_trailing_zeros s) = s"
  using strip_trailing_split [of s] by (metis length_append length_replicate padEnd_def diff_add_inverse)

lemma strip_trailing_zeros_append [simp]:
  "strip_trailing_zeros (s @ replicate n (CHR ''0'')) = strip_trailing_zeros s"
  by (simp add: strip_trailing_zeros_def dropWhile_append)

lemma strip_trailing_padEnd [simp]: "strip_trailing_zeros (padEnd k s) = strip_trailing_zeros s"
  by (simp add: padEnd_def)

lemma all_digits_pad [simp]: "all_digits (padEnd k s) \<longleftrightarrow> all_digits s" "all_digits (padStart k s) \<longleftrightarrow> all_digits s"
  by (simp_all add: padEnd_def padStart_def)

lemma length_padEnd: "length s \<le> nat k \<Longrightarrow> length (padEnd k s) = nat k"
  by (simp add: padEnd_def)

lemma length_padStart: "length s \<le> nat k \<Longrightarrow> length (padStart k s) = nat k"
  by (simp add: padStart_def)

lemma digits_val_padStart [simp]: "digits_val (padStart k s) = digits_val s"
  by (simp add: padStart_def digits_val_append)

text \<open>A number below \<open>10 ^ k\<close>, padded to \<open>k\<close> digits, is the only \<open>k\<close>-digit string with
  that value.\<close>

lemma padStart_digits_val:
  assumes "all_digits s" "length s = nat k" "0 < k"
  shows "padStart k (nat_to_string (digits_val s)) = s"
proof (rule digits_val_fixed_inj)
  show "length (padStart k (nat_to_string (digits_val s))) = length s"
    using assms digits_val_bound [OF assms(1)]
    by (subst length_padStart) (auto intro!: length_nat_to_string)
qed (use assms in simp_all)

section \<open>Composite sort keys\<close>

text \<open>\<^verbatim>\<open>ORDER BY available_at ASC, id ASC\<close> and the route order (priority, then id) both
  compare an integer first and a string where the integers agree.\<close>

datatype order_key = OrderKey int string

instantiation order_key :: linorder
begin

fun less_eq_order_key :: "order_key \<Rightarrow> order_key \<Rightarrow> bool" where
  "less_eq_order_key (OrderKey a s) (OrderKey b t) \<longleftrightarrow> a < b \<or> a = b \<and> s \<le> t"

definition less_order_key :: "order_key \<Rightarrow> order_key \<Rightarrow> bool" where
  "less_order_key x y \<longleftrightarrow> x \<le> y \<and> \<not> y \<le> x"

instance
proof
  fix x y z :: order_key
  show "x < y \<longleftrightarrow> x \<le> y \<and> \<not> y \<le> x" by (rule less_order_key_def)
  show "x \<le> x" by (cases x) simp
  show "x \<le> y \<Longrightarrow> y \<le> z \<Longrightarrow> x \<le> z" by (cases x; cases y; cases z) auto
  show "x \<le> y \<Longrightarrow> y \<le> x \<Longrightarrow> x = y" by (cases x; cases y) auto
  show "x \<le> y \<or> y \<le> x" by (cases x; cases y) auto
qed

end

section \<open>Sorting with a comparison function\<close>

text \<open>\<^verbatim>\<open>Array.prototype.sort\<close> with a comparison: a stable sort.\<close>

fun insert_by :: "('a \<Rightarrow> 'a \<Rightarrow> int) \<Rightarrow> 'a \<Rightarrow> 'a list \<Rightarrow> 'a list" where
  "insert_by cmp x [] = [x]"
| "insert_by cmp x (y # ys) = (if cmp x y \<le> 0 then x # y # ys else y # insert_by cmp x ys)"

definition sort_by :: "('a \<Rightarrow> 'a \<Rightarrow> int) \<Rightarrow> 'a list \<Rightarrow> 'a list" where
  "sort_by cmp xs = foldr (insert_by cmp) xs []"

lemma mset_sort_by [simp]: "mset (sort_by cmp xs) = mset xs"
proof -
  have ins: "mset (insert_by cmp x ys) = add_mset x (mset ys)" for x ys by (induction ys) auto
  show ?thesis by (induction xs) (simp_all add: sort_by_def ins)
qed

end
