(* ===== verification/Json.thy ===== *)
theory Json
  imports Prelude
begin

text \<open>
  The part of the standard library's JSON that the sources use: values,
  \<^verbatim>\<open>JSON.stringify\<close>, \<^verbatim>\<open>JSON.parse\<close> and \<^verbatim>\<open>Date.prototype.toISOString\<close>. A number is kept
  as its numeral. An object is its list of members in insertion order, which is the order
  \<^verbatim>\<open>stringify\<close> prints. The parser takes fuel: two calls of it consume at least one character,
  so \<open>2 * length s + 2\<close> is enough.
\<close>

datatype json =
    JNull
  | JBool bool
  | JNumber string
  | JStr string
  | JArr "json list"
  | JObj "(string \<times> json) list"

definition json_int :: "int \<Rightarrow> json" where
  "json_int i = JNumber (int_to_string i)"

fun json_opt :: "string option \<Rightarrow> json" where
  "json_opt None = JNull"
| "json_opt (Some s) = JStr s"

section \<open>Printing\<close>

definition hex_digit :: "nat \<Rightarrow> char" where
  "hex_digit n = (if n < 10 then char_of (48 + n) else char_of (87 + n))"

definition escape_char :: "char \<Rightarrow> string" where
  "escape_char c =
     (let n = code_unit c in
      if n = 34 then [CHR 0x5C, CHR 0x22]
      else if n = 92 then [CHR 0x5C, CHR 0x5C]
      else if n = 8 then [CHR 0x5C, CHR ''b'']
      else if n = 12 then [CHR 0x5C, CHR ''f'']
      else if n = 10 then [CHR 0x5C, CHR ''n'']
      else if n = 13 then [CHR 0x5C, CHR ''r'']
      else if n = 9 then [CHR 0x5C, CHR ''t'']
      else if n < 32 then [CHR 0x5C, CHR ''u'', CHR ''0'', CHR ''0'', hex_digit (n div 16), hex_digit (n mod 16)]
      else [c])"

definition quote :: "string \<Rightarrow> string" where
  "quote s = CHR 0x22 # concat (map escape_char s) @ [CHR 0x22]"

fun join :: "string \<Rightarrow> string list \<Rightarrow> string" where
  "join sep [] = []"
| "join sep [x] = x"
| "join sep (x # y # xs) = x @ sep @ join sep (y # xs)"

fun stringify :: "json \<Rightarrow> string" where
  "stringify JNull = ''null''"
| "stringify (JBool b) = (if b then ''true'' else ''false'')"
| "stringify (JNumber n) = n"
| "stringify (JStr s) = quote s"
| "stringify (JArr xs) = ''['' @ join '','' (map stringify xs) @ '']''"
| "stringify (JObj ms) =
     CHR 0x7B # join '','' (map (\<lambda>(k, v). quote k @ '':'' @ stringify v) ms) @ [CHR 0x7D]"

section \<open>Parsing\<close>

definition hex_val :: "char \<Rightarrow> nat option" where
  "hex_val c =
     (let n = code_unit c in
      if 48 \<le> n \<and> n \<le> 57 then Some (n - 48)
      else if 97 \<le> n \<and> n \<le> 102 then Some (n - 87)
      else if 65 \<le> n \<and> n \<le> 70 then Some (n - 55)
      else None)"

text \<open>The escapes of a JSON string. A code unit above 255 is outside the modelled strings.\<close>

definition unescape_unit :: "char \<Rightarrow> char \<Rightarrow> char \<Rightarrow> char \<Rightarrow> char option" where
  "unescape_unit a b c d =
     (case (hex_val a, hex_val b, hex_val c, hex_val d) of
        (Some 0, Some 0, Some x, Some y) \<Rightarrow> Some (char_of (16 * x + y))
      | _ \<Rightarrow> None)"

definition unescape_char :: "char \<Rightarrow> char option" where
  "unescape_char e =
     (let n = code_unit e in
      if n = 34 \<or> n = 92 \<or> n = 47 then Some e
      else if n = 98 then Some (char_of (8::nat))
      else if n = 102 then Some (char_of (12::nat))
      else if n = 110 then Some (char_of (10::nat))
      else if n = 114 then Some (char_of (13::nat))
      else if n = 116 then Some (char_of (9::nat))
      else None)"

fun parse_chars :: "string \<Rightarrow> (string \<times> string) option" where
  "parse_chars [] = None"
| "parse_chars (c # r) =
     (if code_unit c = 34 then Some ([], r)
      else if code_unit c = 92 then
        (case r of
           [] \<Rightarrow> None
         | e # r' \<Rightarrow>
             if code_unit e = 117 then
               (case r' of
                  a # b # x # y # r'' \<Rightarrow>
                    (case unescape_unit a b x y of
                       None \<Rightarrow> None
                     | Some u \<Rightarrow> map_option (\<lambda>(s, t). (u # s, t)) (parse_chars r''))
                | _ \<Rightarrow> None)
             else (case unescape_char e of
                     None \<Rightarrow> None
                   | Some u \<Rightarrow> map_option (\<lambda>(s, t). (u # s, t)) (parse_chars r')))
      else if code_unit c < 32 then None
      else map_option (\<lambda>(s, t). (c # s, t)) (parse_chars r))"

definition skip_ws :: "string \<Rightarrow> string" where
  "skip_ws s = dropWhile (\<lambda>c. code_unit c \<in> {9, 10, 13, 32}) s"

fun strip_prefix :: "string \<Rightarrow> string \<Rightarrow> string option" where
  "strip_prefix [] s = Some s"
| "strip_prefix (p # ps) [] = None"
| "strip_prefix (p # ps) (c # s) = (if p = c then strip_prefix ps s else None)"

text \<open>A JSON numeral: optional minus, integer part without leading zeros, optional fraction,
  optional exponent.\<close>

definition digits1 :: "string \<Rightarrow> (string \<times> string) option" where
  "digits1 s = (let d = takeWhile is_digit s in if d = [] then None else Some (d, dropWhile is_digit s))"

definition parse_int_part :: "string \<Rightarrow> (string \<times> string) option" where
  "parse_int_part s =
     (case s of
        [] \<Rightarrow> None
      | c # r \<Rightarrow> if c = CHR ''0'' then Some ([c], r) else digits1 s)"

definition parse_frac_part :: "string \<Rightarrow> (string \<times> string) option" where
  "parse_frac_part s =
     (case s of
        [] \<Rightarrow> Some ([], [])
      | c # r \<Rightarrow> if c = CHR ''.'' then map_option (\<lambda>(d, t). (c # d, t)) (digits1 r) else Some ([], s))"

definition parse_exp_part :: "string \<Rightarrow> (string \<times> string) option" where
  "parse_exp_part s =
     (case s of
        [] \<Rightarrow> Some ([], [])
      | c # r \<Rightarrow>
          if c = CHR ''e'' \<or> c = CHR ''E'' then
            (case r of
               g # r' \<Rightarrow>
                 if g = CHR ''+'' \<or> g = CHR ''-''
                 then map_option (\<lambda>(d, t). (c # g # d, t)) (digits1 r')
                 else map_option (\<lambda>(d, t). (c # d, t)) (digits1 r)
             | [] \<Rightarrow> None)
          else Some ([], s))"

definition parse_number :: "string \<Rightarrow> (string \<times> string) option" where
  "parse_number s =
     (let (sign, body) = (case s of c # r \<Rightarrow> if c = CHR ''-'' then ([c], r) else ([], s) | [] \<Rightarrow> ([], []))
      in case parse_int_part body of
           None \<Rightarrow> None
         | Some (i, r1) \<Rightarrow>
             (case parse_frac_part r1 of
                None \<Rightarrow> None
              | Some (f, r2) \<Rightarrow>
                  (case parse_exp_part r2 of
                     None \<Rightarrow> None
                   | Some (e, r3) \<Rightarrow> Some (sign @ i @ f @ e, r3))))"

text \<open>\<open>parse_elems\<close> reads what follows the opening bracket of a non-empty array,
  \<open>parse_members\<close> what follows the opening brace of a non-empty object.\<close>

fun parse_value :: "nat \<Rightarrow> string \<Rightarrow> (json \<times> string) option"
  and parse_elems :: "nat \<Rightarrow> string \<Rightarrow> (json list \<times> string) option"
  and parse_members :: "nat \<Rightarrow> string \<Rightarrow> ((string \<times> json) list \<times> string) option" where
  "parse_value 0 s = None"
| "parse_value (Suc n) s =
     (case skip_ws s of
        [] \<Rightarrow> None
      | c # r \<Rightarrow>
          if c = CHR 0x22 then map_option (\<lambda>(t, u). (JStr t, u)) (parse_chars r)
          else if c = CHR ''['' then
            (case skip_ws r of
               d # u \<Rightarrow> if d = CHR '']'' then Some (JArr [], u)
                        else map_option (\<lambda>(xs, v). (JArr xs, v)) (parse_elems n r)
             | [] \<Rightarrow> None)
          else if c = CHR 0x7B then
            (case skip_ws r of
               d # u \<Rightarrow> if d = CHR 0x7D then Some (JObj [], u)
                        else map_option (\<lambda>(ms, v). (JObj ms, v)) (parse_members n r)
             | [] \<Rightarrow> None)
          else (case strip_prefix ''null'' (c # r) of
                  Some u \<Rightarrow> Some (JNull, u)
                | None \<Rightarrow>
                    (case strip_prefix ''true'' (c # r) of
                       Some u \<Rightarrow> Some (JBool True, u)
                     | None \<Rightarrow>
                         (case strip_prefix ''false'' (c # r) of
                            Some u \<Rightarrow> Some (JBool False, u)
                          | None \<Rightarrow> map_option (\<lambda>(t, u). (JNumber t, u)) (parse_number (c # r))))))"
| "parse_elems 0 s = None"
| "parse_elems (Suc n) s =
     (case parse_value n s of
        None \<Rightarrow> None
      | Some (x, r) \<Rightarrow>
          (case skip_ws r of
             [] \<Rightarrow> None
           | d # u \<Rightarrow> if d = CHR '']'' then Some ([x], u)
                      else if d = CHR '','' then map_option (\<lambda>(xs, v). (x # xs, v)) (parse_elems n u)
                      else None))"
| "parse_members 0 s = None"
| "parse_members (Suc n) s =
     (case skip_ws s of
        [] \<Rightarrow> None
      | q # r0 \<Rightarrow>
          if q \<noteq> CHR 0x22 then None
          else (case parse_chars r0 of
             None \<Rightarrow> None
           | Some (k, r1) \<Rightarrow>
               (case skip_ws r1 of
                  [] \<Rightarrow> None
                | e # r2 \<Rightarrow>
                    if e \<noteq> CHR '':'' then None
                    else (case parse_value n r2 of
                       None \<Rightarrow> None
                     | Some (x, r3) \<Rightarrow>
                         (case skip_ws r3 of
                            [] \<Rightarrow> None
                          | d # u \<Rightarrow>
                              if d = CHR 0x7D then Some ([(k, x)], u)
                              else if d = CHR '','' then
                                map_option (\<lambda>(ms, v). ((k, x) # ms, v)) (parse_members n u)
                              else None)))))"

definition JSON_parse :: "string \<Rightarrow> json option" where
  "JSON_parse s =
     (case parse_value (2 * length s + 2) s of
        None \<Rightarrow> None
      | Some (v, r) \<Rightarrow> if skip_ws r = [] then Some v else None)"

text \<open>The check both consumers of stored JSON make: an array whose items are all strings.\<close>

fun json_strings :: "json list \<Rightarrow> string list option" where
  "json_strings [] = Some []"
| "json_strings (JStr s # xs) = map_option (Cons s) (json_strings xs)"
| "json_strings (_ # xs) = None"

section \<open>Dates\<close>

text \<open>A \<^verbatim>\<open>Date\<close> is its number of milliseconds since the epoch. \<open>toISOString\<close> prints it in the
  proleptic Gregorian calendar, with a sign and six digits for a year outside 0 to 9999.\<close>

definition civil_from_days :: "int \<Rightarrow> int \<times> int \<times> int" where
  "civil_from_days days =
     (let z = days + 719468;
          era = z div 146097;
          doe = z mod 146097;
          yoe = (doe - doe div 1460 + doe div 36524 - doe div 146096) div 365;
          doy = doe - (365 * yoe + yoe div 4 - yoe div 100);
          mp = (5 * doy + 2) div 153;
          d = doy - (153 * mp + 2) div 5 + 1;
          m = (if mp < 10 then mp + 3 else mp - 9)
      in (yoe + era * 400 + (if m \<le> 2 then 1 else 0), m, d))"

definition year_string :: "int \<Rightarrow> string" where
  "year_string y =
     (if 0 \<le> y \<and> y \<le> 9999 then padStart 4 (int_to_string y)
      else (if y < 0 then CHR ''-'' else CHR ''+'') # padStart 6 (int_to_string (abs y)))"

definition toISOString :: "int \<Rightarrow> string" where
  "toISOString ms =
     (let day = ms div 86400000; rest = ms mod 86400000; (y, m, d) = civil_from_days day
      in year_string y @ ''-'' @ padStart 2 (int_to_string m) @ ''-'' @ padStart 2 (int_to_string d) @
         ''T'' @ padStart 2 (int_to_string (rest div 3600000)) @ '':'' @
         padStart 2 (int_to_string (rest div 60000 mod 60)) @ '':'' @
         padStart 2 (int_to_string (rest div 1000 mod 60)) @ ''.'' @
         padStart 3 (int_to_string (rest mod 1000)) @ ''Z'')"

fun json_date_opt :: "int option \<Rightarrow> json" where
  "json_date_opt None = JNull"
| "json_date_opt (Some t) = JStr (toISOString t)"

section \<open>Strings survive printing and parsing\<close>

lemma hex_digit_val [simp]: "n < 16 \<Longrightarrow> hex_val (hex_digit n) = Some n"
  by (auto simp: hex_val_def hex_digit_def Let_def)

lemma hex_val_zero [simp]: "hex_val (CHR ''0'') = Some 0"
  by (simp add: hex_val_def code_unit_def)

lemma code_unit_consts [simp]:
  "code_unit (CHR 0x5C) = 92" "code_unit (CHR 0x22) = 34" "code_unit (CHR ''b'') = 98"
  "code_unit (CHR ''f'') = 102" "code_unit (CHR ''n'') = 110" "code_unit (CHR ''r'') = 114"
  "code_unit (CHR ''t'') = 116" "code_unit (CHR ''u'') = 117" "code_unit (CHR '']'') = 93"
  "code_unit (CHR '','') = 44" "code_unit (CHR ''['') = 91"
  by (simp_all add: code_unit_def)

lemma char_of_code_unit [simp]: "char_of (code_unit c) = c"
  by (simp add: code_unit_def)

lemma code_unit_eq_char: "code_unit c = n \<Longrightarrow> c = char_of n"
  by (metis char_of_code_unit)

lemma code_unit_escaped: "code_unit c = 92 \<Longrightarrow> c = CHR 0x5C" "code_unit c = 34 \<Longrightarrow> c = CHR 0x22"
  by (metis code_unit_consts(1) code_unit_eq_char, metis code_unit_consts(2) code_unit_eq_char)

lemma parse_chars_escape:
  "parse_chars (escape_char c @ r) = map_option (\<lambda>(s, t). (c # s, t)) (parse_chars r)"
proof -
  have hex: "16 * (code_unit c div 16) + code_unit c mod 16 = code_unit c" by simp
  show ?thesis
    by (auto simp: escape_char_def Let_def unescape_char_def unescape_unit_def hex
        dest: code_unit_escaped code_unit_eq_char)
qed

lemma parse_chars_quote: "parse_chars (concat (map escape_char s) @ CHR 0x22 # r) = Some (s, r)"
  by (induction s) (simp_all add: parse_chars_escape)

lemma skip_ws_Cons [simp]: "code_unit c \<notin> {9, 10, 13, 32} \<Longrightarrow> skip_ws (c # r) = c # r"
  by (simp add: skip_ws_def)

lemma parse_value_quote: "parse_value (Suc n) (quote s @ r) = Some (JStr s, r)"
  by (simp add: quote_def parse_chars_quote)

section \<open>Values survive printing and parsing\<close>

text \<open>Values whose numbers are integers, as the sources write them.\<close>

fun plain_json :: "json \<Rightarrow> bool" where
  "plain_json (JNumber n) \<longleftrightarrow> (\<exists>i. n = int_to_string i)"
| "plain_json (JArr xs) \<longleftrightarrow> (\<forall>x \<in> set xs. plain_json x)"
| "plain_json (JObj ms) \<longleftrightarrow> (\<forall>m \<in> set ms. plain_json (snd m))"
| "plain_json v \<longleftrightarrow> True"

text \<open>What may follow a value inside a text.\<close>

definition stops :: "string \<Rightarrow> bool" where
  "stops r \<longleftrightarrow> r = [] \<or> hd r \<in> {CHR '','', CHR '']'', CHR 0x7D}"

lemma stops_simps [simp]: "stops []" "stops (CHR '','' # r)" "stops (CHR '']'' # r)" "stops (CHR 0x7D # r)"
  by (simp_all add: stops_def)

lemma stops_not_digit: "stops (c # r) \<Longrightarrow> \<not> is_digit c"
  by (auto simp: stops_def is_digit_def code_unit_def)

lemma digits1_stops:
  assumes "all_digits d" "d \<noteq> []" "stops r"
  shows "digits1 (d @ r) = Some (d, r)"
proof -
  have "takeWhile is_digit (d @ r) = d" "dropWhile is_digit (d @ r) = r"
    using assms stops_not_digit by (cases r; auto simp: all_digits_def list_all_iff)+
  then show ?thesis using assms(2) by (simp add: digits1_def)
qed

lemma nat_to_string_head: "0 < n \<Longrightarrow> hd (nat_to_string n) \<noteq> CHR ''0''"
proof (induction n rule: nat_to_string.induct)
  case (1 n)
  show ?case
  proof (cases "n < 10")
    case True
    have "digit_val (digit_char n) = n" "digit_val (CHR ''0'') = 0"
      using True by (simp_all add: digit_val_def [of "CHR ''0''"] code_unit_def)
    then have "digit_char n \<noteq> CHR ''0''" using 1(2) by (metis less_numeral_extra(3))
    then show ?thesis using True by simp
  next
    case False
    then show ?thesis using 1 by (simp add: nat_to_string.simps [of n])
  qed
qed

lemma parse_int_part_nat:
  assumes "stops r"
  shows "parse_int_part (nat_to_string n @ r) = Some (nat_to_string n, r)"
proof (cases "n = 0")
  case True
  then show ?thesis by (simp add: parse_int_part_def)
next
  case False
  obtain c s where s: "nat_to_string n = c # s" using nat_to_string_nonempty by (metis neq_Nil_conv)
  have "c \<noteq> CHR ''0''" using nat_to_string_head [of n] False s by simp
  then have "parse_int_part (nat_to_string n @ r) = digits1 (nat_to_string n @ r)"
    by (simp add: s parse_int_part_def)
  then show ?thesis using digits1_stops [OF all_digits_nat_to_string nat_to_string_nonempty assms] by simp
qed

lemma parse_number_int:
  assumes "stops r"
  shows "parse_number (int_to_string i @ r) = Some (int_to_string i, r)"
proof -
  have tail: "parse_frac_part r = Some ([], r)" "parse_exp_part r = Some ([], r)"
    using assms by (cases r; auto simp: stops_def parse_frac_part_def parse_exp_part_def)+
  obtain c s where s: "nat_to_string (nat \<bar>i\<bar>) = c # s" using nat_to_string_nonempty by (metis neq_Nil_conv)
  have "is_digit c" using all_digits_nat_to_string [of "nat \<bar>i\<bar>"] by (simp add: s)
  then have c: "c \<noteq> CHR ''-''" by (auto simp: is_digit_def code_unit_def)
  have p: "parse_int_part (c # s @ r) = Some (c # s, r)" using parse_int_part_nat [OF assms, of "nat \<bar>i\<bar>"] by (simp add: s)
  show ?thesis
    using c p tail s by (auto simp: parse_number_def int_to_string_def)
qed

lemma int_to_string_head:
  obtains c s where "int_to_string i = c # s" "is_digit c \<or> c = CHR ''-''"
proof -
  obtain d t where s: "nat_to_string (nat \<bar>i\<bar>) = d # t" using nat_to_string_nonempty by (metis neq_Nil_conv)
  have "is_digit d" using all_digits_nat_to_string [of "nat \<bar>i\<bar>"] by (simp add: s)
  then show thesis using that s by (cases "i < 0") (auto simp: int_to_string_def)
qed

lemma number_start:
  assumes "is_digit c \<or> c = CHR ''-''"
  shows "code_unit c \<notin> {9, 10, 13, 32}" "c \<notin> {CHR '']'', CHR 0x22, CHR ''['', CHR 0x7B, CHR ''n'', CHR ''t'', CHR ''f''}"
proof -
  have "code_unit c = 45 \<or> 48 \<le> code_unit c \<and> code_unit c \<le> 57"
    using assms by (auto simp: is_digit_def code_unit_def)
  then show "code_unit c \<notin> {9, 10, 13, 32}" "c \<notin> {CHR '']'', CHR 0x22, CHR ''['', CHR 0x7B, CHR ''n'', CHR ''t'', CHR ''f''}"
    by (auto simp: code_unit_def)
qed

text \<open>The first character of a printed value starts no white space and closes nothing.\<close>

lemma stringify_head:
  assumes "plain_json v"
  obtains c s where "stringify v = c # s" "code_unit c \<notin> {9, 10, 13, 32}" "c \<noteq> CHR '']''"
proof (cases v)
  case (JNumber n)
  then obtain i where i: "n = int_to_string i" using assms by auto
  obtain c s where s: "int_to_string i = c # s" "is_digit c \<or> c = CHR ''-''" by (rule int_to_string_head)
  then show ?thesis using that [of c s] number_start [OF s(2)] JNumber i by auto
next
  case (JBool b)
  then show ?thesis using that [of "CHR ''t''" "''rue''"] that [of "CHR ''f''" "''alse''"]
    by (cases b) (simp_all add: code_unit_def)
qed (use that in \<open>auto simp: quote_def code_unit_def\<close>)
lemma parse_value_literal:
  assumes "n \<noteq> 0"
  shows "parse_value n (''null'' @ r) = Some (JNull, r)" "parse_value n (''true'' @ r) = Some (JBool True, r)"
    "parse_value n (''false'' @ r) = Some (JBool False, r)"
  using assms by (cases n; simp add: code_unit_def)+

lemma parse_value_int:
  assumes "n \<noteq> 0" "stops r"
  shows "parse_value n (int_to_string i @ r) = Some (JNumber (int_to_string i), r)"
proof -
  obtain m where n: "n = Suc m" using assms(1) not0_implies_Suc by blast
  obtain c s where s: "int_to_string i = c # s" "is_digit c \<or> c = CHR ''-''" by (rule int_to_string_head)
  have c: "skip_ws (c # s @ r) = c # s @ r" "c \<noteq> CHR 0x22" "c \<noteq> CHR ''[''" "c \<noteq> CHR 0x7B" "CHR ''n'' \<noteq> c"
    "CHR ''t'' \<noteq> c" "CHR ''f'' \<noteq> c"
    using number_start [OF s(2)] by auto
  have "parse_number (c # s @ r) = Some (c # s, r)" using parse_number_int [OF assms(2), of i] by (simp add: s)
  then show ?thesis using c by (simp only: n s(1) append_Cons parse_value.simps) simp
qed

text \<open>Fuel above the length of the text is enough for each of the three parsers.\<close>

definition reads :: "json \<Rightarrow> bool" where
  "reads v \<longleftrightarrow> (\<forall>n r. length (stringify v) < n \<longrightarrow> stops r \<longrightarrow> parse_value n (stringify v @ r) = Some (v, r))"

lemma readsD: "reads v \<Longrightarrow> length (stringify v) < n \<Longrightarrow> stops r \<Longrightarrow> parse_value n (stringify v @ r) = Some (v, r)"
  by (simp add: reads_def)

lemma parse_elems_step:
  assumes "parse_value m (x @ CHR '','' # b) = Some (v, CHR '','' # b)" "parse_elems m b = Some (vs, r)"
  shows "parse_elems (Suc m) (x @ CHR '','' # b) = Some (v # vs, r)"
  using assms by simp

lemma parse_elems_reads:
  "xs \<noteq> [] \<Longrightarrow> (\<forall>x \<in> set xs. reads x) \<Longrightarrow> length (join '','' (map stringify xs)) + 1 < n \<Longrightarrow>
     parse_elems n (join '','' (map stringify xs) @ CHR '']'' # r) = Some (xs, r)"
proof (induction xs arbitrary: n)
  case (Cons x xs)
  obtain m where n: "n = Suc m" using Cons.prems(3) by (cases n) simp_all
  show ?case
  proof (cases "xs = []")
    case True
    have "parse_value m (stringify x @ CHR '']'' # r) = Some (x, CHR '']'' # r)"
      using Cons.prems n True by (intro readsD) simp_all
    then show ?thesis using n True by simp
  next
    case False
    then have body: "join '','' (map stringify (x # xs)) = stringify x @ CHR '','' # join '','' (map stringify xs)"
      by (cases xs) simp_all
    have len: "length (stringify x) < m" "length (join '','' (map stringify xs)) + 1 < m"
      using Cons.prems(3) unfolding n body by simp_all
    have "parse_elems m (join '','' (map stringify xs) @ CHR '']'' # r) = Some (xs, r)"
      by (rule Cons.IH [OF False _ len(2)]) (use Cons.prems(2) in simp)
    moreover have "parse_value m (stringify x @ CHR '','' # t) = Some (x, CHR '','' # t)" for t
      using Cons.prems(2) len(1) by (intro readsD) simp_all
    ultimately show ?thesis unfolding n body append_assoc append_Cons by (intro parse_elems_step)
  qed
qed simp
lemma parse_members_last:
  assumes "parse_value m (x @ CHR 0x7D # r) = Some (v, CHR 0x7D # r)"
  shows "parse_members (Suc m) (quote k @ CHR '':'' # x @ CHR 0x7D # r) = Some ([(k, v)], r)"
  using assms by (simp add: quote_def parse_chars_quote skip_ws_Cons code_unit_def)

lemma parse_members_step:
  assumes "parse_value m (x @ CHR '','' # b) = Some (v, CHR '','' # b)" "parse_members m b = Some (ms, r)"
  shows "parse_members (Suc m) (quote k @ CHR '':'' # x @ CHR '','' # b) = Some ((k, v) # ms, r)"
  using assms by (simp add: quote_def parse_chars_quote skip_ws_Cons code_unit_def)

abbreviation member_text :: "string \<times> json \<Rightarrow> string" where
  "member_text \<equiv> (\<lambda>(k, v). quote k @ '':'' @ stringify v)"

lemma parse_members_reads:
  "ms \<noteq> [] \<Longrightarrow> (\<forall>m \<in> set ms. reads (snd m)) \<Longrightarrow> length (join '','' (map member_text ms)) + 1 < n \<Longrightarrow>
     parse_members n (join '','' (map member_text ms) @ CHR 0x7D # r) = Some (ms, r)"
proof (induction ms arbitrary: n)
  case (Cons kv ms)
  obtain m where n: "n = Suc m" using Cons.prems(3) by (cases n) simp_all
  obtain k v where kv: "kv = (k, v)" by (cases kv)
  show ?case
  proof (cases "ms = []")
    case True
    have "parse_value m (stringify v @ CHR 0x7D # r) = Some (v, CHR 0x7D # r)"
      using Cons.prems n True by (intro readsD) (simp_all add: kv)
    then show ?thesis using n True parse_members_last by (simp add: kv del: parse_members.simps)
  next
    case False
    then have body: "join '','' (map member_text (kv # ms)) =
        quote k @ CHR '':'' # stringify v @ CHR '','' # join '','' (map member_text ms)"
      by (cases ms) (simp_all add: kv)
    have len: "length (stringify v) < m" "length (join '','' (map member_text ms)) + 1 < m"
      using Cons.prems(3) unfolding n body by simp_all
    have "parse_members m (join '','' (map member_text ms) @ CHR 0x7D # r) = Some (ms, r)"
      by (rule Cons.IH [OF False _ len(2)]) (use Cons.prems(2) in simp)
    moreover have "parse_value m (stringify v @ CHR '','' # t) = Some (v, CHR '','' # t)" for t
      using Cons.prems(2) len(1) by (intro readsD) (simp_all add: kv)
    ultimately have "parse_members (Suc m) (quote k @ CHR '':'' # stringify v @ CHR '','' #
        join '','' (map member_text ms) @ CHR 0x7D # r) = Some ((k, v) # ms, r)"
      by (intro parse_members_step)
    then show ?thesis unfolding n body by (simp add: kv del: parse_members.simps)
  qed
qed simp

lemma parse_value_bracket:
  assumes "parse_elems n (c # b) = Some (xs, r)" "code_unit c \<notin> {9, 10, 13, 32}" "c \<noteq> CHR '']''"
  shows "parse_value (Suc n) (CHR ''['' # c # b) = Some (JArr xs, r)"
  using assms by (simp add: code_unit_def)

lemma parse_value_brace:
  assumes "parse_members n (CHR 0x22 # b) = Some (ms, r)"
  shows "parse_value (Suc n) (CHR 0x7B # CHR 0x22 # b) = Some (JObj ms, r)"
  using assms by (simp add: code_unit_def)

lemma plain_reads: "plain_json v \<Longrightarrow> reads v"
proof (induction v)
  case (JNumber s)
  then show ?case by (auto simp: reads_def parse_value_int)
next
  case (JStr s)
  show ?case unfolding reads_def
  proof (intro allI impI)
    fix n r assume "length (stringify (JStr s)) < n"
    then show "parse_value n (stringify (JStr s) @ r) = Some (JStr s, r)"
      by (cases n) (simp_all add: parse_value_quote del: parse_value.simps)
  qed
next
  case (JArr xs)
  then have R: "\<forall>x \<in> set xs. reads x" by simp
  show ?case unfolding reads_def
  proof (intro allI impI)
    fix n r assume len: "length (stringify (JArr xs)) < n"
    then obtain m where n: "n = Suc m" by (cases n) simp_all
    show "parse_value n (stringify (JArr xs) @ r) = Some (JArr xs, r)"
    proof (cases xs)
      case Nil
      then show ?thesis by (simp add: n code_unit_def)
    next
      case (Cons x ys)
      let ?b = "join '','' (map stringify xs)"
      obtain c s where c: "stringify x = c # s" "code_unit c \<notin> {9, 10, 13, 32}" "c \<noteq> CHR '']''"
        by (rule stringify_head [of x]) (use JArr.prems Cons in simp)
      then obtain t where t: "?b = c # t" using Cons by (cases ys) simp_all
      have "parse_elems m (?b @ CHR '']'' # r) = Some (xs, r)"
        using len n R Cons by (intro parse_elems_reads) simp_all
      then have "parse_value (Suc m) (CHR ''['' # c # t @ CHR '']'' # r) = Some (JArr xs, r)"
        unfolding t append_Cons by (rule parse_value_bracket [OF _ c(2,3)])
      then show ?thesis by (simp add: n t del: parse_value.simps)
    qed
  qed
next
  case (JObj ms)
  then have R: "\<forall>m \<in> set ms. reads (snd m)" by (auto simp: snds.simps)
  show ?case unfolding reads_def
  proof (intro allI impI)
    fix n r assume len: "length (stringify (JObj ms)) < n"
    then obtain m where n: "n = Suc m" by (cases n) simp_all
    show "parse_value n (stringify (JObj ms) @ r) = Some (JObj ms, r)"
    proof (cases ms)
      case Nil
      then show ?thesis by (simp add: n code_unit_def)
    next
      case (Cons kv ys)
      let ?b = "join '','' (map member_text ms)"
      obtain t where t: "?b = CHR 0x22 # t" using Cons by (cases ys; cases kv) (simp_all add: quote_def)
      have e: "?b @ CHR 0x7D # r = CHR 0x22 # t @ CHR 0x7D # r" unfolding t by simp
      have "parse_members m (?b @ CHR 0x7D # r) = Some (ms, r)"
        using len n R Cons by (intro parse_members_reads) simp_all
      then have "parse_value (Suc m) (CHR 0x7B # CHR 0x22 # t @ CHR 0x7D # r) = Some (JObj ms, r)"
        unfolding e by (rule parse_value_brace)
      moreover have "stringify (JObj ms) @ r = CHR 0x7B # CHR 0x22 # t @ CHR 0x7D # r"
        unfolding stringify.simps t by simp
      ultimately show ?thesis by (simp only: n)
    qed
  qed
next
  case JNull
  show ?case unfolding reads_def stringify.simps by (auto intro!: parse_value_literal simp del: parse_value.simps append.simps)
next
  case (JBool b)
  show ?case unfolding reads_def stringify.simps
    by (cases b) (auto intro!: parse_value_literal simp del: parse_value.simps append.simps)
qed

theorem parse_stringify:
  assumes "plain_json v"
  shows "JSON_parse (stringify v) = Some v"
proof -
  have "parse_value (2 * length (stringify v) + 2) (stringify v @ []) = Some (v, [])"
    by (rule readsD [OF plain_reads [OF assms]]) simp_all
  then show ?thesis by (simp add: JSON_parse_def skip_ws_def)
qed

lemma parse_stringify_strings: "JSON_parse (stringify (JArr (map JStr ss))) = Some (JArr (map JStr ss))"
  by (rule parse_stringify) simp

lemma json_strings_map [simp]: "json_strings (map JStr ss) = Some ss"
  by (induction ss) simp_all

end
