(* ===== verification/Payment_Status.thy ===== *)
theory Payment_Status
  imports Prelude
begin

text \<open>
  The payment state machines of \<^verbatim>\<open>packages/core/src/payment.ts\<close>, \<^verbatim>\<open>payment-v2.ts\<close> and
  \<^verbatim>\<open>payment-lifecycle-v2.ts\<close>: the transition tables of payments, attempts, attempt outcomes
  and reservations, and the projection of a payment's status from its durable facts. The
  literal unions of the source are datatypes whose constructors carry the union's name as a
  prefix; \<^verbatim>\<open>PaymentStatus\<close> and \<^verbatim>\<open>V2PaymentStatus\<close> list the same literals and are one type, and
  so are \<^verbatim>\<open>AttemptOutcome\<close> and \<^verbatim>\<open>PaymentAttemptOutcome\<close>.
\<close>

section \<open>Statuses\<close>

datatype PaymentStatus =
    PS_CREATED | PS_ROUTING | PS_AWAITING_APPROVAL | PS_REJECTED_BY_POLICY | PS_REJECTED
  | PS_SUBMITTED | PS_RECONCILING | PS_CONFIRMED | PS_PROVED_NO_EFFECT | PS_REVIEW_REQUIRED
  | PS_CLOSED_UNRESOLVED | PS_FAILED | PS_EXPIRED

type_synonym V2PaymentStatus = PaymentStatus

datatype PaymentKind = PAY | SEND | REFUND

datatype PaymentAttemptStatus =
    PAS_CREATED | PAS_PREPARED | PAS_EXECUTING | PAS_SUBMITTED | PAS_RECONCILING
  | PAS_CONFIRMED | PAS_FAILED

datatype PaymentPolicyDecision = PD_ALLOW | PD_REQUIRE_APPROVAL | PD_DENY

datatype ApprovalState = AS_NOT_REQUIRED | AS_PENDING | AS_APPROVED | AS_REJECTED | AS_EXPIRED

datatype AttemptOutcome =
    AO_NOT_STARTED | AO_PRE_EFFECT_ABORTED | AO_PROVED_NO_EFFECT | AO_SUBMITTED | AO_CONFIRMED
  | AO_UNKNOWN | AO_FAILED

datatype ReservationLifecycleStatus = RL_HELD | RL_CONSUMED | RL_RELEASED

datatype PaymentExecutionState =
    ES_NOT_STARTED | ES_QUEUED | ES_PREPARING | ES_SIGNING | ES_SUBMITTING | ES_RECONCILING | ES_TERMINAL

fun payment_status_name :: "PaymentStatus \<Rightarrow> string" where
  "payment_status_name PS_CREATED = ''CREATED''"
| "payment_status_name PS_ROUTING = ''ROUTING''"
| "payment_status_name PS_AWAITING_APPROVAL = ''AWAITING_APPROVAL''"
| "payment_status_name PS_REJECTED_BY_POLICY = ''REJECTED_BY_POLICY''"
| "payment_status_name PS_REJECTED = ''REJECTED''"
| "payment_status_name PS_SUBMITTED = ''SUBMITTED''"
| "payment_status_name PS_RECONCILING = ''RECONCILING''"
| "payment_status_name PS_CONFIRMED = ''CONFIRMED''"
| "payment_status_name PS_PROVED_NO_EFFECT = ''PROVED_NO_EFFECT''"
| "payment_status_name PS_REVIEW_REQUIRED = ''REVIEW_REQUIRED''"
| "payment_status_name PS_CLOSED_UNRESOLVED = ''CLOSED_UNRESOLVED''"
| "payment_status_name PS_FAILED = ''FAILED''"
| "payment_status_name PS_EXPIRED = ''EXPIRED''"

fun payment_kind_name :: "PaymentKind \<Rightarrow> string" where
  "payment_kind_name PAY = ''PAY''"
| "payment_kind_name SEND = ''SEND''"
| "payment_kind_name REFUND = ''REFUND''"

fun attempt_status_name :: "PaymentAttemptStatus \<Rightarrow> string" where
  "attempt_status_name PAS_CREATED = ''CREATED''"
| "attempt_status_name PAS_PREPARED = ''PREPARED''"
| "attempt_status_name PAS_EXECUTING = ''EXECUTING''"
| "attempt_status_name PAS_SUBMITTED = ''SUBMITTED''"
| "attempt_status_name PAS_RECONCILING = ''RECONCILING''"
| "attempt_status_name PAS_CONFIRMED = ''CONFIRMED''"
| "attempt_status_name PAS_FAILED = ''FAILED''"

fun attempt_outcome_name :: "AttemptOutcome \<Rightarrow> string" where
  "attempt_outcome_name AO_NOT_STARTED = ''NOT_STARTED''"
| "attempt_outcome_name AO_PRE_EFFECT_ABORTED = ''PRE_EFFECT_ABORTED''"
| "attempt_outcome_name AO_PROVED_NO_EFFECT = ''PROVED_NO_EFFECT''"
| "attempt_outcome_name AO_SUBMITTED = ''SUBMITTED''"
| "attempt_outcome_name AO_CONFIRMED = ''CONFIRMED''"
| "attempt_outcome_name AO_UNKNOWN = ''UNKNOWN''"
| "attempt_outcome_name AO_FAILED = ''FAILED''"

fun policy_decision_name :: "PaymentPolicyDecision \<Rightarrow> string" where
  "policy_decision_name PD_ALLOW = ''ALLOW''"
| "policy_decision_name PD_REQUIRE_APPROVAL = ''REQUIRE_APPROVAL''"
| "policy_decision_name PD_DENY = ''DENY''"

fun reservation_state_name :: "ReservationLifecycleStatus \<Rightarrow> string" where
  "reservation_state_name RL_HELD = ''HELD''"
| "reservation_state_name RL_CONSUMED = ''CONSUMED''"
| "reservation_state_name RL_RELEASED = ''RELEASED''"

section \<open>The payment and attempt transition tables\<close>

fun PAYMENT_TRANSITIONS :: "PaymentStatus \<Rightarrow> PaymentStatus list" where
  "PAYMENT_TRANSITIONS PS_CREATED = [PS_ROUTING, PS_FAILED]"
| "PAYMENT_TRANSITIONS PS_ROUTING =
     [PS_AWAITING_APPROVAL, PS_SUBMITTED, PS_RECONCILING, PS_FAILED]"
| "PAYMENT_TRANSITIONS PS_AWAITING_APPROVAL = [PS_ROUTING, PS_REJECTED, PS_EXPIRED]"
| "PAYMENT_TRANSITIONS PS_REJECTED_BY_POLICY = []"
| "PAYMENT_TRANSITIONS PS_REJECTED = []"
| "PAYMENT_TRANSITIONS PS_SUBMITTED = [PS_CONFIRMED, PS_RECONCILING, PS_FAILED]"
| "PAYMENT_TRANSITIONS PS_RECONCILING = [PS_CONFIRMED, PS_FAILED]"
| "PAYMENT_TRANSITIONS PS_PROVED_NO_EFFECT = []"
| "PAYMENT_TRANSITIONS PS_REVIEW_REQUIRED =
     [PS_CONFIRMED, PS_PROVED_NO_EFFECT, PS_CLOSED_UNRESOLVED]"
| "PAYMENT_TRANSITIONS PS_CLOSED_UNRESOLVED = []"
| "PAYMENT_TRANSITIONS PS_CONFIRMED = []"
| "PAYMENT_TRANSITIONS PS_FAILED = []"
| "PAYMENT_TRANSITIONS PS_EXPIRED = []"

fun PAYMENT_ATTEMPT_TRANSITIONS :: "PaymentAttemptStatus \<Rightarrow> PaymentAttemptStatus list" where
  "PAYMENT_ATTEMPT_TRANSITIONS PAS_CREATED = [PAS_PREPARED, PAS_FAILED]"
| "PAYMENT_ATTEMPT_TRANSITIONS PAS_PREPARED =
     [PAS_EXECUTING, PAS_SUBMITTED, PAS_RECONCILING, PAS_FAILED]"
| "PAYMENT_ATTEMPT_TRANSITIONS PAS_EXECUTING = [PAS_SUBMITTED, PAS_RECONCILING, PAS_FAILED]"
| "PAYMENT_ATTEMPT_TRANSITIONS PAS_SUBMITTED = [PAS_CONFIRMED, PAS_RECONCILING, PAS_FAILED]"
| "PAYMENT_ATTEMPT_TRANSITIONS PAS_RECONCILING = [PAS_CONFIRMED, PAS_FAILED]"
| "PAYMENT_ATTEMPT_TRANSITIONS PAS_CONFIRMED = []"
| "PAYMENT_ATTEMPT_TRANSITIONS PAS_FAILED = []"

definition canTransitionPaymentStatus :: "PaymentStatus \<Rightarrow> PaymentStatus \<Rightarrow> bool" where
  "canTransitionPaymentStatus current nxt \<longleftrightarrow> nxt \<in> set (PAYMENT_TRANSITIONS current)"

definition assertPaymentStatusTransition :: "PaymentStatus \<Rightarrow> PaymentStatus \<Rightarrow> unit result" where
  "assertPaymentStatusTransition current nxt =
     throw_if (\<not> canTransitionPaymentStatus current nxt)
       (DomainErr (ConflictError (''Cannot transition payment from '' @
          payment_status_name current @ '' to '' @ payment_status_name nxt)))"

definition canTransitionPaymentAttemptStatus ::
    "PaymentAttemptStatus \<Rightarrow> PaymentAttemptStatus \<Rightarrow> bool" where
  "canTransitionPaymentAttemptStatus current nxt \<longleftrightarrow> nxt \<in> set (PAYMENT_ATTEMPT_TRANSITIONS current)"

definition assertPaymentAttemptStatusTransition ::
    "PaymentAttemptStatus \<Rightarrow> PaymentAttemptStatus \<Rightarrow> unit result" where
  "assertPaymentAttemptStatusTransition current nxt =
     throw_if (\<not> canTransitionPaymentAttemptStatus current nxt)
       (DomainErr (ConflictError (''Cannot transition payment attempt from '' @
          attempt_status_name current @ '' to '' @ attempt_status_name nxt)))"

section \<open>The status projection\<close>

record PaymentStatusProjectionInput =
  pp_policyDecision :: PaymentPolicyDecision
  pp_approvalState :: ApprovalState
  pp_attemptOutcomes :: "AttemptOutcome list"
  pp_planExhausted :: bool
  pp_reviewRequired :: bool
  pp_closedUnresolved :: bool
  pp_executionStarted :: bool

definition no_effect :: "AttemptOutcome \<Rightarrow> bool" where
  "no_effect o' \<longleftrightarrow> o' = AO_PROVED_NO_EFFECT \<or> o' = AO_PRE_EFFECT_ABORTED"

definition projectPaymentStatus :: "PaymentStatusProjectionInput \<Rightarrow> V2PaymentStatus" where
  "projectPaymentStatus input =
     (if pp_policyDecision input = PD_DENY then PS_REJECTED_BY_POLICY
      else if pp_approvalState input = AS_REJECTED then PS_REJECTED
      else if pp_approvalState input = AS_EXPIRED then PS_EXPIRED
      else if pp_approvalState input = AS_PENDING then PS_AWAITING_APPROVAL
      else if pp_closedUnresolved input then PS_CLOSED_UNRESOLVED
      else if pp_reviewRequired input then PS_REVIEW_REQUIRED
      else let outcomes = pp_attemptOutcomes input in
        if AO_CONFIRMED \<in> set outcomes then PS_CONFIRMED
        else if AO_UNKNOWN \<in> set outcomes then PS_RECONCILING
        else if AO_SUBMITTED \<in> set outcomes then PS_SUBMITTED
        else if pp_planExhausted input \<and> outcomes \<noteq> [] \<and> list_all no_effect outcomes
        then PS_PROVED_NO_EFFECT
        else if AO_FAILED \<in> set outcomes then PS_FAILED
        else if pp_executionStarted input then PS_ROUTING
        else PS_CREATED)"

definition v2_terminal :: "V2PaymentStatus \<Rightarrow> bool" where
  "v2_terminal s \<longleftrightarrow> s \<in> {PS_CONFIRMED, PS_REJECTED_BY_POLICY, PS_REJECTED, PS_PROVED_NO_EFFECT,
     PS_CLOSED_UNRESOLVED, PS_FAILED, PS_EXPIRED}"

definition assertV2PaymentStatusTransition :: "V2PaymentStatus \<Rightarrow> V2PaymentStatus \<Rightarrow> unit result" where
  "assertV2PaymentStatusTransition current nxt =
     throw_if (v2_terminal current \<and> current \<noteq> nxt)
       (DomainErr (ConflictError (''Cannot transition terminal V2 payment from '' @
          payment_status_name current)))"

section \<open>Attempts and reservations\<close>

record PaymentAttemptState =
  pas_id :: string
  pas_sequence :: int
  pas_routeId :: string
  pas_executionState :: PaymentExecutionState
  pas_outcome :: AttemptOutcome
  pas_preparedEffectHash :: "string option"
  pas_signedPayloadHash :: "string option"
  pas_expectedExternalId :: "string option"
  pas_validityExpiresAt :: "int option"
  pas_validitySlot :: "int option"

record ReservationState =
  rs_status :: ReservationLifecycleStatus
  rs_amountAtomic :: int
  rs_reason :: "string option"

definition assertPaymentAttemptSequence :: "number \<Rightarrow> unit result" where
  "assertPaymentAttemptSequence sequence =
     throw_if (\<not> isInteger sequence \<or> num_val sequence < 1)
       (DomainErr (ValidationError ''Payment attempt sequence must start at one'' None))"

definition canCreateNextAttempt :: "PaymentAttemptState list \<Rightarrow> bool" where
  "canCreateNextAttempt attempts \<longleftrightarrow>
     (if length attempts = 0 then True else list_all (\<lambda>a. no_effect (pas_outcome a)) attempts)"

definition assertCanCreateNextAttempt :: "PaymentAttemptState list \<Rightarrow> unit result" where
  "assertCanCreateNextAttempt attempts =
     throw_if (\<not> canCreateNextAttempt attempts)
       (DomainErr (ConflictError
          ''A replacement attempt is unsafe until every earlier attempt is proved no-effect''))"

fun allowed_outcomes :: "AttemptOutcome \<Rightarrow> AttemptOutcome list" where
  "allowed_outcomes AO_NOT_STARTED =
     [AO_PRE_EFFECT_ABORTED, AO_PROVED_NO_EFFECT, AO_SUBMITTED, AO_CONFIRMED, AO_UNKNOWN, AO_FAILED]"
| "allowed_outcomes AO_PRE_EFFECT_ABORTED = []"
| "allowed_outcomes AO_PROVED_NO_EFFECT = []"
| "allowed_outcomes AO_SUBMITTED = [AO_CONFIRMED, AO_UNKNOWN]"
| "allowed_outcomes AO_CONFIRMED = []"
| "allowed_outcomes AO_UNKNOWN = [AO_CONFIRMED, AO_PROVED_NO_EFFECT]"
| "allowed_outcomes AO_FAILED = []"

definition assertAttemptProgression :: "AttemptOutcome \<Rightarrow> AttemptOutcome \<Rightarrow> unit result" where
  "assertAttemptProgression current nxt =
     throw_if (nxt \<notin> set (allowed_outcomes current))
       (DomainErr (ConflictError (''Cannot transition attempt outcome from '' @
          attempt_outcome_name current @ '' to '' @ attempt_outcome_name nxt)))"

fun allowed_reservation :: "ReservationLifecycleStatus \<Rightarrow> ReservationLifecycleStatus list" where
  "allowed_reservation RL_HELD = [RL_CONSUMED, RL_RELEASED]"
| "allowed_reservation RL_CONSUMED = []"
| "allowed_reservation RL_RELEASED = []"

definition assertReservationTransition ::
    "ReservationLifecycleStatus \<Rightarrow> ReservationLifecycleStatus \<Rightarrow> unit result" where
  "assertReservationTransition current nxt =
     throw_if (nxt \<notin> set (allowed_reservation current))
       (DomainErr (ConflictError (''Cannot transition reservation from '' @
          reservation_state_name current @ '' to '' @ reservation_state_name nxt)))"

definition assertReservationCanBeReleased :: "AttemptOutcome \<Rightarrow> unit result" where
  "assertReservationCanBeReleased paymentOutcome =
     throw_if (paymentOutcome = AO_UNKNOWN \<or> paymentOutcome = AO_SUBMITTED)
       (DomainErr (InvalidStateError ''Reservation cannot be released while an effect may exist''))"

section \<open>Lemmas\<close>

lemma assert_progression_iff [simp]:
  "assertAttemptProgression a b = Inr u \<longleftrightarrow> b \<in> set (allowed_outcomes a)"
  by (simp add: assertAttemptProgression_def throw_if_def)

lemma assert_v2_transition_iff [simp]:
  "assertV2PaymentStatusTransition a b = Inr u \<longleftrightarrow> (v2_terminal a \<longrightarrow> a = b)"
  by (auto simp: assertV2PaymentStatusTransition_def throw_if_def)

text \<open>How long a chain of permitted steps can get: every permitted step raises the rank.\<close>

fun attempt_rank :: "PaymentAttemptStatus \<Rightarrow> nat" where
  "attempt_rank PAS_CREATED = 0"
| "attempt_rank PAS_PREPARED = 1"
| "attempt_rank PAS_EXECUTING = 2"
| "attempt_rank PAS_SUBMITTED = 3"
| "attempt_rank PAS_RECONCILING = 4"
| "attempt_rank PAS_CONFIRMED = 5"
| "attempt_rank PAS_FAILED = 5"

fun outcome_rank :: "AttemptOutcome \<Rightarrow> nat" where
  "outcome_rank AO_NOT_STARTED = 0"
| "outcome_rank AO_SUBMITTED = 1"
| "outcome_rank AO_UNKNOWN = 2"
| "outcome_rank _ = 3"

text \<open>
  What a client of a transition table relies on: each permitted step raises a bounded rank.
  Then no chain of steps is longer than the bound, no status is visited twice and the
  statuses without a successor are final.
\<close>

locale ranked_transitions =
  fixes step :: "'s \<Rightarrow> 's \<Rightarrow> bool"
    and rank :: "'s \<Rightarrow> nat"
    and bound :: nat
  assumes step_rank: "step a b \<Longrightarrow> rank a < rank b"
    and rank_bound: "rank a \<le> bound"
begin

lemma chain_rank: "successively step (a # xs) \<Longrightarrow> rank a + length xs \<le> rank (last (a # xs))"
  by (induction xs arbitrary: a) (auto dest: step_rank split: if_splits intro: order_trans, fastforce dest: step_rank)

lemma chain_bound: "successively step (a # xs) \<Longrightarrow> length xs \<le> bound"
  using chain_rank [of a xs] rank_bound [of "last (a # xs)"] by simp

lemma steps_rank: "step\<^sup>+\<^sup>+ a b \<Longrightarrow> rank a < rank b"
  by (induction rule: tranclp_induct) (auto dest: step_rank)

lemma no_return: "step\<^sup>+\<^sup>+ a b \<Longrightarrow> a \<noteq> b"
  using steps_rank by fastforce

end

interpretation attempt_steps: ranked_transitions canTransitionPaymentAttemptStatus attempt_rank 5
proof
  fix a b
  show "canTransitionPaymentAttemptStatus a b \<Longrightarrow> attempt_rank a < attempt_rank b"
    by (cases a) (auto simp: canTransitionPaymentAttemptStatus_def)
  show "attempt_rank a \<le> 5" by (cases a) auto
qed

interpretation outcome_steps:
  ranked_transitions "\<lambda>a b. assertAttemptProgression a b = Inr ()" outcome_rank 3
proof
  fix a b
  show "assertAttemptProgression a b = Inr () \<Longrightarrow> outcome_rank a < outcome_rank b"
    by (cases a) auto
  show "outcome_rank a \<le> 3" by (cases a) auto
qed

text \<open>Outcomes reachable from one that may already have had an effect.\<close>

inductive outcome_reach :: "AttemptOutcome \<Rightarrow> AttemptOutcome \<Rightarrow> bool" where
  reach_refl: "outcome_reach a a"
| reach_step: "outcome_reach a b \<Longrightarrow> assertAttemptProgression b c = Inr () \<Longrightarrow> outcome_reach a c"

inductive_cases outcome_reachE: "outcome_reach a b"

lemma outcome_reach_possible_effect:
  assumes "outcome_reach a b" "a = AO_SUBMITTED \<or> a = AO_UNKNOWN"
  shows "b \<in> {AO_SUBMITTED, AO_UNKNOWN, AO_CONFIRMED, AO_PROVED_NO_EFFECT}"
  using assms by (induction rule: outcome_reach.induct) auto

lemma outcome_reach_terminal:
  assumes "outcome_reach a b" "allowed_outcomes a = []"
  shows "b = a"
  using assms by (induction rule: outcome_reach.induct) auto

lemma project_confirmed_iff:
  "projectPaymentStatus p = PS_CONFIRMED \<longleftrightarrow>
     pp_policyDecision p \<noteq> PD_DENY \<and> pp_approvalState p \<in> {AS_NOT_REQUIRED, AS_APPROVED} \<and>
     \<not> pp_closedUnresolved p \<and> \<not> pp_reviewRequired p \<and> AO_CONFIRMED \<in> set (pp_attemptOutcomes p)"
  by (cases "pp_approvalState p") (auto simp: projectPaymentStatus_def Let_def)

text \<open>The attempts of a payment are created one after the other, each only when all earlier ones
  are proved to have had no effect.\<close>

definition sequential_outcomes :: "AttemptOutcome list \<Rightarrow> bool" where
  "sequential_outcomes os \<longleftrightarrow> os \<noteq> [] \<and> list_all no_effect (butlast os)"

lemma project_terminal_stable:
  assumes "sequential_outcomes (pp_attemptOutcomes p)"
    and "assertAttemptProgression (last (pp_attemptOutcomes p)) o' = Inr ()"
    and "v2_terminal (projectPaymentStatus p)"
  shows "projectPaymentStatus (p\<lparr>pp_attemptOutcomes := butlast (pp_attemptOutcomes p) @ [o']\<rparr>) =
     projectPaymentStatus p"
proof -
  obtain os a where os: "pp_attemptOutcomes p = os @ [a]" "list_all no_effect os"
    using assms(1) by (metis append_butlast_last_id sequential_outcomes_def)
  have a: "o' \<in> set (allowed_outcomes a)" using assms(2) os by simp
  have none: "\<And>x. x \<in> set os \<Longrightarrow> no_effect x" using os(2) by (simp add: list_all_iff)
  then have "AO_CONFIRMED \<notin> set os" "AO_UNKNOWN \<notin> set os" "AO_SUBMITTED \<notin> set os" "AO_FAILED \<notin> set os"
    by (auto simp: no_effect_def)
  with assms(3) a os show ?thesis
    by (cases a) (auto simp: projectPaymentStatus_def v2_terminal_def Let_def no_effect_def split: if_splits)
qed

section \<open>Properties\<close>

text \<open>A payment is shown as confirmed exactly when an attempt is confirmed and neither the
  policy, the approval nor a review stands against it.\<close>

theorem confirmed_projection:
  "projectPaymentStatus p = PS_CONFIRMED \<longleftrightarrow>
     pp_policyDecision p \<noteq> PD_DENY \<and> pp_approvalState p \<in> {AS_NOT_REQUIRED, AS_APPROVED} \<and>
     \<not> pp_closedUnresolved p \<and> \<not> pp_reviewRequired p \<and> AO_CONFIRMED \<in> set (pp_attemptOutcomes p)"
  by (rule project_confirmed_iff)

text \<open>Once the projected status is terminal, a permitted change of the last attempt's outcome
  leaves it as it is, so the transition check accepts the new projection.\<close>

theorem terminal_status_stable:
  assumes "sequential_outcomes (pp_attemptOutcomes p)"
    and "assertAttemptProgression (last (pp_attemptOutcomes p)) out = Inr ()"
    and "v2_terminal (projectPaymentStatus p)"
  shows "assertV2PaymentStatusTransition (projectPaymentStatus p)
    (projectPaymentStatus (p\<lparr>pp_attemptOutcomes := butlast (pp_attemptOutcomes p) @ [out]\<rparr>)) = Inr ()"
  using project_terminal_stable [OF assms] by simp

theorem terminal_status_stable_witness:
  "\<exists>p. v2_terminal (projectPaymentStatus p) \<and>
     assertV2PaymentStatusTransition (projectPaymentStatus p)
       (projectPaymentStatus (p\<lparr>pp_attemptOutcomes := [AO_CONFIRMED]\<rparr>)) = Inr ()"
proof -
  let ?p = "\<lparr>pp_policyDecision = PD_ALLOW, pp_approvalState = AS_REJECTED, pp_attemptOutcomes = [AO_UNKNOWN],
    pp_planExhausted = False, pp_reviewRequired = False, pp_closedUnresolved = False, pp_executionStarted = True\<rparr>"
  have t: "v2_terminal (projectPaymentStatus ?p)" by (simp add: projectPaymentStatus_def v2_terminal_def)
  have "sequential_outcomes (pp_attemptOutcomes ?p)" by (simp add: sequential_outcomes_def)
  from terminal_status_stable [OF this _ t, of AO_CONFIRMED] t show ?thesis
    by (intro exI [of _ ?p]) simp
qed

text \<open>From an outcome that may have had an effect, no sequence of permitted changes leads to an
  outcome that counts as no effect other than an explicit proof of it.\<close>

theorem possible_effect_not_forgotten:
  assumes "outcome_reach a b" "a = AO_SUBMITTED \<or> a = AO_UNKNOWN"
  shows "b \<noteq> AO_NOT_STARTED \<and> b \<noteq> AO_PRE_EFFECT_ABORTED \<and> b \<noteq> AO_FAILED"
  using outcome_reach_possible_effect [OF assms] by auto

theorem possible_effect_not_forgotten_witness:
  "outcome_reach AO_SUBMITTED AO_PROVED_NO_EFFECT \<and> AO_PROVED_NO_EFFECT \<noteq> AO_FAILED"
proof -
  have "outcome_reach AO_SUBMITTED AO_UNKNOWN" by (rule reach_step [OF reach_refl]) simp
  then have "outcome_reach AO_SUBMITTED AO_PROVED_NO_EFFECT" by (rule reach_step) simp
  then show ?thesis using possible_effect_not_forgotten by blast
qed

text \<open>C36: an attempt changes its outcome at most three times, and no outcome comes back.\<close>

theorem outcome_changes_bounded:
  assumes "successively (\<lambda>a b. assertAttemptProgression a b = Inr ()) (a # rest)"
  shows "length rest \<le> 3 \<and> (rest \<noteq> [] \<longrightarrow> last rest \<noteq> a)"
proof -
  have "last rest \<noteq> a" if "rest \<noteq> []"
  proof -
    have "outcome_rank a + length rest \<le> outcome_rank (last (a # rest))"
      by (rule outcome_steps.chain_rank [OF assms])
    moreover have "0 < length rest" using that by simp
    ultimately show ?thesis using that by auto
  qed
  then show ?thesis using outcome_steps.chain_bound [OF assms] by blast
qed

theorem outcome_changes_bounded_witness:
  "length [AO_SUBMITTED, AO_UNKNOWN, AO_CONFIRMED] \<le> 3 \<and> last [AO_SUBMITTED, AO_UNKNOWN, AO_CONFIRMED] \<noteq> AO_NOT_STARTED"
proof -
  have "successively (\<lambda>a b. assertAttemptProgression a b = Inr ())
      (AO_NOT_STARTED # [AO_SUBMITTED, AO_UNKNOWN, AO_CONFIRMED])" by simp
  from outcome_changes_bounded [OF this] show ?thesis by simp
qed

end
