(* ===== verification/Agent_Account.thy ===== *)
theory Agent_Account
  imports Payment_Status
begin

text \<open>
  \<^verbatim>\<open>packages/core/src/account-v2.ts\<close>: the account and credential lifecycles and the
  credential scopes. A scope is its string; \<open>normalizeAgentCredentialScopes\<close> sorts, refuses
  duplicates and refuses unknown scopes.
\<close>

datatype AgentAccountLifecycleStatus = AA_PROVISIONING | AA_ACTIVE | AA_DISABLED | AA_PROVISIONING_FAILED

datatype AgentCredentialStatus = AC_ACTIVE | AC_EXPIRED | AC_REVOKED | AC_ROTATING

fun account_status_name :: "AgentAccountLifecycleStatus \<Rightarrow> string" where
  "account_status_name AA_PROVISIONING = ''PROVISIONING''"
| "account_status_name AA_ACTIVE = ''ACTIVE''"
| "account_status_name AA_DISABLED = ''DISABLED''"
| "account_status_name AA_PROVISIONING_FAILED = ''PROVISIONING_FAILED''"

fun credential_status_name :: "AgentCredentialStatus \<Rightarrow> string" where
  "credential_status_name AC_ACTIVE = ''ACTIVE''"
| "credential_status_name AC_EXPIRED = ''EXPIRED''"
| "credential_status_name AC_REVOKED = ''REVOKED''"
| "credential_status_name AC_ROTATING = ''ROTATING''"

definition AGENT_CREDENTIAL_SCOPES :: "string list" where
  "AGENT_CREDENTIAL_SCOPES =
     [''payments:create'', ''payments:read'', ''contacts:manage'', ''receive:manage'',
      ''balance:read'', ''history:read'', ''webhooks:manage'']"

definition DEFAULT_AGENT_CREDENTIAL_SCOPES :: "string list" where
  "DEFAULT_AGENT_CREDENTIAL_SCOPES =
     [''payments:create'', ''payments:read'', ''contacts:manage'', ''receive:manage'',
      ''balance:read'', ''history:read'', ''webhooks:manage'']"

fun check_scopes :: "string list \<Rightarrow> unit result" where
  "check_scopes [] = Inr ()"
| "check_scopes (scope # rest) =
     (if scope \<notin> set AGENT_CREDENTIAL_SCOPES
      then throwValidation (''Unsupported credential scope: '' @ scope)
      else check_scopes rest)"

definition normalizeAgentCredentialScopes :: "string list \<Rightarrow> string list result" where
  "normalizeAgentCredentialScopes scopes =
     (if length scopes = 0
      then throwValidation ''Credential scopes must contain at least one scope''
      else let normalized = sort scopes in
        if length (remdups normalized) \<noteq> length normalized
        then throwValidation ''Credential scopes must be unique''
        else bind_r (check_scopes normalized) (\<lambda>_. Inr normalized))"

fun account_transitions :: "AgentAccountLifecycleStatus \<Rightarrow> AgentAccountLifecycleStatus list" where
  "account_transitions AA_PROVISIONING = [AA_ACTIVE, AA_PROVISIONING_FAILED, AA_DISABLED]"
| "account_transitions AA_ACTIVE = [AA_DISABLED]"
| "account_transitions AA_DISABLED = [AA_ACTIVE]"
| "account_transitions AA_PROVISIONING_FAILED = [AA_PROVISIONING, AA_DISABLED]"

definition canTransitionAgentAccount ::
    "AgentAccountLifecycleStatus \<Rightarrow> AgentAccountLifecycleStatus \<Rightarrow> bool" where
  "canTransitionAgentAccount current nxt \<longleftrightarrow> nxt \<in> set (account_transitions current)"

definition assertAgentAccountTransition ::
    "AgentAccountLifecycleStatus \<Rightarrow> AgentAccountLifecycleStatus \<Rightarrow> unit result" where
  "assertAgentAccountTransition current nxt =
     throw_if (\<not> canTransitionAgentAccount current nxt)
       (DomainErr (ConflictError (''Cannot transition account from '' @
          account_status_name current @ '' to '' @ account_status_name nxt)))"

definition assertAccountCanStartMoneyOperation :: "AgentAccountLifecycleStatus \<Rightarrow> unit result" where
  "assertAccountCanStartMoneyOperation status =
     throw_if (status \<noteq> AA_ACTIVE)
       (DomainErr (InvalidStateError ''Account must be ACTIVE for a money-changing operation''))"

definition assertCredentialUsable ::
    "AgentCredentialStatus \<Rightarrow> int option \<Rightarrow> int \<Rightarrow> string \<Rightarrow> string list \<Rightarrow> unit result" where
  "assertCredentialUsable status expiresAt now requiredScope scopes =
     bind_r (throw_if (status \<noteq> AC_ACTIVE)
       (DomainErr (InvalidStateError ''Credential is not active''))) (\<lambda>_.
     bind_r (throw_if (case expiresAt of None \<Rightarrow> False | Some t \<Rightarrow> t \<le> now)
       (DomainErr (InvalidStateError ''Credential has expired''))) (\<lambda>_.
     throw_if (requiredScope \<notin> set scopes)
       (DomainErr (ValidationError (''Credential is missing scope '' @ requiredScope) None))))"

section \<open>Lemmas\<close>

lemma check_scopes_Inr_iff [simp]:
  "check_scopes xs = Inr u \<longleftrightarrow> set xs \<subseteq> set AGENT_CREDENTIAL_SCOPES"
  by (induction xs) auto

lemma length_remdups_distinct [simp]: "length (remdups xs) = length xs \<longleftrightarrow> distinct xs"
  by (metis distinct_remdups distinct_remdups_id length_remdups_card_conv card_distinct)

lemma normalize_scopes_Inr_iff:
  "normalizeAgentCredentialScopes xs = Inr ys \<longleftrightarrow>
     xs \<noteq> [] \<and> distinct xs \<and> set xs \<subseteq> set AGENT_CREDENTIAL_SCOPES \<and> ys = sort xs"
  by (auto simp: normalizeAgentCredentialScopes_def Let_def result_simps)

section \<open>Properties\<close>

text \<open>Normalised scopes are a sorted list of known scopes without duplicates, the order in which
  the scopes were given does not matter, and normalising again changes nothing.\<close>

theorem scopes_normalised:
  assumes "normalizeAgentCredentialScopes xs = Inr ys" "mset zs = mset xs"
  shows "sorted ys \<and> distinct ys \<and> mset ys = mset xs \<and> set ys \<subseteq> set AGENT_CREDENTIAL_SCOPES \<and>
    normalizeAgentCredentialScopes ys = Inr ys \<and> normalizeAgentCredentialScopes zs = Inr ys"
proof -
  have x: "xs \<noteq> []" "distinct xs" "set xs \<subseteq> set AGENT_CREDENTIAL_SCOPES" "ys = sort xs"
    using assms(1) by (auto simp: normalize_scopes_Inr_iff)
  have z: "zs \<noteq> []" "distinct zs" "set zs = set xs" "sort zs = sort xs"
    using assms(2) x(1,2) mset_eq_imp_distinct_iff [OF assms(2)] mset_eq_setD [OF assms(2)]
    by (auto intro: properties_for_sort)
  have y: "ys \<noteq> []" using x by (metis length_0_conv length_sort)
  show ?thesis
    using x z y by (simp add: normalize_scopes_Inr_iff sorted_sort_id)
qed

theorem scopes_normalised_witness:
  "normalizeAgentCredentialScopes [''payments:read'', ''balance:read''] = Inr [''balance:read'', ''payments:read''] \<and>
   normalizeAgentCredentialScopes [''balance:read'', ''payments:read''] = Inr [''balance:read'', ''payments:read'']"
proof -
  have "normalizeAgentCredentialScopes [''payments:read'', ''balance:read''] = Inr [''balance:read'', ''payments:read'']"
    by code_simp
  from scopes_normalised [OF this refl] this show ?thesis by simp
qed

text \<open>A credential is usable exactly when it is active, has not expired and carries the scope.\<close>

theorem credential_usable_iff:
  "assertCredentialUsable status expiresAt now scope scopes = Inr () \<longleftrightarrow>
     status = AC_ACTIVE \<and> scope \<in> set scopes \<and> (case expiresAt of None \<Rightarrow> True | Some t \<Rightarrow> now < t)"
  by (auto simp: assertCredentialUsable_def result_simps split: option.splits)

end
