(* ===== verification/Database.thy ===== *)
theory Database
  imports Json Payment_Status Agent_Account
begin

text \<open>
  The database the repositories work on (\<^verbatim>\<open>packages/db/prisma/schema.prisma\<close>) and the
  transactions over it. A table is the list of its rows, in insertion order; a row is a record
  with the columns of the schema (enumeration columns as datatypes, text columns as strings,
  \<^verbatim>\<open>Int\<close> and \<^verbatim>\<open>BigInt\<close> as \<open>int\<close>, a time as milliseconds since the epoch). A transaction is a
  function from the world to an error or a value and a new world: an error discards the writes,
  as the roll-back does, and a transaction runs as one atomic step. The world also holds the
  sequence of clock readings and of random identifiers still to be drawn.

  Declared unique keys are enforced (\<open>UniqueViolation\<close>). Foreign keys, column widths and
  integer ranges are not: a write they refuse fails in the database and succeeds here, so a
  statement about a successful call covers every call that succeeds in the database.
\<close>

named_theorems tx_simps

section \<open>Rows\<close>

record account_row =
  acc_id :: string
  acc_name :: string
  acc_status :: AgentAccountLifecycleStatus
  acc_solanaPublicKey :: string
  acc_encryptedSolanaSecret :: string
  acc_encryptionNonce :: string
  acc_encryptionAuthTag :: string
  acc_workspaceId :: "string option"
  acc_runtimeVersion :: "string option"
  acc_provisioningFailureCode :: "string option"
  acc_disabledAt :: "int option"
  acc_disabledReason :: "string option"
  acc_rowVersion :: int
  acc_createdAt :: int
  acc_updatedAt :: int

record credential_row =
  cred_id :: string
  cred_accountId :: string
  cred_keyHash :: string
  cred_keyPrefix :: string
  cred_status :: AgentCredentialStatus
  cred_scopes :: string
  cred_expiresAt :: "int option"
  cred_rotatedFromId :: "string option"
  cred_rowVersion :: int
  cred_createdAt :: int
  cred_revokedAt :: "int option"
  cred_lastUsedAt :: "int option"

record recipient_row =
  rcp_id :: string
  rcp_ownerAccountId :: string
  rcp_managedAccountId :: "string option"
  rcp_displayName :: string
  rcp_type :: string
  rcp_archivedAt :: "int option"
  rcp_rowVersion :: int
  rcp_createdAt :: int
  rcp_updatedAt :: int

record payment_row =
  pay_id :: string
  pay_payerAccountId :: string
  pay_correlationId :: "string option"
  pay_payerPublicKey :: "string option"
  pay_recipientId :: "string option"
  pay_kind :: PaymentKind
  pay_amountAtomic :: int
  pay_denominationId :: "string option"
  pay_amountScale :: "int option"
  pay_currency :: string
  pay_status :: PaymentStatus
  pay_description :: "string option"
  pay_externalReference :: "string option"
  pay_metadataJson :: string
  pay_route :: "string option"
  pay_routeId :: "string option"
  pay_routeSelectionReason :: "string option"
  pay_routeCapabilitySnapshotJson :: "string option"
  pay_settlementAssetId :: "string option"
  pay_economicMappingId :: "string option"
  pay_destinationSnapshotJson :: "string option"
  pay_intentFingerprint :: "string option"
  pay_policyDecisionId :: "string option"
  pay_approvalId :: "string option"
  pay_executionState :: string
  pay_settlementState :: string
  pay_outcomeState :: string
  pay_rowVersion :: int
  pay_createdAt :: int
  pay_updatedAt :: int
  pay_confirmedAt :: "int option"
  pay_failedAt :: "int option"
  pay_failureCode :: "string option"
  pay_failureMessageSafe :: "string option"
  pay_destinationRail :: "string option"
  pay_destinationType :: "string option"
  pay_destinationReference :: "string option"
  pay_recipientManagedAccountId :: "string option"
  pay_originalPaymentId :: "string option"
  pay_counterpartyAccountId :: "string option"
  pay_counterpartyAddress :: "string option"
  pay_lastRecoveryAttemptAt :: "int option"
  pay_nextRecoveryAt :: "int option"
  pay_recoveryCount :: int
  pay_stuckSince :: "int option"

record attempt_row =
  att_id :: string
  att_paymentId :: string
  att_attemptNumber :: int
  att_rail :: string
  att_status :: PaymentAttemptStatus
  att_railTransactionId :: "string option"
  att_serializedPayloadSafe :: "string option"
  att_durablePayload :: "string option"
  att_expectedExternalId :: "string option"
  att_recoveryMetadata :: "string option"
  att_confirmationMetadata :: "string option"
  att_outcome :: string
  att_routeId :: "string option"
  att_preparedEffectHash :: "string option"
  att_preparedEffectJson :: "string option"
  att_signedPayloadHash :: "string option"
  att_signedPayloadEncrypted :: "string option"
  att_validityExpiresAt :: "int option"
  att_validitySlot :: "int option"
  att_rowVersion :: int
  att_legacySignedTransactionBase64 :: "string option"
  att_legacyExpectedSignature :: "string option"
  att_legacyBlockhash :: "string option"
  att_legacyLastValidBlockHeight :: "int option"
  att_legacyConfirmedSlot :: "int option"
  att_createdAt :: int
  att_updatedAt :: int

record idempotency_row =
  idem_id :: string
  idem_ownerAccountId :: string
  idem_operation :: string
  idem_key :: string
  idem_requestHash :: string
  idem_fingerprint :: "string option"
  idem_resourceId :: string
  idem_responseSnapshot :: "string option"
  idem_expiresAt :: "int option"
  idem_createdAt :: int
  idem_updatedAt :: int

datatype ReservationStatus = RES_ACTIVE | RES_RELEASED

record reservation_row =
  res_id :: string
  res_paymentId :: string
  res_ownerAccountId :: string
  res_amountAtomic :: int
  res_currency :: string
  res_status :: ReservationStatus
  res_lifecycleState :: string
  res_releaseReason :: "string option"
  res_consumedAt :: "int option"
  res_rowVersion :: int
  res_createdAt :: int
  res_releasedAt :: "int option"

record denomination_row =
  dn_id :: string
  dn_symbol :: string
  dn_maxScale :: int
  dn_status :: string
  dn_version :: int

record asset_row =
  ast_id :: string
  ast_rail :: string
  ast_network :: string
  ast_assetReference :: string
  ast_decimals :: int
  ast_status :: string
  ast_version :: int

record mapping_row =
  map_id :: string
  map_denominationId :: string
  map_settlementAssetId :: string
  map_numerator :: int
  map_denominator :: int
  map_status :: string
  map_version :: int

record route_row =
  rte_id :: string
  rte_rail :: string
  rte_railVersion :: string
  rte_network :: string
  rte_settlementAssetId :: string
  rte_economicMappingId :: string
  rte_status :: string
  rte_priority :: int
  rte_configVersion :: string

record policy_row =
  pol_id :: string
  pol_accountId :: string
  pol_version :: int
  pol_status :: string
  pol_denominationId :: string
  pol_maxPerPaymentAtomic :: "int option"
  pol_rollingBudgetAtomic :: "int option"
  pol_rollingWindowSeconds :: "int option"
  pol_transactionCountCap :: "int option"
  pol_approvalThresholdAtomic :: "int option"
  pol_rollingBudgetEscalatable :: bool
  pol_transactionCountEscalatable :: bool
  pol_rulesJson :: string
  pol_createdAt :: int
  pol_activatedAt :: "int option"
  pol_retiredAt :: "int option"

record decision_row =
  dec_id :: string
  dec_paymentId :: string
  dec_accountId :: string
  dec_policyId :: string
  dec_policyVersion :: int
  dec_decision :: string
  dec_reasonCodesJson :: string
  dec_contextJson :: string
  dec_fingerprint :: string
  dec_createdAt :: int

record destination_row =
  dst_id :: string
  dst_accountId :: string
  dst_fingerprint :: string
  dst_rail :: string
  dst_network :: string
  dst_assetReference :: string
  dst_destination :: string
  dst_status :: string
  dst_actorId :: string
  dst_reason :: "string option"
  dst_createdAt :: int
  dst_revokedAt :: "int option"

record approval_row =
  apv_id :: string
  apv_paymentId :: string
  apv_accountId :: string
  apv_fingerprint :: string
  apv_policyDecisionId :: string
  apv_status :: string
  apv_expiresAt :: int
  apv_actorId :: "string option"
  apv_comment :: "string option"
  apv_rowVersion :: int
  apv_createdAt :: int
  apv_decidedAt :: "int option"

record work_row =
  wi_id :: string
  wi_kind :: string
  wi_resourceType :: string
  wi_resourceId :: string
  wi_status :: string
  wi_availableAt :: int
  wi_leaseOwner :: "string option"
  wi_leaseExpiresAt :: "int option"
  wi_attemptCount :: int
  wi_maxAttempts :: int
  wi_leaseRecoveryCount :: int
  wi_lastErrorCode :: "string option"
  wi_lastErrorSafe :: "string option"
  wi_retryAfter :: "int option"
  wi_payloadJson :: string
  wi_createdAt :: int
  wi_updatedAt :: int
  wi_completedAt :: "int option"

record evidence_row =
  evd_id :: string
  evd_paymentId :: string
  evd_attemptId :: "string option"
  evd_authority :: string
  evd_source :: string
  evd_outcome :: string
  evd_observedAt :: int
  evd_externalId :: "string option"
  evd_expectedExternalId :: "string option"
  evd_payloadHash :: "string option"
  evd_providerCorrelation :: "string option"
  evd_metadataJson :: string
  evd_createdAt :: int

record timeline_row =
  tl_id :: string
  tl_accountId :: "string option"
  tl_resourceType :: string
  tl_resourceId :: string
  tl_eventType :: string
  tl_actorType :: string
  tl_actorId :: "string option"
  tl_requestId :: "string option"
  tl_correlationId :: "string option"
  tl_oldStateJson :: "string option"
  tl_newStateJson :: "string option"
  tl_source :: string
  tl_occurredAt :: int
  tl_metadataJson :: string
  tl_createdAt :: int

record exception_row =
  opx_id :: string
  opx_accountId :: "string option"
  opx_resourceType :: string
  opx_resourceId :: string
  opx_dedupeKey :: string
  opx_activeDedupeKey :: "string option"
  opx_status :: string
  opx_severity :: string
  opx_reasonCode :: string
  opx_detailsJson :: string
  opx_assignedTo :: "string option"
  opx_createdAt :: int
  opx_updatedAt :: int
  opx_acknowledgedAt :: "int option"
  opx_resolvedAt :: "int option"
  opx_rowVersion :: int

record subscription_row =
  sub_id :: string
  sub_accountId :: string
  sub_endpoint :: string
  sub_eventTypesJson :: string
  sub_status :: string
  sub_signingKeyRef :: string
  sub_signingKeyVersion :: int
  sub_createdAt :: int
  sub_archivedAt :: "int option"

record webhook_event_row =
  whe_id :: string
  whe_eventId :: string
  whe_resourceType :: string
  whe_resourceId :: string
  whe_resourceVersion :: int
  whe_eventType :: string
  whe_eventVersion :: string
  whe_correlationId :: "string option"
  whe_rawBody :: string
  whe_createdAt :: int

record delivery_row =
  dlv_id :: string
  dlv_eventId :: string
  dlv_subscriptionId :: string
  dlv_deliveryNumber :: int
  dlv_status :: string
  dlv_availableAt :: int
  dlv_attemptCount :: int
  dlv_leaseOwner :: "string option"
  dlv_leaseExpiresAt :: "int option"
  dlv_nextRetryAt :: "int option"
  dlv_responseStatus :: "int option"
  dlv_errorSafe :: "string option"
  dlv_createdAt :: int
  dlv_updatedAt :: int

text \<open>The tables of the control plane: platform costs, restore verifications, rate limits, the
  metadata of the deployment, incoming payments with the requests and issues that belong to them,
  recovery envelopes, funding destinations, custody, the checkpoints of the indexer, fee sponsorships and
  the destinations of recipients.\<close>

record cost_row =
  pcr_id :: string
  pcr_accountId :: string
  pcr_paymentId :: "string option"
  pcr_attemptId :: "string option"
  pcr_assetId :: string
  pcr_estimatedAmount :: int
  pcr_actualAmount :: "int option"
  pcr_reconciliationStatus :: string
  pcr_observedAt :: "int option"
  pcr_createdAt :: int
  pcr_updatedAt :: int

record backup_row =
  bkp_id :: string
  bkp_backupReference :: string
  bkp_environment :: string
  bkp_status :: string
  bkp_schemaVersion :: string
  bkp_invariantSummaryJson :: string
  bkp_custodyIdentity :: "string option"
  bkp_verifiedAt :: "int option"
  bkp_failureSafe :: "string option"
  bkp_createdAt :: int

record rate_row =
  rlb_id :: string
  rlb_subjectType :: string
  rlb_subjectId :: string
  rlb_bucket :: string
  rlb_windowStartedAt :: int
  rlb_requestCount :: int
  rlb_updatedAt :: int

record metadata_row =
  rtm_key :: string
  rtm_value :: string
  rtm_createdAt :: int
  rtm_updatedAt :: int

datatype IncomingReconciliationIssueStatus = II_PENDING | II_RESOLVED | II_EXHAUSTED

record issue_row =
  iri_id :: string
  iri_accountId :: string
  iri_signature :: string
  iri_status :: IncomingReconciliationIssueStatus
  iri_reason :: string
  iri_firstSeenAt :: int
  iri_lastTriedAt :: "int option"
  iri_nextRetryAt :: int
  iri_retryCount :: int
  iri_recoveryCount :: int
  iri_resolvedAt :: "int option"

record envelope_row =
  env_idempotencyKey :: string
  env_accountId :: string
  env_credentialId :: string
  env_ciphertext :: string
  env_nonce :: string
  env_authTag :: string
  env_expiresAt :: int
  env_acknowledgedAt :: "int option"
  env_createdAt :: int

datatype ReceiveRequestStatus = RR_OPEN | RR_PAID | RR_EXPIRED | RR_CANCELLED

record receive_row =
  rcv_id :: string
  rcv_accountId :: string
  rcv_amountAtomic :: "int option"
  rcv_denominationId :: "string option"
  rcv_amountScale :: "int option"
  rcv_currency :: string
  rcv_reference :: string
  rcv_status :: ReceiveRequestStatus
  rcv_createdAt :: int
  rcv_updatedAt :: int
  rcv_expiresAt :: "int option"
  rcv_paidAt :: "int option"
  rcv_matchedIncomingPaymentId :: "string option"

datatype IncomingPaymentStatus = IPS_CONFIRMED

record incoming_row =
  inc_id :: string
  inc_accountId :: string
  inc_signature :: string
  inc_amountAtomic :: int
  inc_tokenAtomicUnits :: int
  inc_tokenDecimals :: int
  inc_currency :: string
  inc_sourceAddress :: "string option"
  inc_reference :: "string option"
  inc_tokenAccount :: string
  inc_settlementMint :: string
  inc_status :: IncomingPaymentStatus
  inc_createdAt :: int
  inc_confirmedAt :: int
  inc_receiveRequestId :: "string option"

record funding_row =
  fnd_id :: string
  fnd_accountId :: string
  fnd_routeId :: string
  fnd_network :: string
  fnd_assetId :: string
  fnd_destination :: string
  fnd_readiness :: string
  fnd_senderConstraintsJson :: string
  fnd_lastValidatedAt :: "int option"
  fnd_lastFailureCode :: "string option"
  fnd_createdAt :: int
  fnd_updatedAt :: int

record custody_key_row =
  ckv_id :: string
  ckv_accountId :: "string option"
  ckv_keyVersion :: int
  ckv_backendIdentity :: string
  ckv_keyReference :: string
  ckv_rootKeyFingerprint :: string
  ckv_status :: string
  ckv_createdAt :: int
  ckv_retiredAt :: "int option"

record signing_row =
  sgr_id :: string
  sgr_paymentId :: string
  sgr_attemptId :: string
  sgr_effectHash :: string
  sgr_routeId :: string
  sgr_network :: string
  sgr_assetReference :: string
  sgr_destination :: string
  sgr_amountAtomic :: int
  sgr_feePayerIdentity :: string
  sgr_keyVersion :: int
  sgr_status :: string
  sgr_serviceIdentity :: string
  sgr_createdAt :: int
  sgr_completedAt :: "int option"

record checkpoint_row =
  chk_id :: string
  chk_accountId :: string
  chk_rail :: string
  chk_address :: string
  chk_cursorSignature :: "string option"
  chk_leaseOwner :: "string option"
  chk_leaseExpiresAt :: "int option"
  chk_createdAt :: int
  chk_updatedAt :: int

record sponsorship_row =
  spn_id :: string
  spn_accountId :: string
  spn_paymentId :: string
  spn_lamports :: int
  spn_createdAt :: int

record recipient_destination_row =
  rds_id :: string
  rds_recipientId :: string
  rds_rail :: string
  rds_type :: string
  rds_walletAddress :: string
  rds_network :: "string option"
  rds_assetReference :: "string option"
  rds_status :: string
  rds_version :: int
  rds_createdAt :: int
  rds_updatedAt :: int

record control_tables =
  ct_costs :: "cost_row list"
  ct_backups :: "backup_row list"
  ct_rate_limits :: "rate_row list"
  ct_metadata :: "metadata_row list"
  ct_issues :: "issue_row list"
  ct_envelopes :: "envelope_row list"
  ct_receives :: "receive_row list"
  ct_incoming :: "incoming_row list"
  ct_funding :: "funding_row list"
  ct_custody_keys :: "custody_key_row list"
  ct_signing :: "signing_row list"
  ct_checkpoints :: "checkpoint_row list"
  ct_sponsorships :: "sponsorship_row list"
  ct_recipient_destinations :: "recipient_destination_row list"

section \<open>The world\<close>

record world =
  w_accounts :: "account_row list"
  w_credentials :: "credential_row list"
  w_recipients :: "recipient_row list"
  w_payments :: "payment_row list"
  w_attempts :: "attempt_row list"
  w_idempotency :: "idempotency_row list"
  w_reservations :: "reservation_row list"
  w_denominations :: "denomination_row list"
  w_assets :: "asset_row list"
  w_mappings :: "mapping_row list"
  w_routes :: "route_row list"
  w_policies :: "policy_row list"
  w_decisions :: "decision_row list"
  w_destinations :: "destination_row list"
  w_approvals :: "approval_row list"
  w_works :: "work_row list"
  w_evidence :: "evidence_row list"
  w_timeline :: "timeline_row list"
  w_exceptions :: "exception_row list"
  w_subscriptions :: "subscription_row list"
  w_webhooks :: "webhook_event_row list"
  w_deliveries :: "delivery_row list"
  w_control :: control_tables
  w_clock :: "nat \<Rightarrow> int"
  w_ticks :: nat
  w_random :: "nat \<Rightarrow> string"
  w_draws :: nat

text \<open>The tables of the control plane, read and written through the world.\<close>

abbreviation w_costs :: "world \<Rightarrow> cost_row list" where "w_costs w \<equiv> ct_costs (w_control w)"
abbreviation w_costs_update :: "(cost_row list \<Rightarrow> cost_row list) \<Rightarrow> world \<Rightarrow> world" where
  "w_costs_update f \<equiv> w_control_update (ct_costs_update f)"

abbreviation w_backups :: "world \<Rightarrow> backup_row list" where "w_backups w \<equiv> ct_backups (w_control w)"
abbreviation w_backups_update :: "(backup_row list \<Rightarrow> backup_row list) \<Rightarrow> world \<Rightarrow> world" where
  "w_backups_update f \<equiv> w_control_update (ct_backups_update f)"

abbreviation w_rate_limits :: "world \<Rightarrow> rate_row list" where "w_rate_limits w \<equiv> ct_rate_limits (w_control w)"
abbreviation w_rate_limits_update :: "(rate_row list \<Rightarrow> rate_row list) \<Rightarrow> world \<Rightarrow> world" where
  "w_rate_limits_update f \<equiv> w_control_update (ct_rate_limits_update f)"

abbreviation w_metadata :: "world \<Rightarrow> metadata_row list" where "w_metadata w \<equiv> ct_metadata (w_control w)"
abbreviation w_metadata_update :: "(metadata_row list \<Rightarrow> metadata_row list) \<Rightarrow> world \<Rightarrow> world" where
  "w_metadata_update f \<equiv> w_control_update (ct_metadata_update f)"

abbreviation w_issues :: "world \<Rightarrow> issue_row list" where "w_issues w \<equiv> ct_issues (w_control w)"
abbreviation w_issues_update :: "(issue_row list \<Rightarrow> issue_row list) \<Rightarrow> world \<Rightarrow> world" where
  "w_issues_update f \<equiv> w_control_update (ct_issues_update f)"

abbreviation w_envelopes :: "world \<Rightarrow> envelope_row list" where "w_envelopes w \<equiv> ct_envelopes (w_control w)"
abbreviation w_envelopes_update :: "(envelope_row list \<Rightarrow> envelope_row list) \<Rightarrow> world \<Rightarrow> world" where
  "w_envelopes_update f \<equiv> w_control_update (ct_envelopes_update f)"

abbreviation w_receives :: "world \<Rightarrow> receive_row list" where "w_receives w \<equiv> ct_receives (w_control w)"
abbreviation w_receives_update :: "(receive_row list \<Rightarrow> receive_row list) \<Rightarrow> world \<Rightarrow> world" where
  "w_receives_update f \<equiv> w_control_update (ct_receives_update f)"

abbreviation w_incoming :: "world \<Rightarrow> incoming_row list" where "w_incoming w \<equiv> ct_incoming (w_control w)"
abbreviation w_incoming_update :: "(incoming_row list \<Rightarrow> incoming_row list) \<Rightarrow> world \<Rightarrow> world" where
  "w_incoming_update f \<equiv> w_control_update (ct_incoming_update f)"

abbreviation w_funding :: "world \<Rightarrow> funding_row list" where "w_funding w \<equiv> ct_funding (w_control w)"
abbreviation w_funding_update :: "(funding_row list \<Rightarrow> funding_row list) \<Rightarrow> world \<Rightarrow> world" where
  "w_funding_update f \<equiv> w_control_update (ct_funding_update f)"

abbreviation w_custody_keys :: "world \<Rightarrow> custody_key_row list" where "w_custody_keys w \<equiv> ct_custody_keys (w_control w)"
abbreviation w_custody_keys_update :: "(custody_key_row list \<Rightarrow> custody_key_row list) \<Rightarrow> world \<Rightarrow> world" where
  "w_custody_keys_update f \<equiv> w_control_update (ct_custody_keys_update f)"

abbreviation w_signing :: "world \<Rightarrow> signing_row list" where "w_signing w \<equiv> ct_signing (w_control w)"
abbreviation w_signing_update :: "(signing_row list \<Rightarrow> signing_row list) \<Rightarrow> world \<Rightarrow> world" where
  "w_signing_update f \<equiv> w_control_update (ct_signing_update f)"

abbreviation w_checkpoints :: "world \<Rightarrow> checkpoint_row list" where "w_checkpoints w \<equiv> ct_checkpoints (w_control w)"
abbreviation w_checkpoints_update :: "(checkpoint_row list \<Rightarrow> checkpoint_row list) \<Rightarrow> world \<Rightarrow> world" where
  "w_checkpoints_update f \<equiv> w_control_update (ct_checkpoints_update f)"

abbreviation w_sponsorships :: "world \<Rightarrow> sponsorship_row list" where "w_sponsorships w \<equiv> ct_sponsorships (w_control w)"
abbreviation w_sponsorships_update :: "(sponsorship_row list \<Rightarrow> sponsorship_row list) \<Rightarrow> world \<Rightarrow> world" where
  "w_sponsorships_update f \<equiv> w_control_update (ct_sponsorships_update f)"

abbreviation w_recipient_destinations :: "world \<Rightarrow> recipient_destination_row list" where "w_recipient_destinations w \<equiv> ct_recipient_destinations (w_control w)"
abbreviation w_recipient_destinations_update :: "(recipient_destination_row list \<Rightarrow> recipient_destination_row list) \<Rightarrow> world \<Rightarrow> world" where
  "w_recipient_destinations_update f \<equiv> w_control_update (ct_recipient_destinations_update f)"

section \<open>Transactions\<close>

type_synonym 'a tx = "world \<Rightarrow> ('a \<times> world) result"

definition return_tx :: "'a \<Rightarrow> 'a tx" where
  "return_tx x = (\<lambda>w. Inr (x, w))"

definition throw_tx :: "js_error \<Rightarrow> 'a tx" where
  "throw_tx e = (\<lambda>w. Inl e)"

definition bind_tx :: "'a tx \<Rightarrow> ('a \<Rightarrow> 'b tx) \<Rightarrow> 'b tx" where
  "bind_tx m k = (\<lambda>w. case m w of Inl e \<Rightarrow> Inl e | Inr (x, w') \<Rightarrow> k x w')"

definition throw_if_tx :: "bool \<Rightarrow> js_error \<Rightarrow> unit tx" where
  "throw_if_tx b e = (if b then throw_tx e else return_tx ())"

definition when_tx :: "bool \<Rightarrow> unit tx \<Rightarrow> unit tx" where
  "when_tx b m = (if b then m else return_tx ())"

definition lift_tx :: "'a result \<Rightarrow> 'a tx" where
  "lift_tx r = (\<lambda>w. case r of Inl e \<Rightarrow> Inl e | Inr x \<Rightarrow> Inr (x, w))"

definition gets_tx :: "(world \<Rightarrow> 'a) \<Rightarrow> 'a tx" where
  "gets_tx f = (\<lambda>w. Inr (f w, w))"

definition modify_tx :: "(world \<Rightarrow> world) \<Rightarrow> unit tx" where
  "modify_tx f = (\<lambda>w. Inr ((), f w))"

text \<open>\<^verbatim>\<open>new Date()\<close> and the database's own clock; \<^verbatim>\<open>randomBytes(16).toString('hex')\<close>.\<close>

definition new_date :: "int tx" where
  "new_date = (\<lambda>w. Inr (w_clock w (w_ticks w), w\<lparr>w_ticks := Suc (w_ticks w)\<rparr>))"

definition randomId :: "string tx" where
  "randomId = (\<lambda>w. Inr (w_random w (w_draws w), w\<lparr>w_draws := Suc (w_draws w)\<rparr>))"

fun for_each_tx :: "'a list \<Rightarrow> ('a \<Rightarrow> unit tx) \<Rightarrow> unit tx" where
  "for_each_tx [] f = return_tx ()"
| "for_each_tx (x # xs) f = bind_tx (f x) (\<lambda>_. for_each_tx xs f)"

section \<open>Queries and writes on a table\<close>

text \<open>A table is given by its selector and its update function on the world.\<close>

definition find_tx :: "(world \<Rightarrow> 'r list) \<Rightarrow> ('r \<Rightarrow> bool) \<Rightarrow> 'r option tx" where
  "find_tx sel P = gets_tx (\<lambda>w. List.find P (sel w))"

definition find_or_throw_tx :: "string \<Rightarrow> (world \<Rightarrow> 'r list) \<Rightarrow> ('r \<Rightarrow> bool) \<Rightarrow> 'r tx" where
  "find_or_throw_tx name sel P =
     (\<lambda>w. case List.find P (sel w) of None \<Rightarrow> Inl (RecordNotFound name) | Some r \<Rightarrow> Inr (r, w))"

definition insert_tx ::
    "string \<Rightarrow> (world \<Rightarrow> 'r list) \<Rightarrow> (('r list \<Rightarrow> 'r list) \<Rightarrow> world \<Rightarrow> world) \<Rightarrow>
     ('r \<Rightarrow> 'r \<Rightarrow> bool) \<Rightarrow> 'r \<Rightarrow> 'r tx" where
  "insert_tx name sel upd conflict r =
     (\<lambda>w. if list_ex (conflict r) (sel w) then Inl (UniqueViolation name)
          else Inr (r, upd (\<lambda>rows. rows @ [r]) w))"

definition update_rows :: "('r \<Rightarrow> bool) \<Rightarrow> ('r \<Rightarrow> 'r) \<Rightarrow> 'r list \<Rightarrow> 'r list" where
  "update_rows P f rows = map (\<lambda>r. if P r then f r else r) rows"

text \<open>\<^verbatim>\<open>updateMany\<close>: the number of rows that matched.\<close>

definition update_many_tx ::
    "(world \<Rightarrow> 'r list) \<Rightarrow> (('r list \<Rightarrow> 'r list) \<Rightarrow> world \<Rightarrow> world) \<Rightarrow>
     ('r \<Rightarrow> bool) \<Rightarrow> ('r \<Rightarrow> 'r) \<Rightarrow> nat tx" where
  "update_many_tx sel upd P f =
     (\<lambda>w. Inr (length (filter P (sel w)), upd (update_rows P f) w))"

text \<open>\<^verbatim>\<open>update\<close> with a unique \<^verbatim>\<open>where\<close>: the updated row, an error when there is none.\<close>

definition update_one_tx ::
    "string \<Rightarrow> (world \<Rightarrow> 'r list) \<Rightarrow> (('r list \<Rightarrow> 'r list) \<Rightarrow> world \<Rightarrow> world) \<Rightarrow>
     ('r \<Rightarrow> bool) \<Rightarrow> ('r \<Rightarrow> 'r) \<Rightarrow> 'r tx" where
  "update_one_tx name sel upd P f =
     (\<lambda>w. case List.find P (sel w) of
            None \<Rightarrow> Inl (RecordNotFound name)
          | Some r \<Rightarrow> Inr (f r, upd (update_rows P f) w))"

text \<open>\<^verbatim>\<open>deleteMany\<close>: the number of rows that were deleted.\<close>

definition delete_many_tx ::
    "(world \<Rightarrow> 'r list) \<Rightarrow> (('r list \<Rightarrow> 'r list) \<Rightarrow> world \<Rightarrow> world) \<Rightarrow> ('r \<Rightarrow> bool) \<Rightarrow> nat tx" where
  "delete_many_tx sel upd P =
     (\<lambda>w. Inr (length (filter P (sel w)), upd (filter (\<lambda>r. \<not> P r)) w))"

definition sum_where :: "('r \<Rightarrow> bool) \<Rightarrow> ('r \<Rightarrow> int) \<Rightarrow> 'r list \<Rightarrow> int" where
  "sum_where P g rows = sum_list (map g (filter P rows))"

section \<open>Symbolic execution of a transaction\<close>

lemma return_tx_apply [tx_simps]: "return_tx x w = Inr (x, w)"
  by (simp add: return_tx_def)

lemma throw_tx_apply [tx_simps]: "throw_tx e w = Inl e"
  by (simp add: throw_tx_def)

lemma bind_tx_Inr_iff [tx_simps]:
  "bind_tx m k w = Inr r \<longleftrightarrow> (\<exists>x w'. m w = Inr (x, w') \<and> k x w' = Inr r)"
  by (auto simp: bind_tx_def split: sum.splits)

lemma bind_tx_step: "m w = Inr (x, w') \<Longrightarrow> bind_tx m k w = k x w'"
  "m w = Inl e \<Longrightarrow> bind_tx m k w = Inl e"
  by (simp_all add: bind_tx_def)

lemma throw_if_tx_Inr_iff [tx_simps]: "throw_if_tx b e w = Inr r \<longleftrightarrow> \<not> b \<and> r = ((), w)"
  by (auto simp: throw_if_tx_def throw_tx_def return_tx_def)

lemma when_tx_simps [simp]: "when_tx True m = m" "when_tx False m = return_tx ()"
  by (simp_all add: when_tx_def)

lemma lift_tx_Inr_iff [tx_simps]: "lift_tx m w = Inr r \<longleftrightarrow> (\<exists>x. m = Inr x \<and> r = (x, w))"
  by (auto simp: lift_tx_def split: sum.splits)

lemma gets_tx_apply [tx_simps]: "gets_tx f w = Inr (f w, w)"
  by (simp add: gets_tx_def)

lemma modify_tx_apply [tx_simps]: "modify_tx f w = Inr ((), f w)"
  by (simp add: modify_tx_def)

lemma new_date_apply [tx_simps]:
  "new_date w = Inr (w_clock w (w_ticks w), w\<lparr>w_ticks := Suc (w_ticks w)\<rparr>)"
  by (simp add: new_date_def)

lemma randomId_apply [tx_simps]:
  "randomId w = Inr (w_random w (w_draws w), w\<lparr>w_draws := Suc (w_draws w)\<rparr>)"
  by (simp add: randomId_def)

lemma find_tx_apply [tx_simps]: "find_tx sel P w = Inr (List.find P (sel w), w)"
  by (simp add: find_tx_def gets_tx_def)

lemma find_or_throw_tx_Inr_iff [tx_simps]:
  "find_or_throw_tx name sel P w = Inr r \<longleftrightarrow> (\<exists>x. List.find P (sel w) = Some x \<and> r = (x, w))"
  by (auto simp: find_or_throw_tx_def split: option.splits)

lemma insert_tx_Inr_iff [tx_simps]:
  "insert_tx name sel upd conflict r w = Inr y \<longleftrightarrow>
     \<not> list_ex (conflict r) (sel w) \<and> y = (r, upd (\<lambda>rows. rows @ [r]) w)"
  by (auto simp: insert_tx_def)

lemma update_many_tx_apply [tx_simps]:
  "update_many_tx sel upd P f w = Inr (length (filter P (sel w)), upd (update_rows P f) w)"
  by (simp add: update_many_tx_def)

lemma delete_many_tx_apply [tx_simps]:
  "delete_many_tx sel upd P w = Inr (length (filter P (sel w)), upd (filter (\<lambda>r. \<not> P r)) w)"
  by (simp add: delete_many_tx_def)

lemma update_one_tx_Inr_iff [tx_simps]:
  "update_one_tx name sel upd P f w = Inr y \<longleftrightarrow>
     (\<exists>r. List.find P (sel w) = Some r \<and> y = (f r, upd (update_rows P f) w))"
  by (auto simp: update_one_tx_def split: option.splits)

lemma find_SomeD: "List.find P xs = Some x \<Longrightarrow> x \<in> set xs \<and> P x"
  by (auto simp: find_Some_iff)

lemma find_NoneD: "List.find P xs = None \<Longrightarrow> x \<in> set xs \<Longrightarrow> \<not> P x"
  by (auto simp: find_None_iff)

lemma find_append: "List.find P (xs @ ys) = (case List.find P xs of None \<Rightarrow> List.find P ys | Some x \<Rightarrow> Some x)"
  by (induction xs) auto

lemma filter_length_oneD: "length (filter P xs) = 1 \<Longrightarrow> \<exists>x \<in> set xs. P x"
  by (induction xs) (auto split: if_splits)

lemma set_update_rows: "r \<in> set (update_rows P f rows) \<longleftrightarrow>
    (\<exists>q \<in> set rows. r = (if P q then f q else q))"
  by (auto simp: update_rows_def)

lemma updated_member: "r \<in> set rows \<Longrightarrow> P r \<Longrightarrow> f r \<in> set (update_rows P f rows)"
  by (auto simp: set_update_rows)

lemma updated_none: "(\<And>r. P r \<Longrightarrow> \<not> P (f r)) \<Longrightarrow> r \<in> set (update_rows P f rows) \<Longrightarrow> \<not> P r"
  unfolding set_update_rows by (elim bexE) (metis (full_types))

lemma list_ex_update_rows:
  "(\<And>r. P r \<Longrightarrow> Q (f r) = Q r) \<Longrightarrow> list_ex Q (update_rows P f rows) = list_ex Q rows"
  by (induction rows) (auto simp: update_rows_def)

lemma map_update_rows: "(\<And>r. P r \<Longrightarrow> k (f r) = k r) \<Longrightarrow> map k (update_rows P f rows) = map k rows"
  by (induction rows) (auto simp: update_rows_def)

lemma length_update_rows [simp]: "length (update_rows P f rows) = length rows"
  by (simp add: update_rows_def)

lemma find_update_rows:
  "(\<And>r. P r \<Longrightarrow> P (f r)) \<Longrightarrow> List.find P (update_rows P f rows) = map_option f (List.find P rows)"
  by (induction rows) (auto simp: update_rows_def)

lemma find_update_rows_other:
  "(\<And>r. P r \<Longrightarrow> \<not> Q r \<and> \<not> Q (f r)) \<Longrightarrow> List.find Q (update_rows P f rows) = List.find Q rows"
  by (induction rows) (auto simp: update_rows_def)

section \<open>Sums over the rows\<close>

lemma sum_where_append [simp]: "sum_where P g (xs @ ys) = sum_where P g xs + sum_where P g ys"
  by (simp add: sum_where_def)

lemma sum_where_Nil [simp]: "sum_where P g [] = 0"
  by (simp add: sum_where_def)

lemma sum_where_Cons [simp]: "sum_where P g (x # xs) = (if P x then g x else 0) + sum_where P g xs"
  by (simp add: sum_where_def)

lemma sum_where_nonneg: "(\<And>r. r \<in> set rows \<Longrightarrow> P r \<Longrightarrow> 0 \<le> g r) \<Longrightarrow> 0 \<le> sum_where P g rows"
  by (induction rows) auto

lemma sum_where_mono:
  "(\<And>r. r \<in> set rows \<Longrightarrow> P r \<Longrightarrow> Q r) \<Longrightarrow> (\<And>r. r \<in> set rows \<Longrightarrow> Q r \<Longrightarrow> 0 \<le> g r) \<Longrightarrow>
   sum_where P g rows \<le> sum_where Q g rows"
  by (induction rows) (auto, smt (verit))

section \<open>What a transaction keeps\<close>

text \<open>\<open>preserves g m\<close>: a successful \<open>m\<close> leaves the part \<open>g\<close> of the world as it was;
  \<open>keeps I m\<close>: it keeps the invariant \<open>I\<close>; \<open>triple P m Q\<close>: from \<open>P\<close> it gives a value and a
  world with \<open>Q\<close>.\<close>

definition preserves :: "(world \<Rightarrow> 'b) \<Rightarrow> 'a tx \<Rightarrow> bool" where
  "preserves g m \<longleftrightarrow> (\<forall>w x w'. m w = Inr (x, w') \<longrightarrow> g w' = g w)"

definition triple :: "(world \<Rightarrow> bool) \<Rightarrow> 'a tx \<Rightarrow> ('a \<Rightarrow> world \<Rightarrow> bool) \<Rightarrow> bool" where
  "triple P m Q \<longleftrightarrow> (\<forall>w x w'. P w \<longrightarrow> m w = Inr (x, w') \<longrightarrow> Q x w')"

abbreviation keeps :: "(world \<Rightarrow> bool) \<Rightarrow> 'a tx \<Rightarrow> bool" where
  "keeps I m \<equiv> triple I m (\<lambda>_. I)"

named_theorems frame_intros

lemma preservesD: "preserves g m \<Longrightarrow> m w = Inr (x, w') \<Longrightarrow> g w' = g w"
  by (simp add: preserves_def)

lemma tripleD: "triple P m Q \<Longrightarrow> m w = Inr (x, w') \<Longrightarrow> P w \<Longrightarrow> Q x w'"
  by (auto simp: triple_def)

lemma tripleI: "(\<And>w x w'. P w \<Longrightarrow> m w = Inr (x, w') \<Longrightarrow> Q x w') \<Longrightarrow> triple P m Q"
  by (auto simp: triple_def)

lemma preserves_bind [frame_intros]:
  "preserves g m \<Longrightarrow> (\<And>x. preserves g (k x)) \<Longrightarrow> preserves g (bind_tx m k)"
  unfolding preserves_def by (auto simp: tx_simps)

lemma preserves_basic [frame_intros]:
  "preserves g (return_tx x)" "preserves g (throw_tx e)" "preserves g (throw_if_tx b e)"
  "preserves g (lift_tx r)" "preserves g (gets_tx f)" "preserves g (find_tx sel P)"
  "preserves g (find_or_throw_tx name sel P)"
  by (auto simp: preserves_def tx_simps)

lemma preserves_when [frame_intros]: "(b \<Longrightarrow> preserves g m) \<Longrightarrow> preserves g (when_tx b m)"
  by (cases b) (auto simp: preserves_def tx_simps)

lemma preserves_if [frame_intros]:
  "(b \<Longrightarrow> preserves g m) \<Longrightarrow> (\<not> b \<Longrightarrow> preserves g n) \<Longrightarrow> preserves g (if b then m else n)"
  by simp

lemma preserves_option [frame_intros]:
  "(x = None \<Longrightarrow> preserves g m) \<Longrightarrow> (\<And>y. x = Some y \<Longrightarrow> preserves g (k y)) \<Longrightarrow>
   preserves g (case x of None \<Rightarrow> m | Some y \<Rightarrow> k y)"
  by (cases x) auto

lemma preserves_Let [frame_intros]: "(\<And>x. x = a \<Longrightarrow> preserves g (k x)) \<Longrightarrow> preserves g (let x = a in k x)"
  by simp

lemma preserves_prod [frame_intros]:
  "(\<And>a b. x = (a, b) \<Longrightarrow> preserves g (k a b)) \<Longrightarrow> preserves g (case x of (a, b) \<Rightarrow> k a b)"
  by (cases x) auto

lemma preserves_for_each [frame_intros]:
  "(\<And>x. preserves g (f x)) \<Longrightarrow> preserves g (for_each_tx xs f)"
  by (induction xs) (auto intro: frame_intros)

lemma preserves_clock [frame_intros]:
  "(\<And>w t. g (w\<lparr>w_ticks := t\<rparr>) = g w) \<Longrightarrow> preserves g new_date"
  "(\<And>w t. g (w\<lparr>w_draws := t\<rparr>) = g w) \<Longrightarrow> preserves g randomId"
  by (auto simp: preserves_def tx_simps)

lemma preserves_write [frame_intros]:
  "(\<And>f w. g (upd f w) = g w) \<Longrightarrow> preserves g (insert_tx name sel upd conflict r)"
  "(\<And>f w. g (upd f w) = g w) \<Longrightarrow> preserves g (update_many_tx sel upd P h)"
  "(\<And>f w. g (upd f w) = g w) \<Longrightarrow> preserves g (update_one_tx name sel upd P h)"
  "(\<And>f w. g (upd f w) = g w) \<Longrightarrow> preserves g (delete_many_tx sel upd P)"
  by (auto simp: preserves_def tx_simps)

lemma preserves_modify [frame_intros]:
  "(\<And>w. g (f w) = g w) \<Longrightarrow> preserves g (modify_tx f)"
  by (auto simp: preserves_def tx_simps)

named_theorems triple_intros

lemma triple_bind: "triple P m Q \<Longrightarrow> (\<And>x. triple (Q x) (k x) R) \<Longrightarrow> triple P (bind_tx m k) R"
  by (rule tripleI) (fastforce simp: tx_simps triple_def)

lemma keeps_bind [triple_intros]: "keeps I m \<Longrightarrow> (\<And>x. keeps I (k x)) \<Longrightarrow> keeps I (bind_tx m k)"
  by (rule triple_bind)

lemma keeps_preserves: "preserves g m \<Longrightarrow> keeps (\<lambda>w. I (g w)) m"
  by (rule tripleI) (metis preservesD)

lemma triple_conseq:
  "triple P m Q \<Longrightarrow> (\<And>w. P' w \<Longrightarrow> P w) \<Longrightarrow> (\<And>x w. Q x w \<Longrightarrow> Q' x w) \<Longrightarrow> triple P' m Q'"
  unfolding triple_def by blast

section \<open>A table with a key\<close>

text \<open>
  The contract of one table: reading it after writing it gives what was written. Rows are
  found by their primary key; the lemmas say what an insertion and an update do to the keys
  and to a later query.
\<close>

locale keyed_table =
  fixes sel :: "world \<Rightarrow> 'r list"
    and upd :: "('r list \<Rightarrow> 'r list) \<Rightarrow> world \<Rightarrow> world"
    and key :: "'r \<Rightarrow> string"
  assumes sel_upd: "sel (upd f w) = f (sel w)"
begin

lemma insert_rows:
  "insert_tx name sel upd conflict r w = Inr (x, w') \<Longrightarrow>
     x = r \<and> sel w' = sel w @ [r] \<and> \<not> list_ex (conflict r) (sel w)"
  by (simp add: tx_simps sel_upd)

lemma insert_distinct:
  assumes "insert_tx name sel upd conflict r w = Inr (x, w')" "distinct (map key (sel w))"
    and "\<And>q. key q = key r \<Longrightarrow> conflict r q"
  shows "distinct (map key (sel w'))"
  using insert_rows [OF assms(1)] assms(2,3) by (auto simp: list_ex_iff)

lemma insert_find:
  assumes "insert_tx name sel upd conflict r w = Inr (x, w')"
    and "\<And>q. key q = key r \<Longrightarrow> conflict r q"
  shows "List.find (\<lambda>q. key q = k) (sel w') =
    (if k = key r then Some r else List.find (\<lambda>q. key q = k) (sel w))"
proof -
  have *: "List.find (\<lambda>q. key q = key r) (sel w) = None"
    using insert_rows [OF assms(1)] assms(2) by (auto simp: list_ex_iff find_None_iff)
  show ?thesis
    using insert_rows [OF assms(1)] * by (auto simp: find_append split: option.splits)
qed

lemma update_keys:
  assumes "update_one_tx name sel upd P f w = Inr (x, w')" "\<And>r. P r \<Longrightarrow> key (f r) = key r"
  shows "map key (sel w') = map key (sel w)"
  using assms by (auto simp: tx_simps sel_upd map_update_rows)

lemma update_find:
  assumes "update_one_tx name sel upd (\<lambda>q. key q = i) f w = Inr (x, w')" "\<And>r. key (f r) = key r"
  shows "List.find (\<lambda>q. key q = k) (sel w') =
    (if k = i then Some x else List.find (\<lambda>q. key q = k) (sel w))"
  using assms by (auto simp: tx_simps sel_upd find_update_rows find_update_rows_other)

lemma find_unique:
  assumes "distinct (map key (sel w))" "r \<in> set (sel w)"
  shows "List.find (\<lambda>q. key q = key r) (sel w) = Some r"
proof -
  obtain q where q: "List.find (\<lambda>q. key q = key r) (sel w) = Some q"
    using assms(2) by (cases "List.find (\<lambda>q. key q = key r) (sel w)") (auto dest: find_NoneD)
  then show ?thesis
    using find_SomeD [OF q] assms by (metis (mono_tags) distinct_map inj_onD)
qed

lemma same_key:
  "distinct (map key (sel w)) \<Longrightarrow> r \<in> set (sel w) \<Longrightarrow> q \<in> set (sel w) \<Longrightarrow> key r = key q \<Longrightarrow> r = q"
  by (metis distinct_map inj_onD)

end

interpretation payments: keyed_table w_payments w_payments_update pay_id
  by unfold_locales simp

interpretation attempts: keyed_table w_attempts w_attempts_update att_id
  by unfold_locales simp

interpretation reservations: keyed_table w_reservations w_reservations_update res_id
  by unfold_locales simp

interpretation idempotency: keyed_table w_idempotency w_idempotency_update idem_id
  by unfold_locales simp

interpretation works: keyed_table w_works w_works_update wi_id
  by unfold_locales simp

interpretation timeline: keyed_table w_timeline w_timeline_update tl_id
  by unfold_locales simp

interpretation webhook_events: keyed_table w_webhooks w_webhooks_update whe_eventId
  by unfold_locales simp

end
