(* ===== verification/Timeline_Webhooks.thy ===== *)
theory Timeline_Webhooks
  imports Database
begin

text \<open>
  The append-only outputs of a transaction: the operation timeline
  (\<^verbatim>\<open>packages/db/src/timeline.ts\<close>) and the webhook outbox
  (\<^verbatim>\<open>packages/db/src/webhook-events.ts\<close>, and \<open>enqueuePaymentWebhookEvent\<close> of
  \<^verbatim>\<open>packages/db/src/v2.ts\<close>). The lemmas say that they write their own tables and no other, that
  an event identifier is published once, and that a subscription gets one delivery of an event.
\<close>

section \<open>Timeline\<close>

record TimelineEventInput =
  ti_id :: string
  ti_accountId :: "string option"
  ti_resourceType :: string
  ti_resourceId :: string
  ti_eventType :: string
  ti_actorType :: string
  ti_actorId :: "string option"
  ti_requestId :: "string option"
  ti_correlationId :: "string option"
  ti_oldStateJson :: "string option"
  ti_newStateJson :: "string option"
  ti_source :: string
  ti_occurredAt :: "int option"
  ti_metadataJson :: "string option"

definition timeline_row_of :: "TimelineEventInput \<Rightarrow> int \<Rightarrow> int \<Rightarrow> timeline_row" where
  "timeline_row_of input occurredAt createdAt =
     \<lparr>tl_id = ti_id input, tl_accountId = ti_accountId input, tl_resourceType = ti_resourceType input,
      tl_resourceId = ti_resourceId input, tl_eventType = ti_eventType input,
      tl_actorType = ti_actorType input, tl_actorId = ti_actorId input,
      tl_requestId = ti_requestId input, tl_correlationId = ti_correlationId input,
      tl_oldStateJson = ti_oldStateJson input, tl_newStateJson = ti_newStateJson input,
      tl_source = ti_source input, tl_occurredAt = occurredAt,
      tl_metadataJson = (case ti_metadataJson input of None \<Rightarrow> ''{}'' | Some m \<Rightarrow> m),
      tl_createdAt = createdAt\<rparr>"

definition createTimelineEvent :: "TimelineEventInput \<Rightarrow> unit tx" where
  "createTimelineEvent input =
     bind_tx (case ti_occurredAt input of None \<Rightarrow> new_date | Some t \<Rightarrow> return_tx t) (\<lambda>occurredAt.
     bind_tx new_date (\<lambda>createdAt.
     bind_tx (insert_tx ''operation_timeline_events'' w_timeline w_timeline_update
                (\<lambda>r q. tl_id q = tl_id r) (timeline_row_of input occurredAt createdAt)) (\<lambda>_.
     return_tx ())))"

section \<open>Webhook outbox\<close>

record WebhookEventInput =
  we_accountId :: string
  we_resourceType :: string
  we_resourceId :: string
  we_resourceVersion :: int
  we_eventType :: string
  we_resource :: "(string \<times> json) list"
  we_correlationId :: "string option"
  we_eventId :: "string option"

definition WEBHOOK_EVENT_VERSION :: string where
  "WEBHOOK_EVENT_VERSION = ''v2''"

definition lower_char :: "char \<Rightarrow> char" where
  "lower_char c =
     (let n = code_unit c in
      if 65 \<le> n \<and> n \<le> 90 \<or> 192 \<le> n \<and> n \<le> 222 \<and> n \<noteq> 215 then char_of (n + 32) else c)"

definition toLowerCase :: "string \<Rightarrow> string" where
  "toLowerCase = map lower_char"

definition webhook_event_id :: "WebhookEventInput \<Rightarrow> string" where
  "webhook_event_id input =
     (case we_eventId input of
        Some i \<Rightarrow> i
      | None \<Rightarrow> toLowerCase (we_resourceType input) @ '':'' @ we_resourceId input @ '':'' @
                int_to_string (we_resourceVersion input) @ '':'' @ we_eventType input)"

definition webhook_raw_body :: "WebhookEventInput \<Rightarrow> string" where
  "webhook_raw_body input = stringify (JObj
     ([(''id'', JStr (webhook_event_id input)), (''type'', JStr (we_eventType input)),
       (''version'', JStr WEBHOOK_EVENT_VERSION)] @
      (case we_correlationId input of None \<Rightarrow> [] | Some c \<Rightarrow> [(''correlation_id'', JStr c)]) @
      [(''resource'', JObj (we_resource input))]))"

definition parseEventTypes :: "string \<Rightarrow> string list result" where
  "parseEventTypes value =
     (case JSON_parse value of
        Some (JArr items) \<Rightarrow>
          (case json_strings items of
             Some types \<Rightarrow> Inr types
           | None \<Rightarrow> throwInvalidState ''Webhook event type metadata is corrupt'')
      | _ \<Rightarrow> throwInvalidState ''Webhook event type metadata is corrupt'')"

fun matching_subscriptions :: "string \<Rightarrow> subscription_row list \<Rightarrow> subscription_row list result" where
  "matching_subscriptions eventType [] = Inr []"
| "matching_subscriptions eventType (s # rest) =
     bind_r (parseEventTypes (sub_eventTypesJson s)) (\<lambda>eventTypes.
     bind_r (matching_subscriptions eventType rest) (\<lambda>more.
     Inr (if eventType \<in> set eventTypes \<or> ''*'' \<in> set eventTypes then s # more else more)))"

text \<open>One row of \<^verbatim>\<open>createMany\<close> with \<^verbatim>\<open>skipDuplicates\<close>: the number of rows inserted.\<close>

definition insert_skip_tx ::
    "(world \<Rightarrow> 'r list) \<Rightarrow> (('r list \<Rightarrow> 'r list) \<Rightarrow> world \<Rightarrow> world) \<Rightarrow>
     ('r \<Rightarrow> 'r \<Rightarrow> bool) \<Rightarrow> 'r \<Rightarrow> nat tx" where
  "insert_skip_tx sel upd conflict r =
     (\<lambda>w. if list_ex (conflict r) (sel w) then Inr (0, w)
          else Inr (1, upd (\<lambda>rows. rows @ [r]) w))"

definition delivery_conflict :: "delivery_row \<Rightarrow> delivery_row \<Rightarrow> bool" where
  "delivery_conflict r q \<longleftrightarrow> dlv_id q = dlv_id r \<or>
     (dlv_eventId q = dlv_eventId r \<and> dlv_subscriptionId q = dlv_subscriptionId r)"

definition create_delivery :: "string \<Rightarrow> subscription_row \<Rightarrow> unit tx" where
  "create_delivery eventId s =
     bind_tx randomId (\<lambda>rid.
     bind_tx new_date (\<lambda>now.
     bind_tx (insert_skip_tx w_deliveries w_deliveries_update delivery_conflict
       \<lparr>dlv_id = ''delivery_'' @ rid, dlv_eventId = eventId, dlv_subscriptionId = sub_id s,
        dlv_deliveryNumber = 1, dlv_status = ''AVAILABLE'', dlv_availableAt = now,
        dlv_attemptCount = 0, dlv_leaseOwner = None, dlv_leaseExpiresAt = None,
        dlv_nextRetryAt = None, dlv_responseStatus = None, dlv_errorSafe = None,
        dlv_createdAt = now, dlv_updatedAt = now\<rparr>) (\<lambda>_.
     return_tx ())))"

definition webhook_conflict :: "webhook_event_row \<Rightarrow> webhook_event_row \<Rightarrow> bool" where
  "webhook_conflict r q \<longleftrightarrow> whe_id q = whe_id r \<or> whe_eventId q = whe_eventId r"

definition insert_webhook_event :: "WebhookEventInput \<Rightarrow> nat tx" where
  "insert_webhook_event input =
     bind_tx randomId (\<lambda>rid.
     bind_tx new_date (\<lambda>now.
     insert_skip_tx w_webhooks w_webhooks_update webhook_conflict
       \<lparr>whe_id = ''webhook_'' @ rid, whe_eventId = webhook_event_id input,
        whe_resourceType = we_resourceType input, whe_resourceId = we_resourceId input,
        whe_resourceVersion = we_resourceVersion input, whe_eventType = we_eventType input,
        whe_eventVersion = WEBHOOK_EVENT_VERSION, whe_correlationId = we_correlationId input,
        whe_rawBody = webhook_raw_body input, whe_createdAt = now\<rparr>))"

definition enqueueWebhookEvent :: "WebhookEventInput \<Rightarrow> unit tx" where
  "enqueueWebhookEvent input =
     bind_tx (insert_webhook_event input) (\<lambda>count.
     if count = 0 then return_tx ()
     else
       bind_tx (gets_tx (\<lambda>w. filter (\<lambda>s. sub_accountId s = we_accountId input \<and>
                                          sub_status s = ''ACTIVE'') (w_subscriptions w))) (\<lambda>subscriptions.
       bind_tx (lift_tx (matching_subscriptions (we_eventType input) subscriptions)) (\<lambda>matching.
       for_each_tx matching (create_delivery (webhook_event_id input)))))"

record PaymentWebhookInput =
  pw_accountId :: string
  pw_paymentId :: string
  pw_resourceVersion :: int
  pw_eventType :: string
  pw_status :: string
  pw_amountAtomic :: int
  pw_denominationId :: "string option"
  pw_correlationId :: "string option"

definition enqueuePaymentWebhookEvent :: "PaymentWebhookInput \<Rightarrow> unit tx" where
  "enqueuePaymentWebhookEvent input = enqueueWebhookEvent
     \<lparr>we_accountId = pw_accountId input, we_resourceType = ''PAYMENT'',
      we_resourceId = pw_paymentId input, we_resourceVersion = pw_resourceVersion input,
      we_eventType = pw_eventType input,
      we_resource =
        [(''id'', JStr (pw_paymentId input)), (''status'', JStr (pw_status input)),
         (''amount_atomic'', JStr (int_to_string (pw_amountAtomic input))),
         (''denomination_id'', json_opt (pw_denominationId input))] @
        (case pw_correlationId input of None \<Rightarrow> [] | Some c \<Rightarrow> [(''correlation_id'', JStr c)]),
      we_correlationId = pw_correlationId input, we_eventId = None\<rparr>"

section \<open>What they write\<close>

lemma insert_skip_tx_Inr_iff [tx_simps]:
  "insert_skip_tx sel upd conflict r w = Inr y \<longleftrightarrow>
     y = (if list_ex (conflict r) (sel w) then (0, w) else (1, upd (\<lambda>rows. rows @ [r]) w))"
  by (auto simp: insert_skip_tx_def)

lemma preserves_insert_skip [frame_intros]:
  "(\<And>f w. g (upd f w) = g w) \<Longrightarrow> preserves g (insert_skip_tx sel upd conflict r)"
  by (auto simp: preserves_def tx_simps)

text \<open>\<open>outputs_frame g\<close>: \<open>g\<close> reads neither the output tables nor the counters of the clock and of
  the random identifiers, so these operations leave it alone.\<close>

definition outputs_frame :: "(world \<Rightarrow> 'b) \<Rightarrow> bool" where
  "outputs_frame g \<longleftrightarrow>
     (\<forall>f w. g (w_timeline_update f w) = g w) \<and> (\<forall>f w. g (w_webhooks_update f w) = g w) \<and>
     (\<forall>f w. g (w_deliveries_update f w) = g w) \<and> (\<forall>f w. g (w_ticks_update f w) = g w) \<and>
     (\<forall>f w. g (w_draws_update f w) = g w)"

lemma outputs_frameD:
  assumes "outputs_frame g"
  shows "g (w_timeline_update f w) = g w" "g (w_webhooks_update h w) = g w"
    "g (w_deliveries_update d w) = g w" "g (w\<lparr>w_ticks := t\<rparr>) = g w" "g (w\<lparr>w_draws := t\<rparr>) = g w"
  using assms by (auto simp: outputs_frame_def)

lemma createTimelineEvent_preserves [frame_intros]:
  "outputs_frame g \<Longrightarrow> preserves g (createTimelineEvent input)"
  unfolding createTimelineEvent_def by (intro frame_intros; simp add: outputs_frameD)

lemma enqueueWebhookEvent_preserves [frame_intros]:
  "outputs_frame g \<Longrightarrow> preserves g (enqueueWebhookEvent input)"
  unfolding enqueueWebhookEvent_def insert_webhook_event_def create_delivery_def
  by (intro frame_intros; simp add: outputs_frameD)

lemma enqueuePaymentWebhookEvent_preserves [frame_intros]:
  "outputs_frame g \<Longrightarrow> preserves g (enqueuePaymentWebhookEvent input)"
  unfolding enqueuePaymentWebhookEvent_def by (rule frame_intros)

lemma matching_subscriptions_set:
  "matching_subscriptions t ss = Inr ms \<Longrightarrow> set ms \<subseteq> set ss"
  by (induction ss arbitrary: ms) (auto simp: result_simps split: if_splits)

text \<open>One delivery per event and subscription.\<close>

definition deliveries_unique :: "world \<Rightarrow> bool" where
  "deliveries_unique w \<longleftrightarrow>
     distinct (map (\<lambda>d. (dlv_eventId d, dlv_subscriptionId d)) (w_deliveries w))"

lemma create_delivery_unique: "keeps deliveries_unique (create_delivery e s)"
  by (rule tripleI)
    (auto simp: create_delivery_def tx_simps deliveries_unique_def delivery_conflict_def
       list_ex_iff split: if_splits)

lemma for_each_keeps: "(\<And>x. keeps I (f x)) \<Longrightarrow> keeps I (for_each_tx xs f)"
proof (induction xs)
  case Nil
  then show ?case by (simp add: triple_def tx_simps)
next
  case (Cons x xs)
  then show ?case by (auto intro: keeps_bind)
qed

lemma insert_webhook_event_events:
  assumes "insert_webhook_event input w = Inr (n, w')"
  shows "w_deliveries w' = w_deliveries w" "w_subscriptions w' = w_subscriptions w"
    "n = 0 \<Longrightarrow> w_webhooks w' = w_webhooks w"
    "n \<noteq> 0 \<Longrightarrow> webhook_event_id input \<notin> whe_eventId ` set (w_webhooks w) \<and>
      (\<exists>e. w_webhooks w' = w_webhooks w @ [e] \<and> whe_eventId e = webhook_event_id input \<and>
           whe_rawBody e = webhook_raw_body input)"
  using assms
  by (auto simp: insert_webhook_event_def tx_simps webhook_conflict_def list_ex_iff split: if_splits)

lemma create_delivery_webhooks: "preserves w_webhooks (create_delivery e s)"
  unfolding create_delivery_def by (intro frame_intros; simp)

lemma enqueueWebhookEvent_split:
  assumes "enqueueWebhookEvent input w = Inr (u, w')"
  obtains n w1 ms where "insert_webhook_event input w = Inr (n, w1)"
    "for_each_tx ms (create_delivery (webhook_event_id input)) w1 = Inr (u, w')"
proof (cases "insert_webhook_event input w")
  case (Inl e)
  then show ?thesis using assms by (simp add: enqueueWebhookEvent_def tx_simps)
next
  case (Inr r)
  obtain n w1 where r: "r = (n, w1)" by (cases r)
  show ?thesis
  proof (cases "n = 0")
    case True
    then show ?thesis
      using that [of n w1 "[]"] assms Inr r by (simp add: enqueueWebhookEvent_def tx_simps)
  next
    case False
    then show ?thesis
      using that [of n w1] assms Inr r by (auto simp: enqueueWebhookEvent_def tx_simps)
  qed
qed

lemma enqueueWebhookEvent_events:
  assumes "enqueueWebhookEvent input w = Inr (u, w')"
  shows "w_webhooks w' = w_webhooks w \<or>
    (webhook_event_id input \<notin> whe_eventId ` set (w_webhooks w) \<and>
     (\<exists>e. w_webhooks w' = w_webhooks w @ [e] \<and> whe_eventId e = webhook_event_id input \<and>
          whe_rawBody e = webhook_raw_body input))"
proof -
  obtain n w1 ms where n: "insert_webhook_event input w = Inr (n, w1)"
    and rest: "for_each_tx ms (create_delivery (webhook_event_id input)) w1 = Inr (u, w')"
    by (rule enqueueWebhookEvent_split [OF assms])
  have "w_webhooks w' = w_webhooks w1"
    by (rule preservesD [OF preserves_for_each [OF create_delivery_webhooks] rest])
  then show ?thesis
    using insert_webhook_event_events [OF n] by (cases "n = 0") auto
qed

lemma enqueueWebhookEvent_unique: "keeps deliveries_unique (enqueueWebhookEvent input)"
proof (rule tripleI)
  fix w u w'
  assume I: "deliveries_unique w" and run: "enqueueWebhookEvent input w = Inr (u, w')"
  obtain n w1 ms where n: "insert_webhook_event input w = Inr (n, w1)"
    and rest: "for_each_tx ms (create_delivery (webhook_event_id input)) w1 = Inr (u, w')"
    by (rule enqueueWebhookEvent_split [OF run])
  have "deliveries_unique w1"
    using I insert_webhook_event_events(1) [OF n] by (simp add: deliveries_unique_def)
  then show "deliveries_unique w'"
    by (rule tripleD [OF for_each_keeps [OF create_delivery_unique] rest])
qed

end
