(* ===== verification/Exact_Money.thy ===== *)
theory Exact_Money
  imports Prelude
begin

text \<open>
  \<^verbatim>\<open>packages/core/src/exact-money.ts\<close>: denominations, settlement assets, economic
  mappings and exact money, with decimal parsing and printing, arithmetic and the two
  conversions between logical and settlement units. Amounts are BigInts, so \<open>int\<close>; a decimal
  string is parsed and printed digit by digit. The lemmas show that printing and parsing are
  inverse, that every operation keeps a money value well formed, and that conversion is exact.
\<close>

section \<open>Data\<close>

datatype LifecycleStatus = ACTIVE | RETIRED

record Denomination =
  den_id :: string
  den_symbol :: string
  den_maxScale :: int
  den_status :: LifecycleStatus
  den_version :: int

record SettlementAsset =
  sa_id :: string
  sa_rail :: string
  sa_network :: string
  sa_assetReference :: string
  sa_decimals :: int
  sa_status :: LifecycleStatus
  sa_version :: int

record EconomicMapping =
  em_id :: string
  em_denominationId :: string
  em_settlementAssetId :: string
  em_numerator :: int
  em_denominator :: int
  em_status :: LifecycleStatus
  em_version :: int

record ExactMoney =
  money_denominationId :: string
  money_amount :: string
  money_atomicUnits :: int
  money_scale :: int

record DenominationInput =
  di_id :: string
  di_symbol :: string
  di_maxScale :: number
  di_status :: "LifecycleStatus option"
  di_version :: "number option"

record SettlementAssetInput =
  sai_id :: string
  sai_rail :: string
  sai_network :: string
  sai_assetReference :: string
  sai_decimals :: number
  sai_status :: "LifecycleStatus option"
  sai_version :: "number option"

record EconomicMappingInput =
  emi_id :: string
  emi_denominationId :: string
  emi_settlementAssetId :: string
  emi_numerator :: int
  emi_denominator :: int
  emi_status :: "LifecycleStatus option"
  emi_version :: "number option"

definition DEFAULT_MAX_LOGICAL_MONEY_SCALE :: int where
  "DEFAULT_MAX_LOGICAL_MONEY_SCALE = 18"

section \<open>Checks\<close>

definition assertActive :: "LifecycleStatus \<Rightarrow> string \<Rightarrow> unit result" where
  "assertActive status name =
     throw_if (status \<noteq> ACTIVE) (DomainErr (ValidationError (name @ '' is not active'') None))"

definition assertNonEmpty :: "string \<Rightarrow> string \<Rightarrow> unit result" where
  "assertNonEmpty value name =
     throw_if (length (trim value) = 0)
       (DomainErr (ValidationError (name @ '' must not be empty'') None))"

definition assertScale :: "number \<Rightarrow> number \<Rightarrow> unit result" where
  "assertScale value maxLogicalScale =
     throw_if (\<not> isInteger value \<or> num_val value < 0 \<or> \<not> isInteger maxLogicalScale \<or>
               num_val maxLogicalScale < 0 \<or> num_val value > num_val maxLogicalScale)
       (DomainErr (ValidationError
          (''Denomination maxScale must be an integer from 0 to '' @
           number_to_string maxLogicalScale) None))"

definition validateVersion :: "number \<Rightarrow> int result" where
  "validateVersion value =
     (if \<not> isInteger value \<or> num_val value \<le> 0
      then throwValidation ''Version must be a positive integer''
      else Inr (num_val value))"

definition assertSameMoneyShape :: "ExactMoney \<Rightarrow> ExactMoney \<Rightarrow> unit result" where
  "assertSameMoneyShape left right =
     throw_if (money_denominationId left \<noteq> money_denominationId right \<or>
               money_scale left \<noteq> money_scale right)
       (DomainErr (ValidationError ''Money values must use the same denomination and scale'' None))"

definition assertSameSettlementAsset :: "SettlementAsset \<Rightarrow> SettlementAsset \<Rightarrow> unit result" where
  "assertSameSettlementAsset left right =
     throw_if (sa_id left \<noteq> sa_id right \<or> sa_rail left \<noteq> sa_rail right \<or>
               sa_network left \<noteq> sa_network right \<or>
               sa_assetReference left \<noteq> sa_assetReference right \<or>
               sa_version left \<noteq> sa_version right)
       (DomainErr (ValidationError ''Settlement assets are not identical'' None))"

section \<open>Construction\<close>

definition createDenomination :: "DenominationInput \<Rightarrow> number \<Rightarrow> Denomination result" where
  "createDenomination input maxLogicalScale =
     bind_r (assertNonEmpty (di_id input) ''Denomination id'') (\<lambda>_.
     bind_r (assertNonEmpty (di_symbol input) ''Denomination symbol'') (\<lambda>_.
     bind_r (assertScale (di_maxScale input) maxLogicalScale) (\<lambda>_.
     bind_r (validateVersion (case di_version input of None \<Rightarrow> IntNum 1 | Some v \<Rightarrow> v)) (\<lambda>version.
     Inr \<lparr>den_id = di_id input, den_symbol = di_symbol input,
          den_maxScale = num_val (di_maxScale input),
          den_status = (case di_status input of None \<Rightarrow> ACTIVE | Some s \<Rightarrow> s),
          den_version = version\<rparr>))))"

definition createSettlementAsset :: "SettlementAssetInput \<Rightarrow> SettlementAsset result" where
  "createSettlementAsset input =
     bind_r (assertNonEmpty (sai_id input) ''Settlement asset id'') (\<lambda>_.
     bind_r (assertNonEmpty (sai_rail input) ''Settlement asset rail'') (\<lambda>_.
     bind_r (assertNonEmpty (sai_network input) ''Settlement asset network'') (\<lambda>_.
     bind_r (assertNonEmpty (sai_assetReference input) ''Settlement asset reference'') (\<lambda>_.
     bind_r (throw_if (\<not> isInteger (sai_decimals input) \<or> num_val (sai_decimals input) < 0 \<or>
                       num_val (sai_decimals input) > 255)
       (DomainErr (ValidationError
          ''Settlement asset decimals must be an integer from 0 to 255'' None))) (\<lambda>_.
     bind_r (validateVersion (case sai_version input of None \<Rightarrow> IntNum 1 | Some v \<Rightarrow> v)) (\<lambda>version.
     Inr \<lparr>sa_id = sai_id input, sa_rail = sai_rail input, sa_network = sai_network input,
          sa_assetReference = sai_assetReference input,
          sa_decimals = num_val (sai_decimals input),
          sa_status = (case sai_status input of None \<Rightarrow> ACTIVE | Some s \<Rightarrow> s),
          sa_version = version\<rparr>))))))"

definition createEconomicMapping :: "EconomicMappingInput \<Rightarrow> EconomicMapping result" where
  "createEconomicMapping input =
     bind_r (assertNonEmpty (emi_id input) ''Economic mapping id'') (\<lambda>_.
     bind_r (assertNonEmpty (emi_denominationId input) ''Economic mapping denomination id'') (\<lambda>_.
     bind_r (assertNonEmpty (emi_settlementAssetId input)
               ''Economic mapping settlement asset id'') (\<lambda>_.
     bind_r (throw_if (emi_numerator input \<le> 0 \<or> emi_denominator input \<le> 0)
       (DomainErr (ValidationError ''Economic mapping ratio must be positive'' None))) (\<lambda>_.
     bind_r (validateVersion (case emi_version input of None \<Rightarrow> IntNum 1 | Some v \<Rightarrow> v)) (\<lambda>version.
     Inr \<lparr>em_id = emi_id input, em_denominationId = emi_denominationId input,
          em_settlementAssetId = emi_settlementAssetId input,
          em_numerator = emi_numerator input, em_denominator = emi_denominator input,
          em_status = (case emi_status input of None \<Rightarrow> ACTIVE | Some s \<Rightarrow> s),
          em_version = version\<rparr>)))))"

section \<open>Decimal text\<close>

definition canonicalDecimal :: "string \<Rightarrow> string \<Rightarrow> string" where
  "canonicalDecimal wholePart fractionPart =
     (let canonicalWhole = strip_leading_zeros wholePart;
          trimmedFraction = strip_trailing_zeros fractionPart
      in if length trimmedFraction = 0 then canonicalWhole
         else canonicalWhole @ CHR ''.'' # trimmedFraction)"

definition formatAtomicUnits :: "int \<Rightarrow> int \<Rightarrow> string result" where
  "formatAtomicUnits atomicUnits scale =
     bind_r (bigint_pow 10 scale) (\<lambda>divisor.
     bind_r (bigint_div atomicUnits divisor) (\<lambda>wholePart.
     bind_r (bigint_mod atomicUnits divisor) (\<lambda>rest.
     Inr (canonicalDecimal (int_to_string wholePart) (padStart scale (int_to_string rest))))))"

text \<open>The match of \<^verbatim>\<open>/^(\d+)(?:\.(\d+))?$/\<close>: the whole part and the optional fraction.\<close>

definition match_decimal :: "string \<Rightarrow> (string \<times> string option) option" where
  "match_decimal value =
     (let whole = takeWhile is_digit value; rest = dropWhile is_digit value
      in if whole = [] then None
         else case rest of
           [] \<Rightarrow> Some (whole, None)
         | c # f \<Rightarrow> if c = CHR ''.'' \<and> f \<noteq> [] \<and> all_digits f then Some (whole, Some f) else None)"

definition parseExactMoney :: "string \<Rightarrow> Denomination \<Rightarrow> ExactMoney result" where
  "parseExactMoney value denomination =
     bind_r (assertActive (den_status denomination) ''Denomination'') (\<lambda>_.
     if length value = 0 then throwValidation ''Amount must be a non-empty decimal string''
     else case match_decimal value of
       None \<Rightarrow> throwValidation ''Amount must be a plain decimal string without exponent notation''
     | Some (whole, fraction) \<Rightarrow>
         (let wholePart = strip_leading_zeros whole;
              fractionPart = (case fraction of None \<Rightarrow> [] | Some f \<Rightarrow> f)
          in if int (length fractionPart) > den_maxScale denomination
             then throwValidation (''Amount supports at most '' @
                    int_to_string (den_maxScale denomination) @ '' decimal places for '' @
                    den_symbol denomination)
             else bind_r (bigint_pow 10 (den_maxScale denomination)) (\<lambda>scale.
               Inr \<lparr>money_denominationId = den_id denomination,
                    money_amount = canonicalDecimal wholePart fractionPart,
                    money_atomicUnits = int (digits_val wholePart) * scale +
                      int (digits_val (padEnd (den_maxScale denomination) fractionPart)),
                    money_scale = den_maxScale denomination\<rparr>)))"

definition exactMoneyFromAtomicUnits :: "int \<Rightarrow> Denomination \<Rightarrow> ExactMoney result" where
  "exactMoneyFromAtomicUnits atomicUnits denomination =
     bind_r (assertActive (den_status denomination) ''Denomination'') (\<lambda>_.
     if atomicUnits < 0 then throwValidation ''Money atomic units cannot be negative''
     else bind_r (bigint_pow 10 (den_maxScale denomination)) (\<lambda>scale.
          bind_r (bigint_div atomicUnits scale) (\<lambda>wholePart.
          bind_r (bigint_mod atomicUnits scale) (\<lambda>rest.
          Inr \<lparr>money_denominationId = den_id denomination,
               money_amount = canonicalDecimal (int_to_string wholePart)
                 (padStart (den_maxScale denomination) (int_to_string rest)),
               money_atomicUnits = atomicUnits,
               money_scale = den_maxScale denomination\<rparr>))))"

definition formatExactMoney :: "ExactMoney \<Rightarrow> string" where
  "formatExactMoney money = money_amount money"

section \<open>Arithmetic\<close>

definition withAtomicUnits :: "ExactMoney \<Rightarrow> int \<Rightarrow> ExactMoney result" where
  "withAtomicUnits money atomicUnits =
     (if atomicUnits < 0 then throwValidation ''Money atomic units cannot be negative''
      else bind_r (formatAtomicUnits atomicUnits (money_scale money)) (\<lambda>amount.
           Inr (money\<lparr>money_amount := amount, money_atomicUnits := atomicUnits\<rparr>)))"

definition addExactMoney :: "ExactMoney \<Rightarrow> ExactMoney \<Rightarrow> ExactMoney result" where
  "addExactMoney left right =
     bind_r (assertSameMoneyShape left right) (\<lambda>_.
     withAtomicUnits left (money_atomicUnits left + money_atomicUnits right))"

definition subtractExactMoney :: "ExactMoney \<Rightarrow> ExactMoney \<Rightarrow> ExactMoney result" where
  "subtractExactMoney left right =
     bind_r (assertSameMoneyShape left right) (\<lambda>_.
     let atomicUnits = money_atomicUnits left - money_atomicUnits right
     in if atomicUnits < 0 then Inl insufficientFunds else withAtomicUnits left atomicUnits)"

definition compareExactMoney :: "ExactMoney \<Rightarrow> ExactMoney \<Rightarrow> int result" where
  "compareExactMoney left right =
     bind_r (assertSameMoneyShape left right) (\<lambda>_.
     Inr (if money_atomicUnits left < money_atomicUnits right then -1
          else if money_atomicUnits left > money_atomicUnits right then 1
          else 0))"

section \<open>Conversion\<close>

definition convertToSettlementAtomicUnits ::
    "ExactMoney \<Rightarrow> EconomicMapping \<Rightarrow> SettlementAsset \<Rightarrow> int result" where
  "convertToSettlementAtomicUnits money mapping asset =
     bind_r (assertActive (em_status mapping) ''Economic mapping'') (\<lambda>_.
     bind_r (assertActive (sa_status asset) ''Settlement asset'') (\<lambda>_.
     if money_denominationId money \<noteq> em_denominationId mapping
     then throwValidation ''Economic mapping does not match the denomination''
     else if sa_id asset \<noteq> em_settlementAssetId mapping
     then throwValidation ''Economic mapping does not match the settlement asset''
     else let numerator = money_atomicUnits money * em_numerator mapping in
       bind_r (bigint_mod numerator (em_denominator mapping)) (\<lambda>rest.
       if rest \<noteq> 0
       then throwValidation ''Economic mapping requires rounding and cannot be applied exactly''
       else bind_r (bigint_div numerator (em_denominator mapping)) (\<lambda>atomicUnits.
         if atomicUnits < 0 then throwValidation ''Settlement atomic units cannot be negative''
         else Inr atomicUnits))))"

definition convertFromSettlementAtomicUnits ::
    "int \<Rightarrow> EconomicMapping \<Rightarrow> Denomination \<Rightarrow> SettlementAsset \<Rightarrow> ExactMoney result" where
  "convertFromSettlementAtomicUnits settlementAtomicUnits mapping denomination asset =
     bind_r (assertActive (em_status mapping) ''Economic mapping'') (\<lambda>_.
     bind_r (assertActive (sa_status asset) ''Settlement asset'') (\<lambda>_.
     bind_r (assertActive (den_status denomination) ''Denomination'') (\<lambda>_.
     if settlementAtomicUnits < 0
     then throwValidation ''Settlement atomic units cannot be negative''
     else if den_id denomination \<noteq> em_denominationId mapping
     then throwValidation ''Economic mapping does not match the denomination''
     else if sa_id asset \<noteq> em_settlementAssetId mapping
     then throwValidation ''Economic mapping does not match the settlement asset''
     else let numerator = settlementAtomicUnits * em_denominator mapping in
       bind_r (bigint_mod numerator (em_numerator mapping)) (\<lambda>rest.
       if rest \<noteq> 0
       then throwValidation ''Settlement balance cannot be represented exactly in the denomination''
       else bind_r (bigint_div numerator (em_numerator mapping)) (\<lambda>units.
         exactMoneyFromAtomicUnits units denomination)))))"

section \<open>Printing and parsing\<close>

lemma assertActive_simps [simp]:
  "assertActive ACTIVE n = Inr ()" "assertActive s n = Inr u \<longleftrightarrow> s = ACTIVE"
  by (auto simp: assertActive_def throw_if_def)

text \<open>The printed form of \<open>n\<close> units at scale \<open>k\<close>, without the error branches.\<close>

definition render_units :: "int \<Rightarrow> nat \<Rightarrow> string" where
  "render_units k n =
     canonicalDecimal (nat_to_string (n div 10 ^ nat k)) (padStart k (nat_to_string (n mod 10 ^ nat k)))"

lemma int_to_string_nonneg [simp]: "int_to_string (int n) = nat_to_string n"
  by (simp add: int_to_string_def)

lemma formatAtomicUnits_eq:
  assumes "0 \<le> k" "0 \<le> u"
  shows "formatAtomicUnits u k = Inr (render_units k (nat u))"
proof -
  obtain n where u: "u = int n" using assms by (metis nonneg_int_cases)
  have "int n div 10 ^ nat k = int (n div 10 ^ nat k)" "int n mod 10 ^ nat k = int (n mod 10 ^ nat k)"
    by (simp_all add: zdiv_int zmod_int)
  then show ?thesis
    using assms u by (simp add: formatAtomicUnits_def js_simps render_units_def)
qed

lemma exactMoneyFromAtomicUnits_eq:
  "exactMoneyFromAtomicUnits u d =
     bind_r (assertActive (den_status d) ''Denomination'') (\<lambda>_.
     if u < 0 then throwValidation ''Money atomic units cannot be negative''
     else bind_r (formatAtomicUnits u (den_maxScale d)) (\<lambda>amount.
     Inr \<lparr>money_denominationId = den_id d, money_amount = amount, money_atomicUnits = u,
          money_scale = den_maxScale d\<rparr>))"
  by (simp add: exactMoneyFromAtomicUnits_def formatAtomicUnits_def bind_r_def bigint_pow_def
      bigint_div_def bigint_mod_def split: sum.splits)

lemma exactMoneyFromAtomicUnits_Inr_iff:
  "exactMoneyFromAtomicUnits u d = Inr m \<longleftrightarrow>
     den_status d = ACTIVE \<and> 0 \<le> den_maxScale d \<and> 0 \<le> u \<and>
     m = \<lparr>money_denominationId = den_id d, money_amount = render_units (den_maxScale d) (nat u),
          money_atomicUnits = u, money_scale = den_maxScale d\<rparr>"
proof (cases "0 \<le> den_maxScale d \<and> 0 \<le> u")
  case True
  then show ?thesis
    by (cases "den_status d") (auto simp: exactMoneyFromAtomicUnits_eq formatAtomicUnits_eq assertActive_def)
next
  case False
  then show ?thesis
    by (auto simp: exactMoneyFromAtomicUnits_def result_simps bigint_pow_def)
qed

text \<open>A money value of a denomination is well formed when it is what the constructor from its
  units gives: its text, its scale and its denomination agree with its units.\<close>

definition wf_exact_money :: "Denomination \<Rightarrow> ExactMoney \<Rightarrow> bool" where
  "wf_exact_money d m \<longleftrightarrow> exactMoneyFromAtomicUnits (money_atomicUnits m) d = Inr m"

lemma wf_exact_moneyD:
  assumes "wf_exact_money d m"
  shows "den_status d = ACTIVE" "0 \<le> money_atomicUnits m" "0 \<le> den_maxScale d"
    "money_denominationId m = den_id d" "money_scale m = den_maxScale d"
    "money_amount m = render_units (den_maxScale d) (nat (money_atomicUnits m))"
proof -
  note e = assms [unfolded wf_exact_money_def exactMoneyFromAtomicUnits_Inr_iff]
  from e show "den_status d = ACTIVE" "0 \<le> money_atomicUnits m" "0 \<le> den_maxScale d" by auto
  from e have m: "m = \<lparr>money_denominationId = den_id d,
      money_amount = render_units (den_maxScale d) (nat (money_atomicUnits m)),
      money_atomicUnits = money_atomicUnits m, money_scale = den_maxScale d\<rparr>" by blast
  from arg_cong [OF m, of money_denominationId] show "money_denominationId m = den_id d" by simp
  from arg_cong [OF m, of money_scale] show "money_scale m = den_maxScale d" by simp
  from arg_cong [OF m, of money_amount]
  show "money_amount m = render_units (den_maxScale d) (nat (money_atomicUnits m))" by simp
qed

lemma match_decimal_whole [simp]: "all_digits w \<Longrightarrow> w \<noteq> [] \<Longrightarrow> match_decimal w = Some (w, None)"
  by (simp add: match_decimal_def all_digits_def list_all_iff takeWhile_eq_all_conv [THEN iffD2]
      dropWhile_eq_Nil_conv [THEN iffD2])

lemma match_decimal_fraction [simp]:
  assumes "all_digits w" "w \<noteq> []" "all_digits f" "f \<noteq> []"
  shows "match_decimal (w @ CHR ''.'' # f) = Some (w, Some f)"
proof -
  have "\<And>c. c \<in> set w \<Longrightarrow> is_digit c" using assms(1) by (simp add: all_digits_def list_all_iff)
  then have "takeWhile is_digit (w @ CHR ''.'' # f) = w" "dropWhile is_digit (w @ CHR ''.'' # f) = CHR ''.'' # f"
    by (simp_all add: takeWhile_append2 dropWhile_append2)
  then show ?thesis using assms by (simp add: match_decimal_def)
qed

lemma match_decimal_SomeD:
  assumes "match_decimal s = Some (w, f)"
  shows "all_digits w" "w \<noteq> []" "all_digits (case f of None \<Rightarrow> [] | Some g \<Rightarrow> g)"
proof -
  have "all_digits (takeWhile is_digit s)"
    by (auto simp: all_digits_def list_all_iff dest: set_takeWhileD)
  then show "all_digits w" "w \<noteq> []" "all_digits (case f of None \<Rightarrow> [] | Some g \<Rightarrow> g)"
    using assms by (auto simp: match_decimal_def Let_def split: list.splits if_splits)
qed

lemma match_canonicalDecimal:
  assumes "all_digits w" "w \<noteq> []" "all_digits f"
  shows "match_decimal (canonicalDecimal w f) =
     Some (strip_leading_zeros w,
       if strip_trailing_zeros f = [] then None else Some (strip_trailing_zeros f))"
  using strip_leading_zeros_props [OF assms(1,2)] assms(3)
  by (auto simp: canonicalDecimal_def Let_def)

text \<open>The value that the parser computes from a whole part and a fraction.\<close>

lemma parseExactMoney_Inr_iff:
  "parseExactMoney s d = Inr m \<longleftrightarrow>
     den_status d = ACTIVE \<and> (\<exists>w f. match_decimal s = Some (w, f) \<and>
       (let frac = (case f of None \<Rightarrow> [] | Some g \<Rightarrow> g) in
        int (length frac) \<le> den_maxScale d \<and>
        m = \<lparr>money_denominationId = den_id d,
             money_amount = canonicalDecimal (strip_leading_zeros w) frac,
             money_atomicUnits = int (digits_val (strip_leading_zeros w) * 10 ^ nat (den_maxScale d) +
               digits_val (padEnd (den_maxScale d) frac)),
             money_scale = den_maxScale d\<rparr>))"
proof (cases "match_decimal s")
  case None
  then show ?thesis
    by (cases "den_status d") (auto simp: parseExactMoney_def assertActive_def)
next
  case (Some wf)
  then obtain w f where m: "match_decimal s = Some (w, f)" by (cases wf) auto
  then have "s \<noteq> []" by (auto simp: match_decimal_def)
  then show ?thesis
    using m by (cases "den_status d"; cases f)
      (auto simp: parseExactMoney_def assertActive_def Let_def bigint_pow_def)
qed

lemma padEnd_padStart_units:
  assumes "0 \<le> k"
  shows "digits_val (padEnd k (strip_trailing_zeros (padStart k (nat_to_string (n mod 10 ^ nat k))))) =
     n mod 10 ^ nat k"
proof (cases "k = 0")
  case True
  then show ?thesis by (simp add: padStart_def padEnd_def strip_trailing_zeros_def)
next
  case False
  then have "length (padStart k (nat_to_string (n mod 10 ^ nat k))) = nat k"
    using assms by (intro length_padStart length_nat_to_string) auto
  then show ?thesis by (simp add: padEnd_strip_trailing)
qed

lemma length_fraction_units:
  assumes "0 \<le> k"
  shows "length (strip_trailing_zeros (padStart k (nat_to_string (n mod 10 ^ nat k)))) \<le> nat k"
proof (cases "k = 0")
  case True
  then show ?thesis by (simp add: padStart_def strip_trailing_zeros_def)
next
  case False
  then have "length (padStart k (nat_to_string (n mod 10 ^ nat k))) = nat k"
    using assms by (intro length_padStart length_nat_to_string) auto
  then show ?thesis using length_strip_trailing by metis
qed

lemma parse_render_units:
  assumes "den_status d = ACTIVE" "0 \<le> den_maxScale d"
  shows "parseExactMoney (render_units (den_maxScale d) n) d = exactMoneyFromAtomicUnits (int n) d"
proof -
  let ?k = "den_maxScale d"
  let ?w = "nat_to_string (n div 10 ^ nat ?k)"
  let ?g = "strip_trailing_zeros (padStart ?k (nat_to_string (n mod 10 ^ nat ?k)))"
  have match: "match_decimal (render_units ?k n) = Some (?w, if ?g = [] then None else Some ?g)"
    unfolding render_units_def by (subst match_canonicalDecimal) simp_all
  have frac: "(case (if ?g = [] then None else Some ?g) of None \<Rightarrow> [] | Some f \<Rightarrow> f) = ?g" by simp
  have idem: "strip_trailing_zeros ?g = ?g"
    by (metis strip_trailing_split strip_trailing_zeros_append)
  have amount: "canonicalDecimal ?w ?g = render_units ?k n"
    unfolding render_units_def canonicalDecimal_def Let_def idem ..
  have "int (length ?g) \<le> ?k"
    using length_fraction_units [OF assms(2), of n] assms(2) by linarith
  then have "parseExactMoney (render_units ?k n) d = Inr \<lparr>money_denominationId = den_id d,
      money_amount = render_units ?k n,
      money_atomicUnits = int (n div 10 ^ nat ?k * 10 ^ nat ?k + n mod 10 ^ nat ?k),
      money_scale = ?k\<rparr>"
    unfolding parseExactMoney_Inr_iff match
    using assms(1) frac amount padEnd_padStart_units [OF assms(2), of n] by simp
  moreover have "exactMoneyFromAtomicUnits (int n) d = Inr \<lparr>money_denominationId = den_id d,
      money_amount = render_units ?k n, money_atomicUnits = int n, money_scale = ?k\<rparr>"
    using assms by (simp add: exactMoneyFromAtomicUnits_Inr_iff)
  ultimately show ?thesis by (simp only: div_mult_mod_eq)
qed

lemma parse_canonical_amount:
  assumes w: "all_digits w" "w \<noteq> []" and f: "all_digits f" "length f \<le> nat k" and k: "0 \<le> k"
  shows "render_units k (digits_val w * 10 ^ nat k + digits_val (padEnd k f)) =
     canonicalDecimal w f"
proof -
  let ?n = "digits_val w * 10 ^ nat k + digits_val (padEnd k f)"
  have len: "length (padEnd k f) = nat k" using f(2) by (rule length_padEnd)
  then have small: "digits_val (padEnd k f) < 10 ^ nat k"
    using digits_val_bound [of "padEnd k f"] f(1) by simp
  then have dm: "?n div 10 ^ nat k = digits_val w" "?n mod 10 ^ nat k = digits_val (padEnd k f)"
    by simp_all
  have "strip_trailing_zeros (padStart k (nat_to_string (digits_val (padEnd k f)))) = strip_trailing_zeros f"
  proof (cases "k = 0")
    case True
    then show ?thesis using f(2)
      by (simp add: padStart_def padEnd_def strip_trailing_zeros_def)
  next
    case False
    then show ?thesis using padStart_digits_val [of "padEnd k f" k] f(1) len k by simp
  qed
  then show ?thesis
    using dm w by (simp add: render_units_def canonicalDecimal_def nat_to_string_digits_val strip_leading_zeros_idem)
qed

lemma parse_wf:
  assumes "parseExactMoney s d = Inr m"
  shows "wf_exact_money d m"
proof -
  from assms obtain w f where act: "den_status d = ACTIVE" and match: "match_decimal s = Some (w, f)"
    and len: "int (length (case f of None \<Rightarrow> [] | Some g \<Rightarrow> g)) \<le> den_maxScale d"
    and m: "m = \<lparr>money_denominationId = den_id d,
       money_amount = canonicalDecimal (strip_leading_zeros w) (case f of None \<Rightarrow> [] | Some g \<Rightarrow> g),
       money_atomicUnits = int (digits_val (strip_leading_zeros w) * 10 ^ nat (den_maxScale d) +
         digits_val (padEnd (den_maxScale d) (case f of None \<Rightarrow> [] | Some g \<Rightarrow> g))),
       money_scale = den_maxScale d\<rparr>"
    unfolding parseExactMoney_Inr_iff Let_def by auto
  note digs = match_decimal_SomeD [OF match]
  have k: "0 \<le> den_maxScale d" using len by linarith
  have "render_units (den_maxScale d) (nat (money_atomicUnits m)) = money_amount m"
    unfolding m using parse_canonical_amount [OF _ _ digs(3) _ k, of "strip_leading_zeros w"] len
      strip_leading_zeros_props [OF digs(1,2)]
    by (simp add: le_nat_iff nat_add_distrib nat_mult_distrib nat_power_eq)
  then show ?thesis
    unfolding wf_exact_money_def exactMoneyFromAtomicUnits_Inr_iff using act k by (simp add: m)
qed

section \<open>The decimal codec\<close>

text \<open>
  What the callers of a parser and a printer rely on: a valid value survives printing and
  parsing, and a parsed value is valid. Printing is then injective on the valid values and
  parsing is stable under reprinting.
\<close>

locale decimal_codec =
  fixes render :: "'u \<Rightarrow> string"
    and parse :: "string \<Rightarrow> 'u result"
    and valid :: "'u \<Rightarrow> bool"
  assumes parse_render: "valid u \<Longrightarrow> parse (render u) = Inr u"
    and parse_valid: "parse s = Inr u \<Longrightarrow> valid u"
begin

lemma render_inj: "valid u \<Longrightarrow> valid v \<Longrightarrow> render u = render v \<Longrightarrow> u = v"
  using parse_render by (metis Inr_inject)

lemma reparse: "parse s = Inr u \<Longrightarrow> parse (render u) = Inr u"
  by (blast intro: parse_render parse_valid)

lemma render_unique: "parse s = Inr u \<Longrightarrow> parse t = Inr v \<Longrightarrow> u = v \<longleftrightarrow> render u = render v"
  using parse_valid render_inj by blast

end

lemma wf_parse_format: "wf_exact_money d m \<Longrightarrow> parseExactMoney (formatExactMoney m) d = Inr m"
  using parse_render_units [of d "nat (money_atomicUnits m)"] wf_exact_moneyD [of d m]
  by (simp add: formatExactMoney_def wf_exact_money_def)

interpretation exact_codec: decimal_codec formatExactMoney "\<lambda>s. parseExactMoney s d" "wf_exact_money d"
  for d
  by unfold_locales (auto intro: wf_parse_format parse_wf)

lemma exactMoneyFromAtomicUnits_wf:
  "exactMoneyFromAtomicUnits u d = Inr m \<Longrightarrow> wf_exact_money d m \<and> money_atomicUnits m = u"
  by (auto simp: wf_exact_money_def exactMoneyFromAtomicUnits_Inr_iff)

section \<open>Arithmetic keeps money well formed\<close>

lemma withAtomicUnits_wf_iff:
  assumes "wf_exact_money d m"
  shows "withAtomicUnits m u = (if u < 0 then throwValidation ''Money atomic units cannot be negative''
           else exactMoneyFromAtomicUnits u d)"
  using wf_exact_moneyD [OF assms]
  by (cases m) (simp add: withAtomicUnits_def formatAtomicUnits_eq exactMoneyFromAtomicUnits_eq)

lemma same_shape_wf: "wf_exact_money d m \<Longrightarrow> wf_exact_money d n \<Longrightarrow> assertSameMoneyShape m n = Inr ()"
  by (simp add: assertSameMoneyShape_def wf_exact_moneyD throw_if_def)

lemma add_wf:
  assumes "wf_exact_money d m" "wf_exact_money d n"
  shows "addExactMoney m n = exactMoneyFromAtomicUnits (money_atomicUnits m + money_atomicUnits n) d"
  using assms wf_exact_moneyD(2) [OF assms(1)] wf_exact_moneyD(2) [OF assms(2)]
  by (simp add: addExactMoney_def same_shape_wf [OF assms] withAtomicUnits_wf_iff [OF assms(1)])

lemma subtract_wf:
  assumes "wf_exact_money d m" "wf_exact_money d n"
  shows "subtractExactMoney m n =
    (if money_atomicUnits m < money_atomicUnits n then Inl insufficientFunds
     else exactMoneyFromAtomicUnits (money_atomicUnits m - money_atomicUnits n) d)"
  by (simp add: subtractExactMoney_def same_shape_wf [OF assms] withAtomicUnits_wf_iff [OF assms(1)])

lemma compare_wf:
  assumes "wf_exact_money d m" "wf_exact_money d n"
  shows "compareExactMoney m n = Inr (sgn (money_atomicUnits m - money_atomicUnits n))"
  by (simp add: compareExactMoney_def same_shape_wf [OF assms])

lemma wf_from_units:
  "wf_exact_money d m \<Longrightarrow> 0 \<le> u \<Longrightarrow>
     exactMoneyFromAtomicUnits u d = Inr (m\<lparr>money_amount := render_units (den_maxScale d) (nat u),
       money_atomicUnits := u\<rparr>)"
  by (cases m) (auto simp: exactMoneyFromAtomicUnits_Inr_iff dest: wf_exact_moneyD)

section \<open>Exact conversion\<close>

lemma smod_zero_mult: "(a::int) smod b = 0 \<Longrightarrow> a = (a sdiv b) * b"
  by (metis add_0_right sdiv_mult_smod_eq)

lemma convertTo_exact:
  assumes "convertToSettlementAtomicUnits m mp a = Inr u"
  shows "u * em_denominator mp = money_atomicUnits m * em_numerator mp" "0 \<le> u"
    "em_denominator mp \<noteq> 0" "em_status mp = ACTIVE" "sa_status a = ACTIVE"
    "money_denominationId m = em_denominationId mp" "sa_id a = em_settlementAssetId mp"
  using assms smod_zero_mult [of "money_atomicUnits m * em_numerator mp" "em_denominator mp"]
  by (auto simp: convertToSettlementAtomicUnits_def result_simps Let_def bigint_div_def bigint_mod_def
      split: if_splits)

lemma convertTo_defined:
  assumes "em_status mp = ACTIVE" "sa_status a = ACTIVE" "money_denominationId m = em_denominationId mp"
    "sa_id a = em_settlementAssetId mp" "0 < em_numerator mp" "0 < em_denominator mp"
    "0 \<le> money_atomicUnits m"
  shows "convertToSettlementAtomicUnits m mp a =
    (if em_denominator mp dvd money_atomicUnits m * em_numerator mp
     then Inr (money_atomicUnits m * em_numerator mp div em_denominator mp)
     else throwValidation ''Economic mapping requires rounding and cannot be applied exactly'')"
proof -
  define N where "N = money_atomicUnits m * em_numerator mp"
  then have "0 \<le> N" using assms by simp
  then show ?thesis
    using assms unfolding convertToSettlementAtomicUnits_def N_def [symmetric]
    by (simp add: js_simps Let_def dvd_eq_mod_eq_0 pos_imp_zdiv_neg_iff)
qed

lemma convertFrom_eq:
  assumes "em_status mp = ACTIVE" "sa_status a = ACTIVE" "den_status d = ACTIVE" "0 \<le> u"
    "den_id d = em_denominationId mp" "sa_id a = em_settlementAssetId mp"
    "0 < em_numerator mp" "0 < em_denominator mp" "u * em_denominator mp = v * em_numerator mp"
  shows "convertFromSettlementAtomicUnits u mp d a = exactMoneyFromAtomicUnits v d"
proof -
  have "0 \<le> v * em_numerator mp" using assms(4,8,9) by (metis less_imp_le mult_nonneg_nonneg)
  then show ?thesis
    using assms by (simp add: convertFromSettlementAtomicUnits_def Let_def bigint_mod_nonneg bigint_div_nonneg)
qed

section \<open>Properties\<close>

definition sample_denomination :: Denomination where
  "sample_denomination = \<lparr>den_id = ''usd'', den_symbol = ''USD'', den_maxScale = 2, den_status = ACTIVE, den_version = 1\<rparr>"

text \<open>C31: an amount that parses is kept in a canonical form: printing it and parsing it again gives
  the same money, and two amounts of a denomination print alike exactly when they have the same
  atomic units, whatever zeros the two inputs carried.\<close>

theorem exact_money_roundtrip:
  assumes "parseExactMoney s d = Inr m" "parseExactMoney t d = Inr n"
  shows "parseExactMoney (formatExactMoney m) d = Inr m \<and>
    (formatExactMoney m = formatExactMoney n \<longleftrightarrow> money_atomicUnits m = money_atomicUnits n)"
proof -
  have wf: "wf_exact_money d m" "wf_exact_money d n"
    using assms by (auto intro: parse_wf)
  have "formatExactMoney m = formatExactMoney n" if "money_atomicUnits m = money_atomicUnits n"
    using wf_exact_moneyD(6) [OF wf(1)] wf_exact_moneyD(6) [OF wf(2)] that by (simp add: formatExactMoney_def)
  moreover have "m = n" if "formatExactMoney m = formatExactMoney n"
    by (rule exact_codec.render_inj [OF wf that])
  ultimately show ?thesis
    using exact_codec.reparse [OF assms(1)] by blast
qed

theorem exact_money_roundtrip_witness:
  "\<exists>m n. parseExactMoney ''007.50'' sample_denomination = Inr m \<and> parseExactMoney ''7.5'' sample_denomination = Inr n \<and>
     formatExactMoney m = ''7.5'' \<and> parseExactMoney (formatExactMoney m) sample_denomination = Inr m \<and>
     formatExactMoney m = formatExactMoney n"
proof -
  let ?m = "\<lparr>money_denominationId = ''usd'', money_amount = ''7.5'', money_atomicUnits = 750, money_scale = 2\<rparr>"
  have p: "parseExactMoney ''007.50'' sample_denomination = Inr ?m" "parseExactMoney ''7.5'' sample_denomination = Inr ?m"
    by code_simp+
  have "formatExactMoney ?m = ''7.5''" by code_simp
  then show ?thesis using p exact_money_roundtrip [OF p] by blast
qed

text \<open>Addition adds the atomic units and subtraction undoes it; a subtraction that would go
  below zero is refused with an insufficient-funds error and nothing else is.\<close>

theorem exact_money_add_subtract:
  assumes "parseExactMoney s d = Inr m" "parseExactMoney t d = Inr n"
  shows "\<exists>r. addExactMoney m n = Inr r \<and> money_atomicUnits r = money_atomicUnits m + money_atomicUnits n \<and>
    subtractExactMoney r n = Inr m \<and>
    (subtractExactMoney m n = Inl insufficientFunds \<longleftrightarrow> money_atomicUnits m < money_atomicUnits n)"
proof -
  have wf: "wf_exact_money d m" "wf_exact_money d n"
    using assms by (auto intro: parse_wf)
  have nn: "0 \<le> money_atomicUnits m" "0 \<le> money_atomicUnits n"
    using wf_exact_moneyD(2) wf by auto
  obtain r where r: "addExactMoney m n = Inr r" "wf_exact_money d r"
    "money_atomicUnits r = money_atomicUnits m + money_atomicUnits n"
    using add_wf [OF wf] wf_from_units [OF wf(1), of "money_atomicUnits m + money_atomicUnits n"] nn
      exactMoneyFromAtomicUnits_wf by (metis add_nonneg_nonneg)
  have "subtractExactMoney r n = exactMoneyFromAtomicUnits (money_atomicUnits m) d"
    using subtract_wf [OF r(2) wf(2)] r(3) nn by simp
  also have "\<dots> = Inr m"
    using wf(1) by (simp add: wf_exact_money_def)
  finally have "subtractExactMoney r n = Inr m" .
  moreover have "subtractExactMoney m n = Inl insufficientFunds \<longleftrightarrow> money_atomicUnits m < money_atomicUnits n"
    using subtract_wf [OF wf] wf_from_units [OF wf(1), of "money_atomicUnits m - money_atomicUnits n"] by auto
  ultimately show ?thesis using r by blast
qed

theorem exact_money_add_subtract_witness:
  "\<exists>m n r. parseExactMoney ''1.25'' sample_denomination = Inr m \<and> parseExactMoney ''3'' sample_denomination = Inr n \<and>
     addExactMoney m n = Inr r \<and> money_atomicUnits r = 425 \<and> subtractExactMoney r n = Inr m \<and>
     subtractExactMoney m n = Inl insufficientFunds"
proof -
  let ?m = "\<lparr>money_denominationId = ''usd'', money_amount = ''1.25'', money_atomicUnits = 125, money_scale = 2\<rparr>"
  let ?n = "\<lparr>money_denominationId = ''usd'', money_amount = ''3'', money_atomicUnits = 300, money_scale = 2\<rparr>"
  have p: "parseExactMoney ''1.25'' sample_denomination = Inr ?m" "parseExactMoney ''3'' sample_denomination = Inr ?n"
    by code_simp+
  show ?thesis using p exact_money_add_subtract [OF p] by auto
qed

text \<open>A conversion to settlement units is exact, so converting the result back through the same
  mapping restores the amount; an amount that does not divide is refused.\<close>

theorem settlement_conversion_roundtrip:
  assumes "parseExactMoney s d = Inr m" "convertToSettlementAtomicUnits m mp a = Inr u"
    and "0 < em_numerator mp" "0 < em_denominator mp"
  shows "u * em_denominator mp = money_atomicUnits m * em_numerator mp \<and>
    convertFromSettlementAtomicUnits u mp d a = Inr m"
proof -
  note C = convertTo_exact [OF assms(2)]
  have wf: "wf_exact_money d m" using assms(1) by (rule parse_wf)
  have "convertFromSettlementAtomicUnits u mp d a = exactMoneyFromAtomicUnits (money_atomicUnits m) d"
    using C wf_exact_moneyD [OF wf] assms by (intro convertFrom_eq) auto
  then show ?thesis using C(1) wf by (simp add: wf_exact_money_def)
qed

theorem settlement_conversion_roundtrip_witness:
  "\<exists>m. parseExactMoney ''1.5'' sample_denomination = Inr m \<and>
     convertFromSettlementAtomicUnits 1500000
       \<lparr>em_id = ''e'', em_denominationId = ''usd'', em_settlementAssetId = ''a'', em_numerator = 10000,
        em_denominator = 1, em_status = ACTIVE, em_version = 1\<rparr> sample_denomination
       \<lparr>sa_id = ''a'', sa_rail = ''r'', sa_network = ''n'', sa_assetReference = ''x'', sa_decimals = 6,
        sa_status = ACTIVE, sa_version = 1\<rparr> = Inr m"
proof -
  let ?m = "\<lparr>money_denominationId = ''usd'', money_amount = ''1.5'', money_atomicUnits = 150, money_scale = 2\<rparr>"
  let ?e = "\<lparr>em_id = ''e'', em_denominationId = ''usd'', em_settlementAssetId = ''a'', em_numerator = 10000,
        em_denominator = 1, em_status = ACTIVE, em_version = 1\<rparr>"
  let ?a = "\<lparr>sa_id = ''a'', sa_rail = ''r'', sa_network = ''n'', sa_assetReference = ''x'', sa_decimals = 6,
        sa_status = ACTIVE, sa_version = 1\<rparr>"
  have p: "parseExactMoney ''1.5'' sample_denomination = Inr ?m" by code_simp
  have c: "convertToSettlementAtomicUnits ?m ?e ?a = Inr 1500000" by code_simp
  show ?thesis using p settlement_conversion_roundtrip [OF p c] by auto
qed

end
