(* ===== verification/Policy.thy ===== *)
theory Policy
  imports Exact_Money Payment_Status Json
begin

text \<open>
  \<^verbatim>\<open>packages/core/src/policy.ts\<close>: the evaluation of a spend policy. The evaluation collects
  every limit the payment breaks, in the order of the source, and decides from them; the
  lemmas characterise the decision and show that a payment that is not denied stays inside
  every limit.
\<close>

datatype SpendPolicyStatus = SP_DRAFT | SP_ACTIVE | SP_RETIRED

record SpendPolicy =
  sp_id :: string
  sp_accountId :: string
  sp_version :: int
  sp_status :: SpendPolicyStatus
  sp_maxPerPayment :: "ExactMoney option"
  sp_rollingBudget :: "ExactMoney option"
  sp_rollingWindowSeconds :: "int option"
  sp_transactionCountCap :: "int option"
  sp_approvalThreshold :: "ExactMoney option"
  sp_rollingBudgetEscalatable :: bool
  sp_transactionCountEscalatable :: bool

record SpendPolicyEvaluationInput =
  pi_policy :: SpendPolicy
  pi_amount :: ExactMoney
  pi_destinationApproved :: bool
  pi_confirmedSpend :: ExactMoney
  pi_heldReservations :: ExactMoney
  pi_unresolvedSpend :: ExactMoney
  pi_transactionCount :: number

record PolicyContext =
  pc_confirmedSpend :: ExactMoney
  pc_heldReservations :: ExactMoney
  pc_unresolvedSpend :: ExactMoney
  pc_transactionCount :: number

record PolicyDecision =
  pd_decision :: PaymentPolicyDecision
  pd_reasonCodes :: "string list"
  pd_policyId :: string
  pd_policyVersion :: int
  pd_evaluatedAmount :: ExactMoney
  pd_context :: PolicyContext
  pd_escalatable :: bool

fun same_shape_all :: "ExactMoney \<Rightarrow> ExactMoney list \<Rightarrow> unit result" where
  "same_shape_all fst_value [] = Inr ()"
| "same_shape_all fst_value (value # rest) =
     (if money_denominationId value \<noteq> money_denominationId fst_value \<or>
         money_scale value \<noteq> money_scale fst_value
      then throwConflict ''Policy amounts must use one denomination and scale''
      else same_shape_all fst_value rest)"

definition assertMoneyCompatibility :: "SpendPolicyEvaluationInput \<Rightarrow> unit result" where
  "assertMoneyCompatibility input =
     (let values = List.map_filter (\<lambda>v. v)
        [Some (pi_amount input), Some (pi_confirmedSpend input), Some (pi_heldReservations input),
         Some (pi_unresolvedSpend input), sp_maxPerPayment (pi_policy input),
         sp_rollingBudget (pi_policy input), sp_approvalThreshold (pi_policy input)]
      in case values of
           [] \<Rightarrow> throwValidation ''Policy amount is missing''
         | fst_value # rest \<Rightarrow> same_shape_all fst_value rest)"

definition addPolicyAmounts :: "SpendPolicyEvaluationInput \<Rightarrow> ExactMoney result" where
  "addPolicyAmounts input =
     (let current = money_atomicUnits (pi_confirmedSpend input) + money_atomicUnits (pi_heldReservations input);
          total = current + money_atomicUnits (pi_unresolvedSpend input) + money_atomicUnits (pi_amount input)
      in withAtomicUnits (pi_amount input) total)"

definition decision ::
    "SpendPolicyEvaluationInput \<Rightarrow> PaymentPolicyDecision \<Rightarrow> string list \<Rightarrow> bool \<Rightarrow> PolicyDecision" where
  "decision input value reasonCodes escalatable =
     \<lparr>pd_decision = value, pd_reasonCodes = reasonCodes, pd_policyId = sp_id (pi_policy input),
      pd_policyVersion = sp_version (pi_policy input), pd_evaluatedAmount = pi_amount input,
      pd_context = \<lparr>pc_confirmedSpend = pi_confirmedSpend input,
        pc_heldReservations = pi_heldReservations input,
        pc_unresolvedSpend = pi_unresolvedSpend input,
        pc_transactionCount = pi_transactionCount input\<rparr>,
      pd_escalatable = escalatable\<rparr>"

text \<open>\<open>limit !== null && compareExactMoney(value, limit) > 0\<close> and the same with \<open>>= 0\<close>.\<close>

fun exceeds :: "ExactMoney \<Rightarrow> ExactMoney option \<Rightarrow> bool result" where
  "exceeds value None = Inr False"
| "exceeds value (Some limit) = bind_r (compareExactMoney value limit) (\<lambda>c. Inr (c > 0))"

fun reaches :: "ExactMoney \<Rightarrow> ExactMoney option \<Rightarrow> bool result" where
  "reaches value None = Inr False"
| "reaches value (Some limit) = bind_r (compareExactMoney value limit) (\<lambda>c. Inr (c \<ge> 0))"

definition evaluateSpendPolicy :: "SpendPolicyEvaluationInput \<Rightarrow> PolicyDecision result" where
  "evaluateSpendPolicy input =
     bind_r (assertMoneyCompatibility input) (\<lambda>_.
     bind_r (throw_if (sp_status (pi_policy input) \<noteq> SP_ACTIVE)
       (DomainErr (ValidationError ''Only an ACTIVE spend policy can be evaluated'' None))) (\<lambda>_.
     bind_r (throw_if (num_val (pi_transactionCount input) < 0 \<or> \<not> isInteger (pi_transactionCount input))
       (DomainErr (ValidationError ''Transaction count must be a non-negative integer'' None))) (\<lambda>_.
     bind_r (exceeds (pi_amount input) (sp_maxPerPayment (pi_policy input))) (\<lambda>overPayment.
     bind_r (addPolicyAmounts input) (\<lambda>budgetUsed.
     bind_r (exceeds budgetUsed (sp_rollingBudget (pi_policy input))) (\<lambda>overBudget.
     let overCount = (case sp_transactionCountCap (pi_policy input) of
             None \<Rightarrow> False
           | Some cap \<Rightarrow> num_val (pi_transactionCount input) + 1 > cap);
         denied =
           (if \<not> pi_destinationApproved input then [''DESTINATION_NOT_APPROVED''] else []) @
           (if overPayment then [''PER_PAYMENT_LIMIT_EXCEEDED''] else []) @
           (if overBudget then [''ROLLING_BUDGET_EXCEEDED''] else []) @
           (if overCount then [''TRANSACTION_COUNT_CAP_EXCEEDED''] else []);
         escalatable =
           (pi_destinationApproved input \<and> \<not> overPayment \<and>
            (overBudget \<longrightarrow> sp_rollingBudgetEscalatable (pi_policy input)) \<and>
            (overCount \<longrightarrow> sp_transactionCountEscalatable (pi_policy input)))
     in if length denied > 0 then Inr (decision input PD_DENY denied escalatable)
        else bind_r (reaches (pi_amount input) (sp_approvalThreshold (pi_policy input))) (\<lambda>atThreshold.
          if atThreshold then Inr (decision input PD_REQUIRE_APPROVAL [''APPROVAL_THRESHOLD''] True)
          else Inr (decision input PD_ALLOW [] True))))))))"

definition policyDecisionFingerprint :: "PolicyDecision \<Rightarrow> string" where
  "policyDecisionFingerprint d = stringify (JObj
     [(''decision'', JStr (policy_decision_name (pd_decision d))),
      (''reason_codes'', JArr (map JStr (pd_reasonCodes d))),
      (''policy_id'', JStr (pd_policyId d)),
      (''policy_version'', json_int (pd_policyVersion d)),
      (''amount'', JObj
        [(''denomination_id'', JStr (money_denominationId (pd_evaluatedAmount d))),
         (''atomic_units'', JStr (int_to_string (money_atomicUnits (pd_evaluatedAmount d)))),
         (''scale'', json_int (money_scale (pd_evaluatedAmount d)))]),
      (''context'', JObj
        [(''confirmed_spend'', JStr (int_to_string (money_atomicUnits (pc_confirmedSpend (pd_context d))))),
         (''held_reservations'', JStr (int_to_string (money_atomicUnits (pc_heldReservations (pd_context d))))),
         (''unresolved_spend'', JStr (int_to_string (money_atomicUnits (pc_unresolvedSpend (pd_context d))))),
         (''transaction_count'', JNumber (number_to_string (pc_transactionCount (pd_context d))))])])"

definition subtractHeldReservation :: "ExactMoney \<Rightarrow> ExactMoney \<Rightarrow> ExactMoney result" where
  "subtractHeldReservation = subtractExactMoney"

section \<open>Lemmas\<close>

text \<open>All amounts of an evaluation belong to one denomination, as the repository builds them.\<close>

definition wf_policy_input :: "Denomination \<Rightarrow> SpendPolicyEvaluationInput \<Rightarrow> bool" where
  "wf_policy_input d input \<longleftrightarrow>
     wf_exact_money d (pi_amount input) \<and> wf_exact_money d (pi_confirmedSpend input) \<and>
     wf_exact_money d (pi_heldReservations input) \<and> wf_exact_money d (pi_unresolvedSpend input) \<and>
     pred_option (wf_exact_money d) (sp_maxPerPayment (pi_policy input)) \<and>
     pred_option (wf_exact_money d) (sp_rollingBudget (pi_policy input)) \<and>
     pred_option (wf_exact_money d) (sp_approvalThreshold (pi_policy input))"

definition budget_used :: "SpendPolicyEvaluationInput \<Rightarrow> int" where
  "budget_used input = money_atomicUnits (pi_confirmedSpend input) + money_atomicUnits (pi_heldReservations input) +
     money_atomicUnits (pi_unresolvedSpend input) + money_atomicUnits (pi_amount input)"

fun over_limit :: "int \<Rightarrow> ExactMoney option \<Rightarrow> bool" where
  "over_limit u None = False"
| "over_limit u (Some limit) = (u > money_atomicUnits limit)"

fun at_limit :: "int \<Rightarrow> ExactMoney option \<Rightarrow> bool" where
  "at_limit u None = False"
| "at_limit u (Some limit) = (u \<ge> money_atomicUnits limit)"

definition over_count :: "SpendPolicyEvaluationInput \<Rightarrow> bool" where
  "over_count input = (case sp_transactionCountCap (pi_policy input) of
      None \<Rightarrow> False | Some cap \<Rightarrow> num_val (pi_transactionCount input) + 1 > cap)"

text \<open>The reasons for a denial, read off the limits.\<close>

definition denial_reasons :: "SpendPolicyEvaluationInput \<Rightarrow> string list" where
  "denial_reasons input =
     (if \<not> pi_destinationApproved input then [''DESTINATION_NOT_APPROVED''] else []) @
     (if over_limit (money_atomicUnits (pi_amount input)) (sp_maxPerPayment (pi_policy input))
      then [''PER_PAYMENT_LIMIT_EXCEEDED''] else []) @
     (if over_limit (budget_used input) (sp_rollingBudget (pi_policy input))
      then [''ROLLING_BUDGET_EXCEEDED''] else []) @
     (if over_count input then [''TRANSACTION_COUNT_CAP_EXCEEDED''] else [])"

lemma same_shape_all_wf:
  "wf_exact_money d m \<Longrightarrow> list_all (wf_exact_money d) ms \<Longrightarrow> same_shape_all m ms = Inr ()"
  by (induction ms) (auto simp: wf_exact_moneyD)

lemma compatible_wf: "wf_policy_input d input \<Longrightarrow> assertMoneyCompatibility input = Inr ()"
  unfolding wf_policy_input_def assertMoneyCompatibility_def
  by (cases "sp_maxPerPayment (pi_policy input)"; cases "sp_rollingBudget (pi_policy input)";
      cases "sp_approvalThreshold (pi_policy input)")
    (simp_all add: map_filter_simps same_shape_all_wf [of d] del: same_shape_all.simps)

lemma exceeds_wf: "wf_exact_money d m \<Longrightarrow> pred_option (wf_exact_money d) l \<Longrightarrow>
    exceeds m l = Inr (over_limit (money_atomicUnits m) l)"
  by (cases l) (auto simp: compare_wf sgn_if)

lemma reaches_wf: "wf_exact_money d m \<Longrightarrow> pred_option (wf_exact_money d) l \<Longrightarrow>
    reaches m l = Inr (at_limit (money_atomicUnits m) l)"
  by (cases l) (auto simp: compare_wf sgn_if)

lemma addPolicyAmounts_wf:
  assumes "wf_policy_input d input"
  shows "\<exists>m. addPolicyAmounts input = Inr m \<and> wf_exact_money d m \<and> money_atomicUnits m = budget_used input"
proof -
  have wf: "wf_exact_money d (pi_amount input)" "wf_exact_money d (pi_confirmedSpend input)"
    "wf_exact_money d (pi_heldReservations input)" "wf_exact_money d (pi_unresolvedSpend input)"
    using assms by (auto simp: wf_policy_input_def)
  then have nn: "0 \<le> budget_used input"
    using wf_exact_moneyD(2) [OF wf(1)] wf_exact_moneyD(2) [OF wf(2)]
      wf_exact_moneyD(2) [OF wf(3)] wf_exact_moneyD(2) [OF wf(4)] by (simp add: budget_used_def)
  then have "addPolicyAmounts input = exactMoneyFromAtomicUnits (budget_used input) d"
    using withAtomicUnits_wf_iff [OF wf(1)] by (simp add: addPolicyAmounts_def Let_def budget_used_def)
  then show ?thesis
    using wf_from_units [OF wf(1) nn] exactMoneyFromAtomicUnits_wf by metis
qed

lemma evaluateSpendPolicy_wf:
  assumes wf: "wf_policy_input d input" and act: "sp_status (pi_policy input) = SP_ACTIVE"
    and n: "pi_transactionCount input = IntNum n" "0 \<le> n"
  shows "evaluateSpendPolicy input =
     (if denial_reasons input \<noteq> []
      then Inr (decision input PD_DENY (denial_reasons input)
        (pi_destinationApproved input \<and>
         \<not> over_limit (money_atomicUnits (pi_amount input)) (sp_maxPerPayment (pi_policy input)) \<and>
         (over_limit (budget_used input) (sp_rollingBudget (pi_policy input)) \<longrightarrow>
            sp_rollingBudgetEscalatable (pi_policy input)) \<and>
         (over_count input \<longrightarrow> sp_transactionCountEscalatable (pi_policy input))))
      else if at_limit (money_atomicUnits (pi_amount input)) (sp_approvalThreshold (pi_policy input))
      then Inr (decision input PD_REQUIRE_APPROVAL [''APPROVAL_THRESHOLD''] True)
      else Inr (decision input PD_ALLOW [] True))"
proof -
  obtain m where m: "addPolicyAmounts input = Inr m" "wf_exact_money d m" "money_atomicUnits m = budget_used input"
    using addPolicyAmounts_wf [OF wf] by blast
  have p: "wf_exact_money d (pi_amount input)" "pred_option (wf_exact_money d) (sp_maxPerPayment (pi_policy input))"
    "pred_option (wf_exact_money d) (sp_rollingBudget (pi_policy input))"
    "pred_option (wf_exact_money d) (sp_approvalThreshold (pi_policy input))"
    using wf by (auto simp: wf_policy_input_def)
  note lim = exceeds_wf [OF p(1,2)] exceeds_wf [OF m(2) p(3)] reaches_wf [OF p(1,4)]
  have nn: "\<not> n < 0" using n(2) by simp
  show ?thesis
    unfolding evaluateSpendPolicy_def compatible_wf [OF wf]
    by (simp add: act n(1) nn lim m(1,3) Let_def denial_reasons_def over_count_def)
qed

lemma decision_sel [simp]:
  "pd_decision (decision i v r e) = v" "pd_reasonCodes (decision i v r e) = r"
  "pd_policyId (decision i v r e) = sp_id (pi_policy i)"
  "pd_policyVersion (decision i v r e) = sp_version (pi_policy i)"
  "pd_evaluatedAmount (decision i v r e) = pi_amount i" "pd_escalatable (decision i v r e) = e"
  by (simp_all add: decision_def)

section \<open>Properties\<close>

text \<open>C18: an evaluation of an active policy on amounts of one denomination always decides. It
  denies exactly when the destination is not approved or one of the three limits is broken, and
  names every broken limit; otherwise it asks for approval exactly when the amount reaches the
  threshold.\<close>

theorem policy_decision_characterised:
  assumes "wf_policy_input d input" "sp_status (pi_policy input) = SP_ACTIVE"
    and "pi_transactionCount input = IntNum n" "0 \<le> n"
  shows "\<exists>r. evaluateSpendPolicy input = Inr r \<and>
    (pd_decision r = PD_DENY \<longleftrightarrow> \<not> pi_destinationApproved input \<or>
       over_limit (money_atomicUnits (pi_amount input)) (sp_maxPerPayment (pi_policy input)) \<or>
       over_limit (budget_used input) (sp_rollingBudget (pi_policy input)) \<or> over_count input) \<and>
    (pd_decision r = PD_DENY \<longrightarrow> pd_reasonCodes r = denial_reasons input) \<and>
    (pd_decision r = PD_REQUIRE_APPROVAL \<longleftrightarrow> pd_decision r \<noteq> PD_DENY \<and>
       at_limit (money_atomicUnits (pi_amount input)) (sp_approvalThreshold (pi_policy input)))"
proof -
  have "denial_reasons input = [] \<longleftrightarrow> \<not> (\<not> pi_destinationApproved input \<or>
       over_limit (money_atomicUnits (pi_amount input)) (sp_maxPerPayment (pi_policy input)) \<or>
       over_limit (budget_used input) (sp_rollingBudget (pi_policy input)) \<or> over_count input)"
    by (simp add: denial_reasons_def)
  then show ?thesis
    using evaluateSpendPolicy_wf [OF assms] by simp
qed

theorem policy_decision_characterised_witness:
  "\<exists>input r. evaluateSpendPolicy input = Inr r \<and> pd_decision r = PD_DENY \<and>
     pd_reasonCodes r = [''ROLLING_BUDGET_EXCEEDED'']"
proof -
  let ?m = "\<lambda>a u. \<lparr>money_denominationId = ''usd'', money_amount = a, money_atomicUnits = u, money_scale = 2\<rparr>"
  let ?i = "\<lparr>pi_policy = \<lparr>sp_id = ''p'', sp_accountId = ''a'', sp_version = 1, sp_status = SP_ACTIVE,
      sp_maxPerPayment = None, sp_rollingBudget = Some (?m ''5'' 500), sp_rollingWindowSeconds = None,
      sp_transactionCountCap = None, sp_approvalThreshold = None, sp_rollingBudgetEscalatable = False,
      sp_transactionCountEscalatable = False\<rparr>,
    pi_amount = ?m ''3'' 300, pi_destinationApproved = True, pi_confirmedSpend = ?m ''2'' 200,
    pi_heldReservations = ?m ''1'' 100, pi_unresolvedSpend = ?m ''0'' 0, pi_transactionCount = IntNum 2\<rparr>"
  have "exactMoneyFromAtomicUnits 500 sample_denomination = Inr (?m ''5'' 500)"
    "exactMoneyFromAtomicUnits 300 sample_denomination = Inr (?m ''3'' 300)"
    "exactMoneyFromAtomicUnits 200 sample_denomination = Inr (?m ''2'' 200)"
    "exactMoneyFromAtomicUnits 100 sample_denomination = Inr (?m ''1'' 100)"
    "exactMoneyFromAtomicUnits 0 sample_denomination = Inr (?m ''0'' 0)"
    by code_simp+
  then have wf: "wf_policy_input sample_denomination ?i"
    by (simp add: wf_policy_input_def wf_exact_money_def)
  have "over_limit (budget_used ?i) (sp_rollingBudget (pi_policy ?i))" "denial_reasons ?i = [''ROLLING_BUDGET_EXCEEDED'']"
    by (simp_all add: budget_used_def denial_reasons_def over_count_def)
  then show ?thesis
    using policy_decision_characterised [OF wf, of 2] by (intro exI [of _ ?i]) fastforce
qed

end
