(* ===== verification/Routing.thy ===== *)
theory Routing
  imports Payment_Status "HOL-Library.AList"
begin

text \<open>
  Route selection: \<^verbatim>\<open>packages/core/src/routing-v2.ts\<close> (settlement routes) and
  \<^verbatim>\<open>packages/core/src/router.ts\<close> with the request types of \<^verbatim>\<open>rail.ts\<close> (payment rails). A
  JavaScript \<^verbatim>\<open>Map\<close> is an association list: \<open>AList.update\<close> overwrites in place or appends, as
  \<^verbatim>\<open>Map.set\<close> does. The lemmas show that the selected route is active and eligible, that the
  fallback is the least candidate by priority and id, and that the selection does not depend
  on the order in which the routes are listed.
\<close>

section \<open>Settlement routes\<close>

datatype SettlementRouteStatus = SR_ACTIVE | SR_DISABLED | SR_RETIRED

record SettlementRoute =
  sr_id :: string
  sr_rail :: string
  sr_railVersion :: string
  sr_network :: string
  sr_settlementAssetId :: string
  sr_economicMappingId :: string
  sr_status :: SettlementRouteStatus
  sr_priority :: int
  sr_configVersion :: string

record RouteCapability =
  rc_routeId :: string
  rc_eligible :: bool
  rc_reason :: "string option"
  rc_observedAt :: int
  rc_identityVersion :: string

record SettlementRouteSelectionInput =
  si_explicitRouteId :: "string option"
  si_configuredDefaultRouteId :: "string option"
  si_routeIdsWithCapability :: "string list option"

datatype RouteSelectionReason = EXPLICIT_PREFERENCE | CONFIGURED_DEFAULT | DETERMINISTIC_FALLBACK

record SettlementRouteSelection =
  sel_route :: SettlementRoute
  sel_reason :: RouteSelectionReason

definition js_Map :: "('k \<times> 'v) list \<Rightarrow> ('k \<times> 'v) list" where
  "js_Map entries = fold (\<lambda>(k, v) m. AList.update k v m) entries []"

definition compareStrings :: "string \<Rightarrow> string \<Rightarrow> int" where
  "compareStrings left right = (if left < right then -1 else if left > right then 1 else 0)"

definition route_key :: "SettlementRoute \<Rightarrow> order_key" where
  "route_key r = OrderKey (sr_priority r) (sr_id r)"

definition active_routes ::
    "SettlementRouteSelectionInput \<Rightarrow> SettlementRoute list \<Rightarrow> SettlementRoute list" where
  "active_routes input routes =
     (let eligibleIds = (case si_routeIdsWithCapability input of
            None \<Rightarrow> map sr_id routes
          | Some ids \<Rightarrow> ids)
      in filter (\<lambda>route. sr_status route = SR_ACTIVE \<and> sr_id route \<in> set eligibleIds) routes)"

definition capability_excludes :: "RouteCapability list \<Rightarrow> SettlementRoute \<Rightarrow> bool" where
  "capability_excludes capabilities route =
     (case map_of (js_Map (map (\<lambda>c. (rc_routeId c, c)) capabilities)) (sr_id route) of
        None \<Rightarrow> False
      | Some capability \<Rightarrow> \<not> rc_eligible capability)"

text \<open>\<open>byId\<close> after the deletion loop over the active routes.\<close>

definition routes_by_id ::
    "SettlementRouteSelectionInput \<Rightarrow> SettlementRoute list \<Rightarrow> RouteCapability list \<Rightarrow>
     (string \<times> SettlementRoute) list" where
  "routes_by_id input routes capabilities =
     (let active = active_routes input routes
      in fold (\<lambda>route m. if capability_excludes capabilities route
                         then AList.delete (sr_id route) m else m)
           active (js_Map (map (\<lambda>route. (sr_id route, route)) active)))"

definition selectSettlementRoute ::
    "SettlementRouteSelectionInput \<Rightarrow> SettlementRoute list \<Rightarrow> RouteCapability list \<Rightarrow>
     SettlementRouteSelection result" where
  "selectSettlementRoute input routes capabilities =
     (let byId = routes_by_id input routes capabilities;
          candidates = sort_key route_key (map snd byId);
          fallback = (case candidates of
              [] \<Rightarrow> throwValidation ''No active settlement route is eligible''
            | route # _ \<Rightarrow> Inr \<lparr>sel_route = route, sel_reason = DETERMINISTIC_FALLBACK\<rparr>)
      in case si_explicitRouteId input of
           Some explicitId \<Rightarrow>
             (case map_of byId explicitId of
                None \<Rightarrow> Inl (unsupportedRail explicitId)
              | Some route \<Rightarrow> Inr \<lparr>sel_route = route, sel_reason = EXPLICIT_PREFERENCE\<rparr>)
         | None \<Rightarrow>
             (case si_configuredDefaultRouteId input of
                None \<Rightarrow> fallback
              | Some defaultId \<Rightarrow>
                  (case map_of byId defaultId of
                     Some route \<Rightarrow> Inr \<lparr>sel_route = route, sel_reason = CONFIGURED_DEFAULT\<rparr>
                   | None \<Rightarrow> fallback)))"

section \<open>Payment rails\<close>

record RailRecipientDestination =
  rd_rail :: string
  rd_type :: string
  rd_reference :: string

record RailPaymentRequest =
  rq_operation :: PaymentKind
  rq_currency :: string
  rq_amount_currency :: string
  rq_amount_atomicUnits :: int
  rq_payerAccountId :: string
  rq_recipientId :: string
  rq_destination :: RailRecipientDestination
  rq_description :: "string option"
  rq_externalReference :: "string option"

text \<open>Of a registered rail, selection uses the name and \<^verbatim>\<open>canRoute\<close>.\<close>

record PaymentRail =
  rail_name :: string
  rail_canRoute :: "RailPaymentRequest \<Rightarrow> bool"

definition selectPaymentRail :: "RailPaymentRequest \<Rightarrow> PaymentRail list \<Rightarrow> PaymentRail result" where
  "selectPaymentRail request rails =
     (let candidates = sort_key rail_name (filter (\<lambda>rail. rail_canRoute rail request) rails)
      in case candidates of
           [] \<Rightarrow> Inl (unsupportedRail (rd_rail (rq_destination request)))
         | selected # _ \<Rightarrow> Inr selected)"

section \<open>Lemmas\<close>

lemma map_of_js_Map_aux:
  "map_of (fold (\<lambda>(k, v) m. AList.update k v m) xs m) = map_of m ++ map_of (rev xs)"
  by (induction xs arbitrary: m) (auto simp: update_conv' map_add_def fun_eq_iff split: option.splits)

lemma map_of_js_Map [simp]: "map_of (js_Map xs) = map_of (rev xs)"
  by (simp add: js_Map_def map_of_js_Map_aux)

lemma distinct_js_Map_aux:
  "distinct (map fst m) \<Longrightarrow> distinct (map fst (fold (\<lambda>(k, v) m. AList.update k v m) xs m))"
  by (induction xs arbitrary: m) (auto simp: distinct_update)

lemma distinct_js_Map [simp]: "distinct (map fst (js_Map xs))"
  by (simp add: js_Map_def distinct_js_Map_aux)

lemma map_of_delete_loop:
  "map_of (fold (\<lambda>r m. if P r then AList.delete (key r) m else m) rs m) k =
     (if \<exists>r\<in>set rs. P r \<and> key r = k then None else map_of m k)"
  by (induction rs arbitrary: m) (auto simp: delete_conv')

lemma distinct_delete_loop:
  "distinct (map fst m) \<Longrightarrow>
     distinct (map fst (fold (\<lambda>r m. if P r then AList.delete (key r) m else m) rs m))"
  by (induction rs arbitrary: m) (auto simp: distinct_delete)

lemma map_of_keyed:
  "map_of (rev (map (\<lambda>r. (key r, r)) rs)) k = Some r \<Longrightarrow> r \<in> set rs \<and> key r = k"
  by (auto dest: map_of_SomeD)

lemma map_of_keyed_distinct:
  assumes "distinct (map key rs)" "r \<in> set rs"
  shows "map_of (rev (map (\<lambda>r. (key r, r)) rs)) (key r) = Some r"
proof -
  have "distinct (map fst (rev (map (\<lambda>r. (key r, r)) rs)))"
    using assms(1) by (simp add: comp_def rev_map [symmetric])
  then show ?thesis using assms(2) by (intro map_of_is_SomeI) auto
qed

text \<open>The candidates of a selection, as a set.\<close>

definition eligible_route ::
    "SettlementRouteSelectionInput \<Rightarrow> RouteCapability list \<Rightarrow> SettlementRoute \<Rightarrow> bool" where
  "eligible_route input capabilities r \<longleftrightarrow> sr_status r = SR_ACTIVE \<and>
     (case si_routeIdsWithCapability input of None \<Rightarrow> True | Some ids \<Rightarrow> sr_id r \<in> set ids) \<and>
     \<not> capability_excludes capabilities r"

lemma capability_excludes_id:
  "sr_id r = sr_id s \<Longrightarrow> capability_excludes cs r = capability_excludes cs s"
  by (simp add: capability_excludes_def)

lemma active_routes_iff:
  "r \<in> set (active_routes input routes) \<longleftrightarrow> r \<in> set routes \<and> sr_status r = SR_ACTIVE \<and>
     (case si_routeIdsWithCapability input of None \<Rightarrow> True | Some ids \<Rightarrow> sr_id r \<in> set ids)"
  by (auto simp: active_routes_def Let_def split: option.splits)

lemma distinct_routes_by_id: "distinct (map fst (routes_by_id input routes cs))"
  unfolding routes_by_id_def Let_def by (rule distinct_delete_loop) simp

lemma routes_by_id_SomeD:
  assumes "map_of (routes_by_id input routes cs) k = Some r"
  shows "r \<in> set routes \<and> sr_id r = k \<and> eligible_route input cs r"
proof -
  let ?A = "active_routes input routes"
  have lookup: "map_of (rev (map (\<lambda>r. (sr_id r, r)) ?A)) k = Some r"
    and keep: "\<not> (\<exists>s\<in>set ?A. capability_excludes cs s \<and> sr_id s = k)"
    using assms unfolding routes_by_id_def Let_def map_of_delete_loop by (simp_all split: if_splits)
  from map_of_keyed [OF lookup] have "r \<in> set ?A" "sr_id r = k" by auto
  then show ?thesis using keep by (auto simp: eligible_route_def active_routes_iff)
qed

lemma routes_by_id_Some_iff:
  assumes "distinct (map sr_id routes)"
  shows "map_of (routes_by_id input routes cs) k = Some r \<longleftrightarrow>
     r \<in> set routes \<and> sr_id r = k \<and> eligible_route input cs r"
proof
  assume r: "r \<in> set routes \<and> sr_id r = k \<and> eligible_route input cs r"
  let ?A = "active_routes input routes"
  have act: "r \<in> set ?A" using r by (auto simp: eligible_route_def active_routes_iff)
  have "distinct (map sr_id ?A)" using assms by (simp add: active_routes_def Let_def distinct_map_filter)
  then have "map_of (rev (map (\<lambda>r. (sr_id r, r)) ?A)) k = Some r"
    using act r map_of_keyed_distinct [of sr_id ?A r] by simp
  moreover have "\<not> (\<exists>s\<in>set ?A. capability_excludes cs s \<and> sr_id s = k)"
    using r unfolding eligible_route_def by (metis capability_excludes_id)
  ultimately show "map_of (routes_by_id input routes cs) k = Some r"
    unfolding routes_by_id_def Let_def map_of_delete_loop by simp
qed (rule routes_by_id_SomeD)

lemma values_routes_by_id:
  "set (map snd (routes_by_id input routes cs)) = {r. \<exists>k. map_of (routes_by_id input routes cs) k = Some r}"
  using distinct_routes_by_id [of input routes cs]
  by (auto simp: in_set_conv_decomp dest: map_of_SomeD intro: map_of_is_SomeI)

lemma hd_sort_key_min:
  assumes "sort_key f xs = x # ys"
  shows "x \<in> set xs" "\<And>y. y \<in> set xs \<Longrightarrow> f x \<le> f y"
proof -
  have "sorted (map f (x # ys))" using assms by (metis sorted_sort_key)
  moreover have "set xs = set (x # ys)" using assms by (metis set_sort)
  ultimately show "x \<in> set xs" "\<And>y. y \<in> set xs \<Longrightarrow> f x \<le> f y" by auto
qed

lemma sort_key_Nil_iff [simp]: "sort_key f xs = [] \<longleftrightarrow> xs = []"
  by (metis length_0_conv length_sort)

lemma sort_key_hd_unique:
  assumes "set xs = set ys" "inj_on f (set xs)"
  shows "(case sort_key f xs of [] \<Rightarrow> a | x # _ \<Rightarrow> b x) = (case sort_key f ys of [] \<Rightarrow> a | y # _ \<Rightarrow> b y)"
proof (cases "sort_key f xs")
  case Nil
  then have "sort_key f ys = []" using assms(1) by simp
  with Nil show ?thesis by simp
next
  case (Cons x xs')
  then obtain y ys' where y: "sort_key f ys = y # ys'"
    using assms(1) by (cases "sort_key f ys") auto
  have "f x = f y"
    using hd_sort_key_min [OF Cons] hd_sort_key_min [OF y] assms(1) by (intro antisym) auto
  then have "x = y"
    using hd_sort_key_min(1) [OF Cons] hd_sort_key_min(1) [OF y] assms by (metis inj_onD)
  with Cons y show ?thesis by simp
qed

section \<open>Properties\<close>

text \<open>A selected route is one of the listed routes, is active, is allowed by the requested ids
  and is not excluded by a capability; a fallback is the first such route by priority and id.\<close>

theorem selected_route_eligible:
  assumes "selectSettlementRoute input routes cs = Inr s" "distinct (map sr_id routes)"
  shows "sel_route s \<in> set routes \<and> eligible_route input cs (sel_route s) \<and>
    (sel_reason s = DETERMINISTIC_FALLBACK \<longrightarrow>
       (\<forall>r \<in> set routes. eligible_route input cs r \<longrightarrow> route_key (sel_route s) \<le> route_key r))"
proof -
  let ?by = "routes_by_id input routes cs"
  have vals: "r \<in> set (map snd ?by) \<longleftrightarrow> r \<in> set routes \<and> eligible_route input cs r" for r
    unfolding values_routes_by_id using routes_by_id_Some_iff [OF assms(2)] by auto
  have fb: "sel_route s \<in> set routes \<and> eligible_route input cs (sel_route s) \<and>
      (\<forall>r \<in> set routes. eligible_route input cs r \<longrightarrow> route_key (sel_route s) \<le> route_key r)"
    if "sort_key route_key (map snd ?by) = sel_route s # rest" for rest
    using hd_sort_key_min [OF that] vals by blast
  show ?thesis
    using assms(1) fb routes_by_id_SomeD [of input routes cs]
    by (auto simp: selectSettlementRoute_def Let_def split: option.splits list.splits)
qed

definition route_sample :: "string \<Rightarrow> SettlementRouteStatus \<Rightarrow> int \<Rightarrow> SettlementRoute" where
  "route_sample i st p = \<lparr>sr_id = i, sr_rail = ''R'', sr_railVersion = ''1'', sr_network = ''n'',
     sr_settlementAssetId = ''s'', sr_economicMappingId = ''m'', sr_status = st, sr_priority = p, sr_configVersion = ''c''\<rparr>"

theorem selected_route_eligible_witness:
  "\<exists>s. selectSettlementRoute
      \<lparr>si_explicitRouteId = None, si_configuredDefaultRouteId = None, si_routeIdsWithCapability = None\<rparr>
      [route_sample ''b'' SR_ACTIVE 2, route_sample ''c'' SR_DISABLED 1, route_sample ''a'' SR_ACTIVE 2] [] = Inr s \<and>
    eligible_route \<lparr>si_explicitRouteId = None, si_configuredDefaultRouteId = None, si_routeIdsWithCapability = None\<rparr>
      [] (sel_route s) \<and> sr_id (sel_route s) = ''a''"
proof -
  let ?i = "\<lparr>si_explicitRouteId = None, si_configuredDefaultRouteId = None, si_routeIdsWithCapability = None\<rparr>"
  let ?rs = "[route_sample ''b'' SR_ACTIVE 2, route_sample ''c'' SR_DISABLED 1, route_sample ''a'' SR_ACTIVE 2]"
  let ?s = "\<lparr>sel_route = route_sample ''a'' SR_ACTIVE 2, sel_reason = DETERMINISTIC_FALLBACK\<rparr>"
  have run: "selectSettlementRoute ?i ?rs [] = Inr ?s" by code_simp
  have "distinct (map sr_id ?rs)" by code_simp
  from selected_route_eligible [OF run this] run show ?thesis
    by (intro exI [of _ ?s]) (simp add: route_sample_def)
qed

text \<open>The selection does not depend on the order in which the routes are listed.\<close>

theorem route_selection_order_independent:
  assumes "mset routes = mset routes'" "distinct (map sr_id routes)"
  shows "selectSettlementRoute input routes cs = selectSettlementRoute input routes' cs"
proof -
  let ?by = "routes_by_id input routes cs" and ?by' = "routes_by_id input routes' cs"
  have s: "set routes = set routes'" using assms(1) by (rule mset_eq_setD)
  have d: "distinct (map sr_id routes')"
    using assms mset_eq_imp_distinct_iff [of "map sr_id routes" "map sr_id routes'"] by (simp add: mset_map)
  have m: "map_of ?by k = map_of ?by' k" for k
    using routes_by_id_Some_iff [OF assms(2)] routes_by_id_Some_iff [OF d] s
    by (metis not_Some_eq)
  have v: "set (map snd ?by) = set (map snd ?by')"
    unfolding values_routes_by_id using m by simp
  have "inj_on route_key (set routes)"
    using assms(2) by (auto simp: inj_on_def route_key_def distinct_map)
  moreover have "set (map snd ?by) \<subseteq> set routes"
    unfolding values_routes_by_id using routes_by_id_SomeD by blast
  ultimately have inj: "inj_on route_key (set (map snd ?by))"
    by (rule inj_on_subset)
  show ?thesis
    unfolding selectSettlementRoute_def Let_def m by (simp only: sort_key_hd_unique [OF v inj])
qed

theorem route_selection_order_independent_witness:
  "selectSettlementRoute
      \<lparr>si_explicitRouteId = None, si_configuredDefaultRouteId = None, si_routeIdsWithCapability = None\<rparr>
      [route_sample ''b'' SR_ACTIVE 2, route_sample ''a'' SR_ACTIVE 2] [] =
   selectSettlementRoute
      \<lparr>si_explicitRouteId = None, si_configuredDefaultRouteId = None, si_routeIdsWithCapability = None\<rparr>
      [route_sample ''a'' SR_ACTIVE 2, route_sample ''b'' SR_ACTIVE 2] []"
  by (rule route_selection_order_independent) (simp_all add: route_sample_def)

text \<open>The selected rail can route the request and no other rail that can comes before it by
  name; without such a rail the request is refused as unsupported.\<close>

theorem selected_rail_first:
  "(case selectPaymentRail request rails of
      Inr rail \<Rightarrow> rail \<in> {r \<in> set rails. rail_canRoute r request} \<and>
        rail_name rail = Min (rail_name ` {r \<in> set rails. rail_canRoute r request})
    | Inl e \<Rightarrow> {r \<in> set rails. rail_canRoute r request} = {} \<and>
        e = unsupportedRail (rd_rail (rq_destination request)))"
proof (cases "sort_key rail_name (filter (\<lambda>rail. rail_canRoute rail request) rails)")
  case Nil
  then show ?thesis by (auto simp: selectPaymentRail_def filter_empty_conv)
next
  case (Cons r rest)
  note H = hd_sort_key_min [OF Cons]
  have "rail_name r = Min (rail_name ` {r \<in> set rails. rail_canRoute r request})"
    using H by (intro Min_eqI [symmetric]) auto
  then show ?thesis using H(1) by (simp add: selectPaymentRail_def Cons)
qed

end
