(* ===== verification/Payment_Creation.thy ===== *)
theory Payment_Creation
  imports Timeline_Webhooks Policy Routing
begin

text \<open>
  Creating a payment: \<open>createV2Payment\<close> of \<^verbatim>\<open>packages/db/src/v2.ts\<close> with the queries it shares
  with \<open>getSpendContext\<close> and \<open>getRefundedAtomic\<close>. The transaction is the composition of its
  phases, in the order of the source: the account and its idempotency record, the policy that is
  evaluated again inside the transaction, the refund cap, the route and the funds, and the rows
  that are written. The lemmas follow the same phases.
\<close>

section \<open>Inputs and results\<close>

record V2PolicyDecisionInput =
  vd_id :: string
  vd_paymentId :: string
  vd_accountId :: string
  vd_policyId :: string
  vd_policyVersion :: int
  vd_decision :: PaymentPolicyDecision
  vd_reasonCodes :: "string list"
  vd_contextJson :: string
  vd_fingerprint :: string

record V2ApprovalInput =
  va_id :: string
  va_expiresAt :: int

record V2PaymentCreateInput =
  ci_paymentId :: string
  ci_reservationId :: string
  ci_attemptId :: string
  ci_workItemId :: string
  ci_idempotencyId :: string
  ci_timelineEventId :: string
  ci_accountId :: string
  ci_operation :: PaymentKind
  ci_idempotencyKey :: string
  ci_requestHash :: string
  ci_requestId :: "string option"
  ci_correlationId :: "string option"
  ci_fingerprint :: string
  ci_payerPublicKey :: string
  ci_recipientId :: "string option"
  ci_recipientManagedAccountId :: "string option option"
  ci_amountAtomic :: int
  ci_amountScale :: int
  ci_denominationId :: string
  ci_currency :: string
  ci_description :: "string option"
  ci_externalReference :: "string option"
  ci_metadataJson :: "string option"
  ci_originalPaymentId :: "string option"
  ci_route :: "SettlementRoute option"
  ci_routeSelectionReason :: "string option"
  ci_routeCapabilitySnapshotJson :: "string option option"
  ci_destinationSnapshotJson :: string
  ci_settlementAssetId :: "string option"
  ci_economicMappingId :: "string option"
  ci_destinationFingerprint :: string
  ci_policyDecision :: V2PolicyDecisionInput
  ci_intentFingerprint :: "string option"
  ci_approval :: "V2ApprovalInput option"
  ci_settledAtomic :: int

text \<open>\<^verbatim>\<open>V2PaymentSnapshot\<close> is the payment row itself: \<open>toV2PaymentSnapshot\<close> returns its argument.\<close>

definition toV2PaymentSnapshot :: "payment_row \<Rightarrow> payment_row" where
  "toV2PaymentSnapshot payment = payment"

record V2PaymentCreateResult =
  cr_payment :: payment_row
  cr_created :: bool

section \<open>Spending so far\<close>

record V2SpendContext =
  sc_confirmedSpendAtomic :: int
  sc_heldReservationAtomic :: int
  sc_unresolvedSpendAtomic :: int
  sc_transactionCount :: int

definition window_start :: "int \<Rightarrow> int option \<Rightarrow> int" where
  "window_start now rollingWindowSeconds =
     (case rollingWindowSeconds of None \<Rightarrow> 0 | Some s \<Rightarrow> now - s * 1000)"

definition account_payment :: "string \<Rightarrow> string \<Rightarrow> int \<Rightarrow> payment_row \<Rightarrow> bool" where
  "account_payment accountId denominationId start p \<longleftrightarrow>
     pay_payerAccountId p = accountId \<and> pay_denominationId p = Some denominationId \<and>
     pay_createdAt p \<ge> start"

definition held_reservation :: "string \<Rightarrow> string \<Rightarrow> payment_row list \<Rightarrow> reservation_row \<Rightarrow> bool" where
  "held_reservation accountId denominationId payments r \<longleftrightarrow>
     res_ownerAccountId r = accountId \<and> res_status r = RES_ACTIVE \<and>
     res_lifecycleState r = ''HELD'' \<and>
     list_ex (\<lambda>p. pay_id p = res_paymentId r \<and> pay_denominationId p = Some denominationId) payments"

definition held_atomic :: "string \<Rightarrow> string \<Rightarrow> world \<Rightarrow> int" where
  "held_atomic accountId denominationId w =
     sum_where (held_reservation accountId denominationId (w_payments w)) res_amountAtomic (w_reservations w)"

definition getSpendContext :: "string \<Rightarrow> string \<Rightarrow> int \<Rightarrow> int option \<Rightarrow> world \<Rightarrow> V2SpendContext" where
  "getSpendContext accountId denominationId now rollingWindowSeconds w =
     (let mine = account_payment accountId denominationId (window_start now rollingWindowSeconds) in
      \<lparr>sc_confirmedSpendAtomic =
         sum_where (\<lambda>p. mine p \<and> pay_status p = PS_CONFIRMED) pay_amountAtomic (w_payments w),
       sc_heldReservationAtomic = held_atomic accountId denominationId w,
       sc_unresolvedSpendAtomic =
         sum_where (\<lambda>p. mine p \<and> pay_status p \<in> {PS_REVIEW_REQUIRED, PS_CLOSED_UNRESOLVED})
           pay_amountAtomic (w_payments w),
       sc_transactionCount =
         int (length (filter (\<lambda>p. mine p \<and>
           pay_status p \<notin> {PS_REJECTED_BY_POLICY, PS_REJECTED, PS_FAILED, PS_EXPIRED}) (w_payments w)))\<rparr>)"

text \<open>A refund counts against its original payment unless it certainly moved no money.\<close>

definition counted_refund :: "string \<Rightarrow> payment_row \<Rightarrow> bool" where
  "counted_refund originalPaymentId p \<longleftrightarrow>
     pay_originalPaymentId p = Some originalPaymentId \<and> pay_kind p = REFUND \<and>
     pay_status p \<notin> {PS_FAILED, PS_REJECTED, PS_REJECTED_BY_POLICY, PS_EXPIRED, PS_PROVED_NO_EFFECT}"

definition getRefundedAtomic :: "string \<Rightarrow> world \<Rightarrow> int" where
  "getRefundedAtomic originalPaymentId w =
     sum_where (counted_refund originalPaymentId) pay_amountAtomic (w_payments w)"

definition findApprovedDestination :: "string \<Rightarrow> string \<Rightarrow> world \<Rightarrow> destination_row option" where
  "findApprovedDestination accountId fingerprint w =
     List.find (\<lambda>d. dst_accountId d = accountId \<and> dst_fingerprint d = fingerprint \<and>
                    dst_status d = ''ACTIVE'') (w_destinations w)"

definition findV2Idempotency :: "string \<Rightarrow> string \<Rightarrow> world \<Rightarrow> idempotency_row option" where
  "findV2Idempotency accountId idempotencyKey w =
     List.find (\<lambda>r. idem_ownerAccountId r = accountId \<and> idem_operation r = ''V2_PAYMENT'' \<and>
                    idem_key r = idempotencyKey) (w_idempotency w)"

section \<open>The account and the idempotency record\<close>

text \<open>\<^verbatim>\<open>SELECT ... FOR UPDATE\<close> on the account: its status is checked and the transaction's time read.\<close>

definition lock_account :: "string \<Rightarrow> int tx" where
  "lock_account accountId =
     bind_tx new_date (\<lambda>current_time.
     bind_tx (find_tx w_accounts (\<lambda>a. acc_id a = accountId)) (\<lambda>account.
     case account of
       None \<Rightarrow> throw_tx (DomainErr (NotFoundError ''Agent account was not found''))
     | Some a \<Rightarrow>
         bind_tx (throw_if_tx (acc_status a \<noteq> AA_ACTIVE)
           (DomainErr (InvalidStateError ''Agent account is not active''))) (\<lambda>_.
         return_tx current_time)))"

definition replay_payment :: "V2PaymentCreateInput \<Rightarrow> idempotency_row \<Rightarrow> V2PaymentCreateResult tx" where
  "replay_payment input existing =
     bind_tx (throw_if_tx (idem_requestHash existing \<noteq> ci_requestHash input \<or>
                           idem_fingerprint existing \<noteq> Some (ci_fingerprint input))
       idempotencyConflict) (\<lambda>_.
     bind_tx (find_or_throw_tx ''payments'' w_payments (\<lambda>p. pay_id p = idem_resourceId existing)) (\<lambda>payment.
     return_tx \<lparr>cr_payment = toV2PaymentSnapshot payment, cr_created = False\<rparr>))"

section \<open>The policy, evaluated again\<close>

definition lifecycle_of :: "string \<Rightarrow> LifecycleStatus" where
  "lifecycle_of s = (if s = ''ACTIVE'' then ACTIVE else RETIRED)"

definition denomination_of_row :: "denomination_row \<Rightarrow> Denomination result" where
  "denomination_of_row row = createDenomination
     \<lparr>di_id = dn_id row, di_symbol = dn_symbol row, di_maxScale = IntNum (dn_maxScale row),
      di_status = Some (lifecycle_of (dn_status row)), di_version = Some (IntNum (dn_version row))\<rparr>
     (IntNum DEFAULT_MAX_LOGICAL_MONEY_SCALE)"

definition assertSettlementContextIsCurrent :: "V2PaymentCreateInput \<Rightarrow> unit tx" where
  "assertSettlementContextIsCurrent input =
     (case ci_route input of
        None \<Rightarrow> return_tx ()
      | Some chosen \<Rightarrow>
          (case (ci_settlementAssetId input, ci_economicMappingId input) of
             (Some assetId, Some mappingId) \<Rightarrow>
               bind_tx (find_tx w_routes (\<lambda>r. rte_id r = sr_id chosen)) (\<lambda>route.
               bind_tx (find_tx w_assets (\<lambda>a. ast_id a = assetId)) (\<lambda>asset.
               bind_tx (find_tx w_mappings (\<lambda>m. map_id m = mappingId)) (\<lambda>mapping.
               bind_tx (throw_if_tx (case route of None \<Rightarrow> True | Some r \<Rightarrow>
                   rte_status r \<noteq> ''ACTIVE'' \<or> rte_rail r \<noteq> sr_rail chosen \<or>
                   rte_railVersion r \<noteq> sr_railVersion chosen \<or> rte_network r \<noteq> sr_network chosen \<or>
                   rte_settlementAssetId r \<noteq> sr_settlementAssetId chosen \<or>
                   rte_economicMappingId r \<noteq> sr_economicMappingId chosen \<or>
                   rte_priority r \<noteq> sr_priority chosen \<or> rte_configVersion r \<noteq> sr_configVersion chosen)
                 (DomainErr (ConflictError ''Settlement route changed while creating the payment''))) (\<lambda>_.
               bind_tx (throw_if_tx (case asset of None \<Rightarrow> True | Some a \<Rightarrow>
                   ast_status a \<noteq> ''ACTIVE'' \<or> ast_rail a \<noteq> sr_rail chosen \<or>
                   ast_network a \<noteq> sr_network chosen \<or> ast_id a \<noteq> assetId)
                 (DomainErr (ConflictError ''Settlement asset changed while creating the payment''))) (\<lambda>_.
               throw_if_tx (case mapping of None \<Rightarrow> True | Some m \<Rightarrow>
                   map_status m \<noteq> ''ACTIVE'' \<or> map_denominationId m \<noteq> ci_denominationId input \<or>
                   map_settlementAssetId m \<noteq> assetId)
                 (DomainErr (ConflictError ''Economic mapping changed while creating the payment''))))))) 
           | _ \<Rightarrow> throw_tx (DomainErr (InvalidStateError
               ''A selected settlement route requires asset and mapping references''))))"

definition spend_policy_of :: "policy_row \<Rightarrow> Denomination \<Rightarrow> SpendPolicy result" where
  "spend_policy_of row denomination =
     bind_r (opt_r (\<lambda>u. exactMoneyFromAtomicUnits u denomination) (pol_maxPerPaymentAtomic row)) (\<lambda>maxPerPayment.
     bind_r (opt_r (\<lambda>u. exactMoneyFromAtomicUnits u denomination) (pol_rollingBudgetAtomic row)) (\<lambda>rollingBudget.
     bind_r (opt_r (\<lambda>u. exactMoneyFromAtomicUnits u denomination) (pol_approvalThresholdAtomic row)) (\<lambda>approvalThreshold.
     Inr \<lparr>sp_id = pol_id row, sp_accountId = pol_accountId row, sp_version = pol_version row,
          sp_status = (if pol_status row = ''ACTIVE'' then SP_ACTIVE
                       else if pol_status row = ''DRAFT'' then SP_DRAFT else SP_RETIRED),
          sp_maxPerPayment = maxPerPayment, sp_rollingBudget = rollingBudget,
          sp_rollingWindowSeconds = pol_rollingWindowSeconds row,
          sp_transactionCountCap = pol_transactionCountCap row,
          sp_approvalThreshold = approvalThreshold,
          sp_rollingBudgetEscalatable = pol_rollingBudgetEscalatable row,
          sp_transactionCountEscalatable = pol_transactionCountEscalatable row\<rparr>)))"

definition evaluation_input ::
    "SpendPolicy \<Rightarrow> Denomination \<Rightarrow> int \<Rightarrow> bool \<Rightarrow> V2SpendContext \<Rightarrow> SpendPolicyEvaluationInput result" where
  "evaluation_input policy denomination amountAtomic approved ctx =
     bind_r (exactMoneyFromAtomicUnits amountAtomic denomination) (\<lambda>amount.
     bind_r (exactMoneyFromAtomicUnits (sc_confirmedSpendAtomic ctx) denomination) (\<lambda>confirmed.
     bind_r (exactMoneyFromAtomicUnits (sc_heldReservationAtomic ctx) denomination) (\<lambda>held.
     bind_r (exactMoneyFromAtomicUnits (sc_unresolvedSpendAtomic ctx) denomination) (\<lambda>unresolved.
     Inr \<lparr>pi_policy = policy, pi_amount = amount, pi_destinationApproved = approved,
          pi_confirmedSpend = confirmed, pi_heldReservations = held, pi_unresolvedSpend = unresolved,
          pi_transactionCount = IntNum (sc_transactionCount ctx)\<rparr>))))"

definition context_json :: "PolicyContext \<Rightarrow> string" where
  "context_json c = stringify (JObj
     [(''confirmed_spend_atomic'', JStr (int_to_string (money_atomicUnits (pc_confirmedSpend c)))),
      (''held_reservation_atomic'', JStr (int_to_string (money_atomicUnits (pc_heldReservations c)))),
      (''unresolved_spend_atomic'', JStr (int_to_string (money_atomicUnits (pc_unresolvedSpend c)))),
      (''transaction_count'', JNumber (number_to_string (pc_transactionCount c)))])"

definition policy_changed :: "V2PaymentCreateInput \<Rightarrow> policy_row option \<Rightarrow> denomination_row option \<Rightarrow> bool" where
  "policy_changed input currentPolicy currentDenomination \<longleftrightarrow>
     (case currentPolicy of None \<Rightarrow> True | Some p \<Rightarrow>
        pol_accountId p \<noteq> ci_accountId input \<or> pol_denominationId p \<noteq> ci_denominationId input \<or>
        pol_status p \<noteq> ''ACTIVE'' \<or> pol_version p \<noteq> vd_policyVersion (ci_policyDecision input)) \<or>
     currentDenomination = None"

definition decision_changed :: "V2PaymentCreateInput \<Rightarrow> PolicyDecision \<Rightarrow> bool" where
  "decision_changed input d \<longleftrightarrow>
     pd_decision d \<noteq> vd_decision (ci_policyDecision input) \<or>
     stringify (JArr (map JStr (pd_reasonCodes d))) \<noteq>
       stringify (JArr (map JStr (vd_reasonCodes (ci_policyDecision input)))) \<or>
     context_json (pd_context d) \<noteq> vd_contextJson (ci_policyDecision input)"

definition recheck_policy :: "V2PaymentCreateInput \<Rightarrow> int \<Rightarrow> PolicyDecision tx" where
  "recheck_policy input current_time =
     bind_tx (find_tx w_policies (\<lambda>p. pol_id p = vd_policyId (ci_policyDecision input))) (\<lambda>currentPolicy.
     bind_tx (find_tx w_denominations (\<lambda>d. dn_id d = ci_denominationId input)) (\<lambda>currentDenomination.
     bind_tx (throw_if_tx (policy_changed input currentPolicy currentDenomination)
       (DomainErr (ConflictError ''Spend policy changed while creating the payment''))) (\<lambda>_.
     bind_tx (lift_tx (denomination_of_row (the currentDenomination))) (\<lambda>denomination.
     bind_tx (assertSettlementContextIsCurrent input) (\<lambda>_.
     bind_tx (lift_tx (spend_policy_of (the currentPolicy) denomination)) (\<lambda>policy.
     bind_tx (gets_tx (getSpendContext (ci_accountId input) (ci_denominationId input) current_time
                (pol_rollingWindowSeconds (the currentPolicy)))) (\<lambda>ctx.
     bind_tx (gets_tx (findApprovedDestination (ci_accountId input) (ci_destinationFingerprint input))) (\<lambda>approved.
     bind_tx (lift_tx (evaluation_input policy denomination (ci_amountAtomic input) (approved \<noteq> None) ctx)) (\<lambda>evaluation.
     bind_tx (lift_tx (evaluateSpendPolicy evaluation)) (\<lambda>currentDecision.
     bind_tx (throw_if_tx (decision_changed input currentDecision)
       (DomainErr (ConflictError ''Spend policy decision changed while creating the payment''))) (\<lambda>_.
     return_tx currentDecision)))))))))))"

section \<open>Refund cap, route and funds\<close>

definition check_refund :: "V2PaymentCreateInput \<Rightarrow> unit tx" where
  "check_refund input =
     bind_tx (throw_if_tx (ci_operation input = REFUND \<and> ci_originalPaymentId input = None)
       (DomainErr (InvalidStateError ''Refund payment must reference an original payment''))) (\<lambda>_.
     bind_tx (throw_if_tx (ci_operation input \<noteq> REFUND \<and> ci_originalPaymentId input \<noteq> None)
       (DomainErr (InvalidStateError ''Only refund payments may reference an original payment''))) (\<lambda>_.
     case ci_originalPaymentId input of
       None \<Rightarrow> return_tx ()
     | Some originalId \<Rightarrow>
         bind_tx (find_tx w_payments (\<lambda>p. pay_id p = originalId)) (\<lambda>found.
         case found of
           None \<Rightarrow> throw_tx (DomainErr (InvalidStateError ''Original payment is not refundable''))
         | Some original \<Rightarrow>
             bind_tx (throw_if_tx (pay_status original \<noteq> PS_CONFIRMED \<or> pay_kind original = REFUND)
               (DomainErr (InvalidStateError ''Original payment is not refundable''))) (\<lambda>_.
             bind_tx (gets_tx (getRefundedAtomic originalId)) (\<lambda>refunded.
             throw_if_tx (ci_amountAtomic input + refunded > pay_amountAtomic original)
               (DomainErr (ConflictError ''Refund amount exceeds the original payment amount'')))))))"

definition check_funds :: "V2PaymentCreateInput \<Rightarrow> unit tx" where
  "check_funds input =
     (let decision = vd_decision (ci_policyDecision input) in
      bind_tx (throw_if_tx (decision = PD_ALLOW \<and>
                 (ci_route input = None \<or> ci_settlementAssetId input = None))
        (DomainErr (InvalidStateError ''An allowed payment must have a selected settlement route''))) (\<lambda>_.
      when_tx (decision = PD_ALLOW)
        (bind_tx (gets_tx (held_atomic (ci_accountId input) (ci_denominationId input))) (\<lambda>reservedAtomic.
         throw_if_tx (ci_amountAtomic input > ci_settledAtomic input - reservedAtomic) insufficientFunds))))"

section \<open>The rows written\<close>

definition initial_status :: "V2PaymentCreateInput \<Rightarrow> PaymentStatus" where
  "initial_status input =
     (if vd_decision (ci_policyDecision input) = PD_DENY then PS_REJECTED_BY_POLICY
      else if ci_approval input = None then PS_ROUTING else PS_AWAITING_APPROVAL)"

definition payment_row_of :: "V2PaymentCreateInput \<Rightarrow> int \<Rightarrow> payment_row" where
  "payment_row_of input now =
     (let decision = vd_decision (ci_policyDecision input) in
      \<lparr>pay_id = ci_paymentId input, pay_payerAccountId = ci_accountId input,
       pay_correlationId = ci_correlationId input,
       pay_payerPublicKey = Some (ci_payerPublicKey input), pay_recipientId = ci_recipientId input,
       pay_kind = ci_operation input, pay_amountAtomic = ci_amountAtomic input,
       pay_denominationId = Some (ci_denominationId input), pay_amountScale = Some (ci_amountScale input),
       pay_currency = ci_currency input, pay_status = initial_status input,
       pay_description = ci_description input, pay_externalReference = ci_externalReference input,
       pay_metadataJson = (case ci_metadataJson input of None \<Rightarrow> ''{}'' | Some m \<Rightarrow> m),
       pay_route = map_option sr_rail (ci_route input), pay_routeId = map_option sr_id (ci_route input),
       pay_routeSelectionReason = (if decision = PD_DENY then None else ci_routeSelectionReason input),
       pay_routeCapabilitySnapshotJson = Option.bind (ci_routeCapabilitySnapshotJson input) (\<lambda>x. x),
       pay_settlementAssetId = ci_settlementAssetId input,
       pay_economicMappingId = ci_economicMappingId input,
       pay_destinationSnapshotJson = Some (ci_destinationSnapshotJson input),
       pay_intentFingerprint = ci_intentFingerprint input,
       pay_policyDecisionId = Some (vd_id (ci_policyDecision input)),
       pay_approvalId = map_option va_id (ci_approval input),
       pay_executionState = (if decision = PD_ALLOW then ''QUEUED'' else ''NOT_STARTED''),
       pay_settlementState = ''NOT_SUBMITTED'',
       pay_outcomeState = (if decision = PD_DENY then ''PROVED_NO_EFFECT'' else ''NONE''),
       pay_rowVersion = 1, pay_createdAt = now, pay_updatedAt = now, pay_confirmedAt = None,
       pay_failedAt = None, pay_failureCode = None, pay_failureMessageSafe = None,
       pay_destinationRail = None, pay_destinationType = None, pay_destinationReference = None,
       pay_recipientManagedAccountId = Option.bind (ci_recipientManagedAccountId input) (\<lambda>x. x),
       pay_originalPaymentId = ci_originalPaymentId input, pay_counterpartyAccountId = None,
       pay_counterpartyAddress = None, pay_lastRecoveryAttemptAt = None, pay_nextRecoveryAt = None,
       pay_recoveryCount = 0, pay_stuckSince = None\<rparr>)"

definition insert_payment :: "payment_row \<Rightarrow> payment_row tx" where
  "insert_payment = insert_tx ''payments'' w_payments w_payments_update (\<lambda>r q. pay_id q = pay_id r)"

definition decision_conflict :: "decision_row \<Rightarrow> decision_row \<Rightarrow> bool" where
  "decision_conflict r q \<longleftrightarrow> dec_id q = dec_id r \<or> dec_paymentId q = dec_paymentId r"

definition approval_conflict :: "approval_row \<Rightarrow> approval_row \<Rightarrow> bool" where
  "approval_conflict r q \<longleftrightarrow> apv_id q = apv_id r \<or> apv_paymentId q = apv_paymentId r"

definition reservation_conflict :: "reservation_row \<Rightarrow> reservation_row \<Rightarrow> bool" where
  "reservation_conflict r q \<longleftrightarrow> res_id q = res_id r \<or> res_paymentId q = res_paymentId r"

definition attempt_conflict :: "attempt_row \<Rightarrow> attempt_row \<Rightarrow> bool" where
  "attempt_conflict r q \<longleftrightarrow> att_id q = att_id r \<or>
     (att_paymentId q = att_paymentId r \<and> att_attemptNumber q = att_attemptNumber r)"

definition work_conflict :: "work_row \<Rightarrow> work_row \<Rightarrow> bool" where
  "work_conflict r q \<longleftrightarrow> wi_id q = wi_id r \<or>
     (wi_kind q = wi_kind r \<and> wi_resourceType q = wi_resourceType r \<and> wi_resourceId q = wi_resourceId r)"

definition idempotency_conflict :: "idempotency_row \<Rightarrow> idempotency_row \<Rightarrow> bool" where
  "idempotency_conflict r q \<longleftrightarrow> idem_id q = idem_id r \<or>
     (idem_ownerAccountId q = idem_ownerAccountId r \<and> idem_operation q = idem_operation r \<and>
      idem_key q = idem_key r)"

text \<open>The timeline events of the creation share everything but their subject and state.\<close>

definition creation_event ::
    "V2PaymentCreateInput \<Rightarrow> string \<Rightarrow> string \<Rightarrow> string \<Rightarrow> int \<Rightarrow> (string \<times> json) list \<Rightarrow> unit tx" where
  "creation_event input resourceType resourceId eventType occurredAt newState =
     bind_tx randomId (\<lambda>rid. createTimelineEvent
       \<lparr>ti_id = ''timeline_'' @ rid, ti_accountId = Some (ci_accountId input),
        ti_resourceType = resourceType, ti_resourceId = resourceId, ti_eventType = eventType,
        ti_actorType = ''AGENT_CREDENTIAL'', ti_actorId = Some (ci_accountId input),
        ti_requestId = ci_requestId input, ti_correlationId = ci_correlationId input,
        ti_oldStateJson = None, ti_newStateJson = Some (stringify (JObj newState)),
        ti_source = ''V2_PAYMENT_ORCHESTRATOR'', ti_occurredAt = Some occurredAt,
        ti_metadataJson = None\<rparr>)"

definition record_decision :: "V2PaymentCreateInput \<Rightarrow> payment_row \<Rightarrow> unit tx" where
  "record_decision input payment =
     (let pd = ci_policyDecision input in
      bind_tx new_date (\<lambda>now.
      bind_tx (insert_tx ''policy_decisions'' w_decisions w_decisions_update decision_conflict
        \<lparr>dec_id = vd_id pd, dec_paymentId = pay_id payment, dec_accountId = ci_accountId input,
         dec_policyId = vd_policyId pd, dec_policyVersion = vd_policyVersion pd,
         dec_decision = policy_decision_name (vd_decision pd),
         dec_reasonCodesJson = stringify (JArr (map JStr (vd_reasonCodes pd))),
         dec_contextJson = vd_contextJson pd, dec_fingerprint = vd_fingerprint pd,
         dec_createdAt = now\<rparr>) (\<lambda>policyDecision.
      creation_event input ''POLICY_DECISION'' (dec_id policyDecision) ''POLICY_DECISION_RECORDED''
        (dec_createdAt policyDecision)
        [(''payment_id'', JStr (dec_paymentId policyDecision)),
         (''policy_id'', JStr (dec_policyId policyDecision)),
         (''policy_version'', json_int (dec_policyVersion policyDecision)),
         (''decision'', JStr (dec_decision policyDecision)),
         (''reason_codes'', JArr (map JStr (vd_reasonCodes pd)))])))"

definition record_approval :: "V2PaymentCreateInput \<Rightarrow> payment_row \<Rightarrow> unit tx" where
  "record_approval input payment =
     (case ci_approval input of
        None \<Rightarrow> return_tx ()
      | Some a \<Rightarrow>
          bind_tx new_date (\<lambda>now.
          bind_tx (insert_tx ''approvals'' w_approvals w_approvals_update approval_conflict
            \<lparr>apv_id = va_id a, apv_paymentId = pay_id payment, apv_accountId = ci_accountId input,
             apv_fingerprint = (case ci_intentFingerprint input of
                 None \<Rightarrow> ci_fingerprint input | Some f \<Rightarrow> f),
             apv_policyDecisionId = vd_id (ci_policyDecision input), apv_status = ''PENDING'',
             apv_expiresAt = va_expiresAt a, apv_actorId = None, apv_comment = None,
             apv_rowVersion = 1, apv_createdAt = now, apv_decidedAt = None\<rparr>) (\<lambda>approval.
          creation_event input ''APPROVAL'' (apv_id approval) ''APPROVAL_CREATED'' (apv_createdAt approval)
            [(''payment_id'', JStr (apv_paymentId approval)), (''status'', JStr (apv_status approval)),
             (''expires_at'', JStr (toISOString (apv_expiresAt approval)))])))"

definition reservation_row_of :: "V2PaymentCreateInput \<Rightarrow> payment_row \<Rightarrow> int \<Rightarrow> reservation_row" where
  "reservation_row_of input payment now =
     \<lparr>res_id = ci_reservationId input, res_paymentId = pay_id payment,
      res_ownerAccountId = ci_accountId input, res_amountAtomic = ci_amountAtomic input,
      res_currency = ci_currency input, res_status = RES_ACTIVE, res_lifecycleState = ''HELD'',
      res_releaseReason = None, res_consumedAt = None, res_rowVersion = 1, res_createdAt = now,
      res_releasedAt = None\<rparr>"

text \<open>A new attempt row: the columns the insertions set, the others at their defaults.\<close>

definition new_attempt_row ::
    "string \<Rightarrow> string \<Rightarrow> int \<Rightarrow> string \<Rightarrow> string option \<Rightarrow> int \<Rightarrow> attempt_row" where
  "new_attempt_row newId paymentId attemptNumber rail routeId now =
     \<lparr>att_id = newId, att_paymentId = paymentId, att_attemptNumber = attemptNumber, att_rail = rail,
      att_status = PAS_CREATED, att_railTransactionId = None, att_serializedPayloadSafe = None,
      att_durablePayload = None, att_expectedExternalId = None, att_recoveryMetadata = None,
      att_confirmationMetadata = None, att_outcome = ''NOT_STARTED'', att_routeId = routeId,
      att_preparedEffectHash = None, att_preparedEffectJson = None, att_signedPayloadHash = None,
      att_signedPayloadEncrypted = None, att_validityExpiresAt = None, att_validitySlot = None,
      att_rowVersion = 1, att_legacySignedTransactionBase64 = None, att_legacyExpectedSignature = None,
      att_legacyBlockhash = None, att_legacyLastValidBlockHeight = None, att_legacyConfirmedSlot = None,
      att_createdAt = now, att_updatedAt = now\<rparr>"

definition new_work_row ::
    "string \<Rightarrow> string \<Rightarrow> string \<Rightarrow> string \<Rightarrow> string \<Rightarrow> int \<Rightarrow> work_row" where
  "new_work_row newId kind resourceType resourceId payloadJson now =
     \<lparr>wi_id = newId, wi_kind = kind, wi_resourceType = resourceType, wi_resourceId = resourceId,
      wi_status = ''AVAILABLE'', wi_availableAt = now, wi_leaseOwner = None, wi_leaseExpiresAt = None,
      wi_attemptCount = 0, wi_maxAttempts = 10, wi_leaseRecoveryCount = 0, wi_lastErrorCode = None,
      wi_lastErrorSafe = None, wi_retryAfter = None, wi_payloadJson = payloadJson, wi_createdAt = now,
      wi_updatedAt = now, wi_completedAt = None\<rparr>"

definition correlation_member :: "string option \<Rightarrow> (string \<times> json) list" where
  "correlation_member c = (case c of None \<Rightarrow> [] | Some s \<Rightarrow> [(''correlation_id'', JStr s)])"

definition reserve_funds :: "V2PaymentCreateInput \<Rightarrow> payment_row \<Rightarrow> reservation_row tx" where
  "reserve_funds input payment =
     bind_tx new_date (\<lambda>now.
     insert_tx ''outgoing_reservations'' w_reservations w_reservations_update reservation_conflict
       (reservation_row_of input payment now))"

definition insert_attempt :: "attempt_row \<Rightarrow> attempt_row tx" where
  "insert_attempt = insert_tx ''payment_attempts'' w_attempts w_attempts_update attempt_conflict"

definition insert_work :: "work_row \<Rightarrow> work_row tx" where
  "insert_work = insert_tx ''durable_work_items'' w_works w_works_update work_conflict"

definition start_execution :: "V2PaymentCreateInput \<Rightarrow> payment_row \<Rightarrow> unit tx" where
  "start_execution input payment =
     bind_tx (reserve_funds input payment) (\<lambda>reservation.
     bind_tx new_date (\<lambda>t.
     bind_tx (insert_attempt (new_attempt_row (ci_attemptId input) (pay_id payment) 1
        (case ci_route input of None \<Rightarrow> ''UNSELECTED'' | Some r \<Rightarrow> sr_rail r)
        (map_option sr_id (ci_route input)) t)) (\<lambda>attempt.
     bind_tx (creation_event input ''RESERVATION'' (res_id reservation) ''RESERVATION_HELD''
        (res_createdAt reservation)
        [(''payment_id'', JStr (pay_id payment)),
         (''amount_atomic'', JStr (int_to_string (res_amountAtomic reservation))),
         (''currency'', JStr (res_currency reservation)),
         (''lifecycle_state'', JStr (res_lifecycleState reservation))]) (\<lambda>_.
     bind_tx (case ci_route input of
        None \<Rightarrow> return_tx ()
      | Some route \<Rightarrow> creation_event input ''SETTLEMENT_ROUTE'' (sr_id route) ''ROUTE_SELECTED''
          (pay_createdAt payment)
          [(''payment_id'', JStr (pay_id payment)), (''route_id'', JStr (sr_id route)),
           (''rail'', JStr (sr_rail route)), (''network'', JStr (sr_network route)),
           (''settlement_asset_id'', JStr (sr_settlementAssetId route)),
           (''economic_mapping_id'', JStr (sr_economicMappingId route)),
           (''selection_reason'', json_opt (ci_routeSelectionReason input)),
           (''capability_snapshot_present'', JBool (ci_routeCapabilitySnapshotJson input \<noteq> None))]) (\<lambda>_.
     bind_tx (creation_event input ''PAYMENT_ATTEMPT'' (att_id attempt) ''ATTEMPT_CREATED''
        (att_createdAt attempt)
        [(''payment_id'', JStr (pay_id payment)),
         (''attempt_number'', json_int (att_attemptNumber attempt)),
         (''route_id'', json_opt (att_routeId attempt)), (''outcome'', JStr (att_outcome attempt))]) (\<lambda>_.
     bind_tx new_date (\<lambda>t'.
     bind_tx (insert_work (new_work_row (ci_workItemId input) ''OUTGOING_PAYMENT'' ''PAYMENT'' (pay_id payment)
        (stringify (JObj ((''payment_id'', JStr (pay_id payment)) # correlation_member (ci_correlationId input)))) t')) (\<lambda>_.
     return_tx ()))))))))"

definition record_idempotency :: "V2PaymentCreateInput \<Rightarrow> payment_row \<Rightarrow> unit tx" where
  "record_idempotency input payment =
     bind_tx new_date (\<lambda>now.
     bind_tx (insert_tx ''idempotency_records'' w_idempotency w_idempotency_update idempotency_conflict
       \<lparr>idem_id = ci_idempotencyId input, idem_ownerAccountId = ci_accountId input,
        idem_operation = ''V2_PAYMENT'', idem_key = ci_idempotencyKey input,
        idem_requestHash = ci_requestHash input, idem_fingerprint = Some (ci_fingerprint input),
        idem_resourceId = pay_id payment,
        idem_responseSnapshot = Some (stringify (JObj
          [(''payment_id'', JStr (pay_id payment)),
           (''status'', JStr (payment_status_name (initial_status input)))])),
        idem_expiresAt = None, idem_createdAt = now, idem_updatedAt = now\<rparr>) (\<lambda>_.
     return_tx ()))"

definition announce_payment :: "V2PaymentCreateInput \<Rightarrow> payment_row \<Rightarrow> unit tx" where
  "announce_payment input payment =
     bind_tx (createTimelineEvent
       \<lparr>ti_id = ci_timelineEventId input, ti_accountId = Some (ci_accountId input),
        ti_resourceType = ''PAYMENT'', ti_resourceId = pay_id payment, ti_eventType = ''PAYMENT_CREATED'',
        ti_actorType = ''AGENT_CREDENTIAL'', ti_actorId = Some (ci_accountId input),
        ti_requestId = ci_requestId input, ti_correlationId = ci_correlationId input,
        ti_oldStateJson = None,
        ti_newStateJson = Some (stringify (JObj
          [(''status'', JStr (payment_status_name (initial_status input))),
           (''policy_decision'', JStr (policy_decision_name (vd_decision (ci_policyDecision input))))])),
        ti_source = ''V2_PAYMENT_ORCHESTRATOR'', ti_occurredAt = Some (pay_createdAt payment),
        ti_metadataJson = None\<rparr>) (\<lambda>_.
     enqueuePaymentWebhookEvent
       \<lparr>pw_accountId = ci_accountId input, pw_paymentId = pay_id payment,
        pw_resourceVersion = pay_rowVersion payment, pw_eventType = ''payment.created'',
        pw_status = payment_status_name (initial_status input),
        pw_amountAtomic = pay_amountAtomic payment, pw_denominationId = pay_denominationId payment,
        pw_correlationId = pay_correlationId payment\<rparr>)"

definition write_payment :: "V2PaymentCreateInput \<Rightarrow> payment_row tx" where
  "write_payment input =
     bind_tx new_date (\<lambda>now.
     bind_tx (insert_payment (payment_row_of input now)) (\<lambda>payment.
     bind_tx (record_decision input payment) (\<lambda>_.
     bind_tx (record_approval input payment) (\<lambda>_.
     bind_tx (when_tx (vd_decision (ci_policyDecision input) = PD_ALLOW) (start_execution input payment)) (\<lambda>_.
     bind_tx (record_idempotency input payment) (\<lambda>_.
     bind_tx (announce_payment input payment) (\<lambda>_.
     return_tx payment)))))))"

definition createV2Payment :: "V2PaymentCreateInput \<Rightarrow> V2PaymentCreateResult tx" where
  "createV2Payment input =
     bind_tx (lock_account (ci_accountId input)) (\<lambda>current_time.
     bind_tx (gets_tx (findV2Idempotency (ci_accountId input) (ci_idempotencyKey input))) (\<lambda>existing.
     case existing of
       Some record \<Rightarrow> replay_payment input record
     | None \<Rightarrow>
         bind_tx (recheck_policy input current_time) (\<lambda>_.
         bind_tx (check_refund input) (\<lambda>_.
         bind_tx (check_funds input) (\<lambda>_.
         bind_tx (write_payment input) (\<lambda>payment.
         return_tx \<lparr>cr_payment = toV2PaymentSnapshot payment, cr_created = True\<rparr>))))))"

section \<open>The checks leave the world alone\<close>

lemma lock_account_Inr:
  assumes "lock_account a w = Inr (t, w')"
  shows "w' = w\<lparr>w_ticks := Suc (w_ticks w)\<rparr>" "t = w_clock w (w_ticks w)"
    "\<exists>acc. List.find (\<lambda>r. acc_id r = a) (w_accounts w) = Some acc \<and> acc_status acc = AA_ACTIVE"
  using assms by (auto simp: lock_account_def tx_simps split: option.splits)

lemma replay_payment_Inr:
  assumes "replay_payment input e w = Inr (r, w')"
  shows "w' = w" "\<not> cr_created r" "idem_requestHash e = ci_requestHash input"
    "idem_fingerprint e = Some (ci_fingerprint input)"
    "List.find (\<lambda>p. pay_id p = idem_resourceId e) (w_payments w) = Some (cr_payment r)"
  using assms by (auto simp: replay_payment_def toV2PaymentSnapshot_def tx_simps)

lemma settlement_context_Inr:
  assumes "assertSettlementContextIsCurrent input w = Inr (u, w')"
  shows "w' = w"
    "ci_route input = Some chosen \<Longrightarrow>
      \<exists>r. List.find (\<lambda>r. rte_id r = sr_id chosen) (w_routes w) = Some r \<and> rte_status r = ''ACTIVE'' \<and>
          rte_rail r = sr_rail chosen \<and> rte_network r = sr_network chosen \<and>
          rte_settlementAssetId r = sr_settlementAssetId chosen \<and>
          rte_economicMappingId r = sr_economicMappingId chosen \<and>
          rte_configVersion r = sr_configVersion chosen"
  using assms
  by (auto simp: assertSettlementContextIsCurrent_def tx_simps split: option.splits prod.splits)

lemma recheck_policy_world: "recheck_policy input t w = Inr (d, w') \<Longrightarrow> w' = w"
  using settlement_context_Inr(1) by (fastforce simp: recheck_policy_def tx_simps)

lemma recheck_policy_obtains:
  assumes "recheck_policy input t w = Inr (d, w')"
  obtains p dn den pol ev where
    "List.find (\<lambda>p. pol_id p = vd_policyId (ci_policyDecision input)) (w_policies w) = Some p"
    "List.find (\<lambda>d. dn_id d = ci_denominationId input) (w_denominations w) = Some dn"
    "\<not> policy_changed input (Some p) (Some dn)" "denomination_of_row dn = Inr den"
    "spend_policy_of p den = Inr pol"
    "evaluation_input pol den (ci_amountAtomic input)
       (findApprovedDestination (ci_accountId input) (ci_destinationFingerprint input) w \<noteq> None)
       (getSpendContext (ci_accountId input) (ci_denominationId input) t (pol_rollingWindowSeconds p) w)
       = Inr ev"
    "evaluateSpendPolicy ev = Inr d" "\<not> decision_changed input d"
proof -
  let ?fp = "List.find (\<lambda>p. pol_id p = vd_policyId (ci_policyDecision input)) (w_policies w)"
  let ?fd = "List.find (\<lambda>d. dn_id d = ci_denominationId input) (w_denominations w)"
  have nc: "\<not> policy_changed input ?fp ?fd"
    using assms by (auto simp: recheck_policy_def tx_simps)
  then obtain p dn where f: "?fp = Some p" "?fd = Some dn"
    by (auto simp: policy_changed_def split: option.splits)
  have "assertSettlementContextIsCurrent input w = Inr (u, v) \<Longrightarrow> v = w" for u v
    by (rule settlement_context_Inr)
  with assms f nc show thesis
    by (auto simp: recheck_policy_def tx_simps intro!: that)
qed

lemma check_refund_Inr:
  assumes "check_refund input w = Inr (u, w')"
  shows "w' = w" "(ci_operation input = REFUND) = (ci_originalPaymentId input \<noteq> None)"
    "ci_originalPaymentId input = Some i \<Longrightarrow>
      \<exists>q. List.find (\<lambda>p. pay_id p = i) (w_payments w) = Some q \<and> pay_status q = PS_CONFIRMED \<and>
          pay_kind q \<noteq> REFUND \<and> ci_amountAtomic input + getRefundedAtomic i w \<le> pay_amountAtomic q"
  using assms by (auto simp: check_refund_def tx_simps split: option.splits)

lemma check_funds_Inr:
  assumes "check_funds input w = Inr (u, w')"
  shows "w' = w"
    "vd_decision (ci_policyDecision input) = PD_ALLOW \<Longrightarrow>
       ci_route input \<noteq> None \<and> ci_settlementAssetId input \<noteq> None \<and>
       held_atomic (ci_accountId input) (ci_denominationId input) w + ci_amountAtomic input \<le> ci_settledAtomic input"
  using assms by (auto simp: check_funds_def tx_simps Let_def when_tx_def split: if_splits)

section \<open>The rows of a new payment\<close>

lemma creation_event_preserves [frame_intros]:
  "outputs_frame g \<Longrightarrow> preserves g (creation_event input a b c t s)"
  unfolding creation_event_def by (intro frame_intros; simp add: outputs_frameD)

lemma outputs_frame_tables [simp]:
  "outputs_frame w_accounts" "outputs_frame w_credentials" "outputs_frame w_recipients"
  "outputs_frame w_payments" "outputs_frame w_attempts" "outputs_frame w_idempotency"
  "outputs_frame w_reservations" "outputs_frame w_denominations" "outputs_frame w_assets"
  "outputs_frame w_mappings" "outputs_frame w_routes" "outputs_frame w_policies"
  "outputs_frame w_decisions" "outputs_frame w_destinations" "outputs_frame w_approvals"
  "outputs_frame w_works" "outputs_frame w_evidence" "outputs_frame w_exceptions"
  "outputs_frame w_subscriptions" "outputs_frame w_clock"
  by (simp_all add: outputs_frame_def)

lemma outputs_frame_pair [simp]: "outputs_frame g \<Longrightarrow> outputs_frame h \<Longrightarrow> outputs_frame (\<lambda>w. (g w, h w))"
  by (simp add: outputs_frame_def)

text \<open>The tables the money decisions read, and the ones they are about.\<close>

definition ledger :: "world \<Rightarrow> payment_row list \<times> reservation_row list \<times> attempt_row list \<times> work_row list \<times> idempotency_row list" where
  "ledger w = (w_payments w, w_reservations w, w_attempts w, w_works w, w_idempotency w)"

lemma ledger_frame [simp]: "outputs_frame ledger"
  by (simp add: outputs_frame_def ledger_def)

lemma ledger_ticks [simp]: "ledger (w\<lparr>w_ticks := t\<rparr>) = ledger w" "ledger (w\<lparr>w_draws := t\<rparr>) = ledger w"
  "ledger (w_decisions_update f w) = ledger w" "ledger (w_approvals_update g w) = ledger w"
  by (simp_all add: ledger_def)

lemma record_decision_ledger: "preserves ledger (record_decision input p)"
  unfolding record_decision_def Let_def by (intro frame_intros; simp)

lemma record_approval_ledger: "preserves ledger (record_approval input p)"
  unfolding record_approval_def by (intro frame_intros; simp)

lemma announce_payment_ledger: "preserves ledger (announce_payment input p)"
  unfolding announce_payment_def by (intro frame_intros; simp)


lemma creation_event_ledger: "creation_event input a b c t s w = Inr (u, w') \<Longrightarrow> ledger w' = ledger w"
  by (rule preservesD [OF creation_event_preserves [OF ledger_frame]])

definition first_attempt :: "V2PaymentCreateInput \<Rightarrow> payment_row \<Rightarrow> int \<Rightarrow> attempt_row" where
  "first_attempt input payment t = new_attempt_row (ci_attemptId input) (pay_id payment) 1
     (case ci_route input of None \<Rightarrow> ''UNSELECTED'' | Some r \<Rightarrow> sr_rail r) (map_option sr_id (ci_route input)) t"

definition payment_work :: "V2PaymentCreateInput \<Rightarrow> payment_row \<Rightarrow> int \<Rightarrow> work_row" where
  "payment_work input payment t = new_work_row (ci_workItemId input) ''OUTGOING_PAYMENT'' ''PAYMENT'' (pay_id payment)
     (stringify (JObj ((''payment_id'', JStr (pay_id payment)) # correlation_member (ci_correlationId input)))) t"

lemma start_execution_Inr:
  assumes "start_execution input p w = Inr (u, w')"
  shows "\<exists>t1 t2 t3. w_payments w' = w_payments w \<and> w_idempotency w' = w_idempotency w \<and>
      w_reservations w' = w_reservations w @ [reservation_row_of input p t1] \<and>
      w_attempts w' = w_attempts w @ [first_attempt input p t2] \<and>
      w_works w' = w_works w @ [payment_work input p t3] \<and>
      \<not> list_ex (reservation_conflict (reservation_row_of input p t1)) (w_reservations w) \<and>
      \<not> list_ex (attempt_conflict (first_attempt input p t2)) (w_attempts w) \<and>
      \<not> list_ex (work_conflict (payment_work input p t3)) (w_works w)"
  using assms unfolding start_execution_def reserve_funds_def insert_attempt_def insert_work_def
    first_attempt_def [symmetric] payment_work_def [symmetric]
  by (cases "ci_route input"; auto simp: tx_simps dest!: creation_event_ledger) (auto simp: ledger_def)


lemma record_idempotency_Inr:
  assumes "record_idempotency input p w = Inr (u, w')"
  shows "w_payments w' = w_payments w" "w_reservations w' = w_reservations w"
    "w_attempts w' = w_attempts w" "w_works w' = w_works w"
    "\<exists>r. w_idempotency w' = w_idempotency w @ [r] \<and> \<not> list_ex (idempotency_conflict r) (w_idempotency w) \<and>
       idem_ownerAccountId r = ci_accountId input \<and> idem_operation r = ''V2_PAYMENT'' \<and>
       idem_key r = ci_idempotencyKey input \<and> idem_requestHash r = ci_requestHash input \<and>
       idem_fingerprint r = Some (ci_fingerprint input) \<and> idem_resourceId r = pay_id p"
  using assms by (auto simp: record_idempotency_def tx_simps)

text \<open>What a successful creation writes, table by table.\<close>

definition written :: "V2PaymentCreateInput \<Rightarrow> payment_row \<Rightarrow> world \<Rightarrow> world \<Rightarrow> bool" where
  "written input p w w' \<longleftrightarrow>
     (\<exists>t. p = payment_row_of input t) \<and> w_payments w' = w_payments w @ [p] \<and>
     ci_paymentId input \<notin> pay_id ` set (w_payments w) \<and>
     (if vd_decision (ci_policyDecision input) = PD_ALLOW
      then \<exists>t1 t2 t3.
        w_reservations w' = w_reservations w @ [reservation_row_of input p t1] \<and>
        w_attempts w' = w_attempts w @ [first_attempt input p t2] \<and>
        w_works w' = w_works w @ [payment_work input p t3] \<and>
        \<not> list_ex (reservation_conflict (reservation_row_of input p t1)) (w_reservations w) \<and>
        \<not> list_ex (attempt_conflict (first_attempt input p t2)) (w_attempts w) \<and>
        \<not> list_ex (work_conflict (payment_work input p t3)) (w_works w)
      else w_reservations w' = w_reservations w \<and> w_attempts w' = w_attempts w \<and> w_works w' = w_works w) \<and>
     (\<exists>r. w_idempotency w' = w_idempotency w @ [r] \<and> \<not> list_ex (idempotency_conflict r) (w_idempotency w) \<and>
        idem_ownerAccountId r = ci_accountId input \<and> idem_operation r = ''V2_PAYMENT'' \<and>
        idem_key r = ci_idempotencyKey input \<and> idem_requestHash r = ci_requestHash input \<and>
        idem_fingerprint r = Some (ci_fingerprint input) \<and> idem_resourceId r = pay_id p)"

lemma pay_id_payment_row_of [simp]: "pay_id (payment_row_of input t) = ci_paymentId input"
  by (simp add: payment_row_of_def Let_def)

lemma write_payment_written:
  assumes "write_payment input w = Inr (p, w')"
  shows "written input p w w'"
proof -
  let ?allow = "vd_decision (ci_policyDecision input) = PD_ALLOW"
  define t where "t = w_clock w (w_ticks w)"
  define w1 where "w1 = w_payments_update (\<lambda>rows. rows @ [payment_row_of input t]) (w\<lparr>w_ticks := Suc (w_ticks w)\<rparr>)"
  have p: "p = payment_row_of input t" and new: "ci_paymentId input \<notin> pay_id ` set (w_payments w)"
    using assms unfolding write_payment_def insert_payment_def by (auto simp: tx_simps list_ex_iff t_def)
  have ins: "w_payments w1 = w_payments w @ [p]" "w_reservations w1 = w_reservations w"
    "w_attempts w1 = w_attempts w" "w_works w1 = w_works w" "w_idempotency w1 = w_idempotency w"
    by (simp_all add: w1_def p)
  obtain w2 w3 w4 w5 where dec: "record_decision input p w1 = Inr ((), w2)"
    and app: "record_approval input p w2 = Inr ((), w3)"
    and exec: "when_tx ?allow (start_execution input p) w3 = Inr ((), w4)"
    and idem: "record_idempotency input p w4 = Inr ((), w5)" and ann: "announce_payment input p w5 = Inr ((), w')"
    using assms unfolding write_payment_def insert_payment_def p w1_def t_def by (auto simp: tx_simps)
  have L: "ledger w3 = ledger w1" "ledger w' = ledger w5"
    using preservesD [OF record_decision_ledger dec] preservesD [OF record_approval_ledger app]
      preservesD [OF announce_payment_ledger ann] by simp_all
  note I = record_idempotency_Inr [OF idem]
  show ?thesis
  proof (cases ?allow)
    case True
    with exec have "start_execution input p w3 = Inr ((), w4)" by simp
    from start_execution_Inr [OF this] True p new ins I L show ?thesis
      by (auto simp: written_def ledger_def)
  next
    case False
    with exec have "w4 = w3" by (simp add: tx_simps)
    with False p new ins I L show ?thesis
      by (auto simp: written_def ledger_def)
  qed
qed

lemma createV2Payment_cases:
  assumes "createV2Payment input w = Inr (r, w')"
  obtains (replay) e where
    "findV2Idempotency (ci_accountId input) (ci_idempotencyKey input) w = Some e"
    "replay_payment input e (w\<lparr>w_ticks := Suc (w_ticks w)\<rparr>) = Inr (r, w')"
  | (create) d where
    "findV2Idempotency (ci_accountId input) (ci_idempotencyKey input) w = None"
    "recheck_policy input (w_clock w (w_ticks w)) (w\<lparr>w_ticks := Suc (w_ticks w)\<rparr>) =
       Inr (d, w\<lparr>w_ticks := Suc (w_ticks w)\<rparr>)"
    "check_refund input (w\<lparr>w_ticks := Suc (w_ticks w)\<rparr>) = Inr ((), w\<lparr>w_ticks := Suc (w_ticks w)\<rparr>)"
    "check_funds input (w\<lparr>w_ticks := Suc (w_ticks w)\<rparr>) = Inr ((), w\<lparr>w_ticks := Suc (w_ticks w)\<rparr>)"
    "cr_created r" "written input (cr_payment r) (w\<lparr>w_ticks := Suc (w_ticks w)\<rparr>) w'"
proof -
  let ?w = "w\<lparr>w_ticks := Suc (w_ticks w)\<rparr>"
  have lock: "lock_account (ci_accountId input) w = Inr (w_clock w (w_ticks w), ?w)"
    using assms lock_account_Inr(1,2) by (fastforce simp: createV2Payment_def tx_simps)
  have idem: "findV2Idempotency a k ?w = findV2Idempotency a k w" for a k
    by (simp add: findV2Idempotency_def)
  show thesis
  proof (cases "findV2Idempotency (ci_accountId input) (ci_idempotencyKey input) w")
    case (Some e)
    then show thesis
      using assms lock idem replay by (simp add: createV2Payment_def tx_simps)
  next
    case None
    with assms lock idem obtain d w1 w2 w3 p w4 where run:
      "recheck_policy input (w_clock w (w_ticks w)) ?w = Inr (d, w1)" "check_refund input w1 = Inr ((), w2)"
      "check_funds input w2 = Inr ((), w3)" "write_payment input w3 = Inr (p, w4)"
      "r = \<lparr>cr_payment = p, cr_created = True\<rparr>" "w' = w4"
      by (auto simp: createV2Payment_def tx_simps toV2PaymentSnapshot_def)
    have [simp]: "w1 = ?w" "w2 = ?w" "w3 = ?w"
      using recheck_policy_world [OF run(1)] check_refund_Inr(1) [OF run(2)] check_funds_Inr(1) [OF run(3)] by simp_all
    show thesis
      by (rule create [OF None]) (use run write_payment_written [OF run(4)] in simp_all)
  qed
qed

section \<open>Funds\<close>

lemma written_held:
  assumes "written input p w w'" "vd_decision (ci_policyDecision input) = PD_ALLOW"
  shows "held_atomic (ci_accountId input) (ci_denominationId input) w' =
    held_atomic (ci_accountId input) (ci_denominationId input) w + ci_amountAtomic input"
proof -
  let ?H = "held_reservation (ci_accountId input) (ci_denominationId input)"
  obtain t t1 where p: "p = payment_row_of input t" and pays: "w_payments w' = w_payments w @ [p]"
    and res: "w_reservations w' = w_reservations w @ [reservation_row_of input p t1]"
    and fresh: "\<not> list_ex (reservation_conflict (reservation_row_of input p t1)) (w_reservations w)"
    using assms by (auto simp: written_def)
  have "?H (w_payments w @ [p]) r = ?H (w_payments w) r" if "r \<in> set (w_reservations w)" for r
    using fresh that p by (auto simp: held_reservation_def reservation_conflict_def reservation_row_of_def list_ex_iff)
  then have "sum_where (?H (w_payments w @ [p])) res_amountAtomic (w_reservations w) =
      sum_where (?H (w_payments w)) res_amountAtomic (w_reservations w)"
    by (simp add: sum_where_def cong: filter_cong)
  moreover have "?H (w_payments w @ [p]) (reservation_row_of input p t1)"
    by (simp add: held_reservation_def reservation_row_of_def p payment_row_of_def Let_def)
  ultimately show ?thesis
    by (simp add: held_atomic_def pays res reservation_row_of_def)
qed

section \<open>Policy\<close>

lemma opt_r_wf:
  "opt_r (\<lambda>u. exactMoneyFromAtomicUnits u d) x = Inr y \<Longrightarrow>
     pred_option (wf_exact_money d) y \<and> map_option money_atomicUnits y = x"
  by (cases x) (auto simp: result_simps dest: exactMoneyFromAtomicUnits_wf)

lemma spend_policy_of_Inr:
  assumes "spend_policy_of row d = Inr pol"
  shows "pred_option (wf_exact_money d) (sp_maxPerPayment pol)"
    "pred_option (wf_exact_money d) (sp_rollingBudget pol)"
    "pred_option (wf_exact_money d) (sp_approvalThreshold pol)"
    "map_option money_atomicUnits (sp_maxPerPayment pol) = pol_maxPerPaymentAtomic row"
    "map_option money_atomicUnits (sp_rollingBudget pol) = pol_rollingBudgetAtomic row"
    "map_option money_atomicUnits (sp_approvalThreshold pol) = pol_approvalThresholdAtomic row"
    "sp_transactionCountCap pol = pol_transactionCountCap row"
    "pol_status row = ''ACTIVE'' \<Longrightarrow> sp_status pol = SP_ACTIVE"
  using assms by (auto simp: spend_policy_of_def result_simps dest!: opt_r_wf)

lemma evaluation_input_Inr:
  assumes "evaluation_input pol d a ok ctx = Inr ev"
  shows "pi_policy ev = pol" "pi_destinationApproved ev = ok"
    "wf_exact_money d (pi_amount ev)" "wf_exact_money d (pi_confirmedSpend ev)"
    "wf_exact_money d (pi_heldReservations ev)" "wf_exact_money d (pi_unresolvedSpend ev)"
    "money_atomicUnits (pi_amount ev) = a" "0 \<le> a"
    "money_atomicUnits (pi_confirmedSpend ev) = sc_confirmedSpendAtomic ctx"
    "money_atomicUnits (pi_heldReservations ev) = sc_heldReservationAtomic ctx"
    "money_atomicUnits (pi_unresolvedSpend ev) = sc_unresolvedSpendAtomic ctx"
    "pi_transactionCount ev = IntNum (sc_transactionCount ctx)"
  using assms by (auto simp: evaluation_input_def result_simps exactMoneyFromAtomicUnits_Inr_iff
      wf_exact_money_def)

lemma over_limit_units: "over_limit u l = (case map_option money_atomicUnits l of None \<Rightarrow> False | Some b \<Rightarrow> u > b)"
  "at_limit u l = (case map_option money_atomicUnits l of None \<Rightarrow> False | Some b \<Rightarrow> u \<ge> b)"
  by (cases l; simp)+

text \<open>The limits of a policy row, read against a spending context.\<close>

definition within_limits :: "policy_row \<Rightarrow> V2SpendContext \<Rightarrow> int \<Rightarrow> bool" where
  "within_limits p ctx amount \<longleftrightarrow>
     (\<forall>m. pol_maxPerPaymentAtomic p = Some m \<longrightarrow> amount \<le> m) \<and>
     (\<forall>b. pol_rollingBudgetAtomic p = Some b \<longrightarrow>
        sc_confirmedSpendAtomic ctx + sc_heldReservationAtomic ctx + sc_unresolvedSpendAtomic ctx + amount \<le> b) \<and>
     (\<forall>c. pol_transactionCountCap p = Some c \<longrightarrow> sc_transactionCount ctx + 1 \<le> c)"

lemma getSpendContext_count: "0 \<le> sc_transactionCount (getSpendContext a d t s w)"
  by (simp add: getSpendContext_def Let_def)

lemma evaluation_decides:
  assumes pol: "spend_policy_of p d = Inr pol" and act: "pol_status p = ''ACTIVE''"
    and ev: "evaluation_input pol d a ok ctx = Inr ev" and n: "0 \<le> sc_transactionCount ctx"
    and dec: "evaluateSpendPolicy ev = Inr r"
  shows "pd_decision r = PD_DENY \<longleftrightarrow> \<not> (ok \<and> within_limits p ctx a)"
    "pd_decision r = PD_ALLOW \<longleftrightarrow>
       ok \<and> within_limits p ctx a \<and> (\<forall>b. pol_approvalThresholdAtomic p = Some b \<longrightarrow> a < b)"
proof -
  note P = spend_policy_of_Inr [OF pol] and E = evaluation_input_Inr [OF ev]
  have wf: "wf_policy_input d ev"
    using P(1-3) E by (simp add: wf_policy_input_def)
  have den: "denial_reasons ev = [] \<longleftrightarrow> ok \<and> within_limits p ctx a"
    by (auto simp: denial_reasons_def over_limit_units over_count_def budget_used_def within_limits_def E P
        split: option.splits)
  have at: "at_limit (money_atomicUnits (pi_amount ev)) (sp_approvalThreshold (pi_policy ev)) \<longleftrightarrow>
      \<not> (\<forall>b. pol_approvalThresholdAtomic p = Some b \<longrightarrow> a < b)"
    by (auto simp: over_limit_units E P split: option.splits)
  have r: "Inr r = evaluateSpendPolicy ev" using dec by simp
  note r = r [unfolded evaluateSpendPolicy_wf [OF wf P(8) [OF act, folded E(1)] E(12) n] at]
  show "pd_decision r = PD_DENY \<longleftrightarrow> \<not> (ok \<and> within_limits p ctx a)"
    unfolding den [symmetric] using r by (auto split: if_splits)
  show "pd_decision r = PD_ALLOW \<longleftrightarrow>
       ok \<and> within_limits p ctx a \<and> (\<forall>b. pol_approvalThresholdAtomic p = Some b \<longrightarrow> a < b)"
    unfolding conj_assoc [symmetric] den [symmetric] using r by (auto split: if_splits)
qed


lemma stringify_strings_inj:
  assumes "stringify (JArr (map JStr a)) = stringify (JArr (map JStr b))"
  shows "a = b"
proof -
  have "map JStr a = map JStr b"
    using parse_stringify_strings [of a] parse_stringify_strings [of b] assms by simp
  then show ?thesis
    by (metis json_strings_map option.inject)
qed

text \<open>The spending context after the payment was written.\<close>

lemma ticks_spending [simp]:
  "getSpendContext a d n s (w\<lparr>w_ticks := k\<rparr>) = getSpendContext a d n s w"
  "getRefundedAtomic i (w\<lparr>w_ticks := k\<rparr>) = getRefundedAtomic i w"
  "held_atomic a d (w\<lparr>w_ticks := k\<rparr>) = held_atomic a d w"
  "findApprovedDestination a f (w\<lparr>w_ticks := k\<rparr>) = findApprovedDestination a f w"
  "findV2Idempotency a key (w\<lparr>w_ticks := k\<rparr>) = findV2Idempotency a key w"
  by (simp_all add: getSpendContext_def getRefundedAtomic_def held_atomic_def findApprovedDestination_def
      findV2Idempotency_def)

lemma initial_status_range:
  "initial_status input \<in> {PS_REJECTED_BY_POLICY, PS_ROUTING, PS_AWAITING_APPROVAL}"
  by (simp add: initial_status_def)

lemma written_spend_context:
  fixes n :: int and s :: "int option"
  assumes "written input p w w'" "vd_decision (ci_policyDecision input) = PD_ALLOW"
  defines "c \<equiv> getSpendContext (ci_accountId input) (ci_denominationId input) n s w"
    and "c' \<equiv> getSpendContext (ci_accountId input) (ci_denominationId input) n s w'"
  shows "sc_confirmedSpendAtomic c' = sc_confirmedSpendAtomic c"
    "sc_unresolvedSpendAtomic c' = sc_unresolvedSpendAtomic c"
    "sc_heldReservationAtomic c' = sc_heldReservationAtomic c + ci_amountAtomic input"
    "sc_transactionCount c' \<le> sc_transactionCount c + 1"
proof -
  obtain t where p: "p = payment_row_of input t" and pays: "w_payments w' = w_payments w @ [p]"
    using assms by (auto simp: written_def)
  have st: "pay_status p \<in> {PS_REJECTED_BY_POLICY, PS_ROUTING, PS_AWAITING_APPROVAL}"
    using initial_status_range by (simp add: p payment_row_of_def Let_def)
  show "sc_confirmedSpendAtomic c' = sc_confirmedSpendAtomic c"
    "sc_unresolvedSpendAtomic c' = sc_unresolvedSpendAtomic c"
    "sc_transactionCount c' \<le> sc_transactionCount c + 1"
    using st by (auto simp: c_def c'_def getSpendContext_def Let_def pays)
  show "sc_heldReservationAtomic c' = sc_heldReservationAtomic c + ci_amountAtomic input"
    using written_held [OF assms(1,2)] by (simp add: c_def c'_def getSpendContext_def Let_def)
qed

section \<open>Refunds\<close>

lemma written_refunded:
  assumes "written input p w w'"
  shows "getRefundedAtomic i w' = getRefundedAtomic i w +
    (if counted_refund i p then ci_amountAtomic input else 0)"
  using assms by (auto simp: written_def getRefundedAtomic_def payment_row_of_def Let_def)

text \<open>No payment has been refunded for more than its amount.\<close>

definition refunds_capped :: "world \<Rightarrow> bool" where
  "refunds_capped w \<longleftrightarrow> (\<forall>q \<in> set (w_payments w). pay_kind q \<noteq> REFUND \<longrightarrow> pay_status q = PS_CONFIRMED \<longrightarrow>
     getRefundedAtomic (pay_id q) w \<le> pay_amountAtomic q)"

lemma created_refunds_capped:
  assumes w: "written input p w w'" and r: "check_refund input w = Inr ((), w)"
    and keys: "distinct (map pay_id (w_payments w))" and cap: "refunds_capped w"
  shows "refunds_capped w'"
proof (unfold refunds_capped_def, intro ballI impI)
  fix q assume q: "q \<in> set (w_payments w')" "pay_kind q \<noteq> REFUND" "pay_status q = PS_CONFIRMED"
  have "pay_status p \<noteq> PS_CONFIRMED" 
    using w initial_status_range [of input] by (auto simp: written_def payment_row_of_def Let_def)
  with q w have old: "q \<in> set (w_payments w)" by (auto simp: written_def)
  show "getRefundedAtomic (pay_id q) w' \<le> pay_amountAtomic q"
  proof (cases "counted_refund (pay_id q) p")
    case False
    then show ?thesis using cap old q written_refunded [OF w] by (simp add: refunds_capped_def)
  next
    case True
    then have "ci_originalPaymentId input = Some (pay_id q)"
      using w by (auto simp: counted_refund_def written_def payment_row_of_def Let_def)
    from check_refund_Inr(3) [OF r this] True written_refunded [OF w]
    show ?thesis using payments.find_unique [OF keys old] by auto
  qed
qed

section \<open>Replay\<close>

lemma find_snoc_fresh: "List.find P xs = None \<Longrightarrow> P x \<Longrightarrow> List.find P (xs @ [x]) = Some x"
  by (simp add: find_append)

lemma written_replay:
  assumes "written input p w w'" "findV2Idempotency (ci_accountId input) (ci_idempotencyKey input) w = None"
  shows "\<exists>e. findV2Idempotency (ci_accountId input) (ci_idempotencyKey input) w' = Some e \<and>
      idem_requestHash e = ci_requestHash input \<and> idem_fingerprint e = Some (ci_fingerprint input) \<and>
      List.find (\<lambda>q. pay_id q = idem_resourceId e) (w_payments w') = Some p"
proof -
  have "ci_paymentId input \<notin> pay_id ` set (w_payments w)"
    using assms by (simp add: written_def)
  then have "List.find (\<lambda>q. pay_id q = ci_paymentId input) (w_payments w) = None"
    by (auto simp: find_None_iff image_iff)
  then show ?thesis
    using assms by (auto simp: written_def findV2Idempotency_def find_snoc_fresh)
qed

lemma write_payment_accounts: "preserves w_accounts (write_payment input)"
  unfolding write_payment_def insert_payment_def record_decision_def record_approval_def start_execution_def
    reserve_funds_def insert_attempt_def insert_work_def record_idempotency_def announce_payment_def Let_def
  by (intro frame_intros; simp)

lemma createV2Payment_accounts: "preserves w_accounts (createV2Payment input)"
  unfolding createV2Payment_def lock_account_def replay_payment_def recheck_policy_def check_refund_def
    check_funds_def assertSettlementContextIsCurrent_def Let_def
  by (intro frame_intros write_payment_accounts; simp)

text \<open>The world a creation leaves behind: the account can still be locked and the idempotency
  record leads to the payment.\<close>

lemma created_then:
  assumes "createV2Payment input w = Inr (r, w')" "cr_created r"
  obtains e where "findV2Idempotency (ci_accountId input) (ci_idempotencyKey input) w' = Some e"
    "idem_requestHash e = ci_requestHash input" "idem_fingerprint e = Some (ci_fingerprint input)"
    "List.find (\<lambda>q. pay_id q = idem_resourceId e) (w_payments w') = Some (cr_payment r)"
    "lock_account (ci_accountId input) w' = Inr (w_clock w' (w_ticks w'), w'\<lparr>w_ticks := Suc (w_ticks w')\<rparr>)"
proof -
  have acc: "w_accounts w' = w_accounts w"
    by (rule preservesD [OF createV2Payment_accounts assms(1)])
  obtain t v where "lock_account (ci_accountId input) w = Inr (t, v)"
    using assms(1) by (auto simp: createV2Payment_def tx_simps)
  from lock_account_Inr(3) [OF this]
  have lock: "lock_account (ci_accountId input) w' = Inr (w_clock w' (w_ticks w'), w'\<lparr>w_ticks := Suc (w_ticks w')\<rparr>)"
    by (auto simp: lock_account_def bind_tx_def new_date_def find_tx_def gets_tx_def throw_if_tx_def return_tx_def acc)
  from assms(1) show thesis
  proof (cases rule: createV2Payment_cases)
    case (replay e)
    then show thesis using assms(2) replay_payment_Inr(2) by blast
  next
    case (create d)
    then show thesis using written_replay [OF create(6)] that lock by auto
  qed
qed

text \<open>What the transaction has checked when it creates a payment that is not denied.\<close>

lemma creation_checked:
  assumes "createV2Payment input w = Inr (r, w')" "cr_created r" "vd_decision (ci_policyDecision input) \<noteq> PD_DENY"
  shows "\<exists>p. p \<in> set (w_policies w) \<and> pol_id p = vd_policyId (ci_policyDecision input) \<and>
    pol_accountId p = ci_accountId input \<and> pol_status p = ''ACTIVE'' \<and>
    findApprovedDestination (ci_accountId input) (ci_destinationFingerprint input) w \<noteq> None \<and>
    within_limits p (getSpendContext (ci_accountId input) (ci_denominationId input) (w_clock w (w_ticks w))
      (pol_rollingWindowSeconds p) w) (ci_amountAtomic input)"
  using assms(1)
proof (cases rule: createV2Payment_cases)
  case (replay e)
  then show ?thesis using assms(2) replay_payment_Inr(2) by blast
next
  case (create d)
  from create(2) show ?thesis
  proof (cases rule: recheck_policy_obtains)
    case (1 p dn den pol ev)
    have act: "pol_status p = ''ACTIVE''" "pol_accountId p = ci_accountId input"
      using 1(3) by (auto simp: policy_changed_def)
    have "pd_decision d \<noteq> PD_DENY"
      using 1(8) assms(3) by (auto simp: decision_changed_def)
    then have "findApprovedDestination (ci_accountId input) (ci_destinationFingerprint input) w \<noteq> None"
      "within_limits p (getSpendContext (ci_accountId input) (ci_denominationId input) (w_clock w (w_ticks w))
        (pol_rollingWindowSeconds p) w) (ci_amountAtomic input)"
      using evaluation_decides(1) [OF 1(5) act(1) 1(6) getSpendContext_count 1(7)] by auto
    then show ?thesis
      using find_SomeD [OF 1(1)] act by auto
  qed
qed

end
