(* ===== verification/Payment_Attempts.thy ===== *)
theory Payment_Attempts
  imports Payment_Creation
begin

text \<open>
  Driving a payment after its creation, \<^verbatim>\<open>packages/db/src/v2.ts\<close>: the projections that read the
  rows of a payment back (\<open>loadPaymentView\<close> and its helpers), \<open>updateAttemptOutcome\<close>,
  \<open>updatePaymentExecution\<close>, \<open>abortPreEffectPayment\<close>, \<open>createReplacementAttempt\<close> and
  \<open>finalizeV2Payment\<close>. The long transactions are compositions of their phases, in the order of
  the source.
\<close>

section \<open>Reading a payment back\<close>

definition parsePolicyDecision :: "string \<Rightarrow> PaymentPolicyDecision result" where
  "parsePolicyDecision value =
     (if value = ''ALLOW'' then Inr PD_ALLOW
      else if value = ''REQUIRE_APPROVAL'' then Inr PD_REQUIRE_APPROVAL
      else if value = ''DENY'' then Inr PD_DENY
      else throwInvalidState ''Payment has an unknown policy decision'')"

definition legacyPolicyDecision :: "PaymentStatus \<Rightarrow> PaymentPolicyDecision" where
  "legacyPolicyDecision status =
     (if status = PS_REJECTED_BY_POLICY then PD_DENY
      else if status = PS_AWAITING_APPROVAL then PD_REQUIRE_APPROVAL
      else PD_ALLOW)"

definition outcome_of_name :: "string \<Rightarrow> AttemptOutcome option" where
  "outcome_of_name value =
     (if value = ''NOT_STARTED'' then Some AO_NOT_STARTED
      else if value = ''PRE_EFFECT_ABORTED'' then Some AO_PRE_EFFECT_ABORTED
      else if value = ''PROVED_NO_EFFECT'' then Some AO_PROVED_NO_EFFECT
      else if value = ''SUBMITTED'' then Some AO_SUBMITTED
      else if value = ''CONFIRMED'' then Some AO_CONFIRMED
      else if value = ''UNKNOWN'' then Some AO_UNKNOWN
      else if value = ''FAILED'' then Some AO_FAILED
      else None)"

definition asAttemptOutcome :: "string \<Rightarrow> AttemptOutcome result" where
  "asAttemptOutcome value =
     (case outcome_of_name value of
        Some out \<Rightarrow> Inr out
      | None \<Rightarrow> throwInvalidState ''Payment has an unknown attempt outcome'')"

definition attempt_status_of_name :: "string \<Rightarrow> PaymentAttemptStatus result" where
  "attempt_status_of_name value =
     (if value = ''CREATED'' then Inr PAS_CREATED
      else if value = ''PREPARED'' then Inr PAS_PREPARED
      else if value = ''EXECUTING'' then Inr PAS_EXECUTING
      else if value = ''SUBMITTED'' then Inr PAS_SUBMITTED
      else if value = ''RECONCILING'' then Inr PAS_RECONCILING
      else if value = ''CONFIRMED'' then Inr PAS_CONFIRMED
      else if value = ''FAILED'' then Inr PAS_FAILED
      else Inl (InvalidEnumValue value))"

definition assertTerminalDimensionConsistency :: "string \<Rightarrow> bool \<Rightarrow> string \<Rightarrow> string \<Rightarrow> unit result" where
  "assertTerminalDimensionConsistency nextOutcome replacement settlementState outcomeState =
     (let expected =
        (if replacement then Some (''NOT_SUBMITTED'', ''NONE'')
         else if nextOutcome = ''CONFIRMED'' then Some (''CONFIRMED'', ''CONFIRMED'')
         else if nextOutcome = ''PROVED_NO_EFFECT'' \<or> nextOutcome = ''FAILED''
         then Some (''NOT_SUBMITTED'', ''PROVED_NO_EFFECT'')
         else None)
      in throw_if (expected \<noteq> Some (settlementState, outcomeState))
           (DomainErr (InvalidStateError
             ''Payment settlement and outcome dimensions do not match the durable attempt outcome'')))"

text \<open>\<open>assertAttemptProgression\<close> on outcomes that come from strings: the table lookup of an
  unknown outcome is \<^verbatim>\<open>undefined\<close>, and an unknown next outcome is in no list.\<close>

definition assert_progression_names :: "string \<Rightarrow> string \<Rightarrow> unit result" where
  "assert_progression_names current nxt =
     (case outcome_of_name current of
        None \<Rightarrow> Inl TypeError
      | Some c \<Rightarrow>
          throw_if (nxt \<notin> set (map attempt_outcome_name (allowed_outcomes c)))
            (DomainErr (ConflictError (''Cannot transition attempt outcome from '' @ current @ '' to '' @ nxt))))"

text \<open>The clock is read only for an approval that is pending.\<close>

definition projectApprovalState :: "approval_row option \<Rightarrow> ApprovalState tx" where
  "projectApprovalState approval =
     (case approval of
        None \<Rightarrow> return_tx AS_NOT_REQUIRED
      | Some a \<Rightarrow>
          if apv_status a = ''PENDING'' then
            bind_tx new_date (\<lambda>now. return_tx (if apv_expiresAt a \<le> now then AS_EXPIRED else AS_PENDING))
          else if apv_status a = ''APPROVED'' then return_tx AS_APPROVED
          else if apv_status a = ''REJECTED'' then return_tx AS_REJECTED
          else if apv_status a = ''EXPIRED'' then return_tx AS_EXPIRED
          else throw_tx (DomainErr (InvalidStateError ''Payment has an unknown approval state'')))"

datatype ReservationView = RV_NONE | RV_HELD | RV_RELEASED | RV_CONSUMED

definition projectReservationStatus :: "reservation_row option \<Rightarrow> ReservationView result" where
  "projectReservationStatus reservation =
     (case reservation of
        None \<Rightarrow> Inr RV_NONE
      | Some r \<Rightarrow>
          if res_status r = RES_RELEASED \<or> res_lifecycleState r = ''RELEASED'' then Inr RV_RELEASED
          else if res_lifecycleState r = ''HELD'' then Inr RV_HELD
          else if res_lifecycleState r = ''CONSUMED'' then Inr RV_CONSUMED
          else throwInvalidState ''Payment has an unknown reservation state'')"

definition parseStringArray :: "string \<Rightarrow> string \<Rightarrow> string list result" where
  "parseStringArray value fieldName =
     (case JSON_parse value of
        None \<Rightarrow> throwInvalidState (fieldName @ '' are not valid JSON'')
      | Some (JArr items) \<Rightarrow>
          (case json_strings items of
             Some ss \<Rightarrow> Inr ss
           | None \<Rightarrow> throwInvalidState (fieldName @ '' are not a string array''))
      | Some _ \<Rightarrow> throwInvalidState (fieldName @ '' are not a string array''))"

record V2PaymentAttemptSnapshot =
  as_id :: string
  as_paymentId :: string
  as_attemptNumber :: int
  as_routeId :: "string option"
  as_status :: PaymentAttemptStatus
  as_outcome :: string
  as_preparedEffectHash :: "string option"
  as_preparedEffectJson :: "string option"
  as_signedPayloadHash :: "string option"
  as_signedPayloadEncrypted :: "string option"
  as_expectedExternalId :: "string option"
  as_externalId :: "string option"
  as_validityExpiresAt :: "int option"
  as_validitySlot :: "int option"
  as_rowVersion :: int

definition toV2AttemptSnapshot :: "attempt_row \<Rightarrow> V2PaymentAttemptSnapshot" where
  "toV2AttemptSnapshot a =
     \<lparr>as_id = att_id a, as_paymentId = att_paymentId a, as_attemptNumber = att_attemptNumber a,
      as_routeId = att_routeId a, as_status = att_status a, as_outcome = att_outcome a,
      as_preparedEffectHash = att_preparedEffectHash a, as_preparedEffectJson = att_preparedEffectJson a,
      as_signedPayloadHash = att_signedPayloadHash a, as_signedPayloadEncrypted = att_signedPayloadEncrypted a,
      as_expectedExternalId = att_expectedExternalId a, as_externalId = att_railTransactionId a,
      as_validityExpiresAt = att_validityExpiresAt a, as_validitySlot = att_validitySlot a,
      as_rowVersion = att_rowVersion a\<rparr>"

record V2PaymentView =
  vw_payment :: payment_row
  vw_policyDecision :: PaymentPolicyDecision
  vw_reasonCodes :: "string list"
  vw_approvalState :: ApprovalState
  vw_reservationStatus :: ReservationView
  vw_attempts :: "V2PaymentAttemptSnapshot list"

definition payment_attempts :: "string \<Rightarrow> world \<Rightarrow> attempt_row list" where
  "payment_attempts paymentId w =
     sort_key att_attemptNumber (filter (\<lambda>a. att_paymentId a = paymentId) (w_attempts w))"

definition listAttempts :: "string \<Rightarrow> V2PaymentAttemptSnapshot list tx" where
  "listAttempts paymentId = gets_tx (\<lambda>w. map toV2AttemptSnapshot (payment_attempts paymentId w))"

definition find_decision :: "string \<Rightarrow> decision_row option tx" where
  "find_decision paymentId = find_tx w_decisions (\<lambda>d. dec_paymentId d = paymentId)"

definition find_approval :: "string \<Rightarrow> approval_row option tx" where
  "find_approval paymentId = find_tx w_approvals (\<lambda>a. apv_paymentId a = paymentId)"

definition find_reservation :: "string \<Rightarrow> reservation_row option tx" where
  "find_reservation paymentId = find_tx w_reservations (\<lambda>r. res_paymentId r = paymentId)"

definition loadPaymentView :: "payment_row \<Rightarrow> string \<Rightarrow> V2PaymentView tx" where
  "loadPaymentView payment accountId =
     bind_tx (find_decision (pay_id payment)) (\<lambda>policyDecision.
     bind_tx (find_approval (pay_id payment)) (\<lambda>approval.
     bind_tx (find_reservation (pay_id payment)) (\<lambda>reservation.
     bind_tx (gets_tx (payment_attempts (pay_id payment))) (\<lambda>attempts.
     case policyDecision of
       None \<Rightarrow>
         bind_tx (projectApprovalState approval) (\<lambda>approvalState.
         bind_tx (lift_tx (projectReservationStatus reservation)) (\<lambda>reservationStatus.
         return_tx \<lparr>vw_payment = toV2PaymentSnapshot payment,
           vw_policyDecision = legacyPolicyDecision (pay_status payment), vw_reasonCodes = [],
           vw_approvalState = approvalState, vw_reservationStatus = reservationStatus,
           vw_attempts = map toV2AttemptSnapshot attempts\<rparr>))
     | Some d \<Rightarrow>
         bind_tx (throw_if_tx (dec_accountId d \<noteq> accountId)
           (DomainErr (InvalidStateError ''Payment policy decision belongs to another account''))) (\<lambda>_.
         bind_tx (lift_tx (parsePolicyDecision (dec_decision d))) (\<lambda>decision.
         bind_tx (projectApprovalState approval) (\<lambda>approvalState.
         bind_tx (lift_tx (parseStringArray (dec_reasonCodesJson d) ''policy reason codes'')) (\<lambda>reasonCodes.
         bind_tx (lift_tx (projectReservationStatus reservation)) (\<lambda>reservationStatus.
         return_tx \<lparr>vw_payment = toV2PaymentSnapshot payment, vw_policyDecision = decision,
           vw_reasonCodes = reasonCodes, vw_approvalState = approvalState,
           vw_reservationStatus = reservationStatus,
           vw_attempts = map toV2AttemptSnapshot attempts\<rparr>)))))))))"

definition findPayment :: "string \<Rightarrow> string \<Rightarrow> payment_row option tx" where
  "findPayment accountId paymentId =
     bind_tx (find_tx w_payments (\<lambda>p. pay_id p = paymentId \<and> pay_payerAccountId p = accountId)) (\<lambda>payment.
     return_tx (map_option toV2PaymentSnapshot payment))"

definition findPaymentForRefund :: "string \<Rightarrow> payment_row option tx" where
  "findPaymentForRefund paymentId =
     bind_tx (find_tx w_payments (\<lambda>p. pay_id p = paymentId)) (\<lambda>payment.
     return_tx (map_option toV2PaymentSnapshot payment))"

definition findPaymentView :: "string \<Rightarrow> string \<Rightarrow> V2PaymentView option tx" where
  "findPaymentView accountId paymentId =
     bind_tx (find_tx w_payments (\<lambda>p. pay_id p = paymentId \<and> pay_payerAccountId p = accountId)) (\<lambda>payment.
     case payment of
       None \<Rightarrow> return_tx None
     | Some p \<Rightarrow> bind_tx (loadPaymentView p accountId) (\<lambda>view. return_tx (Some view)))"

text \<open>The view a terminal transaction returns: unlike \<open>loadPaymentView\<close> it needs the decision row.\<close>

definition terminal_view :: "payment_row \<Rightarrow> V2PaymentView tx" where
  "terminal_view updated =
     bind_tx (find_or_throw_tx ''policy_decisions'' w_decisions (\<lambda>d. dec_paymentId d = pay_id updated)) (\<lambda>decision.
     bind_tx (find_approval (pay_id updated)) (\<lambda>approval.
     bind_tx (find_reservation (pay_id updated)) (\<lambda>reservation.
     bind_tx (gets_tx (payment_attempts (pay_id updated))) (\<lambda>attempts.
     bind_tx (lift_tx (parsePolicyDecision (dec_decision decision))) (\<lambda>policyDecision.
     bind_tx (lift_tx (parseStringArray (dec_reasonCodesJson decision) ''policy reason codes'')) (\<lambda>reasonCodes.
     bind_tx (projectApprovalState approval) (\<lambda>approvalState.
     bind_tx (lift_tx (projectReservationStatus reservation)) (\<lambda>reservationStatus.
     return_tx \<lparr>vw_payment = toV2PaymentSnapshot updated, vw_policyDecision = policyDecision,
       vw_reasonCodes = reasonCodes, vw_approvalState = approvalState,
       vw_reservationStatus = reservationStatus,
       vw_attempts = map toV2AttemptSnapshot attempts\<rparr>))))))))"

section \<open>Events of the worker\<close>

definition system_event ::
    "string \<Rightarrow> string option \<Rightarrow> string \<Rightarrow> string \<Rightarrow> string \<Rightarrow> string \<Rightarrow> int option \<Rightarrow>
     (string \<times> json) list option \<Rightarrow> (string \<times> json) list \<Rightarrow> unit tx" where
  "system_event accountId correlationId source resourceType resourceId eventType occurredAt oldState newState =
     bind_tx randomId (\<lambda>rid. createTimelineEvent
       \<lparr>ti_id = ''timeline_'' @ rid, ti_accountId = Some accountId, ti_resourceType = resourceType,
        ti_resourceId = resourceId, ti_eventType = eventType, ti_actorType = ''SYSTEM'', ti_actorId = None,
        ti_requestId = None, ti_correlationId = correlationId,
        ti_oldStateJson = map_option (\<lambda>s. stringify (JObj s)) oldState,
        ti_newStateJson = Some (stringify (JObj newState)), ti_source = source,
        ti_occurredAt = occurredAt, ti_metadataJson = None\<rparr>)"

definition payment_updated_webhook :: "payment_row \<Rightarrow> unit tx" where
  "payment_updated_webhook updated = enqueuePaymentWebhookEvent
     \<lparr>pw_accountId = pay_payerAccountId updated, pw_paymentId = pay_id updated,
      pw_resourceVersion = pay_rowVersion updated, pw_eventType = ''payment.updated'',
      pw_status = payment_status_name (pay_status updated), pw_amountAtomic = pay_amountAtomic updated,
      pw_denominationId = pay_denominationId updated, pw_correlationId = pay_correlationId updated\<rparr>"

section \<open>updateAttemptOutcome\<close>

record AttemptOutcomeUpdate =
  ao_attemptId :: string
  ao_currentOutcome :: string
  ao_nextOutcome :: string
  ao_currentRowVersion :: int
  ao_status :: "string option"
  ao_externalId :: "string option"
  ao_expectedExternalId :: "string option"
  ao_preparedEffectHash :: "string option"
  ao_preparedEffectJson :: "string option option"
  ao_signedPayloadHash :: "string option"
  ao_signedPayloadEncrypted :: "string option"
  ao_validityExpiresAt :: "int option"
  ao_validitySlot :: "int option"

text \<open>\<^verbatim>\<open>...(x === undefined ? {} : { column: x })\<close> on a nullable column.\<close>

definition set_col :: "'a option \<Rightarrow> 'a option \<Rightarrow> 'a option" where
  "set_col x old = (case x of None \<Rightarrow> old | Some v \<Rightarrow> Some v)"

definition set_null_col :: "'a option option \<Rightarrow> 'a option \<Rightarrow> 'a option" where
  "set_null_col x old = (case x of None \<Rightarrow> old | Some v \<Rightarrow> v)"

definition attempt_outcome_data ::
    "AttemptOutcomeUpdate \<Rightarrow> PaymentAttemptStatus option \<Rightarrow> int \<Rightarrow> attempt_row \<Rightarrow> attempt_row" where
  "attempt_outcome_data input status now a =
     a\<lparr>att_outcome := ao_nextOutcome input, att_rowVersion := att_rowVersion a + 1,
       att_status := (case status of None \<Rightarrow> att_status a | Some s \<Rightarrow> s),
       att_railTransactionId := set_col (ao_externalId input) (att_railTransactionId a),
       att_expectedExternalId := set_col (ao_expectedExternalId input) (att_expectedExternalId a),
       att_preparedEffectHash := set_col (ao_preparedEffectHash input) (att_preparedEffectHash a),
       att_preparedEffectJson := set_null_col (ao_preparedEffectJson input) (att_preparedEffectJson a),
       att_signedPayloadHash := set_col (ao_signedPayloadHash input) (att_signedPayloadHash a),
       att_signedPayloadEncrypted := set_col (ao_signedPayloadEncrypted input) (att_signedPayloadEncrypted a),
       att_validityExpiresAt := set_col (ao_validityExpiresAt input) (att_validityExpiresAt a),
       att_validitySlot := set_col (ao_validitySlot input) (att_validitySlot a),
       att_updatedAt := now\<rparr>"

definition updateAttemptOutcome :: "AttemptOutcomeUpdate \<Rightarrow> V2PaymentAttemptSnapshot tx" where
  "updateAttemptOutcome input =
     bind_tx (lift_tx (opt_r attempt_status_of_name (ao_status input))) (\<lambda>status.
     bind_tx new_date (\<lambda>now.
     bind_tx (update_many_tx w_attempts w_attempts_update
        (\<lambda>a. att_id a = ao_attemptId input \<and> att_outcome a = ao_currentOutcome input \<and>
             att_rowVersion a = ao_currentRowVersion input)
        (attempt_outcome_data input status now)) (\<lambda>count.
     bind_tx (throw_if_tx (count \<noteq> 1)
        (DomainErr (ConflictError ''Payment attempt changed concurrently''))) (\<lambda>_.
     bind_tx (find_or_throw_tx ''payment_attempts'' w_attempts (\<lambda>a. att_id a = ao_attemptId input)) (\<lambda>attempt.
     bind_tx (find_or_throw_tx ''payments'' w_payments (\<lambda>p. pay_id p = att_paymentId attempt)) (\<lambda>payment.
     bind_tx (system_event (pay_payerAccountId payment) (pay_correlationId payment) ''V2_OUTGOING_WORKER''
        ''PAYMENT_ATTEMPT'' (att_id attempt) ''ATTEMPT_OUTCOME_UPDATED'' (Some (att_updatedAt attempt))
        (Some [(''outcome'', JStr (ao_currentOutcome input))])
        [(''outcome'', JStr (att_outcome attempt)),
         (''status'', JStr (attempt_status_name (att_status attempt))),
         (''external_id_present'', JBool (att_railTransactionId attempt \<noteq> None))]) (\<lambda>_.
     return_tx (toV2AttemptSnapshot attempt))))))))"

section \<open>updatePaymentExecution\<close>

record PaymentExecutionUpdate =
  pe_paymentId :: string
  pe_currentRowVersion :: int
  pe_status :: "string option"
  pe_executionState :: "string option"
  pe_settlementState :: "string option"
  pe_outcomeState :: "string option"
  pe_confirmedAt :: "int option option"
  pe_failedAt :: "int option option"
  pe_failureCode :: "string option option"
  pe_failureMessageSafe :: "string option option"

text \<open>The checks and reads before the transaction: the row as read and the projected status.\<close>

definition project_execution :: "PaymentExecutionUpdate \<Rightarrow> (payment_row \<times> PaymentStatus) tx" where
  "project_execution input =
     bind_tx (throw_if_tx (pe_executionState input \<noteq> Some ''RECONCILING'' \<or>
         (pe_settlementState input \<noteq> Some ''SUBMITTED'' \<and> pe_settlementState input \<noteq> Some ''UNKNOWN''))
       (DomainErr (InvalidStateError
         ''Payment execution updates must represent a submitted or unknown settlement''))) (\<lambda>_.
     bind_tx (throw_if_tx (pe_settlementState input = Some ''UNKNOWN'' \<and> pe_outcomeState input \<noteq> Some ''UNDETERMINED'')
       (DomainErr (InvalidStateError ''An unknown settlement must have an undetermined outcome''))) (\<lambda>_.
     bind_tx (find_tx w_payments (\<lambda>p. pay_id p = pe_paymentId input)) (\<lambda>found.
     case found of
       None \<Rightarrow> throw_tx (DomainErr (NotFoundError ''Payment was not found''))
     | Some payment \<Rightarrow>
         bind_tx (find_decision (pay_id payment)) (\<lambda>policyDecision.
         bind_tx (find_approval (pay_id payment)) (\<lambda>approval.
         bind_tx (gets_tx (payment_attempts (pay_id payment))) (\<lambda>attempts.
         bind_tx (case policyDecision of
             None \<Rightarrow> return_tx (legacyPolicyDecision (pay_status payment))
           | Some d \<Rightarrow> lift_tx (parsePolicyDecision (dec_decision d))) (\<lambda>decision.
         bind_tx (projectApprovalState approval) (\<lambda>approvalState.
         bind_tx (lift_tx (map_r (\<lambda>a. asAttemptOutcome (att_outcome a)) attempts)) (\<lambda>outcomes.
         let projectedStatus = projectPaymentStatus
           \<lparr>pp_policyDecision = decision, pp_approvalState = approvalState, pp_attemptOutcomes = outcomes,
            pp_planExhausted = False, pp_reviewRequired = False, pp_closedUnresolved = False,
            pp_executionStarted = True\<rparr>
         in bind_tx (throw_if_tx (case pe_status input of None \<Rightarrow> False
                       | Some s \<Rightarrow> payment_status_name projectedStatus \<noteq> s)
              (DomainErr (InvalidStateError ''Payment status does not match the durable execution projection''))) (\<lambda>_.
            return_tx (payment, projectedStatus)))))))))))"

definition payment_execution_data ::
    "PaymentExecutionUpdate \<Rightarrow> PaymentStatus \<Rightarrow> int \<Rightarrow> payment_row \<Rightarrow> payment_row" where
  "payment_execution_data input projectedStatus now p =
     p\<lparr>pay_rowVersion := pay_rowVersion p + 1, pay_status := projectedStatus,
       pay_executionState := (case pe_executionState input of None \<Rightarrow> pay_executionState p | Some s \<Rightarrow> s),
       pay_settlementState := (case pe_settlementState input of None \<Rightarrow> pay_settlementState p | Some s \<Rightarrow> s),
       pay_outcomeState := (case pe_outcomeState input of None \<Rightarrow> pay_outcomeState p | Some s \<Rightarrow> s),
       pay_confirmedAt := set_null_col (pe_confirmedAt input) (pay_confirmedAt p),
       pay_failedAt := set_null_col (pe_failedAt input) (pay_failedAt p),
       pay_failureCode := set_null_col (pe_failureCode input) (pay_failureCode p),
       pay_failureMessageSafe := set_null_col (pe_failureMessageSafe input) (pay_failureMessageSafe p),
       pay_updatedAt := now\<rparr>"

definition payment_state_json :: "payment_row \<Rightarrow> (string \<times> json) list" where
  "payment_state_json p =
     [(''status'', JStr (payment_status_name (pay_status p))), (''execution_state'', JStr (pay_executionState p)),
      (''settlement_state'', JStr (pay_settlementState p)), (''outcome_state'', JStr (pay_outcomeState p))]"

definition commit_execution :: "PaymentExecutionUpdate \<Rightarrow> payment_row \<Rightarrow> PaymentStatus \<Rightarrow> payment_row tx" where
  "commit_execution input payment projectedStatus =
     bind_tx new_date (\<lambda>now.
     bind_tx (update_many_tx w_payments w_payments_update
        (\<lambda>p. pay_id p = pe_paymentId input \<and> pay_rowVersion p = pe_currentRowVersion input)
        (payment_execution_data input projectedStatus now)) (\<lambda>count.
     bind_tx (throw_if_tx (count \<noteq> 1) (DomainErr (ConflictError ''Payment changed concurrently''))) (\<lambda>_.
     bind_tx (find_or_throw_tx ''payments'' w_payments (\<lambda>p. pay_id p = pe_paymentId input)) (\<lambda>updated.
     bind_tx (system_event (pay_payerAccountId updated) (pay_correlationId updated) ''V2_OUTGOING_WORKER''
        ''PAYMENT'' (pay_id updated) ''PAYMENT_EXECUTION_UPDATED'' (Some (pay_updatedAt updated))
        (Some (payment_state_json payment)) (payment_state_json updated)) (\<lambda>_.
     return_tx (toV2PaymentSnapshot updated))))))"

definition updatePaymentExecution :: "PaymentExecutionUpdate \<Rightarrow> payment_row tx" where
  "updatePaymentExecution input =
     bind_tx (project_execution input) (\<lambda>(payment, projectedStatus).
     commit_execution input payment projectedStatus)"

section \<open>Reservations and evidence\<close>

definition held_of :: "string \<Rightarrow> reservation_row \<Rightarrow> bool" where
  "held_of paymentId r \<longleftrightarrow> res_paymentId r = paymentId \<and> res_status r = RES_ACTIVE \<and> res_lifecycleState r = ''HELD''"

definition release_data :: "string \<Rightarrow> int \<Rightarrow> reservation_row \<Rightarrow> reservation_row" where
  "release_data reason now r =
     r\<lparr>res_status := RES_RELEASED, res_lifecycleState := ''RELEASED'', res_releaseReason := Some reason,
       res_releasedAt := Some now, res_rowVersion := res_rowVersion r + 1\<rparr>"

definition consume_data :: "int \<Rightarrow> reservation_row \<Rightarrow> reservation_row" where
  "consume_data now r =
     r\<lparr>res_status := RES_ACTIVE, res_lifecycleState := ''CONSUMED'', res_consumedAt := Some now,
       res_rowVersion := res_rowVersion r + 1\<rparr>"

definition update_held :: "string \<Rightarrow> (int \<Rightarrow> reservation_row \<Rightarrow> reservation_row) \<Rightarrow> unit tx" where
  "update_held paymentId data =
     bind_tx new_date (\<lambda>now.
     bind_tx (update_many_tx w_reservations w_reservations_update (held_of paymentId) (data now)) (\<lambda>_.
     return_tx ()))"

definition insert_evidence :: "evidence_row \<Rightarrow> evidence_row tx" where
  "insert_evidence = insert_tx ''evidence_records'' w_evidence w_evidence_update (\<lambda>r q. evd_id q = evd_id r)"

definition evidence_event :: "payment_row \<Rightarrow> string \<Rightarrow> evidence_row \<Rightarrow> unit tx" where
  "evidence_event payment source e =
     system_event (pay_payerAccountId payment) (pay_correlationId payment) source ''EVIDENCE'' (evd_id e)
       ''EVIDENCE_RECORDED'' (Some (evd_observedAt e)) None
       [(''payment_id'', JStr (evd_paymentId e)), (''attempt_id'', json_opt (evd_attemptId e)),
        (''authority'', JStr (evd_authority e)), (''outcome'', JStr (evd_outcome e)),
        (''payload_hash_present'', JBool (evd_payloadHash e \<noteq> None))]"

section \<open>abortPreEffectPayment\<close>

record AbortInput =
  ab_paymentId :: string
  ab_attemptId :: string
  ab_paymentRowVersion :: int
  ab_attemptRowVersion :: int
  ab_reason :: string

definition abort_check :: "AbortInput \<Rightarrow> (payment_row \<times> attempt_row) tx" where
  "abort_check input =
     bind_tx (find_tx w_payments (\<lambda>p. pay_id p = ab_paymentId input)) (\<lambda>foundPayment.
     case foundPayment of
       None \<Rightarrow> throw_tx (DomainErr (NotFoundError ''Payment was not found''))
     | Some payment \<Rightarrow>
         bind_tx (find_tx w_attempts (\<lambda>a. att_id a = ab_attemptId input)) (\<lambda>foundAttempt.
         case foundAttempt of
           None \<Rightarrow> throw_tx (DomainErr (NotFoundError ''Payment attempt was not found''))
         | Some attempt \<Rightarrow>
             bind_tx (throw_if_tx (att_paymentId attempt \<noteq> pay_id payment)
               (DomainErr (NotFoundError ''Payment attempt was not found''))) (\<lambda>_.
             bind_tx (throw_if_tx (pay_rowVersion payment \<noteq> ab_paymentRowVersion input \<or>
                                   att_rowVersion attempt \<noteq> ab_attemptRowVersion input)
               (DomainErr (ConflictError ''Payment changed concurrently''))) (\<lambda>_.
             return_tx (payment, attempt)))))"

definition abort_attempt_data :: "int \<Rightarrow> attempt_row \<Rightarrow> attempt_row" where
  "abort_attempt_data now a =
     a\<lparr>att_outcome := ''PRE_EFFECT_ABORTED'', att_status := PAS_FAILED,
       att_rowVersion := att_rowVersion a + 1, att_updatedAt := now\<rparr>"

definition abort_attempt :: "attempt_row \<Rightarrow> unit tx" where
  "abort_attempt attempt =
     (if att_outcome attempt = ''NOT_STARTED'' then
        bind_tx (lift_tx (assertAttemptProgression AO_NOT_STARTED AO_PRE_EFFECT_ABORTED)) (\<lambda>_.
        bind_tx new_date (\<lambda>now.
        bind_tx (update_one_tx ''payment_attempts'' w_attempts w_attempts_update (\<lambda>a. att_id a = att_id attempt)
           (abort_attempt_data now)) (\<lambda>_.
        return_tx ())))
      else throw_if_tx (att_outcome attempt \<noteq> ''PRE_EFFECT_ABORTED'')
        (DomainErr (ConflictError ''Payment attempt may already have an effect'')))"

definition abort_payment_data :: "int \<Rightarrow> payment_row \<Rightarrow> payment_row" where
  "abort_payment_data now p =
     p\<lparr>pay_status := PS_PROVED_NO_EFFECT, pay_executionState := ''TERMINAL'',
       pay_settlementState := ''NOT_SUBMITTED'', pay_outcomeState := ''PROVED_NO_EFFECT'',
       pay_rowVersion := pay_rowVersion p + 1, pay_updatedAt := now\<rparr>"

definition abort_payment :: "string \<Rightarrow> unit tx" where
  "abort_payment paymentId =
     bind_tx new_date (\<lambda>now.
     bind_tx (update_one_tx ''payments'' w_payments w_payments_update (\<lambda>p. pay_id p = paymentId)
        (abort_payment_data now)) (\<lambda>_.
     return_tx ()))"

definition abort_evidence :: "AbortInput \<Rightarrow> evidence_row tx" where
  "abort_evidence input =
     bind_tx randomId (\<lambda>rid.
     bind_tx new_date (\<lambda>observedAt.
     bind_tx new_date (\<lambda>now.
     insert_evidence
       \<lparr>evd_id = ''evidence_'' @ rid, evd_paymentId = ab_paymentId input, evd_attemptId = Some (ab_attemptId input),
        evd_authority = ''LOCAL_STATE'', evd_source = ''ACCOUNT_LIFECYCLE'', evd_outcome = ''PROVED_NO_EFFECT'',
        evd_observedAt = observedAt, evd_externalId = None, evd_expectedExternalId = None,
        evd_payloadHash = None, evd_providerCorrelation = None,
        evd_metadataJson = stringify (JObj [(''reason'', JStr (ab_reason input))]), evd_createdAt = now\<rparr>)))"

definition abort_events ::
    "AbortInput \<Rightarrow> payment_row \<Rightarrow> attempt_row \<Rightarrow> attempt_row \<Rightarrow> reservation_row option \<Rightarrow> evidence_row \<Rightarrow> unit tx" where
  "abort_events input payment attempt updatedAttempt reservation evidence =
     (let event = system_event (pay_payerAccountId payment) (pay_correlationId payment) ''V2_OUTGOING_WORKER'' in
      bind_tx (case reservation of
          None \<Rightarrow> return_tx ()
        | Some r \<Rightarrow> event ''RESERVATION'' (res_id r) ''RESERVATION_RELEASED'' (res_releasedAt r) None
            [(''payment_id'', JStr (pay_id payment)), (''lifecycle_state'', JStr (res_lifecycleState r)),
             (''release_reason'', json_opt (res_releaseReason r))]) (\<lambda>_.
      bind_tx (event ''PAYMENT_ATTEMPT'' (att_id updatedAttempt) ''ATTEMPT_OUTCOME_UPDATED''
          (Some (att_updatedAt updatedAttempt)) (Some [(''outcome'', JStr (att_outcome attempt))])
          [(''outcome'', JStr (att_outcome updatedAttempt)),
           (''status'', JStr (attempt_status_name (att_status updatedAttempt)))]) (\<lambda>_.
      bind_tx (evidence_event payment ''V2_OUTGOING_WORKER'' evidence) (\<lambda>_.
      event ''PAYMENT'' (pay_id payment) ''PAYMENT_PRE_EFFECT_ABORTED'' None None
        [(''status'', JStr ''PROVED_NO_EFFECT''), (''reason'', JStr (ab_reason input))]))))"

definition abortPreEffectPayment :: "AbortInput \<Rightarrow> V2PaymentView tx" where
  "abortPreEffectPayment input =
     bind_tx (abort_check input) (\<lambda>(payment, attempt).
     bind_tx (abort_attempt attempt) (\<lambda>_.
     bind_tx (find_or_throw_tx ''payment_attempts'' w_attempts (\<lambda>a. att_id a = att_id attempt)) (\<lambda>updatedAttempt.
     bind_tx (abort_payment (pay_id payment)) (\<lambda>_.
     bind_tx (update_held (pay_id payment) (release_data (ab_reason input))) (\<lambda>_.
     bind_tx (find_reservation (pay_id payment)) (\<lambda>reservationAfterAbort.
     bind_tx (abort_evidence input) (\<lambda>evidence.
     bind_tx (abort_events input payment attempt updatedAttempt reservationAfterAbort evidence) (\<lambda>_.
     bind_tx (find_or_throw_tx ''payments'' w_payments (\<lambda>p. pay_id p = pay_id payment)) (\<lambda>updated.
     bind_tx (payment_updated_webhook updated) (\<lambda>_.
     terminal_view updated))))))))))"

section \<open>createReplacementAttempt\<close>

record ReplacementAttemptInput =
  ra_paymentId :: string
  ra_paymentRowVersion :: int
  ra_attemptId :: string
  ra_workItemId :: string
  ra_route :: SettlementRoute

definition no_effect_name :: "string \<Rightarrow> bool" where
  "no_effect_name outcome \<longleftrightarrow> outcome = ''PROVED_NO_EFFECT'' \<or> outcome = ''PRE_EFFECT_ABORTED''"

definition attempt_work :: "string \<Rightarrow> payment_row \<Rightarrow> string \<Rightarrow> int \<Rightarrow> work_row" where
  "attempt_work workItemId payment attemptId now =
     new_work_row workItemId ''OUTGOING_PAYMENT_ATTEMPT'' ''PAYMENT_ATTEMPT'' attemptId
       (stringify (JObj ([(''payment_id'', JStr (pay_id payment)), (''attempt_id'', JStr attemptId)] @
         correlation_member (pay_correlationId payment)))) now"

definition reroute_data :: "int \<Rightarrow> payment_row \<Rightarrow> payment_row" where
  "reroute_data now p =
     p\<lparr>pay_status := PS_ROUTING, pay_executionState := ''QUEUED'',
       pay_rowVersion := pay_rowVersion p + 1, pay_updatedAt := now\<rparr>"

definition replacement_events :: "payment_row \<Rightarrow> string \<Rightarrow> SettlementRoute \<Rightarrow> string \<Rightarrow> attempt_row \<Rightarrow> unit tx" where
  "replacement_events payment source route economicMappingId attempt =
     (let event = system_event (pay_payerAccountId payment) (pay_correlationId payment) source in
      bind_tx (event ''SETTLEMENT_ROUTE'' (sr_id route) ''ROUTE_SELECTED'' (Some (att_createdAt attempt)) None
         [(''payment_id'', JStr (pay_id payment)), (''route_id'', JStr (sr_id route)),
          (''rail'', JStr (sr_rail route)), (''network'', JStr (sr_network route)),
          (''settlement_asset_id'', JStr (sr_settlementAssetId route)),
          (''economic_mapping_id'', JStr economicMappingId),
          (''selection_reason'', JStr ''FALLBACK_AFTER_PROVED_NO_EFFECT'')]) (\<lambda>_.
      event ''PAYMENT_ATTEMPT'' (att_id attempt) ''ATTEMPT_CREATED'' (Some (att_createdAt attempt)) None
         [(''payment_id'', JStr (pay_id payment)), (''attempt_number'', json_int (att_attemptNumber attempt)),
          (''route_id'', json_opt (att_routeId attempt)), (''outcome'', JStr (att_outcome attempt))]))"

definition createReplacementAttempt :: "ReplacementAttemptInput \<Rightarrow> V2PaymentAttemptSnapshot tx" where
  "createReplacementAttempt input =
     bind_tx (find_or_throw_tx ''payments'' w_payments (\<lambda>p. pay_id p = ra_paymentId input)) (\<lambda>payment.
     bind_tx (throw_if_tx (pay_rowVersion payment \<noteq> ra_paymentRowVersion input)
       (DomainErr (ConflictError ''Payment changed concurrently''))) (\<lambda>_.
     bind_tx (gets_tx (payment_attempts (pay_id payment))) (\<lambda>attempts.
     bind_tx (throw_if_tx (list_ex (\<lambda>a. \<not> no_effect_name (att_outcome a)) attempts)
       (DomainErr (ConflictError
         ''Replacement attempt is unsafe while an earlier attempt may have an effect''))) (\<lambda>_.
     bind_tx new_date (\<lambda>t.
     bind_tx (insert_attempt (new_attempt_row (ra_attemptId input) (pay_id payment) (int (length attempts) + 1)
        (sr_rail (ra_route input)) (Some (sr_id (ra_route input))) t)) (\<lambda>attempt.
     bind_tx (replacement_events payment ''V2_OUTGOING_WORKER'' (ra_route input)
        (sr_economicMappingId (ra_route input)) attempt) (\<lambda>_.
     bind_tx new_date (\<lambda>now.
     bind_tx (update_one_tx ''payments'' w_payments w_payments_update (\<lambda>p. pay_id p = pay_id payment)
        (reroute_data now)) (\<lambda>_.
     bind_tx new_date (\<lambda>t'.
     bind_tx (insert_work (attempt_work (ra_workItemId input) payment (att_id attempt) t')) (\<lambda>_.
     return_tx (toV2AttemptSnapshot attempt))))))))))))"

section \<open>finalizeV2Payment\<close>

datatype ReservationAction = CONSUME | RELEASE | KEEP_NONE

record FinalizeReplacement =
  fr_attemptId :: string
  fr_workItemId :: string
  fr_route :: SettlementRoute
  fr_economicMappingId :: string
  fr_destinationSnapshotJson :: string

record FinalizeInput =
  fi_paymentId :: string
  fi_attemptId :: string
  fi_paymentRowVersion :: int
  fi_attemptRowVersion :: int
  fi_currentOutcome :: string
  fi_nextOutcome :: string
  fi_attemptStatus :: string
  fi_paymentStatus :: string
  fi_settlementState :: string
  fi_outcomeState :: string
  fi_externalId :: "string option"
  fi_expectedExternalId :: "string option"
  fi_payloadHash :: "string option"
  fi_metadataJson :: "string option"
  fi_confirmedAt :: "int option"
  fi_failedAt :: "int option"
  fi_failureCode :: "string option"
  fi_failureMessageSafe :: "string option"
  fi_reservation :: ReservationAction
  fi_evidenceOutcome :: string
  fi_source :: string
  fi_replacement :: "FinalizeReplacement option"

definition derived_status :: "FinalizeInput \<Rightarrow> PaymentStatus option" where
  "derived_status input =
     (if fi_replacement input \<noteq> None then Some PS_ROUTING
      else if fi_nextOutcome input = ''CONFIRMED'' then Some PS_CONFIRMED
      else if fi_nextOutcome input = ''PROVED_NO_EFFECT'' then Some PS_PROVED_NO_EFFECT
      else if fi_nextOutcome input = ''FAILED'' then Some PS_FAILED
      else None)"

definition check_replacement_route :: "FinalizeInput \<Rightarrow> payment_row \<Rightarrow> unit tx" where
  "check_replacement_route input payment =
     (case fi_replacement input of
        None \<Rightarrow> return_tx ()
      | Some rep \<Rightarrow>
          bind_tx (find_tx w_routes (\<lambda>r. rte_id r = sr_id (fr_route rep))) (\<lambda>route.
          bind_tx (find_tx w_assets (\<lambda>a. ast_id a = sr_settlementAssetId (fr_route rep))) (\<lambda>asset.
          bind_tx (find_tx w_mappings (\<lambda>m. map_id m = fr_economicMappingId rep)) (\<lambda>mapping.
          throw_if_tx
            (case (route, asset, mapping) of
               (Some r, Some a, Some m) \<Rightarrow>
                 rte_status r \<noteq> ''ACTIVE'' \<or> rte_rail r \<noteq> sr_rail (fr_route rep) \<or>
                 rte_network r \<noteq> sr_network (fr_route rep) \<or>
                 rte_settlementAssetId r \<noteq> sr_settlementAssetId (fr_route rep) \<or>
                 rte_economicMappingId r \<noteq> fr_economicMappingId rep \<or> ast_status a \<noteq> ''ACTIVE'' \<or>
                 map_status m \<noteq> ''ACTIVE'' \<or> Some (map_denominationId m) \<noteq> pay_denominationId payment \<or>
                 map_settlementAssetId m \<noteq> ast_id a
             | _ \<Rightarrow> True)
            (DomainErr (ConflictError ''Replacement settlement route is no longer active''))))))"

definition finalize_check :: "FinalizeInput \<Rightarrow> (payment_row \<times> attempt_row \<times> PaymentStatus) tx" where
  "finalize_check input =
     bind_tx (find_or_throw_tx ''payments'' w_payments (\<lambda>p. pay_id p = fi_paymentId input)) (\<lambda>payment.
     bind_tx (find_or_throw_tx ''payment_attempts'' w_attempts (\<lambda>a. att_id a = fi_attemptId input)) (\<lambda>attempt.
     bind_tx (throw_if_tx (att_paymentId attempt \<noteq> pay_id payment)
       (DomainErr (ConflictError ''Payment attempt does not belong to the payment''))) (\<lambda>_.
     bind_tx (throw_if_tx (pay_rowVersion payment \<noteq> fi_paymentRowVersion input \<or>
         att_rowVersion attempt \<noteq> fi_attemptRowVersion input \<or> att_outcome attempt \<noteq> fi_currentOutcome input)
       (DomainErr (ConflictError ''Payment terminalization changed concurrently''))) (\<lambda>_.
     bind_tx (throw_if_tx (fi_replacement input \<noteq> None \<and>
         (fi_nextOutcome input \<noteq> ''PROVED_NO_EFFECT'' \<or> fi_reservation input \<noteq> KEEP_NONE))
       (DomainErr (InvalidStateError
         ''A replacement attempt requires proved no-effect evidence while its reservation remains held''))) (\<lambda>_.
     bind_tx (check_replacement_route input payment) (\<lambda>_.
     case derived_status input of
       None \<Rightarrow> throw_tx (DomainErr (InvalidStateError ''Payment status does not match the durable attempt outcome''))
     | Some status \<Rightarrow>
         bind_tx (throw_if_tx (fi_paymentStatus input \<noteq> payment_status_name status)
           (DomainErr (InvalidStateError ''Payment status does not match the durable attempt outcome''))) (\<lambda>_.
         bind_tx (lift_tx (assertTerminalDimensionConsistency (fi_nextOutcome input)
           (fi_replacement input \<noteq> None) (fi_settlementState input) (fi_outcomeState input))) (\<lambda>_.
         bind_tx (lift_tx (assert_progression_names (fi_currentOutcome input) (fi_nextOutcome input))) (\<lambda>_.
         return_tx (payment, attempt, status))))))))))"

definition finalize_attempt_data :: "FinalizeInput \<Rightarrow> PaymentAttemptStatus \<Rightarrow> int \<Rightarrow> attempt_row \<Rightarrow> attempt_row" where
  "finalize_attempt_data input status now a =
     a\<lparr>att_outcome := fi_nextOutcome input, att_status := status, att_rowVersion := att_rowVersion a + 1,
       att_railTransactionId := set_col (fi_externalId input) (att_railTransactionId a), att_updatedAt := now\<rparr>"

definition finalize_attempt :: "FinalizeInput \<Rightarrow> attempt_row tx" where
  "finalize_attempt input =
     bind_tx (lift_tx (attempt_status_of_name (fi_attemptStatus input))) (\<lambda>status.
     bind_tx new_date (\<lambda>now.
     update_one_tx ''payment_attempts'' w_attempts w_attempts_update (\<lambda>a. att_id a = fi_attemptId input)
       (finalize_attempt_data input status now)))"

definition finalize_payment_data :: "FinalizeInput \<Rightarrow> PaymentStatus \<Rightarrow> int \<Rightarrow> payment_row \<Rightarrow> payment_row" where
  "finalize_payment_data input status now p =
     (case fi_replacement input of
        None \<Rightarrow>
          p\<lparr>pay_status := status, pay_executionState := ''TERMINAL'',
            pay_settlementState := fi_settlementState input, pay_outcomeState := fi_outcomeState input,
            pay_rowVersion := pay_rowVersion p + 1,
            pay_confirmedAt := set_col (fi_confirmedAt input) (pay_confirmedAt p),
            pay_failedAt := set_col (fi_failedAt input) (pay_failedAt p),
            pay_failureCode := set_col (fi_failureCode input)
              (if fi_externalId input = None then pay_failureCode p else None),
            pay_failureMessageSafe := set_col (fi_failureMessageSafe input) (pay_failureMessageSafe p),
            pay_updatedAt := now\<rparr>
      | Some rep \<Rightarrow>
          p\<lparr>pay_status := PS_ROUTING, pay_executionState := ''QUEUED'', pay_settlementState := ''NOT_SUBMITTED'',
            pay_outcomeState := ''NONE'', pay_route := Some (sr_rail (fr_route rep)),
            pay_routeId := Some (sr_id (fr_route rep)),
            pay_routeSelectionReason := Some ''FALLBACK_AFTER_PROVED_NO_EFFECT'',
            pay_settlementAssetId := Some (sr_settlementAssetId (fr_route rep)),
            pay_economicMappingId := Some (fr_economicMappingId rep),
            pay_destinationSnapshotJson := Some (fr_destinationSnapshotJson rep),
            pay_rowVersion := pay_rowVersion p + 1, pay_updatedAt := now\<rparr>)"

definition finalize_payment :: "FinalizeInput \<Rightarrow> PaymentStatus \<Rightarrow> unit tx" where
  "finalize_payment input status =
     bind_tx new_date (\<lambda>now.
     bind_tx (update_one_tx ''payments'' w_payments w_payments_update (\<lambda>p. pay_id p = fi_paymentId input)
        (finalize_payment_data input status now)) (\<lambda>_.
     return_tx ()))"

definition finalize_reservation :: "FinalizeInput \<Rightarrow> unit tx" where
  "finalize_reservation input =
     (case fi_reservation input of
        KEEP_NONE \<Rightarrow> return_tx ()
      | CONSUME \<Rightarrow> update_held (fi_paymentId input) consume_data
      | RELEASE \<Rightarrow> update_held (fi_paymentId input)
          (release_data (case fi_failureCode input of None \<Rightarrow> fi_evidenceOutcome input | Some c \<Rightarrow> c)))"

definition finalize_evidence :: "FinalizeInput \<Rightarrow> evidence_row tx" where
  "finalize_evidence input =
     bind_tx randomId (\<lambda>rid.
     bind_tx new_date (\<lambda>observedAt.
     bind_tx new_date (\<lambda>now.
     insert_evidence
       \<lparr>evd_id = ''evidence_'' @ rid, evd_paymentId = fi_paymentId input, evd_attemptId = Some (fi_attemptId input),
        evd_authority = ''RAIL'', evd_source = fi_source input, evd_outcome = fi_evidenceOutcome input,
        evd_observedAt = observedAt, evd_externalId = fi_externalId input,
        evd_expectedExternalId = fi_expectedExternalId input, evd_payloadHash = fi_payloadHash input,
        evd_providerCorrelation = None,
        evd_metadataJson = (case fi_metadataJson input of None \<Rightarrow> ''{}'' | Some m \<Rightarrow> m), evd_createdAt = now\<rparr>)))"

definition finalize_replacement :: "FinalizeInput \<Rightarrow> payment_row \<Rightarrow> attempt_row \<Rightarrow> unit tx" where
  "finalize_replacement input payment attempt =
     (case fi_replacement input of
        None \<Rightarrow> return_tx ()
      | Some rep \<Rightarrow>
          bind_tx new_date (\<lambda>t.
          bind_tx (insert_attempt (new_attempt_row (fr_attemptId rep) (fi_paymentId input)
             (att_attemptNumber attempt + 1) (sr_rail (fr_route rep)) (Some (sr_id (fr_route rep))) t)) (\<lambda>replacementAttempt.
          bind_tx new_date (\<lambda>t'.
          bind_tx (insert_work (attempt_work (fr_workItemId rep) payment (att_id replacementAttempt) t')) (\<lambda>_.
          replacement_events payment (fi_source input) (fr_route rep) (fr_economicMappingId rep) replacementAttempt)))))"

definition finalize_reservation_event :: "FinalizeInput \<Rightarrow> payment_row \<Rightarrow> reservation_row option \<Rightarrow> unit tx" where
  "finalize_reservation_event input payment reservation =
     (case reservation of
        None \<Rightarrow> return_tx ()
      | Some r \<Rightarrow> when_tx (fi_reservation input \<noteq> KEEP_NONE)
          (system_event (pay_payerAccountId payment) (pay_correlationId payment) (fi_source input)
             ''RESERVATION'' (res_id r)
             (if fi_reservation input = CONSUME then ''RESERVATION_CONSUMED'' else ''RESERVATION_RELEASED'')
             (case res_consumedAt r of Some t \<Rightarrow> Some t | None \<Rightarrow> res_releasedAt r) None
             [(''payment_id'', JStr (pay_id payment)), (''lifecycle_state'', JStr (res_lifecycleState r)),
              (''release_reason'', json_opt (res_releaseReason r))]))"

definition finalize_events :: "FinalizeInput \<Rightarrow> payment_row \<Rightarrow> PaymentStatus \<Rightarrow> attempt_row \<Rightarrow> evidence_row \<Rightarrow> unit tx" where
  "finalize_events input payment status updatedAttempt evidence =
     (let event = system_event (pay_payerAccountId payment) (pay_correlationId payment) (fi_source input) in
      bind_tx (event ''PAYMENT_ATTEMPT'' (att_id updatedAttempt) ''ATTEMPT_OUTCOME_UPDATED''
         (Some (att_updatedAt updatedAttempt)) (Some [(''outcome'', JStr (fi_currentOutcome input))])
         [(''outcome'', JStr (att_outcome updatedAttempt)),
          (''status'', JStr (attempt_status_name (att_status updatedAttempt))),
          (''external_id_present'', JBool (att_railTransactionId updatedAttempt \<noteq> None))]) (\<lambda>_.
      bind_tx (evidence_event payment (fi_source input) evidence) (\<lambda>_.
      event ''PAYMENT'' (pay_id payment)
        (if fi_replacement input = None then ''PAYMENT_TERMINALIZED'' else ''PAYMENT_FALLBACK_PLANNED'')
        None
        (Some [(''payment_status'', JStr (payment_status_name (pay_status payment))),
               (''attempt_outcome'', JStr (fi_currentOutcome input))])
        ([(''payment_status'', JStr (payment_status_name status)),
          (''attempt_outcome'', JStr (fi_nextOutcome input))] @
         (case fi_replacement input of
            None \<Rightarrow> [] | Some rep \<Rightarrow> [(''replacement_attempt_id'', JStr (fr_attemptId rep))])))))"

definition finalizeV2Payment :: "FinalizeInput \<Rightarrow> V2PaymentView tx" where
  "finalizeV2Payment input =
     bind_tx (finalize_check input) (\<lambda>(payment, attempt, status).
     bind_tx (finalize_attempt input) (\<lambda>updatedAttempt.
     bind_tx (finalize_payment input status) (\<lambda>_.
     bind_tx (finalize_reservation input) (\<lambda>_.
     bind_tx (find_reservation (fi_paymentId input)) (\<lambda>reservationAfterFinalize.
     bind_tx (finalize_evidence input) (\<lambda>evidence.
     bind_tx (finalize_replacement input payment attempt) (\<lambda>_.
     bind_tx (finalize_reservation_event input payment reservationAfterFinalize) (\<lambda>_.
     bind_tx (finalize_events input payment status updatedAttempt evidence) (\<lambda>_.
     bind_tx (find_or_throw_tx ''payments'' w_payments (\<lambda>p. pay_id p = fi_paymentId input)) (\<lambda>updated.
     bind_tx (payment_updated_webhook updated) (\<lambda>_.
     terminal_view updated)))))))))))"

section \<open>What the operations write\<close>

lemma system_event_preserves [frame_intros]:
  "outputs_frame g \<Longrightarrow> preserves g (system_event a b c d e f h i j)"
  unfolding system_event_def by (intro frame_intros; simp add: outputs_frameD)

lemma payment_updated_webhook_preserves [frame_intros]:
  "outputs_frame g \<Longrightarrow> preserves g (payment_updated_webhook p)"
  unfolding payment_updated_webhook_def by (intro frame_intros)

lemma evidence_event_preserves [frame_intros]: "outputs_frame g \<Longrightarrow> preserves g (evidence_event p s e)"
  unfolding evidence_event_def by (intro frame_intros)

lemma replacement_events_preserves [frame_intros]:
  "outputs_frame g \<Longrightarrow> preserves g (replacement_events a b c d e)"
  unfolding replacement_events_def Let_def by (intro frame_intros)

lemma abort_events_preserves [frame_intros]: "outputs_frame g \<Longrightarrow> preserves g (abort_events a b c d e f)"
  unfolding abort_events_def Let_def by (intro frame_intros)

lemma finalize_reservation_event_preserves [frame_intros]:
  "outputs_frame g \<Longrightarrow> preserves g (finalize_reservation_event a b c)"
  unfolding finalize_reservation_event_def by (intro frame_intros)

lemma finalize_events_preserves [frame_intros]: "outputs_frame g \<Longrightarrow> preserves g (finalize_events a b c d e)"
  unfolding finalize_events_def Let_def by (intro frame_intros)

lemma projectApprovalState_preserves [frame_intros]:
  "outputs_frame g \<Longrightarrow> preserves g (projectApprovalState a)"
  unfolding projectApprovalState_def by (intro frame_intros; simp add: outputs_frameD)

lemma find_preserves [frame_intros]:
  "preserves g (find_decision i)" "preserves g (find_approval i)" "preserves g (find_reservation i)"
  unfolding find_decision_def find_approval_def find_reservation_def by (intro frame_intros)+

lemma terminal_view_preserves [frame_intros]: "outputs_frame g \<Longrightarrow> preserves g (terminal_view p)"
  unfolding terminal_view_def by (intro frame_intros)

lemma insert_evidence_preserves [frame_intros]:
  "(\<And>f w. g (w_evidence_update f w) = g w) \<Longrightarrow> preserves g (insert_evidence e)"
  unfolding insert_evidence_def by (intro frame_intros)

lemma ledger_evidence [simp]: "ledger (w_evidence_update f w) = ledger w"
  by (simp add: ledger_def)

lemma evidence_ledger: "preserves ledger (abort_evidence i)" "preserves ledger (finalize_evidence j)"
  unfolding abort_evidence_def finalize_evidence_def by (intro frame_intros; simp)+

lemmas ledger_frames =
  system_event_preserves [OF ledger_frame] payment_updated_webhook_preserves [OF ledger_frame]
  evidence_event_preserves [OF ledger_frame] replacement_events_preserves [OF ledger_frame]
  abort_events_preserves [OF ledger_frame] finalize_reservation_event_preserves [OF ledger_frame]
  finalize_events_preserves [OF ledger_frame] terminal_view_preserves [OF ledger_frame]
  projectApprovalState_preserves [OF ledger_frame] evidence_ledger

lemmas ledgerD = ledger_frames [THEN preservesD]

lemma ledger_iff: "ledger w' = ledger w \<longleftrightarrow>
    w_payments w' = w_payments w \<and> w_reservations w' = w_reservations w \<and> w_attempts w' = w_attempts w \<and>
    w_works w' = w_works w \<and> w_idempotency w' = w_idempotency w"
  by (auto simp: ledger_def)

lemma updateAttemptOutcome_writes:
  assumes "updateAttemptOutcome input w = Inr (r, w')"
  shows "\<exists>st t. w_attempts w' = update_rows
        (\<lambda>a. att_id a = ao_attemptId input \<and> att_outcome a = ao_currentOutcome input \<and>
             att_rowVersion a = ao_currentRowVersion input) (attempt_outcome_data input st t) (w_attempts w)"
    "w_payments w' = w_payments w" "w_reservations w' = w_reservations w" "w_works w' = w_works w"
    "\<exists>a \<in> set (w_attempts w). att_id a = ao_attemptId input \<and> att_outcome a = ao_currentOutcome input \<and>
       att_rowVersion a = ao_currentRowVersion input"
proof -
  show "\<exists>st t. w_attempts w' = update_rows
        (\<lambda>a. att_id a = ao_attemptId input \<and> att_outcome a = ao_currentOutcome input \<and>
             att_rowVersion a = ao_currentRowVersion input) (attempt_outcome_data input st t) (w_attempts w)"
    "w_payments w' = w_payments w" "w_reservations w' = w_reservations w" "w_works w' = w_works w"
    using assms by (auto simp: updateAttemptOutcome_def tx_simps dest!: ledgerD(1)) (auto simp: ledger_iff)
  have "length (filter (\<lambda>a. att_id a = ao_attemptId input \<and> att_outcome a = ao_currentOutcome input \<and>
       att_rowVersion a = ao_currentRowVersion input) (w_attempts w)) = 1"
    using assms by (auto simp: updateAttemptOutcome_def tx_simps)
  then show "\<exists>a \<in> set (w_attempts w). att_id a = ao_attemptId input \<and> att_outcome a = ao_currentOutcome input \<and>
       att_rowVersion a = ao_currentRowVersion input"
    by (rule filter_length_oneD)
qed

lemma commit_execution_writes:
  assumes "commit_execution input p st w = Inr (r, w')"
  shows "\<exists>t. w_payments w' = update_rows (\<lambda>q. pay_id q = pe_paymentId input \<and> pay_rowVersion q = pe_currentRowVersion input)
      (payment_execution_data input st t) (w_payments w)"
    "w_attempts w' = w_attempts w" "w_reservations w' = w_reservations w" "w_works w' = w_works w"
  using assms by (auto simp: commit_execution_def tx_simps dest!: ledgerD(1)) (auto simp: ledger_iff)

lemma abort_check_Inr:
  assumes "abort_check input w = Inr ((p, a), w')"
  shows "w' = w" "p \<in> set (w_payments w)" "pay_id p = ab_paymentId input" "a \<in> set (w_attempts w)"
    "att_id a = ab_attemptId input" "att_paymentId a = ab_paymentId input"
    "List.find (\<lambda>a. att_id a = ab_attemptId input) (w_attempts w) = Some a"
  using assms by (auto simp: abort_check_def tx_simps split: option.splits dest: find_SomeD)

lemma abort_attempt_Inr:
  assumes "abort_attempt a w = Inr (u, w')"
  shows "w_payments w' = w_payments w" "w_reservations w' = w_reservations w" "w_works w' = w_works w"
    "att_outcome a = ''NOT_STARTED'' \<and>
       (\<exists>t. w_attempts w' = update_rows (\<lambda>q. att_id q = att_id a) (abort_attempt_data t) (w_attempts w)) \<or>
     att_outcome a = ''PRE_EFFECT_ABORTED'' \<and> w_attempts w' = w_attempts w"
  using assms by (auto simp: abort_attempt_def tx_simps split: if_splits)

lemma abortPreEffectPayment_writes:
  assumes "abortPreEffectPayment input w = Inr (v, w')"
  obtains p a t2 t3 where "p \<in> set (w_payments w)" "pay_id p = ab_paymentId input" "a \<in> set (w_attempts w)"
    "att_id a = ab_attemptId input" "att_paymentId a = ab_paymentId input"
    "w_payments w' = update_rows (\<lambda>q. pay_id q = ab_paymentId input) (abort_payment_data t2) (w_payments w)"
    "w_reservations w' = update_rows (held_of (ab_paymentId input)) (release_data (ab_reason input) t3) (w_reservations w)"
    "w_works w' = w_works w"
    "att_outcome a = ''NOT_STARTED'' \<and>
       (\<exists>t. w_attempts w' = update_rows (\<lambda>q. att_id q = att_id a) (abort_attempt_data t) (w_attempts w)) \<or>
     att_outcome a = ''PRE_EFFECT_ABORTED'' \<and> w_attempts w' = w_attempts w"
proof -
  obtain p a w1 where chk: "abort_check input w = Inr ((p, a), w1)"
    and rest: "bind_tx (abort_attempt a) (\<lambda>_.
     bind_tx (find_or_throw_tx ''payment_attempts'' w_attempts (\<lambda>q. att_id q = att_id a)) (\<lambda>updatedAttempt.
     bind_tx (abort_payment (pay_id p)) (\<lambda>_.
     bind_tx (update_held (pay_id p) (release_data (ab_reason input))) (\<lambda>_.
     bind_tx (find_reservation (pay_id p)) (\<lambda>reservationAfterAbort.
     bind_tx (abort_evidence input) (\<lambda>evidence.
     bind_tx (abort_events input p a updatedAttempt reservationAfterAbort evidence) (\<lambda>_.
     bind_tx (find_or_throw_tx ''payments'' w_payments (\<lambda>q. pay_id q = pay_id p)) (\<lambda>updated.
     bind_tx (payment_updated_webhook updated) (\<lambda>_.
     terminal_view updated))))))))) w1 = Inr (v, w')"
    using assms unfolding abortPreEffectPayment_def by (subst (asm) bind_tx_Inr_iff) auto
  note C = abort_check_Inr [OF chk]
  obtain w2 where at: "abort_attempt a w = Inr ((), w2)"
    and "\<exists>t2 t3. w_payments w' = update_rows (\<lambda>q. pay_id q = pay_id p) (abort_payment_data t2) (w_payments w2) \<and>
      w_reservations w' = update_rows (held_of (pay_id p)) (release_data (ab_reason input) t3) (w_reservations w2) \<and>
      w_works w' = w_works w2 \<and> w_attempts w' = w_attempts w2"
    using rest C(1)
    by (auto simp: tx_simps abort_payment_def update_held_def find_reservation_def dest!: ledgerD) (auto simp: ledger_iff)
  then show thesis
    using abort_attempt_Inr [OF at] C that by metis
qed

lemma createReplacementAttempt_writes:
  assumes "createReplacementAttempt input w = Inr (r, w')"
  obtains p t1 t2 t3 where "p \<in> set (w_payments w)" "pay_id p = ra_paymentId input"
    "pay_rowVersion p = ra_paymentRowVersion input"
    "\<forall>a \<in> set (w_attempts w). att_paymentId a = ra_paymentId input \<longrightarrow> no_effect_name (att_outcome a)"
    "w_attempts w' = w_attempts w @ [new_attempt_row (ra_attemptId input) (ra_paymentId input)
       (int (length (filter (\<lambda>a. att_paymentId a = ra_paymentId input) (w_attempts w))) + 1)
       (sr_rail (ra_route input)) (Some (sr_id (ra_route input))) t1]"
    "\<not> list_ex (attempt_conflict (new_attempt_row (ra_attemptId input) (ra_paymentId input)
       (int (length (filter (\<lambda>a. att_paymentId a = ra_paymentId input) (w_attempts w))) + 1)
       (sr_rail (ra_route input)) (Some (sr_id (ra_route input))) t1)) (w_attempts w)"
    "w_payments w' = update_rows (\<lambda>q. pay_id q = ra_paymentId input) (reroute_data t2) (w_payments w)"
    "w_reservations w' = w_reservations w"
    "w_works w' = w_works w @ [attempt_work (ra_workItemId input) p (ra_attemptId input) t3]"
    "\<not> list_ex (work_conflict (attempt_work (ra_workItemId input) p (ra_attemptId input) t3)) (w_works w)"
proof -
  have len: "length (payment_attempts i w) = length (filter (\<lambda>a. att_paymentId a = i) (w_attempts w))"
    and ex: "list_ex P (payment_attempts i w) \<longleftrightarrow> (\<exists>a \<in> set (w_attempts w). att_paymentId a = i \<and> P a)" for i P
    by (auto simp: payment_attempts_def list_ex_iff)
  have [simp]: "att_id (new_attempt_row a b c d e f) = a" for a b c d e f
    by (simp add: new_attempt_row_def)
  obtain p where p: "List.find (\<lambda>q. pay_id q = ra_paymentId input) (w_payments w) = Some p"
    using assms by (auto simp: createReplacementAttempt_def tx_simps)
  have pid: "p \<in> set (w_payments w)" "pay_id p = ra_paymentId input"
    using find_SomeD [OF p] by auto
  let ?new = "\<lambda>t. new_attempt_row (ra_attemptId input) (ra_paymentId input)
       (int (length (filter (\<lambda>a. att_paymentId a = ra_paymentId input) (w_attempts w))) + 1)
       (sr_rail (ra_route input)) (Some (sr_id (ra_route input))) t"
  have "pay_rowVersion p = ra_paymentRowVersion input \<and>
      \<not> list_ex (\<lambda>a. \<not> no_effect_name (att_outcome a)) (payment_attempts (ra_paymentId input) w) \<and>
      (\<exists>t1 t2 t3. w_attempts w' = w_attempts w @ [?new t1] \<and> \<not> list_ex (attempt_conflict (?new t1)) (w_attempts w) \<and>
        w_payments w' = update_rows (\<lambda>q. pay_id q = ra_paymentId input) (reroute_data t2) (w_payments w) \<and>
        w_reservations w' = w_reservations w \<and>
        w_works w' = w_works w @ [attempt_work (ra_workItemId input) p (ra_attemptId input) t3] \<and>
        \<not> list_ex (work_conflict (attempt_work (ra_workItemId input) p (ra_attemptId input) t3)) (w_works w))"
    using assms p
    by (auto simp: createReplacementAttempt_def insert_attempt_def insert_work_def tx_simps pid(2) len
        dest!: ledgerD(4)) (auto simp: ledger_iff)
  then obtain t1 t2 t3 where v: "pay_rowVersion p = ra_paymentRowVersion input"
    and n: "\<not> list_ex (\<lambda>a. \<not> no_effect_name (att_outcome a)) (payment_attempts (ra_paymentId input) w)"
    and F: "w_attempts w' = w_attempts w @ [?new t1]" "\<not> list_ex (attempt_conflict (?new t1)) (w_attempts w)"
      "w_payments w' = update_rows (\<lambda>q. pay_id q = ra_paymentId input) (reroute_data t2) (w_payments w)"
      "w_reservations w' = w_reservations w"
      "w_works w' = w_works w @ [attempt_work (ra_workItemId input) p (ra_attemptId input) t3]"
      "\<not> list_ex (work_conflict (attempt_work (ra_workItemId input) p (ra_attemptId input) t3)) (w_works w)"
    by blast
  have "\<forall>a \<in> set (w_attempts w). att_paymentId a = ra_paymentId input \<longrightarrow> no_effect_name (att_outcome a)"
    using n ex by blast
  from that [OF pid v this F] show thesis .
qed

lemma finalize_check_Inr:
  assumes "finalize_check input w = Inr ((p, a, st), w')"
  shows "w' = w" "p \<in> set (w_payments w)" "pay_id p = fi_paymentId input"
    "a \<in> set (w_attempts w)" "att_id a = fi_attemptId input" "att_paymentId a = fi_paymentId input"
    "pay_rowVersion p = fi_paymentRowVersion input" "att_rowVersion a = fi_attemptRowVersion input"
    "att_outcome a = fi_currentOutcome input" "derived_status input = Some st"
    "fi_replacement input \<noteq> None \<Longrightarrow> fi_nextOutcome input = ''PROVED_NO_EFFECT'' \<and> fi_reservation input = KEEP_NONE"
    "assert_progression_names (fi_currentOutcome input) (fi_nextOutcome input) = Inr ()"
proof -
  have r: "check_replacement_route input q v = Inr (u, v') \<Longrightarrow> v' = v" for q v u v'
    by (auto simp: check_replacement_route_def tx_simps split: option.splits)
  show "w' = w" "p \<in> set (w_payments w)" "pay_id p = fi_paymentId input"
    "a \<in> set (w_attempts w)" "att_id a = fi_attemptId input" "att_paymentId a = fi_paymentId input"
    "pay_rowVersion p = fi_paymentRowVersion input" "att_rowVersion a = fi_attemptRowVersion input"
    "att_outcome a = fi_currentOutcome input" "derived_status input = Some st"
    "fi_replacement input \<noteq> None \<Longrightarrow> fi_nextOutcome input = ''PROVED_NO_EFFECT'' \<and> fi_reservation input = KEEP_NONE"
    "assert_progression_names (fi_currentOutcome input) (fi_nextOutcome input) = Inr ()"
    using assms by (auto simp: finalize_check_def tx_simps split: option.splits dest!: r find_SomeD)
qed

definition finalized_reservations :: "FinalizeInput \<Rightarrow> int \<Rightarrow> reservation_row list \<Rightarrow> reservation_row list" where
  "finalized_reservations input t rows =
     (case fi_reservation input of
        KEEP_NONE \<Rightarrow> rows
      | CONSUME \<Rightarrow> update_rows (held_of (fi_paymentId input)) (consume_data t) rows
      | RELEASE \<Rightarrow> update_rows (held_of (fi_paymentId input))
          (release_data (case fi_failureCode input of None \<Rightarrow> fi_evidenceOutcome input | Some c \<Rightarrow> c) t) rows)"

lemma finalize_reservation_Inr:
  assumes "finalize_reservation input w = Inr (u, w')"
  shows "w_payments w' = w_payments w" "w_attempts w' = w_attempts w" "w_works w' = w_works w"
    "\<exists>t. w_reservations w' = finalized_reservations input t (w_reservations w)"
  using assms
  by (auto simp: finalize_reservation_def finalized_reservations_def update_held_def tx_simps
      split: ReservationAction.splits)

definition replacement_row :: "FinalizeInput \<Rightarrow> attempt_row \<Rightarrow> int \<Rightarrow> attempt_row list" where
  "replacement_row input a t =
     (case fi_replacement input of
        None \<Rightarrow> []
      | Some rep \<Rightarrow> [new_attempt_row (fr_attemptId rep) (fi_paymentId input) (att_attemptNumber a + 1)
          (sr_rail (fr_route rep)) (Some (sr_id (fr_route rep))) t])"

definition replacement_work :: "FinalizeInput \<Rightarrow> payment_row \<Rightarrow> int \<Rightarrow> work_row list" where
  "replacement_work input p t =
     (case fi_replacement input of
        None \<Rightarrow> [] | Some rep \<Rightarrow> [attempt_work (fr_workItemId rep) p (fr_attemptId rep) t])"

lemma finalize_replacement_Inr:
  assumes "finalize_replacement input p a w = Inr (u, w')"
  shows "w_payments w' = w_payments w" "w_reservations w' = w_reservations w"
    "\<exists>t. w_attempts w' = w_attempts w @ replacement_row input a t \<and>
       (\<forall>n \<in> set (replacement_row input a t). \<not> list_ex (attempt_conflict n) (w_attempts w))"
    "\<exists>t. w_works w' = w_works w @ replacement_work input p t \<and>
       (\<forall>n \<in> set (replacement_work input p t). \<not> list_ex (work_conflict n) (w_works w))"
proof -
  have [simp]: "att_id (new_attempt_row a b c d e f) = a" for a b c d e f
    by (simp add: new_attempt_row_def)
  show "w_payments w' = w_payments w" "w_reservations w' = w_reservations w"
    "\<exists>t. w_attempts w' = w_attempts w @ replacement_row input a t \<and>
       (\<forall>n \<in> set (replacement_row input a t). \<not> list_ex (attempt_conflict n) (w_attempts w))"
    "\<exists>t. w_works w' = w_works w @ replacement_work input p t \<and>
       (\<forall>n \<in> set (replacement_work input p t). \<not> list_ex (work_conflict n) (w_works w))"
    using assms
    by (auto simp: finalize_replacement_def replacement_row_def replacement_work_def insert_attempt_def
        insert_work_def tx_simps split: option.splits dest!: ledgerD(4)) (auto simp: ledger_iff)
qed

text \<open>Everything a successful finalization writes.\<close>

lemma finalizeV2Payment_writes:
  assumes "finalizeV2Payment input w = Inr (v, w')"
  obtains p a st s t1 t2 t3 t4 t5 where "finalize_check input w = Inr ((p, a, st), w)"
    "attempt_status_of_name (fi_attemptStatus input) = Inr s"
    "w_attempts w' = update_rows (\<lambda>q. att_id q = fi_attemptId input) (finalize_attempt_data input s t1) (w_attempts w) @
       replacement_row input a t4"
    "\<forall>n \<in> set (replacement_row input a t4). \<not> list_ex (attempt_conflict n)
       (update_rows (\<lambda>q. att_id q = fi_attemptId input) (finalize_attempt_data input s t1) (w_attempts w))"
    "w_payments w' = update_rows (\<lambda>q. pay_id q = fi_paymentId input) (finalize_payment_data input st t2) (w_payments w)"
    "w_reservations w' = finalized_reservations input t3 (w_reservations w)"
    "w_works w' = w_works w @ replacement_work input p t5"
    "\<forall>n \<in> set (replacement_work input p t5). \<not> list_ex (work_conflict n) (w_works w)"
proof -
  obtain p a st w0 where chk0: "finalize_check input w = Inr ((p, a, st), w0)"
    and rest: "bind_tx (finalize_attempt input) (\<lambda>updatedAttempt.
     bind_tx (finalize_payment input st) (\<lambda>_.
     bind_tx (finalize_reservation input) (\<lambda>_.
     bind_tx (find_reservation (fi_paymentId input)) (\<lambda>reservationAfterFinalize.
     bind_tx (finalize_evidence input) (\<lambda>evidence.
     bind_tx (finalize_replacement input p a) (\<lambda>_.
     bind_tx (finalize_reservation_event input p reservationAfterFinalize) (\<lambda>_.
     bind_tx (finalize_events input p st updatedAttempt evidence) (\<lambda>_.
     bind_tx (find_or_throw_tx ''payments'' w_payments (\<lambda>p. pay_id p = fi_paymentId input)) (\<lambda>updated.
     bind_tx (payment_updated_webhook updated) (\<lambda>_.
     terminal_view updated)))))))))) w0 = Inr (v, w')"
    using assms unfolding finalizeV2Payment_def by (subst (asm) bind_tx_Inr_iff) auto
  have chk: "finalize_check input w = Inr ((p, a, st), w)" and w0: "w0 = w"
    using chk0 finalize_check_Inr(1) [OF chk0] by simp_all
  obtain ua w1 w2 w3 w4 w5 ev where at: "finalize_attempt input w = Inr (ua, w1)"
    and py: "finalize_payment input st w1 = Inr ((), w2)" and rs: "finalize_reservation input w2 = Inr ((), w3)"
    and evd: "finalize_evidence input w3 = Inr (ev, w4)" and rp: "finalize_replacement input p a w4 = Inr ((), w5)"
    and fin: "ledger w' = ledger w5"
    using rest unfolding w0 by (auto simp: tx_simps find_reservation_def dest!: ledgerD(6,7,2,8))
  obtain s t1 where A: "attempt_status_of_name (fi_attemptStatus input) = Inr s"
    "w_attempts w1 = update_rows (\<lambda>q. att_id q = fi_attemptId input) (finalize_attempt_data input s t1) (w_attempts w)"
    "w_payments w1 = w_payments w" "w_reservations w1 = w_reservations w" "w_works w1 = w_works w"
    using at by (auto simp: finalize_attempt_def tx_simps)
  obtain t2 where P: "w_payments w2 = update_rows (\<lambda>q. pay_id q = fi_paymentId input) (finalize_payment_data input st t2) (w_payments w1)"
    "w_attempts w2 = w_attempts w1" "w_reservations w2 = w_reservations w1" "w_works w2 = w_works w1"
    using py by (auto simp: finalize_payment_def tx_simps)
  note R = finalize_reservation_Inr [OF rs] and E = ledgerD(11) [OF evd] and N = finalize_replacement_Inr [OF rp]
  obtain t3 t4 t5 where T: "w_reservations w3 = finalized_reservations input t3 (w_reservations w2)"
    "w_attempts w5 = w_attempts w4 @ replacement_row input a t4"
    "\<forall>n \<in> set (replacement_row input a t4). \<not> list_ex (attempt_conflict n) (w_attempts w4)"
    "w_works w5 = w_works w4 @ replacement_work input p t5"
    "\<forall>n \<in> set (replacement_work input p t5). \<not> list_ex (work_conflict n) (w_works w4)"
    using R(4) N(3,4) by blast
  show thesis
    by (rule that [OF chk A(1), of t1 t4 t2 t3 t5]) (use A P R(1-3) E N(1,2) T fin in \<open>simp_all add: ledger_iff\<close>)
qed

end
