(* ===== verification/Work_Queue.thy ===== *)
theory Work_Queue
  imports Payment_Attempts
begin

text \<open>
  The durable work queue of \<^verbatim>\<open>packages/db/src/v2.ts\<close>: claiming an item under a lease, renewing
  and giving back the lease, retrying, deferring, failing, and what happens to the payment when
  the attempts are exhausted. The loop of \<open>claimWorkItem\<close> is a \<open>function\<close> whose termination proof
  counts the items that still have to be marked exhausted. A transaction runs alone here, so
  \<^verbatim>\<open>SKIP LOCKED\<close> skips nothing.
\<close>

section \<open>Operational exceptions and evidence\<close>

record ExceptionInput =
  oe_id :: string
  oe_accountId :: "string option"
  oe_resourceType :: string
  oe_resourceId :: string
  oe_dedupeKey :: string
  oe_reasonCode :: string
  oe_severity :: "string option"
  oe_detailsJson :: "string option"

definition details_or_empty :: "string option \<Rightarrow> string" where
  "details_or_empty d = (case d of None \<Rightarrow> ''{}'' | Some s \<Rightarrow> s)"

definition exception_row_of :: "ExceptionInput \<Rightarrow> int \<Rightarrow> exception_row" where
  "exception_row_of input now =
     \<lparr>opx_id = oe_id input, opx_accountId = oe_accountId input, opx_resourceType = oe_resourceType input,
      opx_resourceId = oe_resourceId input, opx_dedupeKey = oe_dedupeKey input,
      opx_activeDedupeKey = Some (''active:'' @ oe_dedupeKey input), opx_status = ''OPEN'',
      opx_severity = (case oe_severity input of None \<Rightarrow> ''ERROR'' | Some s \<Rightarrow> s),
      opx_reasonCode = oe_reasonCode input, opx_detailsJson = details_or_empty (oe_detailsJson input),
      opx_assignedTo = None, opx_createdAt = now, opx_updatedAt = now, opx_acknowledgedAt = None,
      opx_resolvedAt = None, opx_rowVersion = 1\<rparr>"

definition exception_conflict :: "exception_row \<Rightarrow> exception_row \<Rightarrow> bool" where
  "exception_conflict r q \<longleftrightarrow> opx_id q = opx_id r \<or>
     (opx_activeDedupeKey r \<noteq> None \<and> opx_activeDedupeKey q = opx_activeDedupeKey r)"

text \<open>\<^verbatim>\<open>upsert\<close> on the active deduplication key.\<close>

definition openOperationalException :: "ExceptionInput \<Rightarrow> unit tx" where
  "openOperationalException input =
     bind_tx new_date (\<lambda>now.
     bind_tx (find_tx w_exceptions (\<lambda>x. opx_activeDedupeKey x = Some (''active:'' @ oe_dedupeKey input))) (\<lambda>found.
     case found of
       Some _ \<Rightarrow>
         bind_tx (update_one_tx ''operational_exceptions'' w_exceptions w_exceptions_update
            (\<lambda>x. opx_activeDedupeKey x = Some (''active:'' @ oe_dedupeKey input))
            (\<lambda>x. x\<lparr>opx_updatedAt := now, opx_detailsJson := details_or_empty (oe_detailsJson input)\<rparr>)) (\<lambda>_.
         return_tx ())
     | None \<Rightarrow>
         bind_tx (insert_tx ''operational_exceptions'' w_exceptions w_exceptions_update exception_conflict
            (exception_row_of input now)) (\<lambda>_.
         return_tx ())))"

definition appendTimelineEvent :: "TimelineEventInput \<Rightarrow> unit tx" where
  "appendTimelineEvent input = createTimelineEvent input"

record EvidenceInput =
  ei_id :: string
  ei_paymentId :: string
  ei_attemptId :: "string option"
  ei_authority :: string
  ei_source :: string
  ei_outcome :: string
  ei_observedAt :: int
  ei_externalId :: "string option"
  ei_expectedExternalId :: "string option"
  ei_payloadHash :: "string option"
  ei_providerCorrelation :: "string option"
  ei_metadataJson :: "string option"

definition recordEvidence :: "EvidenceInput \<Rightarrow> unit tx" where
  "recordEvidence input =
     bind_tx new_date (\<lambda>now.
     bind_tx (insert_evidence
       \<lparr>evd_id = ei_id input, evd_paymentId = ei_paymentId input, evd_attemptId = ei_attemptId input,
        evd_authority = ei_authority input, evd_source = ei_source input, evd_outcome = ei_outcome input,
        evd_observedAt = ei_observedAt input, evd_externalId = ei_externalId input,
        evd_expectedExternalId = ei_expectedExternalId input, evd_payloadHash = ei_payloadHash input,
        evd_providerCorrelation = ei_providerCorrelation input,
        evd_metadataJson = details_or_empty (ei_metadataJson input), evd_createdAt = now\<rparr>) (\<lambda>evidence.
     bind_tx (find_or_throw_tx ''payments'' w_payments (\<lambda>p. pay_id p = ei_paymentId input)) (\<lambda>payment.
     system_event (pay_payerAccountId payment) (pay_correlationId payment) ''V2_RECONCILIATION''
       ''EVIDENCE'' (evd_id evidence) ''EVIDENCE_RECORDED'' (Some (evd_observedAt evidence)) None
       [(''payment_id'', JStr (evd_paymentId evidence)), (''attempt_id'', json_opt (evd_attemptId evidence)),
        (''authority'', JStr (evd_authority evidence)), (''outcome'', JStr (evd_outcome evidence)),
        (''payload_hash_present'', JBool (evd_payloadHash evidence \<noteq> None)),
        (''external_id_present'', JBool (evd_externalId evidence \<noteq> None))])))"

section \<open>The payment of a work item\<close>

definition findWorkPayment :: "string \<Rightarrow> string \<Rightarrow> payment_row option tx" where
  "findWorkPayment resourceType resourceId =
     (if resourceType = ''PAYMENT'' then find_tx w_payments (\<lambda>p. pay_id p = resourceId)
      else if resourceType = ''PAYMENT_ATTEMPT'' then
        bind_tx (find_tx w_attempts (\<lambda>a. att_id a = resourceId)) (\<lambda>attempt.
        case attempt of
          None \<Rightarrow> return_tx None
        | Some a \<Rightarrow>
            bind_tx (find_tx w_payments (\<lambda>p. pay_id p = att_paymentId a)) (\<lambda>payment.
            case payment of None \<Rightarrow> throw_tx TypeError | Some p \<Rightarrow> return_tx (Some p)))
      else return_tx None)"

definition resolveWorkAccountId :: "string \<Rightarrow> string \<Rightarrow> string option tx" where
  "resolveWorkAccountId resourceType resourceId =
     (if resourceType = ''PAYMENT'' then
        bind_tx (find_tx w_payments (\<lambda>p. pay_id p = resourceId)) (\<lambda>payment.
        return_tx (map_option pay_payerAccountId payment))
      else if resourceType = ''PAYMENT_ATTEMPT'' then
        bind_tx (find_tx w_attempts (\<lambda>a. att_id a = resourceId)) (\<lambda>attempt.
        case attempt of
          None \<Rightarrow> return_tx None
        | Some a \<Rightarrow>
            bind_tx (find_tx w_payments (\<lambda>p. pay_id p = att_paymentId a)) (\<lambda>payment.
            case payment of None \<Rightarrow> throw_tx TypeError | Some p \<Rightarrow> return_tx (Some (pay_payerAccountId p))))
      else return_tx None)"

section \<open>Exhaustion\<close>

definition exhausted_data :: "string \<Rightarrow> string \<Rightarrow> int \<Rightarrow> work_row \<Rightarrow> work_row" where
  "exhausted_data errorCode errorSafe now i =
     i\<lparr>wi_status := ''EXHAUSTED'', wi_retryAfter := None, wi_lastErrorCode := Some errorCode,
       wi_lastErrorSafe := Some errorSafe, wi_leaseOwner := None, wi_leaseExpiresAt := None,
       wi_updatedAt := now\<rparr>"

definition review_data :: "int \<Rightarrow> payment_row \<Rightarrow> payment_row" where
  "review_data now p =
     p\<lparr>pay_status := PS_REVIEW_REQUIRED, pay_executionState := ''RECONCILING'',
       pay_settlementState := ''UNKNOWN'', pay_outcomeState := ''UNDETERMINED'',
       pay_rowVersion := pay_rowVersion p + 1, pay_updatedAt := now\<rparr>"

definition exhaustion_terminal :: "PaymentStatus \<Rightarrow> bool" where
  "exhaustion_terminal s \<longleftrightarrow> s \<in> {PS_CONFIRMED, PS_PROVED_NO_EFFECT, PS_FAILED, PS_REJECTED,
     PS_REJECTED_BY_POLICY, PS_EXPIRED, PS_CLOSED_UNRESOLVED}"

definition require_review :: "payment_row \<Rightarrow> string \<Rightarrow> int \<Rightarrow> string \<Rightarrow> unit tx" where
  "require_review payment itemId attemptCount errorCode =
     bind_tx new_date (\<lambda>now.
     bind_tx (update_one_tx ''payments'' w_payments w_payments_update (\<lambda>p. pay_id p = pay_id payment)
        (review_data now)) (\<lambda>_.
     bind_tx (find_or_throw_tx ''payments'' w_payments (\<lambda>p. pay_id p = pay_id payment)) (\<lambda>updatedPayment.
     bind_tx (payment_updated_webhook updatedPayment) (\<lambda>_.
     bind_tx (system_event (pay_payerAccountId payment) (pay_correlationId payment) ''V2_WORK_ITEM''
        ''PAYMENT'' (pay_id payment) ''PAYMENT_REVIEW_REQUIRED'' None None [(''reason'', JStr errorCode)]) (\<lambda>_.
     system_event (pay_payerAccountId payment) (pay_correlationId payment) ''V2_WORK_ITEM''
        ''RECONCILIATION'' itemId ''RECONCILIATION_WORK_EXHAUSTED'' None None
        [(''payment_id'', JStr (pay_id payment)), (''work_item_id'', JStr itemId),
         (''error_code'', JStr errorCode), (''attempt_count'', json_int attemptCount)])))))"

definition exhaustion_exception ::
    "string option \<Rightarrow> string \<Rightarrow> string \<Rightarrow> string \<Rightarrow> string \<Rightarrow> string \<Rightarrow> unit tx" where
  "exhaustion_exception accountId resourceType resourceId dedupeKey errorCode errorSafe =
     bind_tx randomId (\<lambda>rid. openOperationalException
       \<lparr>oe_id = ''opx_'' @ rid, oe_accountId = accountId, oe_resourceType = resourceType,
        oe_resourceId = resourceId, oe_dedupeKey = dedupeKey, oe_reasonCode = ''WORK_ITEM_EXHAUSTED'',
        oe_severity = None,
        oe_detailsJson = Some (stringify (JObj
          [(''error_code'', JStr errorCode), (''error_safe'', JStr errorSafe)]))\<rparr>)"

definition exhaust_row :: "string \<Rightarrow> string \<Rightarrow> string \<Rightarrow> unit tx" where
  "exhaust_row itemId errorCode errorSafe =
     bind_tx new_date (\<lambda>now.
     bind_tx (update_one_tx ''durable_work_items'' w_works w_works_update (\<lambda>i. wi_id i = itemId)
        (exhausted_data errorCode errorSafe now)) (\<lambda>_.
     return_tx ()))"

definition report_exhaustion :: "work_row \<Rightarrow> string \<Rightarrow> string \<Rightarrow> unit tx" where
  "report_exhaustion item errorCode errorSafe =
     bind_tx (findWorkPayment (wi_resourceType item) (wi_resourceId item)) (\<lambda>payment.
     case payment of
       Some p \<Rightarrow>
         bind_tx (when_tx (\<not> exhaustion_terminal (pay_status p))
            (require_review p (wi_id item) (wi_attemptCount item) errorCode)) (\<lambda>_.
         exhaustion_exception (Some (pay_payerAccountId p)) ''PAYMENT'' (pay_id p)
            (''payment:'' @ pay_id p @ '':work-exhausted'') errorCode errorSafe)
     | None \<Rightarrow>
         exhaustion_exception None (wi_resourceType item) (wi_resourceId item)
            (''work:'' @ wi_id item) errorCode errorSafe)"

definition markWorkItemExhausted :: "work_row \<Rightarrow> string \<Rightarrow> string \<Rightarrow> unit tx" where
  "markWorkItemExhausted item errorCode errorSafe =
     bind_tx (exhaust_row (wi_id item) errorCode errorSafe) (\<lambda>_.
     report_exhaustion item errorCode errorSafe)"

section \<open>Claiming\<close>

record ClaimInput =
  cl_kind :: string
  cl_owner :: string
  cl_leaseSeconds :: number
  cl_now :: "int option"

record V2WorkItemClaim =
  wc_id :: string
  wc_kind :: string
  wc_resourceType :: string
  wc_resourceId :: string
  wc_attemptCount :: int
  wc_payloadJson :: string
  wc_accountId :: "string option"

text \<open>\<^verbatim>\<open>lease_expires_at <= now\<close>: not true of a null column.\<close>

definition lease_expired :: "int \<Rightarrow> work_row \<Rightarrow> bool" where
  "lease_expired now i \<longleftrightarrow> (case wi_leaseExpiresAt i of None \<Rightarrow> False | Some t \<Rightarrow> t \<le> now)"

definition exhaustible :: "string \<Rightarrow> int \<Rightarrow> work_row \<Rightarrow> bool" where
  "exhaustible kind now i \<longleftrightarrow>
     wi_kind i = kind \<and> wi_status i = ''CLAIMED'' \<and> lease_expired now i \<and>
     wi_attemptCount i \<ge> wi_maxAttempts i \<and> wi_leaseRecoveryCount i \<ge> 1 \<and> wi_availableAt i \<le> now"

definition claimable :: "string \<Rightarrow> int \<Rightarrow> work_row \<Rightarrow> bool" where
  "claimable kind now i \<longleftrightarrow>
     wi_kind i = kind \<and>
     (wi_status i = ''AVAILABLE'' \<or> wi_status i = ''RETRY_WAIT'' \<or>
      (wi_status i = ''CLAIMED'' \<and> lease_expired now i)) \<and>
     ((wi_status i \<in> {''AVAILABLE'', ''RETRY_WAIT''} \<and> wi_attemptCount i < wi_maxAttempts i) \<or>
      (wi_status i = ''RETRY_WAIT'' \<and> wi_attemptCount i \<ge> wi_maxAttempts i \<and> wi_leaseRecoveryCount i < 1) \<or>
      (wi_status i = ''CLAIMED'' \<and>
        (wi_attemptCount i < wi_maxAttempts i \<or>
         (wi_attemptCount i \<ge> wi_maxAttempts i \<and> wi_leaseRecoveryCount i < 1)))) \<and>
     wi_availableAt i \<le> now"

text \<open>\<^verbatim>\<open>ORDER BY available_at ASC, id ASC ... LIMIT 1\<close>.\<close>

definition work_key :: "work_row \<Rightarrow> order_key" where
  "work_key i = OrderKey (wi_availableAt i) (wi_id i)"

definition first_work :: "(work_row \<Rightarrow> bool) \<Rightarrow> work_row list \<Rightarrow> work_row option" where
  "first_work P rows = (case sort_key work_key (filter P rows) of [] \<Rightarrow> None | r # _ \<Rightarrow> Some r)"

definition claim_data :: "string \<Rightarrow> int \<Rightarrow> bool \<Rightarrow> int \<Rightarrow> work_row \<Rightarrow> work_row" where
  "claim_data owner leaseExpiresAt recovery now i =
     i\<lparr>wi_status := ''CLAIMED'', wi_leaseOwner := Some owner, wi_leaseExpiresAt := Some leaseExpiresAt,
       wi_leaseRecoveryCount := wi_leaseRecoveryCount i + (if recovery then 1 else 0),
       wi_attemptCount := wi_attemptCount i + (if recovery then 0 else 1), wi_updatedAt := now\<rparr>"

definition claim_row :: "ClaimInput \<Rightarrow> int \<Rightarrow> work_row \<Rightarrow> work_row tx" where
  "claim_row input now row =
     bind_tx new_date (\<lambda>t.
     update_one_tx ''durable_work_items'' w_works w_works_update (\<lambda>i. wi_id i = wi_id row)
       (claim_data (cl_owner input) (now + num_val (cl_leaseSeconds input) * 1000)
          (wi_attemptCount row \<ge> wi_maxAttempts row) t))"

definition claim_next :: "ClaimInput \<Rightarrow> int \<Rightarrow> V2WorkItemClaim option tx" where
  "claim_next input now =
     bind_tx (gets_tx (\<lambda>w. first_work (claimable (cl_kind input) now) (w_works w))) (\<lambda>found.
     case found of
       None \<Rightarrow> return_tx None
     | Some row \<Rightarrow>
         bind_tx (claim_row input now row) (\<lambda>item.
         bind_tx (resolveWorkAccountId (wi_resourceType item) (wi_resourceId item)) (\<lambda>accountId.
         return_tx (Some
           \<lparr>wc_id = wi_id item, wc_kind = wi_kind item, wc_resourceType = wi_resourceType item,
            wc_resourceId = wi_resourceId item, wc_attemptCount = wi_attemptCount item,
            wc_payloadJson = wi_payloadJson item, wc_accountId = accountId\<rparr>))))"

section \<open>The claim loop ends\<close>

lemma openOperationalException_preserves [frame_intros]:
  "outputs_frame g \<Longrightarrow> (\<And>f w. g (w_exceptions_update f w) = g w) \<Longrightarrow> preserves g (openOperationalException input)"
  unfolding openOperationalException_def by (intro frame_intros; simp add: outputs_frameD)

lemma exhaustion_exception_preserves [frame_intros]:
  "outputs_frame g \<Longrightarrow> (\<And>f w. g (w_exceptions_update f w) = g w) \<Longrightarrow>
   preserves g (exhaustion_exception a b c d e f)"
  unfolding exhaustion_exception_def by (intro frame_intros; simp add: outputs_frameD)

lemma findWorkPayment_preserves [frame_intros]: "preserves g (findWorkPayment a b)"
  unfolding findWorkPayment_def by (intro frame_intros)

lemma resolveWorkAccountId_preserves [frame_intros]: "preserves g (resolveWorkAccountId a b)"
  unfolding resolveWorkAccountId_def by (intro frame_intros)

lemma require_review_works: "preserves w_works (require_review p i n c)"
  unfolding require_review_def by (intro frame_intros; simp)

lemma report_exhaustion_works: "preserves w_works (report_exhaustion item c s)"
  unfolding report_exhaustion_def by (intro frame_intros require_review_works; simp)

lemma markWorkItemExhausted_works:
  assumes "markWorkItemExhausted item c s w = Inr (u, w')"
  shows "\<exists>t. w_works w' = update_rows (\<lambda>i. wi_id i = wi_id item) (exhausted_data c s t) (w_works w)"
proof -
  obtain w1 where ex: "exhaust_row (wi_id item) c s w = Inr ((), w1)"
    and rest: "report_exhaustion item c s w1 = Inr (u, w')"
    using assms by (auto simp: markWorkItemExhausted_def tx_simps)
  have "w_works w' = w_works w1"
    by (rule preservesD [OF report_exhaustion_works rest])
  then show ?thesis
    using ex by (auto simp: exhaust_row_def tx_simps)
qed

definition exhaustible_count :: "string \<Rightarrow> int \<Rightarrow> world \<Rightarrow> nat" where
  "exhaustible_count kind now w = length (filter (exhaustible kind now) (w_works w))"

lemma not_exhaustible_exhausted [simp]: "\<not> exhaustible k now (exhausted_data c s t i)"
  by (simp add: exhaustible_def exhausted_data_def)

lemma count_update_less:
  assumes "r \<in> set rows" "P r" "Q r" "\<And>i. \<not> P (f i)"
  shows "length (filter P (update_rows Q f rows)) < length (filter P rows)"
proof -
  have le: "length (filter P (update_rows Q f xs)) \<le> length (filter P xs)" for xs
    by (induction xs) (auto simp: update_rows_def assms(4))
  show ?thesis
    using assms(1)
  proof (induction rows)
    case (Cons x xs)
    then show ?case
      using le [of xs] assms(2-4) by (auto simp: update_rows_def)
  qed simp
qed

lemma first_work_SomeD: "first_work P rows = Some r \<Longrightarrow> r \<in> set rows \<and> P r"
proof -
  assume a: "first_work P rows = Some r"
  then obtain rest where "sort_key work_key (filter P rows) = r # rest"
    by (auto simp: first_work_def split: list.splits)
  then have "r \<in> set (sort_key work_key (filter P rows))" by simp
  then show ?thesis by simp
qed

lemma mark_exhausted_less:
  assumes "first_work (exhaustible kind now) (w_works w) = Some row"
    and "markWorkItemExhausted row c s w = Inr (u, w')"
  shows "exhaustible_count kind now w' < exhaustible_count kind now w"
  using markWorkItemExhausted_works [OF assms(2)] first_work_SomeD [OF assms(1)]
  by (auto simp: exhaustible_count_def intro!: count_update_less [of row])

function claim_loop :: "ClaimInput \<Rightarrow> int \<Rightarrow> world \<Rightarrow> (V2WorkItemClaim option \<times> world) result" where
  "claim_loop input now w =
     (case first_work (exhaustible (cl_kind input) now) (w_works w) of
        Some row \<Rightarrow>
          (case markWorkItemExhausted row ''FINAL_LEASE_EXPIRED''
                  ''Work item lease expired after final-attempt recovery'' w of
             Inl e \<Rightarrow> Inl e
           | Inr (_, w') \<Rightarrow> claim_loop input now w')
      | None \<Rightarrow> claim_next input now w)"
  by pat_completeness auto

termination
  by (relation "measure (\<lambda>(input, now, w). exhaustible_count (cl_kind input) now w)")
    (auto dest: mark_exhausted_less)

declare claim_loop.simps [simp del]

definition claimWorkItem :: "ClaimInput \<Rightarrow> V2WorkItemClaim option tx" where
  "claimWorkItem input =
     bind_tx (throw_if_tx (\<not> isInteger (cl_leaseSeconds input) \<or> num_val (cl_leaseSeconds input) \<le> 0)
       (DomainErr (InvalidStateError ''Lease must be positive''))) (\<lambda>_.
     bind_tx (case cl_now input of None \<Rightarrow> new_date | Some t \<Rightarrow> return_tx t) (\<lambda>now.
     claim_loop input now))"

section \<open>Holding and giving back a lease\<close>

definition owns_lease :: "string \<Rightarrow> string \<Rightarrow> int \<Rightarrow> work_row \<Rightarrow> bool" where
  "owns_lease itemId owner now i \<longleftrightarrow>
     wi_id i = itemId \<and> wi_status i = ''CLAIMED'' \<and> wi_leaseOwner i = Some owner \<and>
     (case wi_leaseExpiresAt i of None \<Rightarrow> False | Some t \<Rightarrow> t > now)"

definition lease_lost :: js_error where
  "lease_lost = DomainErr (ConflictError ''Work item lease is no longer owned'')"

definition complete_data :: "int \<Rightarrow> int \<Rightarrow> work_row \<Rightarrow> work_row" where
  "complete_data completedAt now i =
     i\<lparr>wi_status := ''COMPLETED'', wi_completedAt := Some completedAt, wi_leaseOwner := None,
       wi_leaseExpiresAt := None, wi_updatedAt := now\<rparr>"

definition completeWorkItem :: "string \<Rightarrow> string \<Rightarrow> unit tx" where
  "completeWorkItem itemId owner =
     bind_tx new_date (\<lambda>now.
     bind_tx new_date (\<lambda>completedAt.
     bind_tx new_date (\<lambda>updatedAt.
     bind_tx (update_many_tx w_works w_works_update (owns_lease itemId owner now)
        (complete_data completedAt updatedAt)) (\<lambda>count.
     throw_if_tx (count \<noteq> 1) lease_lost))))"

record RenewInput =
  rn_id :: string
  rn_owner :: string
  rn_leaseSeconds :: number
  rn_now :: "int option"

definition renewWorkItemLease :: "RenewInput \<Rightarrow> int tx" where
  "renewWorkItemLease input =
     bind_tx (throw_if_tx (\<not> isInteger (rn_leaseSeconds input) \<or> num_val (rn_leaseSeconds input) \<le> 0)
       (DomainErr (InvalidStateError ''Lease must be positive''))) (\<lambda>_.
     bind_tx (case rn_now input of None \<Rightarrow> new_date | Some t \<Rightarrow> return_tx t) (\<lambda>now.
     let leaseExpiresAt = now + num_val (rn_leaseSeconds input) * 1000 in
     bind_tx new_date (\<lambda>updatedAt.
     bind_tx (update_many_tx w_works w_works_update (owns_lease (rn_id input) (rn_owner input) now)
        (\<lambda>i. i\<lparr>wi_leaseExpiresAt := Some leaseExpiresAt, wi_updatedAt := updatedAt\<rparr>)) (\<lambda>count.
     bind_tx (throw_if_tx (count \<noteq> 1) lease_lost) (\<lambda>_.
     return_tx leaseExpiresAt)))))"

definition lockOwnedWorkItem :: "string \<Rightarrow> string \<Rightarrow> work_row tx" where
  "lockOwnedWorkItem itemId owner =
     bind_tx (find_tx w_works (\<lambda>i. wi_id i = itemId)) (\<lambda>locked.
     bind_tx (throw_if_tx (locked = None) lease_lost) (\<lambda>_.
     bind_tx new_date (\<lambda>now.
     bind_tx (find_tx w_works (owns_lease itemId owner now)) (\<lambda>item.
     case item of None \<Rightarrow> throw_tx lease_lost | Some i \<Rightarrow> return_tx i))))"

record RetryInputW =
  rw_id :: string
  rw_owner :: string
  rw_retryAt :: int
  rw_errorCode :: string
  rw_errorSafe :: string
  rw_nextKind :: "string option"

definition retry_data :: "RetryInputW \<Rightarrow> int \<Rightarrow> work_row \<Rightarrow> work_row" where
  "retry_data input now i =
     i\<lparr>wi_status := ''RETRY_WAIT'', wi_retryAfter := Some (rw_retryAt input), wi_availableAt := rw_retryAt input,
       wi_lastErrorCode := Some (rw_errorCode input), wi_lastErrorSafe := Some (rw_errorSafe input),
       wi_kind := (case rw_nextKind input of None \<Rightarrow> wi_kind i | Some k \<Rightarrow> k),
       wi_leaseOwner := None, wi_leaseExpiresAt := None, wi_updatedAt := now\<rparr>"

text \<open>A new kind may collide with another item of the same resource.\<close>

definition check_kind :: "RetryInputW \<Rightarrow> work_row \<Rightarrow> unit tx" where
  "check_kind input item =
     bind_tx (find_tx w_works (\<lambda>q. wi_id q \<noteq> wi_id item \<and> Some (wi_kind q) = rw_nextKind input \<and>
        wi_resourceType q = wi_resourceType item \<and> wi_resourceId q = wi_resourceId item)) (\<lambda>other.
     throw_if_tx (other \<noteq> None) (UniqueViolation ''durable_work_items''))"

definition retryWorkItem :: "RetryInputW \<Rightarrow> unit tx" where
  "retryWorkItem input =
     bind_tx (lockOwnedWorkItem (rw_id input) (rw_owner input)) (\<lambda>item.
     if wi_attemptCount item \<ge> wi_maxAttempts item
     then markWorkItemExhausted item (rw_errorCode input) (rw_errorSafe input)
     else
       bind_tx (check_kind input item) (\<lambda>_.
       bind_tx new_date (\<lambda>now.
       bind_tx (update_one_tx ''durable_work_items'' w_works w_works_update (\<lambda>i. wi_id i = wi_id item)
          (retry_data input now)) (\<lambda>_.
       return_tx ()))))"

definition defer_data :: "RetryInputW \<Rightarrow> bool \<Rightarrow> int \<Rightarrow> work_row \<Rightarrow> work_row" where
  "defer_data input recovering now i =
     i\<lparr>wi_status := ''RETRY_WAIT'', wi_retryAfter := Some (rw_retryAt input), wi_availableAt := rw_retryAt input,
       wi_lastErrorCode := Some (rw_errorCode input), wi_lastErrorSafe := Some (rw_errorSafe input),
       wi_leaseOwner := None, wi_leaseExpiresAt := None,
       wi_leaseRecoveryCount := wi_leaseRecoveryCount i - (if recovering then 1 else 0),
       wi_attemptCount := wi_attemptCount i - (if recovering then 0 else 1), wi_updatedAt := now\<rparr>"

text \<open>\<open>deferWorkItem\<close> takes the input of \<open>retryWorkItem\<close> without a next kind, which it ignores.\<close>

definition deferWorkItem :: "RetryInputW \<Rightarrow> unit tx" where
  "deferWorkItem input =
     bind_tx (lockOwnedWorkItem (rw_id input) (rw_owner input)) (\<lambda>item.
     let recoveringExpiredLease =
       (wi_attemptCount item \<ge> wi_maxAttempts item \<and> wi_leaseRecoveryCount item > 0) in
     bind_tx new_date (\<lambda>now.
     bind_tx (update_one_tx ''durable_work_items'' w_works w_works_update (\<lambda>i. wi_id i = wi_id item)
        (defer_data input recoveringExpiredLease now)) (\<lambda>_.
     return_tx ())))"

definition failWorkItem :: "string \<Rightarrow> string \<Rightarrow> string \<Rightarrow> string \<Rightarrow> unit tx" where
  "failWorkItem itemId owner errorCode errorSafe =
     bind_tx (lockOwnedWorkItem itemId owner) (\<lambda>item.
     markWorkItemExhausted item errorCode errorSafe)"

section \<open>The invariant of the queue\<close>

definition work_ok :: "work_row \<Rightarrow> bool" where
  "work_ok i \<longleftrightarrow>
     1 \<le> wi_maxAttempts i \<and> 0 \<le> wi_attemptCount i \<and> wi_attemptCount i \<le> wi_maxAttempts i \<and>
     0 \<le> wi_leaseRecoveryCount i \<and> wi_leaseRecoveryCount i \<le> 1 \<and>
     (wi_leaseRecoveryCount i = 1 \<longrightarrow> wi_attemptCount i = wi_maxAttempts i) \<and>
     (wi_status i = ''CLAIMED'' \<longrightarrow> 1 \<le> wi_attemptCount i) \<and>
     ((wi_status i = ''CLAIMED'') = (wi_leaseOwner i \<noteq> None)) \<and>
     ((wi_status i = ''CLAIMED'') = (wi_leaseExpiresAt i \<noteq> None))"

definition works_ok :: "world \<Rightarrow> bool" where
  "works_ok w \<longleftrightarrow> distinct (map wi_id (w_works w)) \<and> (\<forall>i \<in> set (w_works w). work_ok i)"

lemma works_ok_cong: "w_works w' = w_works w \<Longrightarrow> works_ok w' = works_ok w"
  by (simp add: works_ok_def)

lemma works_ok_update:
  assumes "works_ok w" "w_works w' = update_rows P f (w_works w)"
    and "\<And>i. P i \<Longrightarrow> wi_id (f i) = wi_id i" "\<And>i. i \<in> set (w_works w) \<Longrightarrow> P i \<Longrightarrow> work_ok i \<Longrightarrow> work_ok (f i)"
  shows "works_ok w'"
  using assms by (auto simp: works_ok_def map_update_rows set_update_rows)

lemma works_ok_insert:
  assumes "works_ok w" "w_works w' = w_works w @ [new_work_row n k rt ri pl t]"
    "\<not> list_ex (work_conflict (new_work_row n k rt ri pl t)) (w_works w)"
  shows "works_ok w'"
  using assms by (auto simp: works_ok_def new_work_row_def work_conflict_def list_ex_iff work_ok_def)

lemma exhausted_data_simps [simp]: "wi_id (exhausted_data c s t i) = wi_id i"
  "work_ok i \<Longrightarrow> work_ok (exhausted_data c s t i)"
  by (auto simp: exhausted_data_def work_ok_def)

lemma markWorkItemExhausted_ok: "keeps works_ok (markWorkItemExhausted item c s)"
  by (rule tripleI) (auto dest!: markWorkItemExhausted_works intro: works_ok_update)

lemma works_same_row:
  "works_ok w \<Longrightarrow> i \<in> set (w_works w) \<Longrightarrow> j \<in> set (w_works w) \<Longrightarrow> wi_id i = wi_id j \<Longrightarrow> i = j"
  unfolding works_ok_def by (blast intro: works.same_key)

lemma claim_data_ok:
  assumes "work_ok i" "claimable k now i"
  shows "work_ok (claim_data ow le (wi_attemptCount i \<ge> wi_maxAttempts i) t i)"
  using assms by (auto simp: work_ok_def claim_data_def claimable_def)

lemma claim_data_id [simp]: "wi_id (claim_data ow le r t i) = wi_id i"
  by (simp add: claim_data_def)

text \<open>What claiming the first claimable item does.\<close>

lemma claim_next_cases:
  assumes "claim_next input now w = Inr (c, w')"
  obtains (nothing) "c = None" "w' = w" "first_work (claimable (cl_kind input) now) (w_works w) = None"
  | (claimed) row t where "first_work (claimable (cl_kind input) now) (w_works w) = Some row"
      "w_works w' = update_rows (\<lambda>i. wi_id i = wi_id row)
         (claim_data (cl_owner input) (now + num_val (cl_leaseSeconds input) * 1000)
            (wi_attemptCount row \<ge> wi_maxAttempts row) t) (w_works w)"
      "w_payments w' = w_payments w" "w_attempts w' = w_attempts w" "w_reservations w' = w_reservations w"
      "c \<noteq> None" "wc_id (the c) = wi_id row"
proof (cases "first_work (claimable (cl_kind input) now) (w_works w)")
  case None
  with assms have "c = None" "w' = w" by (auto simp: claim_next_def tx_simps)
  then show thesis using None by (rule nothing)
next
  case (Some row)
  obtain item w1 a where cl: "claim_row input now row w = Inr (item, w1)"
    and a: "resolveWorkAccountId (wi_resourceType item) (wi_resourceId item) w1 = Inr (a, w')"
    and c: "c \<noteq> None" "wc_id (the c) = wi_id item"
    using assms Some by (auto simp: claim_next_def tx_simps)
  have w': "w' = w1"
    using preservesD [OF resolveWorkAccountId_preserves [of "\<lambda>w. w"] a] .
  show thesis
  proof (rule claimed [OF Some])
    show "w_works w' = update_rows (\<lambda>i. wi_id i = wi_id row)
         (claim_data (cl_owner input) (now + num_val (cl_leaseSeconds input) * 1000)
            (wi_attemptCount row \<ge> wi_maxAttempts row) (w_clock w (w_ticks w))) (w_works w)"
      "w_payments w' = w_payments w" "w_attempts w' = w_attempts w" "w_reservations w' = w_reservations w"
      using cl w' by (auto simp: claim_row_def tx_simps)
    show "wc_id (the c) = wi_id row"
      using cl c by (auto simp: claim_row_def tx_simps dest: find_SomeD)
  qed (rule c(1))
qed

lemma claim_next_ok:
  assumes "claim_next input now w = Inr (c, w')" "works_ok w"
  shows "works_ok w'"
  using assms(1)
proof (cases rule: claim_next_cases)
  case nothing
  then show ?thesis using assms by simp
next
  case (claimed row t)
  have row: "row \<in> set (w_works w)" "claimable (cl_kind input) now row"
    using first_work_SomeD [OF claimed(1)] by auto
  show ?thesis
  proof (rule works_ok_update [OF assms(2) claimed(2)])
    fix i assume "i \<in> set (w_works w)" "wi_id i = wi_id row" "work_ok i"
    then show "work_ok (claim_data (cl_owner input) (now + num_val (cl_leaseSeconds input) * 1000)
         (wi_attemptCount row \<ge> wi_maxAttempts row) t i)"
      using works_same_row [OF assms(2) _ row(1), of i] claim_data_ok [OF _ row(2)] by auto
  qed simp
qed

text \<open>An invariant that marking an item exhausted and claiming one keep is kept by the whole loop.\<close>

lemma claim_loop_invariant:
  assumes "\<And>row w u w'. first_work (exhaustible (cl_kind input) now) (w_works w) = Some row \<Longrightarrow> I w \<Longrightarrow>
      markWorkItemExhausted row ''FINAL_LEASE_EXPIRED''
        ''Work item lease expired after final-attempt recovery'' w = Inr (u, w') \<Longrightarrow> I w'"
  shows "claim_loop input now w = Inr (c, w') \<Longrightarrow> I w \<Longrightarrow>
    \<exists>w1. I w1 \<and> first_work (exhaustible (cl_kind input) now) (w_works w1) = None \<and> claim_next input now w1 = Inr (c, w')"
  using assms
proof (induction input now w rule: claim_loop.induct)
  case (1 input now w)
  show ?case
  proof (cases "first_work (exhaustible (cl_kind input) now) (w_works w)")
    case None
    then show ?thesis using 1(2,3) by (auto simp: claim_loop.simps [of input now w])
  next
    case (Some row)
    then obtain u w2 where m: "markWorkItemExhausted row ''FINAL_LEASE_EXPIRED''
        ''Work item lease expired after final-attempt recovery'' w = Inr (u, w2)"
      and l: "claim_loop input now w2 = Inr (c, w')"
      using 1(2) by (auto simp: claim_loop.simps [of input now w] split: sum.splits)
    show ?thesis
      by (rule 1(1) [OF Some m refl l 1(4) [OF Some 1(3) m] 1(4)])
  qed
qed

lemma claimWorkItem_cases:
  assumes "claimWorkItem input w = Inr (c, w')"
  obtains now w1 where "0 < num_val (cl_leaseSeconds input)" "isInteger (cl_leaseSeconds input)"
    "w_works w1 = w_works w" "w_payments w1 = w_payments w" "w_attempts w1 = w_attempts w"
    "w_reservations w1 = w_reservations w" "\<forall>t. cl_now input = Some t \<longrightarrow> now = t"
    "claim_loop input now w1 = Inr (c, w')"
proof (cases "cl_now input")
  case None
  then show thesis
    using assms that [of "w\<lparr>w_ticks := Suc (w_ticks w)\<rparr>" "w_clock w (w_ticks w)"]
    by (simp add: claimWorkItem_def tx_simps not_le)
next
  case (Some t)
  then show thesis
    using assms that [of w t] by (simp add: claimWorkItem_def tx_simps not_le)
qed

lemma claimWorkItem_ok: "keeps works_ok (claimWorkItem input)"
proof (rule tripleI)
  fix w c w' assume I: "works_ok w" and run: "claimWorkItem input w = Inr (c, w')"
  obtain now w1 where w1: "w_works w1 = w_works w" and l: "claim_loop input now w1 = Inr (c, w')"
    using claimWorkItem_cases [OF run] by metis
  have "\<exists>w2. works_ok w2 \<and> first_work (exhaustible (cl_kind input) now) (w_works w2) = None \<and>
      claim_next input now w2 = Inr (c, w')"
    by (rule claim_loop_invariant [OF _ l])
      (use I w1 works_ok_cong tripleD [OF markWorkItemExhausted_ok] in blast)+
  then show "works_ok w'" using claim_next_ok by blast
qed

lemma owns_lease_id: "owns_lease itemId owner now i \<Longrightarrow> wi_id i = itemId"
  by (simp add: owns_lease_def)

lemma completeWorkItem_ok: "keeps works_ok (completeWorkItem itemId owner)"
  by (rule tripleI)
    (auto simp: completeWorkItem_def tx_simps complete_data_def work_ok_def owns_lease_def
      elim!: works_ok_update)

lemma renewWorkItemLease_ok: "keeps works_ok (renewWorkItemLease input)"
proof (rule tripleI)
  fix w t w' assume I: "works_ok w" and run: "renewWorkItemLease input w = Inr (t, w')"
  obtain now l u where "w_works w' = update_rows (owns_lease (rn_id input) (rn_owner input) now)
      (\<lambda>i. i\<lparr>wi_leaseExpiresAt := Some l, wi_updatedAt := u\<rparr>) (w_works w)"
    using run by (cases "rn_now input") (auto simp: renewWorkItemLease_def tx_simps Let_def)
  with I show "works_ok w'"
    by (rule works_ok_update) (auto simp: work_ok_def owns_lease_def)
qed

lemma lockOwnedWorkItem_Inr:
  assumes "lockOwnedWorkItem itemId owner w = Inr (i, w')"
  shows "w' = w\<lparr>w_ticks := Suc (w_ticks w)\<rparr>" "i \<in> set (w_works w)"
    "owns_lease itemId owner (w_clock w (w_ticks w)) i"
  using assms by (auto simp: lockOwnedWorkItem_def tx_simps split: option.splits dest: find_SomeD)

lemma retryWorkItem_cases:
  assumes "retryWorkItem input w = Inr (u, w')"
  obtains (exhaust) item w1 where "item \<in> set (w_works w)" "wi_attemptCount item \<ge> wi_maxAttempts item"
      "w1 = w\<lparr>w_ticks := Suc (w_ticks w)\<rparr>"
      "markWorkItemExhausted item (rw_errorCode input) (rw_errorSafe input) w1 = Inr ((), w')"
  | (again) item t where "item \<in> set (w_works w)" "wi_attemptCount item < wi_maxAttempts item"
      "owns_lease (rw_id input) (rw_owner input) (w_clock w (w_ticks w)) item"
      "w_works w' = update_rows (\<lambda>i. wi_id i = wi_id item) (retry_data input t) (w_works w)"
      "w_payments w' = w_payments w" "w_attempts w' = w_attempts w" "w_reservations w' = w_reservations w"
proof -
  obtain item w1 where lock: "lockOwnedWorkItem (rw_id input) (rw_owner input) w = Inr (item, w1)"
    and rest: "(if wi_attemptCount item \<ge> wi_maxAttempts item
     then markWorkItemExhausted item (rw_errorCode input) (rw_errorSafe input)
     else bind_tx (check_kind input item) (\<lambda>_.
       bind_tx new_date (\<lambda>now.
       bind_tx (update_one_tx ''durable_work_items'' w_works w_works_update (\<lambda>i. wi_id i = wi_id item)
          (retry_data input now)) (\<lambda>_. return_tx ())))) w1 = Inr (u, w')"
    using assms unfolding retryWorkItem_def by (subst (asm) bind_tx_Inr_iff) auto
  note L = lockOwnedWorkItem_Inr [OF lock]
  show thesis
  proof (cases "wi_attemptCount item \<ge> wi_maxAttempts item")
    case True
    then show thesis using exhaust [OF L(2) True L(1)] rest by simp
  next
    case False
    have "w_works w' = update_rows (\<lambda>i. wi_id i = wi_id item) (retry_data input (w_clock w1 (w_ticks w1))) (w_works w)"
      "w_payments w' = w_payments w" "w_attempts w' = w_attempts w" "w_reservations w' = w_reservations w"
      using rest False L(1) by (auto simp: tx_simps check_kind_def)
    then show thesis using again [OF L(2) _ L(3)] False by simp
  qed
qed

lemma retryWorkItem_ok: "keeps works_ok (retryWorkItem input)"
proof (rule tripleI)
  fix w u w' assume I: "works_ok w" and "retryWorkItem input w = Inr (u, w')"
  from this(2) show "works_ok w'"
  proof (cases rule: retryWorkItem_cases)
    case (exhaust item w1)
    then show ?thesis
      using tripleD [OF markWorkItemExhausted_ok exhaust(4)] I by (simp add: works_ok_def)
  next
    case (again item t)
    show ?thesis
    proof (rule works_ok_update [OF I again(4)])
      fix i assume "i \<in> set (w_works w)" "wi_id i = wi_id item" "work_ok i"
      then show "work_ok (retry_data input t i)"
        using works_same_row [OF I _ again(1), of i] again(2) by (auto simp: work_ok_def retry_data_def)
    qed (simp add: retry_data_def)
  qed
qed

lemma deferWorkItem_Inr:
  assumes "deferWorkItem input w = Inr (u, w')"
  obtains item t where "item \<in> set (w_works w)" "owns_lease (rw_id input) (rw_owner input) (w_clock w (w_ticks w)) item"
    "w_works w' = update_rows (\<lambda>i. wi_id i = wi_id item)
       (defer_data input (wi_attemptCount item \<ge> wi_maxAttempts item \<and> wi_leaseRecoveryCount item > 0) t) (w_works w)"
    "w_payments w' = w_payments w" "w_attempts w' = w_attempts w" "w_reservations w' = w_reservations w"
proof -
  obtain item w1 where lock: "lockOwnedWorkItem (rw_id input) (rw_owner input) w = Inr (item, w1)"
    and rest: "w_works w' = update_rows (\<lambda>i. wi_id i = wi_id item)
       (defer_data input (wi_attemptCount item \<ge> wi_maxAttempts item \<and> wi_leaseRecoveryCount item > 0)
          (w_clock w1 (w_ticks w1))) (w_works w1)"
      "w_payments w' = w_payments w1" "w_attempts w' = w_attempts w1" "w_reservations w' = w_reservations w1"
    using assms by (auto simp: deferWorkItem_def tx_simps Let_def)
  then show thesis
    using lockOwnedWorkItem_Inr [OF lock] that by simp
qed

lemma deferWorkItem_ok: "keeps works_ok (deferWorkItem input)"
proof (rule tripleI)
  fix w u w' assume I: "works_ok w" and run: "deferWorkItem input w = Inr (u, w')"
  obtain item t where D: "item \<in> set (w_works w)" "owns_lease (rw_id input) (rw_owner input) (w_clock w (w_ticks w)) item"
    "w_works w' = update_rows (\<lambda>i. wi_id i = wi_id item)
       (defer_data input (wi_attemptCount item \<ge> wi_maxAttempts item \<and> wi_leaseRecoveryCount item > 0) t) (w_works w)"
    using deferWorkItem_Inr [OF run] by metis
  show "works_ok w'"
  proof (rule works_ok_update [OF I D(3)])
    fix i assume i: "i \<in> set (w_works w)" "wi_id i = wi_id item" "work_ok i"
    then have "i = item" using works_same_row [OF I _ D(1)] by blast
    then show "work_ok (defer_data input
        (wi_attemptCount item \<ge> wi_maxAttempts item \<and> wi_leaseRecoveryCount item > 0) t i)"
      using i(3) D(2) by (auto simp: work_ok_def defer_data_def owns_lease_def)
  qed (simp add: defer_data_def)
qed

lemma failWorkItem_ok: "keeps works_ok (failWorkItem itemId owner c s)"
proof (rule tripleI)
  fix w u w' assume I: "works_ok w" and run: "failWorkItem itemId owner c s w = Inr (u, w')"
  obtain item w1 where lock: "lockOwnedWorkItem itemId owner w = Inr (item, w1)"
    and m: "markWorkItemExhausted item c s w1 = Inr ((), w')"
    using run by (auto simp: failWorkItem_def tx_simps)
  have "works_ok w1" using I lockOwnedWorkItem_Inr(1) [OF lock] by (simp add: works_ok_def)
  then show "works_ok w'" by (rule tripleD [OF markWorkItemExhausted_ok m])
qed

section \<open>Leases and order\<close>

lemma update_rows_keep: "r \<in> set rows \<Longrightarrow> \<not> P r \<Longrightarrow> r \<in> set (update_rows P f rows)"
  by (auto simp: set_update_rows)

lemma filter_update_rows:
  "(\<And>r. r \<in> set rows \<Longrightarrow> P r \<Longrightarrow> \<not> Q r \<and> \<not> Q (f r)) \<Longrightarrow> filter Q (update_rows P f rows) = filter Q rows"
  by (induction rows) (auto simp: update_rows_def)

lemma exhausting_keeps:
  assumes "first_work (exhaustible k now) (w_works w) = Some row" "works_ok w"
    "markWorkItemExhausted row c s w = Inr (u, w')" "r \<in> set (w_works w)" "\<not> exhaustible k now r"
  shows "r \<in> set (w_works w')"
proof -
  have "row \<in> set (w_works w)" "exhaustible k now row"
    using first_work_SomeD [OF assms(1)] by auto
  then have "wi_id r \<noteq> wi_id row"
    using works_same_row [OF assms(2,4)] assms(5) by blast
  then show ?thesis
    using markWorkItemExhausted_works [OF assms(3)] update_rows_keep [OF assms(4)] by fastforce
qed

lemma exhaustible_not_claimable: "exhaustible k now i \<Longrightarrow> \<not> claimable k' now i"
  by (auto simp: exhaustible_def claimable_def)

lemma exhausting_claimable:
  assumes "first_work (exhaustible k now) (w_works w) = Some row" "works_ok w"
    "markWorkItemExhausted row c s w = Inr (u, w')"
  shows "filter (claimable k now) (w_works w') = filter (claimable k now) (w_works w)"
proof -
  have row: "row \<in> set (w_works w)" "exhaustible k now row"
    using first_work_SomeD [OF assms(1)] by auto
  obtain t where w': "w_works w' = update_rows (\<lambda>i. wi_id i = wi_id row) (exhausted_data c s t) (w_works w)"
    using markWorkItemExhausted_works [OF assms(3)] by blast
  show ?thesis
    unfolding w'
  proof (rule filter_update_rows)
    fix r assume "r \<in> set (w_works w)" "wi_id r = wi_id row"
    then have "r = row" using works_same_row [OF assms(2) _ row(1)] by blast
    then show "\<not> claimable k now r \<and> \<not> claimable k now (exhausted_data c s t r)"
      using exhaustible_not_claimable [OF row(2)] by (simp add: claimable_def exhausted_data_def)
  qed
qed

lemma claim_loop_run:
  assumes "claim_loop input now w = Inr (c, w')" "works_ok w"
  obtains w1 where "works_ok w1" "filter (claimable (cl_kind input) now) (w_works w1) =
      filter (claimable (cl_kind input) now) (w_works w)"
    "\<And>r. r \<in> set (w_works w) \<Longrightarrow> \<not> exhaustible (cl_kind input) now r \<Longrightarrow> r \<in> set (w_works w1)"
    "first_work (exhaustible (cl_kind input) now) (w_works w1) = None" "claim_next input now w1 = Inr (c, w')"
proof -
  let ?I = "\<lambda>v. works_ok v \<and> filter (claimable (cl_kind input) now) (w_works v) =
      filter (claimable (cl_kind input) now) (w_works w) \<and>
      (\<forall>r \<in> set (w_works w). \<not> exhaustible (cl_kind input) now r \<longrightarrow> r \<in> set (w_works v))"
  have "\<exists>w1. ?I w1 \<and> first_work (exhaustible (cl_kind input) now) (w_works w1) = None \<and>
      claim_next input now w1 = Inr (c, w')"
  proof (rule claim_loop_invariant [OF _ assms(1)])
    fix row v u v'
    assume row: "first_work (exhaustible (cl_kind input) now) (w_works v) = Some row" and I: "?I v"
      and m: "markWorkItemExhausted row ''FINAL_LEASE_EXPIRED''
        ''Work item lease expired after final-attempt recovery'' v = Inr (u, v')"
    show "?I v'"
      using exhausting_claimable [OF row _ m] exhausting_keeps [OF row _ m]
        tripleD [OF markWorkItemExhausted_ok m] I by auto
  qed (simp add: assms(2))
  then show thesis using that by blast
qed

lemma first_work_least:
  assumes "first_work P rows = Some r" "i \<in> set rows" "P i"
  shows "work_key r \<le> work_key i"
proof -
  obtain rest where s: "sort_key work_key (filter P rows) = r # rest"
    using assms(1) by (auto simp: first_work_def split: list.splits)
  have "sorted (map work_key (r # rest))"
    using sorted_sort_key [of work_key "filter P rows"] by (simp add: s)
  moreover have "i \<in> set (r # rest)"
    using assms(2,3) by (simp flip: s)
  ultimately show ?thesis by auto
qed

lemma first_work_None_iff: "first_work P rows = None \<longleftrightarrow> filter P rows = []"
proof -
  have "sort_key work_key (filter P rows) = [] \<longleftrightarrow> filter P rows = []"
    by (metis set_sort set_empty)
  then show ?thesis by (auto simp: first_work_def split: list.splits)
qed

lemma filter_set_eq: "filter P xs = filter P ys \<Longrightarrow> x \<in> set xs \<and> P x \<longleftrightarrow> x \<in> set ys \<and> P x"
  by (drule arg_cong [of _ _ set]) auto

text \<open>The claimed item is the first claimable one, and it is now leased to the claimer.\<close>

lemma claimWorkItem_claims:
  assumes run: "claimWorkItem input w = Inr (Some c, w')" and now: "cl_now input = Some now" and ok: "works_ok w"
  shows "\<exists>row i. row \<in> set (w_works w) \<and> wi_id row = wc_id c \<and> claimable (cl_kind input) now row \<and>
     (\<forall>r \<in> set (w_works w). claimable (cl_kind input) now r \<longrightarrow> work_key row \<le> work_key r) \<and>
     i \<in> set (w_works w') \<and> wi_id i = wc_id c \<and> wi_status i = ''CLAIMED'' \<and>
     wi_leaseOwner i = Some (cl_owner input) \<and>
     wi_leaseExpiresAt i = Some (now + num_val (cl_leaseSeconds input) * 1000) \<and>
     wi_attemptCount i + wi_leaseRecoveryCount i = wi_attemptCount row + wi_leaseRecoveryCount row + 1"
proof -
  obtain w0 where w0: "w_works w0 = w_works w" and l: "claim_loop input now w0 = Inr (Some c, w')"
    using claimWorkItem_cases [OF run] now by metis
  have ok0: "works_ok w0" using ok works_ok_cong [OF w0] by simp
  obtain w1 where w1: "works_ok w1" "filter (claimable (cl_kind input) now) (w_works w1) =
      filter (claimable (cl_kind input) now) (w_works w)" and n: "claim_next input now w1 = Inr (Some c, w')"
    using claim_loop_run [OF l ok0] w0 by metis
  note same = filter_set_eq [OF w1(2)]
  from n show ?thesis
  proof (cases rule: claim_next_cases)
    case (claimed row t)
    note R = first_work_SomeD [OF claimed(1)]
    let ?f = "claim_data (cl_owner input) (now + num_val (cl_leaseSeconds input) * 1000)
            (wi_attemptCount row \<ge> wi_maxAttempts row) t"
    have "?f row \<in> set (w_works w')"
      using R claimed(2) by (auto simp: set_update_rows)
    moreover have "row \<in> set (w_works w)" using R same by blast
    moreover have "\<forall>r \<in> set (w_works w). claimable (cl_kind input) now r \<longrightarrow> work_key row \<le> work_key r"
      using first_work_least [OF claimed(1)] same by blast
    ultimately show ?thesis
      using R claimed(7) by (intro exI [of _ row] exI [of _ "?f row"]) (auto simp: claim_data_def)
  qed simp
qed

lemma claimWorkItem_none:
  assumes run: "claimWorkItem input w = Inr (None, w')" and now: "cl_now input = Some now" and ok: "works_ok w"
  shows "\<forall>r \<in> set (w_works w). \<not> claimable (cl_kind input) now r"
    "\<forall>r \<in> set (w_works w'). \<not> claimable (cl_kind input) now r \<and> \<not> exhaustible (cl_kind input) now r"
proof -
  obtain w0 where w0: "w_works w0 = w_works w" and l: "claim_loop input now w0 = Inr (None, w')"
    using claimWorkItem_cases [OF run] now by metis
  have ok0: "works_ok w0" using ok works_ok_cong [OF w0] by simp
  obtain w1 where w1: "filter (claimable (cl_kind input) now) (w_works w1) =
      filter (claimable (cl_kind input) now) (w_works w)"
    and e: "first_work (exhaustible (cl_kind input) now) (w_works w1) = None"
    and n: "claim_next input now w1 = Inr (None, w')"
    using claim_loop_run [OF l ok0] w0 by metis
  from n have *: "w' = w1" "first_work (claimable (cl_kind input) now) (w_works w1) = None"
    by (cases rule: claim_next_cases; simp)+
  show "\<forall>r \<in> set (w_works w). \<not> claimable (cl_kind input) now r"
    using *(2) filter_set_eq [OF w1] by (auto simp: first_work_None_iff filter_empty_conv)
  show "\<forall>r \<in> set (w_works w'). \<not> claimable (cl_kind input) now r \<and> \<not> exhaustible (cl_kind input) now r"
    using * e by (auto simp: first_work_None_iff filter_empty_conv)
qed

lemma claimWorkItem_leases:
  assumes run: "claimWorkItem input w = Inr (c, w')" and now: "cl_now input = Some now" and ok: "works_ok w"
    and r: "r \<in> set (w_works w)" "wi_status r = ''CLAIMED''" "wi_leaseExpiresAt r = Some e" "now < e"
  shows "r \<in> set (w_works w') \<and> (\<forall>k. c = Some k \<longrightarrow> wc_id k \<noteq> wi_id r)"
proof -
  obtain w0 where w0: "w_works w0 = w_works w" and l: "claim_loop input now w0 = Inr (c, w')"
    using claimWorkItem_cases [OF run] now by metis
  have ok0: "works_ok w0" using ok works_ok_cong [OF w0] by simp
  have live: "\<not> exhaustible k now r" "\<not> claimable k now r" for k
    using r by (auto simp: exhaustible_def claimable_def lease_expired_def)
  obtain w1 where w1: "works_ok w1" "r \<in> set (w_works w1)" and n: "claim_next input now w1 = Inr (c, w')"
    using claim_loop_run [OF l ok0] w0 r(1) live by metis
  from n show ?thesis
  proof (cases rule: claim_next_cases)
    case nothing
    then show ?thesis using w1 by simp
  next
    case (claimed row t)
    note R = first_work_SomeD [OF claimed(1)]
    have ne: "wi_id r \<noteq> wi_id row"
      using works_same_row [OF w1(1,2)] R live by blast
    show ?thesis
      using ne claimed(2,7) update_rows_keep [OF w1(2)] by (auto simp: claimed(2))
  qed
qed

section \<open>Exhaustion and the payment\<close>

lemma exception_payments: "preserves w_payments (exhaustion_exception a b c d e f)"
  "preserves w_attempts (exhaustion_exception a b c d e f)"
  "preserves w_reservations (exhaustion_exception a b c d e f)"
  by (intro frame_intros; simp)+

lemma require_review_payments:
  assumes "require_review p i n c w = Inr (u, w')"
  shows "\<exists>t. w_payments w' = update_rows (\<lambda>q. pay_id q = pay_id p) (review_data t) (w_payments w)"
proof -
  obtain t w1 where w1: "w1 = w_payments_update (update_rows (\<lambda>q. pay_id q = pay_id p) (review_data t)) (w\<lparr>w_ticks := Suc (w_ticks w)\<rparr>)"
    and rest: "bind_tx (find_or_throw_tx ''payments'' w_payments (\<lambda>q. pay_id q = pay_id p)) (\<lambda>updatedPayment.
     bind_tx (payment_updated_webhook updatedPayment) (\<lambda>_.
     bind_tx (system_event (pay_payerAccountId p) (pay_correlationId p) ''V2_WORK_ITEM''
        ''PAYMENT'' (pay_id p) ''PAYMENT_REVIEW_REQUIRED'' None None [(''reason'', JStr c)]) (\<lambda>_.
     system_event (pay_payerAccountId p) (pay_correlationId p) ''V2_WORK_ITEM''
        ''RECONCILIATION'' i ''RECONCILIATION_WORK_EXHAUSTED'' None None
        [(''payment_id'', JStr (pay_id p)), (''work_item_id'', JStr i),
         (''error_code'', JStr c), (''attempt_count'', json_int n)]))) w1 = Inr (u, w')"
    (is "?m w1 = _")
    using assms unfolding require_review_def
    by (subst (asm) bind_tx_Inr_iff, subst (asm) bind_tx_Inr_iff) (auto simp: new_date_apply update_one_tx_Inr_iff)
  have "preserves w_payments ?m" by (intro frame_intros; simp)
  from preservesD [OF this rest] show ?thesis by (auto simp: w1)
qed

text \<open>Exhaustion sends an unfinished payment to review and leaves a finished one as it is.\<close>

lemma report_exhaustion_payments:
  assumes "report_exhaustion item c s w = Inr (u, w')"
  shows "w_payments w' = w_payments w \<or>
    (\<exists>p t. p \<in> set (w_payments w) \<and> \<not> exhaustion_terminal (pay_status p) \<and>
       w_payments w' = update_rows (\<lambda>q. pay_id q = pay_id p) (review_data t) (w_payments w))"
proof -
  obtain fp w1 where f: "findWorkPayment (wi_resourceType item) (wi_resourceId item) w = Inr (fp, w1)"
    and rest: "(case fp of
       Some p \<Rightarrow>
         bind_tx (when_tx (\<not> exhaustion_terminal (pay_status p))
            (require_review p (wi_id item) (wi_attemptCount item) c)) (\<lambda>_.
         exhaustion_exception (Some (pay_payerAccountId p)) ''PAYMENT'' (pay_id p)
            (''payment:'' @ pay_id p @ '':work-exhausted'') c s)
     | None \<Rightarrow>
         exhaustion_exception None (wi_resourceType item) (wi_resourceId item)
            (''work:'' @ wi_id item) c s) w1 = Inr (u, w')"
    using assms unfolding report_exhaustion_def by (subst (asm) bind_tx_Inr_iff) auto
  have w1: "w1 = w" using preservesD [OF findWorkPayment_preserves [of "\<lambda>w. w"] f] .
  show ?thesis
  proof (cases fp)
    case None
    then show ?thesis using rest w1 preservesD [OF exception_payments(1)] by fastforce
  next
    case (Some p)
    have p: "p \<in> set (w_payments w)"
      using f Some by (auto simp: findWorkPayment_def tx_simps split: if_splits option.splits dest: find_SomeD)
    obtain w2 where r: "when_tx (\<not> exhaustion_terminal (pay_status p))
            (require_review p (wi_id item) (wi_attemptCount item) c) w = Inr ((), w2)"
      and e: "w_payments w' = w_payments w2"
      using rest Some w1 preservesD [OF exception_payments(1)] by (fastforce simp: tx_simps)
    show ?thesis
    proof (cases "exhaustion_terminal (pay_status p)")
      case True
      then show ?thesis using r e by (simp add: tx_simps)
    next
      case False
      then show ?thesis using r e p require_review_payments by fastforce
    qed
  qed
qed

lemma markWorkItemExhausted_payments:
  assumes "markWorkItemExhausted item c s w = Inr (u, w')"
  shows "w_payments w' = w_payments w \<or>
    (\<exists>p t. p \<in> set (w_payments w) \<and> \<not> exhaustion_terminal (pay_status p) \<and>
       w_payments w' = update_rows (\<lambda>q. pay_id q = pay_id p) (review_data t) (w_payments w))"
proof -
  obtain w1 where ex: "exhaust_row (wi_id item) c s w = Inr ((), w1)"
    and rest: "report_exhaustion item c s w1 = Inr (u, w')"
    using assms by (auto simp: markWorkItemExhausted_def tx_simps)
  have "w_payments w1 = w_payments w" using ex by (auto simp: exhaust_row_def tx_simps)
  then show ?thesis using report_exhaustion_payments [OF rest] by simp
qed

lemma exhaustion_other_tables:
  "preserves w_attempts (markWorkItemExhausted item c s)"
  "preserves w_reservations (markWorkItemExhausted item c s)"
  unfolding markWorkItemExhausted_def exhaust_row_def report_exhaustion_def require_review_def
  by (intro frame_intros; simp)+

lemma review_data_id [simp]: "pay_id (review_data t p) = pay_id p"
  by (simp add: review_data_def)

lemma exhaustion_keeps_terminal:
  assumes "markWorkItemExhausted item c s w = Inr (u, w')" "distinct (map pay_id (w_payments w))"
    "p \<in> set (w_payments w)" "exhaustion_terminal (pay_status p)"
  shows "p \<in> set (w_payments w')"
  using markWorkItemExhausted_payments [OF assms(1)]
proof
  assume "\<exists>q t. q \<in> set (w_payments w) \<and> \<not> exhaustion_terminal (pay_status q) \<and>
       w_payments w' = update_rows (\<lambda>r. pay_id r = pay_id q) (review_data t) (w_payments w)"
  then obtain q t where q: "q \<in> set (w_payments w)" "\<not> exhaustion_terminal (pay_status q)"
    "w_payments w' = update_rows (\<lambda>r. pay_id r = pay_id q) (review_data t) (w_payments w)" by blast
  have "pay_id p \<noteq> pay_id q"
    using payments.same_key [OF assms(2,3) q(1)] assms(4) q(2) by auto
  then show ?thesis using q(3) update_rows_keep [OF assms(3)] by simp
qed (use assms(3) in simp)

end
