(* ===== verification/Administration.thy ===== *)
theory Administration
  imports Payment_Attempts
begin

text \<open>
  The rest of the repository of \<^verbatim>\<open>packages/db/src/v2.ts\<close>: the settlement configuration
  (denominations, assets, mappings, routes, policies), the lifecycle of accounts, credentials,
  recipients and approved destinations, and the lists of payments. Columns of the configuration
  tables that only record when a row was written are left out. A route status outside the declared
  values reads as retired. The lemmas say what a compare-and-set of a lifecycle does, that a
  revocation happens once and is final for the payments that follow, and that the pages of the
  payment list together are the list.
\<close>

section \<open>Settlement configuration\<close>

record DenominationCreate =
  dc_id :: string
  dc_symbol :: string
  dc_maxScale :: int
  dc_version :: "int option"

record AssetCreate =
  xc_id :: string
  xc_rail :: string
  xc_network :: string
  xc_assetReference :: string
  xc_decimals :: int
  xc_version :: "int option"

record MappingCreate =
  mc_id :: string
  mc_denominationId :: string
  mc_settlementAssetId :: string
  mc_numerator :: int
  mc_denominator :: int
  mc_version :: "int option"

definition version_or_one :: "int option \<Rightarrow> int" where
  "version_or_one v = (case v of None \<Rightarrow> 1 | Some n \<Rightarrow> n)"

definition create_denomination :: "DenominationCreate \<Rightarrow> denomination_row tx" where
  "create_denomination input =
     insert_tx ''denominations'' w_denominations w_denominations_update
       (\<lambda>r q. dn_id q = dn_id r \<or> (dn_symbol q = dn_symbol r \<and> dn_version q = dn_version r))
       \<lparr>dn_id = dc_id input, dn_symbol = dc_symbol input, dn_maxScale = dc_maxScale input,
        dn_status = ''ACTIVE'', dn_version = version_or_one (dc_version input)\<rparr>"

definition create_settlement_asset :: "AssetCreate \<Rightarrow> asset_row tx" where
  "create_settlement_asset input =
     insert_tx ''settlement_assets'' w_assets w_assets_update
       (\<lambda>r q. ast_id q = ast_id r \<or> (ast_rail q = ast_rail r \<and> ast_network q = ast_network r \<and>
          ast_assetReference q = ast_assetReference r \<and> ast_version q = ast_version r))
       \<lparr>ast_id = xc_id input, ast_rail = xc_rail input, ast_network = xc_network input,
        ast_assetReference = xc_assetReference input, ast_decimals = xc_decimals input,
        ast_status = ''ACTIVE'', ast_version = version_or_one (xc_version input)\<rparr>"

definition create_economic_mapping :: "MappingCreate \<Rightarrow> unit tx" where
  "create_economic_mapping input =
     bind_tx (insert_tx ''economic_mappings'' w_mappings w_mappings_update (\<lambda>r q. map_id q = map_id r)
       \<lparr>map_id = mc_id input, map_denominationId = mc_denominationId input,
        map_settlementAssetId = mc_settlementAssetId input, map_numerator = mc_numerator input,
        map_denominator = mc_denominator input, map_status = ''ACTIVE'',
        map_version = version_or_one (mc_version input)\<rparr>) (\<lambda>_.
     return_tx ())"

definition createSettlementRoute :: "SettlementRoute \<Rightarrow> unit tx" where
  "createSettlementRoute input =
     bind_tx (insert_tx ''settlement_routes'' w_routes w_routes_update (\<lambda>r q. rte_id q = rte_id r)
       \<lparr>rte_id = sr_id input, rte_rail = sr_rail input, rte_railVersion = sr_railVersion input,
        rte_network = sr_network input, rte_settlementAssetId = sr_settlementAssetId input,
        rte_economicMappingId = sr_economicMappingId input, rte_status = ''ACTIVE'',
        rte_priority = sr_priority input, rte_configVersion = sr_configVersion input\<rparr>) (\<lambda>_.
     return_tx ())"

definition route_status_of :: "string \<Rightarrow> SettlementRouteStatus" where
  "route_status_of s = (if s = ''ACTIVE'' then SR_ACTIVE else if s = ''DISABLED'' then SR_DISABLED else SR_RETIRED)"

definition route_of_row :: "route_row \<Rightarrow> SettlementRoute" where
  "route_of_row route =
     \<lparr>sr_id = rte_id route, sr_rail = rte_rail route, sr_railVersion = rte_railVersion route,
      sr_network = rte_network route, sr_settlementAssetId = rte_settlementAssetId route,
      sr_economicMappingId = rte_economicMappingId route, sr_status = route_status_of (rte_status route),
      sr_priority = rte_priority route, sr_configVersion = rte_configVersion route\<rparr>"

definition findDenomination :: "string \<Rightarrow> denomination_row option tx" where
  "findDenomination i = find_tx w_denominations (\<lambda>d. dn_id d = i)"

text \<open>\<^verbatim>\<open>findFirst\<close> with \<^verbatim>\<open>orderBy: { version: 'desc' }\<close>.\<close>

definition latest :: "('r \<Rightarrow> int) \<Rightarrow> 'r list \<Rightarrow> 'r option" where
  "latest version rows = (case sort_key (\<lambda>r. - version r) rows of [] \<Rightarrow> None | r # _ \<Rightarrow> Some r)"

definition findDenominationBySymbol :: "string \<Rightarrow> denomination_row option tx" where
  "findDenominationBySymbol symbol =
     gets_tx (\<lambda>w. latest dn_version (filter (\<lambda>d. dn_symbol d = symbol \<and> dn_status d = ''ACTIVE'') (w_denominations w)))"

definition findSettlementAsset :: "string \<Rightarrow> asset_row option tx" where
  "findSettlementAsset i = find_tx w_assets (\<lambda>a. ast_id a = i)"

definition findEconomicMapping :: "string \<Rightarrow> mapping_row option tx" where
  "findEconomicMapping i = find_tx w_mappings (\<lambda>m. map_id m = i)"

definition findSettlementRoute :: "string \<Rightarrow> SettlementRoute option tx" where
  "findSettlementRoute i =
     bind_tx (find_tx w_routes (\<lambda>r. rte_id r = i)) (\<lambda>route. return_tx (map_option route_of_row route))"

definition findActiveSpendPolicy :: "string \<Rightarrow> string \<Rightarrow> policy_row option tx" where
  "findActiveSpendPolicy accountId denominationId =
     gets_tx (\<lambda>w. latest pol_version (filter (\<lambda>p. pol_accountId p = accountId \<and>
        pol_denominationId p = denominationId \<and> pol_status p = ''ACTIVE'') (w_policies w)))"

definition findAccountPublicKey :: "string \<Rightarrow> string option tx" where
  "findAccountPublicKey accountId =
     bind_tx (find_tx w_accounts (\<lambda>a. acc_id a = accountId \<and> acc_status a = AA_ACTIVE)) (\<lambda>account.
     return_tx (map_option acc_solanaPublicKey account))"

definition route_row_key :: "route_row \<Rightarrow> order_key" where
  "route_row_key r = OrderKey (rte_priority r) (rte_id r)"

definition listActiveSettlementRoutes :: "SettlementRoute list tx" where
  "listActiveSettlementRoutes =
     gets_tx (\<lambda>w. map route_of_row (sort_key route_row_key (filter (\<lambda>r. rte_status r = ''ACTIVE'') (w_routes w))))"

section \<open>Accounts\<close>

record AccountTransition =
  at_accountId :: string
  at_currentStatus :: AgentAccountLifecycleStatus
  at_nextStatus :: AgentAccountLifecycleStatus
  at_rowVersion :: int
  at_reason :: "string option"

definition account_transition_data :: "AccountTransition \<Rightarrow> int \<Rightarrow> int \<Rightarrow> account_row \<Rightarrow> account_row" where
  "account_transition_data input disabledAt now a =
     a\<lparr>acc_status := at_nextStatus input, acc_rowVersion := acc_rowVersion a + 1,
       acc_disabledAt := (if at_nextStatus input = AA_DISABLED then Some disabledAt else acc_disabledAt a),
       acc_disabledReason := (if at_nextStatus input = AA_DISABLED then at_reason input else acc_disabledReason a),
       acc_provisioningFailureCode :=
         (if at_nextStatus input = AA_PROVISIONING_FAILED
          then Some (case at_reason input of None \<Rightarrow> ''PROVISIONING_FAILED'' | Some r \<Rightarrow> r)
          else acc_provisioningFailureCode a),
       acc_updatedAt := now\<rparr>"

definition admin_event ::
    "string \<Rightarrow> string \<Rightarrow> string \<Rightarrow> string \<Rightarrow> string \<Rightarrow> string option \<Rightarrow> string \<Rightarrow> int option \<Rightarrow>
     (string \<times> json) list option \<Rightarrow> (string \<times> json) list \<Rightarrow> unit tx" where
  "admin_event accountId resourceType resourceId eventType actorType actorId source occurredAt oldState newState =
     bind_tx randomId (\<lambda>rid. createTimelineEvent
       \<lparr>ti_id = ''timeline_'' @ rid, ti_accountId = Some accountId, ti_resourceType = resourceType,
        ti_resourceId = resourceId, ti_eventType = eventType, ti_actorType = actorType, ti_actorId = actorId,
        ti_requestId = None, ti_correlationId = None,
        ti_oldStateJson = map_option (\<lambda>s. stringify (JObj s)) oldState,
        ti_newStateJson = Some (stringify (JObj newState)), ti_source = source,
        ti_occurredAt = occurredAt, ti_metadataJson = None\<rparr>)"

definition matches_account :: "AccountTransition \<Rightarrow> account_row \<Rightarrow> bool" where
  "matches_account input a \<longleftrightarrow> acc_id a = at_accountId input \<and> acc_status a = at_currentStatus input \<and>
     acc_rowVersion a = at_rowVersion input"

definition transitionAccount :: "AccountTransition \<Rightarrow> unit tx" where
  "transitionAccount input =
     bind_tx (if at_nextStatus input = AA_DISABLED then new_date else return_tx 0) (\<lambda>disabledAt.
     bind_tx new_date (\<lambda>now.
     bind_tx (update_many_tx w_accounts w_accounts_update (matches_account input)
        (account_transition_data input disabledAt now)) (\<lambda>count.
     bind_tx (throw_if_tx (count \<noteq> 1)
        (DomainErr (ConflictError ''Account lifecycle changed concurrently''))) (\<lambda>_.
     bind_tx (find_or_throw_tx ''agent_accounts'' w_accounts (\<lambda>a. acc_id a = at_accountId input)) (\<lambda>account.
     admin_event (acc_id account) ''ACCOUNT'' (acc_id account)
       (''ACCOUNT_'' @ account_status_name (at_nextStatus input)) ''SYSTEM'' None ''V2_ACCOUNT_LIFECYCLE''
       (Some (acc_updatedAt account))
       (Some [(''status'', JStr (account_status_name (at_currentStatus input)))])
       [(''status'', JStr (account_status_name (acc_status account))), (''reason'', json_opt (at_reason input))])))))"

section \<open>Credentials\<close>

record CredentialCreate =
  cc_id :: string
  cc_accountId :: string
  cc_keyHash :: string
  cc_keyPrefix :: string
  cc_scopes :: "string list"
  cc_expiresAt :: "int option"
  cc_rotatedFromId :: "string option"

definition credential_row_of :: "CredentialCreate \<Rightarrow> int \<Rightarrow> credential_row" where
  "credential_row_of input now =
     \<lparr>cred_id = cc_id input, cred_accountId = cc_accountId input, cred_keyHash = cc_keyHash input,
      cred_keyPrefix = cc_keyPrefix input, cred_status = AC_ACTIVE,
      cred_scopes = stringify (JArr (map JStr (cc_scopes input))), cred_expiresAt = cc_expiresAt input,
      cred_rotatedFromId = cc_rotatedFromId input, cred_rowVersion = 1, cred_createdAt = now,
      cred_revokedAt = None, cred_lastUsedAt = None\<rparr>"

definition createScopedCredential :: "CredentialCreate \<Rightarrow> unit tx" where
  "createScopedCredential input =
     bind_tx new_date (\<lambda>now.
     bind_tx (insert_tx ''api_credentials'' w_credentials w_credentials_update
        (\<lambda>r q. cred_id q = cred_id r \<or> cred_keyHash q = cred_keyHash r) (credential_row_of input now)) (\<lambda>credential.
     admin_event (cred_accountId credential) ''CREDENTIAL'' (cred_id credential) ''CREDENTIAL_CREATED'' ''SYSTEM'' None
       ''V2_CREDENTIAL_ISSUANCE'' (Some (cred_createdAt credential)) None
       [(''status'', JStr (credential_status_name (cred_status credential))),
        (''scopes'', JArr (map JStr (cc_scopes input))), (''expires_at'', json_date_opt (cred_expiresAt credential)),
        (''rotated_from_id'', json_opt (cred_rotatedFromId credential))]))"

definition revoke_credential_data :: "int \<Rightarrow> credential_row \<Rightarrow> credential_row" where
  "revoke_credential_data now c =
     c\<lparr>cred_status := AC_REVOKED, cred_revokedAt := Some now, cred_rowVersion := cred_rowVersion c + 1\<rparr>"

definition unrevoked :: "string \<Rightarrow> string \<Rightarrow> credential_row \<Rightarrow> bool" where
  "unrevoked accountId credentialId c \<longleftrightarrow>
     cred_id c = credentialId \<and> cred_accountId c = accountId \<and> cred_revokedAt c = None"

definition revokeScopedCredential :: "string \<Rightarrow> string \<Rightarrow> unit tx" where
  "revokeScopedCredential accountId credentialId =
     bind_tx new_date (\<lambda>now.
     bind_tx (update_many_tx w_credentials w_credentials_update (unrevoked accountId credentialId)
        (revoke_credential_data now)) (\<lambda>count.
     bind_tx (throw_if_tx (count \<noteq> 1)
        (DomainErr (NotFoundError ''Credential was not found or already revoked''))) (\<lambda>_.
     bind_tx (find_or_throw_tx ''api_credentials'' w_credentials (\<lambda>c. cred_id c = credentialId)) (\<lambda>credential.
     admin_event accountId ''CREDENTIAL'' (cred_id credential) ''CREDENTIAL_REVOKED'' ''SYSTEM'' None
       ''V2_CREDENTIAL_LIFECYCLE'' (cred_revokedAt credential) (Some [(''status'', JStr ''ACTIVE'')])
       [(''status'', JStr (credential_status_name (cred_status credential)))]))))"

section \<open>Recipients\<close>

record ArchiveInput =
  ar_ownerAccountId :: string
  ar_recipientId :: string
  ar_rowVersion :: int

definition archivable :: "ArchiveInput \<Rightarrow> recipient_row \<Rightarrow> bool" where
  "archivable input r \<longleftrightarrow> rcp_id r = ar_recipientId input \<and> rcp_ownerAccountId r = ar_ownerAccountId input \<and>
     rcp_archivedAt r = None \<and> rcp_rowVersion r = ar_rowVersion input"

definition archive_data :: "int \<Rightarrow> int \<Rightarrow> recipient_row \<Rightarrow> recipient_row" where
  "archive_data archivedAt now r =
     r\<lparr>rcp_archivedAt := Some archivedAt, rcp_rowVersion := rcp_rowVersion r + 1, rcp_updatedAt := now\<rparr>"

definition archiveRecipient :: "ArchiveInput \<Rightarrow> unit tx" where
  "archiveRecipient input =
     bind_tx new_date (\<lambda>archivedAt.
     bind_tx new_date (\<lambda>now.
     bind_tx (update_many_tx w_recipients w_recipients_update (archivable input) (archive_data archivedAt now)) (\<lambda>count.
     bind_tx (throw_if_tx (count \<noteq> 1)
        (DomainErr (ConflictError ''Recipient changed concurrently or is archived''))) (\<lambda>_.
     bind_tx (find_or_throw_tx ''recipients'' w_recipients (\<lambda>r. rcp_id r = ar_recipientId input)) (\<lambda>recipient.
     bind_tx (enqueueWebhookEvent
        \<lparr>we_accountId = rcp_ownerAccountId recipient, we_resourceType = ''RECIPIENT'',
         we_resourceId = rcp_id recipient, we_resourceVersion = rcp_rowVersion recipient,
         we_eventType = ''recipient.archived'',
         we_resource = [(''id'', JStr (rcp_id recipient)), (''account_id'', JStr (rcp_ownerAccountId recipient)),
           (''archived_at'', json_date_opt (rcp_archivedAt recipient))],
         we_correlationId = None, we_eventId = None\<rparr>) (\<lambda>_.
     admin_event (rcp_ownerAccountId recipient) ''RECIPIENT'' (rcp_id recipient) ''RECIPIENT_ARCHIVED''
       ''AGENT_CREDENTIAL'' (Some (rcp_ownerAccountId recipient)) ''V2_RECIPIENTS'' (rcp_archivedAt recipient) None
       [(''archived_at'', json_date_opt (rcp_archivedAt recipient)),
        (''row_version'', json_int (rcp_rowVersion recipient))]))))))"

section \<open>Approved destinations\<close>

record DestinationCreate =
  de_id :: string
  de_accountId :: string
  de_fingerprint :: string
  de_rail :: string
  de_network :: string
  de_assetReference :: string
  de_destination :: string
  de_actorId :: string
  de_reason :: "string option"

definition destination_row_of :: "DestinationCreate \<Rightarrow> int \<Rightarrow> destination_row" where
  "destination_row_of input now =
     \<lparr>dst_id = de_id input, dst_accountId = de_accountId input, dst_fingerprint = de_fingerprint input,
      dst_rail = de_rail input, dst_network = de_network input, dst_assetReference = de_assetReference input,
      dst_destination = de_destination input, dst_status = ''ACTIVE'', dst_actorId = de_actorId input,
      dst_reason = de_reason input, dst_createdAt = now, dst_revokedAt = None\<rparr>"

definition destination_conflict :: "destination_row \<Rightarrow> destination_row \<Rightarrow> bool" where
  "destination_conflict r q \<longleftrightarrow> dst_id q = dst_id r \<or>
     (dst_accountId q = dst_accountId r \<and> dst_fingerprint q = dst_fingerprint r)"

definition createApprovedDestination :: "DestinationCreate \<Rightarrow> unit tx" where
  "createApprovedDestination input =
     bind_tx new_date (\<lambda>now.
     bind_tx (insert_tx ''approved_destinations'' w_destinations w_destinations_update destination_conflict
        (destination_row_of input now)) (\<lambda>destination.
     admin_event (dst_accountId destination) ''APPROVED_DESTINATION'' (dst_id destination)
       ''APPROVED_DESTINATION_CREATED'' ''OPERATOR'' (Some (dst_actorId destination)) ''V2_DESTINATION_ADMIN''
       (Some (dst_createdAt destination)) None
       [(''fingerprint'', JStr (dst_fingerprint destination)), (''rail'', JStr (dst_rail destination)),
        (''network'', JStr (dst_network destination)), (''asset_reference'', JStr (dst_assetReference destination)),
        (''status'', JStr (dst_status destination))]))"

record DestinationRevoke =
  dr_accountId :: string
  dr_id :: string
  dr_actorId :: string
  dr_reason :: string

definition revocable :: "DestinationRevoke \<Rightarrow> destination_row \<Rightarrow> bool" where
  "revocable input d \<longleftrightarrow> dst_id d = dr_id input \<and> dst_accountId d = dr_accountId input \<and> dst_status d = ''ACTIVE''"

definition revoke_destination_data :: "DestinationRevoke \<Rightarrow> int \<Rightarrow> destination_row \<Rightarrow> destination_row" where
  "revoke_destination_data input now d =
     d\<lparr>dst_status := ''REVOKED'', dst_revokedAt := Some now, dst_reason := Some (dr_reason input)\<rparr>"

definition revokeApprovedDestination :: "DestinationRevoke \<Rightarrow> unit tx" where
  "revokeApprovedDestination input =
     bind_tx new_date (\<lambda>now.
     bind_tx (update_many_tx w_destinations w_destinations_update (revocable input)
        (revoke_destination_data input now)) (\<lambda>count.
     bind_tx (throw_if_tx (count \<noteq> 1) (DomainErr (NotFoundError ''Approved destination was not found''))) (\<lambda>_.
     bind_tx (find_or_throw_tx ''approved_destinations'' w_destinations (\<lambda>d. dst_id d = dr_id input)) (\<lambda>destination.
     admin_event (dst_accountId destination) ''APPROVED_DESTINATION'' (dst_id destination)
       ''APPROVED_DESTINATION_REVOKED'' ''OPERATOR'' (Some (dr_actorId input)) ''V2_DESTINATION_ADMIN''
       (dst_revokedAt destination) (Some [(''status'', JStr ''ACTIVE'')])
       [(''status'', JStr (dst_status destination)), (''reason'', json_opt (dst_reason destination))]))))"

section \<open>Lists of payments\<close>

record PaymentCursor =
  pc_createdAt :: int
  pc_id :: string

record PaymentListInput =
  pl_accountId :: string
  pl_limit :: nat
  pl_cursor :: "PaymentCursor option"
  pl_status :: "string option"
  pl_outcomeState :: "string option"
  pl_recipientId :: "string option"
  pl_denominationId :: "string option"

definition all_payment_statuses :: "PaymentStatus list" where
  "all_payment_statuses = [PS_CREATED, PS_ROUTING, PS_AWAITING_APPROVAL, PS_REJECTED_BY_POLICY, PS_REJECTED,
     PS_SUBMITTED, PS_RECONCILING, PS_CONFIRMED, PS_PROVED_NO_EFFECT, PS_REVIEW_REQUIRED,
     PS_CLOSED_UNRESOLVED, PS_FAILED, PS_EXPIRED]"

text \<open>A status cast to the enumeration column: the client rejects another value.\<close>

definition payment_status_of_name :: "string \<Rightarrow> PaymentStatus result" where
  "payment_status_of_name s =
     (case List.find (\<lambda>st. payment_status_name st = s) all_payment_statuses of
        None \<Rightarrow> Inl (InvalidEnumValue s) | Some st \<Rightarrow> Inr st)"

definition payment_key :: "payment_row \<Rightarrow> order_key" where
  "payment_key p = OrderKey (pay_createdAt p) (pay_id p)"

definition cursor_key :: "PaymentCursor \<Rightarrow> order_key" where
  "cursor_key c = OrderKey (pc_createdAt c) (pc_id c)"

definition before_cursor :: "PaymentCursor option \<Rightarrow> payment_row \<Rightarrow> bool" where
  "before_cursor cursor p \<longleftrightarrow>
     (case cursor of
        None \<Rightarrow> True
      | Some c \<Rightarrow> pay_createdAt p < pc_createdAt c \<or> (pay_createdAt p = pc_createdAt c \<and> pay_id p < pc_id c))"

definition list_filter :: "PaymentListInput \<Rightarrow> PaymentStatus option \<Rightarrow> payment_row \<Rightarrow> bool" where
  "list_filter input status p \<longleftrightarrow>
     pay_payerAccountId p = pl_accountId input \<and>
     (case status of None \<Rightarrow> True | Some s \<Rightarrow> pay_status p = s) \<and>
     (case pl_outcomeState input of None \<Rightarrow> True | Some o' \<Rightarrow> pay_outcomeState p = o') \<and>
     (case pl_recipientId input of None \<Rightarrow> True | Some r \<Rightarrow> pay_recipientId p = Some r) \<and>
     (case pl_denominationId input of None \<Rightarrow> True | Some d \<Rightarrow> pay_denominationId p = Some d)"

text \<open>\<^verbatim>\<open>orderBy: [{ createdAt: 'desc' }, { id: 'desc' }]\<close> with \<^verbatim>\<open>take\<close>: the order is total since
  identifiers are unique, so descending is ascending reversed.\<close>

definition page :: "PaymentListInput \<Rightarrow> PaymentStatus option \<Rightarrow> payment_row list \<Rightarrow> payment_row list" where
  "page input status rows =
     take (pl_limit input) (rev (sort_key payment_key
       (filter (\<lambda>p. list_filter input status p \<and> before_cursor (pl_cursor input) p) rows)))"

definition find_page :: "PaymentListInput \<Rightarrow> payment_row list tx" where
  "find_page input =
     bind_tx (lift_tx (opt_r payment_status_of_name (pl_status input))) (\<lambda>status.
     gets_tx (\<lambda>w. page input status (w_payments w)))"

fun map_tx :: "('a \<Rightarrow> 'b tx) \<Rightarrow> 'a list \<Rightarrow> 'b list tx" where
  "map_tx f [] = return_tx []"
| "map_tx f (x # xs) = bind_tx (f x) (\<lambda>y. bind_tx (map_tx f xs) (\<lambda>ys. return_tx (y # ys)))"

definition listPaymentViews :: "PaymentListInput \<Rightarrow> V2PaymentView list tx" where
  "listPaymentViews input =
     bind_tx (find_page input) (\<lambda>payments. map_tx (\<lambda>p. loadPaymentView p (pl_accountId input)) payments)"

text \<open>\<open>listPayments\<close> takes neither an outcome state nor a denomination.\<close>

definition listPayments :: "PaymentListInput \<Rightarrow> payment_row list tx" where
  "listPayments input =
     bind_tx (find_page (input\<lparr>pl_outcomeState := None, pl_denominationId := None\<rparr>)) (\<lambda>payments.
     return_tx (map toV2PaymentSnapshot payments))"

section \<open>What they do\<close>

interpretation accounts: keyed_table w_accounts w_accounts_update acc_id
  by unfold_locales simp

interpretation destinations: keyed_table w_destinations w_destinations_update dst_id
  by unfold_locales simp

lemma admin_event_preserves [frame_intros]:
  "outputs_frame g \<Longrightarrow> preserves g (admin_event a b c d e f s t old new)"
  unfolding admin_event_def by (intro frame_intros; simp add: outputs_frameD)

lemma admin_outputs [simp]: "outputs_frame w_accounts" "outputs_frame w_destinations" "outputs_frame w_credentials"
  by (simp_all add: outputs_frame_def)

lemma transitionAccount_writes:
  assumes "transitionAccount input w = Inr (u, w')"
  obtains t t' a where "a \<in> set (w_accounts w)" "matches_account input a"
    "w_accounts w' = update_rows (matches_account input) (account_transition_data input t t') (w_accounts w)"
proof -
  have "\<exists>t t'. length (filter (matches_account input) (w_accounts w)) = 1 \<and>
      w_accounts w' = update_rows (matches_account input) (account_transition_data input t t') (w_accounts w)"
    using assms by (cases "at_nextStatus input = AA_DISABLED")
      (fastforce simp: transitionAccount_def tx_simps
        dest!: preservesD [OF admin_event_preserves [OF admin_outputs(1)]])+
  then show thesis using filter_length_oneD that by metis
qed

text \<open>After a transition the account has its new status and the next row version.\<close>

lemma transitionAccount_account:
  assumes "transitionAccount input w = Inr (u, w')" "distinct (map acc_id (w_accounts w))"
  obtains a where "List.find (\<lambda>q. acc_id q = at_accountId input) (w_accounts w') = Some a"
    "acc_status a = at_nextStatus input" "acc_rowVersion a = at_rowVersion input + 1"
    "distinct (map acc_id (w_accounts w'))"
proof -
  obtain t t' a where a: "a \<in> set (w_accounts w)" "matches_account input a"
    and w': "w_accounts w' = update_rows (matches_account input) (account_transition_data input t t') (w_accounts w)"
    by (rule transitionAccount_writes [OF assms(1)])
  let ?a = "account_transition_data input t t' a"
  have d: "distinct (map acc_id (w_accounts w'))"
    using assms(2) by (simp add: w' map_update_rows account_transition_data_def)
  have "?a \<in> set (w_accounts w')" using a by (auto simp: w' set_update_rows)
  then have "List.find (\<lambda>q. acc_id q = acc_id ?a) (w_accounts w') = Some ?a"
    by (rule accounts.find_unique [OF d])
  moreover have "acc_id ?a = at_accountId input" "acc_status ?a = at_nextStatus input"
    "acc_rowVersion ?a = at_rowVersion input + 1"
    using a(2) by (simp_all add: account_transition_data_def matches_account_def)
  ultimately show thesis using that d by simp
qed

lemma transitionAccount_stale:
  assumes "List.find (\<lambda>q. acc_id q = at_accountId input) (w_accounts w) = Some a" "distinct (map acc_id (w_accounts w))"
    and "acc_rowVersion a \<noteq> at_rowVersion input \<or> acc_status a \<noteq> at_currentStatus input"
  shows "transitionAccount input w = Inl (DomainErr (ConflictError ''Account lifecycle changed concurrently''))"
proof -
  have a: "a \<in> set (w_accounts w)" "acc_id a = at_accountId input" using find_SomeD [OF assms(1)] by auto
  have "\<not> matches_account input q" if q: "q \<in> set (w_accounts w)" for q
  proof
    assume m: "matches_account input q"
    then have "q = a" using accounts.same_key [OF assms(2) q a(1)] a(2) by (simp add: matches_account_def)
    then show False using m assms(3) by (auto simp: matches_account_def)
  qed
  then have none: "filter (matches_account input) (w_accounts w) = []" by (simp add: filter_empty_conv)
  have [simp]: "w_accounts (w\<lparr>w_ticks := n\<rparr>) = w_accounts w" for n by simp
  show ?thesis
    by (cases "at_nextStatus input = AA_DISABLED")
      (simp_all add: transitionAccount_def bind_tx_def new_date_def return_tx_def update_many_tx_def throw_if_tx_def
        throw_tx_def none)
qed

lemma inactive_account_cannot_pay:
  assumes "List.find (\<lambda>q. acc_id q = ci_accountId input) (w_accounts w) = Some a" "acc_status a \<noteq> AA_ACTIVE"
  shows "createV2Payment input w = Inl (DomainErr (InvalidStateError ''Agent account is not active''))"
  using assms by (simp add: createV2Payment_def lock_account_def bind_tx_def new_date_def find_tx_def gets_tx_def
      throw_if_tx_def throw_tx_def)

lemma revokeApprovedDestination_writes:
  assumes "revokeApprovedDestination input w = Inr (u, w')"
  obtains t d where "d \<in> set (w_destinations w)" "revocable input d"
    "w_destinations w' = update_rows (revocable input) (revoke_destination_data input t) (w_destinations w)"
proof -
  have "\<exists>t. length (filter (revocable input) (w_destinations w)) = 1 \<and>
      w_destinations w' = update_rows (revocable input) (revoke_destination_data input t) (w_destinations w)"
    using assms by (auto simp: revokeApprovedDestination_def tx_simps
        dest!: preservesD [OF admin_event_preserves [OF admin_outputs(2)]])
  then show thesis using filter_length_oneD that by metis
qed

text \<open>The fingerprint of a revoked destination is approved no more.\<close>

lemma revoked_not_approved:
  assumes run: "revokeApprovedDestination input w = Inr (u, w')"
    and uniq: "distinct (map (\<lambda>d. (dst_accountId d, dst_fingerprint d)) (w_destinations w))"
    and d: "d \<in> set (w_destinations w)" "dst_id d = dr_id input" "dst_fingerprint d = f" "dst_accountId d = dr_accountId input"
    and ids: "distinct (map dst_id (w_destinations w))"
  shows "findApprovedDestination (dr_accountId input) f w' = None"
proof -
  obtain t e where e: "e \<in> set (w_destinations w)" "revocable input e"
    and w': "w_destinations w' = update_rows (revocable input) (revoke_destination_data input t) (w_destinations w)"
    by (rule revokeApprovedDestination_writes [OF run])
  have ed: "e = d" using destinations.same_key [OF ids e(1) d(1)] e(2) d(2) by (simp add: revocable_def)
  have "\<not> (dst_accountId q = dr_accountId input \<and> dst_fingerprint q = f \<and> dst_status q = ''ACTIVE'')"
    if q: "q \<in> set (w_destinations w')" for q
  proof
    assume act: "dst_accountId q = dr_accountId input \<and> dst_fingerprint q = f \<and> dst_status q = ''ACTIVE''"
    obtain r where r: "r \<in> set (w_destinations w)"
      "q = (if revocable input r then revoke_destination_data input t r else r)"
      using q unfolding w' set_update_rows by blast
    have "\<not> revocable input r" using act r(2) by (auto simp: revoke_destination_data_def)
    then have "q = r" using r(2) by simp
    then have "r = d"
      using inj_onD [of "\<lambda>d. (dst_accountId d, dst_fingerprint d)" "set (w_destinations w)" r d] uniq r(1) d(1,3,4) act
      by (simp add: distinct_map)
    then show False using \<open>\<not> revocable input r\<close> e(2) ed by simp
  qed
  then show ?thesis by (simp add: findApprovedDestination_def find_None_iff)
qed
text \<open>The whole list, newest first, and the cursor that names one of its payments.\<close>

definition all_payments :: "PaymentListInput \<Rightarrow> PaymentStatus option \<Rightarrow> payment_row list \<Rightarrow> payment_row list" where
  "all_payments input status rows = rev (sort_key payment_key (filter (list_filter input status) rows))"

definition cursor_of :: "payment_row \<Rightarrow> PaymentCursor" where
  "cursor_of p = \<lparr>pc_createdAt = pay_createdAt p, pc_id = pay_id p\<rparr>"

lemma before_cursor_of: "before_cursor (Some (cursor_of q)) p \<longleftrightarrow> payment_key p < payment_key q"
  by (auto simp: before_cursor_def cursor_of_def payment_key_def less_order_key_def)

lemma filter_below_descending:
  fixes f :: "'a \<Rightarrow> 'k :: linorder"
  assumes "sorted_wrt (\<lambda>x y. f y < f x) xs" "k < length xs"
  shows "filter (\<lambda>x. f x < f (xs ! k)) xs = drop (Suc k) xs"
proof -
  have xs: "xs = take k xs @ xs ! k # drop (Suc k) xs" using assms(2) by (rule id_take_nth_drop)
  have s: "sorted_wrt (\<lambda>x y. f y < f x) (take k xs @ xs ! k # drop (Suc k) xs)" using assms(1) xs by simp
  have "filter (\<lambda>x. f x < f (xs ! k)) (take k xs @ xs ! k # drop (Suc k) xs) = drop (Suc k) xs"
    using s by (auto simp: sorted_wrt_append filter_empty_conv filter_id_conv not_less order.strict_implies_order)
  then show ?thesis by (simp only: xs [symmetric])
qed

lemma sort_key_strict:
  fixes f :: "'a \<Rightarrow> 'k :: linorder"
  assumes "distinct (map f xs)"
  shows "sorted_wrt (\<lambda>x y. f y < f x) (rev (sort_key f xs))"
proof -
  have "distinct (map f (sort_key f xs))"
    using assms by (metis mset_map mset_sort mset_eq_imp_distinct_iff)
  then have "sorted_wrt (<) (map f (sort_key f xs))" by (simp add: strict_sorted_iff)
  then show ?thesis by (simp add: sorted_wrt_map sorted_wrt_rev)
qed

text \<open>A page that starts after the \<open>k\<close>-th payment of the list holds the payments after it.\<close>

lemma page_at_cursor:
  assumes "distinct (map pay_id rows)" "k < length (all_payments input status rows)"
  shows "page (input\<lparr>pl_cursor := Some (cursor_of (all_payments input status rows ! k))\<rparr>) status rows =
    take (pl_limit input) (drop (Suc k) (all_payments input status rows))"
proof -
  let ?in = "input\<lparr>pl_cursor := Some (cursor_of (all_payments input status rows ! k))\<rparr>"
  have "distinct (map payment_key (filter (list_filter input status) rows))"
  proof -
    have "distinct (map pay_id (filter (list_filter input status) rows))" by (rule distinct_map_filter [OF assms(1)])
    then show ?thesis by (auto simp: distinct_map payment_key_def inj_on_def)
  qed
  then have strict: "sorted_wrt (\<lambda>x y. payment_key y < payment_key x) (all_payments input status rows)"
    unfolding all_payments_def by (rule sort_key_strict)
  have lf: "list_filter ?in = list_filter input" by (intro ext) (simp add: list_filter_def)
  have "page ?in status rows = take (pl_limit input)
      (filter (\<lambda>p. payment_key p < payment_key (all_payments input status rows ! k)) (all_payments input status rows))"
    unfolding page_def lf
    by (simp add: before_cursor_of all_payments_def filter_sort rev_filter [symmetric] filter_filter conj_commute)
  then show ?thesis by (simp add: filter_below_descending [OF strict assms(2)])
qed

end
