(* ===== verification/Operator_Exceptions.thy ===== *)
theory Operator_Exceptions
  imports Work_Queue Administration
begin

text \<open>
  How an operator settles an operational exception, \<^verbatim>\<open>packages/db/src/v2-operations.ts\<close>: an
  exception is acknowledged, resolved with evidence that the payment was confirmed or certainly had no
  effect, or closed without a resolution. An event of the timeline that the source writes with the
  client's \<^verbatim>\<open>create\<close> is the row \<open>createTimelineEvent\<close> writes. The lemmas give the rows of the
  ledger after each operation.
\<close>

section \<open>Events of the control plane\<close>

definition control_event ::
    "string option \<Rightarrow> string \<Rightarrow> string \<Rightarrow> string \<Rightarrow> string \<Rightarrow> string option \<Rightarrow> string option \<Rightarrow> string \<Rightarrow>
     int option \<Rightarrow> (string \<times> json) list option \<Rightarrow> (string \<times> json) list option \<Rightarrow> unit tx" where
  "control_event accountId resourceType resourceId eventType actorType actorId correlationId source occurredAt
     oldState newState =
     bind_tx randomId (\<lambda>rid. createTimelineEvent
       \<lparr>ti_id = ''timeline_'' @ rid, ti_accountId = accountId, ti_resourceType = resourceType,
        ti_resourceId = resourceId, ti_eventType = eventType, ti_actorType = actorType, ti_actorId = actorId,
        ti_requestId = None, ti_correlationId = correlationId,
        ti_oldStateJson = map_option (\<lambda>s. stringify (JObj s)) oldState,
        ti_newStateJson = map_option (\<lambda>s. stringify (JObj s)) newState, ti_source = source,
        ti_occurredAt = occurredAt, ti_metadataJson = None\<rparr>)"

text \<open>\<^verbatim>\<open>input.now ?? new Date()\<close>.\<close>

definition now_or_clock :: "int option \<Rightarrow> int tx" where
  "now_or_clock now = (case now of None \<Rightarrow> new_date | Some t \<Rightarrow> return_tx t)"

section \<open>Finding the exception and its payment\<close>

definition lockException :: "string \<Rightarrow> int \<Rightarrow> exception_row tx" where
  "lockException i rowVersion =
     bind_tx (find_tx w_exceptions (\<lambda>x. opx_id x = i)) (\<lambda>found.
     case found of
       None \<Rightarrow> throw_tx (DomainErr (NotFoundError ''Operational exception was not found''))
     | Some x \<Rightarrow>
         bind_tx (throw_if_tx (opx_rowVersion x \<noteq> rowVersion)
           (DomainErr (ConflictError ''Exception changed concurrently''))) (\<lambda>_.
         bind_tx (throw_if_tx (opx_status x \<notin> {''OPEN'', ''ACKNOWLEDGED''})
           (DomainErr (ConflictError ''Operational exception is already terminal''))) (\<lambda>_.
         return_tx x)))"

definition exception_payment_id :: "exception_row \<Rightarrow> string option tx" where
  "exception_payment_id x =
     (if opx_resourceType x = ''PAYMENT'' then return_tx (Some (opx_resourceId x))
      else if opx_resourceType x = ''PAYMENT_ATTEMPT'' then
        bind_tx (find_tx w_attempts (\<lambda>a. att_id a = opx_resourceId x)) (\<lambda>attempt.
        return_tx (map_option att_paymentId attempt))
      else return_tx None)"

definition findExceptionPayment :: "exception_row \<Rightarrow> payment_row option tx" where
  "findExceptionPayment x =
     bind_tx (exception_payment_id x) (\<lambda>paymentId.
     case paymentId of
       None \<Rightarrow> return_tx None
     | Some i \<Rightarrow> find_tx w_payments (\<lambda>p. pay_id p = i))"

definition appendOperatorTimeline :: "payment_row \<Rightarrow> string \<Rightarrow> string \<Rightarrow> int \<Rightarrow> unit tx" where
  "appendOperatorTimeline payment eventType operatorId occurredAt =
     control_event (Some (pay_payerAccountId payment)) ''PAYMENT'' (pay_id payment) eventType ''OPERATOR''
       (Some operatorId) (pay_correlationId payment) ''V2_OPERATOR_CONTROL_PLANE'' (Some occurredAt) None None"

definition update_exception :: "string \<Rightarrow> (exception_row \<Rightarrow> exception_row) \<Rightarrow> exception_row tx" where
  "update_exception i f = update_one_tx ''operational_exceptions'' w_exceptions w_exceptions_update (\<lambda>x. opx_id x = i) f"

definition exception_state_json :: "exception_row \<Rightarrow> (string \<times> json) list" where
  "exception_state_json x = [(''status'', JStr (opx_status x)), (''row_version'', json_int (opx_rowVersion x))]"

section \<open>Acknowledgement\<close>

record ExceptionAction =
  xa_id :: string
  xa_operatorId :: string
  xa_rowVersion :: int
  xa_evidenceId :: "string option"
  xa_now :: "int option"

definition acknowledge_data :: "string \<Rightarrow> int \<Rightarrow> int \<Rightarrow> exception_row \<Rightarrow> exception_row" where
  "acknowledge_data operatorId now updatedAt x =
     x\<lparr>opx_status := ''ACKNOWLEDGED'', opx_assignedTo := Some operatorId, opx_acknowledgedAt := Some now,
       opx_rowVersion := opx_rowVersion x + 1, opx_updatedAt := updatedAt\<rparr>"

definition acknowledgeException :: "ExceptionAction \<Rightarrow> exception_row tx" where
  "acknowledgeException input =
     bind_tx (lockException (xa_id input) (xa_rowVersion input)) (\<lambda>x.
     bind_tx (findExceptionPayment x) (\<lambda>payment.
     bind_tx new_date (\<lambda>now.
     bind_tx new_date (\<lambda>updatedAt.
     bind_tx (update_exception (opx_id x) (acknowledge_data (xa_operatorId input) now updatedAt)) (\<lambda>updated.
     bind_tx (control_event (opx_accountId x) (opx_resourceType x) (opx_resourceId x) ''EXCEPTION_ACKNOWLEDGED''
        ''OPERATOR'' (Some (xa_operatorId input)) (Option.bind payment pay_correlationId) ''V2_OPERATOR_CONTROL_PLANE''
        (Some now) (Some (exception_state_json x)) (Some (exception_state_json updated))) (\<lambda>_.
     return_tx updated))))))"

section \<open>Resolution with evidence\<close>

datatype Resolution = RES_CONFIRMED | RES_PROVED_NO_EFFECT

definition resolution_name :: "Resolution \<Rightarrow> string" where
  "resolution_name out = (case out of RES_CONFIRMED \<Rightarrow> ''CONFIRMED'' | RES_PROVED_NO_EFFECT \<Rightarrow> ''PROVED_NO_EFFECT'')"

definition allowedAuthorities :: "Resolution \<Rightarrow> string set" where
  "allowedAuthorities out = (case out of
     RES_CONFIRMED \<Rightarrow> {''RAIL'', ''SETTLEMENT_PROVIDER''}
   | RES_PROVED_NO_EFFECT \<Rightarrow> {''CUSTODY'', ''LOCAL_STATE'', ''RAIL'', ''SETTLEMENT_PROVIDER''})"

definition find_evidence :: "string \<Rightarrow> string \<Rightarrow> string option \<Rightarrow> Resolution \<Rightarrow> evidence_row option tx" where
  "find_evidence paymentId attemptId evidenceId out =
     gets_tx (\<lambda>w. latest evd_observedAt (filter (\<lambda>e. evd_paymentId e = paymentId \<and>
       evd_attemptId e = Some attemptId \<and> (case evidenceId of None \<Rightarrow> True | Some i \<Rightarrow> evd_id e = i) \<and>
       evd_outcome e = resolution_name out) (w_evidence w)))"

definition require_evidence :: "ExceptionAction \<Rightarrow> string \<Rightarrow> string \<Rightarrow> Resolution \<Rightarrow> unit tx" where
  "require_evidence input paymentId attemptId out =
     bind_tx (find_evidence paymentId attemptId (xa_evidenceId input) out) (\<lambda>evidence.
     throw_if_tx (case evidence of None \<Rightarrow> True | Some e \<Rightarrow> evd_authority e \<notin> allowedAuthorities out)
       (DomainErr (ConflictError (''Authoritative '' @ resolution_name out @ '' evidence is required''))))"

definition resolve_attempt_data :: "string \<Rightarrow> PaymentAttemptStatus \<Rightarrow> int \<Rightarrow> attempt_row \<Rightarrow> attempt_row" where
  "resolve_attempt_data out status now a =
     a\<lparr>att_outcome := out, att_status := status, att_rowVersion := att_rowVersion a + 1, att_updatedAt := now\<rparr>"

definition resolve_attempt :: "attempt_row \<Rightarrow> string \<Rightarrow> PaymentAttemptStatus \<Rightarrow> unit tx" where
  "resolve_attempt a out status =
     bind_tx (lift_tx (assert_progression_names ''UNKNOWN'' out)) (\<lambda>_.
     bind_tx new_date (\<lambda>now.
     bind_tx (update_one_tx ''payment_attempts'' w_attempts w_attempts_update (\<lambda>q. att_id q = att_id a)
        (resolve_attempt_data out status now)) (\<lambda>_.
     return_tx ())))"

definition resolve_payment_data ::
    "PaymentStatus \<Rightarrow> string \<Rightarrow> string \<Rightarrow> string \<Rightarrow> int option \<Rightarrow> int \<Rightarrow> payment_row \<Rightarrow> payment_row" where
  "resolve_payment_data status execution settlement outcome confirmedAt now p =
     p\<lparr>pay_status := status, pay_executionState := execution, pay_settlementState := settlement,
       pay_outcomeState := outcome, pay_confirmedAt := set_col confirmedAt (pay_confirmedAt p),
       pay_rowVersion := pay_rowVersion p + 1, pay_updatedAt := now\<rparr>"

definition resolve_payment ::
    "payment_row \<Rightarrow> PaymentStatus \<Rightarrow> string \<Rightarrow> string \<Rightarrow> string \<Rightarrow> int option \<Rightarrow> unit tx" where
  "resolve_payment payment status execution settlement outcome confirmedAt =
     bind_tx new_date (\<lambda>now.
     bind_tx (update_one_tx ''payments'' w_payments w_payments_update (\<lambda>q. pay_id q = pay_id payment)
        (resolve_payment_data status execution settlement outcome confirmedAt now)) (\<lambda>_.
     return_tx ()))"

definition resolve_confirmed :: "payment_row \<Rightarrow> attempt_row list \<Rightarrow> attempt_row \<Rightarrow> int \<Rightarrow> unit tx" where
  "resolve_confirmed payment attempts current now =
     bind_tx (throw_if_tx (list_ex (\<lambda>a. att_id a \<noteq> att_id current \<and>
          att_outcome a \<notin> {''CONFIRMED'', ''PROVED_NO_EFFECT'', ''PRE_EFFECT_ABORTED''}) attempts)
        (DomainErr (ConflictError ''Every earlier attempt requires authoritative resolution''))) (\<lambda>_.
     bind_tx (if att_outcome current = ''UNKNOWN'' then resolve_attempt current ''CONFIRMED'' PAS_CONFIRMED
        else throw_if_tx (att_outcome current \<noteq> ''CONFIRMED'')
          (DomainErr (ConflictError ''Payment attempt is not awaiting confirmed resolution''))) (\<lambda>_.
     bind_tx (resolve_payment payment PS_CONFIRMED ''TERMINAL'' ''CONFIRMED'' ''CONFIRMED'' (Some now)) (\<lambda>_.
     bind_tx (update_many_tx w_reservations w_reservations_update (held_of (pay_id payment)) (consume_data now)) (\<lambda>_.
     return_tx ()))))"

definition resolve_no_effect :: "payment_row \<Rightarrow> attempt_row list \<Rightarrow> attempt_row \<Rightarrow> int \<Rightarrow> unit tx" where
  "resolve_no_effect payment attempts current now =
     bind_tx (if att_outcome current = ''UNKNOWN'' then resolve_attempt current ''PROVED_NO_EFFECT'' PAS_FAILED
        else throw_if_tx (att_outcome current \<notin> {''PROVED_NO_EFFECT'', ''PRE_EFFECT_ABORTED''})
          (DomainErr (ConflictError ''Payment attempt is not awaiting no-effect resolution''))) (\<lambda>_.
     let allNoEffect = list_all (\<lambda>a. att_id a = att_id current \<or>
           att_outcome a \<in> {''PROVED_NO_EFFECT'', ''PRE_EFFECT_ABORTED''}) attempts
     in bind_tx (if allNoEffect
          then resolve_payment payment PS_PROVED_NO_EFFECT ''TERMINAL'' ''NOT_SUBMITTED'' ''PROVED_NO_EFFECT'' None
          else resolve_payment payment PS_REVIEW_REQUIRED ''RECONCILING'' ''UNKNOWN'' ''UNDETERMINED'' None) (\<lambda>_.
        when_tx allNoEffect
          (bind_tx (update_many_tx w_reservations w_reservations_update (held_of (pay_id payment))
             (release_data ''OPERATOR_PROVED_NO_EFFECT'' now)) (\<lambda>_.
           return_tx ()))))"

definition close_exception_data :: "string \<Rightarrow> string \<Rightarrow> int \<Rightarrow> int \<Rightarrow> exception_row \<Rightarrow> exception_row" where
  "close_exception_data status operatorId now updatedAt x =
     x\<lparr>opx_status := status, opx_assignedTo := Some operatorId, opx_resolvedAt := Some now,
       opx_activeDedupeKey := None, opx_rowVersion := opx_rowVersion x + 1, opx_updatedAt := updatedAt\<rparr>"

definition close_exception :: "exception_row \<Rightarrow> string \<Rightarrow> string \<Rightarrow> int \<Rightarrow> exception_row tx" where
  "close_exception x status operatorId now =
     bind_tx new_date (\<lambda>updatedAt.
     update_exception (opx_id x) (close_exception_data status operatorId now updatedAt))"

definition resolve_linked :: "ExceptionAction \<Rightarrow> Resolution \<Rightarrow> int \<Rightarrow> exception_row \<Rightarrow> payment_row \<Rightarrow> exception_row tx" where
  "resolve_linked input out now x payment =
     bind_tx (gets_tx (payment_attempts (pay_id payment))) (\<lambda>attempts.
     bind_tx (throw_if_tx (attempts = []) (DomainErr (InvalidStateError ''Payment has no attempt''))) (\<lambda>_.
     bind_tx (require_evidence input (pay_id payment) (att_id (last attempts)) out) (\<lambda>_.
     bind_tx (case out of
         RES_CONFIRMED \<Rightarrow> resolve_confirmed payment attempts (last attempts) now
       | RES_PROVED_NO_EFFECT \<Rightarrow> resolve_no_effect payment attempts (last attempts) now) (\<lambda>_.
     bind_tx (appendOperatorTimeline payment (''PAYMENT_RESOLVED_'' @ resolution_name out) (xa_operatorId input) now) (\<lambda>_.
     close_exception x ''RESOLVED'' (xa_operatorId input) now)))))"

definition resolveExceptionWithEvidence :: "ExceptionAction \<Rightarrow> Resolution \<Rightarrow> exception_row tx" where
  "resolveExceptionWithEvidence input out =
     bind_tx (now_or_clock (xa_now input)) (\<lambda>now.
     bind_tx (lockException (xa_id input) (xa_rowVersion input)) (\<lambda>x.
     bind_tx (findExceptionPayment x) (\<lambda>found.
     case found of
       None \<Rightarrow> throw_tx (DomainErr (InvalidStateError ''Exception is not linked to a payment''))
     | Some payment \<Rightarrow> resolve_linked input out now x payment)))"

definition resolveConfirmedException :: "ExceptionAction \<Rightarrow> exception_row tx" where
  "resolveConfirmedException input = resolveExceptionWithEvidence input RES_CONFIRMED"

definition resolveProvedNoEffectException :: "ExceptionAction \<Rightarrow> exception_row tx" where
  "resolveProvedNoEffectException input = resolveExceptionWithEvidence input RES_PROVED_NO_EFFECT"

section \<open>Closing without a resolution\<close>

definition close_payment :: "ExceptionAction \<Rightarrow> int \<Rightarrow> payment_row \<Rightarrow> unit tx" where
  "close_payment input now payment =
     bind_tx (throw_if_tx (pay_status payment \<notin> {PS_REVIEW_REQUIRED, PS_RECONCILING})
       (DomainErr (ConflictError ''Payment is not awaiting unresolved closure''))) (\<lambda>_.
     bind_tx (resolve_payment payment PS_CLOSED_UNRESOLVED ''TERMINAL'' ''UNKNOWN'' ''UNDETERMINED'' None) (\<lambda>_.
     appendOperatorTimeline payment ''PAYMENT_CLOSED_UNRESOLVED'' (xa_operatorId input) now))"

definition closeUnresolvedException :: "ExceptionAction \<Rightarrow> exception_row tx" where
  "closeUnresolvedException input =
     bind_tx (now_or_clock (xa_now input)) (\<lambda>now.
     bind_tx (lockException (xa_id input) (xa_rowVersion input)) (\<lambda>x.
     bind_tx (findExceptionPayment x) (\<lambda>found.
     bind_tx (case found of None \<Rightarrow> return_tx () | Some payment \<Rightarrow> close_payment input now payment) (\<lambda>_.
     close_exception x ''CLOSED_UNRESOLVED'' (xa_operatorId input) now))))"

section \<open>Reading exceptions and the timeline\<close>

record TimelineQuery =
  tq_accountId :: string
  tq_limit :: nat
  tq_cursor :: "(int \<times> string) option"
  tq_resourceType :: "string option"
  tq_resourceId :: "string option"

definition timeline_key :: "timeline_row \<Rightarrow> order_key" where
  "timeline_key e = OrderKey (tl_occurredAt e) (tl_id e)"

text \<open>A filter that is left out when its value is \<^verbatim>\<open>undefined\<close>.\<close>

definition matches_opt :: "'a option \<Rightarrow> 'a \<Rightarrow> bool" where
  "matches_opt wanted x = (case wanted of None \<Rightarrow> True | Some y \<Rightarrow> x = y)"

definition timeline_matches :: "TimelineQuery \<Rightarrow> timeline_row \<Rightarrow> bool" where
  "timeline_matches input e \<longleftrightarrow> tl_accountId e = Some (tq_accountId input) \<and>
     matches_opt (tq_resourceType input) (tl_resourceType e) \<and> matches_opt (tq_resourceId input) (tl_resourceId e) \<and>
     (case tq_cursor input of
        None \<Rightarrow> True
      | Some (t, i) \<Rightarrow> tl_occurredAt e < t \<or> (tl_occurredAt e = t \<and> tl_id e < i))"

definition listTimeline :: "TimelineQuery \<Rightarrow> timeline_row list tx" where
  "listTimeline input =
     gets_tx (\<lambda>w. take (tq_limit input) (rev (sort_key timeline_key (filter (timeline_matches input) (w_timeline w)))))"

record ExceptionQuery =
  xq_accountId :: "string option"
  xq_status :: "string option"
  xq_limit :: nat

definition listExceptions :: "ExceptionQuery \<Rightarrow> exception_row list tx" where
  "listExceptions input =
     gets_tx (\<lambda>w. take (xq_limit input) (rev (sort_key (\<lambda>x. OrderKey (opx_createdAt x) (opx_id x))
       (filter (\<lambda>x. (case xq_accountId input of None \<Rightarrow> True | Some a \<Rightarrow> opx_accountId x = Some a) \<and>
          matches_opt (xq_status input) (opx_status x)) (w_exceptions w)))))"

definition findException :: "string \<Rightarrow> exception_row option tx" where
  "findException i = find_tx w_exceptions (\<lambda>x. opx_id x = i)"


section \<open>What the operations write\<close>

lemma control_event_preserves [frame_intros]:
  "outputs_frame g \<Longrightarrow> preserves g (control_event a rt ri et act ai c s t old new)"
  unfolding control_event_def by (intro frame_intros; simp add: outputs_frameD)

lemma appendOperatorTimeline_preserves [frame_intros]:
  "outputs_frame g \<Longrightarrow> preserves g (appendOperatorTimeline p e op t)"
  unfolding appendOperatorTimeline_def by (rule frame_intros)

lemma now_or_clock_preserves [frame_intros]:
  "(\<And>w t. g (w\<lparr>w_ticks := t\<rparr>) = g w) \<Longrightarrow> preserves g (now_or_clock now)"
  unfolding now_or_clock_def by (intro frame_intros; simp)

lemma lockException_Inr:
  assumes "lockException i v w = Inr (x, w')"
  shows "w' = w" "x \<in> set (w_exceptions w)" "opx_id x = i" "opx_rowVersion x = v" "opx_status x \<in> {''OPEN'', ''ACKNOWLEDGED''}"
    "List.find (\<lambda>x. opx_id x = i) (w_exceptions w) = Some x"
  using assms by (auto simp: lockException_def tx_simps split: option.splits dest: find_SomeD)

lemma exception_payment_id_read:
  "\<exists>f. exception_payment_id x w = Inr (f, w) \<and> (opx_resourceType x = ''PAYMENT'' \<longrightarrow> f = Some (opx_resourceId x))"
  by (simp add: exception_payment_id_def bind_tx_def find_tx_def gets_tx_def return_tx_def)

lemma findExceptionPayment_Inr:
  assumes "findExceptionPayment x w = Inr (p, w')"
  shows "w' = w" "p = Some q \<Longrightarrow> q \<in> set (w_payments w)"
    "p = Some q \<Longrightarrow> opx_resourceType x = ''PAYMENT'' \<Longrightarrow> pay_id q = opx_resourceId x"
    "p = Some q \<Longrightarrow> List.find (\<lambda>r. pay_id r = pay_id q) (w_payments w) = Some q"
proof -
  obtain f where f: "exception_payment_id x w = Inr (f, w)"
    "opx_resourceType x = ''PAYMENT'' \<Longrightarrow> f = Some (opx_resourceId x)"
    using exception_payment_id_read by blast
  have r: "w' = w" "p = Option.bind f (\<lambda>i. List.find (\<lambda>r. pay_id r = i) (w_payments w))"
    using assms f(1) by (cases f; simp add: findExceptionPayment_def bind_tx_def tx_simps)+
  show "w' = w" by (rule r(1))
  assume q: "p = Some q"
  then obtain i where i: "f = Some i" "List.find (\<lambda>r. pay_id r = i) (w_payments w) = Some q"
    using r(2) by (cases f) auto
  have "q \<in> set (w_payments w) \<and> pay_id q = i" by (rule find_SomeD [OF i(2)])
  then show "q \<in> set (w_payments w)" "List.find (\<lambda>r. pay_id r = pay_id q) (w_payments w) = Some q"
    "opx_resourceType x = ''PAYMENT'' \<Longrightarrow> pay_id q = opx_resourceId x"
    using i f(2) by auto
qed

lemma latest_SomeD: "latest version rows = Some r \<Longrightarrow> r \<in> set rows"
  by (auto simp: latest_def split: list.splits) (metis list.set_intros(1) set_sort)

lemma require_evidence_Inr:
  assumes "require_evidence input pid aid out w = Inr (u, w')"
  shows "w' = w" "\<exists>e \<in> set (w_evidence w). evd_paymentId e = pid \<and> evd_attemptId e = Some aid \<and>
    evd_outcome e = resolution_name out \<and> evd_authority e \<in> allowedAuthorities out \<and>
    matches_opt (xa_evidenceId input) (evd_id e)"
  using assms
  by (auto simp: require_evidence_def find_evidence_def tx_simps matches_opt_def split: option.splits dest!: latest_SomeD)

definition resolved_attempts :: "attempt_row \<Rightarrow> Resolution \<Rightarrow> int \<Rightarrow> attempt_row list \<Rightarrow> attempt_row list" where
  "resolved_attempts a out t rows = (if att_outcome a = ''UNKNOWN''
     then update_rows (\<lambda>q. att_id q = att_id a) (resolve_attempt_data (resolution_name out)
       (case out of RES_CONFIRMED \<Rightarrow> PAS_CONFIRMED | RES_PROVED_NO_EFFECT \<Rightarrow> PAS_FAILED) t) rows
     else rows)"

lemma resolve_confirmed_Inr:
  assumes "resolve_confirmed p as a now w = Inr (u, w')"
  shows "w_works w' = w_works w" "w_exceptions w' = w_exceptions w"
    "w_reservations w' = update_rows (held_of (pay_id p)) (consume_data now) (w_reservations w)"
    "\<exists>t. w_payments w' = update_rows (\<lambda>q. pay_id q = pay_id p)
       (resolve_payment_data PS_CONFIRMED ''TERMINAL'' ''CONFIRMED'' ''CONFIRMED'' (Some now) t) (w_payments w)"
    "\<exists>t. w_attempts w' = resolved_attempts a RES_CONFIRMED t (w_attempts w)"
    "att_outcome a = ''UNKNOWN'' \<or> att_outcome a = ''CONFIRMED''"
    "b \<in> set as \<Longrightarrow> att_id b \<noteq> att_id a \<Longrightarrow> att_outcome b \<in> {''CONFIRMED'', ''PROVED_NO_EFFECT'', ''PRE_EFFECT_ABORTED''}"
  using assms
  by (auto simp: resolve_confirmed_def resolve_attempt_def resolve_payment_def resolved_attempts_def
      resolution_name_def tx_simps list_ex_iff split: if_splits)

definition others_no_effect :: "attempt_row \<Rightarrow> attempt_row list \<Rightarrow> bool" where
  "others_no_effect a as \<longleftrightarrow> (\<forall>b \<in> set as. att_id b = att_id a \<or> att_outcome b \<in> {''PROVED_NO_EFFECT'', ''PRE_EFFECT_ABORTED''})"

definition no_effect_payment :: "bool \<Rightarrow> int \<Rightarrow> payment_row \<Rightarrow> payment_row" where
  "no_effect_payment all t = (if all
     then resolve_payment_data PS_PROVED_NO_EFFECT ''TERMINAL'' ''NOT_SUBMITTED'' ''PROVED_NO_EFFECT'' None t
     else resolve_payment_data PS_REVIEW_REQUIRED ''RECONCILING'' ''UNKNOWN'' ''UNDETERMINED'' None t)"

lemma resolve_no_effect_Inr:
  assumes "resolve_no_effect p as a now w = Inr (u, w')"
  shows "w_works w' = w_works w" "w_exceptions w' = w_exceptions w"
    "w_reservations w' = (if others_no_effect a as
       then update_rows (held_of (pay_id p)) (release_data ''OPERATOR_PROVED_NO_EFFECT'' now) (w_reservations w)
       else w_reservations w)"
    "\<exists>t. w_payments w' = update_rows (\<lambda>q. pay_id q = pay_id p) (no_effect_payment (others_no_effect a as) t) (w_payments w)"
    "\<exists>t. w_attempts w' = resolved_attempts a RES_PROVED_NO_EFFECT t (w_attempts w)"
    "att_outcome a \<in> {''UNKNOWN'', ''PROVED_NO_EFFECT'', ''PRE_EFFECT_ABORTED''}"
proof -
  have all: "list_all (\<lambda>b. att_id b = att_id a \<or> att_outcome b \<in> {''PROVED_NO_EFFECT'', ''PRE_EFFECT_ABORTED''}) as =
      others_no_effect a as"
    by (simp add: others_no_effect_def list_all_iff)
  note run = assms [unfolded resolve_no_effect_def all Let_def]
  show "w_works w' = w_works w" "w_exceptions w' = w_exceptions w"
    "w_reservations w' = (if others_no_effect a as
       then update_rows (held_of (pay_id p)) (release_data ''OPERATOR_PROVED_NO_EFFECT'' now) (w_reservations w)
       else w_reservations w)"
    "\<exists>t. w_payments w' = update_rows (\<lambda>q. pay_id q = pay_id p) (no_effect_payment (others_no_effect a as) t) (w_payments w)"
    "\<exists>t. w_attempts w' = resolved_attempts a RES_PROVED_NO_EFFECT t (w_attempts w)"
    "att_outcome a \<in> {''UNKNOWN'', ''PROVED_NO_EFFECT'', ''PRE_EFFECT_ABORTED''}"
    using run
    by (cases "others_no_effect a as"; auto simp: resolve_attempt_def resolve_payment_def resolved_attempts_def
        resolution_name_def no_effect_payment_def tx_simps split: if_splits)+
qed

lemma ledger_outputs: "outputs_frame w_payments" "outputs_frame w_attempts" "outputs_frame w_reservations"
  "outputs_frame w_works" "outputs_frame w_exceptions" "outputs_frame w_evidence" "outputs_frame w_approvals" "outputs_frame w_accounts"
  by (simp_all add: outputs_frame_def)

lemma close_exception_Inr:
  assumes "close_exception x st op now w = Inr (y, w')"
  shows "w_payments w' = w_payments w" "w_attempts w' = w_attempts w" "w_reservations w' = w_reservations w"
    "w_works w' = w_works w"
    "\<exists>t. w_exceptions w' = update_rows (\<lambda>q. opx_id q = opx_id x) (close_exception_data st op now t) (w_exceptions w)"
  using assms by (auto simp: close_exception_def update_exception_def tx_simps)

lemma operator_timeline_ledger:
  assumes "appendOperatorTimeline p e op t w = Inr (u, w')"
  shows "w_payments w' = w_payments w" "w_attempts w' = w_attempts w" "w_reservations w' = w_reservations w"
    "w_works w' = w_works w" "w_exceptions w' = w_exceptions w"
  by (rule preservesD [OF appendOperatorTimeline_preserves [OF ledger_outputs(1)] assms]
      preservesD [OF appendOperatorTimeline_preserves [OF ledger_outputs(2)] assms]
      preservesD [OF appendOperatorTimeline_preserves [OF ledger_outputs(3)] assms]
      preservesD [OF appendOperatorTimeline_preserves [OF ledger_outputs(4)] assms]
      preservesD [OF appendOperatorTimeline_preserves [OF ledger_outputs(5)] assms])+

lemma now_or_clock_world:
  assumes "now_or_clock t w = Inr (now, w')"
  shows "\<exists>n. w' = w\<lparr>w_ticks := n\<rparr>"
proof (cases t)
  case None
  then show ?thesis using assms by (auto simp: now_or_clock_def tx_simps)
next
  case (Some s)
  then have "w' = w\<lparr>w_ticks := w_ticks w\<rparr>" using assms by (simp add: now_or_clock_def tx_simps)
  then show ?thesis by blast
qed

text \<open>A resolution: the exception, the payment it is about, its last attempt and the evidence, and the
  phase that writes the ledger.\<close>

definition same_ledger :: "world \<Rightarrow> world \<Rightarrow> bool" where
  "same_ledger w w' \<longleftrightarrow> w_payments w' = w_payments w \<and> w_attempts w' = w_attempts w \<and>
     w_reservations w' = w_reservations w \<and> w_works w' = w_works w"

definition phase_of :: "Resolution \<Rightarrow> payment_row \<Rightarrow> attempt_row list \<Rightarrow> attempt_row \<Rightarrow> int \<Rightarrow> unit tx" where
  "phase_of out = (case out of RES_CONFIRMED \<Rightarrow> resolve_confirmed | RES_PROVED_NO_EFFECT \<Rightarrow> resolve_no_effect)"

definition evidenced :: "ExceptionAction \<Rightarrow> Resolution \<Rightarrow> payment_row \<Rightarrow> attempt_row \<Rightarrow> world \<Rightarrow> bool" where
  "evidenced input out p a w \<longleftrightarrow> (\<exists>e \<in> set (w_evidence w). evd_paymentId e = pay_id p \<and> evd_attemptId e = Some (att_id a) \<and>
     evd_outcome e = resolution_name out \<and> evd_authority e \<in> allowedAuthorities out \<and> matches_opt (xa_evidenceId input) (evd_id e))"

lemma resolve_linked_Inr:
  assumes "resolve_linked input out now x p w = Inr (y, w')"
  obtains u w2 where "payment_attempts (pay_id p) w \<noteq> []"
    "evidenced input out p (last (payment_attempts (pay_id p) w)) w"
    "phase_of out p (payment_attempts (pay_id p) w) (last (payment_attempts (pay_id p) w)) now w = Inr (u, w2)"
    "same_ledger w2 w'"
    "\<exists>t. w_exceptions w' = update_rows (\<lambda>q. opx_id q = opx_id x) (close_exception_data ''RESOLVED'' (xa_operatorId input) now t) (w_exceptions w2)"
proof -
  let ?as = "payment_attempts (pay_id p) w"
  obtain w1 u w2 w3 where ne: "?as \<noteq> []" and ev: "require_evidence input (pay_id p) (att_id (last ?as)) out w = Inr ((), w1)"
    and ph: "(case out of RES_CONFIRMED \<Rightarrow> resolve_confirmed p ?as (last ?as) now
       | RES_PROVED_NO_EFFECT \<Rightarrow> resolve_no_effect p ?as (last ?as) now) w1 = Inr (u, w2)"
    and tl: "appendOperatorTimeline p (''PAYMENT_RESOLVED_'' @ resolution_name out) (xa_operatorId input) now w2 = Inr ((), w3)"
    and cl: "close_exception x ''RESOLVED'' (xa_operatorId input) now w3 = Inr (y, w')"
    using assms unfolding resolve_linked_def by (auto simp: tx_simps)
  note E = require_evidence_Inr [OF ev]
  note T = operator_timeline_ledger [OF tl] and C = close_exception_Inr [OF cl]
  show thesis
  proof (rule that [of u w2])
    show "phase_of out p ?as (last ?as) now w = Inr (u, w2)"
      using ph by (cases out) (simp_all add: phase_of_def E(1))
    show "evidenced input out p (last ?as) w" using E(2) by (simp add: evidenced_def)
  qed (use ne T C in \<open>simp_all add: same_ledger_def\<close>)
qed

lemma resolveException_cases:
  assumes "resolveExceptionWithEvidence input out w = Inr (y, w')"
  obtains x p now w1 w2 u where
    "x \<in> set (w_exceptions w)" "opx_id x = xa_id input" "opx_rowVersion x = xa_rowVersion input"
    "opx_status x \<in> {''OPEN'', ''ACKNOWLEDGED''}" "p \<in> set (w_payments w)"
    "opx_resourceType x = ''PAYMENT'' \<Longrightarrow> pay_id p = opx_resourceId x"
    "payment_attempts (pay_id p) w \<noteq> []"
    "evidenced input out p (last (payment_attempts (pay_id p) w)) w"
    "same_ledger w w1" "w_exceptions w1 = w_exceptions w"
    "phase_of out p (payment_attempts (pay_id p) w) (last (payment_attempts (pay_id p) w)) now w1 = Inr (u, w2)"
    "same_ledger w2 w'"
    "\<exists>t. w_exceptions w' = update_rows (\<lambda>q. opx_id q = opx_id x) (close_exception_data ''RESOLVED'' (xa_operatorId input) now t) (w_exceptions w2)"
proof -
  obtain now w0 x w1 f w2 where n: "now_or_clock (xa_now input) w = Inr (now, w0)"
    and l: "lockException (xa_id input) (xa_rowVersion input) w0 = Inr (x, w1)"
    and p: "findExceptionPayment x w1 = Inr (f, w2)"
    and r: "(case f of None \<Rightarrow> throw_tx (DomainErr (InvalidStateError ''Exception is not linked to a payment''))
     | Some payment \<Rightarrow> resolve_linked input out now x payment) w2 = Inr (y, w')"
    using assms unfolding resolveExceptionWithEvidence_def bind_tx_Inr_iff by blast
  obtain k where w0: "w0 = w\<lparr>w_ticks := k\<rparr>" using now_or_clock_world [OF n] by blast
  note L = lockException_Inr [OF l] and P = findExceptionPayment_Inr [OF p]
  obtain q where q: "f = Some q" "resolve_linked input out now x q w2 = Inr (y, w')"
    using r by (cases f) (simp_all add: tx_simps)
  have eq: "w1 = w0" "w2 = w0" using L(1) P(1) by auto
  have pa: "payment_attempts (pay_id q) w2 = payment_attempts (pay_id q) w"
    by (simp add: eq w0 payment_attempts_def)
  show thesis
    by (rule resolve_linked_Inr [OF q(2)], rule that [of x q w2 now])
      (use L P(2-) [OF q(1)] pa in \<open>simp_all add: eq w0 same_ledger_def evidenced_def\<close>)
qed

lemma close_payment_Inr:
  assumes "close_payment input now p w = Inr (u, w')"
  shows "w_attempts w' = w_attempts w" "w_reservations w' = w_reservations w" "w_works w' = w_works w"
    "w_exceptions w' = w_exceptions w" "pay_status p \<in> {PS_REVIEW_REQUIRED, PS_RECONCILING}"
    "\<exists>t. w_payments w' = update_rows (\<lambda>q. pay_id q = pay_id p)
         (resolve_payment_data PS_CLOSED_UNRESOLVED ''TERMINAL'' ''UNKNOWN'' ''UNDETERMINED'' None t) (w_payments w)"
proof -
  obtain w1 where s: "pay_status p \<in> {PS_REVIEW_REQUIRED, PS_RECONCILING}"
    and r: "resolve_payment p PS_CLOSED_UNRESOLVED ''TERMINAL'' ''UNKNOWN'' ''UNDETERMINED'' None w = Inr ((), w1)"
    and t: "appendOperatorTimeline p ''PAYMENT_CLOSED_UNRESOLVED'' (xa_operatorId input) now w1 = Inr (u, w')"
    using assms unfolding close_payment_def bind_tx_Inr_iff throw_if_tx_Inr_iff by auto
  note T = operator_timeline_ledger [OF t]
  show "w_attempts w' = w_attempts w" "w_reservations w' = w_reservations w" "w_works w' = w_works w"
    "w_exceptions w' = w_exceptions w"
    "\<exists>t. w_payments w' = update_rows (\<lambda>q. pay_id q = pay_id p)
         (resolve_payment_data PS_CLOSED_UNRESOLVED ''TERMINAL'' ''UNKNOWN'' ''UNDETERMINED'' None t) (w_payments w)"
    using r unfolding T by (auto simp: resolve_payment_def tx_simps)
  show "pay_status p \<in> {PS_REVIEW_REQUIRED, PS_RECONCILING}" by (rule s)
qed

lemma closeUnresolved_cases:
  assumes "closeUnresolvedException input w = Inr (y, w')"
  obtains x f now where "x \<in> set (w_exceptions w)" "opx_id x = xa_id input" "opx_rowVersion x = xa_rowVersion input"
    "opx_status x \<in> {''OPEN'', ''ACKNOWLEDGED''}"
    "\<And>p. f = Some p \<Longrightarrow> p \<in> set (w_payments w) \<and> pay_status p \<in> {PS_REVIEW_REQUIRED, PS_RECONCILING}"
    "\<And>p. f = Some p \<Longrightarrow> opx_resourceType x = ''PAYMENT'' \<Longrightarrow> pay_id p = opx_resourceId x"
    "case f of None \<Rightarrow> w_payments w' = w_payments w
     | Some p \<Rightarrow> \<exists>t. w_payments w' = update_rows (\<lambda>q. pay_id q = pay_id p)
         (resolve_payment_data PS_CLOSED_UNRESOLVED ''TERMINAL'' ''UNKNOWN'' ''UNDETERMINED'' None t) (w_payments w)"
    "w_attempts w' = w_attempts w" "w_reservations w' = w_reservations w" "w_works w' = w_works w"
    "\<exists>t. w_exceptions w' = update_rows (\<lambda>q. opx_id q = opx_id x) (close_exception_data ''CLOSED_UNRESOLVED'' (xa_operatorId input) now t) (w_exceptions w)"
proof -
  obtain now w0 x w1 f w2 w3 u where n: "now_or_clock (xa_now input) w = Inr (now, w0)"
    and l: "lockException (xa_id input) (xa_rowVersion input) w0 = Inr (x, w1)"
    and p: "findExceptionPayment x w1 = Inr (f, w2)"
    and r: "(case f of None \<Rightarrow> return_tx () | Some payment \<Rightarrow> close_payment input now payment) w2 = Inr (u, w3)"
    and cl: "close_exception x ''CLOSED_UNRESOLVED'' (xa_operatorId input) now w3 = Inr (y, w')"
    using assms unfolding closeUnresolvedException_def bind_tx_Inr_iff by blast
  obtain k where w0: "w0 = w\<lparr>w_ticks := k\<rparr>" using now_or_clock_world [OF n] by blast
  note L = lockException_Inr [OF l] and P = findExceptionPayment_Inr [OF p] and C = close_exception_Inr [OF cl]
  have eq: "w1 = w0" "w2 = w0" using L(1) P(1) by auto
  have S: "w_attempts w3 = w_attempts w" "w_reservations w3 = w_reservations w" "w_works w3 = w_works w"
    "w_exceptions w3 = w_exceptions w"
    "case f of None \<Rightarrow> w_payments w3 = w_payments w
     | Some p \<Rightarrow> (pay_status p \<in> {PS_REVIEW_REQUIRED, PS_RECONCILING}) \<and> (\<exists>t. w_payments w3 = update_rows (\<lambda>q. pay_id q = pay_id p)
         (resolve_payment_data PS_CLOSED_UNRESOLVED ''TERMINAL'' ''UNKNOWN'' ''UNDETERMINED'' None t) (w_payments w))"
  proof -
    have "w_attempts w3 = w_attempts w \<and> w_reservations w3 = w_reservations w \<and> w_works w3 = w_works w \<and>
      w_exceptions w3 = w_exceptions w"
    proof (cases f)
      case None
      then show ?thesis using r by (auto simp: tx_simps eq w0)
    next
      case (Some p)
      then have c: "close_payment input now p w2 = Inr (u, w3)" using r by simp
      show ?thesis unfolding close_payment_Inr(1-4) [OF c] by (simp add: eq w0)
    qed
    then show "w_attempts w3 = w_attempts w" "w_reservations w3 = w_reservations w" "w_works w3 = w_works w"
      "w_exceptions w3 = w_exceptions w" by blast+
    show "case f of None \<Rightarrow> w_payments w3 = w_payments w
     | Some p \<Rightarrow> (pay_status p \<in> {PS_REVIEW_REQUIRED, PS_RECONCILING}) \<and> (\<exists>t. w_payments w3 = update_rows (\<lambda>q. pay_id q = pay_id p)
         (resolve_payment_data PS_CLOSED_UNRESOLVED ''TERMINAL'' ''UNKNOWN'' ''UNDETERMINED'' None t) (w_payments w))"
    proof (cases f)
      case None
      then show ?thesis using r by (auto simp: tx_simps eq w0)
    next
      case (Some p)
      then have c: "close_payment input now p w2 = Inr (u, w3)" using r by simp
      show ?thesis using close_payment_Inr(5,6) [OF c] Some by (simp add: eq w0)
    qed
  qed
  show thesis
  proof (rule that [of x f now])
    show "case f of None \<Rightarrow> w_payments w' = w_payments w
     | Some p \<Rightarrow> \<exists>t. w_payments w' = update_rows (\<lambda>q. pay_id q = pay_id p)
         (resolve_payment_data PS_CLOSED_UNRESOLVED ''TERMINAL'' ''UNKNOWN'' ''UNDETERMINED'' None t) (w_payments w)"
      using S(5) C(1) by (cases f) auto
    fix p assume f: "f = Some p"
    show "p \<in> set (w_payments w) \<and> pay_status p \<in> {PS_REVIEW_REQUIRED, PS_RECONCILING}"
      using P(2) [OF f] S(5) f by (simp add: eq w0)
    show "opx_resourceType x = ''PAYMENT'' \<Longrightarrow> pay_id p = opx_resourceId x" by (rule P(3) [OF f])
  qed (use L C S in \<open>simp_all add: eq w0\<close>)
qed

end
