(* ===== verification/Approvals.thy ===== *)
theory Approvals
  imports Operator_Exceptions
begin

text \<open>
  Deciding an approval, \<open>decideApproval\<close> of \<^verbatim>\<open>packages/db/src/v2-admin.ts\<close>: an operator approves,
  rejects or expires a payment that awaits approval. An approval holds the funds and starts the first
  attempt of the payment in the same transaction. The lemmas give the rows of the ledger after a decision.
\<close>

section \<open>Shared steps of the administration\<close>

definition createId :: "string \<Rightarrow> string tx" where
  "createId prefix = bind_tx randomId (\<lambda>rid. return_tx (prefix @ ''_'' @ rid))"

definition lockAgentAccount :: "string \<Rightarrow> unit tx" where
  "lockAgentAccount accountId =
     bind_tx (find_tx w_accounts (\<lambda>a. acc_id a = accountId)) (\<lambda>account.
     throw_if_tx (account = None) (DomainErr (NotFoundError ''Agent account was not found'')))"

definition admin_webhook ::
    "string \<Rightarrow> string \<Rightarrow> string \<Rightarrow> int \<Rightarrow> string \<Rightarrow> (string \<times> json) list \<Rightarrow> unit tx" where
  "admin_webhook accountId resourceType resourceId resourceVersion eventType resource = enqueueWebhookEvent
     \<lparr>we_accountId = accountId, we_resourceType = resourceType, we_resourceId = resourceId,
      we_resourceVersion = resourceVersion, we_eventType = eventType, we_resource = resource,
      we_correlationId = None, we_eventId = None\<rparr>"

section \<open>The decision\<close>

datatype ApprovalAction = APPROVE | REJECT | EXPIRE

definition action_name :: "ApprovalAction \<Rightarrow> string" where
  "action_name a = (case a of APPROVE \<Rightarrow> ''APPROVE'' | REJECT \<Rightarrow> ''REJECT'' | EXPIRE \<Rightarrow> ''EXPIRE'')"

definition approval_next_status :: "ApprovalAction \<Rightarrow> string" where
  "approval_next_status a = (case a of APPROVE \<Rightarrow> ''APPROVED'' | EXPIRE \<Rightarrow> ''EXPIRED'' | REJECT \<Rightarrow> ''REJECTED'')"

record ApprovalDecision =
  ad_accountId :: string
  ad_approvalId :: string
  ad_action :: ApprovalAction
  ad_actorId :: string
  ad_comment :: "string option"
  ad_rowVersion :: int
  ad_settledAtomic :: "int option"
  ad_now :: "int option"

definition find_pending_approval :: "ApprovalDecision \<Rightarrow> approval_row tx" where
  "find_pending_approval input =
     bind_tx (find_tx w_approvals (\<lambda>a. apv_id a = ad_approvalId input \<and> apv_accountId a = ad_accountId input)) (\<lambda>found.
     case found of
       None \<Rightarrow> throw_tx (DomainErr (NotFoundError ''Approval was not found''))
     | Some a \<Rightarrow>
         bind_tx (throw_if_tx (apv_rowVersion a \<noteq> ad_rowVersion input)
           (DomainErr (ConflictError ''Approval changed concurrently''))) (\<lambda>_.
         bind_tx (throw_if_tx (apv_status a \<noteq> ''PENDING'')
           (DomainErr (ConflictError ''Approval is already terminal''))) (\<lambda>_.
         return_tx a)))"

definition find_approval_payment :: "ApprovalDecision \<Rightarrow> approval_row \<Rightarrow> payment_row tx" where
  "find_approval_payment input a =
     bind_tx (find_tx w_payments (\<lambda>p. pay_id p = apv_paymentId a \<and> pay_payerAccountId p = ad_accountId input)) (\<lambda>found.
     case found of
       None \<Rightarrow> throw_tx (DomainErr (NotFoundError ''Approval payment was not found''))
     | Some p \<Rightarrow> return_tx p)"

text \<open>The reservations that count against an approved payment: those of its denomination, or, for a
  payment without one, those of its currency.\<close>

definition held_against :: "string \<Rightarrow> payment_row \<Rightarrow> world \<Rightarrow> int" where
  "held_against accountId p w =
     (case pay_denominationId p of
        Some d \<Rightarrow> held_atomic accountId d w
      | None \<Rightarrow> sum_where (\<lambda>r. res_ownerAccountId r = accountId \<and> res_status r = RES_ACTIVE \<and>
          res_lifecycleState r = ''HELD'' \<and> res_currency r = pay_currency p) res_amountAtomic (w_reservations w))"

definition check_approvable :: "ApprovalDecision \<Rightarrow> approval_row \<Rightarrow> payment_row \<Rightarrow> int \<Rightarrow> unit tx" where
  "check_approvable input a p now =
     bind_tx (throw_if_tx (apv_expiresAt a \<le> now) (DomainErr (ConflictError ''Approval has expired''))) (\<lambda>_.
     bind_tx (throw_if_tx (pay_status p \<noteq> PS_AWAITING_APPROVAL)
       (DomainErr (ConflictError ''Payment is no longer awaiting approval''))) (\<lambda>_.
     bind_tx (throw_if_tx (pay_intentFingerprint p \<noteq> Some (apv_fingerprint a))
       (DomainErr (ConflictError ''Approval intent no longer matches the payment''))) (\<lambda>_.
     bind_tx (find_or_throw_tx ''agent_accounts'' w_accounts (\<lambda>x. acc_id x = ad_accountId input)) (\<lambda>account.
     bind_tx (throw_if_tx (acc_status account \<noteq> AA_ACTIVE)
       (DomainErr (InvalidStateError ''Agent account is not active''))) (\<lambda>_.
     bind_tx (gets_tx (held_against (ad_accountId input) p)) (\<lambda>reserved.
     throw_if_tx (pay_amountAtomic p > (case ad_settledAtomic input of None \<Rightarrow> 0 | Some n \<Rightarrow> n) - reserved)
       insufficientFunds))))))"

definition approved_reservation :: "string \<Rightarrow> ApprovalDecision \<Rightarrow> payment_row \<Rightarrow> int \<Rightarrow> reservation_row" where
  "approved_reservation i input p now =
     \<lparr>res_id = i, res_paymentId = pay_id p, res_ownerAccountId = ad_accountId input,
      res_amountAtomic = pay_amountAtomic p, res_currency = pay_currency p, res_status = RES_ACTIVE,
      res_lifecycleState = ''HELD'', res_releaseReason = None, res_consumedAt = None, res_rowVersion = 1,
      res_createdAt = now, res_releasedAt = None\<rparr>"

definition hold_approved :: "ApprovalDecision \<Rightarrow> payment_row \<Rightarrow> reservation_row tx" where
  "hold_approved input p =
     bind_tx (createId ''resv'') (\<lambda>i.
     bind_tx new_date (\<lambda>now.
     insert_tx ''outgoing_reservations'' w_reservations w_reservations_update reservation_conflict
       (approved_reservation i input p now)))"

definition approved_attempt :: "string \<Rightarrow> payment_row \<Rightarrow> int \<Rightarrow> attempt_row" where
  "approved_attempt i p now = new_attempt_row i (pay_id p) 1
     (case pay_route p of None \<Rightarrow> ''UNSELECTED'' | Some r \<Rightarrow> r) (pay_routeId p) now"

definition start_approved_attempt :: "payment_row \<Rightarrow> attempt_row tx" where
  "start_approved_attempt p =
     bind_tx (createId ''attempt'') (\<lambda>i.
     bind_tx new_date (\<lambda>now.
     insert_tx ''payment_attempts'' w_attempts w_attempts_update attempt_conflict (approved_attempt i p now)))"

definition approval_event ::
    "ApprovalDecision \<Rightarrow> payment_row \<Rightarrow> string \<Rightarrow> string \<Rightarrow> string \<Rightarrow> int \<Rightarrow> (string \<times> json) list \<Rightarrow> unit tx" where
  "approval_event input p resourceType resourceId eventType occurredAt newState =
     control_event (Some (ad_accountId input)) resourceType resourceId eventType ''OPERATOR'' (Some (ad_actorId input))
       (pay_correlationId p) ''V2_APPROVAL_ADMIN'' (Some occurredAt) None (Some newState)"

definition approved_work :: "string \<Rightarrow> payment_row \<Rightarrow> int \<Rightarrow> work_row" where
  "approved_work i p now = new_work_row i ''OUTGOING_PAYMENT'' ''PAYMENT'' (pay_id p)
     (stringify (JObj [(''payment_id'', JStr (pay_id p))])) now"

definition queue_approved :: "payment_row \<Rightarrow> unit tx" where
  "queue_approved p =
     bind_tx (createId ''work'') (\<lambda>i.
     bind_tx new_date (\<lambda>now.
     bind_tx (insert_tx ''durable_work_items'' w_works w_works_update work_conflict (approved_work i p now)) (\<lambda>_.
     return_tx ())))"

definition route_payment_data :: "int \<Rightarrow> payment_row \<Rightarrow> payment_row" where
  "route_payment_data now p =
     p\<lparr>pay_status := PS_ROUTING, pay_executionState := ''QUEUED'', pay_rowVersion := pay_rowVersion p + 1,
       pay_updatedAt := now\<rparr>"

definition refuse_payment_data :: "string \<Rightarrow> int \<Rightarrow> payment_row \<Rightarrow> payment_row" where
  "refuse_payment_data nextStatus now p =
     p\<lparr>pay_status := (if nextStatus = ''EXPIRED'' then PS_EXPIRED else PS_REJECTED),
       pay_executionState := ''TERMINAL'', pay_outcomeState := ''PROVED_NO_EFFECT'',
       pay_settlementState := ''NOT_SUBMITTED'', pay_rowVersion := pay_rowVersion p + 1, pay_updatedAt := now\<rparr>"

definition update_payment :: "payment_row \<Rightarrow> (int \<Rightarrow> payment_row \<Rightarrow> payment_row) \<Rightarrow> unit tx" where
  "update_payment p data =
     bind_tx new_date (\<lambda>now.
     bind_tx (update_one_tx ''payments'' w_payments w_payments_update (\<lambda>q. pay_id q = pay_id p) (data now)) (\<lambda>_.
     return_tx ()))"

definition approval_events :: "ApprovalDecision \<Rightarrow> payment_row \<Rightarrow> reservation_row \<Rightarrow> attempt_row \<Rightarrow> unit tx" where
  "approval_events input p reservation attempt =
     bind_tx (approval_event input p ''RESERVATION'' (res_id reservation) ''RESERVATION_HELD'' (res_createdAt reservation)
        [(''payment_id'', JStr (pay_id p)), (''amount_atomic'', JStr (int_to_string (res_amountAtomic reservation))),
         (''currency'', JStr (res_currency reservation)), (''lifecycle_state'', JStr (res_lifecycleState reservation))]) (\<lambda>_.
     bind_tx (case pay_routeId p of
         None \<Rightarrow> return_tx ()
       | Some r \<Rightarrow> approval_event input p ''SETTLEMENT_ROUTE'' r ''ROUTE_SELECTED'' (pay_updatedAt p)
           [(''payment_id'', JStr (pay_id p)), (''route_id'', JStr r), (''rail'', json_opt (pay_route p)),
            (''selection_reason'', json_opt (pay_routeSelectionReason p))]) (\<lambda>_.
     approval_event input p ''PAYMENT_ATTEMPT'' (att_id attempt) ''ATTEMPT_CREATED'' (att_createdAt attempt)
       [(''payment_id'', JStr (pay_id p)), (''attempt_number'', json_int (att_attemptNumber attempt)),
        (''route_id'', json_opt (att_routeId attempt)), (''outcome'', JStr (att_outcome attempt))]))"

definition start_approved :: "ApprovalDecision \<Rightarrow> payment_row \<Rightarrow> unit tx" where
  "start_approved input p =
     bind_tx (hold_approved input p) (\<lambda>reservation.
     bind_tx (start_approved_attempt p) (\<lambda>attempt.
     bind_tx (approval_events input p reservation attempt) (\<lambda>_.
     bind_tx (queue_approved p) (\<lambda>_.
     update_payment p route_payment_data))))"

definition decide_approval_data :: "ApprovalDecision \<Rightarrow> int \<Rightarrow> approval_row \<Rightarrow> approval_row" where
  "decide_approval_data input now a =
     a\<lparr>apv_status := approval_next_status (ad_action input), apv_actorId := Some (ad_actorId input),
       apv_comment := ad_comment input, apv_decidedAt := Some now, apv_rowVersion := apv_rowVersion a + 1\<rparr>"

definition announce_decision :: "ApprovalDecision \<Rightarrow> approval_row \<Rightarrow> approval_row \<Rightarrow> payment_row \<Rightarrow> int \<Rightarrow> unit tx" where
  "announce_decision input a updated p now =
     bind_tx (control_event (Some (ad_accountId input)) ''APPROVAL'' (apv_id a) (''APPROVAL_'' @ action_name (ad_action input))
        ''OPERATOR'' (Some (ad_actorId input)) None ''V2_APPROVAL_ADMIN'' (Some now) None
        (Some [(''status'', JStr (approval_next_status (ad_action input))), (''payment_id'', JStr (pay_id p))])) (\<lambda>_.
     bind_tx (find_or_throw_tx ''payments'' w_payments (\<lambda>q. pay_id q = pay_id p)) (\<lambda>updatedPayment.
     bind_tx (admin_webhook (ad_accountId input) ''APPROVAL'' (apv_id updated) (apv_rowVersion updated) ''approval.updated''
        [(''id'', JStr (apv_id updated)), (''payment_id'', JStr (apv_paymentId updated)),
         (''account_id'', JStr (apv_accountId updated)), (''status'', JStr (apv_status updated)),
         (''actor_id'', json_opt (apv_actorId updated))]) (\<lambda>_.
     admin_webhook (pay_payerAccountId updatedPayment) ''PAYMENT'' (pay_id updatedPayment) (pay_rowVersion updatedPayment)
       ''payment.updated''
       [(''id'', JStr (pay_id updatedPayment)), (''status'', JStr (payment_status_name (pay_status updatedPayment))),
        (''amount_atomic'', JStr (int_to_string (pay_amountAtomic updatedPayment))),
        (''denomination_id'', json_opt (pay_denominationId updatedPayment))])))"

definition apply_decision :: "ApprovalDecision \<Rightarrow> approval_row \<Rightarrow> payment_row \<Rightarrow> int \<Rightarrow> unit tx" where
  "apply_decision input a p now =
     (if ad_action input = APPROVE
      then bind_tx (check_approvable input a p now) (\<lambda>_. start_approved input p)
      else update_payment p (refuse_payment_data (approval_next_status (ad_action input))))"

definition decideApproval :: "ApprovalDecision \<Rightarrow> approval_row tx" where
  "decideApproval input =
     bind_tx (lockAgentAccount (ad_accountId input)) (\<lambda>_.
     bind_tx (find_pending_approval input) (\<lambda>a.
     bind_tx (now_or_clock (ad_now input)) (\<lambda>now.
     bind_tx (find_approval_payment input a) (\<lambda>p.
     bind_tx (apply_decision input a p now) (\<lambda>_.
     bind_tx (update_one_tx ''approvals'' w_approvals w_approvals_update (\<lambda>q. apv_id q = apv_id a)
        (decide_approval_data input now)) (\<lambda>updated.
     bind_tx (announce_decision input a updated p now) (\<lambda>_.
     return_tx updated)))))))"

section \<open>What a decision writes\<close>

lemma lockAgentAccount_Inr: "lockAgentAccount i w = Inr (u, w') \<Longrightarrow> w' = w"
  by (auto simp: lockAgentAccount_def tx_simps)

lemma find_pending_approval_Inr:
  assumes "find_pending_approval input w = Inr (a, w')"
  shows "w' = w" "a \<in> set (w_approvals w)" "apv_id a = ad_approvalId input" "apv_accountId a = ad_accountId input"
    "apv_rowVersion a = ad_rowVersion input" "apv_status a = ''PENDING''"
proof -
  obtain f where "List.find (\<lambda>a. apv_id a = ad_approvalId input \<and> apv_accountId a = ad_accountId input) (w_approvals w) = f"
    by blast
  then show "w' = w" "a \<in> set (w_approvals w)" "apv_id a = ad_approvalId input" "apv_accountId a = ad_accountId input"
    "apv_rowVersion a = ad_rowVersion input" "apv_status a = ''PENDING''"
    using assms find_SomeD by (cases f; fastforce simp: find_pending_approval_def tx_simps)+
qed

lemma find_approval_payment_Inr:
  assumes "find_approval_payment input a w = Inr (p, w')"
  shows "w' = w" "p \<in> set (w_payments w)" "pay_id p = apv_paymentId a" "pay_payerAccountId p = ad_accountId input"
proof -
  obtain f where "List.find (\<lambda>p. pay_id p = apv_paymentId a \<and> pay_payerAccountId p = ad_accountId input) (w_payments w) = f"
    by blast
  then show "w' = w" "p \<in> set (w_payments w)" "pay_id p = apv_paymentId a" "pay_payerAccountId p = ad_accountId input"
    using assms find_SomeD by (cases f; fastforce simp: find_approval_payment_def tx_simps)+
qed

lemma check_approvable_Inr:
  assumes "check_approvable input a p now w = Inr (u, w')"
  shows "w' = w" "now < apv_expiresAt a" "pay_status p = PS_AWAITING_APPROVAL"
    "pay_intentFingerprint p = Some (apv_fingerprint a)"
    "pay_amountAtomic p + held_against (ad_accountId input) p w \<le> (case ad_settledAtomic input of None \<Rightarrow> 0 | Some n \<Rightarrow> n)"
    "\<exists>acc. List.find (\<lambda>x. acc_id x = ad_accountId input) (w_accounts w) = Some acc \<and> acc_status acc = AA_ACTIVE"
  using assms by (auto simp: check_approvable_def tx_simps)

lemma outputs_preserve [frame_intros]:
  "outputs_frame g \<Longrightarrow> preserves g (admin_webhook a rt ri rv et r)"
  "outputs_frame g \<Longrightarrow> preserves g (approval_event i p rt ri et t s)"
  "(\<And>w t. g (w\<lparr>w_draws := t\<rparr>) = g w) \<Longrightarrow> preserves g (createId prefix)"
  unfolding admin_webhook_def approval_event_def createId_def by (intro frame_intros; simp)+

lemma approval_outputs_preserve [frame_intros]:
  "outputs_frame g \<Longrightarrow> preserves g (approval_events i p r a)"
  "outputs_frame g \<Longrightarrow> preserves g (announce_decision i b up p t)"
  unfolding approval_events_def announce_decision_def by (intro frame_intros; simp)+

lemma update_payment_Inr:
  assumes "update_payment p data w = Inr (u, w')"
  shows "\<exists>t. w_payments w' = update_rows (\<lambda>q. pay_id q = pay_id p) (data t) (w_payments w)"
    "w_attempts w' = w_attempts w" "w_reservations w' = w_reservations w" "w_works w' = w_works w"
    "w_approvals w' = w_approvals w"
  using assms by (auto simp: update_payment_def tx_simps)

lemma hold_approved_Inr:
  assumes "hold_approved input p w = Inr (r, w')"
  shows "\<exists>i t. r = approved_reservation i input p t" "w_reservations w' = w_reservations w @ [r]"
    "\<not> list_ex (reservation_conflict r) (w_reservations w)"
    "w_payments w' = w_payments w" "w_attempts w' = w_attempts w" "w_works w' = w_works w" "w_approvals w' = w_approvals w"
  using assms by (auto simp: hold_approved_def createId_def tx_simps)

lemma start_approved_attempt_Inr:
  assumes "start_approved_attempt p w = Inr (r, w')"
  shows "\<exists>i t. r = approved_attempt i p t" "w_attempts w' = w_attempts w @ [r]"
    "\<not> list_ex (attempt_conflict r) (w_attempts w)"
    "w_payments w' = w_payments w" "w_reservations w' = w_reservations w" "w_works w' = w_works w" "w_approvals w' = w_approvals w"
  using assms by (auto simp: start_approved_attempt_def createId_def tx_simps)

lemma queue_approved_Inr:
  assumes "queue_approved p w = Inr (u, w')"
  shows "\<exists>wk. w_works w' = w_works w @ [wk] \<and> \<not> list_ex (work_conflict wk) (w_works w) \<and> (\<exists>i t. wk = approved_work i p t)"
    "w_payments w' = w_payments w" "w_reservations w' = w_reservations w" "w_attempts w' = w_attempts w" "w_approvals w' = w_approvals w"
  using assms by (auto simp: queue_approved_def createId_def tx_simps) blast

lemma start_approved_Inr:
  assumes "start_approved input p w = Inr (u, w')"
  obtains r a wk t i j k t1 t2 t3 where "r = approved_reservation i input p t1" "a = approved_attempt j p t2"
    "wk = approved_work k p t3"
    "w_reservations w' = w_reservations w @ [r]" "\<not> list_ex (reservation_conflict r) (w_reservations w)"
    "w_attempts w' = w_attempts w @ [a]" "\<not> list_ex (attempt_conflict a) (w_attempts w)"
    "w_works w' = w_works w @ [wk]" "\<not> list_ex (work_conflict wk) (w_works w)"
    "w_payments w' = update_rows (\<lambda>q. pay_id q = pay_id p) (route_payment_data t) (w_payments w)"
    "w_approvals w' = w_approvals w"
proof -
  obtain r w1 a w2 w3 w4 where h: "hold_approved input p w = Inr (r, w1)" and s: "start_approved_attempt p w1 = Inr (a, w2)"
    and e: "approval_events input p r a w2 = Inr ((), w3)" and q: "queue_approved p w3 = Inr ((), w4)"
    and up: "update_payment p route_payment_data w4 = Inr (u, w')"
    using assms unfolding start_approved_def bind_tx_Inr_iff by auto
  note E = preservesD [OF approval_outputs_preserve(1) [OF ledger_outputs(1)] e]
    preservesD [OF approval_outputs_preserve(1) [OF ledger_outputs(2)] e]
    preservesD [OF approval_outputs_preserve(1) [OF ledger_outputs(3)] e]
    preservesD [OF approval_outputs_preserve(1) [OF ledger_outputs(4)] e]
    preservesD [OF approval_outputs_preserve(1) [OF ledger_outputs(7)] e]
  note H = hold_approved_Inr [OF h] and S = start_approved_attempt_Inr [OF s] and Q = queue_approved_Inr [OF q]
    and U = update_payment_Inr [OF up]
  obtain i t1 j t2 k t3 t where o: "r = approved_reservation i input p t1" "a = approved_attempt j p t2"
    "w_works w4 = w_works w3 @ [approved_work k p t3]" "\<not> list_ex (work_conflict (approved_work k p t3)) (w_works w3)"
    "w_payments w' = update_rows (\<lambda>q. pay_id q = pay_id p) (route_payment_data t) (w_payments w4)"
    using H(1) S(1) Q(1) U(1) by blast
  show thesis
    by (rule that [of r i t1 a j t2 "approved_work k p t3" k t3 t]) (use o(3-5) H(2-) S(2-) Q(2-) U(2-) E in \<open>simp_all add: o(1,2)\<close>)
qed

lemma decideApproval_cases:
  assumes "decideApproval input w = Inr (v, w')"
  obtains a p w0 now w1 u where "a \<in> set (w_approvals w)" "apv_id a = ad_approvalId input" "apv_accountId a = ad_accountId input"
    "apv_rowVersion a = ad_rowVersion input" "apv_status a = ''PENDING''"
    "p \<in> set (w_payments w)" "pay_id p = apv_paymentId a" "pay_payerAccountId p = ad_accountId input"
    "\<exists>k. w0 = w\<lparr>w_ticks := k\<rparr>" "apply_decision input a p now w0 = Inr (u, w1)"
    "same_ledger w1 w'" "w_approvals w' = update_rows (\<lambda>q. apv_id q = apv_id a) (decide_approval_data input now) (w_approvals w1)"
    "\<forall>t. ad_now input = Some t \<longrightarrow> now = t"
proof -
  obtain w1 a w2 now w3 p w4 u1 w5 up w6 where l: "lockAgentAccount (ad_accountId input) w = Inr ((), w1)"
    and f: "find_pending_approval input w1 = Inr (a, w2)" and n: "now_or_clock (ad_now input) w2 = Inr (now, w3)"
    and p: "find_approval_payment input a w3 = Inr (p, w4)" and ap: "apply_decision input a p now w4 = Inr (u1, w5)"
    and up: "update_one_tx ''approvals'' w_approvals w_approvals_update (\<lambda>q. apv_id q = apv_id a)
        (decide_approval_data input now) w5 = Inr (up, w6)"
    and an: "announce_decision input a up p now w6 = Inr ((), w')"
    using assms unfolding decideApproval_def bind_tx_Inr_iff by (auto simp: return_tx_apply)
  note F = find_pending_approval_Inr [OF f] and P = find_approval_payment_Inr [OF p]
  obtain k where k: "w3 = w2\<lparr>w_ticks := k\<rparr>" using now_or_clock_world [OF n] by blast
  note A = preservesD [OF approval_outputs_preserve(2) [OF ledger_outputs(1)] an]
    preservesD [OF approval_outputs_preserve(2) [OF ledger_outputs(2)] an]
    preservesD [OF approval_outputs_preserve(2) [OF ledger_outputs(3)] an]
    preservesD [OF approval_outputs_preserve(2) [OF ledger_outputs(4)] an]
    preservesD [OF approval_outputs_preserve(2) [OF ledger_outputs(7)] an]
  have w: "w1 = w" "w2 = w" "w4 = w\<lparr>w_ticks := k\<rparr>"
    using lockAgentAccount_Inr [OF l] F(1) P(1) k by simp_all
  have tt: "\<forall>t. ad_now input = Some t \<longrightarrow> now = t" using n by (auto simp: now_or_clock_def tx_simps)
  have U: "w_approvals w6 = update_rows (\<lambda>q. apv_id q = apv_id a) (decide_approval_data input now) (w_approvals w5)"
    "w_payments w6 = w_payments w5" "w_attempts w6 = w_attempts w5" "w_reservations w6 = w_reservations w5"
    "w_works w6 = w_works w5"
    using up by (auto simp: tx_simps)
  show thesis
  proof (rule that [of a p w4 now u1 w5])
    show "apply_decision input a p now w4 = Inr (u1, w5)" by (rule ap)
    show "same_ledger w5 w'" "w_approvals w' = update_rows (\<lambda>q. apv_id q = apv_id a) (decide_approval_data input now) (w_approvals w5)"
      using A U by (simp_all add: same_ledger_def)
    show "\<exists>k. w4 = w\<lparr>w_ticks := k\<rparr>" using w by blast
  qed (use F(2-) P(2-) tt in \<open>simp_all add: w k\<close>)
qed

end
