(* ===== verification/Payment_System.thy ===== *)
theory Payment_System
  imports Approvals
begin

text \<open>
  The repositories as a state machine. A step is one successful transaction on the ledger tables: those of
  \<^verbatim>\<open>packages/db/src/v2.ts\<close>, the decision of an approval (\<^verbatim>\<open>v2-admin.ts\<close>) and the settling of an
  exception by an operator (\<^verbatim>\<open>v2-operations.ts\<close>). A world is reachable when a sequence of such
  steps leads to it from a world whose ledger is empty, in any order and with any arguments. Tables
  outside the ledger may change at any time. The one restriction is on \<open>updateAttemptOutcome\<close>, which
  writes the outcome its caller names without checking the progression table: a step does not take
  an outcome without effect back, unless the attempt is the last one of its payment. The invariants
  hold in every reachable world. \<open>service_step\<close> has every transaction the services use; nothing calls
  \<open>createReplacementAttempt\<close>, which \<open>repo_step\<close> adds.
\<close>

section \<open>Steps\<close>

definition last_attempt :: "string \<Rightarrow> world \<Rightarrow> bool" where
  "last_attempt aid w \<longleftrightarrow> (\<forall>a \<in> set (w_attempts w). \<forall>b \<in> set (w_attempts w).
     att_id a = aid \<longrightarrow> att_paymentId b = att_paymentId a \<longrightarrow> att_attemptNumber b \<le> att_attemptNumber a)"

definition permitted :: "AttemptOutcomeUpdate \<Rightarrow> world \<Rightarrow> bool" where
  "permitted input w \<longleftrightarrow> (no_effect_name (ao_currentOutcome input) \<longrightarrow>
     no_effect_name (ao_nextOutcome input) \<or> last_attempt (ao_attemptId input) w)"

inductive service_step :: "world \<Rightarrow> world \<Rightarrow> bool" where
  st_create: "createV2Payment i w = Inr (r, w') \<Longrightarrow> service_step w w'"
| st_outcome: "updateAttemptOutcome u w = Inr (s, w') \<Longrightarrow> permitted u w \<Longrightarrow> service_step w w'"
| st_execution: "commit_execution e p s w = Inr (r, w') \<Longrightarrow> service_step w w'"
| st_abort: "abortPreEffectPayment b w = Inr (v, w') \<Longrightarrow> service_step w w'"
| st_finalize: "finalizeV2Payment f w = Inr (v, w') \<Longrightarrow> service_step w w'"
| st_claim: "claimWorkItem k w = Inr (o', w') \<Longrightarrow> service_step w w'"
| st_complete: "completeWorkItem x y w = Inr (z, w') \<Longrightarrow> service_step w w'"
| st_renew: "renewWorkItemLease n w = Inr (t, w') \<Longrightarrow> service_step w w'"
| st_retry: "retryWorkItem q w = Inr (z, w') \<Longrightarrow> service_step w w'"
| st_defer: "deferWorkItem q w = Inr (z, w') \<Longrightarrow> service_step w w'"
| st_fail: "failWorkItem x y a m w = Inr (z, w') \<Longrightarrow> service_step w w'"
| st_decide: "decideApproval d w = Inr (g, w') \<Longrightarrow> service_step w w'"
| st_resolve: "resolveExceptionWithEvidence h out w = Inr (j, w') \<Longrightarrow> service_step w w'"
| st_close: "closeUnresolvedException h w = Inr (j, w') \<Longrightarrow> service_step w w'"
| st_other_tables: "ledger w' = ledger w \<Longrightarrow> service_step w w'"

inductive repo_step :: "world \<Rightarrow> world \<Rightarrow> bool" where
  st_service: "service_step w w' \<Longrightarrow> repo_step w w'"
| st_replace: "createReplacementAttempt c w = Inr (s, w') \<Longrightarrow> repo_step w w'"

definition empty_ledger :: "world \<Rightarrow> bool" where
  "empty_ledger w \<longleftrightarrow> w_payments w = [] \<and> w_attempts w = [] \<and> w_reservations w = [] \<and> w_works w = []"

inductive reachable :: "world \<Rightarrow> bool" where
  r_start: "empty_ledger w \<Longrightarrow> reachable w"
| r_step: "reachable w \<Longrightarrow> repo_step w w' \<Longrightarrow> reachable w'"

section \<open>The attempts of a payment\<close>

definition attempts_of :: "string \<Rightarrow> attempt_row list \<Rightarrow> attempt_row list" where
  "attempts_of pid rows = filter (\<lambda>a. att_paymentId a = pid) rows"

text \<open>The attempts of a payment are numbered from one without gaps, and every attempt before the
  last one certainly had no effect.\<close>

definition sequence_ok :: "attempt_row list \<Rightarrow> bool" where
  "sequence_ok rows \<longleftrightarrow> (\<forall>pid.
     set (map att_attemptNumber (attempts_of pid rows)) = {1..int (length (attempts_of pid rows))} \<and>
     (\<forall>a \<in> set (attempts_of pid rows). \<forall>b \<in> set (attempts_of pid rows).
        att_attemptNumber a < att_attemptNumber b \<longrightarrow> no_effect_name (att_outcome a)))"

lemma attempts_of_append [simp]: "attempts_of pid (xs @ ys) = attempts_of pid xs @ attempts_of pid ys"
  by (simp add: attempts_of_def)

lemma attempts_of_update:
  "(\<And>a. P a \<Longrightarrow> att_paymentId (f a) = att_paymentId a) \<Longrightarrow>
   attempts_of pid (update_rows P f rows) = update_rows P f (attempts_of pid rows)"
  by (induction rows) (auto simp: attempts_of_def update_rows_def)

lemma sequence_ok_update:
  assumes "sequence_ok rows"
    and "\<And>a. P a \<Longrightarrow> att_paymentId (f a) = att_paymentId a"
    and "\<And>a. P a \<Longrightarrow> att_attemptNumber (f a) = att_attemptNumber a"
    and "\<And>a b. a \<in> set rows \<Longrightarrow> P a \<Longrightarrow> no_effect_name (att_outcome a) \<Longrightarrow> b \<in> set rows \<Longrightarrow>
      att_paymentId b = att_paymentId a \<Longrightarrow> att_attemptNumber a < att_attemptNumber b \<Longrightarrow> no_effect_name (att_outcome (f a))"
  shows "sequence_ok (update_rows P f rows)"
  unfolding sequence_ok_def
proof (intro allI conjI ballI impI)
  fix pid
  let ?as = "attempts_of pid rows"
  have S: "set (map att_attemptNumber ?as) = {1..int (length ?as)}"
    "\<And>a b. a \<in> set ?as \<Longrightarrow> b \<in> set ?as \<Longrightarrow> att_attemptNumber a < att_attemptNumber b \<Longrightarrow> no_effect_name (att_outcome a)"
    using assms(1) unfolding sequence_ok_def by blast+
  have up: "attempts_of pid (update_rows P f rows) = update_rows P f ?as"
    by (rule attempts_of_update [OF assms(2)])
  have nums: "map att_attemptNumber (update_rows P f ?as) = map att_attemptNumber ?as"
    by (rule map_update_rows) (rule assms(3))
  show "set (map att_attemptNumber (attempts_of pid (update_rows P f rows))) =
      {1..int (length (attempts_of pid (update_rows P f rows)))}"
    using S(1) unfolding up nums by simp
  fix a b
  assume "a \<in> set (attempts_of pid (update_rows P f rows))" "b \<in> set (attempts_of pid (update_rows P f rows))"
    and lt: "att_attemptNumber a < att_attemptNumber b"
  then obtain a' b' where o: "a' \<in> set ?as" "a = (if P a' then f a' else a')" "b' \<in> set ?as" "b = (if P b' then f b' else b')"
    unfolding up set_update_rows by blast
  have lt': "att_attemptNumber a' < att_attemptNumber b'"
    using lt o assms(3) by (auto split: if_splits)
  then have "no_effect_name (att_outcome a')" using S(2) o by blast
  moreover have "a' \<in> set rows" "b' \<in> set rows" "att_paymentId b' = att_paymentId a'"
    using o(1,3) by (simp_all add: attempts_of_def)
  ultimately show "no_effect_name (att_outcome a)" using o(2) assms(4) [OF _ _ _ _ _ lt'] by auto
qed

lemma sequence_ok_append:
  assumes "sequence_ok rows" "att_attemptNumber n = int (length (attempts_of (att_paymentId n) rows)) + 1"
    and "\<And>a. a \<in> set rows \<Longrightarrow> att_paymentId a = att_paymentId n \<Longrightarrow> no_effect_name (att_outcome a)"
  shows "sequence_ok (rows @ [n])"
  unfolding sequence_ok_def
proof (intro allI conjI ballI impI)
  fix pid
  let ?as = "attempts_of pid rows"
  have S: "att_attemptNumber ` set ?as = {1..int (length ?as)}"
    "\<And>a b. a \<in> set ?as \<Longrightarrow> b \<in> set ?as \<Longrightarrow> att_attemptNumber a < att_attemptNumber b \<Longrightarrow> no_effect_name (att_outcome a)"
    using assms(1) unfolding sequence_ok_def set_map by blast+
  show "set (map att_attemptNumber (attempts_of pid (rows @ [n]))) =
      {1..int (length (attempts_of pid (rows @ [n])))}"
  proof (cases "att_paymentId n = pid")
    case True
    then have "attempts_of pid [n] = [n]" by (simp add: attempts_of_def)
    then show ?thesis using S(1) assms(2) True by auto
  next
    case False
    then have "attempts_of pid [n] = []" by (simp add: attempts_of_def)
    then show ?thesis using S(1) by simp
  qed
  fix a b
  assume a: "a \<in> set (attempts_of pid (rows @ [n]))" and b: "b \<in> set (attempts_of pid (rows @ [n]))"
    and lt: "att_attemptNumber a < att_attemptNumber b"
  show "no_effect_name (att_outcome a)"
  proof (cases "a \<in> set ?as")
    case True
    show ?thesis
    proof (cases "b \<in> set ?as")
      case True
      then show ?thesis using S(2) \<open>a \<in> set ?as\<close> lt by blast
    next
      case False
      with b have "b = n" "att_paymentId n = pid" by (auto simp: attempts_of_def split: if_splits)
      then show ?thesis using True assms(3) by (auto simp: attempts_of_def)
    qed
  next
    case False
    with a have n: "a = n" "att_paymentId n = pid" by (auto simp: attempts_of_def split: if_splits)
    have "b \<in> set ?as"
      using b lt n by (auto simp: attempts_of_def split: if_splits)
    then have "att_attemptNumber b \<le> int (length ?as)" using S(1) by auto
    then show ?thesis using lt assms(2) n by simp
  qed
qed

lemma sequence_numbers_inj:
  assumes "sequence_ok rows" "a \<in> set rows" "b \<in> set rows" "att_paymentId a = att_paymentId b"
    "att_attemptNumber a = att_attemptNumber b"
  shows "a = b"
proof -
  let ?as = "attempts_of (att_paymentId a) rows"
  have "card (set (map att_attemptNumber ?as)) = length (map att_attemptNumber ?as)"
    using assms(1) by (simp add: sequence_ok_def)
  then have "inj_on att_attemptNumber (set ?as)"
    using card_distinct distinct_map by blast
  then show ?thesis
    using assms by (auto simp: attempts_of_def inj_on_def)
qed

text \<open>Two attempts of one payment that may both have had an effect are the same attempt.\<close>

lemma sequence_single_effect:
  assumes "sequence_ok rows" "a \<in> set rows" "b \<in> set rows" "att_paymentId a = att_paymentId b"
    "\<not> no_effect_name (att_outcome a)" "\<not> no_effect_name (att_outcome b)"
  shows "a = b"
proof (rule sequence_numbers_inj [OF assms(1-4)])
  have "a \<in> set (attempts_of (att_paymentId a) rows)" "b \<in> set (attempts_of (att_paymentId a) rows)"
    using assms by (auto simp: attempts_of_def)
  then have "\<not> att_attemptNumber a < att_attemptNumber b" "\<not> att_attemptNumber b < att_attemptNumber a"
    using assms(1,5,6) unfolding sequence_ok_def by blast+
  then show "att_attemptNumber a = att_attemptNumber b" by simp
qed

section \<open>The invariant of the ledger\<close>

definition reservation_ok :: "reservation_row \<Rightarrow> bool" where
  "reservation_ok r \<longleftrightarrow>
     res_lifecycleState r = ''HELD'' \<and> res_status r = RES_ACTIVE \<and> res_consumedAt r = None \<and> res_releasedAt r = None \<or>
     res_lifecycleState r = ''CONSUMED'' \<and> res_status r = RES_ACTIVE \<and> res_consumedAt r \<noteq> None \<and> res_releasedAt r = None \<or>
     res_lifecycleState r = ''RELEASED'' \<and> res_status r = RES_RELEASED \<and> res_consumedAt r = None \<and> res_releasedAt r \<noteq> None"

definition reservations_ok :: "reservation_row list \<Rightarrow> bool" where
  "reservations_ok rows \<longleftrightarrow> distinct (map res_paymentId rows) \<and> (\<forall>r \<in> set rows. reservation_ok r)"

definition attempts_ok :: "payment_row list \<Rightarrow> attempt_row list \<Rightarrow> bool" where
  "attempts_ok payments rows \<longleftrightarrow> distinct (map att_id rows) \<and> sequence_ok rows \<and>
     att_paymentId ` set rows \<subseteq> pay_id ` set payments"

definition system_ok :: "world \<Rightarrow> bool" where
  "system_ok w \<longleftrightarrow> distinct (map pay_id (w_payments w)) \<and> attempts_ok (w_payments w) (w_attempts w) \<and>
     reservations_ok (w_reservations w) \<and> works_ok w"

lemma system_okD:
  assumes "system_ok w"
  shows "distinct (map pay_id (w_payments w))" "attempts_ok (w_payments w) (w_attempts w)"
    "reservations_ok (w_reservations w)" "works_ok w" "distinct (map att_id (w_attempts w))"
    "sequence_ok (w_attempts w)" "att_paymentId ` set (w_attempts w) \<subseteq> pay_id ` set (w_payments w)"
  using assms by (auto simp: system_ok_def attempts_ok_def)

text \<open>A step that adds no payment: the payments keep their identifiers.\<close>

lemma system_ok_step:
  assumes "system_ok w" "map pay_id (w_payments w') = map pay_id (w_payments w)"
    and "attempts_ok (w_payments w) (w_attempts w')" "reservations_ok (w_reservations w')" "works_ok w'"
  shows "system_ok w'"
proof -
  have "pay_id ` set (w_payments w') = pay_id ` set (w_payments w)"
    using arg_cong [OF assms(2), of set] by simp
  then show ?thesis
    using assms by (simp add: system_ok_def attempts_ok_def)
qed

lemma attempts_ok_update:
  assumes "attempts_ok ps rows"
    and "\<And>a. P a \<Longrightarrow> att_id (f a) = att_id a \<and> att_paymentId (f a) = att_paymentId a \<and> att_attemptNumber (f a) = att_attemptNumber a"
    and "\<And>a b. a \<in> set rows \<Longrightarrow> P a \<Longrightarrow> no_effect_name (att_outcome a) \<Longrightarrow> b \<in> set rows \<Longrightarrow>
      att_paymentId b = att_paymentId a \<Longrightarrow> att_attemptNumber a < att_attemptNumber b \<Longrightarrow> no_effect_name (att_outcome (f a))"
  shows "attempts_ok ps (update_rows P f rows)"
proof -
  have "map att_id (update_rows P f rows) = map att_id rows"
    "map att_paymentId (update_rows P f rows) = map att_paymentId rows"
    by (rule map_update_rows; simp add: assms(2))+
  moreover have "sequence_ok (update_rows P f rows)"
    using assms(1,2) by (intro sequence_ok_update) (auto simp: attempts_ok_def intro: assms(3))
  ultimately show ?thesis
    using assms(1) by (simp add: attempts_ok_def flip: set_map)
qed

lemma attempts_ok_append:
  assumes "attempts_ok ps rows" "\<not> list_ex (attempt_conflict n) rows" "att_paymentId n \<in> pay_id ` set ps"
    and "att_attemptNumber n = int (length (attempts_of (att_paymentId n) rows)) + 1"
    and "\<And>a. a \<in> set rows \<Longrightarrow> att_paymentId a = att_paymentId n \<Longrightarrow> no_effect_name (att_outcome a)"
  shows "attempts_ok ps (rows @ [n])"
proof -
  have "sequence_ok rows" "distinct (map att_id rows)" "att_paymentId ` set rows \<subseteq> pay_id ` set ps"
    using assms(1) by (simp_all add: attempts_ok_def)
  moreover have "att_id n \<notin> att_id ` set rows"
    using assms(2) by (auto simp: attempt_conflict_def list_ex_iff)
  moreover have "sequence_ok (rows @ [n])"
    by (rule sequence_ok_append [OF _ assms(4,5)]) (use assms(1) in \<open>simp_all add: attempts_ok_def\<close>)
  ultimately show ?thesis
    using assms(3) by (simp add: attempts_ok_def)
qed

lemma reservations_ok_update:
  assumes "reservations_ok rows" "\<And>r. P r \<Longrightarrow> res_paymentId (f r) = res_paymentId r"
    and "\<And>r. P r \<Longrightarrow> reservation_ok r \<Longrightarrow> reservation_ok (f r)"
  shows "reservations_ok (update_rows P f rows)"
proof -
  have "map res_paymentId (update_rows P f rows) = map res_paymentId rows"
    by (rule map_update_rows) (rule assms(2))
  then show ?thesis using assms by (auto simp: reservations_ok_def set_update_rows)
qed

lemma held_data_ok:
  assumes "held_of pid r" "reservation_ok r"
  shows "reservation_ok (release_data c t r)" "reservation_ok (consume_data t r)"
proof -
  have "res_consumedAt r = None" "res_releasedAt r = None"
    using assms by (simp_all add: held_of_def reservation_ok_def)
  then show "reservation_ok (release_data c t r)" "reservation_ok (consume_data t r)"
    by (simp_all add: reservation_ok_def release_data_def consume_data_def)
qed

lemma reservations_ok_held:
  "reservations_ok rows \<Longrightarrow> reservations_ok (update_rows (held_of pid) (release_data c t) rows)"
  "reservations_ok rows \<Longrightarrow> reservations_ok (update_rows (held_of pid) (consume_data t) rows)"
  by (erule reservations_ok_update; (erule held_data_ok; assumption)?; simp add: release_data_def consume_data_def)+

lemma progression_from_effect:
  "assert_progression_names c n = Inr () \<Longrightarrow> \<not> no_effect_name c"
  by (auto simp: assert_progression_names_def no_effect_name_def outcome_of_name_def result_simps
      split: if_splits option.splits)

lemma create_ok: "keeps system_ok (createV2Payment input)"
proof (rule tripleI)
  fix w r w' assume I: "system_ok w" and "createV2Payment input w = Inr (r, w')"
  from this(2) show "system_ok w'"
  proof (cases rule: createV2Payment_cases)
    case (replay e)
    then have "w' = w\<lparr>w_ticks := Suc (w_ticks w)\<rparr>" by (simp add: replay_payment_Inr(1))
    then show ?thesis using I by (simp add: system_ok_def works_ok_def)
  next
    case (create d)
    let ?p = "cr_payment r"
    obtain t where p: "?p = payment_row_of input t" and pays: "w_payments w' = w_payments w @ [?p]"
      and fresh: "ci_paymentId input \<notin> pay_id ` set (w_payments w)"
      using create(6) by (auto simp: written_def)
    have d: "distinct (map pay_id (w_payments w'))"
      using system_okD(1) [OF I] fresh by (auto simp: pays p)
    have A: "attempts_ok (w_payments w') (w_attempts w)"
      using system_okD(2) [OF I] by (auto simp: attempts_ok_def pays)
    show ?thesis
    proof (cases "vd_decision (ci_policyDecision input) = PD_ALLOW")
      case False
      then show ?thesis
        using create(6) d A I by (simp add: system_ok_def written_def works_ok_def)
    next
      case True
      then obtain t1 t2 t3 where W: "w_reservations w' = w_reservations w @ [reservation_row_of input ?p t1]"
        "w_attempts w' = w_attempts w @ [first_attempt input ?p t2]" "w_works w' = w_works w @ [payment_work input ?p t3]"
        "\<not> list_ex (reservation_conflict (reservation_row_of input ?p t1)) (w_reservations w)"
        "\<not> list_ex (attempt_conflict (first_attempt input ?p t2)) (w_attempts w)"
        "\<not> list_ex (work_conflict (payment_work input ?p t3)) (w_works w)"
        using create(6) unfolding written_def by auto
      have none: "att_paymentId a \<noteq> ci_paymentId input" if "a \<in> set (w_attempts w)" for a
        using that fresh system_okD(7) [OF I] by (metis imageI subsetD)
      let ?n = "first_attempt input ?p t2"
      have n: "att_paymentId ?n = ci_paymentId input" "att_attemptNumber ?n = 1"
        by (simp_all add: first_attempt_def new_attempt_row_def p)
      have "attempts_of (ci_paymentId input) (w_attempts w) = []"
        using none by (auto simp: attempts_of_def filter_empty_conv)
      then have "attempts_ok (w_payments w') (w_attempts w')"
        unfolding W(2) using none by (intro attempts_ok_append [OF A W(5)]; unfold n) (auto simp: pays p)
      moreover have "reservations_ok (w_reservations w')"
        using system_okD(3) [OF I] W(1,4)
        by (auto simp: reservations_ok_def reservation_ok_def reservation_conflict_def reservation_row_of_def list_ex_iff)
      moreover have "works_ok w'"
        using works_ok_insert [OF system_okD(4) [OF I]] W(3,6) by (simp add: payment_work_def)
      ultimately show ?thesis using d by (simp add: system_ok_def)
    qed
  qed
qed

lemma outcome_ok:
  assumes I: "system_ok w" and perm: "permitted input w" and run: "updateAttemptOutcome input w = Inr (r, w')"
  shows "system_ok w'"
proof -
  note U = updateAttemptOutcome_writes [OF run]
  obtain st t where A: "w_attempts w' = update_rows
        (\<lambda>a. att_id a = ao_attemptId input \<and> att_outcome a = ao_currentOutcome input \<and>
             att_rowVersion a = ao_currentRowVersion input) (attempt_outcome_data input st t) (w_attempts w)"
    using U(1) by blast
  have "attempts_ok (w_payments w) (w_attempts w')"
    unfolding A by (rule attempts_ok_update [OF system_okD(2) [OF I]])
      (use perm in \<open>fastforce simp: attempt_outcome_data_def permitted_def last_attempt_def\<close>)+
  then show ?thesis
    using I U(2-4) by (intro system_ok_step [OF I]) (auto simp: system_ok_def works_ok_def)
qed

lemma map_pay_id_update:
  "(\<And>q. pay_id (f q) = pay_id q) \<Longrightarrow> map pay_id (update_rows P f rows) = map pay_id rows"
  by (rule map_update_rows)

lemma payment_data_id [simp]:
  "pay_id (payment_execution_data e s t p) = pay_id p" "pay_id (abort_payment_data t p) = pay_id p"
  "pay_id (reroute_data t p) = pay_id p" "pay_id (finalize_payment_data f s t p) = pay_id p"
  by (simp_all add: payment_execution_data_def abort_payment_data_def reroute_data_def
      finalize_payment_data_def split: option.splits)

lemma project_execution_ledger: "preserves ledger (project_execution e)"
  unfolding project_execution_def by (intro frame_intros; simp)

lemma execution_ok: "keeps system_ok (commit_execution e p s)"
proof (rule tripleI)
  fix w r w' assume I: "system_ok w" and run: "commit_execution e p s w = Inr (r, w')"
  note W = commit_execution_writes [OF run]
  have "map pay_id (w_payments w') = map pay_id (w_payments w)"
    using W(1) map_pay_id_update [of "payment_execution_data e s t" for t] by fastforce
  then show "system_ok w'"
    using I W(2-4) by (intro system_ok_step [OF I]) (auto simp: system_ok_def works_ok_def)
qed

lemma abort_ok: "keeps system_ok (abortPreEffectPayment b)"
proof (rule tripleI)
  fix w v w' assume I: "system_ok w" and run: "abortPreEffectPayment b w = Inr (v, w')"
  from run show "system_ok w'"
  proof (cases rule: abortPreEffectPayment_writes)
    case (1 p a t2 t3)
    have "no_effect_name (att_outcome (abort_attempt_data t q))" "att_id (abort_attempt_data t q) = att_id q"
      "att_paymentId (abort_attempt_data t q) = att_paymentId q"
      "att_attemptNumber (abort_attempt_data t q) = att_attemptNumber q" for t q
      by (simp_all add: abort_attempt_data_def no_effect_name_def)
    then have "attempts_ok (w_payments w) (w_attempts w')"
      using 1(9) attempts_ok_update [OF system_okD(2) [OF I]] system_okD(2) [OF I] by auto
    then show ?thesis
      using 1(6-8) system_okD(3,4) [OF I]
      by (intro system_ok_step [OF I]) (auto simp: map_pay_id_update reservations_ok_held works_ok_def)
  qed
qed

lemma attempt_work_new: "attempt_work n p a t = new_work_row n ''OUTGOING_PAYMENT_ATTEMPT'' ''PAYMENT_ATTEMPT'' a
     (stringify (JObj ([(''payment_id'', JStr (pay_id p)), (''attempt_id'', JStr a)] @
         correlation_member (pay_correlationId p)))) t"
  by (simp add: attempt_work_def)

lemma new_attempt_row_sel [simp]: "att_paymentId (new_attempt_row i p n r o' t) = p"
  "att_attemptNumber (new_attempt_row i p n r o' t) = n" "att_id (new_attempt_row i p n r o' t) = i"
  "att_outcome (new_attempt_row i p n r o' t) = ''NOT_STARTED''"
  by (simp_all add: new_attempt_row_def)

lemma replace_ok: "keeps system_ok (createReplacementAttempt c)"
proof (rule tripleI)
  fix w v w' assume I: "system_ok w" and run: "createReplacementAttempt c w = Inr (v, w')"
  from run show "system_ok w'"
  proof (cases rule: createReplacementAttempt_writes)
    case (1 p t1 t2 t3)
    have pid: "ra_paymentId c \<in> pay_id ` set (w_payments w)"
      using 1(1,2) by (metis imageI)
    have "attempts_ok (w_payments w) (w_attempts w')"
      unfolding 1(5)
      by (rule attempts_ok_append [OF system_okD(2) [OF I] 1(6)])
        (use 1(4) pid in \<open>auto simp: attempts_of_def\<close>)
    moreover have "works_ok w'"
      using works_ok_insert [OF system_okD(4) [OF I]] 1(9,10) by (simp add: attempt_work_new)
    ultimately show ?thesis
      using 1(7,8) system_okD(3) [OF I] by (intro system_ok_step [OF I]) (auto simp: map_pay_id_update)
  qed
qed

text \<open>A replacement is numbered after the attempt it replaces; its number is free only when that
  attempt is the last one.\<close>

lemma replacement_attempts_ok:
  assumes ok: "attempts_ok ps rows" and a: "a \<in> set rows" "att_paymentId a = pid" "no_effect_name (att_outcome a)"
    and new: "n = new_attempt_row i pid (att_attemptNumber a + 1) r o' t" "\<not> list_ex (attempt_conflict n) rows"
    and pid: "pid \<in> pay_id ` set ps"
  shows "attempts_ok ps (rows @ [n])"
proof (rule attempts_ok_append [OF ok new(2)])
  let ?as = "attempts_of pid rows" and ?k = "att_attemptNumber a"
  have seq: "sequence_ok rows" using ok by (simp add: attempts_ok_def)
  have N: "att_attemptNumber ` set ?as = {1..int (length ?as)}"
    and E: "\<And>b c. b \<in> set ?as \<Longrightarrow> c \<in> set ?as \<Longrightarrow> att_attemptNumber b < att_attemptNumber c \<Longrightarrow>
      no_effect_name (att_outcome b)"
    using seq unfolding sequence_ok_def set_map by blast+
  have ain: "a \<in> set ?as" using a by (simp add: attempts_of_def)
  have "?k \<in> {1..int (length ?as)}" using N ain by blast
  moreover have "?k + 1 \<notin> {1..int (length ?as)}"
  proof
    assume "?k + 1 \<in> {1..int (length ?as)}"
    then obtain b where "b \<in> set ?as" "att_attemptNumber b = ?k + 1" using N by (metis imageE)
    then show False
      using new by (auto simp: attempts_of_def attempt_conflict_def list_ex_iff)
  qed
  ultimately have k: "?k = int (length ?as)" by auto
  then show "att_attemptNumber n = int (length (attempts_of (att_paymentId n) rows)) + 1"
    by (simp add: new(1))
  fix b assume b: "b \<in> set rows" "att_paymentId b = att_paymentId n"
  then have bin: "b \<in> set ?as" by (simp add: attempts_of_def new(1))
  then have "att_attemptNumber b \<le> ?k" using N k by auto
  then consider "att_attemptNumber b < ?k" | "att_attemptNumber b = ?k" by linarith
  then show "no_effect_name (att_outcome b)"
  proof cases
    case 1
    then show ?thesis using E [OF bin ain] by simp
  next
    case 2
    then have "b = a"
      using sequence_numbers_inj [OF seq b(1) a(1)] b(2) a(2) by (simp add: new(1))
    then show ?thesis using a(3) by simp
  qed
qed (simp add: new(1) pid)

lemma finalize_attempt_data_sel [simp]: "att_id (finalize_attempt_data f s t a) = att_id a"
  "att_paymentId (finalize_attempt_data f s t a) = att_paymentId a"
  "att_attemptNumber (finalize_attempt_data f s t a) = att_attemptNumber a"
  "att_outcome (finalize_attempt_data f s t a) = fi_nextOutcome f"
  by (simp_all add: finalize_attempt_data_def)

lemma finalize_ok: "keeps system_ok (finalizeV2Payment f)"
proof (rule tripleI)
  fix w v w' assume I: "system_ok w" and run: "finalizeV2Payment f w = Inr (v, w')"
  from run show "system_ok w'"
  proof (cases rule: finalizeV2Payment_writes)
    case (1 p a st s t1 t2 t3 t4 t5)
    note C = finalize_check_Inr [OF 1(1)]
    let ?rows = "update_rows (\<lambda>q. att_id q = fi_attemptId f) (finalize_attempt_data f s t1) (w_attempts w)"
    have same: "q = a" if "q \<in> set (w_attempts w)" "att_id q = fi_attemptId f" for q
      using attempts.same_key [OF system_okD(5) [OF I] that(1) C(4)] that(2) C(5) by simp
    have R: "attempts_ok (w_payments w) ?rows"
      using same C(9) progression_from_effect [OF C(12)]
      by (intro attempts_ok_update [OF system_okD(2) [OF I]]) auto
    have pid: "fi_paymentId f \<in> pay_id ` set (w_payments w)"
      using C(2,3) by (metis imageI)
    have A: "attempts_ok (w_payments w) (w_attempts w')"
    proof (cases "fi_replacement f")
      case None
      then show ?thesis using R 1(3) by (simp add: replacement_row_def)
    next
      case (Some rep)
      have m: "finalize_attempt_data f s t1 a \<in> set ?rows"
        using C(4,5) by (auto simp: set_update_rows)
      show ?thesis
        unfolding 1(3) using 1(4) Some C(6,11)
        by (auto simp: replacement_row_def no_effect_name_def intro!: replacement_attempts_ok [OF R m _ _ _ _ pid])
    qed
    have "works_ok w'"
      using works_ok_insert [OF system_okD(4) [OF I]] 1(7,8) system_okD(4) [OF I]
      by (cases "fi_replacement f") (auto simp: replacement_work_def attempt_work_new works_ok_def)
    moreover have "reservations_ok (w_reservations w')"
      using system_okD(3) [OF I] 1(6)
      by (simp add: finalized_reservations_def reservations_ok_held split: ReservationAction.splits)
    ultimately show ?thesis
      using A 1(5) by (intro system_ok_step [OF I]) (auto simp: map_pay_id_update)
  qed
qed

lemma exhausted_ok: "keeps system_ok (markWorkItemExhausted item c s)"
proof (rule tripleI)
  fix w u w' assume I: "system_ok w" and run: "markWorkItemExhausted item c s w = Inr (u, w')"
  have "map pay_id (w_payments w') = map pay_id (w_payments w)"
    using markWorkItemExhausted_payments [OF run] by (auto simp: map_pay_id_update)
  then show "system_ok w'"
    using I tripleD [OF markWorkItemExhausted_ok run] preservesD [OF exhaustion_other_tables(1) run]
      preservesD [OF exhaustion_other_tables(2) run] system_okD [OF I]
    by (intro system_ok_step [OF I]) auto
qed

text \<open>A step on the queue alone.\<close>

lemma system_ok_queue:
  assumes "system_ok w" "w_payments w' = w_payments w" "w_attempts w' = w_attempts w"
    "w_reservations w' = w_reservations w" "works_ok w'"
  shows "system_ok w'"
  using assms by (simp add: system_ok_def)

lemma claim_ok: "keeps system_ok (claimWorkItem k)"
proof (rule tripleI)
  fix w c w' assume I: "system_ok w" and run: "claimWorkItem k w = Inr (c, w')"
  obtain now w1 where w1: "w_works w1 = w_works w" "w_payments w1 = w_payments w" "w_attempts w1 = w_attempts w"
    "w_reservations w1 = w_reservations w" and l: "claim_loop k now w1 = Inr (c, w')"
    using claimWorkItem_cases [OF run] by metis
  have I1: "system_ok w1"
    using I w1 by (simp add: system_ok_def works_ok_def)
  have "\<exists>w2. system_ok w2 \<and> first_work (exhaustible (cl_kind k) now) (w_works w2) = None \<and>
      claim_next k now w2 = Inr (c, w')"
    by (rule claim_loop_invariant [where I = system_ok, OF _ l I1]) (rule tripleD [OF exhausted_ok])
  then obtain w2 where I2: "system_ok w2" and n: "claim_next k now w2 = Inr (c, w')" by blast
  have "works_ok w'" by (rule claim_next_ok [OF n system_okD(4) [OF I2]])
  with n I2 show "system_ok w'"
    by (cases rule: claim_next_cases) (auto intro: system_ok_queue)
qed

lemma retry_ok: "keeps system_ok (retryWorkItem q)"
proof (rule tripleI)
  fix w u w' assume I: "system_ok w" and run: "retryWorkItem q w = Inr (u, w')"
  have ok: "works_ok w'" by (rule tripleD [OF retryWorkItem_ok run system_okD(4) [OF I]])
  from run show "system_ok w'"
  proof (cases rule: retryWorkItem_cases)
    case (exhaust item w1)
    have "system_ok w1" using I exhaust(3) by (simp add: system_ok_def works_ok_def)
    then show ?thesis by (rule tripleD [OF exhausted_ok exhaust(4)])
  next
    case (again item t)
    show ?thesis by (rule system_ok_queue [OF I again(5-7) ok])
  qed
qed

lemma defer_ok: "keeps system_ok (deferWorkItem q)"
proof (rule tripleI)
  fix w u w' assume I: "system_ok w" and run: "deferWorkItem q w = Inr (u, w')"
  have ok: "works_ok w'" by (rule tripleD [OF deferWorkItem_ok run system_okD(4) [OF I]])
  from run show "system_ok w'"
    by (cases rule: deferWorkItem_Inr) (rule system_ok_queue [OF I _ _ _ ok])
qed

lemma fail_ok: "keeps system_ok (failWorkItem x y c m)"
proof (rule tripleI)
  fix w u w' assume I: "system_ok w" and run: "failWorkItem x y c m w = Inr (u, w')"
  obtain item w1 where lock: "lockOwnedWorkItem x y w = Inr (item, w1)"
    and mk: "markWorkItemExhausted item c m w1 = Inr ((), w')"
    using run by (auto simp: failWorkItem_def tx_simps)
  have "system_ok w1" using I lockOwnedWorkItem_Inr(1) [OF lock] by (simp add: system_ok_def works_ok_def)
  then show "system_ok w'" by (rule tripleD [OF exhausted_ok mk])
qed

lemma queue_frames:
  "preserves w_payments (completeWorkItem x y)" "preserves w_attempts (completeWorkItem x y)"
  "preserves w_reservations (completeWorkItem x y)" "preserves w_payments (renewWorkItemLease n)"
  "preserves w_attempts (renewWorkItemLease n)" "preserves w_reservations (renewWorkItemLease n)"
  unfolding completeWorkItem_def renewWorkItemLease_def by (intro frame_intros; simp)+

lemma complete_ok: "keeps system_ok (completeWorkItem x y)"
  by (rule tripleI) (metis system_ok_queue tripleD completeWorkItem_ok system_okD(4) queue_frames(1-3) preservesD)

lemma renew_ok: "keeps system_ok (renewWorkItemLease n)"
  by (rule tripleI) (metis system_ok_queue tripleD renewWorkItemLease_ok system_okD(4) queue_frames(4-6) preservesD)

text \<open>The steps of an operator.\<close>

lemma resolve_data_sel [simp]: "att_id (resolve_attempt_data o' s t a) = att_id a"
  "att_paymentId (resolve_attempt_data o' s t a) = att_paymentId a"
  "att_attemptNumber (resolve_attempt_data o' s t a) = att_attemptNumber a"
  "att_outcome (resolve_attempt_data o' s t a) = o'" "att_rowVersion (resolve_attempt_data o' s t a) = att_rowVersion a + 1"
  "pay_id (resolve_payment_data st e se oc c t p) = pay_id p" "pay_id (no_effect_payment all t p) = pay_id p"
  "pay_id (route_payment_data t p) = pay_id p" "pay_id (refuse_payment_data n t p) = pay_id p"
  by (simp_all add: resolve_attempt_data_def resolve_payment_data_def no_effect_payment_def route_payment_data_def refuse_payment_data_def)

text \<open>What a resolution does to the ledger, the two outcomes together.\<close>

lemma resolve_ledger:
  assumes "resolveExceptionWithEvidence h out w = Inr (y, w')"
  obtains p a as now t where "p \<in> set (w_payments w)" "as = payment_attempts (pay_id p) w" "as \<noteq> []" "a = last as"
    "w_works w' = w_works w" "w_attempts w' = resolved_attempts a out t (w_attempts w)"
    "map pay_id (w_payments w') = map pay_id (w_payments w)"
    "w_reservations w' = w_reservations w \<or>
       (\<exists>c. w_reservations w' = update_rows (held_of (pay_id p)) (release_data c now) (w_reservations w)) \<or>
       w_reservations w' = update_rows (held_of (pay_id p)) (consume_data now) (w_reservations w)"
  using assms
proof (cases rule: resolveException_cases)
  case (1 x p now w1 w2 u)
  let ?as = "payment_attempts (pay_id p) w"
  have ids: "map pay_id (update_rows P (resolve_payment_data st e se oc c s) rows) = map pay_id rows"
    "map pay_id (update_rows P (no_effect_payment all s) rows) = map pay_id rows" for P st e se oc c all s rows
    by (rule map_update_rows; simp)+
  show thesis
  proof (cases out)
    case RES_CONFIRMED
    then have ph: "resolve_confirmed p ?as (last ?as) now w1 = Inr (u, w2)" using 1(11) by (simp add: phase_of_def)
    note R = resolve_confirmed_Inr(1-5) [OF ph]
    obtain t where "w_attempts w2 = resolved_attempts (last ?as) RES_CONFIRMED t (w_attempts w1)" using R(5) by blast
    moreover have "map pay_id (w_payments w2) = map pay_id (w_payments w1)" using R(4) ids by fastforce
    ultimately show ?thesis
      using that [of p ?as "last ?as" t now] 1(5,7,9,12) R(1,3) RES_CONFIRMED by (simp add: same_ledger_def)
  next
    case RES_PROVED_NO_EFFECT
    then have ph: "resolve_no_effect p ?as (last ?as) now w1 = Inr (u, w2)" using 1(11) by (simp add: phase_of_def)
    note R = resolve_no_effect_Inr(1-5) [OF ph]
    obtain t where "w_attempts w2 = resolved_attempts (last ?as) RES_PROVED_NO_EFFECT t (w_attempts w1)" using R(5) by blast
    moreover have "map pay_id (w_payments w2) = map pay_id (w_payments w1)" using R(4) ids by fastforce
    ultimately show ?thesis
      using that [of p ?as "last ?as" t now] 1(5,7,9,12) R(1,3) RES_PROVED_NO_EFFECT
      by (simp add: same_ledger_def split: if_splits) blast
  qed
qed

lemma last_payment_attempt:
  assumes "payment_attempts pid w \<noteq> []"
  shows "last (payment_attempts pid w) \<in> set (w_attempts w)" "att_paymentId (last (payment_attempts pid w)) = pid"
proof -
  have "last (payment_attempts pid w) \<in> set (payment_attempts pid w)" using assms by simp
  then show "last (payment_attempts pid w) \<in> set (w_attempts w)" "att_paymentId (last (payment_attempts pid w)) = pid"
    by (simp_all add: payment_attempts_def)
qed

lemma resolve_ok: "keeps system_ok (resolveExceptionWithEvidence h out)"
proof (rule tripleI)
  fix w y w' assume I: "system_ok w" and run: "resolveExceptionWithEvidence h out w = Inr (y, w')"
  from run show "system_ok w'"
  proof (cases rule: resolve_ledger)
    case (1 p a as now t)
    have "a \<in> set (w_attempts w)" using last_payment_attempt 1(2-4) by blast
    then have same: "q = a" if "q \<in> set (w_attempts w)" "att_id q = att_id a" for q
      using attempts.same_key [OF system_okD(5) [OF I]] that by blast
    have "attempts_ok (w_payments w) (w_attempts w')"
    proof (cases "att_outcome a = ''UNKNOWN''")
      case True
      show ?thesis
        unfolding 1(6) resolved_attempts_def if_P [OF True]
      proof (rule attempts_ok_update [OF system_okD(2) [OF I]])
        fix q b assume q: "q \<in> set (w_attempts w)" "att_id q = att_id a" "no_effect_name (att_outcome q)"
        show "no_effect_name (att_outcome (resolve_attempt_data (resolution_name out)
            (case out of RES_CONFIRMED \<Rightarrow> PAS_CONFIRMED | RES_PROVED_NO_EFFECT \<Rightarrow> PAS_FAILED) t q))"
          using q(3) same [OF q(1,2)] True by (simp add: no_effect_name_def)
      qed simp
    next
      case False
      then show ?thesis using 1(6) system_okD(2) [OF I] by (simp add: resolved_attempts_def)
    qed
    moreover have "reservations_ok (w_reservations w')"
      using 1(8) reservations_ok_held system_okD(3) [OF I] by auto
    ultimately show ?thesis
      using 1(5,7) system_okD(4) [OF I] by (intro system_ok_step [OF I]) (simp_all add: works_ok_def)
  qed
qed

lemma close_ledger:
  assumes "closeUnresolvedException h w = Inr (y, w')"
  shows "map pay_id (w_payments w') = map pay_id (w_payments w)" "w_attempts w' = w_attempts w"
    "w_reservations w' = w_reservations w" "w_works w' = w_works w"
proof -
  have "map pay_id (w_payments w') = map pay_id (w_payments w) \<and> w_attempts w' = w_attempts w \<and>
    w_reservations w' = w_reservations w \<and> w_works w' = w_works w"
    using assms
  proof (cases rule: closeUnresolved_cases)
    case (1 x f now)
    have "map pay_id (w_payments w') = map pay_id (w_payments w)"
      using 1(7) by (cases f) (auto simp: map_pay_id_update)
    then show ?thesis using 1(8-10) by blast
  qed
  then show "map pay_id (w_payments w') = map pay_id (w_payments w)" "w_attempts w' = w_attempts w"
    "w_reservations w' = w_reservations w" "w_works w' = w_works w" by blast+
qed

lemma close_ok: "keeps system_ok (closeUnresolvedException h)"
  by (rule tripleI, rule system_ok_step, assumption)
    (auto dest: close_ledger simp: system_ok_def works_ok_def)

text \<open>An approval starts the first attempt of a payment: its number is free only when the payment has none.\<close>

lemma first_attempt_fresh:
  assumes "sequence_ok rows" "\<not> list_ex (attempt_conflict n) rows" "att_attemptNumber n = 1"
  shows "attempts_of (att_paymentId n) rows = []"
proof (rule ccontr)
  let ?as = "attempts_of (att_paymentId n) rows"
  assume "?as \<noteq> []"
  then have "(1::int) \<in> {1..int (length ?as)}" by (cases ?as) auto
  then have "(1::int) \<in> att_attemptNumber ` set ?as" using assms(1) unfolding sequence_ok_def set_map by blast
  then obtain a where "a \<in> set ?as" "att_attemptNumber a = 1" by auto
  then show False using assms(2,3) by (auto simp: attempts_of_def attempt_conflict_def list_ex_iff)
qed

lemma decide_ledger:
  assumes "decideApproval d w = Inr (g, w')"
  obtains (started) p r a wk t i j k t1 t2 t3 where "p \<in> set (w_payments w)" "ad_action d = APPROVE"
      "r = approved_reservation i d p t1" "a = approved_attempt j p t2" "wk = approved_work k p t3"
      "w_reservations w' = w_reservations w @ [r]" "\<not> list_ex (reservation_conflict r) (w_reservations w)"
      "w_attempts w' = w_attempts w @ [a]" "\<not> list_ex (attempt_conflict a) (w_attempts w)"
      "w_works w' = w_works w @ [wk]" "\<not> list_ex (work_conflict wk) (w_works w)"
      "w_payments w' = update_rows (\<lambda>q. pay_id q = pay_id p) (route_payment_data t) (w_payments w)"
  | (refused) p t where "p \<in> set (w_payments w)" "ad_action d \<noteq> APPROVE"
      "w_payments w' = update_rows (\<lambda>q. pay_id q = pay_id p) (refuse_payment_data (approval_next_status (ad_action d)) t) (w_payments w)"
      "w_attempts w' = w_attempts w" "w_reservations w' = w_reservations w" "w_works w' = w_works w"
  using assms
proof (cases rule: decideApproval_cases)
  case (1 a p w0 now w1 u)
  obtain k where w0: "w0 = w\<lparr>w_ticks := k\<rparr>" using 1(9) by blast
  show thesis
  proof (cases "ad_action d = APPROVE")
    case True
    then obtain w2 where c: "check_approvable d a p now w0 = Inr ((), w2)" and s: "start_approved d p w2 = Inr (u, w1)"
      using 1(10) by (auto simp: apply_decision_def tx_simps)
    have w2: "w2 = w0" by (rule check_approvable_Inr(1) [OF c])
    from s show thesis
    proof (cases rule: start_approved_Inr)
      case (1 r a wk t i j k t1 t2 t3)
      then show thesis
        using \<open>p \<in> set (w_payments w)\<close> \<open>same_ledger w1 w'\<close> True
        by (intro started [of p r i t1 a j t2 wk k t3 t]) (simp_all add: w2 w0 same_ledger_def)
    qed
  next
    case False
    then have up: "update_payment p (refuse_payment_data (approval_next_status (ad_action d))) w0 = Inr (u, w1)"
      using 1(10) by (simp add: apply_decision_def)
    note U = update_payment_Inr [OF up]
    obtain t where "w_payments w1 = update_rows (\<lambda>q. pay_id q = pay_id p) (refuse_payment_data (approval_next_status (ad_action d)) t) (w_payments w0)"
      using U(1) by blast
    then show thesis
      using refused [of p t] 1(6,11) U(2-4) False by (simp add: w0 same_ledger_def)
  qed
qed

lemma decide_ok: "keeps system_ok (decideApproval d)"
proof (rule tripleI)
  fix w g w' assume I: "system_ok w" and run: "decideApproval d w = Inr (g, w')"
  from run show "system_ok w'"
  proof (cases rule: decide_ledger)
    case (started p r a wk t i j k t1 t2 t3)
    have n: "att_paymentId a = pay_id p" "att_attemptNumber a = 1" by (simp_all add: started(4) approved_attempt_def)
    have none: "attempts_of (pay_id p) (w_attempts w) = []"
      using first_attempt_fresh [OF system_okD(6) [OF I] started(9) n(2)] n(1) by simp
    have "attempts_ok (w_payments w) (w_attempts w')"
      unfolding started(8) using none started(1)
      by (intro attempts_ok_append [OF system_okD(2) [OF I] started(9)]; unfold n) (auto simp: attempts_of_def filter_empty_conv)
    moreover have "reservations_ok (w_reservations w')"
      using system_okD(3) [OF I] started(3,6,7)
      by (auto simp: reservations_ok_def reservation_ok_def reservation_conflict_def approved_reservation_def list_ex_iff)
    moreover have "works_ok w'"
      using works_ok_insert [OF system_okD(4) [OF I]] started(5,10,11) by (simp add: approved_work_def)
    ultimately show ?thesis
      using started(12) by (intro system_ok_step [OF I]) (simp_all add: map_pay_id_update)
  next
    case (refused p t)
    then show ?thesis
      using I by (intro system_ok_step [OF I]) (simp_all add: map_pay_id_update system_ok_def works_ok_def)
  qed
qed

lemma ledger_exceptions [simp]: "ledger (w_exceptions_update f w) = ledger w"
  by (simp add: ledger_def)

lemma append_only_ledger:
  "preserves ledger (recordEvidence v)" "preserves ledger (openOperationalException h)"
  "preserves ledger (appendTimelineEvent l)"
  unfolding recordEvidence_def appendTimelineEvent_def by (intro frame_intros; simp)+

lemma system_ok_ledger: "ledger w' = ledger w \<Longrightarrow> system_ok w' = system_ok w"
  by (auto simp: ledger_iff system_ok_def works_ok_def)

section \<open>Invariants of the reachable worlds\<close>

text \<open>The contract an invariant has to meet, operation by operation; it then holds in every
  reachable world.\<close>

locale repository_invariant =
  fixes I :: "world \<Rightarrow> bool"
  assumes start: "empty_ledger w \<Longrightarrow> I w"
    and create: "keeps I (createV2Payment i)"
    and outcome: "I w \<Longrightarrow> permitted u w \<Longrightarrow> updateAttemptOutcome u w = Inr (s, w') \<Longrightarrow> I w'"
    and execution: "keeps I (commit_execution e p st)"
    and abort: "keeps I (abortPreEffectPayment b)"
    and replace: "keeps I (createReplacementAttempt c)"
    and finalize: "keeps I (finalizeV2Payment f)"
    and claim: "keeps I (claimWorkItem k)"
    and complete: "keeps I (completeWorkItem x y)"
    and renew: "keeps I (renewWorkItemLease n)"
    and retry: "keeps I (retryWorkItem q)"
    and defer_item: "keeps I (deferWorkItem q)"
    and fail: "keeps I (failWorkItem x y a m)"
    and decide: "keeps I (decideApproval d)"
    and resolve: "keeps I (resolveExceptionWithEvidence h out)"
    and close_exc: "keeps I (closeUnresolvedException h)"
    and ledger_only: "ledger w' = ledger w \<Longrightarrow> I w' = I w"
begin

lemma service_keeps: "service_step w w' \<Longrightarrow> I w \<Longrightarrow> I w'"
  by (induction rule: service_step.induct)
    (blast intro: outcome tripleD [OF create] tripleD [OF execution] tripleD [OF abort] tripleD [OF finalize]
      tripleD [OF claim] tripleD [OF complete] tripleD [OF renew] tripleD [OF retry] tripleD [OF defer_item]
      tripleD [OF fail] tripleD [OF decide] tripleD [OF resolve] tripleD [OF close_exc] dest: ledger_only)+

lemma step_keeps: "repo_step w w' \<Longrightarrow> I w \<Longrightarrow> I w'"
  by (induction rule: repo_step.induct) (blast intro: service_keeps tripleD [OF replace])+

lemma invariant: "reachable w \<Longrightarrow> I w"
  by (induction rule: reachable.induct) (auto intro: start step_keeps)

end

interpretation system: repository_invariant system_ok
proof
  fix w assume "empty_ledger w"
  then show "system_ok w"
    by (simp add: empty_ledger_def system_ok_def attempts_ok_def sequence_ok_def attempts_of_def
        reservations_ok_def works_ok_def)
qed (fact create_ok outcome_ok execution_ok abort_ok replace_ok finalize_ok claim_ok complete_ok
  renew_ok retry_ok defer_ok fail_ok decide_ok resolve_ok close_ok system_ok_ledger)+

section \<open>Consequences of the invariant\<close>

lemma distinct_all_equal: "distinct xs \<Longrightarrow> (\<And>x y. x \<in> set xs \<Longrightarrow> y \<in> set xs \<Longrightarrow> x = y) \<Longrightarrow> length xs \<le> 1"
proof (cases xs)
  case (Cons a ys)
  assume d: "distinct xs" and eq: "\<And>x y. x \<in> set xs \<Longrightarrow> y \<in> set xs \<Longrightarrow> x = y"
  have "y = a" if "y \<in> set ys" for y using eq that Cons by simp
  then have "ys = []" using d Cons by (cases ys) auto
  then show ?thesis using Cons by simp
qed simp

lemma system_single_effect:
  assumes "system_ok w"
  shows "length (filter (\<lambda>a. att_paymentId a = pid \<and> \<not> no_effect_name (att_outcome a)) (w_attempts w)) \<le> 1"
proof (rule distinct_all_equal)
  show "distinct (filter (\<lambda>a. att_paymentId a = pid \<and> \<not> no_effect_name (att_outcome a)) (w_attempts w))"
    using system_okD(5) [OF assms] by (auto simp: distinct_map)
qed (use sequence_single_effect [OF system_okD(6) [OF assms]] in auto)

text \<open>No step touches a reservation that is not held.\<close>

definition settled_kept :: "reservation_row list \<Rightarrow> reservation_row list \<Rightarrow> bool" where
  "settled_kept rows rows' \<longleftrightarrow> (\<forall>r \<in> set rows. res_lifecycleState r \<noteq> ''HELD'' \<longrightarrow> r \<in> set rows')"

lemma settled_kept_simps [simp]: "settled_kept rows rows" "settled_kept rows (rows @ added)"
  "settled_kept rows (update_rows (held_of pid) f rows)"
  by (auto simp: settled_kept_def held_of_def intro: update_rows_keep)

lemma exhaustion_reservations:
  "markWorkItemExhausted i c s w = Inr (u, w') \<Longrightarrow> w_reservations w' = w_reservations w"
  by (rule preservesD [OF exhaustion_other_tables(2)])

lemma claim_reservations:
  assumes "claimWorkItem k w = Inr (c, w')"
  shows "w_reservations w' = w_reservations w"
proof -
  obtain now w1 where w1: "w_reservations w1 = w_reservations w" and l: "claim_loop k now w1 = Inr (c, w')"
    using claimWorkItem_cases [OF assms] by metis
  have "\<exists>w2. w_reservations w2 = w_reservations w \<and> first_work (exhaustible (cl_kind k) now) (w_works w2) = None \<and>
      claim_next k now w2 = Inr (c, w')"
    by (rule claim_loop_invariant [where I = "\<lambda>v. w_reservations v = w_reservations w", OF _ l])
      (simp_all add: exhaustion_reservations w1)
  then obtain w2 where "w_reservations w2 = w_reservations w" "claim_next k now w2 = Inr (c, w')" by blast
  then show ?thesis by (auto elim: claim_next_cases)
qed

lemma lock_then_exhaust_reservations:
  "failWorkItem x y a m w = Inr (u, w') \<Longrightarrow> w_reservations w' = w_reservations w"
  by (auto simp: failWorkItem_def tx_simps dest!: exhaustion_reservations lockOwnedWorkItem_Inr(1))

lemma retry_reservations: "retryWorkItem q w = Inr (u, w') \<Longrightarrow> w_reservations w' = w_reservations w"
  by (erule retryWorkItem_cases) (auto dest!: exhaustion_reservations)

lemma create_reservations:
  assumes "createV2Payment i w = Inr (r, w')"
  shows "\<exists>added. w_reservations w' = w_reservations w @ added"
  using assms
proof (cases rule: createV2Payment_cases)
  case (replay e)
  then show ?thesis using replay_payment_Inr(1) [OF replay(2)] by simp
next
  case (create d)
  then show ?thesis
    by (cases "vd_decision (ci_policyDecision i) = PD_ALLOW") (auto simp: written_def)
qed

lemma finalize_reservations:
  assumes "finalizeV2Payment f w = Inr (v, w')"
  shows "\<exists>t. w_reservations w' = finalized_reservations f t (w_reservations w)"
  using assms by (cases rule: finalizeV2Payment_writes) blast

lemma service_settled_kept: "service_step w w' \<Longrightarrow> settled_kept (w_reservations w) (w_reservations w')"
proof (induction rule: service_step.induct)
  case (st_create i w r w')
  then show ?case using create_reservations by fastforce
next
  case (st_outcome u w s w')
  then show ?case by (simp add: updateAttemptOutcome_writes(3))
next
  case (st_execution e p s w r w')
  then show ?case by (simp add: commit_execution_writes(3))
next
  case (st_abort b w v w')
  then show ?case by (cases rule: abortPreEffectPayment_writes) simp
next
  case (st_finalize f w v w')
  then show ?case
    using finalize_reservations by (fastforce simp: finalized_reservations_def split: ReservationAction.splits)
next
  case (st_claim k w o' w')
  then show ?case by (simp add: claim_reservations)
next
  case (st_complete x y w z w')
  then show ?case by (simp add: preservesD [OF queue_frames(3)])
next
  case (st_renew n w t w')
  then show ?case by (simp add: preservesD [OF queue_frames(6)])
next
  case (st_retry q w z w')
  then show ?case by (simp add: retry_reservations)
next
  case (st_defer q w z w')
  then show ?case by (cases rule: deferWorkItem_Inr) simp
next
  case (st_fail x y a m w z w')
  then show ?case by (simp add: lock_then_exhaust_reservations)
next
  case (st_decide d w g w')
  then show ?case by (cases rule: decide_ledger) simp_all
next
  case (st_resolve h out w j w')
  then show ?case by (cases rule: resolve_ledger) auto
next
  case (st_close h w j w')
  then show ?case by (simp add: close_ledger)
next
  case (st_other_tables w' w)
  then show ?case by (simp add: ledger_iff)
qed

lemma step_settled_kept: "repo_step w w' \<Longrightarrow> settled_kept (w_reservations w) (w_reservations w')"
proof (induction rule: repo_step.induct)
  case (st_replace c w s w')
  then show ?case by (cases rule: createReplacementAttempt_writes) simp
qed (rule service_settled_kept)

lemma not_held_after:
  assumes "\<And>r. \<not> held_of pid (f r)"
  shows "\<not> list_ex (held_of pid) (update_rows (held_of pid) f rows)"
proof -
  have "\<not> held_of pid q" if q: "q \<in> set (update_rows (held_of pid) f rows)" for q
  proof -
    obtain r where "q = (if held_of pid r then f r else r)" using q unfolding set_update_rows by blast
    then show ?thesis using assms by (cases "held_of pid r") auto
  qed
  then show ?thesis by (auto simp: list_ex_iff)
qed

lemma settling_data_not_held [simp]:
  "\<not> held_of pid (consume_data t r)" "\<not> held_of pid (release_data c t r)"
  by (simp_all add: held_of_def consume_data_def release_data_def)
text \<open>The attempt and the payment before and after a finalization.\<close>

lemma finalized_rows:
  assumes "finalizeV2Payment input w = Inr (v, w')"
  obtains a a' p' where "a \<in> set (w_attempts w)" "att_id a = fi_attemptId input" "att_outcome a = fi_currentOutcome input"
    "assert_progression_names (fi_currentOutcome input) (fi_nextOutcome input) = Inr ()"
    "a' \<in> set (w_attempts w')" "att_id a' = fi_attemptId input" "att_outcome a' = fi_nextOutcome input"
    "att_rowVersion a' = att_rowVersion a + 1" "att_paymentId a' = fi_paymentId input"
    "p' \<in> set (w_payments w')" "pay_id p' = fi_paymentId input" "pay_rowVersion p' = fi_paymentRowVersion input + 1"
    "derived_status input = Some (pay_status p')"
  using assms
proof (cases rule: finalizeV2Payment_writes)
  case (1 p a st s t1 t2 t3 t4 t5)
  note C = finalize_check_Inr [OF 1(1)]
  let ?a = "finalize_attempt_data input s t1 a" and ?p = "finalize_payment_data input st t2 p"
  have "?a \<in> set (w_attempts w')" using C(4,5) 1(3) by (auto simp: set_update_rows)
  moreover have "?p \<in> set (w_payments w')" using C(2,3) 1(5) by (auto simp: set_update_rows)
  moreover have "pay_status ?p = st" "pay_rowVersion ?p = pay_rowVersion p + 1"
    using C(10) by (auto simp: finalize_payment_data_def derived_status_def split: option.splits)
  moreover have "att_rowVersion ?a = att_rowVersion a + 1" by (simp add: finalize_attempt_data_def)
  ultimately show thesis using that [of a ?a ?p] C by simp
qed

lemma finalized_not_held:
  assumes "finalizeV2Payment input w = Inr (v, w')" "fi_reservation input \<noteq> KEEP_NONE"
  shows "\<not> list_ex (held_of (fi_paymentId input)) (w_reservations w')"
proof -
  obtain t where "w_reservations w' = finalized_reservations input t (w_reservations w)"
    using finalize_reservations [OF assms(1)] by blast
  then show ?thesis
    using assms(2) by (cases "fi_reservation input") (simp_all add: finalized_reservations_def not_held_after)
qed

end
