(* ===== verification/Sample_World.thy ===== *)
theory Sample_World
  imports Payment_System
begin

text \<open>
  A small concrete world and a payment request against it, on which the witnesses of the
  repository properties are evaluated.
\<close>

section \<open>A sample world\<close>

definition sample_account :: account_row where
  "sample_account = \<lparr>acc_id = ''acc'', acc_name = ''a'', acc_status = AA_ACTIVE, acc_solanaPublicKey = ''k'',
     acc_encryptedSolanaSecret = ''s'', acc_encryptionNonce = ''n'', acc_encryptionAuthTag = ''t'',
     acc_workspaceId = None, acc_runtimeVersion = None, acc_provisioningFailureCode = None,
     acc_disabledAt = None, acc_disabledReason = None, acc_rowVersion = 1, acc_createdAt = 0, acc_updatedAt = 0\<rparr>"

definition sample_policy :: policy_row where
  "sample_policy = \<lparr>pol_id = ''pol'', pol_accountId = ''acc'', pol_version = 1, pol_status = ''ACTIVE'',
     pol_denominationId = ''den'', pol_maxPerPaymentAtomic = Some 50, pol_rollingBudgetAtomic = Some 80,
     pol_rollingWindowSeconds = None, pol_transactionCountCap = Some 9, pol_approvalThresholdAtomic = None,
     pol_rollingBudgetEscalatable = False, pol_transactionCountEscalatable = False,
     pol_rulesJson = ''{}'', pol_createdAt = 0, pol_activatedAt = Some 0, pol_retiredAt = None\<rparr>"

definition sample_route :: SettlementRoute where
  "sample_route = \<lparr>sr_id = ''rt'', sr_rail = ''R'', sr_railVersion = ''1'', sr_network = ''n'',
     sr_settlementAssetId = ''ast'', sr_economicMappingId = ''map'', sr_status = SR_ACTIVE,
     sr_priority = 1, sr_configVersion = ''c''\<rparr>"

definition empty_control :: control_tables where
  "empty_control = \<lparr>ct_costs = [], ct_backups = [], ct_rate_limits = [], ct_metadata = [], ct_issues = [],
     ct_envelopes = [], ct_receives = [], ct_incoming = [], ct_funding = [], ct_custody_keys = [], ct_signing = [],
     ct_checkpoints = [], ct_sponsorships = [], ct_recipient_destinations = []\<rparr>"

definition sample_world :: world where
  "sample_world = \<lparr>w_accounts = [sample_account], w_credentials = [], w_recipients = [], w_payments = [],
     w_attempts = [], w_idempotency = [], w_reservations = [],
     w_denominations = [\<lparr>dn_id = ''den'', dn_symbol = ''USD'', dn_maxScale = 2, dn_status = ''ACTIVE'', dn_version = 1\<rparr>],
     w_assets = [\<lparr>ast_id = ''ast'', ast_rail = ''R'', ast_network = ''n'', ast_assetReference = ''m'',
        ast_decimals = 2, ast_status = ''ACTIVE'', ast_version = 1\<rparr>],
     w_mappings = [\<lparr>map_id = ''map'', map_denominationId = ''den'', map_settlementAssetId = ''ast'',
        map_numerator = 1, map_denominator = 1, map_status = ''ACTIVE'', map_version = 1\<rparr>],
     w_routes = [\<lparr>rte_id = ''rt'', rte_rail = ''R'', rte_railVersion = ''1'', rte_network = ''n'',
        rte_settlementAssetId = ''ast'', rte_economicMappingId = ''map'', rte_status = ''ACTIVE'',
        rte_priority = 1, rte_configVersion = ''c''\<rparr>],
     w_policies = [sample_policy], w_decisions = [],
     w_destinations = [\<lparr>dst_id = ''d'', dst_accountId = ''acc'', dst_fingerprint = ''f'', dst_rail = ''R'',
        dst_network = ''n'', dst_assetReference = ''m'', dst_destination = ''x'', dst_status = ''ACTIVE'',
        dst_actorId = ''op'', dst_reason = None, dst_createdAt = 0, dst_revokedAt = None\<rparr>],
     w_approvals = [], w_works = [], w_evidence = [], w_timeline = [], w_exceptions = [], w_subscriptions = [],
     w_webhooks = [], w_deliveries = [], w_control = empty_control, w_clock = (\<lambda>n. 100), w_ticks = 0,
     w_random = (\<lambda>n. replicate n (CHR ''a'')), w_draws = 0\<rparr>"

definition zero_money :: ExactMoney where
  "zero_money = \<lparr>money_denominationId = ''den'', money_amount = ''0'', money_atomicUnits = 0, money_scale = 2\<rparr>"

definition sample_input :: V2PaymentCreateInput where
  "sample_input = \<lparr>ci_paymentId = ''p1'', ci_reservationId = ''r1'', ci_attemptId = ''a1'', ci_workItemId = ''w1'',
     ci_idempotencyId = ''i1'', ci_timelineEventId = ''t1'', ci_accountId = ''acc'', ci_operation = PAY,
     ci_idempotencyKey = ''k1'', ci_requestHash = ''h1'', ci_requestId = None, ci_correlationId = None,
     ci_fingerprint = ''fp'', ci_payerPublicKey = ''k'', ci_recipientId = None, ci_recipientManagedAccountId = None,
     ci_amountAtomic = 30, ci_amountScale = 2, ci_denominationId = ''den'', ci_currency = ''USD'',
     ci_description = None, ci_externalReference = None, ci_metadataJson = None, ci_originalPaymentId = None,
     ci_route = Some sample_route, ci_routeSelectionReason = None, ci_routeCapabilitySnapshotJson = None,
     ci_destinationSnapshotJson = ''{}'', ci_settlementAssetId = Some ''ast'', ci_economicMappingId = Some ''map'',
     ci_destinationFingerprint = ''f'',
     ci_policyDecision = \<lparr>vd_id = ''pd'', vd_paymentId = ''p1'', vd_accountId = ''acc'', vd_policyId = ''pol'',
       vd_policyVersion = 1, vd_decision = PD_ALLOW, vd_reasonCodes = [],
       vd_contextJson = context_json \<lparr>pc_confirmedSpend = zero_money, pc_heldReservations = zero_money,
         pc_unresolvedSpend = zero_money, pc_transactionCount = IntNum 0\<rparr>, vd_fingerprint = ''x''\<rparr>,
     ci_intentFingerprint = None, ci_approval = None, ci_settledAtomic = 100\<rparr>"

definition succeeds :: "'a tx \<Rightarrow> world \<Rightarrow> ('a \<Rightarrow> world \<Rightarrow> bool) \<Rightarrow> bool" where
  "succeeds m w P = (case m w of Inl _ \<Rightarrow> False | Inr (x, w') \<Rightarrow> P x w')"

lemma sample_created: "succeeds (createV2Payment sample_input) sample_world (\<lambda>r w'. cr_created r)"
  by code_simp

lemma sample_run:
  obtains r w' where "createV2Payment sample_input sample_world = Inr (r, w')" "cr_created r"
proof -
  have "succeeds (createV2Payment sample_input) sample_world (\<lambda>r w'. cr_created r)"
    by (rule sample_created)
  then show thesis
    using that by (auto simp: succeeds_def split: sum.splits)
qed

definition denied_input :: V2PaymentCreateInput where
  "denied_input = sample_input\<lparr>ci_amountAtomic := 60,
     ci_policyDecision := (ci_policyDecision sample_input)
       \<lparr>vd_decision := PD_DENY, vd_reasonCodes := [''PER_PAYMENT_LIMIT_EXCEEDED'']\<rparr>\<rparr>"

lemma sample_denied: "succeeds (createV2Payment denied_input) sample_world (\<lambda>r w'. cr_created r)"
  by code_simp

definition original_payment :: payment_row where
  "original_payment = (payment_row_of (sample_input\<lparr>ci_paymentId := ''p0'', ci_accountId := ''other'', ci_amountAtomic := 40\<rparr>) 50)
     \<lparr>pay_status := PS_CONFIRMED\<rparr>"

definition refund_world :: world where
  "refund_world = sample_world\<lparr>w_payments := [original_payment]\<rparr>"

definition refund_input :: V2PaymentCreateInput where
  "refund_input = sample_input\<lparr>ci_operation := REFUND, ci_originalPaymentId := Some ''p0''\<rparr>"

lemma sample_refund:
  "succeeds (createV2Payment refund_input) refund_world (\<lambda>r w'. cr_created r \<and> getRefundedAtomic ''p0'' w' = 30)"
  by code_simp

lemma succeedsE:
  assumes "succeeds m w P"
  obtains x w' where "m w = Inr (x, w')" "P x w'"
  using assms by (auto simp: succeeds_def split: sum.splits)

section \<open>A payment under way\<close>

text \<open>The sample payment after its creation, with its attempt in a given outcome.\<close>

definition running_payment :: payment_row where
  "running_payment = payment_row_of sample_input 50"

definition running_attempt :: "string \<Rightarrow> attempt_row" where
  "running_attempt outcome = (first_attempt sample_input running_payment 50)\<lparr>att_outcome := outcome\<rparr>"

definition running_world :: "string \<Rightarrow> world" where
  "running_world outcome = sample_world\<lparr>w_payments := [running_payment], w_attempts := [running_attempt outcome],
     w_reservations := [reservation_row_of sample_input running_payment 50],
     w_works := [payment_work sample_input running_payment 50],
     w_decisions := [\<lparr>dec_id = ''pd'', dec_paymentId = ''p1'', dec_accountId = ''acc'', dec_policyId = ''pol'',
       dec_policyVersion = 1, dec_decision = ''ALLOW'', dec_reasonCodesJson = ''[]'', dec_contextJson = ''{}'',
       dec_fingerprint = ''x'', dec_createdAt = 50\<rparr>],
     w_random := (\<lambda>n. replicate n (CHR ''b''))\<rparr>"

definition confirm_input :: FinalizeInput where
  "confirm_input = \<lparr>fi_paymentId = ''p1'', fi_attemptId = ''a1'', fi_paymentRowVersion = 1, fi_attemptRowVersion = 1,
     fi_currentOutcome = ''SUBMITTED'', fi_nextOutcome = ''CONFIRMED'', fi_attemptStatus = ''CONFIRMED'',
     fi_paymentStatus = ''CONFIRMED'', fi_settlementState = ''CONFIRMED'', fi_outcomeState = ''CONFIRMED'',
     fi_externalId = Some ''sig'', fi_expectedExternalId = None, fi_payloadHash = None, fi_metadataJson = None,
     fi_confirmedAt = Some 90, fi_failedAt = None, fi_failureCode = None, fi_failureMessageSafe = None,
     fi_reservation = CONSUME, fi_evidenceOutcome = ''CONFIRMED'', fi_source = ''worker'', fi_replacement = None\<rparr>"

definition abort_input :: AbortInput where
  "abort_input = \<lparr>ab_paymentId = ''p1'', ab_attemptId = ''a1'', ab_paymentRowVersion = 1, ab_attemptRowVersion = 1,
     ab_reason = ''ACCOUNT_DISABLED''\<rparr>"

lemma sample_confirmed: "succeeds (finalizeV2Payment confirm_input) (running_world ''SUBMITTED'') (\<lambda>v w'. True)"
  by code_simp

lemma sample_aborted: "succeeds (abortPreEffectPayment abort_input) (running_world ''NOT_STARTED'') (\<lambda>v w'. True)"
  by code_simp

lemma running_world_ok: "system_ok (running_world outcome)"
  by (simp add: running_world_def system_ok_def attempts_ok_def sequence_ok_def attempts_of_def reservations_ok_def
      works_ok_def work_ok_def reservation_ok_def running_attempt_def running_payment_def first_attempt_def
      new_attempt_row_def payment_work_def new_work_row_def reservation_row_of_def payment_row_of_def Let_def)

lemma sample_reachable:
  obtains r w' where "createV2Payment sample_input sample_world = Inr (r, w')" "cr_created r" "reachable w'"
proof -
  obtain r w' where run: "createV2Payment sample_input sample_world = Inr (r, w')" "cr_created r" by (rule sample_run)
  have "reachable sample_world" by (rule r_start) (simp add: empty_ledger_def sample_world_def)
  then have "reachable w'" by (rule r_step) (rule st_service [OF st_create [OF run(1)]])
  with run show thesis by (rule that)
qed

end
