(* ===== verification/Repository_Properties.thy ===== *)
theory Repository_Properties
  imports Sample_World
begin

text \<open>
  The properties of the repository: what a successful creation guarantees about funds, policy,
  idempotency and refunds, what the transactions that drive a payment may change, and how the work
  queue hands out its items. Each property is followed by a witness on concrete data.
\<close>

section \<open>Creating a payment\<close>

text \<open>C3: an allowed payment is covered by the settled funds: its reservation raises the held
  amount of the account and denomination by exactly the payment's amount, and what is held
  afterwards does not exceed the settled balance the creation was given.\<close>

theorem created_payment_within_funds:
  assumes "createV2Payment input w = Inr (r, w')" "cr_created r" "vd_decision (ci_policyDecision input) = PD_ALLOW"
  shows "held_atomic (ci_accountId input) (ci_denominationId input) w' =
      held_atomic (ci_accountId input) (ci_denominationId input) w + ci_amountAtomic input \<and>
    held_atomic (ci_accountId input) (ci_denominationId input) w' \<le> ci_settledAtomic input"
  using assms(1)
proof (cases rule: createV2Payment_cases)
  case (replay e)
  then show ?thesis using assms(2) replay_payment_Inr(2) by blast
next
  case (create d)
  show ?thesis
    using written_held [OF create(6) assms(3)] check_funds_Inr(2) [OF create(4) assms(3)] by simp
qed

theorem created_payment_within_funds_witness:
  "\<exists>r w'. createV2Payment sample_input sample_world = Inr (r, w') \<and> held_atomic ''acc'' ''den'' w' = 30 \<and> held_atomic ''acc'' ''den'' w' \<le> 100"
proof -
  obtain r w' where run: "createV2Payment sample_input sample_world = Inr (r, w')" "cr_created r" by (rule sample_run)
  have i: "vd_decision (ci_policyDecision sample_input) = PD_ALLOW" "ci_accountId sample_input = ''acc''"
    "ci_denominationId sample_input = ''den''" "ci_amountAtomic sample_input = 30" "ci_settledAtomic sample_input = 100"
    "held_atomic ''acc'' ''den'' sample_world = 0"
    by (simp_all add: sample_input_def sample_world_def held_atomic_def)
  show ?thesis
    using created_payment_within_funds [OF run i(1)] run(1) i by auto
qed

text \<open>C5: a payment that is not recorded as denied was checked, inside the transaction, against the
  account's active policy: its destination is approved and it is within the per-payment limit, the
  rolling budget and the transaction count of the spending at that moment.\<close>

theorem created_payment_within_policy:
  assumes "createV2Payment input w = Inr (r, w')" "cr_created r" "vd_decision (ci_policyDecision input) \<noteq> PD_DENY"
  shows "\<exists>p. p \<in> set (w_policies w) \<and> pol_id p = vd_policyId (ci_policyDecision input) \<and>
    pol_accountId p = ci_accountId input \<and> pol_status p = ''ACTIVE'' \<and>
    findApprovedDestination (ci_accountId input) (ci_destinationFingerprint input) w \<noteq> None \<and>
    within_limits p (getSpendContext (ci_accountId input) (ci_denominationId input) (w_clock w (w_ticks w))
      (pol_rollingWindowSeconds p) w) (ci_amountAtomic input)"
  by (rule creation_checked [OF assms])

theorem created_payment_within_policy_witness:
  "\<exists>p. pol_id p = ''pol'' \<and> pol_rollingBudgetAtomic p = Some 80 \<and>
     within_limits p (getSpendContext ''acc'' ''den'' 100 None sample_world) 30"
proof -
  obtain r w' where run: "createV2Payment sample_input sample_world = Inr (r, w')" "cr_created r" by (rule sample_run)
  have i: "vd_decision (ci_policyDecision sample_input) \<noteq> PD_DENY" by (simp add: sample_input_def)
  from created_payment_within_policy [OF run i] obtain p where p: "p \<in> set (w_policies sample_world)"
    "within_limits p (getSpendContext (ci_accountId sample_input) (ci_denominationId sample_input)
       (w_clock sample_world (w_ticks sample_world)) (pol_rollingWindowSeconds p) sample_world) (ci_amountAtomic sample_input)"
    by blast
  then have "p = sample_policy" by (simp add: sample_world_def)
  then show ?thesis
    using p by (intro exI [of _ p]) (simp add: sample_policy_def sample_input_def sample_world_def)
qed

text \<open>C4: the rolling budget still holds after an allowed payment: confirmed, held and unresolved
  spending of the new world together stay within it, so allowed payments cannot accumulate past
  the budget.\<close>

theorem rolling_budget_kept:
  assumes "createV2Payment input w = Inr (r, w')" "cr_created r" "vd_decision (ci_policyDecision input) = PD_ALLOW"
  shows "\<exists>p. p \<in> set (w_policies w) \<and> pol_id p = vd_policyId (ci_policyDecision input) \<and>
    (case pol_rollingBudgetAtomic p of None \<Rightarrow> True | Some b \<Rightarrow>
      (let c = getSpendContext (ci_accountId input) (ci_denominationId input) (w_clock w (w_ticks w))
           (pol_rollingWindowSeconds p) w'
       in sc_confirmedSpendAtomic c + sc_heldReservationAtomic c + sc_unresolvedSpendAtomic c \<le> b))"
  using assms(1)
proof (cases rule: createV2Payment_cases)
  case (replay e)
  then show ?thesis using assms(2) replay_payment_Inr(2) by blast
next
  case (create d)
  note S = written_spend_context [OF create(6) assms(3)]
  from create(2) show ?thesis
  proof (cases rule: recheck_policy_obtains)
    case (1 p dn den pol ev)
    have act: "pol_status p = ''ACTIVE''" using 1(3) by (auto simp: policy_changed_def)
    have "pd_decision d = PD_ALLOW"
      using 1(8) assms(3) by (auto simp: decision_changed_def)
    then have "within_limits p (getSpendContext (ci_accountId input) (ci_denominationId input) (w_clock w (w_ticks w))
        (pol_rollingWindowSeconds p) w) (ci_amountAtomic input)"
      using evaluation_decides(2) [OF 1(5) act 1(6) getSpendContext_count 1(7)] by auto
    then show ?thesis
      using find_SomeD [OF 1(1)] S
      by (intro exI [of _ p]) (auto simp: within_limits_def Let_def split: option.splits)
  qed
qed

theorem rolling_budget_kept_witness:
  "\<exists>r w'. createV2Payment sample_input sample_world = Inr (r, w') \<and>
     (let c = getSpendContext ''acc'' ''den'' 100 None w'
      in sc_confirmedSpendAtomic c + sc_heldReservationAtomic c + sc_unresolvedSpendAtomic c \<le> 80)"
proof -
  obtain r w' where run: "createV2Payment sample_input sample_world = Inr (r, w')" "cr_created r" by (rule sample_run)
  have i: "vd_decision (ci_policyDecision sample_input) = PD_ALLOW" by (simp add: sample_input_def)
  from rolling_budget_kept [OF run i] show ?thesis
    using run(1) by (auto simp: sample_world_def sample_policy_def sample_input_def Let_def)
qed

text \<open>A payment that is not allowed reserves nothing and starts nothing: no reservation, attempt
  or work item is written, and a denied payment is recorded as rejected with no effect.\<close>

theorem unallowed_payment_starts_nothing:
  assumes "createV2Payment input w = Inr (r, w')" "vd_decision (ci_policyDecision input) \<noteq> PD_ALLOW"
  shows "w_reservations w' = w_reservations w \<and> w_attempts w' = w_attempts w \<and> w_works w' = w_works w \<and>
    (cr_created r \<and> vd_decision (ci_policyDecision input) = PD_DENY \<longrightarrow>
      pay_status (cr_payment r) = PS_REJECTED_BY_POLICY \<and> pay_outcomeState (cr_payment r) = ''PROVED_NO_EFFECT'')"
  using assms(1)
proof (cases rule: createV2Payment_cases)
  case (replay e)
  then show ?thesis using replay_payment_Inr(1,2) by fastforce
next
  case (create d)
  then show ?thesis
    using assms(2) by (auto simp: written_def payment_row_of_def initial_status_def Let_def)
qed

theorem unallowed_payment_starts_nothing_witness:
  "\<exists>r w'. createV2Payment denied_input sample_world = Inr (r, w') \<and> w_attempts w' = [] \<and> w_reservations w' = [] \<and>
     pay_status (cr_payment r) = PS_REJECTED_BY_POLICY"
proof -
  obtain r w' where run: "createV2Payment denied_input sample_world = Inr (r, w')" "cr_created r"
    by (rule succeedsE [OF sample_denied])
  have i: "vd_decision (ci_policyDecision denied_input) \<noteq> PD_ALLOW" "vd_decision (ci_policyDecision denied_input) = PD_DENY"
    by (simp_all add: denied_input_def)
  have "w_attempts sample_world = []" "w_reservations sample_world = []" by (simp_all add: sample_world_def)
  with unallowed_payment_starts_nothing [OF run(1) i(1)] run i(2) show ?thesis by auto
qed

text \<open>C6: creation is idempotent: repeating a request with the same account, key, hash and
  fingerprint in the world it left behind returns the same payment, reports that nothing was
  created and writes nothing.\<close>

theorem creation_replayed:
  assumes "createV2Payment input w = Inr (r, w')" "cr_created r"
    and "ci_accountId again = ci_accountId input" "ci_idempotencyKey again = ci_idempotencyKey input"
    and "ci_requestHash again = ci_requestHash input" "ci_fingerprint again = ci_fingerprint input"
  shows "createV2Payment again w' = Inr (\<lparr>cr_payment = cr_payment r, cr_created = False\<rparr>, w'\<lparr>w_ticks := Suc (w_ticks w')\<rparr>)"
proof -
  obtain e where e: "findV2Idempotency (ci_accountId input) (ci_idempotencyKey input) w' = Some e"
    "idem_requestHash e = ci_requestHash input" "idem_fingerprint e = Some (ci_fingerprint input)"
    "List.find (\<lambda>q. pay_id q = idem_resourceId e) (w_payments w') = Some (cr_payment r)"
    and lock: "lock_account (ci_accountId input) w' = Inr (w_clock w' (w_ticks w'), w'\<lparr>w_ticks := Suc (w_ticks w')\<rparr>)"
    by (rule created_then [OF assms(1,2)])
  show ?thesis
    using e lock assms(3-6)
    by (simp add: createV2Payment_def replay_payment_def bind_tx_def gets_tx_def throw_if_tx_def return_tx_def
        find_or_throw_tx_def toV2PaymentSnapshot_def)
qed

theorem creation_replayed_witness:
  "\<exists>r w'. createV2Payment sample_input sample_world = Inr (r, w') \<and>
     createV2Payment sample_input w' = Inr (\<lparr>cr_payment = cr_payment r, cr_created = False\<rparr>, w'\<lparr>w_ticks := Suc (w_ticks w')\<rparr>)"
proof -
  obtain r w' where run: "createV2Payment sample_input sample_world = Inr (r, w')" "cr_created r" by (rule sample_run)
  from creation_replayed [OF run refl refl refl refl] run(1) show ?thesis by blast
qed

text \<open>An idempotency key that was used cannot be used for another request: with a different
  hash or fingerprint the call fails with an idempotency conflict, whatever else it asks for.\<close>

theorem idempotency_key_not_reused:
  assumes "createV2Payment input w = Inr (r, w')" "cr_created r"
    and "ci_accountId other = ci_accountId input" "ci_idempotencyKey other = ci_idempotencyKey input"
    and "ci_requestHash other \<noteq> ci_requestHash input \<or> ci_fingerprint other \<noteq> ci_fingerprint input"
  shows "createV2Payment other w' = Inl idempotencyConflict"
proof -
  obtain e where e: "findV2Idempotency (ci_accountId input) (ci_idempotencyKey input) w' = Some e"
    "idem_requestHash e = ci_requestHash input" "idem_fingerprint e = Some (ci_fingerprint input)"
    and lock: "lock_account (ci_accountId input) w' = Inr (w_clock w' (w_ticks w'), w'\<lparr>w_ticks := Suc (w_ticks w')\<rparr>)"
    by (rule created_then [OF assms(1,2)])
  have "idem_requestHash e \<noteq> ci_requestHash other \<or> idem_fingerprint e \<noteq> Some (ci_fingerprint other)"
    using e assms(5) by auto
  then show ?thesis
    using e(1) lock assms(3,4)
    by (simp add: createV2Payment_def replay_payment_def bind_tx_def gets_tx_def throw_if_tx_def throw_tx_def)
qed

theorem idempotency_key_not_reused_witness:
  "\<exists>r w'. createV2Payment sample_input sample_world = Inr (r, w') \<and>
     createV2Payment (sample_input\<lparr>ci_requestHash := ''h2'', ci_amountAtomic := 1\<rparr>) w' = Inl idempotencyConflict"
proof -
  obtain r w' where run: "createV2Payment sample_input sample_world = Inr (r, w')" "cr_created r" by (rule sample_run)
  have "createV2Payment (sample_input\<lparr>ci_requestHash := ''h2'', ci_amountAtomic := 1\<rparr>) w' = Inl idempotencyConflict"
    by (rule idempotency_key_not_reused [OF run]) (simp_all add: sample_input_def)
  then show ?thesis using run(1) by blast
qed



section \<open>The ledger of every reachable world\<close>



text \<open>C35: the ledger stays well formed in every reachable world: payment, attempt and work item
  identifiers are unique, a payment has at most one reservation, every attempt belongs to a payment,
  the attempts of a payment are numbered from one without gaps, and a reservation is held, consumed
  or released with exactly the time stamps of that state.\<close>

theorem ledger_well_formed:
  assumes "reachable w"
  shows "distinct (map pay_id (w_payments w)) \<and> distinct (map att_id (w_attempts w)) \<and>
    distinct (map wi_id (w_works w)) \<and> distinct (map res_paymentId (w_reservations w)) \<and>
    att_paymentId ` set (w_attempts w) \<subseteq> pay_id ` set (w_payments w) \<and>
    set (map att_attemptNumber (attempts_of pid (w_attempts w))) = {1..int (length (attempts_of pid (w_attempts w)))} \<and>
    list_all reservation_ok (w_reservations w)"
proof -
  have I: "system_ok w" by (rule system.invariant [OF assms])
  note D = system_okD [OF I]
  have "set (map att_attemptNumber (attempts_of pid (w_attempts w))) = {1..int (length (attempts_of pid (w_attempts w)))}"
    using D(6) unfolding sequence_ok_def by blast
  then show ?thesis
    using D by (auto simp: reservations_ok_def works_ok_def list_all_iff)
qed

theorem ledger_well_formed_witness:
  "\<exists>r w'. createV2Payment sample_input sample_world = Inr (r, w') \<and> list_all reservation_ok (w_reservations w')"
proof -
  obtain r w' where run: "createV2Payment sample_input sample_world = Inr (r, w')" "reachable w'" by (rule sample_reachable)
  from ledger_well_formed [OF run(2)] run(1) show ?thesis by blast
qed

text \<open>C27: a settled reservation is final: no step of the repository changes or removes a
  reservation that is consumed or released.\<close>

theorem settled_reservation_final:
  assumes "repo_step w w'" "r \<in> set (w_reservations w)" "res_lifecycleState r \<noteq> ''HELD''"
  shows "r \<in> set (w_reservations w')"
  using step_settled_kept [OF assms(1)] assms(2,3) by (auto simp: settled_kept_def)

definition consumed_reservation :: reservation_row where
  "consumed_reservation = consume_data 60 (reservation_row_of sample_input running_payment 50)"

theorem settled_reservation_final_witness:
  "\<exists>w'. appendTimelineEvent \<lparr>ti_id = ''t'', ti_accountId = None, ti_resourceType = ''PAYMENT'', ti_resourceId = ''p1'',
       ti_eventType = ''E'', ti_actorType = ''SYSTEM'', ti_actorId = None, ti_requestId = None, ti_correlationId = None,
       ti_oldStateJson = None, ti_newStateJson = None, ti_source = ''s'', ti_occurredAt = None, ti_metadataJson = None\<rparr>
       (sample_world\<lparr>w_reservations := [consumed_reservation]\<rparr>) = Inr ((), w') \<and>
     consumed_reservation \<in> set (w_reservations w')"
proof -
  let ?l = "\<lparr>ti_id = ''t'', ti_accountId = None, ti_resourceType = ''PAYMENT'', ti_resourceId = ''p1'',
       ti_eventType = ''E'', ti_actorType = ''SYSTEM'', ti_actorId = None, ti_requestId = None, ti_correlationId = None,
       ti_oldStateJson = None, ti_newStateJson = None, ti_source = ''s'', ti_occurredAt = None, ti_metadataJson = None\<rparr>"
  let ?w = "sample_world\<lparr>w_reservations := [consumed_reservation]\<rparr>"
  obtain w' where run: "appendTimelineEvent ?l ?w = Inr ((), w')"
    by (auto simp: appendTimelineEvent_def createTimelineEvent_def bind_tx_def new_date_def return_tx_def insert_tx_def
        sample_world_def split: option.splits)
  have "consumed_reservation \<in> set (w_reservations w')"
    by (rule settled_reservation_final [OF st_service [OF st_other_tables [OF preservesD [OF append_only_ledger(3) run]]]])
      (simp_all add: consumed_reservation_def consume_data_def)
  with run show ?thesis by blast
qed

section \<open>Settling a payment\<close>



text \<open>A finalization takes effect once: after it succeeded, the same call fails with a
  concurrency conflict, so a retried or duplicated worker cannot settle a payment twice.\<close>

theorem finalization_not_repeated:
  assumes "finalizeV2Payment input w = Inr (v, w')" "system_ok w"
  shows "finalizeV2Payment input w' = Inl (DomainErr (ConflictError ''Payment terminalization changed concurrently''))"
proof -
  have I: "system_ok w'" by (rule tripleD [OF finalize_ok assms])
  obtain a' p' where A: "a' \<in> set (w_attempts w')" "att_id a' = fi_attemptId input"
    and own: "att_paymentId a' = fi_paymentId input"
    and P: "p' \<in> set (w_payments w')" "pay_id p' = fi_paymentId input" "pay_rowVersion p' = fi_paymentRowVersion input + 1"
    by (rule finalized_rows [OF assms(1)])
  have "List.find (\<lambda>q. pay_id q = fi_paymentId input) (w_payments w') = Some p'"
    using payments.find_unique [OF system_okD(1) [OF I] P(1)] P(2) by simp
  moreover have "List.find (\<lambda>q. att_id q = fi_attemptId input) (w_attempts w') = Some a'"
    using attempts.find_unique [OF system_okD(5) [OF I] A(1)] A(2) by simp
  ultimately show ?thesis
    using P own by (simp add: finalizeV2Payment_def finalize_check_def bind_tx_def find_or_throw_tx_def throw_if_tx_def
        return_tx_def throw_tx_def)
qed

theorem finalization_not_repeated_witness:
  "\<exists>v w'. finalizeV2Payment confirm_input (running_world ''SUBMITTED'') = Inr (v, w') \<and>
     finalizeV2Payment confirm_input w' = Inl (DomainErr (ConflictError ''Payment terminalization changed concurrently''))"
proof -
  obtain v w' where run: "finalizeV2Payment confirm_input (running_world ''SUBMITTED'') = Inr (v, w')"
    by (rule succeedsE [OF sample_confirmed])
  from finalization_not_repeated [OF run running_world_ok] run show ?thesis by blast
qed



text \<open>No attempt is opened beside one that may have had an effect: asking for a replacement
  while such an attempt of the payment exists fails with a conflict, and nothing is written.\<close>

theorem unsafe_replacement_refused:
  assumes "List.find (\<lambda>q. pay_id q = ra_paymentId input) (w_payments w) = Some p"
    and "pay_rowVersion p = ra_paymentRowVersion input"
    and "a \<in> set (w_attempts w)" "att_paymentId a = ra_paymentId input" "\<not> no_effect_name (att_outcome a)"
  shows "createReplacementAttempt input w = Inl (DomainErr (ConflictError
    ''Replacement attempt is unsafe while an earlier attempt may have an effect''))"
proof -
  have id: "pay_id p = ra_paymentId input" using find_SomeD [OF assms(1)] by simp
  have "list_ex (\<lambda>a. \<not> no_effect_name (att_outcome a)) (payment_attempts (ra_paymentId input) w)"
    using assms(3-5) by (auto simp: payment_attempts_def list_ex_iff)
  then show ?thesis
    using assms(1,2) id by (simp add: createReplacementAttempt_def bind_tx_def find_or_throw_tx_def throw_if_tx_def
        return_tx_def throw_tx_def gets_tx_def)
qed

definition replacement_input :: ReplacementAttemptInput where
  "replacement_input = \<lparr>ra_paymentId = ''p1'', ra_paymentRowVersion = 1, ra_attemptId = ''a2'', ra_workItemId = ''w2'',
     ra_route = sample_route\<rparr>"

theorem unsafe_replacement_refused_witness:
  "createReplacementAttempt replacement_input (running_world ''UNKNOWN'') = Inl (DomainErr (ConflictError
    ''Replacement attempt is unsafe while an earlier attempt may have an effect''))"
  by (rule unsafe_replacement_refused [where p = running_payment and a = "running_attempt ''UNKNOWN''"])
    (simp_all add: replacement_input_def running_world_def running_payment_def running_attempt_def payment_row_of_def
      sample_input_def first_attempt_def new_attempt_row_def no_effect_name_def Let_def)

text \<open>C37: a submitted attempt cannot be finalized as without effect: the progression table leads
  from a submission to a confirmation or to an unknown outcome only, so the call fails whatever else
  it says and the reservation stays as it was.\<close>

theorem submitted_no_effect_refused:
  assumes "fi_currentOutcome input = ''SUBMITTED''" "fi_nextOutcome input = ''PROVED_NO_EFFECT''"
  shows "\<exists>e. finalizeV2Payment input w = Inl e"
proof (rule ccontr)
  assume "\<nexists>e. finalizeV2Payment input w = Inl e"
  then obtain r where "finalizeV2Payment input w = Inr r" by (cases "finalizeV2Payment input w") auto
  moreover obtain v w' where "r = (v, w')" by (cases r)
  ultimately have "assert_progression_names ''SUBMITTED'' ''PROVED_NO_EFFECT'' = Inr ()"
    using finalized_rows [of input w v w'] assms by metis
  then show False
    by (simp add: assert_progression_names_def outcome_of_name_def result_simps)
qed

theorem submitted_no_effect_refused_witness:
  "\<exists>e. finalizeV2Payment (confirm_input\<lparr>fi_nextOutcome := ''PROVED_NO_EFFECT'', fi_paymentStatus := ''PROVED_NO_EFFECT'',
     fi_settlementState := ''NOT_SUBMITTED'', fi_outcomeState := ''PROVED_NO_EFFECT'', fi_reservation := RELEASE\<rparr>)
     (running_world ''SUBMITTED'') = Inl e"
  by (rule submitted_no_effect_refused) (simp_all add: confirm_input_def)

section \<open>The work queue\<close>

text \<open>A claim takes the first claimable item of its kind, by availability and then by
  identifier, leases it to the claimer for the asked time and spends exactly one attempt or one
  recovery.\<close>

theorem claim_takes_first:
  assumes "claimWorkItem input w = Inr (Some c, w')" "cl_now input = Some now" "works_ok w"
  shows "\<exists>row i. row \<in> set (w_works w) \<and> wi_id row = wc_id c \<and> claimable (cl_kind input) now row \<and>
     (\<forall>r \<in> set (w_works w). claimable (cl_kind input) now r \<longrightarrow> work_key row \<le> work_key r) \<and>
     i \<in> set (w_works w') \<and> wi_id i = wc_id c \<and> wi_status i = ''CLAIMED'' \<and>
     wi_leaseOwner i = Some (cl_owner input) \<and>
     wi_leaseExpiresAt i = Some (now + num_val (cl_leaseSeconds input) * 1000) \<and>
     wi_attemptCount i + wi_leaseRecoveryCount i = wi_attemptCount row + wi_leaseRecoveryCount row + 1"
  by (rule claimWorkItem_claims [OF assms])

definition claim_input :: ClaimInput where
  "claim_input = \<lparr>cl_kind = ''OUTGOING_PAYMENT'', cl_owner = ''worker'', cl_leaseSeconds = IntNum 30, cl_now = Some 60\<rparr>"

lemma sample_claimed: "succeeds (claimWorkItem claim_input) (running_world ''NOT_STARTED'') (\<lambda>c w'. c \<noteq> None)"
  by code_simp

theorem claim_takes_first_witness:
  "\<exists>c w' i. claimWorkItem claim_input (running_world ''NOT_STARTED'') = Inr (Some c, w') \<and> i \<in> set (w_works w') \<and>
     wi_leaseOwner i = Some ''worker'' \<and> wi_leaseExpiresAt i = Some 30060"
proof -
  obtain c w' where run: "claimWorkItem claim_input (running_world ''NOT_STARTED'') = Inr (Some c, w')"
    by (rule succeedsE [OF sample_claimed]) blast
  have i: "cl_now claim_input = Some 60" "cl_owner claim_input = ''worker''" "num_val (cl_leaseSeconds claim_input) = 30"
    by (simp_all add: claim_input_def)
  have "works_ok (running_world ''NOT_STARTED'')" by (rule system_okD(4) [OF running_world_ok])
  from claim_takes_first [OF run i(1) this] obtain j where "j \<in> set (w_works w')" "wi_leaseOwner j = Some ''worker''"
    "wi_leaseExpiresAt j = Some 30060"
    using i(2,3) by auto
  with run show ?thesis by blast
qed





text \<open>C17: a live lease is respected: while the lease of an item runs, no claim returns the item or
  changes its row, whatever other items it exhausts or claims.\<close>

theorem live_lease_respected:
  assumes "claimWorkItem input w = Inr (c, w')" "cl_now input = Some now" "works_ok w"
    and "r \<in> set (w_works w)" "wi_status r = ''CLAIMED''" "wi_leaseExpiresAt r = Some e" "now < e"
  shows "r \<in> set (w_works w') \<and> map_option wc_id c \<noteq> Some (wi_id r)"
  using claimWorkItem_leases [OF assms] by (cases c) auto

definition leased_row :: work_row where
  "leased_row = claim_data ''other'' 90 False 50 (payment_work sample_input running_payment 50)"

definition leased_world :: world where
  "leased_world = (running_world ''NOT_STARTED'')\<lparr>w_works := [leased_row]\<rparr>"

lemma sample_leased: "succeeds (claimWorkItem claim_input) leased_world (\<lambda>c w'. True)"
  by code_simp

lemma leased_world_ok: "works_ok leased_world"
  by (simp add: leased_world_def leased_row_def works_ok_def work_ok_def claim_data_def payment_work_def new_work_row_def)

theorem live_lease_respected_witness:
  "\<exists>c w'. claimWorkItem claim_input leased_world = Inr (c, w') \<and> leased_row \<in> set (w_works w')"
proof -
  obtain c w' where run: "claimWorkItem claim_input leased_world = Inr (c, w')"
    by (rule succeedsE [OF sample_leased])
  have "leased_row \<in> set (w_works leased_world)" "wi_status leased_row = ''CLAIMED''" "wi_leaseExpiresAt leased_row = Some 90"
    "cl_now claim_input = Some 60"
    by (simp_all add: leased_world_def leased_row_def claim_data_def claim_input_def)
  from live_lease_respected [OF run this(4) leased_world_ok this(1-3)] run show ?thesis by auto
qed

text \<open>The counters of a work item stay in bounds in every reachable world: it is tried at most
  the allowed number of times, recovered at most once and only after its last try, and it has an
  owner and a lease exactly while it is claimed.\<close>

theorem queue_counters_bounded:
  assumes "reachable w"
  shows "list_all work_ok (w_works w)"
  using system_okD(4) [OF system.invariant [OF assms]] by (simp add: works_ok_def list_all_iff)

theorem queue_counters_bounded_witness:
  "\<exists>r w'. createV2Payment sample_input sample_world = Inr (r, w') \<and> list_all work_ok (w_works w')"
proof -
  obtain r w' where run: "createV2Payment sample_input sample_world = Inr (r, w')" "reachable w'" by (rule sample_reachable)
  from queue_counters_bounded [OF run(2)] run(1) show ?thesis by blast
qed

text \<open>Only the owner of a live lease may finish an item: for anyone else completing, retrying,
  deferring and failing it all fail with a lost lease, and nothing is written.\<close>

theorem lease_required:
  assumes "\<not> list_ex (owns_lease itemId owner (w_clock w (w_ticks w))) (w_works w)"
    and "rw_id q = itemId" "rw_owner q = owner"
  shows "completeWorkItem itemId owner w = Inl lease_lost \<and> retryWorkItem q w = Inl lease_lost \<and>
    deferWorkItem q w = Inl lease_lost \<and> failWorkItem itemId owner c m w = Inl lease_lost"
proof -
  have none: "filter (owns_lease itemId owner (w_clock w (w_ticks w))) (w_works w) = []"
    using assms(1) by (auto simp: list_ex_iff filter_empty_conv)
  then have find: "List.find (owns_lease itemId owner (w_clock w (w_ticks w))) (w_works w) = None"
    by (auto simp: find_None_iff filter_empty_conv)
  have "lockOwnedWorkItem itemId owner w = Inl lease_lost"
    by (cases "List.find (\<lambda>i. wi_id i = itemId) (w_works w)")
      (simp_all add: lockOwnedWorkItem_def bind_tx_def find_tx_def gets_tx_def throw_if_tx_def throw_tx_def return_tx_def
        new_date_def find)
  moreover have "completeWorkItem itemId owner w = Inl lease_lost"
    by (simp add: completeWorkItem_def bind_tx_def new_date_def update_many_tx_def throw_if_tx_def throw_tx_def none)
  ultimately show ?thesis
    using assms(2,3) by (simp add: retryWorkItem_def deferWorkItem_def failWorkItem_def bind_tx_def)
qed

theorem lease_required_witness:
  "completeWorkItem ''w1'' ''worker'' leased_world = Inl lease_lost"
proof -
  have "\<not> list_ex (owns_lease ''w1'' ''worker'' (w_clock leased_world (w_ticks leased_world))) (w_works leased_world)"
    by (simp add: leased_world_def leased_row_def claim_data_def owns_lease_def)
  from lease_required [OF this, of "\<lparr>rw_id = ''w1'', rw_owner = ''worker'', rw_retryAt = 0, rw_errorCode = [],
      rw_errorSafe = [], rw_nextKind = None\<rparr>"]
  show ?thesis by simp
qed

text \<open>Giving up on a work item never touches a payment that is finished: only a payment without
  a terminal status is sent to review.\<close>

theorem exhaustion_spares_finished_payments:
  assumes "failWorkItem itemId owner c m w = Inr (u, w')" "system_ok w"
    and "p \<in> set (w_payments w)" "exhaustion_terminal (pay_status p)"
  shows "p \<in> set (w_payments w')"
proof -
  obtain item w1 where lock: "lockOwnedWorkItem itemId owner w = Inr (item, w1)"
    and mk: "markWorkItemExhausted item c m w1 = Inr ((), w')"
    using assms(1) by (auto simp: failWorkItem_def tx_simps)
  have "w_payments w1 = w_payments w" using lockOwnedWorkItem_Inr(1) [OF lock] by simp
  then show ?thesis
    using exhaustion_keeps_terminal [OF mk] system_okD(1) [OF assms(2)] assms(3,4) by simp
qed

definition finished_world :: world where
  "finished_world = (running_world ''CONFIRMED'')\<lparr>w_payments := [running_payment\<lparr>pay_status := PS_CONFIRMED\<rparr>],
     w_works := [leased_row\<lparr>wi_leaseExpiresAt := Some 900\<rparr>]\<rparr>"

lemma sample_failed: "succeeds (failWorkItem ''w1'' ''other'' ''E'' ''m'') finished_world (\<lambda>c w'. True)"
  by code_simp

lemma finished_world_ok: "system_ok finished_world"
  using running_world_ok [of "''CONFIRMED''"] leased_world_ok
  by (simp add: finished_world_def running_world_def leased_world_def leased_row_def system_ok_def works_ok_def
      work_ok_def claim_data_def attempts_ok_def)

theorem exhaustion_spares_finished_payments_witness:
  "\<exists>w'. failWorkItem ''w1'' ''other'' ''E'' ''m'' finished_world = Inr ((), w') \<and>
     running_payment\<lparr>pay_status := PS_CONFIRMED\<rparr> \<in> set (w_payments w')"
proof -
  obtain w' where run: "failWorkItem ''w1'' ''other'' ''E'' ''m'' finished_world = Inr ((), w')"
    by (rule succeedsE [OF sample_failed]) simp
  have "running_payment\<lparr>pay_status := PS_CONFIRMED\<rparr> \<in> set (w_payments w')"
    by (rule exhaustion_spares_finished_payments [OF run finished_world_ok])
      (simp_all add: finished_world_def exhaustion_terminal_def)
  with run show ?thesis by blast
qed

section \<open>The webhook outbox and stored values\<close>






text \<open>What the repository stores as text it reads back unchanged: the reason codes of a policy
  decision, the decision itself and the outcome of an attempt; the JSON texts are the ones the
  creation writes.\<close>

theorem stored_values_read_back:
  "parseStringArray (stringify (JArr (map JStr codes))) fieldName = Inr codes \<and>
   parsePolicyDecision (policy_decision_name d) = Inr d \<and> asAttemptOutcome (attempt_outcome_name out) = Inr out"
proof (intro conjI)
  show "parseStringArray (stringify (JArr (map JStr codes))) fieldName = Inr codes"
    unfolding parseStringArray_def parse_stringify_strings by simp
  show "parsePolicyDecision (policy_decision_name d) = Inr d"
    by (cases d) (simp_all add: parsePolicyDecision_def)
  show "asAttemptOutcome (attempt_outcome_name out) = Inr out"
    by (cases out) (simp_all add: asAttemptOutcome_def outcome_of_name_def)
qed

end
