(* ===== verification/Administration_Properties.thy ===== *)
theory Administration_Properties
  imports Administration Sample_World
begin

text \<open>
  What the lifecycle operations of the repository mean for the payments that follow, and that the
  pages of the payment list continue one another. Each property is followed by a witness.
\<close>

section \<open>Accounts\<close>

text \<open>A transition of an account takes effect once and at once: the same transition fails when it is
  repeated, and an account moved to a status other than active creates no payment, not even a replay.\<close>

theorem account_transition_effective:
  assumes "transitionAccount input w = Inr (u, w')" "distinct (map acc_id (w_accounts w))"
  shows "transitionAccount input w' = Inl (DomainErr (ConflictError ''Account lifecycle changed concurrently'')) \<and>
    (at_nextStatus input \<noteq> AA_ACTIVE \<longrightarrow> (\<forall>payment. ci_accountId payment = at_accountId input \<longrightarrow>
       createV2Payment payment w' = Inl (DomainErr (InvalidStateError ''Agent account is not active''))))"
proof -
  obtain a where a: "List.find (\<lambda>q. acc_id q = at_accountId input) (w_accounts w') = Some a"
    "acc_status a = at_nextStatus input" "acc_rowVersion a = at_rowVersion input + 1" "distinct (map acc_id (w_accounts w'))"
    by (rule transitionAccount_account [OF assms])
  have "transitionAccount input w' = Inl (DomainErr (ConflictError ''Account lifecycle changed concurrently''))"
    by (rule transitionAccount_stale [OF a(1,4)]) (simp add: a(3))
  then show ?thesis using a inactive_account_cannot_pay by simp
qed

definition disable_input :: AccountTransition where
  "disable_input = \<lparr>at_accountId = ''acc'', at_currentStatus = AA_ACTIVE, at_nextStatus = AA_DISABLED,
     at_rowVersion = 1, at_reason = None\<rparr>"

lemma sample_disabled: "succeeds (transitionAccount disable_input) sample_world (\<lambda>v w'. True)"
  by code_simp

theorem account_transition_effective_witness:
  "\<exists>w'. transitionAccount disable_input sample_world = Inr ((), w') \<and>
     createV2Payment sample_input w' = Inl (DomainErr (InvalidStateError ''Agent account is not active''))"
proof -
  obtain u w' where run: "transitionAccount disable_input sample_world = Inr (u, w')"
    by (rule succeedsE [OF sample_disabled])
  have "distinct (map acc_id (w_accounts sample_world))" "at_nextStatus disable_input \<noteq> AA_ACTIVE"
    "ci_accountId sample_input = at_accountId disable_input"
    by (simp_all add: sample_world_def disable_input_def sample_input_def)
  then show ?thesis using account_transition_effective [OF run] run by auto
qed

section \<open>Destinations\<close>

text \<open>C38: once an operator has revoked a destination, a payment to its fingerprint is created only with
  the decision to deny it, whatever decision the caller computed before.\<close>

theorem revoked_destination_not_paid:
  assumes "revokeApprovedDestination input w = Inr (u, w1)"
    and "distinct (map (\<lambda>d. (dst_accountId d, dst_fingerprint d)) (w_destinations w))" "distinct (map dst_id (w_destinations w))"
    and "d \<in> set (w_destinations w)" "dst_id d = dr_id input" "dst_accountId d = dr_accountId input"
    and "createV2Payment payment w1 = Inr (r, w2)" "cr_created r"
    and "ci_accountId payment = dr_accountId input" "ci_destinationFingerprint payment = dst_fingerprint d"
  shows "vd_decision (ci_policyDecision payment) = PD_DENY"
proof (rule ccontr)
  assume "vd_decision (ci_policyDecision payment) \<noteq> PD_DENY"
  then have "findApprovedDestination (ci_accountId payment) (ci_destinationFingerprint payment) w1 \<noteq> None"
    using creation_checked [OF assms(7,8)] by blast
  then show False
    using revoked_not_approved [OF assms(1,2,4,5) refl assms(6,3)] assms(9,10) by simp
qed

definition revoke_input :: DestinationRevoke where
  "revoke_input = \<lparr>dr_accountId = ''acc'', dr_id = ''d'', dr_actorId = ''op'', dr_reason = ''fraud''\<rparr>"

definition unapproved_input :: V2PaymentCreateInput where
  "unapproved_input = sample_input\<lparr>ci_policyDecision := (ci_policyDecision sample_input)
     \<lparr>vd_decision := PD_DENY, vd_reasonCodes := [''DESTINATION_NOT_APPROVED'']\<rparr>\<rparr>"

lemma sample_revoked:
  "succeeds (revokeApprovedDestination revoke_input) sample_world
     (\<lambda>v w'. succeeds (createV2Payment unapproved_input) w' (\<lambda>r w''. cr_created r))"
  by code_simp

theorem revoked_destination_not_paid_witness:
  "\<exists>w1 r w2. revokeApprovedDestination revoke_input sample_world = Inr ((), w1) \<and>
     createV2Payment unapproved_input w1 = Inr (r, w2) \<and> vd_decision (ci_policyDecision unapproved_input) = PD_DENY"
proof -
  obtain u w1 where run: "revokeApprovedDestination revoke_input sample_world = Inr (u, w1)"
    and "succeeds (createV2Payment unapproved_input) w1 (\<lambda>r w''. cr_created r)"
    by (rule succeedsE [OF sample_revoked])
  then obtain r w2 where pay: "createV2Payment unapproved_input w1 = Inr (r, w2)" "cr_created r"
    by (auto elim: succeedsE)
  let ?d = "hd (w_destinations sample_world)"
  have "vd_decision (ci_policyDecision unapproved_input) = PD_DENY"
    by (rule revoked_destination_not_paid [OF run _ _ _ _ _ pay, of ?d])
      (simp_all add: sample_world_def revoke_input_def unapproved_input_def sample_input_def)
  then show ?thesis using run pay by auto
qed

section \<open>Pages\<close>

text \<open>Following the cursor of the k-th payment of an account's list, newest first, gives the payments
  that come right after it: pages neither skip nor repeat a payment, even with equal creation times.\<close>

theorem pages_continue:
  assumes "distinct (map pay_id (w_payments w))" "opt_r payment_status_of_name (pl_status input) = Inr status"
    and "pl_outcomeState input = None" "pl_denominationId input = None"
    and "k < length (all_payments input status (w_payments w))"
  shows "listPayments (input\<lparr>pl_cursor := Some (cursor_of (all_payments input status (w_payments w) ! k))\<rparr>) w =
    Inr (take (pl_limit input) (drop (Suc k) (all_payments input status (w_payments w))), w)"
proof -
  have "input\<lparr>pl_cursor := c, pl_outcomeState := None, pl_denominationId := None\<rparr> = input\<lparr>pl_cursor := c\<rparr>" for c
    using assms(3,4) by (cases input) simp
  then show ?thesis
    using assms(2)
    by (simp add: listPayments_def find_page_def bind_tx_def lift_tx_def gets_tx_def return_tx_def
        page_at_cursor [OF assms(1,5)] map_idI [OF toV2PaymentSnapshot_def])
qed

definition listed_payment :: "string \<Rightarrow> int \<Rightarrow> payment_row" where
  "listed_payment i t = payment_row_of (sample_input\<lparr>ci_paymentId := i\<rparr>) t"

definition list_world :: world where
  "list_world = sample_world\<lparr>w_payments := [listed_payment ''a'' 5, listed_payment ''b'' 7, listed_payment ''c'' 5]\<rparr>"

definition list_input :: PaymentListInput where
  "list_input = \<lparr>pl_accountId = ''acc'', pl_limit = 2, pl_cursor = None, pl_status = None, pl_outcomeState = None,
     pl_recipientId = None, pl_denominationId = None\<rparr>"

theorem pages_continue_witness:
  "listPayments (list_input\<lparr>pl_cursor := Some \<lparr>pc_createdAt = 5, pc_id = ''c''\<rparr>\<rparr>) list_world =
     Inr ([listed_payment ''a'' 5], list_world)"
proof -
  have all: "all_payments list_input None (w_payments list_world) =
      [listed_payment ''b'' 7, listed_payment ''c'' 5, listed_payment ''a'' 5]" by code_simp
  have "distinct (map pay_id (w_payments list_world))" by code_simp
  then have "listPayments (list_input\<lparr>pl_cursor := Some (cursor_of (all_payments list_input None (w_payments list_world) ! 1))\<rparr>) list_world =
      Inr (take (pl_limit list_input) (drop (Suc 1) (all_payments list_input None (w_payments list_world))), list_world)"
    by (rule pages_continue) (simp_all only: all, simp_all add: list_input_def)
  moreover have "pay_createdAt (listed_payment ''c'' 5) = 5" "pay_id (listed_payment ''c'' 5) = ''c''" "pl_limit list_input = 2"
    by (simp_all add: listed_payment_def payment_row_of_def Let_def list_input_def)
  ultimately show ?thesis by (simp add: all cursor_of_def)
qed

end
