(* ===== verification/Retry.thy ===== *)
theory Retry
  imports Prelude Complex_Main
begin

text \<open>
  \<^verbatim>\<open>packages/core/src/retry.ts\<close>: the classification of work failures and the retry time.
  The doubles of \<^verbatim>\<open>computeRetryAt\<close> are rationals here, so the products are exact; a delay is
  an integer number of milliseconds after \<^verbatim>\<open>Math.round\<close>. The sample that \<^verbatim>\<open>random()\<close> returns is
  an argument.
\<close>

datatype WorkRetryClass = TRANSIENT | RETRY_AFTER | NO_RETRY | AMBIGUOUS_RECONCILIATION | CUSTODY_BOUNDED

record RetryDecision =
  rt_classification :: WorkRetryClass
  rt_reasonCode :: string
  rt_retryable :: bool

datatype Dependency = DEP_DB | DEP_RPC | DEP_CUSTODY | DEP_RAIL | DEP_WEBHOOK

fun classifyRailFailure :: "RailFailureKind \<Rightarrow> RetryDecision" where
  "classifyRailFailure DETERMINISTIC =
     \<lparr>rt_classification = NO_RETRY, rt_reasonCode = ''RAIL_DETERMINISTIC_FAILURE'', rt_retryable = False\<rparr>"
| "classifyRailFailure AMBIGUOUS =
     \<lparr>rt_classification = AMBIGUOUS_RECONCILIATION, rt_reasonCode = ''RAIL_OUTCOME_UNKNOWN'',
      rt_retryable = False\<rparr>"
| "classifyRailFailure RETRYABLE =
     \<lparr>rt_classification = TRANSIENT, rt_reasonCode = ''RAIL_TRANSIENT_FAILURE'', rt_retryable = True\<rparr>"

definition classify_dependency :: "Dependency \<Rightarrow> RetryDecision" where
  "classify_dependency dependency =
     (if dependency = DEP_RAIL \<or> dependency = DEP_RPC
      then \<lparr>rt_classification = AMBIGUOUS_RECONCILIATION, rt_reasonCode = ''DEPENDENCY_RESPONSE_UNKNOWN'',
            rt_retryable = False\<rparr>
      else \<lparr>rt_classification = (if dependency = DEP_CUSTODY then CUSTODY_BOUNDED else TRANSIENT),
            rt_reasonCode = ''DEPENDENCY_TEMPORARY_FAILURE'', rt_retryable = True\<rparr>)"

definition classifyWorkFailure :: "js_error \<Rightarrow> Dependency \<Rightarrow> RetryDecision" where
  "classifyWorkFailure error dependency =
     (case error of
        DomainErr (ExternalRailError _ kind _) \<Rightarrow> classifyRailFailure kind
      | DomainErr e \<Rightarrow>
          if error_code e = CUSTODY_UNAVAILABLE
          then \<lparr>rt_classification = CUSTODY_BOUNDED, rt_reasonCode = DOMAIN_ERROR_CODES (error_code e),
                rt_retryable = True\<rparr>
          else if error_code e \<in> {VALIDATION_ERROR, AUTHORIZATION_ERROR, INSUFFICIENT_FUNDS, NOT_FOUND,
                                  UNSUPPORTED_RAIL}
          then \<lparr>rt_classification = NO_RETRY, rt_reasonCode = DOMAIN_ERROR_CODES (error_code e),
                rt_retryable = False\<rparr>
          else classify_dependency dependency
      | _ \<Rightarrow> classify_dependency dependency)"

record RetryInput =
  ri_now :: int
  ri_attemptCount :: int
  ri_baseDelayMs :: "rat option"
  ri_maxDelayMs :: "rat option"
  ri_retryAfterMs :: "rat option"
  ri_jitterRatio :: "rat option"

definition js_round :: "rat \<Rightarrow> int" where
  "js_round x = \<lfloor>x + 1 / 2\<rfloor>"

definition exponential_delay :: "RetryInput \<Rightarrow> rat" where
  "exponential_delay input =
     min (case ri_maxDelayMs input of None \<Rightarrow> 60000 | Some d \<Rightarrow> d)
         ((case ri_baseDelayMs input of None \<Rightarrow> 500 | Some d \<Rightarrow> d) * 2 ^ nat (max 0 (ri_attemptCount input - 1)))"

definition computeRetryAt :: "RetryInput \<Rightarrow> rat \<Rightarrow> rat" where
  "computeRetryAt input random =
     (let exponential = exponential_delay input;
          jitterRatio = (case ri_jitterRatio input of None \<Rightarrow> 1 / 5 | Some r \<Rightarrow> r);
          jitter = exponential * jitterRatio * (random * 2 - 1);
          delay = max (case ri_retryAfterMs input of None \<Rightarrow> 0 | Some r \<Rightarrow> r)
                      (max 0 (of_int (js_round (exponential + jitter))))
      in of_int (ri_now input) + delay)"

section \<open>Lemmas\<close>

lemma js_round_bounds: "x - 1 / 2 < of_int (js_round x)" "of_int (js_round x) \<le> x + 1 / 2"
proof -
  show "of_int (js_round x) \<le> x + 1 / 2" unfolding js_round_def by (rule of_int_floor_le)
  have "x + 1 / 2 < of_int \<lfloor>x + 1 / 2\<rfloor> + 1" by linarith
  then show "x - 1 / 2 < of_int (js_round x)" unfolding js_round_def by linarith
qed

text \<open>A decision says retry exactly for the classes that are retried.\<close>

definition consistent_decision :: "RetryDecision \<Rightarrow> bool" where
  "consistent_decision r \<longleftrightarrow> (rt_retryable r \<longleftrightarrow> rt_classification r \<in> {TRANSIENT, CUSTODY_BOUNDED})"

lemma consistent_rail: "consistent_decision (classifyRailFailure k)"
  by (cases k) (simp_all add: consistent_decision_def)

lemma consistent_dependency: "consistent_decision (classify_dependency d)"
  by (simp add: consistent_decision_def classify_dependency_def)

lemma consistent_work_failure: "consistent_decision (classifyWorkFailure e d)"
proof (cases e)
  case (DomainErr de)
  show ?thesis
  proof (cases de)
    case (ExternalRailError m k ds)
    then show ?thesis by (simp add: classifyWorkFailure_def DomainErr consistent_rail)
  qed (simp_all add: classifyWorkFailure_def DomainErr consistent_dependency,
       simp_all add: consistent_decision_def)
qed (simp_all add: classifyWorkFailure_def consistent_dependency)

section \<open>Properties\<close>

definition base_delay :: "RetryInput \<Rightarrow> rat" where
  "base_delay input = (case ri_baseDelayMs input of None \<Rightarrow> 500 | Some d \<Rightarrow> d)"

definition max_delay :: "RetryInput \<Rightarrow> rat" where
  "max_delay input = (case ri_maxDelayMs input of None \<Rightarrow> 60000 | Some d \<Rightarrow> d)"

definition jitter_ratio :: "RetryInput \<Rightarrow> rat" where
  "jitter_ratio input = (case ri_jitterRatio input of None \<Rightarrow> 1 / 5 | Some r \<Rightarrow> r)"

lemma exponential_delay_range:
  assumes "0 \<le> base_delay input" "0 \<le> max_delay input"
  shows "0 \<le> exponential_delay input" "exponential_delay input \<le> max_delay input"
  using assms by (simp_all add: exponential_delay_def base_delay_def max_delay_def)

text \<open>With delays and a jitter ratio that are not negative and a random number between zero and
  one, a retry is never scheduled before now nor before the time a provider asked for, and without
  such a request never later than the largest delay, its jitter and half a millisecond of
  rounding.\<close>

theorem retry_time_bounded:
  assumes "0 \<le> random" "random \<le> 1" "0 \<le> base_delay input" "0 \<le> max_delay input" "0 \<le> jitter_ratio input"
  shows "of_int (ri_now input) \<le> computeRetryAt input random \<and>
    of_int (ri_now input) + (case ri_retryAfterMs input of None \<Rightarrow> 0 | Some a \<Rightarrow> a) \<le> computeRetryAt input random \<and>
    (ri_retryAfterMs input = None \<longrightarrow>
       computeRetryAt input random \<le> of_int (ri_now input) + max_delay input * (1 + jitter_ratio input) + 1 / 2)"
proof -
  let ?e = "exponential_delay input" and ?j = "jitter_ratio input" and ?m = "max_delay input"
  let ?x = "?e + ?e * ?j * (random * 2 - 1)"
  note E = exponential_delay_range [OF assms(3,4)]
  have "?e * ?j * (random * 2 - 1) \<le> ?e * ?j * 1"
    using E(1) assms by (intro mult_left_mono) auto
  also have "\<dots> \<le> ?m * ?j" using E(2) assms(5) by (simp add: mult_right_mono)
  finally have "?x \<le> ?m * (1 + ?j)" using E(2) by (simp add: algebra_simps)
  then have r: "of_int (js_round ?x) \<le> ?m * (1 + ?j) + 1 / 2"
    using js_round_bounds(2) [of ?x] by linarith
  have nn: "0 \<le> ?m * (1 + ?j) + 1 / 2"
    using assms(4,5) by (simp add: add_nonneg_nonneg)
  have c: "computeRetryAt input random = of_int (ri_now input) +
      max (case ri_retryAfterMs input of None \<Rightarrow> 0 | Some a \<Rightarrow> a) (max 0 (of_int (js_round ?x)))"
    by (simp add: computeRetryAt_def Let_def jitter_ratio_def)
  show ?thesis
    unfolding c using r nn by (auto simp: max_def)
qed

theorem retry_time_bounded_witness:
  "\<exists>input. computeRetryAt input (1 / 2) \<le> of_int (ri_now input) + 60000 * (1 + 1 / 5) + 1 / 2"
proof -
  let ?i = "\<lparr>ri_now = 7, ri_attemptCount = 3, ri_baseDelayMs = None, ri_maxDelayMs = None, ri_retryAfterMs = None,
    ri_jitterRatio = None\<rparr>"
  have "0 \<le> base_delay ?i" "0 \<le> max_delay ?i" "0 \<le> jitter_ratio ?i" "max_delay ?i = 60000" "jitter_ratio ?i = 1 / 5"
    by (simp_all add: base_delay_def max_delay_def jitter_ratio_def)
  then show ?thesis
    using retry_time_bounded [of "1 / 2" ?i] by (intro exI [of _ ?i]) simp
qed

text \<open>A failure is retried blindly only when it is classed as transient or as bounded by
  custody, and a response of the rail or of its network that was lost is never retried blindly: it
  goes to reconciliation.\<close>

theorem work_failure_classified:
  "(rt_retryable (classifyWorkFailure e d) \<longleftrightarrow>
      rt_classification (classifyWorkFailure e d) \<in> {TRANSIENT, CUSTODY_BOUNDED}) \<and>
   rt_classification (classifyWorkFailure (JsError m) DEP_RAIL) = AMBIGUOUS_RECONCILIATION \<and>
   rt_classification (classifyWorkFailure (JsError m) DEP_RPC) = AMBIGUOUS_RECONCILIATION \<and>
   rt_classification (classifyWorkFailure (DomainErr (ExternalRailError m AMBIGUOUS ds)) d) = AMBIGUOUS_RECONCILIATION"
  using consistent_work_failure [of e d]
  by (simp add: consistent_decision_def classifyWorkFailure_def classify_dependency_def)

end
