(* ===== verification/Outgoing_Effects.thy ===== *)
theory Outgoing_Effects
  imports Payment_Attempts Retry
begin

text \<open>
  The effect of an outgoing payment and its durable form, \<^verbatim>\<open>apps/api/src/outgoing-v2.ts\<close>: the
  prepared effect and the signed payload as they are stored with the attempt, the evidence of an
  observation, and the payment a work item is about. Key versions are integers. Bytes are strings of
  code units. The SHA-256 digest in hexadecimal, the parser of date strings (which the language
  leaves to the implementation outside the ISO format) and the decryption are arguments.
\<close>

section \<open>Objects\<close>

text \<open>A member of a parsed object: a later duplicate of a key replaces the earlier value.\<close>

definition obj_get :: "(string \<times> json) list \<Rightarrow> string \<Rightarrow> json option" where
  "obj_get ms k = map_of (rev ms) k"

fun obj_set :: "string \<Rightarrow> json \<Rightarrow> (string \<times> json) list \<Rightarrow> (string \<times> json) list" where
  "obj_set k v [] = [(k, v)]"
| "obj_set k v ((k', v') # ms) = (if k' = k then (k, v) # ms else (k', v') # obj_set k v ms)"

text \<open>\<^verbatim>\<open>{ ...base, ...additional }\<close>.\<close>

definition obj_spread :: "(string \<times> json) list \<Rightarrow> (string \<times> json) list \<Rightarrow> (string \<times> json) list" where
  "obj_spread base additional = fold (\<lambda>(k, v). obj_set k v) (base @ additional) []"

text \<open>The value of a numeral when it is an integer: sign, digits, fraction and exponent.\<close>

definition exponent_of :: "string \<Rightarrow> int" where
  "exponent_of s =
     (let d = drop 1 s
      in if take 1 d = ''-'' then - int (digits_val (drop 1 d))
         else if take 1 d = ''+'' then int (digits_val (drop 1 d))
         else int (digits_val d))"

definition numeral_int :: "string \<Rightarrow> int option" where
  "numeral_int s =
     (let negative = (take 1 s = ''-'');
          body = (if negative then drop 1 s else s);
          whole = takeWhile is_digit body;
          rest = dropWhile is_digit body;
          fraction = (if take 1 rest = ''.'' then takeWhile is_digit (drop 1 rest) else []);
          power = (if take 1 rest = ''.'' then dropWhile is_digit (drop 1 rest) else rest);
          ex = exponent_of power - int (length fraction);
          m = (if negative then - 1 else 1) * int (digits_val (whole @ fraction))
      in if 0 \<le> ex then Some (m * 10 ^ nat ex)
         else if m mod 10 ^ nat (- ex) = 0 then Some (m div 10 ^ nat (- ex))
         else None)"

section \<open>Prepared effects\<close>

record V2PlatformCostObservation =
  co_assetId :: string
  co_amountAtomic :: int

record V2PreparedEffect =
  pf_accountId :: string
  pf_paymentId :: string
  pf_attemptId :: string
  pf_correlationId :: "string option"
  pf_effectHash :: string
  pf_network :: string
  pf_assetReference :: string
  pf_destination :: string
  pf_amountAtomic :: int
  pf_feePayerIdentity :: string
  pf_keyVersion :: int
  pf_preparedPayload :: string
  pf_routeId :: string
  pf_payloadHash :: string
  pf_platformCostEstimate :: "V2PlatformCostObservation option"
  pf_validityExpiresAt :: "int option"
  pf_validitySlot :: "int option"

record ConstrainedSignedEffect =
  sg_effectHash :: string
  sg_keyVersion :: int
  sg_signedPayload :: string
  sg_externalId :: string

record EncryptedPayload =
  enc_ciphertext :: string
  enc_nonce :: string
  enc_authTag :: string

definition opt_member :: "string \<Rightarrow> ('a \<Rightarrow> json) \<Rightarrow> 'a option \<Rightarrow> (string \<times> json) list" where
  "opt_member k f x = (case x of None \<Rightarrow> [] | Some v \<Rightarrow> [(k, f v)])"

definition prepared_members :: "V2PreparedEffect \<Rightarrow> (string \<times> json) list" where
  "prepared_members prepared =
     [(''accountId'', JStr (pf_accountId prepared)), (''paymentId'', JStr (pf_paymentId prepared)),
      (''attemptId'', JStr (pf_attemptId prepared))] @
     opt_member ''correlationId'' JStr (pf_correlationId prepared) @
     [(''effectHash'', JStr (pf_effectHash prepared)), (''network'', JStr (pf_network prepared)),
      (''assetReference'', JStr (pf_assetReference prepared)), (''destination'', JStr (pf_destination prepared)),
      (''amountAtomic'', JStr (int_to_string (pf_amountAtomic prepared))),
      (''feePayerIdentity'', JStr (pf_feePayerIdentity prepared)), (''keyVersion'', json_int (pf_keyVersion prepared)),
      (''preparedPayload'', JStr (pf_preparedPayload prepared)), (''routeId'', JStr (pf_routeId prepared)),
      (''payloadHash'', JStr (pf_payloadHash prepared))] @
     opt_member ''platformCostEstimate'' (\<lambda>c. JObj [(''assetId'', JStr (co_assetId c)),
        (''amountAtomic'', JStr (int_to_string (co_amountAtomic c)))]) (pf_platformCostEstimate prepared) @
     opt_member ''validityExpiresAt'' (\<lambda>t. JStr (toISOString t)) (pf_validityExpiresAt prepared) @
     opt_member ''validitySlot'' (\<lambda>n. JStr (int_to_string n)) (pf_validitySlot prepared)"

definition serializePreparedEffect :: "V2PreparedEffect \<Rightarrow> string" where
  "serializePreparedEffect prepared = stringify (JObj (prepared_members prepared))"

definition readRequiredString :: "(string \<times> json) list \<Rightarrow> string \<Rightarrow> string result" where
  "readRequiredString value field =
     (case obj_get value field of
        Some (JStr s) \<Rightarrow> if s = [] then throwInvalidState ''Durable prepared effect metadata is incomplete'' else Inr s
      | _ \<Rightarrow> throwInvalidState ''Durable prepared effect metadata is incomplete'')"

definition parseOptionalString :: "json option \<Rightarrow> string option result" where
  "parseOptionalString value =
     (case value of
        None \<Rightarrow> Inr None
      | Some JNull \<Rightarrow> Inr None
      | Some (JStr s) \<Rightarrow>
          if s = [] \<or> length s > 128 then throwInvalidState ''Durable trace context is invalid'' else Inr (Some s)
      | Some _ \<Rightarrow> throwInvalidState ''Durable trace context is invalid'')"

definition parseOptionalDate :: "(string \<Rightarrow> int option) \<Rightarrow> json option \<Rightarrow> int option result" where
  "parseOptionalDate parseDate value =
     (case value of
        None \<Rightarrow> Inr None
      | Some (JStr s) \<Rightarrow>
          (case parseDate s of
             None \<Rightarrow> throwInvalidState ''Durable prepared effect validity is invalid''
           | Some t \<Rightarrow> Inr (Some t))
      | Some _ \<Rightarrow> throwInvalidState ''Durable prepared effect validity is invalid'')"

text \<open>\<^verbatim>\<open>/^\d+$/\<close>.\<close>

definition decimal_digits :: "string \<Rightarrow> bool" where
  "decimal_digits s \<longleftrightarrow> s \<noteq> [] \<and> all_digits s"

definition parseOptionalBigInt :: "json option \<Rightarrow> int option result" where
  "parseOptionalBigInt value =
     (case value of
        None \<Rightarrow> Inr None
      | Some (JStr s) \<Rightarrow>
          if decimal_digits s then Inr (Some (int (digits_val s)))
          else throwInvalidState ''Durable prepared effect slot is invalid''
      | Some _ \<Rightarrow> throwInvalidState ''Durable prepared effect slot is invalid'')"

definition parseOptionalPlatformCost :: "json option \<Rightarrow> V2PlatformCostObservation option result" where
  "parseOptionalPlatformCost value =
     (case value of
        None \<Rightarrow> Inr None
      | Some (JObj ms) \<Rightarrow>
          bind_r (readRequiredString ms ''assetId'') (\<lambda>assetId.
          bind_r (readRequiredString ms ''amountAtomic'') (\<lambda>amountAtomic.
          if decimal_digits amountAtomic
          then Inr (Some \<lparr>co_assetId = assetId, co_amountAtomic = int (digits_val amountAtomic)\<rparr>)
          else throwInvalidState ''Durable platform cost estimate is invalid''))
      | Some _ \<Rightarrow> throwInvalidState ''Durable platform cost estimate is invalid'')"

definition positive_integer :: "json option \<Rightarrow> int option" where
  "positive_integer value =
     (case value of
        Some (JNumber n) \<Rightarrow> (case numeral_int n of Some i \<Rightarrow> if i > 0 then Some i else None | None \<Rightarrow> None)
      | _ \<Rightarrow> None)"

definition read_prepared :: "(string \<Rightarrow> int option) \<Rightarrow> (string \<times> json) list \<Rightarrow> V2PreparedEffect result" where
  "read_prepared parseDate parsed =
     bind_r (readRequiredString parsed ''accountId'') (\<lambda>accountId.
     bind_r (readRequiredString parsed ''paymentId'') (\<lambda>paymentId.
     bind_r (readRequiredString parsed ''attemptId'') (\<lambda>attemptId.
     bind_r (parseOptionalString (obj_get parsed ''correlationId'')) (\<lambda>correlationId.
     bind_r (readRequiredString parsed ''effectHash'') (\<lambda>effectHash.
     bind_r (readRequiredString parsed ''network'') (\<lambda>network.
     bind_r (readRequiredString parsed ''assetReference'') (\<lambda>assetReference.
     bind_r (readRequiredString parsed ''destination'') (\<lambda>destination.
     bind_r (readRequiredString parsed ''feePayerIdentity'') (\<lambda>feePayerIdentity.
     bind_r (readRequiredString parsed ''preparedPayload'') (\<lambda>preparedPayload.
     bind_r (readRequiredString parsed ''routeId'') (\<lambda>routeId.
     bind_r (readRequiredString parsed ''payloadHash'') (\<lambda>payloadHash.
     bind_r (readRequiredString parsed ''amountAtomic'') (\<lambda>amountAtomic.
     case positive_integer (obj_get parsed ''keyVersion'') of
       None \<Rightarrow> throwInvalidState ''Durable prepared effect amount or key version is invalid''
     | Some keyVersion \<Rightarrow>
     bind_r (throw_if (\<not> decimal_digits amountAtomic)
       (DomainErr (InvalidStateError ''Durable prepared effect amount or key version is invalid''))) (\<lambda>_.
     bind_r (parseOptionalDate parseDate (obj_get parsed ''validityExpiresAt'')) (\<lambda>validityExpiresAt.
     bind_r (parseOptionalBigInt (obj_get parsed ''validitySlot'')) (\<lambda>validitySlot.
     bind_r (parseOptionalPlatformCost (obj_get parsed ''platformCostEstimate'')) (\<lambda>platformCostEstimate.
     Inr \<lparr>pf_accountId = accountId, pf_paymentId = paymentId, pf_attemptId = attemptId,
       pf_correlationId = correlationId, pf_effectHash = effectHash, pf_network = network,
       pf_assetReference = assetReference, pf_destination = destination,
       pf_amountAtomic = int (digits_val amountAtomic), pf_feePayerIdentity = feePayerIdentity,
       pf_keyVersion = keyVersion, pf_preparedPayload = preparedPayload, pf_routeId = routeId,
       pf_payloadHash = payloadHash, pf_platformCostEstimate = platformCostEstimate,
       pf_validityExpiresAt = validityExpiresAt, pf_validitySlot = validitySlot\<rparr>)))))))))))))))))"

definition restorePreparedEffect ::
    "(string \<Rightarrow> int option) \<Rightarrow> V2PaymentAttemptSnapshot \<Rightarrow> V2PreparedEffect option result" where
  "restorePreparedEffect parseDate attempt =
     (case as_preparedEffectJson attempt of
        None \<Rightarrow> Inr None
      | Some serialized \<Rightarrow>
          (case JSON_parse serialized of
             None \<Rightarrow> throwInvalidState ''Durable prepared effect metadata is invalid JSON''
           | Some (JObj parsed) \<Rightarrow> bind_r (read_prepared parseDate parsed) (\<lambda>p. Inr (Some p))
           | Some _ \<Rightarrow> throwInvalidState ''Durable prepared effect metadata is incomplete''))"

section \<open>Signed effects\<close>

definition serializeEncryptedPayload :: "EncryptedPayload \<Rightarrow> string" where
  "serializeEncryptedPayload value = stringify (JObj
     [(''ciphertext'', JStr (enc_ciphertext value)), (''nonce'', JStr (enc_nonce value)),
      (''authTag'', JStr (enc_authTag value))])"

definition restoreSignedEffect ::
    "(string \<Rightarrow> string) \<Rightarrow> (EncryptedPayload \<Rightarrow> string result) \<Rightarrow> string \<Rightarrow> V2PreparedEffect \<Rightarrow>
     string option \<Rightarrow> string option \<Rightarrow> ConstrainedSignedEffect result" where
  "restoreSignedEffect hashBytes decrypt serialized prepared expectedExternalId expectedPayloadHash =
     (case (expectedExternalId, expectedPayloadHash) of
        (Some externalId, Some payloadHash) \<Rightarrow>
          (case JSON_parse serialized of
             None \<Rightarrow> throwInvalidState ''Durable signed effect metadata is invalid JSON''
           | Some parsed \<Rightarrow>
               (case (case parsed of JObj ms \<Rightarrow> (obj_get ms ''ciphertext'', obj_get ms ''nonce'', obj_get ms ''authTag'')
                      | _ \<Rightarrow> (None, None, None)) of
                  (Some (JStr c), Some (JStr n), Some (JStr t)) \<Rightarrow>
                    bind_r (decrypt \<lparr>enc_ciphertext = c, enc_nonce = n, enc_authTag = t\<rparr>) (\<lambda>signedPayload.
                    bind_r (throw_if (hashBytes signedPayload \<noteq> payloadHash)
                      (DomainErr (InvalidStateError ''Durable signed effect hash does not match its payload''))) (\<lambda>_.
                    Inr \<lparr>sg_effectHash = pf_effectHash prepared, sg_keyVersion = pf_keyVersion prepared,
                      sg_signedPayload = signedPayload, sg_externalId = externalId\<rparr>))
                | _ \<Rightarrow> throwInvalidState ''Durable signed effect metadata is incomplete''))
      | _ \<Rightarrow> throwInvalidState ''Durable signed effect is missing its identity'')"

section \<open>Evidence\<close>

record EvidenceFields =
  ef_expectedExternalId :: "string option"
  ef_payloadHash :: "string option"
  ef_metadataJson :: string

definition evidenceFields ::
    "V2PaymentAttemptSnapshot \<Rightarrow> V2PreparedEffect option \<Rightarrow> string option \<Rightarrow> EvidenceFields" where
  "evidenceFields attempt prepared expectedExternalId =
     \<lparr>ef_expectedExternalId = expectedExternalId,
      ef_payloadHash = (case as_signedPayloadHash attempt of
         None \<Rightarrow> map_option pf_payloadHash prepared | Some h \<Rightarrow> Some h),
      ef_metadataJson = stringify (JObj
        (opt_member ''prepared_effect_hash'' JStr (as_preparedEffectHash attempt) @
         opt_member ''prepared_payload_hash'' (\<lambda>p. JStr (pf_payloadHash p)) prepared @
         opt_member ''signed_payload_hash'' JStr (as_signedPayloadHash attempt) @
         opt_member ''validity_expires_at'' (\<lambda>t. JStr (toISOString t)) (as_validityExpiresAt attempt) @
         opt_member ''validity_slot'' (\<lambda>n. JStr (int_to_string n)) (as_validitySlot attempt)))\<rparr>"

definition mergeEvidenceMetadata :: "string \<Rightarrow> string \<Rightarrow> string result" where
  "mergeEvidenceMetadata baseJson additionalJson =
     (case (JSON_parse baseJson, JSON_parse additionalJson) of
        (Some (JObj base), Some (JObj additional)) \<Rightarrow> Inr (stringify (JObj (obj_spread base additional)))
      | (Some _, Some _) \<Rightarrow> throwInvalidState ''Settlement evidence metadata must be objects''
      | _ \<Rightarrow> throwInvalidState ''Settlement evidence metadata is invalid JSON'')"

definition platformCostRecordId :: "(string \<Rightarrow> string) \<Rightarrow> string \<Rightarrow> string \<Rightarrow> string" where
  "platformCostRecordId sha256 attemptId effectHash = ''cost_'' @ take 59 (sha256 (attemptId @ '':'' @ effectHash))"

section \<open>Failures\<close>

definition failureMessageSafe :: "js_error \<Rightarrow> string" where
  "failureMessageSafe error =
     (case error of
        DomainErr (ExternalRailError message _ _) \<Rightarrow>
          (let detail = take 256 (trim message)
           in if detail = [] then ''Outgoing execution failed before submission''
              else ''Outgoing execution failed before submission: '' @ detail)
      | _ \<Rightarrow> ''Outgoing execution failed before submission'')"

definition retryAtAfter :: "int \<Rightarrow> int \<Rightarrow> int" where
  "retryAtAfter preferredRetryAt fallbackRetryAt =
     (if preferredRetryAt \<ge> fallbackRetryAt then preferredRetryAt else fallbackRetryAt)"

section \<open>The durable form is read back\<close>

lemma obj_get_simps [simp]:
  "obj_get [] k = None"
  "obj_get ((k', v) # ms) k = (case obj_get ms k of Some x \<Rightarrow> Some x | None \<Rightarrow> if k' = k then Some v else None)"
  "obj_get (xs @ ys) k = (case obj_get ys k of Some x \<Rightarrow> Some x | None \<Rightarrow> obj_get xs k)"
  by (auto simp: obj_get_def map_add_def split: option.splits)

lemma obj_get_opt_member [simp]:
  "obj_get (opt_member k f x) k' = (if k = k' then map_option f x else None)"
  by (auto simp: opt_member_def split: option.splits)

lemma numeral_int_to_string:
  assumes "0 \<le> i"
  shows "numeral_int (int_to_string i) = Some i"
proof -
  let ?s = "nat_to_string (nat i)"
  have s: "int_to_string i = ?s" using assms by (simp add: int_to_string_def)
  have d: "\<And>c. c \<in> set ?s \<Longrightarrow> is_digit c"
    using all_digits_nat_to_string [of "nat i"] by (simp add: all_digits_def list_all_iff)
  obtain c t where c: "?s = c # t" using nat_to_string_nonempty by (metis neq_Nil_conv)
  have "is_digit c" using d c by simp
  then have "c \<noteq> CHR ''-''" by (auto simp: is_digit_def code_unit_def)
  then have "take 1 ?s \<noteq> ''-''" using c by simp
  moreover have "takeWhile is_digit ?s = ?s"
    unfolding takeWhile_eq_all_conv using d by blast
  moreover have "dropWhile is_digit ?s = []"
    unfolding dropWhile_eq_Nil_conv using d by blast
  moreover have "exponent_of [] = 0" by (simp add: exponent_of_def)
  moreover have "int (digits_val ?s) = i" using assms by simp
  ultimately show ?thesis
    unfolding numeral_int_def s Let_def by (simp only: if_False if_True take_Nil) simp
qed

lemma decimal_digits_int [simp]: "0 \<le> i \<Longrightarrow> decimal_digits (int_to_string i)"
  "0 \<le> i \<Longrightarrow> int (digits_val (int_to_string i)) = i"
  by (simp_all add: decimal_digits_def int_to_string_def)

text \<open>The effects that can be stored: what \<open>restorePreparedEffect\<close> checks of the fields.\<close>

definition storable :: "V2PreparedEffect \<Rightarrow> bool" where
  "storable p \<longleftrightarrow> pf_accountId p \<noteq> [] \<and> pf_paymentId p \<noteq> [] \<and> pf_attemptId p \<noteq> [] \<and> pf_effectHash p \<noteq> [] \<and>
     pf_network p \<noteq> [] \<and> pf_assetReference p \<noteq> [] \<and> pf_destination p \<noteq> [] \<and> pf_feePayerIdentity p \<noteq> [] \<and>
     pf_preparedPayload p \<noteq> [] \<and> pf_routeId p \<noteq> [] \<and> pf_payloadHash p \<noteq> [] \<and>
     (case pf_correlationId p of None \<Rightarrow> True | Some c \<Rightarrow> c \<noteq> [] \<and> length c \<le> 128) \<and>
     0 \<le> pf_amountAtomic p \<and> 0 < pf_keyVersion p \<and>
     (case pf_platformCostEstimate p of None \<Rightarrow> True | Some c \<Rightarrow> co_assetId c \<noteq> [] \<and> 0 \<le> co_amountAtomic c) \<and>
     (case pf_validitySlot p of None \<Rightarrow> True | Some n \<Rightarrow> 0 \<le> n)"

lemma int_to_string_nonempty [simp]: "int_to_string i \<noteq> []"
  by (simp add: int_to_string_def)

lemma plain_prepared: "plain_json (JObj (prepared_members p))"
  by (auto simp: prepared_members_def opt_member_def json_int_def split: option.splits)

lemma optional_parts:
  "storable p \<Longrightarrow> parseOptionalString (map_option JStr (pf_correlationId p)) = Inr (pf_correlationId p)"
  "storable p \<Longrightarrow> parseOptionalBigInt (map_option (\<lambda>n. JStr (int_to_string n)) (pf_validitySlot p)) = Inr (pf_validitySlot p)"
  "storable p \<Longrightarrow> parseOptionalPlatformCost (map_option (\<lambda>c. JObj [(''assetId'', JStr (co_assetId c)),
      (''amountAtomic'', JStr (int_to_string (co_amountAtomic c)))]) (pf_platformCostEstimate p)) =
    Inr (pf_platformCostEstimate p)"
  by (auto simp: storable_def parseOptionalString_def parseOptionalBigInt_def parseOptionalPlatformCost_def
      readRequiredString_def split: option.splits)

lemma optional_date:
  "(\<And>t. x = Some t \<Longrightarrow> parseDate (toISOString t) = Some t) \<Longrightarrow>
   parseOptionalDate parseDate (map_option (\<lambda>t. JStr (toISOString t)) x) = Inr x"
  by (cases x) (simp_all add: parseOptionalDate_def)

lemma read_prepared_members:
  assumes "storable p" "\<And>t. pf_validityExpiresAt p = Some t \<Longrightarrow> parseDate (toISOString t) = Some t"
  shows "read_prepared parseDate (prepared_members p) = Inr p"
proof -
  have req: "readRequiredString (prepared_members p) ''accountId'' = Inr (pf_accountId p)"
    "readRequiredString (prepared_members p) ''paymentId'' = Inr (pf_paymentId p)"
    "readRequiredString (prepared_members p) ''attemptId'' = Inr (pf_attemptId p)"
    "readRequiredString (prepared_members p) ''effectHash'' = Inr (pf_effectHash p)"
    "readRequiredString (prepared_members p) ''network'' = Inr (pf_network p)"
    "readRequiredString (prepared_members p) ''assetReference'' = Inr (pf_assetReference p)"
    "readRequiredString (prepared_members p) ''destination'' = Inr (pf_destination p)"
    "readRequiredString (prepared_members p) ''feePayerIdentity'' = Inr (pf_feePayerIdentity p)"
    "readRequiredString (prepared_members p) ''preparedPayload'' = Inr (pf_preparedPayload p)"
    "readRequiredString (prepared_members p) ''routeId'' = Inr (pf_routeId p)"
    "readRequiredString (prepared_members p) ''payloadHash'' = Inr (pf_payloadHash p)"
    "readRequiredString (prepared_members p) ''amountAtomic'' = Inr (int_to_string (pf_amountAtomic p))"
    using assms(1) by (simp_all add: readRequiredString_def prepared_members_def storable_def)
  have key: "positive_integer (obj_get (prepared_members p) ''keyVersion'') = Some (pf_keyVersion p)"
    using assms(1) numeral_int_to_string [of "pf_keyVersion p"]
    by (simp add: positive_integer_def prepared_members_def json_int_def storable_def)
  have opt: "obj_get (prepared_members p) ''correlationId'' = map_option JStr (pf_correlationId p)"
    "obj_get (prepared_members p) ''validityExpiresAt'' = map_option (\<lambda>t. JStr (toISOString t)) (pf_validityExpiresAt p)"
    "obj_get (prepared_members p) ''validitySlot'' = map_option (\<lambda>n. JStr (int_to_string n)) (pf_validitySlot p)"
    "obj_get (prepared_members p) ''platformCostEstimate'' =
      map_option (\<lambda>c. JObj [(''assetId'', JStr (co_assetId c)),
        (''amountAtomic'', JStr (int_to_string (co_amountAtomic c)))]) (pf_platformCostEstimate p)"
    by (simp_all add: prepared_members_def split: option.splits)
  have "0 \<le> pf_amountAtomic p" using assms(1) by (simp add: storable_def)
  then show ?thesis
    unfolding read_prepared_def
    by (simp add: req key opt optional_parts [OF assms(1)] optional_date [OF assms(2)] throw_if_def)
qed

lemma restore_serialized:
  assumes "as_preparedEffectJson attempt = Some (serializePreparedEffect p)" "storable p"
    and "\<And>t. pf_validityExpiresAt p = Some t \<Longrightarrow> parseDate (toISOString t) = Some t"
  shows "restorePreparedEffect parseDate attempt = Inr (Some p)"
  using assms(1) read_prepared_members [OF assms(2,3)]
  by (simp add: restorePreparedEffect_def serializePreparedEffect_def parse_stringify [OF plain_prepared]
      del: stringify.simps)

lemma restore_signed:
  assumes "decrypt enc = Inr payload"
  shows "restoreSignedEffect hash decrypt (serializeEncryptedPayload enc) p (Some ext) (Some h) =
    (if hash payload = h
     then Inr \<lparr>sg_effectHash = pf_effectHash p, sg_keyVersion = pf_keyVersion p, sg_signedPayload = payload, sg_externalId = ext\<rparr>
     else throwInvalidState ''Durable signed effect hash does not match its payload'')"
  using assms
  by (cases enc) (simp add: restoreSignedEffect_def serializeEncryptedPayload_def parse_stringify throw_if_def
      del: stringify.simps)

end
