(* ===== verification/Outgoing_Worker.thy ===== *)
theory Outgoing_Worker
  imports Outgoing_Effects Administration Work_Queue
begin

text \<open>
  The worker that executes payments, \<^verbatim>\<open>apps/api/src/outgoing-v2.ts\<close>. A process runs one
  transaction of the repository after another; what it reads in one may have changed before the next.
  A process is a function from a world to a result and the next world, which keeps the writes of the
  transactions that succeeded when a later one fails. The options of the worker are its parameters:
  the rail, the custody service, the cipher, the capacity controller and the account status; each may
  itself change the world. \<open>wk_others\<close> is what the other processes do before a transaction of this
  one, the renewal of the lease included. Logging, metrics and the wiping of signed bytes are left
  out, and the queries of one repository call are taken together.
\<close>

section \<open>Processes\<close>

type_synonym 'a proc = "world \<Rightarrow> 'a result \<times> world"

definition return_p :: "'a \<Rightarrow> 'a proc" where
  "return_p x = (\<lambda>w. (Inr x, w))"

definition throw_p :: "js_error \<Rightarrow> 'a proc" where
  "throw_p e = (\<lambda>w. (Inl e, w))"

definition bind_p :: "'a proc \<Rightarrow> ('a \<Rightarrow> 'b proc) \<Rightarrow> 'b proc" where
  "bind_p m k = (\<lambda>w. case m w of (Inl e, w') \<Rightarrow> (Inl e, w') | (Inr x, w') \<Rightarrow> k x w')"

definition try_p :: "'a proc \<Rightarrow> (js_error \<Rightarrow> 'a proc) \<Rightarrow> 'a proc" where
  "try_p m h = (\<lambda>w. case m w of (Inl e, w') \<Rightarrow> h e w' | (Inr x, w') \<Rightarrow> (Inr x, w'))"

definition lift_p :: "'a result \<Rightarrow> 'a proc" where
  "lift_p r = (\<lambda>w. (r, w))"

definition throw_if_p :: "bool \<Rightarrow> js_error \<Rightarrow> unit proc" where
  "throw_if_p b e = (if b then throw_p e else return_p ())"

text \<open>A transaction as a process: an error undoes its writes.\<close>

definition commit :: "'a tx \<Rightarrow> 'a proc" where
  "commit m = (\<lambda>w. case m w of Inl e \<Rightarrow> (Inl e, w) | Inr (x, w') \<Rightarrow> (Inr x, w'))"

definition when_allowed :: "bool proc \<Rightarrow> unit proc \<Rightarrow> unit proc" where
  "when_allowed check next = bind_p check (\<lambda>allowed. if allowed then next else return_p ())"

section \<open>Options\<close>

datatype SubmissionStatus = SUB_SUBMITTED | SUB_CONFIRMED | SUB_FAILED | SUB_UNKNOWN

record SubmissionResult =
  sub_status :: SubmissionStatus
  sub_externalId :: "string option"
  sub_failureCode :: "string option"
  sub_failureMessageSafe :: "string option"
  sub_platformCostActual :: "V2PlatformCostObservation option"
  sub_evidenceMetadataJson :: "string option"

datatype ReconciliationStatus = REC_CONFIRMED | REC_PROVED_NO_EFFECT | REC_UNKNOWN

record ReconciliationResult =
  rec_status :: ReconciliationStatus
  rec_externalId :: "string option"
  rec_platformCostActual :: "V2PlatformCostObservation option"
  rec_evidenceMetadataJson :: "string option"

record SigningRequest =
  sq_id :: string
  sq_effectHash :: string
  sq_status :: string

record SigningRequestInput =
  si_id :: string
  si_paymentId :: string
  si_attemptId :: string
  si_effectHash :: string
  si_routeId :: string
  si_network :: string
  si_assetReference :: string
  si_destination :: string
  si_amountAtomic :: int
  si_feePayerIdentity :: string
  si_keyVersion :: int
  si_serviceIdentity :: string

record Custody =
  cu_findActiveCustodyKeyVersion :: "string \<Rightarrow> int option proc"
  cu_findSigningRequest :: "string \<Rightarrow> SigningRequest option proc"
  cu_createSigningRequest :: "SigningRequestInput \<Rightarrow> SigningRequest proc"
  cu_completeSigningRequest :: "string \<Rightarrow> string \<Rightarrow> string \<Rightarrow> unit proc"

record CostEstimateInput =
  ce_id :: string
  ce_accountId :: string
  ce_paymentId :: string
  ce_attemptId :: string
  ce_assetId :: string
  ce_estimatedAmount :: int

record PlatformCosts =
  pco_createPlatformCostEstimate :: "CostEstimateInput \<Rightarrow> unit proc"
  pco_reconcilePlatformCost :: "string \<Rightarrow> int \<Rightarrow> int \<Rightarrow> unit proc"

record WalletSecretCipher =
  ci_encrypt :: "string \<Rightarrow> EncryptedPayload proc"
  ci_decrypt :: "EncryptedPayload \<Rightarrow> string result"

datatype CapacityDependency = CAP_DATABASE | CAP_RPC | CAP_CUSTODY | CAP_RAIL | CAP_WEBHOOK

record CapacityResult =
  cap_allowed :: bool
  cap_retryAt :: int

fun capacity_name :: "CapacityDependency \<Rightarrow> string" where
  "capacity_name CAP_DATABASE = ''database''"
| "capacity_name CAP_RPC = ''rpc''"
| "capacity_name CAP_CUSTODY = ''custody''"
| "capacity_name CAP_RAIL = ''rail''"
| "capacity_name CAP_WEBHOOK = ''webhook''"

record V2OutgoingWorkerOptions =
  wk_others :: "world \<Rightarrow> world"
  wk_getStatus :: "string \<Rightarrow> AgentAccountLifecycleStatus proc"
  wk_prepare :: "V2PaymentView \<Rightarrow> V2PaymentAttemptSnapshot \<Rightarrow> V2PreparedEffect proc"
  wk_sign :: "V2PreparedEffect \<Rightarrow> ConstrainedSignedEffect proc"
  wk_submit :: "V2PreparedEffect \<Rightarrow> ConstrainedSignedEffect \<Rightarrow> SubmissionResult proc"
  wk_reconcile :: "(V2PaymentView \<Rightarrow> V2PaymentAttemptSnapshot \<Rightarrow> string option \<Rightarrow> ReconciliationResult proc) option"
  wk_custody :: "Custody option"
  wk_platformCosts :: "PlatformCosts option"
  wk_signedPayloadCipher :: "WalletSecretCipher option"
  wk_serviceIdentity :: "string option"
  wk_capacity :: "(CapacityDependency \<Rightarrow> int \<Rightarrow> CapacityResult proc) option"
  wk_reconcileMode :: bool
  wk_owner :: string
  wk_leaseSeconds :: "number option"
  wk_batchSize :: "int option"
  wk_sha256 :: "string \<Rightarrow> string"
  wk_parseDate :: "string \<Rightarrow> int option"
  wk_random :: "world \<Rightarrow> rat"
  wk_localeCompare :: "string \<Rightarrow> string \<Rightarrow> int"

text \<open>A call of the repository, after whatever the other processes have done.\<close>

definition call :: "V2OutgoingWorkerOptions \<Rightarrow> 'a tx \<Rightarrow> 'a proc" where
  "call opts m = (\<lambda>w. commit m (wk_others opts w))"

definition this_now :: "int proc" where
  "this_now = commit new_date"

definition randomUUID :: "string proc" where
  "randomUUID = commit randomId"

section \<open>The work item\<close>

definition paymentIdFromClaim :: "V2WorkItemClaim \<Rightarrow> string result" where
  "paymentIdFromClaim claim =
     (if wc_resourceType claim = ''PAYMENT'' then Inr (wc_resourceId claim)
      else case JSON_parse (wc_payloadJson claim) of
          None \<Rightarrow> throwInvalidState ''Outgoing work item payload is invalid JSON''
        | Some (JObj payload) \<Rightarrow>
            (case obj_get payload ''payment_id'' of
               Some (JStr s) \<Rightarrow> if s = [] then throwInvalidState ''Outgoing work item payload has no payment id'' else Inr s
             | _ \<Rightarrow> throwInvalidState ''Outgoing work item payload has no payment id'')
        | Some _ \<Rightarrow> throwInvalidState ''Outgoing work item payload has no payment id'')"

definition complete_claim :: "V2OutgoingWorkerOptions \<Rightarrow> V2WorkItemClaim \<Rightarrow> unit proc" where
  "complete_claim opts claim = call opts (completeWorkItem (wc_id claim) (wk_owner opts))"

definition fail_claim :: "V2OutgoingWorkerOptions \<Rightarrow> V2WorkItemClaim \<Rightarrow> string \<Rightarrow> string \<Rightarrow> unit proc" where
  "fail_claim opts claim errorCode errorSafe = call opts (failWorkItem (wc_id claim) (wk_owner opts) errorCode errorSafe)"

text \<open>\<^verbatim>\<open>computeRetryAt({ now: this.now(), attemptCount: claim.attemptCount })\<close>; a \<^verbatim>\<open>Date\<close> drops the
  fraction of a millisecond.\<close>

definition date_of_number :: "rat \<Rightarrow> int" where
  "date_of_number r = (if 0 \<le> r then \<lfloor>r\<rfloor> else \<lceil>r\<rceil>)"

definition next_retry :: "V2OutgoingWorkerOptions \<Rightarrow> V2WorkItemClaim \<Rightarrow> int proc" where
  "next_retry opts claim =
     bind_p this_now (\<lambda>now. \<lambda>w. (Inr (date_of_number (computeRetryAt
       \<lparr>ri_now = now, ri_attemptCount = wc_attemptCount claim, ri_baseDelayMs = None, ri_maxDelayMs = None,
        ri_retryAfterMs = None, ri_jitterRatio = None\<rparr> (wk_random opts w))), w))"

definition retry_claim ::
    "V2OutgoingWorkerOptions \<Rightarrow> V2WorkItemClaim \<Rightarrow> int \<Rightarrow> string \<Rightarrow> string \<Rightarrow> string option \<Rightarrow> unit proc" where
  "retry_claim opts claim retryAt errorCode errorSafe nextKind = call opts (retryWorkItem
     \<lparr>rw_id = wc_id claim, rw_owner = wk_owner opts, rw_retryAt = retryAt, rw_errorCode = errorCode,
      rw_errorSafe = errorSafe, rw_nextKind = nextKind\<rparr>)"

definition reconciliationKindFor :: "V2WorkItemClaim \<Rightarrow> string option" where
  "reconciliationKindFor claim =
     (if wc_kind claim = ''OUTGOING_PAYMENT_ATTEMPT'' \<or> wc_kind claim = ''OUTGOING_PAYMENT''
      then Some ''RECONCILE_PAYMENT_ATTEMPT'' else None)"

definition requeueForOutgoing :: "V2OutgoingWorkerOptions \<Rightarrow> V2WorkItemClaim \<Rightarrow> unit proc" where
  "requeueForOutgoing opts claim =
     bind_p this_now (\<lambda>now.
     retry_claim opts claim now ''OUTGOING_WORK_ITEM_ROUTED_TO_EXECUTOR''
       ''Work item requires the outgoing execution role'' (Some ''OUTGOING_PAYMENT_ATTEMPT''))"

definition acquireCapacity ::
    "V2OutgoingWorkerOptions \<Rightarrow> V2WorkItemClaim \<Rightarrow> CapacityDependency \<Rightarrow> bool proc" where
  "acquireCapacity opts claim dependency =
     (case wk_capacity opts of
        None \<Rightarrow> return_p True
      | Some acquire \<Rightarrow>
          bind_p this_now (\<lambda>now.
          bind_p (acquire dependency now) (\<lambda>result.
          if cap_allowed result then return_p True
          else
            bind_p (next_retry opts claim) (\<lambda>fallback.
            bind_p (call opts (deferWorkItem
              \<lparr>rw_id = wc_id claim, rw_owner = wk_owner opts, rw_retryAt = retryAtAfter (cap_retryAt result) fallback,
               rw_errorCode = ''CAPACITY_BACKPRESSURE'',
               rw_errorSafe = capacity_name dependency @ '' capacity is temporarily exhausted'',
               rw_nextKind = None\<rparr>)) (\<lambda>_.
            return_p False)))))"

section \<open>Observations\<close>

definition recordObservation ::
    "V2OutgoingWorkerOptions \<Rightarrow> string \<Rightarrow> string \<Rightarrow> string \<Rightarrow> string option \<Rightarrow> EvidenceFields \<Rightarrow> string \<Rightarrow> unit proc" where
  "recordObservation opts paymentId attemptId outcome externalId observed source =
     bind_p randomUUID (\<lambda>uuid.
     bind_p this_now (\<lambda>now.
     call opts (recordEvidence
       \<lparr>ei_id = ''evidence_'' @ uuid, ei_paymentId = paymentId, ei_attemptId = Some attemptId,
        ei_authority = ''RAIL'', ei_source = source, ei_outcome = outcome, ei_observedAt = now,
        ei_externalId = externalId, ei_expectedExternalId = ef_expectedExternalId observed,
        ei_payloadHash = ef_payloadHash observed, ei_providerCorrelation = None,
        ei_metadataJson = Some (ef_metadataJson observed)\<rparr>)))"

text \<open>The metadata of an observation, with what the rail adds.\<close>

definition with_metadata :: "EvidenceFields \<Rightarrow> string option \<Rightarrow> EvidenceFields result" where
  "with_metadata observed additional =
     (case additional of
        None \<Rightarrow> Inr observed
      | Some json \<Rightarrow> bind_r (mergeEvidenceMetadata (ef_metadataJson observed) json) (\<lambda>merged.
          Inr (observed\<lparr>ef_metadataJson := merged\<rparr>)))"

definition unknown_update ::
    "V2PaymentAttemptSnapshot \<Rightarrow> string \<Rightarrow> string \<Rightarrow> string option \<Rightarrow> AttemptOutcomeUpdate" where
  "unknown_update attempt nextOutcome status externalId =
     \<lparr>ao_attemptId = as_id attempt, ao_currentOutcome = as_outcome attempt, ao_nextOutcome = nextOutcome,
      ao_currentRowVersion = as_rowVersion attempt, ao_status = Some status, ao_externalId = externalId,
      ao_expectedExternalId = None, ao_preparedEffectHash = None, ao_preparedEffectJson = None,
      ao_signedPayloadHash = None, ao_signedPayloadEncrypted = None, ao_validityExpiresAt = None,
      ao_validitySlot = None\<rparr>"

definition execution_update ::
    "V2PaymentView \<Rightarrow> string \<Rightarrow> string \<Rightarrow> string option \<Rightarrow> PaymentExecutionUpdate" where
  "execution_update view status settlementState outcomeState =
     \<lparr>pe_paymentId = pay_id (vw_payment view), pe_currentRowVersion = pay_rowVersion (vw_payment view),
      pe_status = Some status, pe_executionState = Some ''RECONCILING'', pe_settlementState = Some settlementState,
      pe_outcomeState = outcomeState, pe_confirmedAt = None, pe_failedAt = None, pe_failureCode = None,
      pe_failureMessageSafe = None\<rparr>"

text \<open>\<open>updatePaymentExecution\<close> reads before its transaction.\<close>

definition update_execution :: "V2OutgoingWorkerOptions \<Rightarrow> PaymentExecutionUpdate \<Rightarrow> payment_row proc" where
  "update_execution opts input =
     bind_p (call opts (project_execution input)) (\<lambda>(payment, projectedStatus).
     call opts (commit_execution input payment projectedStatus))"

definition markPossibleEffect ::
    "V2OutgoingWorkerOptions \<Rightarrow> V2WorkItemClaim \<Rightarrow> V2PaymentView \<Rightarrow> V2PaymentAttemptSnapshot \<Rightarrow> unit proc" where
  "markPossibleEffect opts claim view attempt =
     (if as_outcome attempt \<noteq> ''NOT_STARTED'' then return_p ()
      else
        bind_p (call opts (updateAttemptOutcome (unknown_update attempt ''UNKNOWN'' ''RECONCILING'' None))) (\<lambda>_.
        bind_p (update_execution opts (execution_update view ''RECONCILING'' ''UNKNOWN'' (Some ''UNDETERMINED''))) (\<lambda>_.
        bind_p (recordObservation opts (pay_id (vw_payment view)) (as_id attempt) ''UNKNOWN'' None
           (evidenceFields attempt None None) ''V2_OUTGOING_WORKER'') (\<lambda>_.
        bind_p (next_retry opts claim) (\<lambda>retryAt.
        retry_claim opts claim retryAt ''OUTCOME_UNKNOWN'' ''Submission outcome requires reconciliation''
          (reconciliationKindFor claim))))))"

section \<open>Guards before an effect\<close>

definition last_opt :: "'a list \<Rightarrow> 'a option" where
  "last_opt xs = (if xs = [] then None else Some (last xs))"

definition ensureActiveBeforeEffect ::
    "V2OutgoingWorkerOptions \<Rightarrow> V2WorkItemClaim \<Rightarrow> V2PaymentView \<Rightarrow> V2PaymentAttemptSnapshot \<Rightarrow> bool proc" where
  "ensureActiveBeforeEffect opts claim view attempt =
     bind_p (case wc_accountId claim of
         None \<Rightarrow> return_p view
       | Some accountId \<Rightarrow>
           bind_p (call opts (findPaymentView accountId (pay_id (vw_payment view)))) (\<lambda>found.
           return_p (case found of None \<Rightarrow> view | Some v \<Rightarrow> v))) (\<lambda>currentView.
     let currentAttempt = (case last_opt (vw_attempts currentView) of None \<Rightarrow> attempt | Some a \<Rightarrow> a) in
     bind_p (wk_getStatus opts (pay_payerAccountId (vw_payment currentView))) (\<lambda>status.
     if status = AA_ACTIVE then return_p True
     else if as_outcome currentAttempt = ''NOT_STARTED'' \<and> as_signedPayloadHash currentAttempt = None then
       bind_p (call opts (abortPreEffectPayment
         \<lparr>ab_paymentId = pay_id (vw_payment currentView), ab_attemptId = as_id currentAttempt,
          ab_paymentRowVersion = pay_rowVersion (vw_payment currentView),
          ab_attemptRowVersion = as_rowVersion currentAttempt, ab_reason = ''ACCOUNT_DISABLED_PRE_EFFECT''\<rparr>)) (\<lambda>_.
       bind_p (complete_claim opts claim) (\<lambda>_.
       return_p False))
     else if as_outcome currentAttempt = ''NOT_STARTED'' \<and> as_signedPayloadHash currentAttempt \<noteq> None then
       bind_p (markPossibleEffect opts claim currentView currentAttempt) (\<lambda>_.
       return_p False)
     else throw_p (DomainErr (CustodyUnavailableError ''Account is not active for a possible-effect attempt''))))"

definition is_prepared :: "V2PreparedEffect \<Rightarrow> V2PaymentAttemptSnapshot \<Rightarrow> bool" where
  "is_prepared prepared attempt \<longleftrightarrow> as_id attempt = pf_attemptId prepared \<and>
     as_preparedEffectHash attempt = Some (pf_effectHash prepared)"

definition ensurePreparedAttemptIsCurrent ::
    "V2OutgoingWorkerOptions \<Rightarrow> V2WorkItemClaim \<Rightarrow> V2PreparedEffect \<Rightarrow> bool proc" where
  "ensurePreparedAttemptIsCurrent opts claim prepared =
     bind_p (case wc_accountId claim of
         None \<Rightarrow> return_p None
       | Some accountId \<Rightarrow> call opts (findPaymentView accountId (pf_paymentId prepared))) (\<lambda>currentView.
     case Option.bind currentView (\<lambda>v. last_opt (vw_attempts v)) of
       Some currentAttempt \<Rightarrow>
         if is_prepared prepared currentAttempt then return_p True
         else bind_p (complete_claim opts claim) (\<lambda>_. return_p False)
     | None \<Rightarrow> bind_p (complete_claim opts claim) (\<lambda>_. return_p False))"

section \<open>The result of a submission\<close>

definition reconcilePlatformCost ::
    "V2OutgoingWorkerOptions \<Rightarrow> V2PreparedEffect \<Rightarrow> V2PlatformCostObservation option \<Rightarrow> unit proc" where
  "reconcilePlatformCost opts prepared actual =
     (case (pf_platformCostEstimate prepared, actual, wk_platformCosts opts) of
        (Some estimate, Some a, Some costs) \<Rightarrow>
          if co_assetId a \<noteq> co_assetId estimate \<or> co_amountAtomic a < 0 then return_p ()
          else
            try_p
              (bind_p this_now (\<lambda>now.
               pco_reconcilePlatformCost costs (platformCostRecordId (wk_sha256 opts) (pf_attemptId prepared)
                 (pf_effectHash prepared)) (co_amountAtomic a) now))
              (\<lambda>_. return_p ())
      | _ \<Rightarrow> return_p ())"

definition reconcilePlatformCostFromAttempt ::
    "V2OutgoingWorkerOptions \<Rightarrow> V2PaymentAttemptSnapshot \<Rightarrow> V2PlatformCostObservation option \<Rightarrow> unit proc" where
  "reconcilePlatformCostFromAttempt opts attempt actual =
     (if actual = None \<or> as_preparedEffectJson attempt = None then return_p ()
      else
        bind_p (lift_p (restorePreparedEffect (wk_parseDate opts) attempt)) (\<lambda>prepared.
        case prepared of None \<Rightarrow> return_p () | Some p \<Rightarrow> reconcilePlatformCost opts p actual))"

definition persistPlatformCostEstimate :: "V2OutgoingWorkerOptions \<Rightarrow> V2PreparedEffect \<Rightarrow> unit proc" where
  "persistPlatformCostEstimate opts prepared =
     (case pf_platformCostEstimate prepared of
        None \<Rightarrow> return_p ()
      | Some estimate \<Rightarrow>
          (case wk_platformCosts opts of
             None \<Rightarrow> throw_p (DomainErr (InvalidStateError ''Platform cost persistence is unavailable for a prepared effect''))
           | Some costs \<Rightarrow> pco_createPlatformCostEstimate costs
               \<lparr>ce_id = platformCostRecordId (wk_sha256 opts) (pf_attemptId prepared) (pf_effectHash prepared),
                ce_accountId = pf_accountId prepared, ce_paymentId = pf_paymentId prepared,
                ce_attemptId = pf_attemptId prepared, ce_assetId = co_assetId estimate,
                ce_estimatedAmount = co_amountAtomic estimate\<rparr>))"

text \<open>What the finalizations of the worker have in common.\<close>

definition terminal_input ::
    "V2PaymentView \<Rightarrow> V2PaymentAttemptSnapshot \<Rightarrow> EvidenceFields \<Rightarrow> string \<Rightarrow> string \<Rightarrow> FinalizeInput" where
  "terminal_input view attempt observed nextOutcome source =
     \<lparr>fi_paymentId = pay_id (vw_payment view), fi_attemptId = as_id attempt,
      fi_paymentRowVersion = pay_rowVersion (vw_payment view), fi_attemptRowVersion = as_rowVersion attempt,
      fi_currentOutcome = as_outcome attempt, fi_nextOutcome = nextOutcome,
      fi_attemptStatus = (if nextOutcome = ''CONFIRMED'' then ''CONFIRMED'' else ''FAILED''),
      fi_paymentStatus = nextOutcome,
      fi_settlementState = (if nextOutcome = ''CONFIRMED'' then ''CONFIRMED'' else ''NOT_SUBMITTED''),
      fi_outcomeState = (if nextOutcome = ''CONFIRMED'' then ''CONFIRMED'' else ''PROVED_NO_EFFECT''),
      fi_externalId = None, fi_expectedExternalId = ef_expectedExternalId observed,
      fi_payloadHash = ef_payloadHash observed, fi_metadataJson = Some (ef_metadataJson observed),
      fi_confirmedAt = None, fi_failedAt = None, fi_failureCode = None, fi_failureMessageSafe = None,
      fi_reservation = (if nextOutcome = ''CONFIRMED'' then CONSUME else RELEASE),
      fi_evidenceOutcome = (if nextOutcome = ''CONFIRMED'' then ''CONFIRMED'' else ''PROVED_NO_EFFECT''),
      fi_source = source, fi_replacement = None\<rparr>"

definition finalize_confirmed ::
    "V2OutgoingWorkerOptions \<Rightarrow> V2PaymentView \<Rightarrow> V2PaymentAttemptSnapshot \<Rightarrow> V2PreparedEffect option \<Rightarrow>
     string option \<Rightarrow> string option \<Rightarrow> string \<Rightarrow> V2PaymentView proc" where
  "finalize_confirmed opts view attempt prepared externalId additional source =
     bind_p (lift_p (with_metadata (evidenceFields attempt prepared (as_expectedExternalId attempt)) additional)) (\<lambda>observed.
     bind_p this_now (\<lambda>now.
     call opts (finalizeV2Payment ((terminal_input view attempt observed ''CONFIRMED'' source)
       \<lparr>fi_externalId := externalId, fi_confirmedAt := Some now\<rparr>))))"

definition observe_unsettled ::
    "V2OutgoingWorkerOptions \<Rightarrow> V2WorkItemClaim \<Rightarrow> V2PaymentView \<Rightarrow> V2PaymentAttemptSnapshot \<Rightarrow>
     V2PreparedEffect option \<Rightarrow> string \<Rightarrow> string option \<Rightarrow> string option \<Rightarrow> string \<Rightarrow> string \<Rightarrow> string \<Rightarrow> unit proc" where
  "observe_unsettled opts claim view attempt prepared outcome externalId additional source errorCode errorSafe =
     bind_p (lift_p (with_metadata (evidenceFields attempt prepared (as_expectedExternalId attempt)) additional)) (\<lambda>observed.
     bind_p (recordObservation opts (pay_id (vw_payment view)) (as_id attempt) outcome externalId observed source) (\<lambda>_.
     bind_p (next_retry opts claim) (\<lambda>retryAt.
     retry_claim opts claim retryAt errorCode errorSafe (reconciliationKindFor claim))))"

definition handleSubmissionResult ::
    "V2OutgoingWorkerOptions \<Rightarrow> V2WorkItemClaim \<Rightarrow> V2PaymentView \<Rightarrow> V2PaymentAttemptSnapshot \<Rightarrow>
     V2PreparedEffect \<Rightarrow> SubmissionResult \<Rightarrow> unit proc" where
  "handleSubmissionResult opts claim view attempt prepared result =
     (case sub_status result of
        SUB_CONFIRMED \<Rightarrow>
          bind_p (finalize_confirmed opts view attempt (Some prepared) (sub_externalId result)
            (sub_evidenceMetadataJson result) ''V2_OUTGOING_WORKER'') (\<lambda>_.
          bind_p (reconcilePlatformCost opts prepared (sub_platformCostActual result)) (\<lambda>_.
          complete_claim opts claim))
      | SUB_SUBMITTED \<Rightarrow>
          bind_p (call opts (updateAttemptOutcome
            (unknown_update attempt ''SUBMITTED'' ''SUBMITTED'' (sub_externalId result)))) (\<lambda>_.
          bind_p (update_execution opts (execution_update view ''SUBMITTED'' ''SUBMITTED'' None)) (\<lambda>_.
          observe_unsettled opts claim view attempt (Some prepared) ''SUBMITTED'' (sub_externalId result)
            (sub_evidenceMetadataJson result) ''V2_OUTGOING_WORKER'' ''SUBMISSION_OBSERVED''
            ''Submitted settlement awaits authoritative confirmation''))
      | SUB_UNKNOWN \<Rightarrow>
          bind_p (call opts (updateAttemptOutcome
            (unknown_update attempt ''UNKNOWN'' ''RECONCILING'' (sub_externalId result)))) (\<lambda>_.
          bind_p (update_execution opts (execution_update view ''RECONCILING'' ''UNKNOWN'' (Some ''UNDETERMINED''))) (\<lambda>_.
          observe_unsettled opts claim view attempt (Some prepared) ''UNKNOWN'' (sub_externalId result)
            (sub_evidenceMetadataJson result) ''V2_OUTGOING_WORKER'' ''OUTCOME_UNKNOWN''
            ''Settlement outcome requires reconciliation''))
      | SUB_FAILED \<Rightarrow>
          bind_p (call opts (finalizeV2Payment
            ((terminal_input view attempt (evidenceFields attempt (Some prepared) None) ''FAILED'' ''V2_OUTGOING_WORKER'')
             \<lparr>fi_failureCode := sub_failureCode result,
              fi_failureMessageSafe := sub_failureMessageSafe result\<rparr>))) (\<lambda>_.
          complete_claim opts claim))"

section \<open>Reconciliation\<close>

definition attempted_routes :: "V2PaymentView \<Rightarrow> string list" where
  "attempted_routes view = List.map_filter as_routeId (vw_attempts view)"

definition replacement_destination ::
    "SettlementRoute \<Rightarrow> asset_row \<Rightarrow> payment_row \<Rightarrow> string result" where
  "replacement_destination route asset payment =
     (case JSON_parse (case pay_destinationSnapshotJson payment of None \<Rightarrow> [] | Some s \<Rightarrow> s) of
        None \<Rightarrow> throwInvalidState ''Payment destination snapshot is invalid JSON''
      | Some (JObj destination) \<Rightarrow>
          (case obj_get destination ''wallet_address'' of
             Some (JStr address) \<Rightarrow>
               if address = [] then throwInvalidState ''Payment destination snapshot is incomplete''
               else Inr (stringify (JObj (obj_spread destination
                 [(''rail'', JStr (sr_rail route)), (''network'', JStr (sr_network route)),
                  (''asset_reference'', JStr (ast_assetReference asset))])))
           | _ \<Rightarrow> throwInvalidState ''Payment destination snapshot is incomplete'')
      | Some _ \<Rightarrow> throwInvalidState ''Payment destination snapshot is incomplete'')"

definition usable_replacement :: "SettlementRoute \<Rightarrow> payment_row \<Rightarrow> asset_row \<Rightarrow> mapping_row \<Rightarrow> bool" where
  "usable_replacement route payment asset mapping \<longleftrightarrow>
     ast_status asset = ''ACTIVE'' \<and> ast_rail asset = sr_rail route \<and> ast_network asset = sr_network route \<and>
     map_status mapping = ''ACTIVE'' \<and> Some (map_denominationId mapping) = pay_denominationId payment \<and>
     map_settlementAssetId mapping = ast_id asset"

definition findReplacementAttempt ::
    "V2OutgoingWorkerOptions \<Rightarrow> V2PaymentView \<Rightarrow> FinalizeReplacement option proc" where
  "findReplacementAttempt opts view =
     bind_p (call opts listActiveSettlementRoutes) (\<lambda>active.
     let routes = sort_by (\<lambda>left right. if sr_priority left \<noteq> sr_priority right
           then sr_priority left - sr_priority right else wk_localeCompare opts (sr_id left) (sr_id right))
         (filter (\<lambda>route. sr_id route \<notin> set (attempted_routes view)) active) in
     case routes of
       [] \<Rightarrow> return_p None
     | route # _ \<Rightarrow>
         bind_p (call opts (findSettlementAsset (sr_settlementAssetId route))) (\<lambda>asset.
         bind_p (call opts (findEconomicMapping (sr_economicMappingId route))) (\<lambda>mapping.
         case (asset, mapping) of
           (Some a, Some m) \<Rightarrow>
             if usable_replacement route (vw_payment view) a m then
               bind_p (lift_p (replacement_destination route a (vw_payment view))) (\<lambda>destination.
               bind_p randomUUID (\<lambda>u1.
               bind_p randomUUID (\<lambda>u2.
               return_p (Some \<lparr>fr_attemptId = ''attempt_'' @ u1, fr_workItemId = ''work_'' @ u2, fr_route = route,
                 fr_economicMappingId = map_id m, fr_destinationSnapshotJson = destination\<rparr>))))
             else throw_p (DomainErr (InvalidStateError ''Replacement settlement asset is unavailable''))
         | _ \<Rightarrow> throw_p (DomainErr (InvalidStateError ''Replacement settlement asset is unavailable'')))))"

definition no_effect_input ::
    "V2PaymentView \<Rightarrow> V2PaymentAttemptSnapshot \<Rightarrow> FinalizeReplacement option \<Rightarrow> FinalizeInput" where
  "no_effect_input view attempt replacement =
     (let input = terminal_input view attempt (evidenceFields attempt None None) ''PROVED_NO_EFFECT''
            ''V2_RECONCILIATION_WORKER''
      in case replacement of
           None \<Rightarrow> input
         | Some r \<Rightarrow> input\<lparr>fi_paymentStatus := ''ROUTING'', fi_outcomeState := ''NONE'',
             fi_reservation := KEEP_NONE, fi_replacement := Some r\<rparr>)"

text \<open>The signed payload, when the attempt has one that can be read.\<close>

definition stored_payload ::
    "V2OutgoingWorkerOptions \<Rightarrow> V2PaymentAttemptSnapshot \<Rightarrow> string option result" where
  "stored_payload opts attempt =
     bind_r (restorePreparedEffect (wk_parseDate opts) attempt) (\<lambda>prepared.
     case (prepared, wk_signedPayloadCipher opts, as_signedPayloadEncrypted attempt) of
       (Some p, Some cipher, Some encrypted) \<Rightarrow>
         bind_r (restoreSignedEffect (wk_sha256 opts) (ci_decrypt cipher) encrypted p
           (as_expectedExternalId attempt) (as_signedPayloadHash attempt)) (\<lambda>signed.
         Inr (Some (sg_signedPayload signed)))
     | _ \<Rightarrow> Inr None)"

definition processReconciliation ::
    "V2OutgoingWorkerOptions \<Rightarrow> V2WorkItemClaim \<Rightarrow> V2PaymentView \<Rightarrow> V2PaymentAttemptSnapshot \<Rightarrow> unit proc" where
  "processReconciliation opts claim view attempt =
     (case wk_reconcile opts of
        None \<Rightarrow>
          bind_p (next_retry opts claim) (\<lambda>retryAt.
          retry_claim opts claim retryAt ''RECONCILIATION_UNAVAILABLE'' ''Settlement reconciliation is unavailable'' None)
      | Some reconcile \<Rightarrow>
          when_allowed (acquireCapacity opts claim CAP_RPC)
           (bind_p (lift_p (stored_payload opts attempt)) (\<lambda>signedPayload.
            bind_p (reconcile view attempt signedPayload) (\<lambda>result.
            case rec_status result of
              REC_CONFIRMED \<Rightarrow>
                bind_p (finalize_confirmed opts view attempt None (rec_externalId result)
                  (rec_evidenceMetadataJson result) ''V2_RECONCILIATION_WORKER'') (\<lambda>_.
                bind_p (reconcilePlatformCostFromAttempt opts attempt (rec_platformCostActual result)) (\<lambda>_.
                complete_claim opts claim))
            | REC_PROVED_NO_EFFECT \<Rightarrow>
                bind_p (findReplacementAttempt opts view) (\<lambda>replacement.
                bind_p (call opts (finalizeV2Payment (no_effect_input view attempt replacement))) (\<lambda>_.
                complete_claim opts claim))
            | REC_UNKNOWN \<Rightarrow>
                bind_p (if rec_externalId result \<noteq> None \<and> rec_externalId result \<noteq> as_expectedExternalId attempt
                  then bind_p (call opts (updateAttemptOutcome
                      (unknown_update attempt (as_outcome attempt) ''RECONCILING'' (rec_externalId result)))) (\<lambda>_. return_p ())
                  else return_p ()) (\<lambda>_.
                observe_unsettled opts claim view attempt None ''UNKNOWN'' (rec_externalId result)
                  (rec_evidenceMetadataJson result) ''V2_RECONCILIATION_WORKER'' ''OUTCOME_UNKNOWN''
                  ''Settlement outcome remains unknown'')))))"

section \<open>Failures\<close>

definition loadClaimView :: "V2OutgoingWorkerOptions \<Rightarrow> V2WorkItemClaim \<Rightarrow> V2PaymentView option proc" where
  "loadClaimView opts claim =
     (case wc_accountId claim of
        None \<Rightarrow> return_p None
      | Some accountId \<Rightarrow>
          bind_p (lift_p (paymentIdFromClaim claim)) (\<lambda>paymentId.
          call opts (findPaymentView accountId paymentId)))"

definition claim_attempt :: "V2PaymentView option \<Rightarrow> (V2PaymentView \<times> V2PaymentAttemptSnapshot) option" where
  "claim_attempt view = Option.bind view (\<lambda>v. map_option (\<lambda>a. (v, a)) (last_opt (vw_attempts v)))"

definition handleFailure :: "V2OutgoingWorkerOptions \<Rightarrow> V2WorkItemClaim \<Rightarrow> js_error \<Rightarrow> unit proc" where
  "handleFailure opts claim error =
     (let decision = classifyWorkFailure error DEP_RAIL in
      bind_p (loadClaimView opts claim) (\<lambda>loaded.
      case claim_attempt loaded of
        Some (view, attempt) \<Rightarrow>
          if as_outcome attempt = ''NOT_STARTED'' \<and> as_signedPayloadHash attempt \<noteq> None
          then markPossibleEffect opts claim view attempt
          else if rt_classification decision = NO_RETRY then
            if as_outcome attempt = ''NOT_STARTED'' then
              bind_p (call opts (finalizeV2Payment
                ((terminal_input view attempt (evidenceFields attempt None None) ''FAILED'' ''V2_OUTGOING_WORKER'')
                 \<lparr>fi_failureCode := Some (rt_reasonCode decision),
                  fi_failureMessageSafe := Some (failureMessageSafe error)\<rparr>))) (\<lambda>_.
              complete_claim opts claim)
            else fail_claim opts claim (rt_reasonCode decision) ''Outgoing execution failed without a safe retry''
          else
            bind_p (next_retry opts claim) (\<lambda>retryAt.
            retry_claim opts claim retryAt (rt_reasonCode decision)
              ''Outgoing execution requires a safe retry or reconciliation'' None)
      | None \<Rightarrow>
          if rt_classification decision = NO_RETRY
          then fail_claim opts claim (rt_reasonCode decision) ''Outgoing execution failed without a safe retry''
          else
            bind_p (next_retry opts claim) (\<lambda>retryAt.
            retry_claim opts claim retryAt (rt_reasonCode decision)
              ''Outgoing execution requires a safe retry or reconciliation'' None)))"

section \<open>Executing a payment\<close>

definition prepared_update :: "V2PaymentAttemptSnapshot \<Rightarrow> V2PreparedEffect \<Rightarrow> AttemptOutcomeUpdate" where
  "prepared_update attempt prepared =
     (unknown_update attempt (as_outcome attempt) ''PREPARED'' None)
       \<lparr>ao_preparedEffectHash := Some (pf_effectHash prepared),
        ao_preparedEffectJson := Some (Some (serializePreparedEffect prepared)),
        ao_validityExpiresAt := pf_validityExpiresAt prepared, ao_validitySlot := pf_validitySlot prepared\<rparr>"

definition signed_update ::
    "V2PaymentAttemptSnapshot \<Rightarrow> int \<Rightarrow> string \<Rightarrow> string \<Rightarrow> string \<Rightarrow> AttemptOutcomeUpdate" where
  "signed_update attempt rowVersion payloadHash externalId encrypted =
     (unknown_update attempt (as_outcome attempt) ''EXECUTING'' None)
       \<lparr>ao_currentRowVersion := rowVersion, ao_signedPayloadHash := Some payloadHash,
        ao_expectedExternalId := Some externalId, ao_signedPayloadEncrypted := Some encrypted\<rparr>"

text \<open>The prepared effect, stored with the attempt before anything is signed.\<close>

definition prepare_effect ::
    "V2OutgoingWorkerOptions \<Rightarrow> V2PaymentView \<Rightarrow> V2PaymentAttemptSnapshot \<Rightarrow> V2PreparedEffect option \<Rightarrow>
     (V2PreparedEffect \<times> V2PaymentAttemptSnapshot) proc" where
  "prepare_effect opts view attempt restored =
     bind_p (case restored of None \<Rightarrow> wk_prepare opts view attempt | Some p \<Rightarrow> return_p p) (\<lambda>prepared.
     bind_p (throw_if_p (as_preparedEffectHash attempt \<noteq> None \<and>
         as_preparedEffectHash attempt \<noteq> Some (pf_effectHash prepared))
       (DomainErr (InvalidStateError ''Prepared effect changed after durable persistence''))) (\<lambda>_.
     bind_p (if restored = None then call opts (updateAttemptOutcome (prepared_update attempt prepared))
             else return_p attempt) (\<lambda>preparedAttempt.
     return_p (prepared, preparedAttempt))))"

definition signing_request ::
    "V2OutgoingWorkerOptions \<Rightarrow> Custody \<Rightarrow> V2PreparedEffect \<Rightarrow> SigningRequest proc" where
  "signing_request opts custody prepared =
     bind_p (cu_findActiveCustodyKeyVersion custody (pf_accountId prepared)) (\<lambda>activeKey.
     bind_p (throw_if_p (activeKey \<noteq> Some (pf_keyVersion prepared))
       (DomainErr (CustodyUnavailableError ''Active custody key version is unavailable''))) (\<lambda>_.
     bind_p (cu_findSigningRequest custody (pf_attemptId prepared)) (\<lambda>existing.
     bind_p (case existing of
         Some r \<Rightarrow> return_p r
       | None \<Rightarrow> cu_createSigningRequest custody
           \<lparr>si_id = ''signing_'' @ pf_attemptId prepared, si_paymentId = pf_paymentId prepared,
            si_attemptId = pf_attemptId prepared, si_effectHash = pf_effectHash prepared,
            si_routeId = pf_routeId prepared, si_network = pf_network prepared,
            si_assetReference = pf_assetReference prepared, si_destination = pf_destination prepared,
            si_amountAtomic = pf_amountAtomic prepared, si_feePayerIdentity = pf_feePayerIdentity prepared,
            si_keyVersion = pf_keyVersion prepared,
            si_serviceIdentity = (case wk_serviceIdentity opts of None \<Rightarrow> wk_owner opts | Some i \<Rightarrow> i)\<rparr>) (\<lambda>request.
     bind_p (throw_if_p (sq_effectHash request \<noteq> pf_effectHash prepared \<or>
         (sq_status request \<noteq> ''PENDING'' \<and> sq_status request \<noteq> ''SIGNED''))
       (DomainErr (CustodyUnavailableError ''Signing request is not usable for this effect''))) (\<lambda>_.
     return_p request)))))"

definition complete_pending :: "Custody \<Rightarrow> SigningRequest \<Rightarrow> V2PreparedEffect \<Rightarrow> string \<Rightarrow> unit proc" where
  "complete_pending custody request prepared status =
     (if sq_status request = ''PENDING''
      then cu_completeSigningRequest custody (sq_id request) (pf_effectHash prepared) status
      else return_p ())"

text \<open>The signature: the stored one, or a new one after the guards; \<open>None\<close> when a guard has
  settled the work item.\<close>

definition sign_effect ::
    "V2OutgoingWorkerOptions \<Rightarrow> V2WorkItemClaim \<Rightarrow> Custody \<Rightarrow> SigningRequest \<Rightarrow> V2PaymentView \<Rightarrow>
     V2PaymentAttemptSnapshot \<Rightarrow> V2PreparedEffect \<Rightarrow> ConstrainedSignedEffect option proc" where
  "sign_effect opts claim custody request view attempt prepared =
     try_p
       (bind_p (ensureActiveBeforeEffect opts claim view attempt) (\<lambda>active.
        if \<not> active then return_p None
        else bind_p (ensurePreparedAttemptIsCurrent opts claim prepared) (\<lambda>current.
        if \<not> current then return_p None
        else bind_p (acquireCapacity opts claim CAP_CUSTODY) (\<lambda>allowed.
        if \<not> allowed then return_p None
        else bind_p (wk_sign opts prepared) (\<lambda>signed. return_p (Some signed))))))
       (\<lambda>error. bind_p (complete_pending custody request prepared ''REJECTED'') (\<lambda>_. throw_p error))"

definition persist_signature ::
    "V2OutgoingWorkerOptions \<Rightarrow> WalletSecretCipher \<Rightarrow> V2PaymentAttemptSnapshot \<Rightarrow> V2PaymentAttemptSnapshot \<Rightarrow>
     ConstrainedSignedEffect \<Rightarrow> unit proc" where
  "persist_signature opts cipher attempt preparedAttempt signed =
     bind_p (ci_encrypt cipher (sg_signedPayload signed)) (\<lambda>encrypted.
     bind_p (call opts (updateAttemptOutcome (signed_update attempt (as_rowVersion preparedAttempt)
        (wk_sha256 opts (sg_signedPayload signed)) (sg_externalId signed) (serializeEncryptedPayload encrypted)))) (\<lambda>_.
     return_p ()))"

definition submit_effect ::
    "V2OutgoingWorkerOptions \<Rightarrow> V2WorkItemClaim \<Rightarrow> string \<Rightarrow> string \<Rightarrow> V2PreparedEffect \<Rightarrow>
     ConstrainedSignedEffect \<Rightarrow> unit proc" where
  "submit_effect opts claim accountId paymentId prepared signed =
     bind_p (call opts (findPaymentView accountId paymentId)) (\<lambda>found.
     case found of
       None \<Rightarrow> fail_claim opts claim ''PAYMENT_NOT_FOUND_AFTER_SIGNING'' ''Payment disappeared after signing''
     | Some currentView \<Rightarrow>
         (case last_opt (vw_attempts currentView) of
            None \<Rightarrow> fail_claim opts claim ''PAYMENT_ATTEMPT_NOT_FOUND_AFTER_SIGNING''
              ''Payment attempt disappeared after signing''
          | Some currentAttempt \<Rightarrow>
              if \<not> is_prepared prepared currentAttempt then complete_claim opts claim
              else when_allowed (ensureActiveBeforeEffect opts claim currentView currentAttempt)
               (when_allowed (acquireCapacity opts claim CAP_RAIL)
                (bind_p (wk_submit opts prepared signed) (\<lambda>result.
                 handleSubmissionResult opts claim currentView currentAttempt prepared result)))))"

definition execute_prepared ::
    "V2OutgoingWorkerOptions \<Rightarrow> V2WorkItemClaim \<Rightarrow> Custody \<Rightarrow> WalletSecretCipher \<Rightarrow> string \<Rightarrow> string \<Rightarrow>
     V2PaymentView \<Rightarrow> V2PaymentAttemptSnapshot \<Rightarrow> V2PreparedEffect \<Rightarrow> V2PaymentAttemptSnapshot \<Rightarrow> unit proc" where
  "execute_prepared opts claim custody cipher accountId paymentId view attempt prepared preparedAttempt =
     bind_p (persistPlatformCostEstimate opts prepared) (\<lambda>_.
     bind_p (signing_request opts custody prepared) (\<lambda>request.
     let finish = (\<lambda>signed.
       bind_p (complete_pending custody request prepared ''SIGNED'') (\<lambda>_.
       submit_effect opts claim accountId paymentId prepared signed)) in
     case as_signedPayloadEncrypted preparedAttempt of
       Some encrypted \<Rightarrow>
         bind_p (lift_p (restoreSignedEffect (wk_sha256 opts) (ci_decrypt cipher) encrypted prepared
           (as_expectedExternalId preparedAttempt) (as_signedPayloadHash preparedAttempt))) (\<lambda>signed.
         finish signed)
     | None \<Rightarrow>
         bind_p (sign_effect opts claim custody request view attempt prepared) (\<lambda>signed.
         case signed of
           None \<Rightarrow> return_p ()
         | Some s \<Rightarrow>
             bind_p (persist_signature opts cipher attempt preparedAttempt s) (\<lambda>_.
             finish s))))"

definition execute_attempt ::
    "V2OutgoingWorkerOptions \<Rightarrow> V2WorkItemClaim \<Rightarrow> string \<Rightarrow> string \<Rightarrow> V2PaymentView \<Rightarrow>
     V2PaymentAttemptSnapshot \<Rightarrow> unit proc" where
  "execute_attempt opts claim accountId paymentId view attempt =
     when_allowed (ensureActiveBeforeEffect opts claim view attempt)
      (case (wk_custody opts, wk_signedPayloadCipher opts) of
         (Some custody, Some cipher) \<Rightarrow>
           bind_p (lift_p (restorePreparedEffect (wk_parseDate opts) attempt)) (\<lambda>restored.
           when_allowed (acquireCapacity opts claim CAP_RAIL)
            (bind_p (prepare_effect opts view attempt restored) (\<lambda>(prepared, preparedAttempt).
             execute_prepared opts claim custody cipher accountId paymentId view attempt prepared preparedAttempt)))
       | _ \<Rightarrow> throw_p (DomainErr (CustodyUnavailableError
           ''Outgoing worker requires durable custody and signed-payload encryption'')))"

definition process_view ::
    "V2OutgoingWorkerOptions \<Rightarrow> V2WorkItemClaim \<Rightarrow> string \<Rightarrow> string \<Rightarrow> V2PaymentView \<Rightarrow> unit proc" where
  "process_view opts claim accountId paymentId view =
     (let attempt = last_opt (vw_attempts view) in
      if wc_resourceType claim = ''PAYMENT_ATTEMPT'' \<and> map_option as_id attempt \<noteq> Some (wc_resourceId claim)
      then complete_claim opts claim
      else case attempt of
          None \<Rightarrow> if wk_reconcileMode opts then requeueForOutgoing opts claim else complete_claim opts claim
        | Some a \<Rightarrow>
            if as_outcome a = ''SUBMITTED'' \<or> as_outcome a = ''UNKNOWN'' then processReconciliation opts claim view a
            else if wk_reconcileMode opts then requeueForOutgoing opts claim
            else if pay_status (vw_payment view) = PS_PROVED_NO_EFFECT \<or> pay_status (vw_payment view) = PS_CONFIRMED
            then complete_claim opts claim
            else execute_attempt opts claim accountId paymentId view a)"

definition process_item :: "V2OutgoingWorkerOptions \<Rightarrow> V2WorkItemClaim \<Rightarrow> unit proc" where
  "process_item opts claim =
     (case wc_accountId claim of
        None \<Rightarrow> throw_p (DomainErr (InvalidStateError ''Outgoing work item has no owning account''))
      | Some accountId \<Rightarrow>
          bind_p (lift_p (paymentIdFromClaim claim)) (\<lambda>paymentId.
          bind_p (call opts (findPaymentView accountId paymentId)) (\<lambda>found.
          case found of
            None \<Rightarrow> complete_claim opts claim
          | Some view \<Rightarrow> process_view opts claim accountId paymentId view)))"

definition processClaimWithLease :: "V2OutgoingWorkerOptions \<Rightarrow> V2WorkItemClaim \<Rightarrow> unit proc" where
  "processClaimWithLease opts claim = try_p (process_item opts claim) (handleFailure opts claim)"

section \<open>Batches\<close>

definition acquireBatchCapacity :: "V2OutgoingWorkerOptions \<Rightarrow> bool proc" where
  "acquireBatchCapacity opts =
     (case wk_capacity opts of
        None \<Rightarrow> return_p True
      | Some acquire \<Rightarrow>
          bind_p this_now (\<lambda>now.
          bind_p (acquire CAP_DATABASE now) (\<lambda>result. return_p (cap_allowed result))))"

definition batch_kinds :: "V2OutgoingWorkerOptions \<Rightarrow> string list" where
  "batch_kinds opts =
     (if wk_reconcileMode opts then [''RECONCILE_PAYMENT_ATTEMPT'']
      else [''OUTGOING_PAYMENT_ATTEMPT'', ''OUTGOING_PAYMENT'', ''RECONCILE_PAYMENT_ATTEMPT''])"

fun claim_first :: "V2OutgoingWorkerOptions \<Rightarrow> string list \<Rightarrow> V2WorkItemClaim option proc" where
  "claim_first opts [] = return_p None"
| "claim_first opts (kind # kinds) =
     bind_p this_now (\<lambda>now.
     bind_p (call opts (claimWorkItem \<lparr>cl_kind = kind, cl_owner = wk_owner opts,
        cl_leaseSeconds = (case wk_leaseSeconds opts of None \<Rightarrow> IntNum 30 | Some s \<Rightarrow> s), cl_now = Some now\<rparr>)) (\<lambda>claim.
     case claim of Some c \<Rightarrow> return_p (Some c) | None \<Rightarrow> claim_first opts kinds))"

fun process_items :: "V2OutgoingWorkerOptions \<Rightarrow> nat \<Rightarrow> unit proc" where
  "process_items opts 0 = return_p ()"
| "process_items opts (Suc n) =
     when_allowed (acquireBatchCapacity opts)
      (bind_p (claim_first opts (batch_kinds opts)) (\<lambda>claim.
       case claim of
         None \<Rightarrow> return_p ()
       | Some c \<Rightarrow> bind_p (processClaimWithLease opts c) (\<lambda>_. process_items opts n)))"

definition processBatch :: "V2OutgoingWorkerOptions \<Rightarrow> unit proc" where
  "processBatch opts = process_items opts (nat (case wk_batchSize opts of None \<Rightarrow> 10 | Some n \<Rightarrow> n))"

end
