(* ===== verification/Attempt_History.thy ===== *)
theory Attempt_History
  imports Payment_System
begin

text \<open>
  How a sequence of service steps changes the attempts of a payment. A process that has read the last
  attempt of a payment may rely on the following: unless the row version has moved on, an attempt
  that certainly had no effect is still the last one.
\<close>

section \<open>How the attempts change\<close>

text \<open>A step changes attempts in place, counting the row version up, and may add attempts; an attempt
  is added to a payment that has attempts only when one of them may have had an effect.\<close>

definition grows :: "world \<Rightarrow> world \<Rightarrow> bool" where
  "grows w w' \<longleftrightarrow> (\<exists>P f added. w_attempts w' = update_rows P f (w_attempts w) @ added \<and>
     (\<forall>a. P a \<longrightarrow> att_id (f a) = att_id a \<and> att_paymentId (f a) = att_paymentId a \<and>
        att_attemptNumber (f a) = att_attemptNumber a \<and> att_rowVersion (f a) = att_rowVersion a + 1) \<and>
     (\<forall>n \<in> set added. \<forall>a \<in> set (w_attempts w). att_paymentId a = att_paymentId n \<longrightarrow>
        (\<exists>b \<in> set (w_attempts w). att_paymentId b = att_paymentId n \<and> \<not> no_effect_name (att_outcome b))))"

lemma grows_same: "w_attempts w' = w_attempts w \<Longrightarrow> grows w w'"
  unfolding grows_def by (intro exI [of _ "\<lambda>_. False"] exI [of _ id] exI [of _ "[]"]) (simp add: update_rows_def)

lemma grows_update:
  assumes "w_attempts w' = update_rows P f (w_attempts w)"
    and "\<And>a. att_id (f a) = att_id a" "\<And>a. att_paymentId (f a) = att_paymentId a"
    and "\<And>a. att_attemptNumber (f a) = att_attemptNumber a" "\<And>a. att_rowVersion (f a) = att_rowVersion a + 1"
  shows "grows w w'"
  unfolding grows_def using assms by (intro exI [of _ P] exI [of _ f] exI [of _ "[]"]) simp

lemma create_grows:
  assumes I: "system_ok w" and run: "createV2Payment input w = Inr (r, w')"
  shows "grows w w'"
  using run
proof (cases rule: createV2Payment_cases)
  case (replay e)
  have "w_attempts w' = w_attempts w" using replay_payment_Inr(1) [OF replay(2)] by simp
  then show ?thesis by (rule grows_same)
next
  case (create d)
  then have fresh: "ci_paymentId input \<notin> pay_id ` set (w_payments w)" by (simp add: written_def)
  have none: "att_paymentId a \<noteq> ci_paymentId input" if "a \<in> set (w_attempts w)" for a
    using that fresh system_okD(7) [OF I] by (metis imageI subsetD)
  have "\<exists>added. w_attempts w' = w_attempts w @ added \<and> (\<forall>n \<in> set added. att_paymentId n = ci_paymentId input)"
    using create(6) by (cases "vd_decision (ci_policyDecision input) = PD_ALLOW")
      (auto simp: written_def first_attempt_def)
  then obtain added where added: "w_attempts w' = w_attempts w @ added"
    "\<forall>n \<in> set added. att_paymentId n = ci_paymentId input" by blast
  then show ?thesis
    unfolding grows_def using none
    by (intro exI [of _ "\<lambda>_. False"] exI [of _ id] exI [of _ added]) (auto simp: update_rows_def)
qed

lemma finalize_grows:
  assumes run: "finalizeV2Payment input w = Inr (v, w')"
  shows "grows w w'"
  using run
proof (cases rule: finalizeV2Payment_writes)
  case (1 p a st s t1 t2 t3 t4 t5)
  note C = finalize_check_Inr [OF 1(1)]
  have "\<not> no_effect_name (att_outcome a)" using progression_from_effect [OF C(12)] C(9) by simp
  moreover have "att_paymentId n = att_paymentId a" if "n \<in> set (replacement_row input a t4)" for n
    using that C(6) by (auto simp: replacement_row_def split: option.splits)
  ultimately show ?thesis
    unfolding grows_def using 1(3) C(4)
    by (intro exI [of _ "\<lambda>q. att_id q = fi_attemptId input"] exI [of _ "finalize_attempt_data input s t1"]
        exI [of _ "replacement_row input a t4"]) (auto simp: finalize_attempt_data_def)
qed

lemma resolve_grows:
  assumes "resolveExceptionWithEvidence h out w = Inr (y, w')"
  shows "grows w w'"
  using assms
proof (cases rule: resolve_ledger)
  case (1 p a as now t)
  show ?thesis
  proof (cases "att_outcome a = ''UNKNOWN''")
    case True
    show ?thesis
      by (rule grows_update [OF 1(6) [unfolded resolved_attempts_def if_P [OF True]]]) simp_all
  next
    case False
    then show ?thesis using 1(6) by (simp add: grows_same resolved_attempts_def)
  qed
qed

lemma decide_grows:
  assumes I: "system_ok w" and run: "decideApproval d w = Inr (g, w')"
  shows "grows w w'"
  using run
proof (cases rule: decide_ledger)
  case (started p r a wk t i j k t1 t2 t3)
  have "att_paymentId a = pay_id p" "att_attemptNumber a = 1" by (simp_all add: started(4) approved_attempt_def)
  then have "attempts_of (att_paymentId a) (w_attempts w) = []"
    using first_attempt_fresh [OF system_okD(6) [OF I] started(9)] by simp
  then show ?thesis
    unfolding grows_def using started(8)
    by (intro exI [of _ "\<lambda>_. False"] exI [of _ id] exI [of _ "[a]"])
      (auto simp: update_rows_def attempts_of_def filter_empty_conv)
next
  case (refused p t)
  then show ?thesis by (simp add: grows_same)
qed

lemma claim_attempts:
  assumes "claimWorkItem k w = Inr (c, w')"
  shows "w_attempts w' = w_attempts w"
proof -
  obtain now w1 where w1: "w_attempts w1 = w_attempts w" and l: "claim_loop k now w1 = Inr (c, w')"
    using claimWorkItem_cases [OF assms] by metis
  have "\<exists>w2. w_attempts w2 = w_attempts w \<and> first_work (exhaustible (cl_kind k) now) (w_works w2) = None \<and>
      claim_next k now w2 = Inr (c, w')"
    by (rule claim_loop_invariant [where I = "\<lambda>v. w_attempts v = w_attempts w", OF _ l])
      (simp_all add: preservesD [OF exhaustion_other_tables(1)] w1)
  then obtain w2 where "w_attempts w2 = w_attempts w" "claim_next k now w2 = Inr (c, w')" by blast
  then show ?thesis by (auto elim: claim_next_cases)
qed

lemma service_grows:
  assumes "service_step w w'" "system_ok w"
  shows "grows w w'"
  using assms
proof (induction rule: service_step.induct)
  case (st_create i w r w')
  then show ?case by (blast intro: create_grows)
next
  case (st_outcome u w s w')
  then obtain st t where "w_attempts w' = update_rows
        (\<lambda>a. att_id a = ao_attemptId u \<and> att_outcome a = ao_currentOutcome u \<and>
             att_rowVersion a = ao_currentRowVersion u) (attempt_outcome_data u st t) (w_attempts w)"
    using updateAttemptOutcome_writes(1) by blast
  then show ?case by (rule grows_update) (simp_all add: attempt_outcome_data_def)
next
  case (st_execution e p s w r w')
  then show ?case by (simp add: grows_same commit_execution_writes(2))
next
  case (st_abort b w v w')
  then show ?case
  proof (cases rule: abortPreEffectPayment_writes)
    case (1 p a t2 t3)
    then show ?thesis by (auto intro: grows_same grows_update simp: abort_attempt_data_def)
  qed
next
  case (st_finalize f w v w')
  then show ?case by (blast intro: finalize_grows)
next
  case (st_claim k w o' w')
  then show ?case by (simp add: grows_same claim_attempts)
next
  case (st_complete x y w z w')
  then show ?case by (simp add: grows_same preservesD [OF queue_frames(2)])
next
  case (st_renew n w t w')
  then show ?case by (simp add: grows_same preservesD [OF queue_frames(5)])
next
  case (st_retry q w z w')
  then show ?case
    by (cases rule: retryWorkItem_cases) (auto intro: grows_same dest!: preservesD [OF exhaustion_other_tables(1)])
next
  case (st_defer q w z w')
  then show ?case by (cases rule: deferWorkItem_Inr) (rule grows_same)
next
  case (st_fail x y a m w z w')
  then have "w_attempts w' = w_attempts w"
    by (auto simp: failWorkItem_def tx_simps dest!: preservesD [OF exhaustion_other_tables(1)] lockOwnedWorkItem_Inr(1))
  then show ?case by (rule grows_same)
next
  case (st_decide d w g w')
  then show ?case by (blast intro: decide_grows)
next
  case (st_resolve h out w j w')
  then show ?case by (blast intro: resolve_grows)
next
  case (st_close h w j w')
  then show ?case by (simp add: grows_same close_ledger)
next
  case (st_other_tables w' w)
  then show ?case by (simp add: grows_same ledger_iff)
qed

section \<open>An attempt that was last stays last until it changes\<close>

text \<open>What a process knows of an attempt it has read: the row is still there with at least that row
  version, and if it is unchanged and certainly had no effect, no attempt has been added after it.\<close>

definition pinned :: "string \<Rightarrow> string \<Rightarrow> int \<Rightarrow> world \<Rightarrow> bool" where
  "pinned aid out v w \<longleftrightarrow> (\<exists>a \<in> set (w_attempts w). att_id a = aid \<and> v \<le> att_rowVersion a \<and>
     (att_rowVersion a = v \<longrightarrow> att_outcome a = out \<longrightarrow> no_effect_name out \<longrightarrow> last_attempt aid w))"

lemma last_attempt_iff:
  assumes "system_ok w" "a \<in> set (w_attempts w)" "att_id a = aid"
  shows "last_attempt aid w \<longleftrightarrow>
    (\<forall>b \<in> set (w_attempts w). att_paymentId b = att_paymentId a \<longrightarrow> att_attemptNumber b \<le> att_attemptNumber a)"
  using assms system_okD(5) [OF assms(1)] unfolding last_attempt_def by (metis distinct_map inj_onD)

lemma pinned_service:
  assumes step: "service_step w w'" and I: "system_ok w" and pin: "pinned aid out v w"
  shows "pinned aid out v w'"
proof -
  have I': "system_ok w'" by (rule system.service_keeps [OF step I])
  obtain P f added where w': "w_attempts w' = update_rows P f (w_attempts w) @ added"
    and f: "\<And>a. P a \<Longrightarrow> att_id (f a) = att_id a \<and> att_paymentId (f a) = att_paymentId a \<and>
        att_attemptNumber (f a) = att_attemptNumber a \<and> att_rowVersion (f a) = att_rowVersion a + 1"
    and new: "\<And>n a. n \<in> set added \<Longrightarrow> a \<in> set (w_attempts w) \<Longrightarrow> att_paymentId a = att_paymentId n \<Longrightarrow>
        \<exists>b \<in> set (w_attempts w). att_paymentId b = att_paymentId n \<and> \<not> no_effect_name (att_outcome b)"
    using service_grows [OF step I] unfolding grows_def by blast
  obtain a where a: "a \<in> set (w_attempts w)" "att_id a = aid" "v \<le> att_rowVersion a"
    "att_rowVersion a = v \<longrightarrow> att_outcome a = out \<longrightarrow> no_effect_name out \<longrightarrow> last_attempt aid w"
    using pin unfolding pinned_def by blast
  define a' where "a' = (if P a then f a else a)"
  have in': "a' \<in> set (w_attempts w')" using a(1) by (auto simp: w' a'_def set_update_rows)
  have k: "att_id a' = aid" "v \<le> att_rowVersion a'" using a f by (auto simp: a'_def)
  have "last_attempt aid w'" if u: "att_rowVersion a' = v" "att_outcome a' = out" "no_effect_name out"
  proof -
    have "a' = a" using u(1) a(3) f by (auto simp: a'_def split: if_splits)
    then have l: "last_attempt aid w" and o: "no_effect_name (att_outcome a)" using u a(4) by auto
    note L = l [unfolded last_attempt_iff [OF I a(1,2)], rule_format]
    have "att_paymentId n \<noteq> att_paymentId a" if n: "n \<in> set added" for n
    proof
      assume e: "att_paymentId n = att_paymentId a"
      obtain b where b: "b \<in> set (w_attempts w)" "att_paymentId b = att_paymentId a" "\<not> no_effect_name (att_outcome b)"
        using new [OF n a(1)] e by auto
      have "att_attemptNumber b \<noteq> att_attemptNumber a"
        using sequence_numbers_inj [OF system_okD(6) [OF I] b(1) a(1) b(2)] b(3) o by auto
      then have "att_attemptNumber b < att_attemptNumber a" using L [OF b(1,2)] by simp
      moreover have "a \<in> set (attempts_of (att_paymentId a) (w_attempts w))" "b \<in> set (attempts_of (att_paymentId a) (w_attempts w))"
        using a(1) b(1,2) by (simp_all add: attempts_of_def)
      ultimately show False using system_okD(6) [OF I] b(3) unfolding sequence_ok_def by blast
    qed
    moreover have "att_attemptNumber q \<le> att_attemptNumber a"
      if "q \<in> set (update_rows P f (w_attempts w))" "att_paymentId q = att_paymentId a" for q
      using that L f unfolding set_update_rows by (auto split: if_splits)
    ultimately show ?thesis
      using in' unfolding last_attempt_iff [OF I' in' k(1)] \<open>a' = a\<close> w' by auto
  qed
  then show ?thesis using in' k unfolding pinned_def by blast
qed

lemma pinned_services:
  assumes "service_step\<^sup>*\<^sup>* w w'" "system_ok w" "pinned aid out v w"
  shows "system_ok w' \<and> pinned aid out v w'"
  using assms by (induction rule: rtranclp_induct) (auto intro: pinned_service system.service_keeps)

lemma reachable_services: "service_step\<^sup>*\<^sup>* w w' \<Longrightarrow> reachable w \<Longrightarrow> reachable w'"
  by (induction rule: rtranclp_induct) (auto intro: r_step st_service)

end
