(* ===== verification/Outgoing_Safety.thy ===== *)
theory Outgoing_Safety
  imports Outgoing_Worker Attempt_History
begin

text \<open>
  What the outgoing worker may do to the ledger. The locale \<open>guarantee\<close> is the contract between a process
  and the transactions it calls: a relation on worlds that is closed under composition, and a fact
  that it keeps stable. It is interpreted on sequences of service steps, with the facts a process
  has read about attempts, and on processes that leave reservations alone.
\<close>

named_theorems ensures_intros

section \<open>The result of a process\<close>

lemma bind_p_Inr_iff: "bind_p m k w = (Inr x, w') \<longleftrightarrow> (\<exists>y w1. m w = (Inr y, w1) \<and> k y w1 = (Inr x, w'))"
  by (auto simp: bind_p_def split: prod.splits sum.splits)

lemma lift_p_Inr: "lift_p r w = (Inr x, w') \<longleftrightarrow> r = Inr x \<and> w' = w"
  by (auto simp: lift_p_def)

lemma return_p_Inr: "return_p y w = (Inr x, w') \<longleftrightarrow> x = y \<and> w' = w"
  by (auto simp: return_p_def)

lemma throw_p_Inr: "\<not> throw_p e w = (Inr x, w')"
  by (simp add: throw_p_def)

lemma throw_if_p_Inr: "throw_if_p b e w = (Inr x, w') \<longleftrightarrow> \<not> b \<and> w' = w"
  by (auto simp: throw_if_p_def return_p_def throw_p_def)

lemmas proc_simps = bind_p_Inr_iff lift_p_Inr return_p_Inr throw_p_Inr throw_if_p_Inr

lemma try_p_Inr: "try_p m h w = (Inr x, w') \<longleftrightarrow>
    m w = (Inr x, w') \<or> (\<exists>e w1. m w = (Inl e, w1) \<and> h e w1 = (Inr x, w'))"
  by (auto simp: try_p_def split: prod.splits sum.splits)

lemma try_p_Inl: "try_p m h w = (Inl x, w') \<longleftrightarrow> (\<exists>e w1. m w = (Inl e, w1) \<and> h e w1 = (Inl x, w'))"
  by (auto simp: try_p_def split: prod.splits sum.splits)

section \<open>What a process guarantees\<close>

text \<open>\<open>ensures I G m\<close>: started where \<open>I\<close> holds, the process changes the world only as \<open>G\<close> allows, whether
  it returns or throws.\<close>

definition ensures :: "(world \<Rightarrow> bool) \<Rightarrow> (world \<Rightarrow> world \<Rightarrow> bool) \<Rightarrow> 'a proc \<Rightarrow> bool" where
  "ensures I G m \<longleftrightarrow> (\<forall>w. I w \<longrightarrow> G w (snd (m w)))"

locale guarantee =
  fixes I :: "world \<Rightarrow> bool" and G :: "world \<Rightarrow> world \<Rightarrow> bool"
  assumes same: "I w \<Longrightarrow> G w w"
    and compose: "G u v \<Longrightarrow> G v w \<Longrightarrow> G u w"
    and stable: "I w \<Longrightarrow> G w w' \<Longrightarrow> I w'"
begin

lemma ensures_return: "ensures I G (return_p x)"
  by (simp add: ensures_def return_p_def same)

lemma ensures_throw: "ensures I G (throw_p e)"
  by (simp add: ensures_def throw_p_def same)

lemma ensures_lift: "ensures I G (lift_p r)"
  by (simp add: ensures_def lift_p_def same)

lemma ensures_throw_if: "ensures I G (throw_if_p b e)"
  by (simp add: throw_if_p_def ensures_return ensures_throw)

lemma ensures_bind:
  assumes m: "ensures I G m" and k: "\<And>x. ensures I G (k x)"
  shows "ensures I G (bind_p m k)"
  unfolding ensures_def
proof (intro allI impI)
  fix w assume w: "I w"
  have g: "G w (snd (m w))" using m w by (simp add: ensures_def)
  then have "I (snd (m w))" by (rule stable [OF w])
  then have "G (snd (m w)) (snd (k x (snd (m w))))" for x using k by (simp add: ensures_def)
  then show "G w (snd (bind_p m k w))"
    using g compose by (cases "m w"; cases "fst (m w)") (auto simp: bind_p_def)
qed

lemma ensures_try:
  assumes m: "ensures I G m" and h: "\<And>e. ensures I G (h e)"
  shows "ensures I G (try_p m h)"
  unfolding ensures_def
proof (intro allI impI)
  fix w assume w: "I w"
  have g: "G w (snd (m w))" using m w by (simp add: ensures_def)
  then have "I (snd (m w))" by (rule stable [OF w])
  then have "G (snd (m w)) (snd (h e (snd (m w))))" for e using h by (simp add: ensures_def)
  then show "G w (snd (try_p m h w))"
    using g compose by (cases "m w"; cases "fst (m w)") (auto simp: try_p_def)
qed

lemma ensures_when_allowed:
  "ensures I G c \<Longrightarrow> ensures I G m \<Longrightarrow> ensures I G (when_allowed c m)"
  unfolding when_allowed_def by (intro ensures_bind) (simp_all add: ensures_return)

lemma ensures_commit:
  "(\<And>w x w'. I w \<Longrightarrow> m w = Inr (x, w') \<Longrightarrow> G w w') \<Longrightarrow> ensures I G (commit m)"
  by (auto simp: ensures_def commit_def same split: sum.splits)

lemma ensures_call:
  assumes others: "\<And>w. I w \<Longrightarrow> G w (wk_others opts w)"
    and step: "\<And>w x w'. I w \<Longrightarrow> m w = Inr (x, w') \<Longrightarrow> G w w'"
  shows "ensures I G (call opts m)"
  unfolding ensures_def
proof (intro allI impI)
  fix w assume w: "I w"
  have g: "G w (wk_others opts w)" by (rule others [OF w])
  then have "I (wk_others opts w)" by (rule stable [OF w])
  moreover have "ensures I G (commit m)" by (rule ensures_commit) (rule step)
  ultimately have "G (wk_others opts w) (snd (commit m (wk_others opts w)))" by (simp add: ensures_def)
  then show "G w (snd (call opts m w))" using g compose by (auto simp: call_def)
qed

end

lemma ensures_if [ensures_intros]:
  "(b \<Longrightarrow> ensures I G m) \<Longrightarrow> (\<not> b \<Longrightarrow> ensures I G n) \<Longrightarrow> ensures I G (if b then m else n)"
  by simp

lemma ensures_option [ensures_intros]:
  "(x = None \<Longrightarrow> ensures I G m) \<Longrightarrow> (\<And>y. x = Some y \<Longrightarrow> ensures I G (k y)) \<Longrightarrow>
   ensures I G (case x of None \<Rightarrow> m | Some y \<Rightarrow> k y)"
  by (cases x) simp_all

lemma ensures_prod [ensures_intros]:
  "(\<And>a b. x = (a, b) \<Longrightarrow> ensures I G (k a b)) \<Longrightarrow> ensures I G (case x of (a, b) \<Rightarrow> k a b)"
  by (cases x) simp

lemma ensures_list [ensures_intros]:
  "(xs = [] \<Longrightarrow> ensures I G m) \<Longrightarrow> (\<And>y ys. xs = y # ys \<Longrightarrow> ensures I G (k y ys)) \<Longrightarrow>
   ensures I G (case xs of [] \<Rightarrow> m | y # ys \<Rightarrow> k y ys)"
  by (cases xs) simp_all

section \<open>Processes as sequences of service steps\<close>

text \<open>What a process knows: the world is reachable, and some attempts it has read are pinned.\<close>

type_synonym pin = "string \<times> string \<times> int"

definition knows :: "pin set \<Rightarrow> world \<Rightarrow> bool" where
  "knows \<Gamma> w \<longleftrightarrow> reachable w \<and> (\<forall>(aid, out, v) \<in> \<Gamma>. pinned aid out v w)"

abbreviation service :: "world \<Rightarrow> world \<Rightarrow> bool" where
  "service \<equiv> service_step\<^sup>*\<^sup>*"

abbreviation acts :: "pin set \<Rightarrow> 'a proc \<Rightarrow> bool" where
  "acts \<Gamma> \<equiv> ensures (knows \<Gamma>) service"

interpretation services: guarantee "knows \<Gamma>" service for \<Gamma>
proof
  fix w w' assume k: "knows \<Gamma> w" and s: "service w w'"
  then have "system_ok w" by (simp add: knows_def system.invariant)
  then show "knows \<Gamma> w'"
    using k reachable_services [OF s] pinned_services [OF s] unfolding knows_def by fast
qed auto

lemmas service_intros [ensures_intros] = services.ensures_return services.ensures_throw services.ensures_lift
  services.ensures_throw_if services.ensures_bind services.ensures_try services.ensures_when_allowed

lemma acts_weaken: "acts {} m \<Longrightarrow> acts \<Gamma> m"
  by (simp add: ensures_def knows_def)

lemma commit_ledger: "preserves ledger m \<Longrightarrow> acts \<Gamma> (commit m)"
  by (rule services.ensures_commit) (blast intro: st_other_tables dest: preservesD)

lemma this_now_acts [ensures_intros]: "acts \<Gamma> this_now" "acts \<Gamma> randomUUID"
  unfolding this_now_def randomUUID_def by (rule commit_ledger, intro frame_intros; simp)+

text \<open>What the development relies on of the code outside it: the options of the worker do to the ledger
  only what the services do.\<close>

definition environment_ok :: "V2OutgoingWorkerOptions \<Rightarrow> bool" where
  "environment_ok opts \<longleftrightarrow>
     (\<forall>w. reachable w \<longrightarrow> service w (wk_others opts w)) \<and>
     (\<forall>a. acts {} (wk_getStatus opts a)) \<and>
     (\<forall>v a. acts {} (wk_prepare opts v a)) \<and>
     (\<forall>p. acts {} (wk_sign opts p)) \<and>
     (\<forall>p s. acts {} (wk_submit opts p s)) \<and>
     (\<forall>r. wk_reconcile opts = Some r \<longrightarrow> (\<forall>v a p. acts {} (r v a p))) \<and>
     (\<forall>c. wk_custody opts = Some c \<longrightarrow>
        (\<forall>a. acts {} (cu_findActiveCustodyKeyVersion c a)) \<and> (\<forall>a. acts {} (cu_findSigningRequest c a)) \<and>
        (\<forall>i. acts {} (cu_createSigningRequest c i)) \<and> (\<forall>i h s. acts {} (cu_completeSigningRequest c i h s))) \<and>
     (\<forall>p. wk_platformCosts opts = Some p \<longrightarrow>
        (\<forall>i. acts {} (pco_createPlatformCostEstimate p i)) \<and> (\<forall>i n t. acts {} (pco_reconcilePlatformCost p i n t))) \<and>
     (\<forall>c. wk_signedPayloadCipher opts = Some c \<longrightarrow> (\<forall>b. acts {} (ci_encrypt c b))) \<and>
     (\<forall>q. wk_capacity opts = Some q \<longrightarrow> (\<forall>d t. acts {} (q d t)))"

lemma environment_acts [ensures_intros]:
  assumes "environment_ok opts"
  shows "acts \<Gamma> (wk_getStatus opts a)" "acts \<Gamma> (wk_prepare opts v y)" "acts \<Gamma> (wk_sign opts p)"
    "acts \<Gamma> (wk_submit opts p s)"
    "wk_custody opts = Some c \<Longrightarrow> acts \<Gamma> (cu_findActiveCustodyKeyVersion c a)"
    "wk_custody opts = Some c \<Longrightarrow> acts \<Gamma> (cu_findSigningRequest c a)"
    "wk_custody opts = Some c \<Longrightarrow> acts \<Gamma> (cu_createSigningRequest c i)"
    "wk_custody opts = Some c \<Longrightarrow> acts \<Gamma> (cu_completeSigningRequest c a h st)"
    "wk_platformCosts opts = Some co \<Longrightarrow> acts \<Gamma> (pco_createPlatformCostEstimate co ei)"
    "wk_platformCosts opts = Some co \<Longrightarrow> acts \<Gamma> (pco_reconcilePlatformCost co a n t)"
    "wk_signedPayloadCipher opts = Some ci \<Longrightarrow> acts \<Gamma> (ci_encrypt ci a)"
  by (rule acts_weaken, use assms in \<open>simp add: environment_ok_def\<close>)+

lemma environment_options:
  assumes "environment_ok opts"
  shows "wk_capacity opts = Some acquire \<Longrightarrow> acts \<Gamma> (acquire d t)"
    "wk_reconcile opts = Some reconcile \<Longrightarrow> acts \<Gamma> (reconcile v y b)"
  by (rule acts_weaken, use assms in \<open>simp add: environment_ok_def\<close>)+

lemma call_acts:
  assumes "environment_ok opts" "\<And>w x w'. knows \<Gamma> w \<Longrightarrow> m w = Inr (x, w') \<Longrightarrow> service_step w w'"
  shows "acts \<Gamma> (call opts m)"
  using assms by (intro services.ensures_call) (auto simp: environment_ok_def knows_def)

section \<open>The calls of the repository\<close>

lemma view_reads [frame_intros]:
  "outputs_frame g \<Longrightarrow> preserves g (findPaymentView a p)" "outputs_frame g \<Longrightarrow> preserves g (project_execution e)"
  "preserves g listActiveSettlementRoutes" "preserves g (findSettlementAsset i)" "preserves g (findEconomicMapping i)"
  unfolding findPaymentView_def loadPaymentView_def projectApprovalState_def listActiveSettlementRoutes_def
    findSettlementAsset_def findEconomicMapping_def project_execution_def find_decision_def find_approval_def
    find_reservation_def Let_def
  by (intro frame_intros; simp add: outputs_frameD)+

lemma call_read: "environment_ok opts \<Longrightarrow> preserves ledger m \<Longrightarrow> acts \<Gamma> (call opts m)"
  by (rule call_acts) (auto intro: st_other_tables dest: preservesD)

lemma calls_act [ensures_intros]:
  assumes "environment_ok opts"
  shows "acts \<Gamma> (call opts (findPaymentView a p))" "acts \<Gamma> (call opts (project_execution e))"
    "acts \<Gamma> (call opts listActiveSettlementRoutes)" "acts \<Gamma> (call opts (findSettlementAsset i))"
    "acts \<Gamma> (call opts (findEconomicMapping i))" "acts \<Gamma> (call opts (recordEvidence ev))"
    "acts \<Gamma> (call opts (commit_execution e row st))" "acts \<Gamma> (call opts (abortPreEffectPayment b))"
    "acts \<Gamma> (call opts (finalizeV2Payment f))" "acts \<Gamma> (call opts (claimWorkItem k))"
    "acts \<Gamma> (call opts (completeWorkItem x z))" "acts \<Gamma> (call opts (retryWorkItem q))"
    "acts \<Gamma> (call opts (deferWorkItem q))" "acts \<Gamma> (call opts (failWorkItem x z c m))"
  using assms
  by (intro call_read view_reads append_only_ledger ledger_frame call_acts; auto intro: service_step.intros)+

lemma outcome_acts:
  assumes "environment_ok opts"
    and "(no_effect_name (ao_currentOutcome u) \<longrightarrow> no_effect_name (ao_nextOutcome u)) \<or>
      (ao_attemptId u, ao_currentOutcome u, ao_currentRowVersion u) \<in> \<Gamma>"
  shows "acts \<Gamma> (call opts (updateAttemptOutcome u))"
proof (rule call_acts [OF assms(1)])
  fix w s w' assume k: "knows \<Gamma> w" and run: "updateAttemptOutcome u w = Inr (s, w')"
  have ok: "system_ok w" using k by (simp add: knows_def system.invariant)
  have "last_attempt (ao_attemptId u) w" if pin: "(ao_attemptId u, ao_currentOutcome u, ao_currentRowVersion u) \<in> \<Gamma>"
    and n: "no_effect_name (ao_currentOutcome u)"
  proof -
    obtain a where a: "a \<in> set (w_attempts w)" "att_id a = ao_attemptId u" "att_outcome a = ao_currentOutcome u"
      "att_rowVersion a = ao_currentRowVersion u"
      using updateAttemptOutcome_writes(5) [OF run] by blast
    have "pinned (ao_attemptId u) (ao_currentOutcome u) (ao_currentRowVersion u) w"
      using k pin by (auto simp: knows_def)
    then obtain b where b: "b \<in> set (w_attempts w)" "att_id b = ao_attemptId u"
      "att_rowVersion b = ao_currentRowVersion u \<longrightarrow> att_outcome b = ao_currentOutcome u \<longrightarrow>
        no_effect_name (ao_currentOutcome u) \<longrightarrow> last_attempt (ao_attemptId u) w"
      unfolding pinned_def by blast
    have "b = a" using system_okD(5) [OF ok] a(1,2) b(1,2) by (metis distinct_map inj_onD)
    then show ?thesis using a b n by blast
  qed
  then show "service_step w w'" using assms(2) by (intro st_outcome [OF run]) (auto simp: permitted_def)
qed

text \<open>The last attempt of a view that has just been read is pinned.\<close>

definition view_pins :: "V2PaymentView option \<Rightarrow> pin set" where
  "view_pins found = (case claim_attempt found of
     None \<Rightarrow> {} | Some (_, a) \<Rightarrow> {(as_id a, as_outcome a, as_rowVersion a)})"

lemma findPaymentView_attempts:
  assumes "findPaymentView acc pid w = Inr (Some v, w')"
  shows "vw_attempts v = map toV2AttemptSnapshot (payment_attempts pid w)" "w_attempts w' = w_attempts w"
proof -
  show "w_attempts w' = w_attempts w"
    by (rule preservesD [OF view_reads(1) assms]) (simp add: outputs_frame_def)
  obtain p where p: "pay_id p = pid" and l: "loadPaymentView p acc w = Inr (v, w')"
    using assms by (auto simp: findPaymentView_def tx_simps split: option.splits dest!: find_SomeD)
  show "vw_attempts v = map toV2AttemptSnapshot (payment_attempts pid w)"
    using l p by (auto simp: loadPaymentView_def find_decision_def find_approval_def find_reservation_def tx_simps
        split: option.splits)
qed

lemma last_sorted_max:
  fixes f :: "'a \<Rightarrow> 'k :: linorder"
  assumes "xs \<noteq> []" "x \<in> set xs"
  shows "f x \<le> f (last (sort_key f xs))"
proof -
  have ne: "sort_key f xs \<noteq> []" using assms(1) by (metis set_empty set_sort)
  have "x \<in> set (sort_key f xs)" using assms(2) by simp
  then have "x \<in> set (butlast (sort_key f xs) @ [last (sort_key f xs)])" using ne by simp
  moreover have "sorted_wrt (\<lambda>a b. f a \<le> f b) (butlast (sort_key f xs) @ [last (sort_key f xs)])"
    using sorted_sort_key [of f xs] ne by (simp add: sorted_map)
  ultimately show ?thesis by (auto simp: sorted_wrt_append)
qed

lemma view_pinned:
  assumes ok: "system_ok w" and run: "findPaymentView acc pid w = Inr (found, w')"
    and pin: "(aid, out, v) \<in> view_pins found"
  shows "pinned aid out v w'"
proof -
  obtain view s where f: "found = Some view" and s: "last_opt (vw_attempts view) = Some s"
    "aid = as_id s" "out = as_outcome s" "v = as_rowVersion s"
    using pin by (auto simp: view_pins_def claim_attempt_def split: option.splits bind_splits)
  note A = findPaymentView_attempts [OF run [unfolded f]]
  let ?rows = "filter (\<lambda>a. att_paymentId a = pid) (w_attempts w)"
  have ne: "payment_attempts pid w \<noteq> []" using s(1) A(1) by (auto simp: last_opt_def split: if_splits)
  define a where "a = last (payment_attempts pid w)"
  have "a \<in> set (payment_attempts pid w)" using ne by (simp add: a_def)
  then have a: "a \<in> set (w_attempts w)" "att_paymentId a = pid" by (auto simp: payment_attempts_def)
  have s': "s = toV2AttemptSnapshot a"
    using s(1) A(1) ne by (auto simp: last_opt_def a_def last_map split: if_splits)
  have "att_attemptNumber b \<le> att_attemptNumber a" if b: "b \<in> set (w_attempts w)" "att_paymentId b = att_paymentId a" for b
    unfolding a_def payment_attempts_def by (rule last_sorted_max) (use b a in \<open>auto simp: filter_empty_conv\<close>)
  then have "last_attempt (att_id a) w" using last_attempt_iff [OF ok a(1) refl] by blast
  then have "last_attempt (att_id a) w'" unfolding last_attempt_def A(2) .
  then show ?thesis
    unfolding pinned_def using a(1) A(2) s' s(2-4) by (auto simp: toV2AttemptSnapshot_def)
qed

lemma knows_insert: "knows (\<Gamma> \<union> \<Delta>) w \<longleftrightarrow> knows \<Gamma> w \<and> (\<forall>(aid, out, v) \<in> \<Delta>. pinned aid out v w)"
  unfolding knows_def by blast

lemma view_bind:
  assumes env: "environment_ok opts" and k: "\<And>found. acts (\<Gamma> \<union> view_pins found) (k found)"
  shows "acts \<Gamma> (bind_p (call opts (findPaymentView a p)) k)"
  unfolding ensures_def
proof (intro allI impI)
  fix w assume w: "knows \<Gamma> w"
  let ?w = "wk_others opts w"
  have o: "service w ?w" using env w by (simp add: environment_ok_def knows_def)
  have k1: "knows \<Gamma> ?w" by (rule services.stable [OF w o])
  show "service w (snd (bind_p (call opts (findPaymentView a p)) k w))"
  proof (cases "findPaymentView a p ?w")
    case (Inl e)
    then show ?thesis using o by (simp add: bind_p_def call_def commit_def)
  next
    case (Inr r)
    obtain found w1 where r: "r = (found, w1)" by (cases r)
    have "ledger w1 = ledger ?w" by (rule preservesD [OF view_reads(1) [OF ledger_frame] Inr [unfolded r]])
    then have s1: "service ?w w1" by (blast intro: st_other_tables)
    have "system_ok ?w" using k1 by (simp add: knows_def system.invariant)
    then have "knows (\<Gamma> \<union> view_pins found) w1"
      using services.stable [OF k1 s1] view_pinned [OF _ Inr [unfolded r]] by (auto simp: knows_insert)
    then have "service w1 (snd (k found w1))" using k by (simp add: ensures_def)
    then show ?thesis
      using o s1 Inr r by (auto simp: bind_p_def call_def commit_def intro: rtranclp_trans)
  qed
qed

section \<open>The operations of the worker\<close>

lemma claim_operations_act [ensures_intros]:
  assumes env: "environment_ok opts"
  shows "acts \<Gamma> (complete_claim opts claim)" "acts \<Gamma> (fail_claim opts claim c m)"
    "acts \<Gamma> (retry_claim opts claim t c m k)" "acts \<Gamma> (update_execution opts e)"
  unfolding complete_claim_def fail_claim_def retry_claim_def update_execution_def
  by (intro ensures_intros env)+

lemma read_world_acts [ensures_intros]: "acts \<Gamma> (\<lambda>w. (Inr (f w), w))"
  by (simp add: ensures_def)

lemma next_retry_acts [ensures_intros]: "acts \<Gamma> (next_retry opts claim)"
  unfolding next_retry_def by (intro ensures_intros)

lemma requeue_acts [ensures_intros]:
  assumes env: "environment_ok opts"
  shows "acts \<Gamma> (requeueForOutgoing opts claim)"
  unfolding requeueForOutgoing_def by (intro ensures_intros env)

lemma acquireCapacity_acts [ensures_intros]:
  assumes env: "environment_ok opts"
  shows "acts \<Gamma> (acquireCapacity opts claim d)" "acts \<Gamma> (acquireBatchCapacity opts)"
  unfolding acquireCapacity_def acquireBatchCapacity_def
  by (rule ensures_option, (rule services.ensures_return),
      (intro ensures_intros env; rule environment_options(1) [OF env]; assumption))+

lemma recordObservation_acts [ensures_intros]:
  assumes env: "environment_ok opts"
  shows "acts \<Gamma> (recordObservation opts pid aid out ext ob src)"
  unfolding recordObservation_def by (intro ensures_intros env)

lemma markPossibleEffect_acts [ensures_intros]:
  assumes env: "environment_ok opts"
  shows "acts \<Gamma> (markPossibleEffect opts claim view attempt)"
  unfolding markPossibleEffect_def
  by (intro ensures_intros outcome_acts env) (simp add: unknown_update_def no_effect_name_def)

lemma ensureActiveBeforeEffect_acts [ensures_intros]:
  assumes env: "environment_ok opts"
  shows "acts \<Gamma> (ensureActiveBeforeEffect opts claim view attempt)"
  unfolding ensureActiveBeforeEffect_def Let_def by (intro ensures_intros env)

lemma ensurePreparedAttemptIsCurrent_acts [ensures_intros]:
  assumes env: "environment_ok opts"
  shows "acts \<Gamma> (ensurePreparedAttemptIsCurrent opts claim prepared)"
  unfolding ensurePreparedAttemptIsCurrent_def by (intro ensures_intros env)

lemma platform_costs_act [ensures_intros]:
  assumes env: "environment_ok opts"
  shows "acts \<Gamma> (reconcilePlatformCost opts p actual)" "acts \<Gamma> (reconcilePlatformCostFromAttempt opts y actual)"
    "acts \<Gamma> (persistPlatformCostEstimate opts p)"
proof -
  show cost: "acts \<Gamma> (reconcilePlatformCost opts q actual)" for q
    unfolding reconcilePlatformCost_def prod.case by (intro ensures_intros env; simp add: env)
  show "acts \<Gamma> (reconcilePlatformCostFromAttempt opts y actual)"
    unfolding reconcilePlatformCostFromAttempt_def by (intro ensures_intros cost env)
  show "acts \<Gamma> (persistPlatformCostEstimate opts p)"
    unfolding persistPlatformCostEstimate_def by (intro ensures_intros env; simp add: env)
qed

lemma settlement_acts [ensures_intros]:
  assumes env: "environment_ok opts"
  shows "acts \<Gamma> (finalize_confirmed opts view attempt p ext add src)"
    "acts \<Gamma> (observe_unsettled opts claim view attempt p out ext add src c m)"
  unfolding finalize_confirmed_def observe_unsettled_def by (intro ensures_intros env)+

lemma handleSubmissionResult_acts:
  assumes env: "environment_ok opts" and pin: "(as_id attempt, as_outcome attempt, as_rowVersion attempt) \<in> \<Gamma>"
  shows "acts \<Gamma> (handleSubmissionResult opts claim view attempt prepared result)"
proof -
  have up: "acts \<Gamma> (call opts (updateAttemptOutcome (unknown_update attempt n st ext)))" for n st ext
    by (rule outcome_acts [OF env]) (simp add: unknown_update_def pin)
  show ?thesis
    unfolding handleSubmissionResult_def
    by (cases "sub_status result"; simp only: SubmissionStatus.case; intro ensures_intros up env)
qed

lemma findReplacementAttempt_acts [ensures_intros]:
  assumes env: "environment_ok opts"
  shows "acts \<Gamma> (findReplacementAttempt opts view)"
  unfolding findReplacementAttempt_def Let_def prod.case by (intro ensures_intros env)

lemma processReconciliation_acts [ensures_intros]:
  assumes env: "environment_ok opts"
  shows "acts \<Gamma> (processReconciliation opts claim view attempt)"
proof -
  have up: "acts \<Gamma> (call opts (updateAttemptOutcome (unknown_update attempt (as_outcome attempt) st ext)))" for st ext
    by (rule outcome_acts [OF env]) (simp add: unknown_update_def)
  have "acts \<Gamma> (case rec_status result of REC_CONFIRMED \<Rightarrow> x | REC_PROVED_NO_EFFECT \<Rightarrow> y | REC_UNKNOWN \<Rightarrow> z)"
    if "acts \<Gamma> x" "acts \<Gamma> y" "acts \<Gamma> z" for result and x y z :: "unit proc"
    using that by (cases "rec_status result") simp_all
  note cases = this
  show ?thesis
    unfolding processReconciliation_def
    by (rule ensures_option, (intro ensures_intros env),
        (intro ensures_intros cases up env; rule environment_options(2) [OF env]; assumption))
qed

lemma handleFailure_acts [ensures_intros]:
  assumes env: "environment_ok opts"
  shows "acts \<Gamma> (handleFailure opts claim e)"
  unfolding handleFailure_def loadClaimView_def Let_def by (intro ensures_intros env)

lemma prepare_effect_acts [ensures_intros]:
  assumes env: "environment_ok opts"
  shows "acts \<Gamma> (prepare_effect opts view attempt restored)"
proof -
  have up: "acts \<Gamma> (call opts (updateAttemptOutcome (prepared_update attempt p)))" for p
    by (rule outcome_acts [OF env]) (simp add: prepared_update_def unknown_update_def)
  show ?thesis unfolding prepare_effect_def by (intro ensures_intros up env)
qed

lemma custody_acts [ensures_intros]:
  assumes env: "environment_ok opts" and custody: "wk_custody opts = Some custody"
  shows "acts \<Gamma> (signing_request opts custody p)" "acts \<Gamma> (complete_pending custody r p st)"
  unfolding signing_request_def complete_pending_def
  by (intro ensures_intros; rule env custody)+

lemma sign_effect_acts [ensures_intros]:
  assumes env: "environment_ok opts" and custody: "wk_custody opts = Some custody"
  shows "acts \<Gamma> (sign_effect opts claim custody r view attempt p)"
  unfolding sign_effect_def by (intro ensures_intros; rule env custody)

lemma persist_signature_acts [ensures_intros]:
  assumes env: "environment_ok opts" and cipher: "wk_signedPayloadCipher opts = Some cipher"
  shows "acts \<Gamma> (persist_signature opts cipher attempt y s)"
proof -
  have up: "acts \<Gamma> (call opts (updateAttemptOutcome (signed_update attempt v h e c)))" for v h e c
    by (rule outcome_acts [OF env]) (simp add: signed_update_def unknown_update_def)
  show ?thesis unfolding persist_signature_def by (intro ensures_intros up; rule env cipher)
qed

lemma submit_effect_acts [ensures_intros]:
  assumes env: "environment_ok opts"
  shows "acts \<Gamma> (submit_effect opts claim accountId paymentId p s)"
  unfolding submit_effect_def
proof (rule view_bind [OF env], rule ensures_option)
  fix found :: "V2PaymentView option" and view :: V2PaymentView
  assume f: "found = Some view"
  show "acts (\<Gamma> \<union> view_pins found) (case last_opt (vw_attempts view) of
            None \<Rightarrow> fail_claim opts claim ''PAYMENT_ATTEMPT_NOT_FOUND_AFTER_SIGNING''
              ''Payment attempt disappeared after signing''
          | Some currentAttempt \<Rightarrow>
              if \<not> is_prepared p currentAttempt then complete_claim opts claim
              else when_allowed (ensureActiveBeforeEffect opts claim view currentAttempt)
               (when_allowed (acquireCapacity opts claim CAP_RAIL)
                (bind_p (wk_submit opts p s) (\<lambda>result.
                 handleSubmissionResult opts claim view currentAttempt p result))))"
  proof (intro ensures_intros env)
    fix a assume "last_opt (vw_attempts view) = Some a"
    then have "(as_id a, as_outcome a, as_rowVersion a) \<in> \<Gamma> \<union> view_pins found"
      by (simp add: view_pins_def claim_attempt_def f)
    then show "acts (\<Gamma> \<union> view_pins found) (handleSubmissionResult opts claim view a p result)" for result
      by (rule handleSubmissionResult_acts [OF env])
  qed
qed (intro ensures_intros env)

lemma execute_acts [ensures_intros]:
  assumes env: "environment_ok opts"
  shows "acts \<Gamma> (execute_attempt opts claim accountId paymentId view attempt)"
proof -
  have prepared: "acts \<Gamma> (execute_prepared opts claim custody cipher accountId paymentId view attempt p y)"
    if c: "wk_custody opts = Some custody" "wk_signedPayloadCipher opts = Some cipher" for custody cipher p y
    unfolding execute_prepared_def Let_def by (intro ensures_intros; rule env c)
  show ?thesis
    unfolding execute_attempt_def prod.case by (intro ensures_intros prepared env)
qed

lemma processClaimWithLease_acts [ensures_intros]:
  assumes env: "environment_ok opts"
  shows "acts \<Gamma> (processClaimWithLease opts claim)"
  unfolding processClaimWithLease_def process_item_def process_view_def Let_def by (intro ensures_intros env)

lemma claim_first_acts [ensures_intros]:
  assumes env: "environment_ok opts"
  shows "acts \<Gamma> (claim_first opts kinds)"
proof (induction kinds)
  case (Cons k ks)
  show ?case unfolding claim_first.simps by (intro ensures_intros env Cons.IH)
qed (simp add: services.ensures_return)

lemma process_items_acts:
  assumes env: "environment_ok opts"
  shows "acts \<Gamma> (process_items opts n)"
proof (induction n)
  case (Suc n)
  show ?case unfolding process_items.simps by (intro ensures_intros env Suc.IH)
qed (simp add: services.ensures_return)

lemma processBatch_service:
  assumes "environment_ok opts" "reachable w"
  shows "service w (snd (processBatch opts w))"
  using process_items_acts [OF assms(1), of "{}"] assms(2) by (simp add: processBatch_def ensures_def knows_def)

section \<open>Leaving reservations alone\<close>

abbreviation keeps_reservations :: "world \<Rightarrow> world \<Rightarrow> bool" where
  "keeps_reservations w w' \<equiv> w_reservations w' = w_reservations w"

interpretation reservations: guarantee "\<lambda>w. True" keeps_reservations
  by unfold_locales simp_all

abbreviation holds_funds :: "'a proc \<Rightarrow> bool" where
  "holds_funds \<equiv> ensures (\<lambda>w. True) keeps_reservations"

lemma commit_reservations: "preserves w_reservations m \<Longrightarrow> holds_funds (commit m)"
  by (rule reservations.ensures_commit) (blast dest: preservesD)

lemma markPossibleEffect_holds_funds:
  assumes "\<And>w. w_reservations (wk_others opts w) = w_reservations w"
  shows "holds_funds (markPossibleEffect opts claim view attempt)"
proof -
  have calls: "holds_funds (call opts (updateAttemptOutcome u))" "holds_funds (call opts (project_execution e))"
    "holds_funds (call opts (commit_execution e p st))" "holds_funds (call opts (recordEvidence ev))"
    "holds_funds (call opts (retryWorkItem q))" for u e p st ev q
    by (rule reservations.ensures_call, rule assms;
        auto dest: updateAttemptOutcome_writes(3) commit_execution_writes(3) retry_reservations
          preservesD [OF append_only_ledger(1)] preservesD [OF view_reads(2) [OF ledger_frame]] simp: ledger_iff)+
  have date: "holds_funds this_now" "holds_funds randomUUID"
    unfolding this_now_def randomUUID_def by (rule commit_reservations, intro frame_intros; simp)+
  have read: "holds_funds (\<lambda>w. (Inr (f w), w))" for f :: "world \<Rightarrow> int" by (simp add: ensures_def)
  show ?thesis
    unfolding markPossibleEffect_def update_execution_def recordObservation_def next_retry_def retry_claim_def
    by (intro ensures_if ensures_prod reservations.ensures_bind reservations.ensures_return calls date read)
qed

text \<open>Handling a failure of an attempt that is signed and not yet submitted.\<close>

lemma handleFailure_signed:
  assumes "wc_accountId claim = Some accountId" "paymentIdFromClaim claim = Inr pid"
    and "findPaymentView accountId pid (wk_others opts w) = Inr (Some view, w1)"
    and "last_opt (vw_attempts view) = Some attempt" "as_outcome attempt = ''NOT_STARTED''" "as_signedPayloadHash attempt \<noteq> None"
  shows "handleFailure opts claim e w = markPossibleEffect opts claim view attempt w1"
  using assms by (simp add: handleFailure_def loadClaimView_def bind_p_def lift_p_def call_def commit_def claim_attempt_def Let_def)

section \<open>Accounts that are not active\<close>

text \<open>The worker with another rail: nothing else of it changes.\<close>

abbreviation with_rail ::
    "V2OutgoingWorkerOptions \<Rightarrow> (V2PreparedEffect \<Rightarrow> ConstrainedSignedEffect proc) \<Rightarrow>
     (V2PreparedEffect \<Rightarrow> ConstrainedSignedEffect \<Rightarrow> SubmissionResult proc) \<Rightarrow> V2OutgoingWorkerOptions" where
  "with_rail opts sign submit \<equiv> opts\<lparr>wk_sign := sign, wk_submit := submit\<rparr>"

lemmas rail_free_defs = call_def complete_claim_def fail_claim_def retry_claim_def next_retry_def update_execution_def
  requeueForOutgoing_def acquireCapacity_def acquireBatchCapacity_def recordObservation_def markPossibleEffect_def
  ensureActiveBeforeEffect_def ensurePreparedAttemptIsCurrent_def reconcilePlatformCost_def
  reconcilePlatformCostFromAttempt_def finalize_confirmed_def observe_unsettled_def findReplacementAttempt_def
  stored_payload_def processReconciliation_def loadClaimView_def handleFailure_def batch_kinds_def

lemma with_rail_options:
  "wk_others (with_rail opts s t) = wk_others opts"
  "wk_getStatus (with_rail opts s t) = wk_getStatus opts"
  "wk_prepare (with_rail opts s t) = wk_prepare opts"
  "wk_reconcile (with_rail opts s t) = wk_reconcile opts"
  "wk_custody (with_rail opts s t) = wk_custody opts"
  "wk_platformCosts (with_rail opts s t) = wk_platformCosts opts"
  "wk_signedPayloadCipher (with_rail opts s t) = wk_signedPayloadCipher opts"
  "wk_serviceIdentity (with_rail opts s t) = wk_serviceIdentity opts"
  "wk_capacity (with_rail opts s t) = wk_capacity opts"
  "wk_reconcileMode (with_rail opts s t) = wk_reconcileMode opts"
  "wk_owner (with_rail opts s t) = wk_owner opts"
  "wk_leaseSeconds (with_rail opts s t) = wk_leaseSeconds opts"
  "wk_batchSize (with_rail opts s t) = wk_batchSize opts"
  "wk_sha256 (with_rail opts s t) = wk_sha256 opts"
  "wk_parseDate (with_rail opts s t) = wk_parseDate opts"
  "wk_random (with_rail opts s t) = wk_random opts"
  "wk_localeCompare (with_rail opts s t) = wk_localeCompare opts"
  by simp_all

lemma rail_free:
  "complete_claim (with_rail opts s t) claim = complete_claim opts claim"
  "requeueForOutgoing (with_rail opts s t) claim = requeueForOutgoing opts claim"
  "ensureActiveBeforeEffect (with_rail opts s t) claim view attempt = ensureActiveBeforeEffect opts claim view attempt"
  "processReconciliation (with_rail opts s t) claim view attempt = processReconciliation opts claim view attempt"
  "handleFailure (with_rail opts s t) claim = handleFailure opts claim"
  "acquireBatchCapacity (with_rail opts s t) = acquireBatchCapacity opts"
  "batch_kinds (with_rail opts s t) = batch_kinds opts" "call (with_rail opts s t) m = call opts m"
  unfolding fun_eq_iff rail_free_defs with_rail_options by (rule refl | (intro allI, rule refl))+

lemma claim_first_rail_free: "claim_first (with_rail opts s t) kinds = claim_first opts kinds"
  by (induction kinds) (simp_all add: call_def)

lemma never_allowed:
  assumes "\<And>w. fst (c w) \<noteq> Inr True"
  shows "when_allowed c m = when_allowed c n"
proof (rule ext)
  fix w
  show "when_allowed c m w = when_allowed c n w"
    using assms [of w] by (cases "c w"; cases "fst (c w)") (auto simp: when_allowed_def bind_p_def return_p_def)
qed

lemma inactive_never_allowed:
  assumes "\<And>a w. fst (wk_getStatus opts a w) \<noteq> Inr AA_ACTIVE"
  shows "fst (ensureActiveBeforeEffect opts claim view attempt w) \<noteq> Inr True"
proof -
  have b: "fst (bind_p m k v) \<noteq> Inr True" if "\<And>x u. fst (k x u) \<noteq> Inr True" for v and m :: "'a proc" and k
    using that by (auto simp: bind_p_def split: prod.splits sum.splits)
  have s: "fst (bind_p (wk_getStatus opts a) k v) \<noteq> Inr True" if "\<And>x u. x \<noteq> AA_ACTIVE \<Longrightarrow> fst (k x u) \<noteq> Inr True" for a k v
    using that assms [of a v] by (auto simp: bind_p_def split: prod.splits sum.splits)
  show ?thesis
    unfolding ensureActiveBeforeEffect_def Let_def
    by (rule b, rule s) (auto simp: return_p_def throw_p_def intro!: b)
qed

lemma inactive_rail_free:
  assumes "\<And>a w. fst (wk_getStatus opts a w) \<noteq> Inr AA_ACTIVE"
  shows "processClaimWithLease (with_rail opts s t) claim = processClaimWithLease opts claim"
proof -
  have exec: "execute_attempt (with_rail opts s t) claim a p view attempt = execute_attempt opts claim a p view attempt"
    for a p view attempt
    unfolding execute_attempt_def rail_free by (rule never_allowed) (rule inactive_never_allowed [OF assms])
  show ?thesis
    unfolding processClaimWithLease_def process_item_def process_view_def rail_free exec with_rail_options ..
qed

lemma inactive_items_rail_free:
  assumes "\<And>a w. fst (wk_getStatus opts a w) \<noteq> Inr AA_ACTIVE"
  shows "process_items (with_rail opts s t) n = process_items opts n"
proof (induction n)
  case (Suc n)
  show ?case
    unfolding process_items.simps rail_free claim_first_rail_free inactive_rail_free [OF assms] Suc ..
qed simp

end
