(* ===== verification/Outgoing_Properties.thy ===== *)
theory Outgoing_Properties
  imports Outgoing_Safety Sample_World
begin

text \<open>
  The properties of the outgoing worker, with a sample worker on which their witnesses rest: its batches
  refine the service steps of the repository, stored effects are read back, a failure after signing
  keeps the funds reserved, and inactive accounts send nothing. Two theorems at the end show
  situations the worker does not catch.
\<close>

section \<open>A sample worker\<close>

definition sample_prepared :: V2PreparedEffect where
  "sample_prepared = \<lparr>pf_accountId = ''acc'', pf_paymentId = ''p1'', pf_attemptId = ''a1'', pf_correlationId = None,
     pf_effectHash = ''eh'', pf_network = ''n'', pf_assetReference = ''m'', pf_destination = ''x'', pf_amountAtomic = 30,
     pf_feePayerIdentity = ''fee'', pf_keyVersion = 1, pf_preparedPayload = ''pp'', pf_routeId = ''rt'',
     pf_payloadHash = ''ph'', pf_platformCostEstimate = Some \<lparr>co_assetId = ''sol'', co_amountAtomic = 5\<rparr>,
     pf_validityExpiresAt = Some 1000, pf_validitySlot = Some 7\<rparr>"

definition sample_signed :: ConstrainedSignedEffect where
  "sample_signed = \<lparr>sg_effectHash = ''eh'', sg_keyVersion = 1, sg_signedPayload = ''bytes'', sg_externalId = ''sig''\<rparr>"

definition sample_custody :: Custody where
  "sample_custody = \<lparr>cu_findActiveCustodyKeyVersion = (\<lambda>_. return_p (Some 1)), cu_findSigningRequest = (\<lambda>_. return_p None),
     cu_createSigningRequest = (\<lambda>i. return_p \<lparr>sq_id = si_id i, sq_effectHash = si_effectHash i, sq_status = ''PENDING''\<rparr>),
     cu_completeSigningRequest = (\<lambda>_ _ _. return_p ())\<rparr>"

definition sample_cipher :: WalletSecretCipher where
  "sample_cipher = \<lparr>ci_encrypt = (\<lambda>b. return_p \<lparr>enc_ciphertext = b, enc_nonce = ''n'', enc_authTag = ''t''\<rparr>),
     ci_decrypt = (\<lambda>e. Inr (enc_ciphertext e))\<rparr>"

definition sample_costs :: PlatformCosts where
  "sample_costs = \<lparr>pco_createPlatformCostEstimate = (\<lambda>_. return_p ()), pco_reconcilePlatformCost = (\<lambda>_ _ _. return_p ())\<rparr>"

definition sample_parse_date :: "string \<Rightarrow> int option" where
  "sample_parse_date s = (if s = toISOString 1000 then Some 1000 else None)"

definition sample_worker :: "SubmissionStatus \<Rightarrow> V2OutgoingWorkerOptions" where
  "sample_worker status = \<lparr>wk_others = (\<lambda>w. w), wk_getStatus = (\<lambda>_. return_p AA_ACTIVE),
     wk_prepare = (\<lambda>_ _. return_p sample_prepared), wk_sign = (\<lambda>_. return_p sample_signed),
     wk_submit = (\<lambda>_ _. return_p \<lparr>sub_status = status, sub_externalId = Some ''sig'', sub_failureCode = None,
       sub_failureMessageSafe = None, sub_platformCostActual = None, sub_evidenceMetadataJson = None\<rparr>),
     wk_reconcile = None, wk_custody = Some sample_custody, wk_platformCosts = Some sample_costs,
     wk_signedPayloadCipher = Some sample_cipher, wk_serviceIdentity = None, wk_capacity = None, wk_reconcileMode = False,
     wk_owner = ''worker'', wk_leaseSeconds = None, wk_batchSize = None, wk_sha256 = (\<lambda>s. s),
     wk_parseDate = sample_parse_date, wk_random = (\<lambda>_. 1 / 2), wk_localeCompare = (\<lambda>_ _. 0)\<rparr>"

lemma sample_environment: "environment_ok (sample_worker status)"
  by (simp add: environment_ok_def sample_worker_def sample_custody_def sample_cipher_def sample_costs_def
      services.ensures_return)

definition sample_claim :: V2WorkItemClaim where
  "sample_claim = \<lparr>wc_id = ''w1'', wc_kind = ''OUTGOING_PAYMENT'', wc_resourceType = ''PAYMENT'', wc_resourceId = ''p1'',
     wc_attemptCount = 1, wc_payloadJson = ''{}'', wc_accountId = Some ''acc''\<rparr>"

section \<open>The worker and the ledger\<close>

text \<open>C2: a batch of the outgoing worker is a sequence of service steps, whatever the rail answers, whatever
  fails on the way and whatever the other processes do between its transactions; so the ledger stays
  reachable and no payment gets a second attempt that may have had an effect.\<close>

theorem worker_refines_service:
  assumes "environment_ok opts" "reachable w"
  shows "service_step\<^sup>*\<^sup>* w (snd (processBatch opts w)) \<and> reachable (snd (processBatch opts w)) \<and>
    length (filter (\<lambda>a. att_paymentId a = pid \<and> \<not> no_effect_name (att_outcome a))
      (w_attempts (snd (processBatch opts w)))) \<le> 1"
proof -
  have s: "service_step\<^sup>*\<^sup>* w (snd (processBatch opts w))" by (rule processBatch_service [OF assms])
  then have r: "reachable (snd (processBatch opts w))" by (rule reachable_services [OF _ assms(2)])
  show ?thesis using s r system_single_effect [OF system.invariant [OF r]] by blast
qed

theorem worker_refines_service_witness:
  "\<exists>w. map pay_id (w_payments w) = [''p1''] \<and> reachable (snd (processBatch (sample_worker SUB_UNKNOWN) w))"
proof -
  obtain r w' where run: "createV2Payment sample_input sample_world = Inr (r, w')" "cr_created r" "reachable w'"
    by (rule sample_reachable)
  have "succeeds (createV2Payment sample_input) sample_world (\<lambda>r w'. map pay_id (w_payments w') = [''p1''])" by code_simp
  then have "map pay_id (w_payments w') = [''p1'']" using run(1) by (auto simp: succeeds_def)
  then show ?thesis
    using worker_refines_service [OF sample_environment run(3)] by (intro exI [of _ w']) blast
qed

section \<open>Durable effects\<close>

text \<open>C34: the effect a worker has stored is restored exactly, after a crash or by another worker: reading
  back what serializePreparedEffect wrote gives the prepared effect, every optional field included.\<close>

theorem prepared_effect_restored:
  assumes "as_preparedEffectJson attempt = Some (serializePreparedEffect p)" "storable p"
    and "\<And>t. pf_validityExpiresAt p = Some t \<Longrightarrow> parseDate (toISOString t) = Some t"
  shows "restorePreparedEffect parseDate attempt = Inr (Some p)"
  using assms by (rule restore_serialized)

theorem prepared_effect_restored_witness:
  "restorePreparedEffect sample_parse_date ((toV2AttemptSnapshot (running_attempt ''NOT_STARTED''))
     \<lparr>as_preparedEffectJson := Some (serializePreparedEffect sample_prepared)\<rparr>) = Inr (Some sample_prepared)"
  by (rule prepared_effect_restored) (simp_all add: storable_def sample_prepared_def sample_parse_date_def)

section \<open>Failures and inactive accounts\<close>

text \<open>C14: when something fails after the effect was signed, the worker does not give the funds back: it
  marks the effect as possible and leaves every reservation as it is, for every error.\<close>

theorem signed_failure_keeps_reservations:
  assumes "\<And>v. w_reservations (wk_others opts v) = w_reservations v"
    and "wc_accountId claim = Some accountId" "paymentIdFromClaim claim = Inr pid"
    and "findPaymentView accountId pid (wk_others opts w) = Inr (Some view, w1)"
    and "last_opt (vw_attempts view) = Some attempt" "as_outcome attempt = ''NOT_STARTED''" "as_signedPayloadHash attempt \<noteq> None"
  shows "w_reservations (snd (handleFailure opts claim error w)) = w_reservations w"
proof -
  have "w_reservations w1 = w_reservations (wk_others opts w)"
    by (rule preservesD [OF view_reads(1) assms(4)]) (simp add: outputs_frame_def)
  moreover have "w_reservations (snd (markPossibleEffect opts claim view attempt w1)) = w_reservations w1"
    using markPossibleEffect_holds_funds [OF assms(1)] by (simp add: ensures_def)
  ultimately show ?thesis
    unfolding handleFailure_signed [OF assms(2-7)] by (simp add: assms(1))
qed

definition signed_world :: world where
  "signed_world = (running_world ''NOT_STARTED'')
     \<lparr>w_attempts := [(running_attempt ''NOT_STARTED'')\<lparr>att_signedPayloadHash := Some ''bytes''\<rparr>]\<rparr>"

definition signed_view :: "V2PaymentView option \<Rightarrow> bool" where
  "signed_view found = (case claim_attempt found of None \<Rightarrow> False
     | Some (_, a) \<Rightarrow> as_outcome a = ''NOT_STARTED'' \<and> as_signedPayloadHash a = Some ''bytes'')"

lemma sample_signed_view: "succeeds (findPaymentView ''acc'' ''p1'') signed_world (\<lambda>v w'. signed_view v)"
  by code_simp

theorem signed_failure_keeps_reservations_witness:
  "w_reservations (snd (handleFailure (sample_worker SUB_FAILED) sample_claim TypeError signed_world)) =
     [reservation_row_of sample_input running_payment 50]"
proof -
  obtain found w1 where run: "findPaymentView ''acc'' ''p1'' signed_world = Inr (found, w1)" "signed_view found"
    by (rule succeedsE [OF sample_signed_view])
  obtain view a where v: "found = Some view" "last_opt (vw_attempts view) = Some a" "as_outcome a = ''NOT_STARTED''"
    "as_signedPayloadHash a = Some ''bytes''"
    using run(2) by (auto simp: signed_view_def claim_attempt_def split: option.splits bind_splits)
  have "w_reservations (snd (handleFailure (sample_worker SUB_FAILED) sample_claim TypeError signed_world)) =
      w_reservations signed_world"
    by (rule signed_failure_keeps_reservations [where accountId = "''acc''" and pid = "''p1''"])
      (use run v in \<open>auto simp: sample_worker_def sample_claim_def paymentIdFromClaim_def\<close>)
  then show ?thesis by (simp add: signed_world_def running_world_def)
qed



section \<open>Two gaps\<close>

text \<open>A payment that has failed for good is not recognised as finished: when its work item is claimed
  again, the worker goes on to execute the attempt.\<close>

theorem failed_payment_executed_again:
  assumes "wc_accountId claim = Some accountId" "wc_resourceType claim = ''PAYMENT''" "\<not> wk_reconcileMode opts"
    and "findPaymentView accountId (wc_resourceId claim) (wk_others opts w) = Inr (Some view, w1)"
    and "pay_status (vw_payment view) = PS_FAILED" "last_opt (vw_attempts view) = Some attempt" "as_outcome attempt = ''FAILED''"
  shows "process_item opts claim w = execute_attempt opts claim accountId (wc_resourceId claim) view attempt w1"
  using assms by (simp add: process_item_def process_view_def paymentIdFromClaim_def bind_p_def lift_p_def call_def commit_def)

text \<open>An attempt that another process has aborted while this one was signing it is submitted: the last
  check before the submission looks at the prepared effect and the account, not at the outcome.\<close>

theorem aborted_attempt_submitted:
  assumes "findPaymentView accountId pid (wk_others opts w) = Inr (Some view, w1)"
    and "last_opt (vw_attempts view) = Some attempt" "as_outcome attempt = ''PRE_EFFECT_ABORTED''" "is_prepared prepared attempt"
    and "ensureActiveBeforeEffect opts claim view attempt w1 = (Inr True, w2)" "wk_capacity opts = None"
  shows "submit_effect opts claim accountId pid prepared signed w =
    bind_p (wk_submit opts prepared signed) (handleSubmissionResult opts claim view attempt prepared) w2"
  using assms by (simp add: submit_effect_def acquireCapacity_def when_allowed_def bind_p_def return_p_def call_def commit_def)

end
