(* ===== verification/Operator_Properties.thy ===== *)
theory Operator_Properties
  imports Sample_World
begin

text \<open>
  What an operator's decisions mean for the money: funds are released only on evidence, an exception and
  an approval are settled once, an approved payment stays within the settled balance. Each property is
  followed by a witness.
\<close>

section \<open>Resolving an exception\<close>



definition unknown_exception :: exception_row where
  "unknown_exception = \<lparr>opx_id = ''x1'', opx_accountId = Some ''acc'', opx_resourceType = ''PAYMENT'', opx_resourceId = ''p1'',
     opx_dedupeKey = ''k'', opx_activeDedupeKey = Some ''k'', opx_status = ''OPEN'', opx_severity = ''HIGH'',
     opx_reasonCode = ''UNKNOWN_OUTCOME'', opx_detailsJson = ''{}'', opx_assignedTo = None, opx_createdAt = 60,
     opx_updatedAt = 60, opx_acknowledgedAt = None, opx_resolvedAt = None, opx_rowVersion = 1\<rparr>"

definition observed :: "string \<Rightarrow> evidence_row" where
  "observed outcome = \<lparr>evd_id = ''e1'', evd_paymentId = ''p1'', evd_attemptId = Some ''a1'', evd_authority = ''RAIL'',
     evd_source = ''rail'', evd_outcome = outcome, evd_observedAt = 70, evd_externalId = None,
     evd_expectedExternalId = None, evd_payloadHash = None, evd_providerCorrelation = None, evd_metadataJson = ''{}'',
     evd_createdAt = 70\<rparr>"

definition disputed_world :: "string \<Rightarrow> world" where
  "disputed_world outcome = (running_world ''UNKNOWN'')\<lparr>w_exceptions := [unknown_exception], w_evidence := [observed outcome]\<rparr>"

definition resolve_input :: ExceptionAction where
  "resolve_input = \<lparr>xa_id = ''x1'', xa_operatorId = ''op'', xa_rowVersion = 1, xa_evidenceId = None, xa_now = Some 80\<rparr>"

lemma disputed_world_ok: "system_ok (disputed_world outcome)"
  using running_world_ok [of "''UNKNOWN''"] by (simp add: disputed_world_def system_ok_def works_ok_def)




text \<open>C16: a confirmed resolution settles the payment with its money: on evidence of the rail or of the
  settlement provider for the last attempt, the payment is confirmed, that attempt ends confirmed, every held
  reservation of the payment is consumed and none stays held; no other payment changes.\<close>

theorem operator_confirmation_consumes:
  assumes "resolveConfirmedException input w = Inr (x, w')" "system_ok w"
  shows "\<exists>p e. p \<in> set (w_payments w) \<and> e \<in> set (w_evidence w) \<and> evd_paymentId e = pay_id p \<and>
     evd_outcome e = ''CONFIRMED'' \<and> evd_authority e \<in> {''RAIL'', ''SETTLEMENT_PROVIDER''} \<and>
     (\<exists>a \<in> set (w_attempts w'). att_paymentId a = pay_id p \<and> evd_attemptId e = Some (att_id a) \<and> att_outcome a = ''CONFIRMED'') \<and>
     (\<forall>q \<in> set (w_payments w'). pay_id q = pay_id p \<longrightarrow> pay_status q = PS_CONFIRMED) \<and>
     (\<forall>q \<in> set (w_payments w). pay_id q \<noteq> pay_id p \<longrightarrow> q \<in> set (w_payments w')) \<and>
     (\<forall>r \<in> set (w_reservations w). held_of (pay_id p) r \<longrightarrow> (\<exists>now. consume_data now r \<in> set (w_reservations w'))) \<and>
     (\<forall>r \<in> set (w_reservations w'). \<not> held_of (pay_id p) r)"
  using assms(1) [unfolded resolveConfirmedException_def]
proof (cases rule: resolveException_cases)
  case (1 y p now w1 w2 u)
  let ?a = "last (payment_attempts (pay_id p) w)"
  have sl: "w_reservations w1 = w_reservations w" "w_attempts w1 = w_attempts w" "w_payments w1 = w_payments w"
    "w_reservations w' = w_reservations w2" "w_attempts w' = w_attempts w2" "w_payments w' = w_payments w2"
    using 1(9,12) by (simp_all add: same_ledger_def)
  note N = resolve_confirmed_Inr [OF 1(11) [unfolded phase_of_def Resolution.case]]
  obtain t where t: "w_attempts w' = resolved_attempts ?a RES_CONFIRMED t (w_attempts w)" using N(5) sl by auto
  obtain t' where t': "w_payments w' = update_rows (\<lambda>q. pay_id q = pay_id p)
      (resolve_payment_data PS_CONFIRMED ''TERMINAL'' ''CONFIRMED'' ''CONFIRMED'' (Some now) t') (w_payments w)"
    using N(4) sl by auto
  obtain e where e: "e \<in> set (w_evidence w)" "evd_paymentId e = pay_id p" "evd_attemptId e = Some (att_id ?a)"
    "evd_outcome e = ''CONFIRMED''" "evd_authority e \<in> {''RAIL'', ''SETTLEMENT_PROVIDER''}"
    using 1(8) by (auto simp: evidenced_def resolution_name_def allowedAuthorities_def)
  have a: "?a \<in> set (w_attempts w)" "att_paymentId ?a = pay_id p" using last_payment_attempt [OF 1(7)] by auto
  have "\<exists>a \<in> set (w_attempts w'). att_paymentId a = pay_id p \<and> att_id a = att_id ?a \<and> att_outcome a = ''CONFIRMED''"
  proof (cases "att_outcome ?a = ''UNKNOWN''")
    case True
    then have "w_attempts w' = update_rows (\<lambda>q. att_id q = att_id ?a) (resolve_attempt_data ''CONFIRMED'' PAS_CONFIRMED t) (w_attempts w)"
      by (simp add: t resolved_attempts_def resolution_name_def)
    then have "resolve_attempt_data ''CONFIRMED'' PAS_CONFIRMED t ?a \<in> set (w_attempts w')" using updated_member [OF a(1)] by simp
    then show ?thesis by (rule bexI [rotated]) (simp add: resolve_attempt_data_def a(2))
  next
    case False
    then have "w_attempts w' = w_attempts w" by (simp add: t resolved_attempts_def)
    then show ?thesis using a N(6) False by auto
  qed
  moreover have "pay_status q = PS_CONFIRMED" if q: "q \<in> set (w_payments w')" "pay_id q = pay_id p" for q
  proof -
    obtain b where "q = (if pay_id b = pay_id p then resolve_payment_data PS_CONFIRMED ''TERMINAL'' ''CONFIRMED'' ''CONFIRMED'' (Some now) t' b else b)"
      using q(1) unfolding t' set_update_rows by blast
    then show ?thesis using q(2) by (cases "pay_id b = pay_id p") (simp_all add: resolve_payment_data_def)
  qed
  moreover have "q \<in> set (w_payments w')" if "q \<in> set (w_payments w)" "pay_id q \<noteq> pay_id p" for q
    using that by (auto simp: t' set_update_rows)
  moreover have "consume_data now r \<in> set (w_reservations w')" if "r \<in> set (w_reservations w)" "held_of (pay_id p) r" for r
    using that N(3) sl by (auto simp: set_update_rows)
  moreover have "\<not> held_of (pay_id p) r" if "r \<in> set (w_reservations w')" for r
    using that N(3) sl by (auto dest!: updated_none [rotated] simp: held_of_def consume_data_def)
  ultimately show ?thesis using 1(5) e by (intro exI [of _ p] exI [of _ e]) auto
qed

lemma sample_confirmed_exception:
  "succeeds (resolveConfirmedException resolve_input) (disputed_world ''CONFIRMED'') (\<lambda>x w'. True)"
  by code_simp

theorem operator_confirmation_consumes_witness:
  "\<exists>x w' p. resolveConfirmedException resolve_input (disputed_world ''CONFIRMED'') = Inr (x, w') \<and>
     p \<in> set (w_payments (disputed_world ''CONFIRMED'')) \<and> (\<forall>r \<in> set (w_reservations w'). \<not> held_of (pay_id p) r)"
proof -
  obtain x w' where run: "resolveConfirmedException resolve_input (disputed_world ''CONFIRMED'') = Inr (x, w')"
    by (rule succeedsE [OF sample_confirmed_exception])
  then show ?thesis using operator_confirmation_consumes [OF run disputed_world_ok] by blast
qed

section \<open>An exception is settled once\<close>

interpretation exceptions: keyed_table w_exceptions w_exceptions_update opx_id
  by unfold_locales simp

definition settles_exception :: "ExceptionAction \<Rightarrow> world \<Rightarrow> world \<Rightarrow> bool" where
  "settles_exception input w w' \<longleftrightarrow>
     (\<exists>x out. resolveExceptionWithEvidence input out w = Inr (x, w')) \<or> (\<exists>x. closeUnresolvedException input w = Inr (x, w'))"

lemma settled_exception_row:
  assumes "settles_exception input w w'" "distinct (map opx_id (w_exceptions w))"
  shows "distinct (map opx_id (w_exceptions w'))"
    "\<exists>x \<in> set (w_exceptions w'). opx_id x = xa_id input \<and> opx_status x \<in> {''RESOLVED'', ''CLOSED_UNRESOLVED''}"
proof -
  have "\<exists>x st now t. x \<in> set (w_exceptions w) \<and> opx_id x = xa_id input \<and> st \<in> {''RESOLVED'', ''CLOSED_UNRESOLVED''} \<and>
      w_exceptions w' = update_rows (\<lambda>q. opx_id q = opx_id x) (close_exception_data st (xa_operatorId input) now t) (w_exceptions w)"
    using assms(1) unfolding settles_exception_def
  proof (elim disjE exE)
    fix y out assume "resolveExceptionWithEvidence input out w = Inr (y, w')"
    then show ?thesis
    proof (cases rule: resolveException_cases)
      case (1 x p now w1 w2 u)
      have "w_exceptions w2 = w_exceptions w1"
        using 1(11) resolve_confirmed_Inr(2) resolve_no_effect_Inr(2) by (cases out) (auto simp: phase_of_def)
      then show ?thesis using 1(1,2,10,13) by (metis insertCI)
    qed
  next
    fix y assume "closeUnresolvedException input w = Inr (y, w')"
    then show ?thesis by (cases rule: closeUnresolved_cases) blast
  qed
  then obtain x st now t where x: "x \<in> set (w_exceptions w)" "opx_id x = xa_id input" "st \<in> {''RESOLVED'', ''CLOSED_UNRESOLVED''}"
    "w_exceptions w' = update_rows (\<lambda>q. opx_id q = opx_id x) (close_exception_data st (xa_operatorId input) now t) (w_exceptions w)"
    by blast
  show "distinct (map opx_id (w_exceptions w'))"
    using assms(2) by (simp add: x(4) map_update_rows close_exception_data_def)
  have "close_exception_data st (xa_operatorId input) now t x \<in> set (w_exceptions w')"
    unfolding x(4) by (rule updated_member [OF x(1)]) simp
  then show "\<exists>x \<in> set (w_exceptions w'). opx_id x = xa_id input \<and> opx_status x \<in> {''RESOLVED'', ''CLOSED_UNRESOLVED''}"
    by (rule bexI [rotated]) (use x(2,3) in \<open>auto simp: close_exception_data_def\<close>)
qed

lemma lockException_settled:
  assumes "distinct (map opx_id (w_exceptions w))" "x \<in> set (w_exceptions w)" "opx_id x = i"
    and "opx_status x \<in> {''RESOLVED'', ''CLOSED_UNRESOLVED''}"
  shows "\<exists>m. lockException i v w = Inl (DomainErr (ConflictError m))"
proof -
  have "List.find (\<lambda>q. opx_id q = i) (w_exceptions w) = Some x" using exceptions.find_unique [OF assms(1,2)] assms(3) by simp
  then show ?thesis
    using assms(4) by (auto simp: lockException_def bind_tx_def find_tx_def gets_tx_def throw_if_tx_def throw_tx_def return_tx_def)
qed

text \<open>C29: an exception is settled once: after a resolution or a closure every further acknowledgement,
  resolution or closure of the exception fails with a conflict, whatever row version it names.\<close>

theorem exception_settled_once:
  assumes "settles_exception input w w'" "distinct (map opx_id (w_exceptions w))" "xa_id again = xa_id input"
  shows "(\<exists>m. acknowledgeException again w' = Inl (DomainErr (ConflictError m))) \<and>
     (\<forall>out. \<exists>m. resolveExceptionWithEvidence again out w' = Inl (DomainErr (ConflictError m))) \<and>
     (\<exists>m. closeUnresolvedException again w' = Inl (DomainErr (ConflictError m)))"
proof -
  obtain x where d: "distinct (map opx_id (w_exceptions w'))" and x: "x \<in> set (w_exceptions w')" "opx_id x = xa_id again"
    "opx_status x \<in> {''RESOLVED'', ''CLOSED_UNRESOLVED''}"
    using settled_exception_row [OF assms(1,2)] assms(3) by auto
  have lock: "\<exists>m. lockException (xa_id again) (xa_rowVersion again) v = Inl (DomainErr (ConflictError m))"
    if "w_exceptions v = w_exceptions w'" for v
    by (rule lockException_settled [of v x]) (use d x that in simp_all)
  obtain now v where now: "now_or_clock (xa_now again) w' = Inr (now, v)"
    by (cases "xa_now again") (simp_all add: now_or_clock_def tx_simps)
  obtain k where v: "v = w'\<lparr>w_ticks := k\<rparr>" using now_or_clock_world [OF now] by blast
  show ?thesis
    using lock [of w'] lock [of v] now
    by (auto simp: acknowledgeException_def resolveExceptionWithEvidence_def closeUnresolvedException_def bind_tx_def v)
qed

theorem exception_settled_once_witness:
  "\<exists>x w' m. resolveConfirmedException resolve_input (disputed_world ''CONFIRMED'') = Inr (x, w') \<and>
     closeUnresolvedException resolve_input w' = Inl (DomainErr (ConflictError m))"
proof -
  obtain x w' where run: "resolveConfirmedException resolve_input (disputed_world ''CONFIRMED'') = Inr (x, w')"
    by (rule succeedsE [OF sample_confirmed_exception])
  have "settles_exception resolve_input (disputed_world ''CONFIRMED'') w'"
    using run unfolding settles_exception_def resolveConfirmedException_def by blast
  moreover have "distinct (map opx_id (w_exceptions (disputed_world ''CONFIRMED'')))" by (simp add: disputed_world_def)
  ultimately show ?thesis using exception_settled_once [of resolve_input _ w' resolve_input] run by blast
qed

section \<open>Approvals\<close>

lemma held_after_approval:
  assumes rows: "w_payments w' = update_rows (\<lambda>q. pay_id q = pay_id p) (route_payment_data t) (w_payments w)"
      "w_reservations w' = w_reservations w @ [approved_reservation i input p t']"
    and p: "p \<in> set (w_payments w)"
  shows "held_against (ad_accountId input) p w' = held_against (ad_accountId input) p w + pay_amountAtomic p"
proof (cases "pay_denominationId p")
  case None
  then show ?thesis by (simp add: held_against_def rows(2) approved_reservation_def)
next
  case (Some d)
  have same: "list_ex (\<lambda>q. pay_id q = k \<and> pay_denominationId q = Some d) (w_payments w') =
      list_ex (\<lambda>q. pay_id q = k \<and> pay_denominationId q = Some d) (w_payments w)" for k
    unfolding rows(1) by (rule list_ex_update_rows) (simp add: route_payment_data_def)
  have "held_reservation (ad_accountId input) d (w_payments w') = held_reservation (ad_accountId input) d (w_payments w)"
    by (simp add: held_reservation_def same fun_eq_iff)
  moreover have "held_reservation (ad_accountId input) d (w_payments w) (approved_reservation i input p t')"
    using p Some by (auto simp: held_reservation_def approved_reservation_def list_ex_iff)
  ultimately show ?thesis by (simp add: held_against_def Some held_atomic_def rows(2) approved_reservation_def)
qed

text \<open>C11: an approval starts the payment within the settled balance: the payment was still awaiting
  approval for the approved intent, its account was active and the approval had not expired; the held amount
  grows by exactly the amount of the payment and stays within the settled balance; the first and only attempt
  of the payment is written in the same step.\<close>

theorem approval_within_funds:
  assumes "decideApproval input w = Inr (g, w')" "ad_action input = APPROVE" "system_ok w"
  shows "\<exists>a p acc. a \<in> set (w_approvals w) \<and> apv_id a = ad_approvalId input \<and> apv_status a = ''PENDING'' \<and>
     p \<in> set (w_payments w) \<and> pay_id p = apv_paymentId a \<and> pay_status p = PS_AWAITING_APPROVAL \<and>
     pay_intentFingerprint p = Some (apv_fingerprint a) \<and> (\<forall>now. ad_now input = Some now \<longrightarrow> now < apv_expiresAt a) \<and>
     List.find (\<lambda>x. acc_id x = ad_accountId input) (w_accounts w) = Some acc \<and> acc_status acc = AA_ACTIVE \<and>
     held_against (ad_accountId input) p w' = held_against (ad_accountId input) p w + pay_amountAtomic p \<and>
     held_against (ad_accountId input) p w' \<le> (case ad_settledAtomic input of None \<Rightarrow> 0 | Some n \<Rightarrow> n) \<and>
     attempts_of (pay_id p) (w_attempts w) = [] \<and>
     (\<exists>b. attempts_of (pay_id p) (w_attempts w') = [b] \<and> att_attemptNumber b = 1 \<and> att_outcome b = ''NOT_STARTED'')"
  using assms(1)
proof (cases rule: decideApproval_cases)
  case (1 a p w0 now w1 u)
  obtain k where w0: "w0 = w\<lparr>w_ticks := k\<rparr>" using 1(9) by blast
  obtain w2 where c: "check_approvable input a p now w0 = Inr ((), w2)" and s: "start_approved input p w2 = Inr (u, w1)"
    using 1(10) assms(2) by (auto simp: apply_decision_def bind_tx_Inr_iff)
  note C = check_approvable_Inr [OF c]
  obtain acc where acc: "List.find (\<lambda>x. acc_id x = ad_accountId input) (w_accounts w) = Some acc" "acc_status acc = AA_ACTIVE"
    using C(6) w0 by auto
  have held0: "held_against (ad_accountId input) p w0 = held_against (ad_accountId input) p w"
    by (simp add: w0 held_against_def held_atomic_def split: option.splits)
  show ?thesis
    using s
  proof (cases rule: start_approved_Inr)
    case (1 r b wk t i j k' t1 t2 t3)
    have eq: "w_payments w' = w_payments w1" "w_attempts w' = w_attempts w1" "w_reservations w' = w_reservations w1"
      using decideApproval_cases [OF assms(1)] \<open>same_ledger w1 w'\<close> by (simp_all add: same_ledger_def)
    have base: "w_payments w2 = w_payments w" "w_attempts w2 = w_attempts w" "w_reservations w2 = w_reservations w"
      using C(1) w0 by simp_all
    have held: "held_against (ad_accountId input) p w' = held_against (ad_accountId input) p w + pay_amountAtomic p"
      by (rule held_after_approval [of _ _ t _ i _ t1]) (use 1 eq base \<open>p \<in> set (w_payments w)\<close> in simp_all)
    have n: "att_paymentId b = pay_id p" "att_attemptNumber b = 1" "att_outcome b = ''NOT_STARTED''"
      by (simp_all add: 1(2) approved_attempt_def new_attempt_row_def)
    have none: "attempts_of (pay_id p) (w_attempts w) = []"
      using first_attempt_fresh [OF system_okD(6) [OF assms(3)], of b] 1(7) n base by simp
    have one: "attempts_of (pay_id p) (w_attempts w') = [b]"
      using none n 1(6) eq base by (simp add: attempts_of_def)
    show ?thesis
      using acc held C(2-5) held0 none one n(2,3) \<open>a \<in> set (w_approvals w)\<close> \<open>apv_id a = ad_approvalId input\<close>
        \<open>apv_status a = ''PENDING''\<close> \<open>p \<in> set (w_payments w)\<close> \<open>pay_id p = apv_paymentId a\<close>
        \<open>\<forall>t. ad_now input = Some t \<longrightarrow> now = t\<close>
      by (intro exI [of _ a] exI [of _ p] exI [of _ acc] conjI) (simp_all, metis)
  qed
qed

definition awaiting_payment :: payment_row where
  "awaiting_payment = (payment_row_of sample_input 50)\<lparr>pay_status := PS_AWAITING_APPROVAL, pay_intentFingerprint := Some ''fp''\<rparr>"

definition sample_approval :: approval_row where
  "sample_approval = \<lparr>apv_id = ''ap'', apv_paymentId = ''p1'', apv_accountId = ''acc'', apv_fingerprint = ''fp'',
     apv_policyDecisionId = ''pd'', apv_status = ''PENDING'', apv_expiresAt = 500, apv_actorId = None, apv_comment = None,
     apv_rowVersion = 1, apv_createdAt = 50, apv_decidedAt = None\<rparr>"

definition awaiting_world :: world where
  "awaiting_world = sample_world\<lparr>w_payments := [awaiting_payment], w_approvals := [sample_approval],
     w_random := (\<lambda>n. replicate n (CHR ''b''))\<rparr>"

definition approve_input :: ApprovalDecision where
  "approve_input = \<lparr>ad_accountId = ''acc'', ad_approvalId = ''ap'', ad_action = APPROVE, ad_actorId = ''op'', ad_comment = None,
     ad_rowVersion = 1, ad_settledAtomic = Some 40, ad_now = Some 90\<rparr>"

lemma sample_approved: "succeeds (decideApproval approve_input) awaiting_world (\<lambda>g w'. True)"
  by code_simp

lemma awaiting_world_ok: "system_ok awaiting_world"
  by (simp add: awaiting_world_def sample_world_def system_ok_def attempts_ok_def sequence_ok_def attempts_of_def
      reservations_ok_def works_ok_def)

theorem approval_within_funds_witness:
  "\<exists>g w' p. decideApproval approve_input awaiting_world = Inr (g, w') \<and> p \<in> set (w_payments awaiting_world) \<and>
     held_against ''acc'' p w' \<le> 40 \<and> (\<exists>b. attempts_of (pay_id p) (w_attempts w') = [b])"
proof -
  obtain g w' where run: "decideApproval approve_input awaiting_world = Inr (g, w')"
    by (rule succeedsE [OF sample_approved])
  have "ad_action approve_input = APPROVE" "ad_settledAtomic approve_input = Some 40" "ad_accountId approve_input = ''acc''"
    by (simp_all add: approve_input_def)
  then show ?thesis using approval_within_funds [OF run _ awaiting_world_ok] run by auto
qed

text \<open>An approval is decided once: after a decision no further decision on it succeeds, whatever it
  decides and whatever row version it names.\<close>

theorem approval_decided_once:
  assumes "decideApproval input w = Inr (g, w')" "distinct (map apv_id (w_approvals w))"
    and "ad_approvalId again = ad_approvalId input"
  shows "\<exists>e. decideApproval again w' = Inl e"
proof (rule ccontr)
  assume "\<nexists>e. decideApproval again w' = Inl e"
  then obtain h v where "decideApproval again w' = Inr (h, v)" by (cases "decideApproval again w'") auto
  then obtain b where b: "b \<in> set (w_approvals w')" "apv_id b = ad_approvalId input" "apv_status b = ''PENDING''"
    using assms(3) by (cases rule: decideApproval_cases) auto
  from assms(1) show False
  proof (cases rule: decideApproval_cases)
    case (1 a p w0 now w1 u)
    obtain q where q: "b = (if apv_id q = apv_id a then decide_approval_data input now q else q)"
      using b(1) unfolding 1(12) set_update_rows by blast
    then have "apv_id q = apv_id a" using b(2) 1(2) by (cases "apv_id q = apv_id a") (auto simp: decide_approval_data_def)
    then show False
      using b(3) q by (auto simp: decide_approval_data_def approval_next_status_def split: ApprovalAction.splits)
  qed
qed

theorem approval_decided_once_witness:
  "\<exists>g w' e. decideApproval approve_input awaiting_world = Inr (g, w') \<and>
     decideApproval (approve_input\<lparr>ad_action := REJECT, ad_rowVersion := 2\<rparr>) w' = Inl e"
proof -
  obtain g w' where run: "decideApproval approve_input awaiting_world = Inr (g, w')"
    by (rule succeedsE [OF sample_approved])
  have "distinct (map apv_id (w_approvals awaiting_world))" by (simp add: awaiting_world_def)
  then show ?thesis using approval_decided_once [OF run, of "approve_input\<lparr>ad_action := REJECT, ad_rowVersion := 2\<rparr>"] run by auto
qed

end
