(* ===== verification/Webhook_Addresses.thy ===== *)
theory Webhook_Addresses
  imports Timeline_Webhooks
begin

text \<open>
  Where a webhook may be sent, the address checks of \<^verbatim>\<open>packages/db/src/v2-operations.ts\<close>:
  \<open>assertSafeWebhookEndpoint\<close>, \<open>assertSafeWebhookAddress\<close> and \<open>isPrivateWebhookIp\<close> with its parsers, over
  a model of \<^verbatim>\<open>isIP\<close> of \<^verbatim>\<open>node:net\<close>. The URL parser is a parameter. The lemmas say that an IPv4 address is
  private exactly when its first two octets are reserved, and that an IPv4-mapped IPv6 address is judged as
  the address it embeds, in both notations.
\<close>

unbundle bit_operations_syntax

section \<open>Internet addresses\<close>

fun split_on :: "char \<Rightarrow> string \<Rightarrow> string list" where
  "split_on c [] = [[]]"
| "split_on c (x # xs) =
     (if x = c then [] # split_on c xs
      else (case split_on c xs of [] \<Rightarrow> [[x]] | y # ys \<Rightarrow> (x # y) # ys))"

definition v4_segment :: "string \<Rightarrow> bool" where
  "v4_segment s \<longleftrightarrow> s \<noteq> [] \<and> length s \<le> 3 \<and> all_digits s \<and> (hd s = CHR ''0'' \<longrightarrow> length s = 1) \<and> digits_val s \<le> 255"

definition isIPv4 :: "string \<Rightarrow> bool" where
  "isIPv4 s \<longleftrightarrow> length (split_on (CHR ''.'') s) = 4 \<and> list_all v4_segment (split_on (CHR ''.'') s)"

definition is_lower_hex :: "char \<Rightarrow> bool" where
  "is_lower_hex c \<longleftrightarrow> is_digit c \<or> 97 \<le> code_unit c \<and> code_unit c \<le> 102"

definition is_hex_digit :: "char \<Rightarrow> bool" where
  "is_hex_digit c \<longleftrightarrow> is_lower_hex c \<or> 65 \<le> code_unit c \<and> code_unit c \<le> 70"

definition v6_segment :: "string \<Rightarrow> bool" where
  "v6_segment s \<longleftrightarrow> s \<noteq> [] \<and> length s \<le> 4 \<and> list_all is_hex_digit s"

definition is_zone_char :: "char \<Rightarrow> bool" where
  "is_zone_char c \<longleftrightarrow> is_digit c \<or> 65 \<le> code_unit c \<and> code_unit c \<le> 90 \<or> 97 \<le> code_unit c \<and> code_unit c \<le> 122 \<or>
     c \<in> {CHR ''-'', CHR ''.'', CHR '':''}"

text \<open>The number of 16-bit groups of a list of pieces; an IPv4 address at the end counts for two.\<close>

definition v6_groups :: "string list \<Rightarrow> nat option" where
  "v6_groups ps =
     (if list_all v6_segment ps then Some (length ps)
      else if isIPv4 (last ps) \<and> list_all v6_segment (butlast ps) then Some (length ps + 1)
      else None)"

fun cut_double_colon :: "string \<Rightarrow> (string \<times> string) option" where
  "cut_double_colon (c # d # s) =
     (if c = CHR '':'' \<and> d = CHR '':'' then Some ([], s)
      else map_option (\<lambda>(l, r). (c # l, r)) (cut_double_colon (d # s)))"
| "cut_double_colon s = None"

definition v6_pieces :: "string \<Rightarrow> string list" where
  "v6_pieces s = (if s = [] then [] else split_on (CHR '':'') s)"

definition v6_body :: "string \<Rightarrow> bool" where
  "v6_body s =
     (case cut_double_colon s of
        None \<Rightarrow> v6_groups (v6_pieces s) = Some 8
      | Some (l, r) \<Rightarrow>
          list_all v6_segment (v6_pieces l) \<and>
          (case v6_groups (v6_pieces r) of None \<Rightarrow> False | Some n \<Rightarrow> length (v6_pieces l) + n \<le> 7))"

definition isIPv6 :: "string \<Rightarrow> bool" where
  "isIPv6 s =
     (let body = takeWhile (\<lambda>c. c \<noteq> CHR ''%'') s; zone = dropWhile (\<lambda>c. c \<noteq> CHR ''%'') s
      in v6_body body \<and> (zone = [] \<or> (tl zone \<noteq> [] \<and> list_all is_zone_char (tl zone))))"

definition isIP :: "string \<Rightarrow> nat" where
  "isIP s = (if isIPv4 s then 4 else if isIPv6 s then 6 else 0)"

section \<open>Private addresses\<close>

definition hextet_digit :: "char \<Rightarrow> nat" where
  "hextet_digit c = (if is_digit c then digit_val c else if 97 \<le> code_unit c then code_unit c - 87 else code_unit c - 55)"

definition hextet_val :: "string \<Rightarrow> int" where
  "hextet_val s = int (foldl (\<lambda>n c. 16 * n + hextet_digit c) 0 s)"

definition lower_hextet :: "string \<Rightarrow> bool" where
  "lower_hextet s \<longleftrightarrow> s \<noteq> [] \<and> length s \<le> 4 \<and> list_all is_lower_hex s"

definition parseMappedIpv4 :: "string \<Rightarrow> string option" where
  "parseMappedIpv4 hostname =
     (if take 7 hostname = ''::ffff:'' \<and> length (split_on (CHR ''.'') (drop 7 hostname)) = 4 \<and>
         list_all (\<lambda>p. p \<noteq> [] \<and> length p \<le> 3 \<and> all_digits p) (split_on (CHR ''.'') (drop 7 hostname)) \<and>
         isIP (drop 7 hostname) = 4
      then Some (drop 7 hostname) else None)"

definition parseHexMappedIpv4 :: "string \<Rightarrow> string option" where
  "parseHexMappedIpv4 hostname =
     (if take 7 hostname = ''::ffff:'' then
        (case split_on (CHR '':'') (drop 7 hostname) of
           [h, l] \<Rightarrow>
             if lower_hextet h \<and> lower_hextet l then
               (let high = hextet_val h; low = hextet_val l
                in Some (int_to_string (drop_bit 8 high) @ ''.'' @ int_to_string (high AND 255) @ ''.'' @
                         int_to_string (drop_bit 8 low) @ ''.'' @ int_to_string (low AND 255)))
             else None
         | _ \<Rightarrow> None)
      else None)"

definition parseFirstIpv6Hextet :: "string \<Rightarrow> int option" where
  "parseFirstIpv6Hextet hostname =
     (let first = takeWhile (\<lambda>c. c \<noteq> CHR '':'') hostname
      in if first = [] then Some 0 else if lower_hextet first then Some (hextet_val first) else None)"

definition reserved_octets :: "nat \<Rightarrow> nat \<Rightarrow> bool" where
  "reserved_octets first second \<longleftrightarrow>
     first = 0 \<or> first = 10 \<or> first = 127 \<or>
     (first = 100 \<and> second \<ge> 64 \<and> second \<le> 127) \<or>
     (first = 169 \<and> second = 254) \<or>
     (first = 172 \<and> second \<ge> 16 \<and> second \<le> 31) \<or>
     (first = 192 \<and> second = 0) \<or>
     (first = 192 \<and> second = 168) \<or>
     (first = 198 \<and> (second = 18 \<or> second = 19)) \<or>
     first \<ge> 224"

text \<open>\<^verbatim>\<open>Number\<close> on a piece of a dotted address.\<close>

definition octet_number :: "string \<Rightarrow> nat option" where
  "octet_number s = (if all_digits s then Some (digits_val s) else None)"

definition private_ipv4 :: "string \<Rightarrow> bool" where
  "private_ipv4 hostname =
     (let octets = map octet_number (split_on (CHR ''.'') hostname)
      in if length octets \<noteq> 4 \<or> None \<in> set octets then True
         else reserved_octets (the (octets ! 0)) (the (octets ! 1)))"

definition private_hextet :: "string \<Rightarrow> int \<Rightarrow> bool" where
  "private_hextet hostname firstHextet \<longleftrightarrow> hostname = ''::'' \<or> hostname = ''::1'' \<or>
     firstHextet AND 0xfe00 = 0xfc00 \<or> firstHextet AND 0xffc0 = 0xfe80 \<or> firstHextet AND 0xff00 = 0xff00"

function isPrivateWebhookIp :: "string \<Rightarrow> bool" where
  "isPrivateWebhookIp hostname =
     (if isIP hostname = 4 then private_ipv4 hostname
      else if isIP hostname = 6 then
        (case parseMappedIpv4 hostname of
           Some m \<Rightarrow> isPrivateWebhookIp m
         | None \<Rightarrow>
             (case parseHexMappedIpv4 hostname of
                Some m \<Rightarrow> isPrivateWebhookIp m
              | None \<Rightarrow>
                  (case parseFirstIpv6Hextet hostname of
                     None \<Rightarrow> True
                   | Some firstHextet \<Rightarrow> private_hextet hostname firstHextet)))
      else False)"
  by pat_completeness auto

lemma split_on_no_sep: "c \<notin> set s \<Longrightarrow> split_on c s = [s]"
  by (induction s) auto

lemma split_on_ne [simp]: "split_on c s \<noteq> []"
  by (cases s) (auto split: list.splits)

lemma split_on_append: "c \<notin> set s \<Longrightarrow> split_on c (s @ c # t) = s # split_on c t"
  by (induction s) auto

text \<open>An IPv6 address has a colon: no name without one is one.\<close>

lemma cut_double_colon_colon: "CHR '':'' \<notin> set s \<Longrightarrow> cut_double_colon s = None"
  by (induction s rule: cut_double_colon.induct) auto

lemma v6_groups_single: "v6_groups [s] \<noteq> Some 8"
  by (simp add: v6_groups_def)

lemma isIPv6_colon:
  assumes "isIPv6 s"
  shows "CHR '':'' \<in> set s"
proof (rule ccontr)
  assume no: "CHR '':'' \<notin> set s"
  let ?b = "takeWhile (\<lambda>c. c \<noteq> CHR ''%'') s"
  have nb: "CHR '':'' \<notin> set ?b" using no set_takeWhileD by fast
  have "v6_groups (v6_pieces ?b) \<noteq> Some 8"
    using split_on_no_sep [OF nb] by (simp add: v6_pieces_def v6_groups_single) (simp add: v6_groups_def)
  then show False using assms by (simp add: isIPv6_def v6_body_def cut_double_colon_colon [OF nb])
qed

lemma all_digits_no_char: "all_digits s \<Longrightarrow> \<not> is_digit c \<Longrightarrow> c \<notin> set s"
  by (auto simp: all_digits_def list_all_iff)

lemma not_digit_colon [simp]: "\<not> is_digit (CHR '':'')" "\<not> is_digit (CHR ''%'')"
  by (simp_all add: is_digit_def code_unit_def)

lemma hextet_val_nonneg [simp]: "0 \<le> hextet_val s"
  by (simp add: hextet_val_def)

lemma int_to_string_nat: "0 \<le> i \<Longrightarrow> int_to_string i = nat_to_string (nat i)"
  by (simp add: int_to_string_def)

lemma parseHexMappedIpv4_not_v6: "parseHexMappedIpv4 s = Some m \<Longrightarrow> isIP m \<noteq> 6"
proof -
  assume "parseHexMappedIpv4 s = Some m"
  then obtain h l where m: "m = int_to_string (drop_bit 8 (hextet_val h)) @ ''.'' @ int_to_string (hextet_val h AND 255) @ ''.'' @
      int_to_string (drop_bit 8 (hextet_val l)) @ ''.'' @ int_to_string (hextet_val l AND 255)"
    by (auto simp: parseHexMappedIpv4_def Let_def split: if_splits list.splits)
  have "CHR '':'' \<notin> set m"
    unfolding m by (simp add: int_to_string_nat all_digits_no_char)
  then show "isIP m \<noteq> 6" using isIPv6_colon by (auto simp: isIP_def)
qed

lemma parseMappedIpv4_v4: "parseMappedIpv4 s = Some m \<Longrightarrow> isIP m = 4"
  by (simp add: parseMappedIpv4_def split: if_splits)

termination isPrivateWebhookIp
  by (relation "measure (\<lambda>s. if isIP s = 6 then 1 else 0)")
    (auto dest: parseHexMappedIpv4_not_v6 parseMappedIpv4_v4)

declare isPrivateWebhookIp.simps [simp del]

section \<open>Endpoints\<close>

record url =
  url_protocol :: string
  url_username :: string
  url_password :: string
  url_hostname :: string

text \<open>\<^verbatim>\<open>replace(/^\[|\]$/gu, '')\<close>.\<close>

definition strip_brackets :: "string \<Rightarrow> string" where
  "strip_brackets s =
     (let front = (if take 1 s = ''['' then drop 1 s else s)
      in if front \<noteq> [] \<and> last front = CHR '']'' then butlast front else front)"

definition endsWith :: "string \<Rightarrow> string \<Rightarrow> bool" where
  "endsWith s suffix \<longleftrightarrow> length suffix \<le> length s \<and> drop (length s - length suffix) s = suffix"

definition not_public :: js_error where
  "not_public = DomainErr (ValidationError ''Webhook endpoint must resolve to a public address'' None)"

definition assertSafeWebhookEndpoint :: "(string \<Rightarrow> url option) \<Rightarrow> string \<Rightarrow> unit result" where
  "assertSafeWebhookEndpoint parse_url endpoint =
     (case parse_url endpoint of
        None \<Rightarrow> Inl (DomainErr (ValidationError ''Webhook endpoint must be a valid URL'' None))
      | Some parsed \<Rightarrow>
          bind_r (throw_if (url_protocol parsed \<noteq> ''https:'' \<or> length (url_username parsed) > 0 \<or>
              length (url_password parsed) > 0)
            (DomainErr (ValidationError ''Webhook endpoint must use HTTPS without embedded credentials'' None))) (\<lambda>_.
          let hostname = toLowerCase (strip_brackets (url_hostname parsed))
          in throw_if (hostname = ''localhost'' \<or> endsWith hostname ''.localhost'' \<or> endsWith hostname ''.local'' \<or>
               endsWith hostname ''.internal'' \<or> isPrivateWebhookIp hostname) not_public))"

definition assertSafeWebhookAddress :: "string \<Rightarrow> unit result" where
  "assertSafeWebhookAddress address =
     (let normalized = toLowerCase (strip_brackets address)
      in throw_if (isIP normalized = 0 \<or> isPrivateWebhookIp normalized) not_public)"


section \<open>IPv4 addresses and the IPv6 addresses that embed them\<close>

definition dotted :: "nat \<Rightarrow> nat \<Rightarrow> nat \<Rightarrow> nat \<Rightarrow> string" where
  "dotted a b c d = nat_to_string a @ ''.'' @ nat_to_string b @ ''.'' @ nat_to_string c @ ''.'' @ nat_to_string d"

lemma nat_to_string_no: "\<not> is_digit c \<Longrightarrow> c \<notin> set (nat_to_string n)"
  using all_digits_no_char all_digits_nat_to_string by blast

lemma split_dotted:
  "split_on (CHR ''.'') (dotted a b c d) = [nat_to_string a, nat_to_string b, nat_to_string c, nat_to_string d]"
  by (simp add: dotted_def split_on_append nat_to_string_no split_on_no_sep)

lemma v4_segment_octet: "n < 256 \<Longrightarrow> v4_segment (nat_to_string n)"
  using length_nat_to_string [of n 3] strip_leading_zeros_props [of "nat_to_string n"]
  by (simp add: v4_segment_def)

lemma isIPv4_dotted:
  "a < 256 \<Longrightarrow> b < 256 \<Longrightarrow> c < 256 \<Longrightarrow> d < 256 \<Longrightarrow> isIPv4 (dotted a b c d)"
  by (simp add: isIPv4_def split_dotted v4_segment_octet)

lemma private_dotted: "private_ipv4 (dotted a b c d) = reserved_octets a b"
  by (simp add: private_ipv4_def split_dotted octet_number_def)

lemma isPrivate_dotted:
  "a < 256 \<Longrightarrow> b < 256 \<Longrightarrow> c < 256 \<Longrightarrow> d < 256 \<Longrightarrow> isPrivateWebhookIp (dotted a b c d) = reserved_octets a b"
  by (simp add: isPrivateWebhookIp.simps [of "dotted a b c d"] isIP_def isIPv4_dotted private_dotted)

text \<open>The characters of the addresses below: none is a bracket, a percent sign or a capital letter.\<close>

definition plain_char :: "char \<Rightarrow> bool" where
  "plain_char c \<longleftrightarrow> is_lower_hex c \<or> c = CHR ''.'' \<or> c = CHR '':''"

lemma plain_lower: "plain_char c \<Longrightarrow> lower_char c = c"
  by (auto simp: plain_char_def is_lower_hex_def is_digit_def lower_char_def Let_def code_unit_def)

lemma plain_other: "\<not> plain_char (CHR ''['')" "\<not> plain_char (CHR '']'')" "\<not> plain_char (CHR ''%'')"
  by (simp_all add: plain_char_def is_lower_hex_def is_digit_def code_unit_def)

lemma normalized_plain: "list_all plain_char s \<Longrightarrow> toLowerCase (strip_brackets s) = s"
proof -
  assume p: "list_all plain_char s"
  have "take 1 s \<noteq> ''[''" using p plain_other(1) by (cases s) auto
  moreover have "s \<noteq> [] \<Longrightarrow> last s \<noteq> CHR '']''"
    using p plain_other(2) last_in_set by (metis list_all_iff)
  ultimately have "strip_brackets s = s" by (auto simp: strip_brackets_def Let_def)
  then show ?thesis using p by (simp add: toLowerCase_def list_all_iff map_idI plain_lower)
qed

lemma plain_digits: "all_digits s \<Longrightarrow> list_all plain_char s"
  by (auto simp: all_digits_def list_all_iff plain_char_def is_lower_hex_def)

lemma plain_dotted: "list_all plain_char (dotted a b c d)"
  using plain_digits [OF all_digits_nat_to_string] by (simp add: dotted_def) (simp add: plain_char_def)

lemma plain_hextet: "lower_hextet h \<Longrightarrow> list_all plain_char h"
  by (auto simp: lower_hextet_def list_all_iff plain_char_def)

lemma plain_prefix: "list_all plain_char ''::ffff:''"
  by (simp add: plain_char_def is_lower_hex_def is_digit_def code_unit_def)

lemma safe_address_plain:
  "list_all plain_char s \<Longrightarrow> assertSafeWebhookAddress s = throw_if (isIP s = 0 \<or> isPrivateWebhookIp s) not_public"
  by (simp add: assertSafeWebhookAddress_def normalized_plain Let_def)

lemma no_percent: "list_all plain_char s \<Longrightarrow> takeWhile (\<lambda>c. c \<noteq> CHR ''%'') s = s \<and> dropWhile (\<lambda>c. c \<noteq> CHR ''%'') s = []"
  using plain_other(3) by (auto simp: list_all_iff takeWhile_eq_all_conv dropWhile_eq_Nil_conv)

lemma v6_mapped_prefix:
  assumes "list_all plain_char s" "v6_groups (v6_pieces (''ffff:'' @ s)) = Some n" "n \<le> 7"
  shows "isIPv6 (''::ffff:'' @ s)"
proof -
  have "list_all plain_char (''::ffff:'' @ s)" using assms(1) plain_prefix by simp
  then have "isIPv6 (''::ffff:'' @ s) = v6_body (''::ffff:'' @ s)"
    unfolding isIPv6_def Let_def by (metis no_percent)
  also have "\<dots>" using assms(2,3) by (simp add: v6_body_def v6_pieces_def)
  finally show ?thesis .
qed

lemma ffff_segment: "v6_segment ''ffff''"
  by (simp add: v6_segment_def is_hex_digit_def is_lower_hex_def is_digit_def code_unit_def)

lemma mapped_pieces: "split_on (CHR '':'') (''ffff:'' @ s) = ''ffff'' # split_on (CHR '':'') s"
  using split_on_append [of "CHR '':''" "''ffff''" s] by simp

lemma not_v4_mapped: "\<not> isIPv4 (''::ffff:'' @ s)"
proof
  assume "isIPv4 (''::ffff:'' @ s)"
  then have "v4_segment (hd (split_on (CHR ''.'') (''::ffff:'' @ s)))"
    unfolding isIPv4_def by (metis list.set_sel(1) list_all_iff split_on_ne)
  moreover have "hd (hd (split_on (CHR ''.'') (''::ffff:'' @ s))) = CHR '':''"
    by (auto split: list.splits)
  moreover have "is_digit (hd q)" if "v4_segment q" for q
    using that by (cases q) (simp_all add: v4_segment_def)
  ultimately show False using not_digit_colon(1) by metis
qed

lemma mapped_dotted:
  assumes "a < 256" "b < 256" "c < 256" "d < 256"
  shows "isIP (''::ffff:'' @ dotted a b c d) = 6" "isPrivateWebhookIp (''::ffff:'' @ dotted a b c d) = reserved_octets a b"
proof -
  let ?s = "dotted a b c d"
  have v4: "isIPv4 ?s" by (rule isIPv4_dotted [OF assms])
  have "split_on (CHR '':'') ?s = [?s]"
    by (rule split_on_no_sep) (simp add: dotted_def nat_to_string_no)
  moreover have "4 < length ?s"
  proof -
    have "1 \<le> length (nat_to_string n)" for n by (simp add: Suc_leI)
    from this [of a] this [of b] this [of c] this [of d] show ?thesis by (simp add: dotted_def)
  qed
  ultimately have "v6_groups (v6_pieces (''ffff:'' @ ?s)) = Some 3"
    using v4 ffff_segment by (simp add: v6_pieces_def mapped_pieces [simplified] v6_groups_def v6_segment_def [of ?s])
  then have "isIPv6 (''::ffff:'' @ ?s)" by (rule v6_mapped_prefix [OF plain_dotted]) simp
  then show six: "isIP (''::ffff:'' @ ?s) = 6" using not_v4_mapped by (simp add: isIP_def)
  have "parseMappedIpv4 (''::ffff:'' @ ?s) = Some ?s"
    using v4 assms v4_segment_octet [of a] v4_segment_octet [of b] v4_segment_octet [of c] v4_segment_octet [of d]
    by (simp add: parseMappedIpv4_def split_dotted isIP_def v4_segment_def)
  then show "isPrivateWebhookIp (''::ffff:'' @ ?s) = reserved_octets a b"
    using six isPrivate_dotted [OF assms] isPrivateWebhookIp.simps [of "''::ffff:'' @ ?s"] by simp
qed

lemma hex_digit_bound: "is_lower_hex c \<Longrightarrow> hextet_digit c < 16"
proof (cases "is_digit c")
  case True
  have "digit_val c < 16" by (rule less_trans [OF digit_val_less [OF True]]) simp
  then show ?thesis using True by (simp add: hextet_digit_def)
next
  case False
  assume "is_lower_hex c"
  then show ?thesis using False by (auto simp: is_lower_hex_def hextet_digit_def)
qed

lemma hextet_val_snoc: "hextet_val (s @ [c]) = 16 * hextet_val s + int (hextet_digit c)"
  by (simp add: hextet_val_def)

lemma hextet_val_bound: "list_all is_lower_hex s \<Longrightarrow> hextet_val s < 16 ^ length s"
proof (induction s rule: rev_induct)
  case (snoc c s)
  then have "hextet_val s + 1 \<le> 16 ^ length s" "hextet_digit c < 16" using hex_digit_bound by auto
  then show ?case by (simp add: hextet_val_snoc)
qed (simp add: hextet_val_def)

lemma hextet_bound: "lower_hextet h \<Longrightarrow> hextet_val h < 65536"
proof -
  assume h: "lower_hextet h"
  then have "hextet_val h < 16 ^ length h" using hextet_val_bound by (simp add: lower_hextet_def)
  also have "\<dots> \<le> (16::int) ^ 4" using h by (intro power_increasing) (simp_all add: lower_hextet_def)
  finally show ?thesis by simp
qed

lemma hextet_no_colon: "lower_hextet h \<Longrightarrow> CHR '':'' \<notin> set h"
  by (auto simp: lower_hextet_def list_all_iff is_lower_hex_def is_digit_def code_unit_def)

definition high_byte :: "string \<Rightarrow> nat" where "high_byte h = nat (hextet_val h div 256)"
definition low_byte :: "string \<Rightarrow> nat" where "low_byte h = nat (hextet_val h mod 256)"

lemma byte_bounds: "lower_hextet h \<Longrightarrow> high_byte h < 256" "low_byte h < 256"
  using hextet_bound [of h] by (auto simp: high_byte_def low_byte_def nat_less_iff)

lemma and_byte: "(n::int) AND 255 = n mod 256"
proof -
  have "n AND 255 = take_bit 8 n" by (simp add: take_bit_eq_mask mask_eq_exp_minus_1)
  then show ?thesis by (simp add: take_bit_eq_mod)
qed

lemma hex_mapped_parse:
  assumes "lower_hextet h" "lower_hextet l"
  shows "parseHexMappedIpv4 (''::ffff:'' @ h @ '':'' @ l) = Some (dotted (high_byte h) (low_byte h) (high_byte l) (low_byte l))"
proof -
  have "split_on (CHR '':'') (h @ '':'' @ l) = [h, l]"
    using split_on_append [OF hextet_no_colon [OF assms(1)], of l] split_on_no_sep [OF hextet_no_colon [OF assms(2)]] by simp
  then show ?thesis
    using assms by (simp add: parseHexMappedIpv4_def Let_def dotted_def high_byte_def low_byte_def int_to_string_nat
        drop_bit_eq_div and_byte pos_imp_zdiv_nonneg_iff)
qed

lemma mapped_hex:
  assumes "lower_hextet h" "lower_hextet l"
  shows "isIP (''::ffff:'' @ h @ '':'' @ l) = 6"
    "isPrivateWebhookIp (''::ffff:'' @ h @ '':'' @ l) = reserved_octets (high_byte h) (low_byte h)"
proof -
  let ?s = "h @ '':'' @ l"
  have seg: "v6_segment h" "v6_segment l"
    using assms by (auto simp: lower_hextet_def v6_segment_def list_all_iff is_hex_digit_def)
  have sp: "split_on (CHR '':'') ?s = [h, l]"
    using split_on_append [OF hextet_no_colon [OF assms(1)], of l] split_on_no_sep [OF hextet_no_colon [OF assms(2)]] by simp
  have g: "v6_groups (v6_pieces (''ffff:'' @ ?s)) = Some 3"
    using seg ffff_segment sp by (simp add: v6_pieces_def mapped_pieces [simplified] v6_groups_def)
  have "list_all plain_char ?s"
    using plain_hextet [OF assms(1)] plain_hextet [OF assms(2)] by (simp add: plain_char_def)
  then have "isIPv6 (''::ffff:'' @ ?s)" by (rule v6_mapped_prefix [OF _ g]) simp
  then show six: "isIP (''::ffff:'' @ ?s) = 6" using not_v4_mapped by (simp add: isIP_def)
  have no_dot: "CHR ''.'' \<notin> set ?s"
    using assms by (auto simp: lower_hextet_def list_all_iff is_lower_hex_def is_digit_def code_unit_def)
  have "parseMappedIpv4 (''::ffff:'' @ ?s) = None"
    using split_on_no_sep [OF no_dot] by (simp add: parseMappedIpv4_def)
  then show "isPrivateWebhookIp (''::ffff:'' @ ?s) = reserved_octets (high_byte h) (low_byte h)"
    using six hex_mapped_parse [OF assms] isPrivateWebhookIp.simps [of "''::ffff:'' @ ?s"]
      isPrivate_dotted [OF byte_bounds(1) [OF assms(1)] byte_bounds(2) byte_bounds(1) [OF assms(2)] byte_bounds(2)]
    by simp
qed

end
