(* ===== verification/Webhook_Delivery.thy ===== *)
theory Webhook_Delivery
  imports Operator_Exceptions Webhook_Addresses
begin

text \<open>
  The webhook part of \<^verbatim>\<open>packages/db/src/v2-operations.ts\<close>: subscriptions, events with their deliveries,
  and the delivery queue with its leases (claim, renew, delivered, retry, defer, exhaust). The lemmas say what
  each operation does to the deliveries, and that the operations keep the deliveries in order: one row per
  identifier, the attempts within the limit, a lease exactly on a claimed delivery.
\<close>

section \<open>Subscriptions\<close>

text \<open>The parser of the event types is the same code as in \<^verbatim>\<open>webhook-events.ts\<close>.\<close>

definition parseStringArray_webhook :: "string \<Rightarrow> string list result" where
  "parseStringArray_webhook value =
     (case JSON_parse value of
        Some (JArr items) \<Rightarrow>
          (case json_strings items of
             Some types \<Rightarrow> Inr types
           | None \<Rightarrow> throwInvalidState ''Webhook event type metadata is corrupt'')
      | _ \<Rightarrow> throwInvalidState ''Webhook event type metadata is corrupt'')"

record V2WebhookSubscriptionRecord =
  wr_id :: string
  wr_accountId :: string
  wr_endpoint :: string
  wr_eventTypes :: "string list"
  wr_status :: string
  wr_signingKeyRef :: string
  wr_signingKeyVersion :: int
  wr_createdAt :: int
  wr_archivedAt :: "int option"

definition toSubscriptionRecord :: "subscription_row \<Rightarrow> V2WebhookSubscriptionRecord result" where
  "toSubscriptionRecord s =
     bind_r (parseStringArray_webhook (sub_eventTypesJson s)) (\<lambda>eventTypes.
     Inr \<lparr>wr_id = sub_id s, wr_accountId = sub_accountId s, wr_endpoint = sub_endpoint s, wr_eventTypes = eventTypes,
       wr_status = sub_status s, wr_signingKeyRef = sub_signingKeyRef s, wr_signingKeyVersion = sub_signingKeyVersion s,
       wr_createdAt = sub_createdAt s, wr_archivedAt = sub_archivedAt s\<rparr>)"

record SubscriptionCreate =
  sb_id :: string
  sb_accountId :: string
  sb_endpoint :: string
  sb_eventTypes :: "string list"
  sb_signingKeyRef :: string
  sb_signingKeyVersion :: number

text \<open>\<^verbatim>\<open>[...new Set(xs)]\<close>: the first occurrence of each element, in order.\<close>

definition unique_strings :: "string list \<Rightarrow> string list" where
  "unique_strings xs = rev (remdups (rev xs))"

definition check_subscription :: "(string \<Rightarrow> url option) \<Rightarrow> SubscriptionCreate \<Rightarrow> string list result" where
  "check_subscription parse_url input =
     bind_r (throw_if (length (sb_eventTypes input) = 0)
       (DomainErr (InvalidStateError ''Webhook subscription requires an event type''))) (\<lambda>_.
     bind_r (assertSafeWebhookEndpoint parse_url (sb_endpoint input)) (\<lambda>_.
     let eventTypes = unique_strings (map trim (sb_eventTypes input))
     in bind_r (throw_if (list_ex (\<lambda>t. length t = 0 \<or> length t > 128) eventTypes)
          (DomainErr (ValidationError ''Webhook event types must contain 1 to 128 characters'' None))) (\<lambda>_.
        bind_r (throw_if (\<not> isInteger (sb_signingKeyVersion input) \<or> num_val (sb_signingKeyVersion input) < 1)
          (DomainErr (ValidationError ''Webhook signing key version must be positive'' None))) (\<lambda>_.
        Inr eventTypes))))"

definition subscription_row_of :: "SubscriptionCreate \<Rightarrow> string list \<Rightarrow> int \<Rightarrow> subscription_row" where
  "subscription_row_of input eventTypes now =
     \<lparr>sub_id = sb_id input, sub_accountId = sb_accountId input, sub_endpoint = sb_endpoint input,
      sub_eventTypesJson = stringify (JArr (map JStr eventTypes)), sub_status = ''ACTIVE'',
      sub_signingKeyRef = sb_signingKeyRef input, sub_signingKeyVersion = num_val (sb_signingKeyVersion input),
      sub_createdAt = now, sub_archivedAt = None\<rparr>"

definition createWebhookSubscription ::
    "(string \<Rightarrow> url option) \<Rightarrow> SubscriptionCreate \<Rightarrow> V2WebhookSubscriptionRecord tx" where
  "createWebhookSubscription parse_url input =
     bind_tx (lift_tx (check_subscription parse_url input)) (\<lambda>eventTypes.
     bind_tx new_date (\<lambda>now.
     bind_tx (insert_tx ''webhook_subscriptions'' w_subscriptions w_subscriptions_update (\<lambda>r q. sub_id q = sub_id r)
        (subscription_row_of input eventTypes now)) (\<lambda>created.
     bind_tx (control_event (Some (sub_accountId created)) ''WEBHOOK_SUBSCRIPTION'' (sub_id created)
        ''WEBHOOK_SUBSCRIPTION_CREATED'' ''AGENT_CREDENTIAL'' (Some (sub_accountId created)) None
        ''V2_WEBHOOK_CONTROL_PLANE'' (Some (sub_createdAt created)) None
        (Some [(''status'', JStr (sub_status created)), (''event_types'', JArr (map JStr eventTypes)),
          (''signing_key_version'', json_int (sub_signingKeyVersion created))])) (\<lambda>_.
     lift_tx (toSubscriptionRecord created)))))"

definition listWebhookSubscriptions :: "string \<Rightarrow> V2WebhookSubscriptionRecord list tx" where
  "listWebhookSubscriptions accountId =
     bind_tx (gets_tx (\<lambda>w. rev (sort_key (\<lambda>s. OrderKey (sub_createdAt s) (sub_id s))
        (filter (\<lambda>s. sub_accountId s = accountId) (w_subscriptions w))))) (\<lambda>subscriptions.
     lift_tx (map_r toSubscriptionRecord subscriptions))"

definition archive_subscription_data :: "int \<Rightarrow> subscription_row \<Rightarrow> subscription_row" where
  "archive_subscription_data now s = s\<lparr>sub_status := ''ARCHIVED'', sub_archivedAt := Some now\<rparr>"

definition archiveWebhookSubscription :: "string \<Rightarrow> string \<Rightarrow> unit tx" where
  "archiveWebhookSubscription accountId i =
     bind_tx new_date (\<lambda>now.
     bind_tx (update_many_tx w_subscriptions w_subscriptions_update
        (\<lambda>s. sub_id s = i \<and> sub_accountId s = accountId \<and> sub_status s = ''ACTIVE'') (archive_subscription_data now)) (\<lambda>count.
     bind_tx (throw_if_tx (count \<noteq> 1) (DomainErr (NotFoundError ''Webhook subscription was not found''))) (\<lambda>_.
     bind_tx (find_or_throw_tx ''webhook_subscriptions'' w_subscriptions (\<lambda>s. sub_id s = i)) (\<lambda>subscription.
     control_event (Some accountId) ''WEBHOOK_SUBSCRIPTION'' i ''WEBHOOK_SUBSCRIPTION_ARCHIVED'' ''AGENT_CREDENTIAL''
       (Some accountId) None ''V2_WEBHOOK_CONTROL_PLANE'' (sub_archivedAt subscription)
       (Some [(''status'', JStr ''ACTIVE'')]) (Some [(''status'', JStr (sub_status subscription))])))))"

section \<open>Events\<close>

record WebhookEventCreate =
  wc_id :: string
  wc_eventId :: string
  wc_accountId :: string
  wc_resourceType :: string
  wc_resourceId :: string
  wc_resourceVersion :: int
  wc_eventType :: string
  wc_eventVersion :: string
  wc_correlationId :: "string option"
  wc_rawBody :: string

definition new_delivery_row :: "string \<Rightarrow> string \<Rightarrow> string \<Rightarrow> int \<Rightarrow> delivery_row" where
  "new_delivery_row i eventId subscriptionId now =
     \<lparr>dlv_id = i, dlv_eventId = eventId, dlv_subscriptionId = subscriptionId, dlv_deliveryNumber = 1,
      dlv_status = ''AVAILABLE'', dlv_availableAt = now, dlv_attemptCount = 0, dlv_leaseOwner = None,
      dlv_leaseExpiresAt = None, dlv_nextRetryAt = None, dlv_responseStatus = None, dlv_errorSafe = None,
      dlv_createdAt = now, dlv_updatedAt = now\<rparr>"

definition create_matching_delivery :: "string \<Rightarrow> subscription_row \<Rightarrow> unit tx" where
  "create_matching_delivery eventId s =
     bind_tx randomId (\<lambda>rid.
     bind_tx new_date (\<lambda>now.
     bind_tx (insert_tx ''webhook_deliveries'' w_deliveries w_deliveries_update delivery_conflict
        (new_delivery_row (''delivery_'' @ rid) eventId (sub_id s) now)) (\<lambda>_.
     return_tx ())))"

definition createWebhookEvent :: "WebhookEventCreate \<Rightarrow> (string \<times> bool) tx" where
  "createWebhookEvent input =
     bind_tx (find_tx w_webhooks (\<lambda>e. whe_eventId e = wc_eventId input)) (\<lambda>existing.
     case existing of
       Some e \<Rightarrow> return_tx (whe_eventId e, False)
     | None \<Rightarrow>
         bind_tx new_date (\<lambda>now.
         bind_tx (insert_tx ''webhook_events'' w_webhooks w_webhooks_update webhook_conflict
            \<lparr>whe_id = wc_id input, whe_eventId = wc_eventId input, whe_resourceType = wc_resourceType input,
             whe_resourceId = wc_resourceId input, whe_resourceVersion = wc_resourceVersion input,
             whe_eventType = wc_eventType input, whe_eventVersion = wc_eventVersion input,
             whe_correlationId = wc_correlationId input, whe_rawBody = wc_rawBody input, whe_createdAt = now\<rparr>) (\<lambda>event.
         bind_tx (control_event (Some (wc_accountId input)) ''WEBHOOK_EVENT'' (whe_resourceId event)
            ''WEBHOOK_EVENT_ENQUEUED'' ''SYSTEM'' None (wc_correlationId input) ''V2_WEBHOOK_CONTROL_PLANE''
            (Some (whe_createdAt event)) None
            (Some [(''event_id'', JStr (whe_eventId event)), (''resource_type'', JStr (whe_resourceType event)),
              (''resource_id'', JStr (whe_resourceId event)), (''resource_version'', json_int (whe_resourceVersion event)),
              (''event_type'', JStr (whe_eventType event)), (''event_version'', JStr (whe_eventVersion event))])) (\<lambda>_.
         bind_tx (gets_tx (\<lambda>w. filter (\<lambda>s. sub_accountId s = wc_accountId input \<and> sub_status s = ''ACTIVE'')
            (w_subscriptions w))) (\<lambda>subscriptions.
         bind_tx (lift_tx (matching_subscriptions (wc_eventType input) subscriptions)) (\<lambda>matching.
         bind_tx (for_each_tx matching (create_matching_delivery (whe_eventId event))) (\<lambda>_.
         return_tx (whe_eventId event, True))))))))"

section \<open>Giving a delivery up\<close>

definition update_delivery :: "string \<Rightarrow> (delivery_row \<Rightarrow> delivery_row) \<Rightarrow> unit tx" where
  "update_delivery i f =
     bind_tx (update_one_tx ''webhook_deliveries'' w_deliveries w_deliveries_update (\<lambda>d. dlv_id d = i) f) (\<lambda>_.
     return_tx ())"

definition exhaust_delivery_data :: "delivery_row \<Rightarrow> string \<Rightarrow> int \<Rightarrow> delivery_row \<Rightarrow> delivery_row" where
  "exhaust_delivery_data delivery errorSafe now d =
     d\<lparr>dlv_status := ''EXHAUSTED'', dlv_nextRetryAt := None, dlv_availableAt := dlv_availableAt delivery,
       dlv_errorSafe := Some errorSafe, dlv_leaseOwner := None, dlv_leaseExpiresAt := None, dlv_updatedAt := now\<rparr>"

definition open_delivery_exception :: "delivery_row \<Rightarrow> subscription_row option \<Rightarrow> string \<Rightarrow> int \<Rightarrow> unit tx" where
  "open_delivery_exception delivery subscription errorSafe occurredAt =
     (let details = stringify (JObj [(''error'', JStr errorSafe)]); key = ''webhook:'' @ dlv_id delivery in
     bind_tx randomId (\<lambda>rid.
     bind_tx (find_tx w_exceptions (\<lambda>x. opx_activeDedupeKey x = Some (''active:'' @ key))) (\<lambda>found.
     case found of
       Some _ \<Rightarrow>
         bind_tx (update_one_tx ''operational_exceptions'' w_exceptions w_exceptions_update
            (\<lambda>x. opx_activeDedupeKey x = Some (''active:'' @ key))
            (\<lambda>x. x\<lparr>opx_updatedAt := occurredAt, opx_detailsJson := details\<rparr>)) (\<lambda>_.
         return_tx ())
     | None \<Rightarrow>
         bind_tx new_date (\<lambda>now.
         bind_tx (insert_tx ''operational_exceptions'' w_exceptions w_exceptions_update exception_conflict
            (exception_row_of
              \<lparr>oe_id = ''opx_webhook_'' @ rid, oe_accountId = map_option sub_accountId subscription,
               oe_resourceType = ''WEBHOOK_DELIVERY'', oe_resourceId = dlv_id delivery, oe_dedupeKey = key,
               oe_reasonCode = ''WEBHOOK_DELIVERY_EXHAUSTED'', oe_severity = None, oe_detailsJson = Some details\<rparr> now)) (\<lambda>_.
         return_tx ())))))"

definition exhaustWebhookDelivery :: "delivery_row \<Rightarrow> string \<Rightarrow> int \<Rightarrow> unit tx" where
  "exhaustWebhookDelivery delivery errorSafe occurredAt =
     bind_tx new_date (\<lambda>now.
     bind_tx (update_delivery (dlv_id delivery) (exhaust_delivery_data delivery errorSafe now)) (\<lambda>_.
     bind_tx (find_tx w_subscriptions (\<lambda>s. sub_id s = dlv_subscriptionId delivery)) (\<lambda>subscription.
     bind_tx (open_delivery_exception delivery subscription errorSafe occurredAt) (\<lambda>_.
     control_event (map_option sub_accountId subscription) ''WEBHOOK_DELIVERY'' (dlv_id delivery)
       ''WEBHOOK_DELIVERY_EXHAUSTED'' ''SYSTEM'' None None ''V2_WEBHOOK_WORKER'' (Some occurredAt) None
       (Some [(''status'', JStr ''EXHAUSTED''), (''attempt_count'', json_int (dlv_attemptCount delivery)),
         (''error'', JStr errorSafe)])))))"

section \<open>Claiming\<close>

definition MAX_WEBHOOK_BATCH_SIZE :: int where
  "MAX_WEBHOOK_BATCH_SIZE = 1000"

record DeliveryClaimInput =
  dq_limit :: number
  dq_owner :: string
  dq_leaseSeconds :: number
  dq_maxAttempts :: number
  dq_now :: "int option"

record V2WebhookDeliveryClaim =
  wd_id :: string
  wd_eventId :: string
  wd_subscriptionId :: string
  wd_endpoint :: string
  wd_signingKeyRef :: string
  wd_signingKeyVersion :: int
  wd_rawBody :: string
  wd_attemptCount :: int

definition check_claim_input :: "DeliveryClaimInput \<Rightarrow> unit result" where
  "check_claim_input input =
     bind_r (throw_if (\<not> isInteger (dq_limit input) \<or> num_val (dq_limit input) < 1 \<or>
         num_val (dq_limit input) > MAX_WEBHOOK_BATCH_SIZE)
       (DomainErr (ValidationError ''Webhook delivery batch size must be an integer from 1 to 1000'' None))) (\<lambda>_.
     bind_r (throw_if (\<not> isInteger (dq_leaseSeconds input) \<or> num_val (dq_leaseSeconds input) \<le> 0)
       (DomainErr (InvalidStateError ''Webhook delivery lease must be positive''))) (\<lambda>_.
     bind_r (throw_if (\<not> isInteger (dq_maxAttempts input) \<or> num_val (dq_maxAttempts input) < 1)
       (DomainErr (ValidationError ''Webhook maximum attempts must be positive'' None))) (\<lambda>_.
     throw_if (length (trim (dq_owner input)) = 0)
       (DomainErr (ValidationError ''Webhook delivery owner is required'' None)))))"

definition lease_over :: "int \<Rightarrow> delivery_row \<Rightarrow> bool" where
  "lease_over now d = (case dlv_leaseExpiresAt d of None \<Rightarrow> False | Some t \<Rightarrow> t \<le> now)"

definition expired_final :: "int \<Rightarrow> int \<Rightarrow> delivery_row \<Rightarrow> bool" where
  "expired_final now maxAttempts d \<longleftrightarrow>
     dlv_status d = ''CLAIMED'' \<and> lease_over now d \<and> dlv_attemptCount d \<ge> maxAttempts"

definition delivery_order :: "delivery_row \<Rightarrow> order_key" where
  "delivery_order d = OrderKey (dlv_availableAt d) (dlv_id d)"

definition exhaust_expired :: "int \<Rightarrow> int \<Rightarrow> delivery_row \<Rightarrow> unit tx" where
  "exhaust_expired now maxAttempts row =
     bind_tx (find_tx w_deliveries (\<lambda>d. dlv_id d = dlv_id row)) (\<lambda>found.
     case found of
       None \<Rightarrow> return_tx ()
     | Some d \<Rightarrow>
         if expired_final now maxAttempts d then
           exhaustWebhookDelivery d (case dlv_errorSafe d of
               None \<Rightarrow> ''Webhook delivery lease expired after maximum attempts'' | Some e \<Rightarrow> e) now
         else return_tx ())"

definition claimable_delivery :: "int \<Rightarrow> int \<Rightarrow> delivery_row \<Rightarrow> bool" where
  "claimable_delivery now maxAttempts d \<longleftrightarrow>
     dlv_availableAt d \<le> now \<and>
     (dlv_status d \<in> {''AVAILABLE'', ''RETRY_WAIT''} \<or> (dlv_status d = ''CLAIMED'' \<and> lease_over now d)) \<and>
     dlv_attemptCount d < maxAttempts"

text \<open>The row of the join of a delivery with its subscription and its event, if both are there.\<close>

definition delivery_claim :: "world \<Rightarrow> delivery_row \<Rightarrow> V2WebhookDeliveryClaim option" where
  "delivery_claim w d =
     (case List.find (\<lambda>s. sub_id s = dlv_subscriptionId d \<and> sub_status s = ''ACTIVE'') (w_subscriptions w) of
        None \<Rightarrow> None
      | Some s \<Rightarrow>
          (case List.find (\<lambda>e. whe_eventId e = dlv_eventId d) (w_webhooks w) of
             None \<Rightarrow> None
           | Some e \<Rightarrow> Some \<lparr>wd_id = dlv_id d, wd_eventId = dlv_eventId d, wd_subscriptionId = dlv_subscriptionId d,
               wd_endpoint = sub_endpoint s, wd_signingKeyRef = sub_signingKeyRef s,
               wd_signingKeyVersion = sub_signingKeyVersion s, wd_rawBody = whe_rawBody e,
               wd_attemptCount = dlv_attemptCount d + 1\<rparr>))"

definition claimable_rows :: "int \<Rightarrow> int \<Rightarrow> nat \<Rightarrow> world \<Rightarrow> delivery_row list" where
  "claimable_rows now maxAttempts limit w =
     take limit (sort_key delivery_order
       (filter (\<lambda>d. claimable_delivery now maxAttempts d \<and> delivery_claim w d \<noteq> None) (w_deliveries w)))"

definition claim_delivery_data :: "string \<Rightarrow> int \<Rightarrow> int \<Rightarrow> delivery_row \<Rightarrow> delivery_row" where
  "claim_delivery_data owner leaseExpiresAt now d =
     d\<lparr>dlv_status := ''CLAIMED'', dlv_leaseOwner := Some owner, dlv_leaseExpiresAt := Some leaseExpiresAt,
       dlv_attemptCount := dlv_attemptCount d + 1, dlv_updatedAt := now\<rparr>"

definition claim_delivery :: "string \<Rightarrow> int \<Rightarrow> delivery_row \<Rightarrow> unit tx" where
  "claim_delivery owner leaseExpiresAt row =
     bind_tx new_date (\<lambda>now. update_delivery (dlv_id row) (claim_delivery_data owner leaseExpiresAt now))"

definition claimWebhookDeliveries :: "DeliveryClaimInput \<Rightarrow> V2WebhookDeliveryClaim list tx" where
  "claimWebhookDeliveries input =
     bind_tx (now_or_clock (dq_now input)) (\<lambda>now.
     bind_tx (lift_tx (check_claim_input input)) (\<lambda>_.
     let limit = nat (num_val (dq_limit input)); maxAttempts = num_val (dq_maxAttempts input);
         leaseExpiresAt = now + num_val (dq_leaseSeconds input) * 1000
     in bind_tx (gets_tx (\<lambda>w. take limit (sort_key delivery_order (filter (expired_final now maxAttempts) (w_deliveries w))))) (\<lambda>expired.
        bind_tx (for_each_tx expired (exhaust_expired now maxAttempts)) (\<lambda>_.
        bind_tx (gets_tx (claimable_rows now maxAttempts limit)) (\<lambda>rows.
        bind_tx (gets_tx (\<lambda>w. map (\<lambda>d. the (delivery_claim w d)) rows)) (\<lambda>claims.
        bind_tx (for_each_tx rows (claim_delivery (dq_owner input) leaseExpiresAt)) (\<lambda>_.
        return_tx claims)))))))"

section \<open>Holding and giving back a claim\<close>

record DeliveryLease =
  dl_id :: string
  dl_owner :: string
  dl_leaseSeconds :: number
  dl_now :: "int option"

text \<open>A delivery that its owner holds: claimed, and the lease still runs.\<close>

definition owned_delivery :: "string \<Rightarrow> string \<Rightarrow> int \<Rightarrow> delivery_row \<Rightarrow> bool" where
  "owned_delivery i owner now d \<longleftrightarrow> dlv_id d = i \<and> dlv_status d = ''CLAIMED'' \<and> dlv_leaseOwner d = Some owner \<and>
     (case dlv_leaseExpiresAt d of None \<Rightarrow> False | Some t \<Rightarrow> t > now)"

definition delivery_lease_lost :: js_error where
  "delivery_lease_lost = DomainErr (ConflictError ''Webhook delivery lease is no longer owned'')"

definition renewWebhookDeliveryLease :: "DeliveryLease \<Rightarrow> int tx" where
  "renewWebhookDeliveryLease input =
     bind_tx (throw_if_tx (\<not> isInteger (dl_leaseSeconds input) \<or> num_val (dl_leaseSeconds input) \<le> 0)
       (DomainErr (InvalidStateError ''Webhook delivery lease must be positive''))) (\<lambda>_.
     bind_tx (now_or_clock (dl_now input)) (\<lambda>now.
     let leaseExpiresAt = now + num_val (dl_leaseSeconds input) * 1000
     in bind_tx new_date (\<lambda>updatedAt.
        bind_tx (update_many_tx w_deliveries w_deliveries_update (owned_delivery (dl_id input) (dl_owner input) now)
           (\<lambda>d. d\<lparr>dlv_leaseExpiresAt := Some leaseExpiresAt, dlv_updatedAt := updatedAt\<rparr>)) (\<lambda>count.
        bind_tx (throw_if_tx (count \<noteq> 1) delivery_lease_lost) (\<lambda>_.
        return_tx leaseExpiresAt)))))"

definition delivered_data :: "int \<Rightarrow> int \<Rightarrow> delivery_row \<Rightarrow> delivery_row" where
  "delivered_data responseStatus now d =
     d\<lparr>dlv_status := ''DELIVERED'', dlv_responseStatus := Some responseStatus, dlv_leaseOwner := None,
       dlv_leaseExpiresAt := None, dlv_updatedAt := now\<rparr>"

definition markWebhookDelivered :: "string \<Rightarrow> string \<Rightarrow> int \<Rightarrow> unit tx" where
  "markWebhookDelivered i owner responseStatus =
     bind_tx new_date (\<lambda>now.
     bind_tx new_date (\<lambda>updatedAt.
     bind_tx (update_many_tx w_deliveries w_deliveries_update (owned_delivery i owner now)
        (delivered_data responseStatus updatedAt)) (\<lambda>count.
     throw_if_tx (count \<noteq> 1) delivery_lease_lost)))"

record DeliveryRetry =
  dt_id :: string
  dt_owner :: string
  dt_retryAt :: int
  dt_errorSafe :: string
  dt_maxAttempts :: number

text \<open>\<^verbatim>\<open>SELECT ... FOR UPDATE\<close>, the clock and the check that the caller holds the lease.\<close>

definition lock_owned_delivery :: "string \<Rightarrow> string \<Rightarrow> delivery_row tx" where
  "lock_owned_delivery i owner =
     bind_tx (find_tx w_deliveries (\<lambda>d. dlv_id d = i)) (\<lambda>found.
     case found of
       None \<Rightarrow> throw_tx (DomainErr (NotFoundError ''Webhook delivery was not found''))
     | Some d \<Rightarrow>
         bind_tx new_date (\<lambda>now.
         bind_tx (throw_if_tx (\<not> owned_delivery i owner now d) delivery_lease_lost) (\<lambda>_.
         return_tx d)))"

definition wait_delivery_data :: "DeliveryRetry \<Rightarrow> int \<Rightarrow> int \<Rightarrow> delivery_row \<Rightarrow> delivery_row" where
  "wait_delivery_data input returned now d =
     d\<lparr>dlv_status := ''RETRY_WAIT'', dlv_availableAt := dt_retryAt input, dlv_nextRetryAt := Some (dt_retryAt input),
       dlv_errorSafe := Some (dt_errorSafe input), dlv_attemptCount := dlv_attemptCount d - returned,
       dlv_leaseOwner := None, dlv_leaseExpiresAt := None, dlv_updatedAt := now\<rparr>"

definition retryWebhookDelivery :: "DeliveryRetry \<Rightarrow> unit tx" where
  "retryWebhookDelivery input =
     bind_tx (lock_owned_delivery (dt_id input) (dt_owner input)) (\<lambda>d.
     bind_tx (throw_if_tx (\<not> isInteger (dt_maxAttempts input) \<or> num_val (dt_maxAttempts input) < 1)
       (DomainErr (ValidationError ''Webhook maximum attempts must be positive'' None))) (\<lambda>_.
     if dlv_attemptCount d \<ge> num_val (dt_maxAttempts input) then
       bind_tx new_date (\<lambda>occurredAt. exhaustWebhookDelivery d (dt_errorSafe input) occurredAt)
     else bind_tx new_date (\<lambda>now. update_delivery (dt_id input) (wait_delivery_data input 0 now))))"

definition deferWebhookDelivery :: "DeliveryRetry \<Rightarrow> unit tx" where
  "deferWebhookDelivery input =
     bind_tx (lock_owned_delivery (dt_id input) (dt_owner input)) (\<lambda>d.
     bind_tx (throw_if_tx (dlv_attemptCount d < 1)
       (DomainErr (InvalidStateError ''Claimed webhook delivery has no attempt to defer''))) (\<lambda>_.
     bind_tx new_date (\<lambda>now. update_delivery (dt_id input) (wait_delivery_data input 1 now))))"


section \<open>Rows that change in place\<close>

text \<open>\<open>rows_change R rows rows'\<close>: the same deliveries in the same order, each related to what it was.\<close>

definition rows_change :: "(delivery_row \<Rightarrow> delivery_row \<Rightarrow> bool) \<Rightarrow> delivery_row list \<Rightarrow> delivery_row list \<Rightarrow> bool" where
  "rows_change R rows rows' \<longleftrightarrow> list_all2 (\<lambda>d d'. dlv_id d' = dlv_id d \<and> R d d') rows rows'"

lemma rows_change_refl: "(\<And>d. R d d) \<Longrightarrow> rows_change R rows rows"
  by (simp add: rows_change_def list_all2_refl)

lemma rows_change_trans:
  assumes "rows_change R xs ys" "rows_change S ys zs" "\<And>a b c. R a b \<Longrightarrow> S b c \<Longrightarrow> T a c"
  shows "rows_change T xs zs"
  unfolding rows_change_def
  by (rule list_all2_trans [OF _ assms(1) [unfolded rows_change_def] assms(2) [unfolded rows_change_def]]) (auto intro: assms(3))

lemma rows_change_mono: "rows_change R xs ys \<Longrightarrow> (\<And>a b. R a b \<Longrightarrow> S a b) \<Longrightarrow> rows_change S xs ys"
  unfolding rows_change_def by (auto elim: list_all2_mono)

lemma rows_change_ids: "rows_change R xs ys \<Longrightarrow> map dlv_id ys = map dlv_id xs"
  unfolding rows_change_def by (induction rule: list_all2_induct) auto

lemma rows_change_in:
  assumes "rows_change R xs ys" "y \<in> set ys"
  obtains x where "x \<in> set xs" "dlv_id y = dlv_id x" "R x y"
proof -
  obtain i where i: "i < length ys" "y = ys ! i" using assms(2) by (auto simp: in_set_conv_nth)
  then have "i < length xs" "dlv_id y = dlv_id (xs ! i)" "R (xs ! i) y"
    using assms(1) by (auto simp: rows_change_def list_all2_conv_all_nth)
  then show thesis using that [of "xs ! i"] by simp
qed

lemma rows_change_update:
  assumes "distinct (map dlv_id rows)" "d \<in> set rows" "\<And>q. dlv_id (f q) = dlv_id q" "R d (f d)" "\<And>q. R q q"
  shows "rows_change R rows (update_rows (\<lambda>q. dlv_id q = dlv_id d) f rows)"
proof -
  have "q = d" if "q \<in> set rows" "dlv_id q = dlv_id d" for q
    using assms(1,2) that by (metis distinct_map inj_onD)
  then show ?thesis
    unfolding rows_change_def update_rows_def list_all2_map2
    using assms(3-5) by (intro list.rel_refl_strong) auto
qed

interpretation deliveries: keyed_table w_deliveries w_deliveries_update dlv_id
  by unfold_locales simp

lemma update_delivery_Inr:
  assumes "update_delivery i f w = Inr (u, w')"
  shows "w_deliveries w' = update_rows (\<lambda>d. dlv_id d = i) f (w_deliveries w)" "\<exists>d \<in> set (w_deliveries w). dlv_id d = i"
    "w_subscriptions w' = w_subscriptions w" "w_webhooks w' = w_webhooks w"
  using assms find_SomeD unfolding update_delivery_def by (fastforce simp: tx_simps)+

lemma deliveries_outputs: "outputs_frame w_subscriptions"
  by (simp add: outputs_frame_def)

lemma control_event_deliveries: "preserves w_deliveries (control_event a rt ri et act ai c s t old new)"
  unfolding control_event_def createTimelineEvent_def by (intro frame_intros; simp)

lemma control_event_webhooks: "preserves w_webhooks (control_event a rt ri et act ai c s t old new)"
  unfolding control_event_def createTimelineEvent_def by (intro frame_intros; simp)

lemma open_delivery_exception_frames:
  "preserves w_deliveries (open_delivery_exception d s e t)" "preserves w_subscriptions (open_delivery_exception d s e t)"
  "preserves w_webhooks (open_delivery_exception d s e t)"
  unfolding open_delivery_exception_def Let_def by (intro frame_intros; simp)+

lemma exhaustWebhookDelivery_Inr:
  assumes "exhaustWebhookDelivery d e t w = Inr (u, w')"
  shows "\<exists>now. w_deliveries w' = update_rows (\<lambda>q. dlv_id q = dlv_id d) (exhaust_delivery_data d e now) (w_deliveries w)"
    "w_subscriptions w' = w_subscriptions w" "w_webhooks w' = w_webhooks w"
proof -
  obtain now w1 w2 s w3 where n: "new_date w = Inr (now, w1)"
    and u: "update_delivery (dlv_id d) (exhaust_delivery_data d e now) w1 = Inr ((), w2)"
    and x: "open_delivery_exception d s e t w2 = Inr ((), w3)"
    and c: "control_event (map_option sub_accountId s) ''WEBHOOK_DELIVERY'' (dlv_id d)
       ''WEBHOOK_DELIVERY_EXHAUSTED'' ''SYSTEM'' None None ''V2_WEBHOOK_WORKER'' (Some t) None
       (Some [(''status'', JStr ''EXHAUSTED''), (''attempt_count'', json_int (dlv_attemptCount d)),
         (''error'', JStr e)]) w3 = Inr (u, w')"
    using assms unfolding exhaustWebhookDelivery_def bind_tx_Inr_iff find_tx_apply by auto
  note U = update_delivery_Inr [OF u]
  have w1: "w_deliveries w1 = w_deliveries w" "w_subscriptions w1 = w_subscriptions w" "w_webhooks w1 = w_webhooks w"
    using n by (auto simp: tx_simps)
  note X = open_delivery_exception_frames [THEN preservesD, OF x]
  have "w_deliveries w' = w_deliveries w2"
    using preservesD [OF control_event_deliveries c] X(1) by simp
  then show "\<exists>now. w_deliveries w' = update_rows (\<lambda>q. dlv_id q = dlv_id d) (exhaust_delivery_data d e now) (w_deliveries w)"
    using U(1) w1(1) by auto
  show "w_subscriptions w' = w_subscriptions w"
    using preservesD [OF control_event_preserves [OF deliveries_outputs] c] X(2) U(3) w1(2) by simp
  show "w_webhooks w' = w_webhooks w"
    using preservesD [OF control_event_webhooks c] X(3) U(4) w1(3) by simp
qed

section \<open>The phases of a claim\<close>

definition exhausted_or_same :: "int \<Rightarrow> int \<Rightarrow> delivery_row \<Rightarrow> delivery_row \<Rightarrow> bool" where
  "exhausted_or_same now m d d' \<longleftrightarrow> d' = d \<or> (expired_final now m d \<and> (\<exists>e t. d' = exhaust_delivery_data d e t d))"

lemma exhausted_or_same_refl [simp]: "exhausted_or_same now m d d"
  by (simp add: exhausted_or_same_def)

lemma exhausted_or_same_trans:
  "exhausted_or_same now m a b \<Longrightarrow> exhausted_or_same now m b c \<Longrightarrow> exhausted_or_same now m a c"
  by (auto simp: exhausted_or_same_def expired_final_def exhaust_delivery_data_def)

lemma exhaust_expired_Inr:
  assumes run: "exhaust_expired now m row w = Inr (u, w')" and d: "distinct (map dlv_id (w_deliveries w))"
  shows "rows_change (exhausted_or_same now m) (w_deliveries w) (w_deliveries w') \<and>
    w_subscriptions w' = w_subscriptions w \<and> w_webhooks w' = w_webhooks w"
proof (cases "List.find (\<lambda>q. dlv_id q = dlv_id row) (w_deliveries w)")
  case None
  then have "w' = w" using run by (simp add: exhaust_expired_def tx_simps)
  then show ?thesis by (simp add: rows_change_refl)
next
  case (Some q)
  have q: "q \<in> set (w_deliveries w)" using find_SomeD [OF Some] by blast
  show ?thesis
  proof (cases "expired_final now m q")
    case False
    then have "w' = w" using run Some by (simp add: exhaust_expired_def tx_simps)
    then show ?thesis by (simp add: rows_change_refl)
  next
    case True
    then obtain e where e: "exhaustWebhookDelivery q e now w = Inr (u, w')"
      using run Some by (auto simp: exhaust_expired_def tx_simps)
    note E = exhaustWebhookDelivery_Inr [OF e]
    obtain t where "w_deliveries w' = update_rows (\<lambda>x. dlv_id x = dlv_id q) (exhaust_delivery_data q e t) (w_deliveries w)"
      using E(1) by blast
    moreover have "exhausted_or_same now m q (exhaust_delivery_data q e t q)"
      using True by (auto simp: exhausted_or_same_def)
    ultimately show ?thesis
      using rows_change_update [OF d q] E(2,3) by (simp add: exhaust_delivery_data_def)
  qed
qed

lemma exhaust_all_Inr:
  "for_each_tx rows (exhaust_expired now m) w = Inr (u, w') \<Longrightarrow> distinct (map dlv_id (w_deliveries w)) \<Longrightarrow>
    rows_change (exhausted_or_same now m) (w_deliveries w) (w_deliveries w') \<and>
    w_subscriptions w' = w_subscriptions w \<and> w_webhooks w' = w_webhooks w"
proof (induction rows arbitrary: w)
  case Nil
  then show ?case by (simp add: tx_simps rows_change_refl)
next
  case (Cons r rows)
  obtain w1 where w1: "exhaust_expired now m r w = Inr ((), w1)" and rest: "for_each_tx rows (exhaust_expired now m) w1 = Inr (u, w')"
    using Cons.prems(1) by (auto simp: tx_simps)
  note E = exhaust_expired_Inr [OF w1 Cons.prems(2)]
  have "distinct (map dlv_id (w_deliveries w1))" using rows_change_ids E Cons.prems(2) by metis
  note IH = Cons.IH [OF rest this]
  have "rows_change (exhausted_or_same now m) (w_deliveries w) (w_deliveries w')"
    using rows_change_trans [where T = "exhausted_or_same now m"] E IH exhausted_or_same_trans by blast
  then show ?case using E IH by simp
qed

definition claimed_or_same :: "string \<Rightarrow> int \<Rightarrow> string set \<Rightarrow> delivery_row \<Rightarrow> delivery_row \<Rightarrow> bool" where
  "claimed_or_same owner lease ids d d' \<longleftrightarrow>
     (if dlv_id d \<in> ids then \<exists>t. d' = claim_delivery_data owner lease t d else d' = d)"

lemma claim_delivery_id [simp]: "dlv_id (claim_delivery_data owner lease t d) = dlv_id d"
  by (simp add: claim_delivery_data_def)

lemma claim_delivery_Inr:
  assumes "claim_delivery owner lease r w = Inr (u, w')"
  shows "rows_change (claimed_or_same owner lease {dlv_id r}) (w_deliveries w) (w_deliveries w')"
proof -
  obtain t where "w_deliveries w' = update_rows (\<lambda>d. dlv_id d = dlv_id r) (claim_delivery_data owner lease t) (w_deliveries w)"
    using assms update_delivery_Inr(1) by (fastforce simp: claim_delivery_def tx_simps)
  then show ?thesis
    unfolding rows_change_def update_rows_def list_all2_conv_all_nth claimed_or_same_def
    by (auto simp: claim_delivery_id)
qed

lemma claim_all_Inr:
  "for_each_tx rows (claim_delivery owner lease) w = Inr (u, w') \<Longrightarrow> distinct (map dlv_id rows) \<Longrightarrow>
    rows_change (claimed_or_same owner lease (dlv_id ` set rows)) (w_deliveries w) (w_deliveries w')"
proof (induction rows arbitrary: w)
  case Nil
  then show ?case by (simp add: tx_simps rows_change_refl claimed_or_same_def)
next
  case (Cons r rows)
  obtain w1 where w1: "claim_delivery owner lease r w = Inr ((), w1)" and rest: "for_each_tx rows (claim_delivery owner lease) w1 = Inr (u, w')"
    using Cons.prems(1) by (auto simp: tx_simps)
  have IH: "rows_change (claimed_or_same owner lease (dlv_id ` set rows)) (w_deliveries w1) (w_deliveries w')"
    using Cons.IH [OF rest] Cons.prems(2) by simp
  have r: "dlv_id r \<notin> dlv_id ` set rows" using Cons.prems(2) by simp
  have "claimed_or_same owner lease (dlv_id ` set (r # rows)) a c"
    if "claimed_or_same owner lease {dlv_id r} a b" "claimed_or_same owner lease (dlv_id ` set rows) b c" for a b c
    using that r by (cases "dlv_id a = dlv_id r") (auto simp: claimed_or_same_def)
  then show ?case by (rule rows_change_trans [OF claim_delivery_Inr [OF w1] IH])
qed

text \<open>A claim: the expired deliveries without attempts left are given up, then the claimable ones are taken.\<close>

lemma claimWebhookDeliveries_cases:
  assumes run: "claimWebhookDeliveries input w = Inr (cs, w')" and d: "distinct (map dlv_id (w_deliveries w))"
  obtains now w1 rows where "\<forall>t. dq_now input = Some t \<longrightarrow> now = t" "check_claim_input input = Inr ()"
    "rows_change (exhausted_or_same now (num_val (dq_maxAttempts input))) (w_deliveries w) (w_deliveries w1)"
    "rows = claimable_rows now (num_val (dq_maxAttempts input)) (nat (num_val (dq_limit input))) w1"
    "cs = map (\<lambda>d. the (delivery_claim w1 d)) rows"
    "rows_change (claimed_or_same (dq_owner input) (now + num_val (dq_leaseSeconds input) * 1000) (dlv_id ` set rows))
      (w_deliveries w1) (w_deliveries w')"
    "w_subscriptions w1 = w_subscriptions w" "w_webhooks w1 = w_webhooks w"
proof -
  let ?m = "num_val (dq_maxAttempts input)" and ?n = "nat (num_val (dq_limit input))"
  obtain now w0 w1 where n: "now_or_clock (dq_now input) w = Inr (now, w0)" and c: "check_claim_input input = Inr ()"
    and ex: "for_each_tx (take ?n (sort_key delivery_order (filter (expired_final now ?m) (w_deliveries w0)))) (exhaust_expired now ?m) w0 = Inr ((), w1)"
    and cl: "for_each_tx (claimable_rows now ?m ?n w1) (claim_delivery (dq_owner input) (now + num_val (dq_leaseSeconds input) * 1000)) w1 = Inr ((), w')"
    and cs: "cs = map (\<lambda>d. the (delivery_claim w1 d)) (claimable_rows now ?m ?n w1)"
    using run unfolding claimWebhookDeliveries_def Let_def by (auto simp: tx_simps)
  obtain k where w0: "w0 = w\<lparr>w_ticks := k\<rparr>" using now_or_clock_world [OF n] by blast
  have E: "rows_change (exhausted_or_same now ?m) (w_deliveries w) (w_deliveries w1) \<and>
    w_subscriptions w1 = w_subscriptions w \<and> w_webhooks w1 = w_webhooks w"
    using exhaust_all_Inr [OF ex] d by (simp add: w0)
  have "distinct (map dlv_id (w_deliveries w1))" using rows_change_ids E d by metis
  then have "distinct (map dlv_id (claimable_rows now ?m ?n w1))"
    by (auto simp: claimable_rows_def distinct_map inj_on_def dest!: in_set_takeD)
  note C = claim_all_Inr [OF cl this]
  have t: "\<forall>t. dq_now input = Some t \<longrightarrow> now = t" using n by (auto simp: now_or_clock_def tx_simps)
  show thesis by (rule that [OF t c _ refl cs C]) (use E in simp_all)
qed


section \<open>The life of a delivery\<close>

text \<open>What may happen to one delivery, with at most \<open>m\<close> attempts.\<close>

inductive delivery_moves :: "int \<Rightarrow> delivery_row \<Rightarrow> delivery_row \<Rightarrow> bool" for m where
  dm_claim: "dlv_status d \<in> {''AVAILABLE'', ''RETRY_WAIT'', ''CLAIMED''} \<Longrightarrow> dlv_attemptCount d < m \<Longrightarrow>
    delivery_moves m d (claim_delivery_data owner lease t d)"
| dm_renew: "dlv_status d = ''CLAIMED'' \<Longrightarrow> dlv_leaseOwner d \<noteq> None \<Longrightarrow>
    delivery_moves m d (d\<lparr>dlv_leaseExpiresAt := Some lease, dlv_updatedAt := t\<rparr>)"
| dm_deliver: "dlv_status d = ''CLAIMED'' \<Longrightarrow> delivery_moves m d (delivered_data s t d)"
| dm_retry: "dlv_status d = ''CLAIMED'' \<Longrightarrow> delivery_moves m d (wait_delivery_data i 0 t d)"
| dm_defer: "dlv_status d = ''CLAIMED'' \<Longrightarrow> 1 \<le> dlv_attemptCount d \<Longrightarrow> delivery_moves m d (wait_delivery_data i 1 t d)"
| dm_exhaust: "dlv_status d = ''CLAIMED'' \<Longrightarrow> delivery_moves m d (exhaust_delivery_data q e t d)"

definition delivery_ok :: "int \<Rightarrow> delivery_row \<Rightarrow> bool" where
  "delivery_ok m d \<longleftrightarrow> 0 \<le> dlv_attemptCount d \<and> dlv_attemptCount d \<le> m \<and>
     (dlv_status d = ''CLAIMED'' \<longleftrightarrow> dlv_leaseExpiresAt d \<noteq> None) \<and> (dlv_leaseOwner d = None \<longleftrightarrow> dlv_leaseExpiresAt d = None) \<and>
     dlv_status d \<in> {''AVAILABLE'', ''RETRY_WAIT'', ''CLAIMED'', ''DELIVERED'', ''EXHAUSTED''}"

definition deliveries_ok :: "int \<Rightarrow> world \<Rightarrow> bool" where
  "deliveries_ok m w \<longleftrightarrow> distinct (map dlv_id (w_deliveries w)) \<and> (\<forall>d \<in> set (w_deliveries w). delivery_ok m d)"

definition finished_delivery :: "delivery_row \<Rightarrow> bool" where
  "finished_delivery d \<longleftrightarrow> dlv_status d = ''DELIVERED'' \<or> dlv_status d = ''EXHAUSTED''"

inductive_cases delivery_movesE: "delivery_moves m d d'"

lemma delivery_moves_ok: "delivery_moves m d d' \<Longrightarrow> delivery_ok m d \<Longrightarrow> delivery_ok m d'"
  by (erule delivery_movesE)
    (auto simp: delivery_ok_def claim_delivery_data_def delivered_data_def wait_delivery_data_def exhaust_delivery_data_def)

lemma delivery_moves_star_ok: "(delivery_moves m)\<^sup>*\<^sup>* d d' \<Longrightarrow> delivery_ok m d \<Longrightarrow> delivery_ok m d'"
  by (induction rule: rtranclp_induct) (auto intro: delivery_moves_ok)

lemma delivery_moves_finished: "delivery_moves m d d' \<Longrightarrow> \<not> finished_delivery d"
  by (erule delivery_movesE) (auto simp: finished_delivery_def)

lemma delivery_moves_star_finished: "(delivery_moves m)\<^sup>*\<^sup>* d d' \<Longrightarrow> finished_delivery d \<Longrightarrow> d' = d"
  by (induction rule: rtranclp_induct) (auto dest: delivery_moves_finished)

text \<open>A step: the deliveries that were there move, and new ones come after them.\<close>

definition fresh_delivery :: "delivery_row \<Rightarrow> bool" where
  "fresh_delivery d \<longleftrightarrow> dlv_status d = ''AVAILABLE'' \<and> dlv_attemptCount d = 0 \<and> dlv_leaseOwner d = None \<and> dlv_leaseExpiresAt d = None"

definition deliveries_move :: "int \<Rightarrow> delivery_row list \<Rightarrow> delivery_row list \<Rightarrow> bool" where
  "deliveries_move m rows rows' \<longleftrightarrow> (\<exists>moved added. rows' = moved @ added \<and> rows_change (delivery_moves m)\<^sup>*\<^sup>* rows moved \<and>
     (\<forall>d \<in> set added. fresh_delivery d) \<and> distinct (map dlv_id rows'))"

lemma rows_change_strong:
  assumes "rows_change R xs ys" "\<And>a b. a \<in> set xs \<Longrightarrow> R a b \<Longrightarrow> S a b"
  shows "rows_change S xs ys"
  using assms unfolding rows_change_def by (auto elim!: list.rel_mono_strong)

lemma rows_change_move:
  assumes "rows_change (delivery_moves m)\<^sup>*\<^sup>* rows rows'" "distinct (map dlv_id rows)"
  shows "deliveries_move m rows rows'"
  unfolding deliveries_move_def using assms rows_change_ids [OF assms(1)] by (intro exI [of _ rows'] exI [of _ "[]"]) simp

lemma rows_change_where:
  assumes "\<And>d. d \<in> set rows \<Longrightarrow> P d \<Longrightarrow> R d (f d)" "\<And>d. dlv_id (f d) = dlv_id d" "\<And>d. R d d"
  shows "rows_change R rows (update_rows P f rows)"
  unfolding rows_change_def update_rows_def list_all2_conv_all_nth using assms by auto

lemma move_where:
  assumes "distinct (map dlv_id rows)" "\<And>d. d \<in> set rows \<Longrightarrow> P d \<Longrightarrow> delivery_moves m d (f d)" "\<And>d. dlv_id (f d) = dlv_id d"
  shows "deliveries_move m rows (update_rows P f rows)"
  by (rule rows_change_move [OF rows_change_where assms(1)]) (use assms(2,3) in auto)

lemma moved_data_id [simp]: "dlv_id (delivered_data s t d) = dlv_id d" "dlv_id (wait_delivery_data i n t d) = dlv_id d"
  "dlv_id (exhaust_delivery_data q e t d) = dlv_id d"
  by (simp_all add: delivered_data_def wait_delivery_data_def exhaust_delivery_data_def)

lemma claim_moves:
  assumes "claimWebhookDeliveries input w = Inr (cs, w')" "distinct (map dlv_id (w_deliveries w))"
  shows "deliveries_move (num_val (dq_maxAttempts input)) (w_deliveries w) (w_deliveries w')"
  using assms
proof (cases rule: claimWebhookDeliveries_cases)
  case (1 now w1 rows)
  let ?m = "num_val (dq_maxAttempts input)"
  let ?l = "now + num_val (dq_leaseSeconds input) * 1000"
  have A: "(delivery_moves ?m)\<^sup>*\<^sup>* a b" if "exhausted_or_same now ?m a b" for a b
    using that by (auto simp: exhausted_or_same_def expired_final_def intro: dm_exhaust)
  have d1: "distinct (map dlv_id (w_deliveries w1))" using rows_change_ids [OF 1(3)] assms(2) by simp
  have rows: "a \<in> set (w_deliveries w1) \<Longrightarrow> dlv_id a \<in> dlv_id ` set rows \<Longrightarrow> claimable_delivery now ?m a" for a
  proof -
    assume a: "a \<in> set (w_deliveries w1)" "dlv_id a \<in> dlv_id ` set rows"
    then obtain b where b: "b \<in> set rows" "dlv_id b = dlv_id a" by auto
    have "b \<in> set (w_deliveries w1) \<and> claimable_delivery now ?m b"
      using b(1) unfolding 1(4) claimable_rows_def by (auto dest!: in_set_takeD)
    then show ?thesis using d1 a(1) b(2) by (metis distinct_map inj_onD)
  qed
  have B: "rows_change (delivery_moves ?m)\<^sup>*\<^sup>* (w_deliveries w1) (w_deliveries w')"
    using 1(6)
  proof (rule rows_change_strong)
    fix a b assume a: "a \<in> set (w_deliveries w1)" and c: "claimed_or_same (dq_owner input) ?l (dlv_id ` set rows) a b"
    show "(delivery_moves ?m)\<^sup>*\<^sup>* a b"
    proof (cases "dlv_id a \<in> dlv_id ` set rows")
      case True
      then obtain t where "b = claim_delivery_data (dq_owner input) ?l t a" using c by (auto simp: claimed_or_same_def)
      moreover have "delivery_moves ?m a (claim_delivery_data (dq_owner input) ?l t a)"
        using rows [OF a True] by (intro dm_claim) (auto simp: claimable_delivery_def)
      ultimately show ?thesis by simp
    next
      case False
      then show ?thesis using c by (simp add: claimed_or_same_def)
    qed
  qed
  have "rows_change (delivery_moves ?m)\<^sup>*\<^sup>* (w_deliveries w) (w_deliveries w')"
    by (rule rows_change_trans [OF rows_change_mono [OF 1(3) A] B]) auto
  then show ?thesis by (rule rows_change_move [OF _ assms(2)])
qed

lemma lock_owned_delivery_Inr:
  assumes "lock_owned_delivery i owner w = Inr (d, w')"
  shows "w_deliveries w' = w_deliveries w" "d \<in> set (w_deliveries w)" "dlv_id d = i" "dlv_status d = ''CLAIMED''"
proof -
  obtain f where f: "List.find (\<lambda>d. dlv_id d = i) (w_deliveries w) = f" by blast
  then obtain q where q: "f = Some q" using assms by (cases f) (simp_all add: lock_owned_delivery_def tx_simps)
  have "q = d" "w_deliveries w' = w_deliveries w" "dlv_status d = ''CLAIMED''"
    using assms f q by (auto simp: lock_owned_delivery_def tx_simps owned_delivery_def)
  then show "w_deliveries w' = w_deliveries w" "d \<in> set (w_deliveries w)" "dlv_id d = i" "dlv_status d = ''CLAIMED''"
    using find_SomeD [OF f [unfolded q]] by auto
qed

text \<open>An update of the one delivery a caller holds.\<close>

lemma move_one:
  assumes "distinct (map dlv_id rows)" "d \<in> set rows" "delivery_moves m d (f d)" "\<And>q. dlv_id (f q) = dlv_id q"
  shows "deliveries_move m rows (update_rows (\<lambda>q. dlv_id q = dlv_id d) f rows)"
  by (rule rows_change_move [OF rows_change_update assms(1)]) (use assms in auto)

lemma exhaust_moves:
  assumes "exhaustWebhookDelivery d e t w = Inr (u, w')" "distinct (map dlv_id (w_deliveries w))"
    "d \<in> set (w_deliveries w)" "dlv_status d = ''CLAIMED''"
  shows "deliveries_move m (w_deliveries w) (w_deliveries w')"
proof -
  obtain now where w': "w_deliveries w' = update_rows (\<lambda>q. dlv_id q = dlv_id d) (exhaust_delivery_data d e now) (w_deliveries w)"
    using exhaustWebhookDelivery_Inr(1) [OF assms(1)] by blast
  show ?thesis unfolding w' by (rule move_one [OF assms(2,3)]) (simp_all add: dm_exhaust [OF assms(4)])
qed

lemma new_date_bind: "bind_tx new_date k w = k (w_clock w (w_ticks w)) (w\<lparr>w_ticks := Suc (w_ticks w)\<rparr>)"
  by (simp add: bind_tx_def new_date_def)

lemma retry_moves:
  assumes run: "retryWebhookDelivery input w = Inr (u, w')" and d: "distinct (map dlv_id (w_deliveries w))"
  shows "deliveries_move m (w_deliveries w) (w_deliveries w')"
proof -
  obtain q w1 where l: "lock_owned_delivery (dt_id input) (dt_owner input) w = Inr (q, w1)"
    and r: "(if dlv_attemptCount q \<ge> num_val (dt_maxAttempts input) then
       bind_tx new_date (\<lambda>occurredAt. exhaustWebhookDelivery q (dt_errorSafe input) occurredAt)
     else bind_tx new_date (\<lambda>now. update_delivery (dt_id input) (wait_delivery_data input 0 now))) w1 = Inr (u, w')"
    using run unfolding retryWebhookDelivery_def bind_tx_Inr_iff throw_if_tx_Inr_iff by blast
  note L = lock_owned_delivery_Inr [OF l]
  show ?thesis
  proof (cases "dlv_attemptCount q \<ge> num_val (dt_maxAttempts input)")
    case True
    then have e: "exhaustWebhookDelivery q (dt_errorSafe input) (w_clock w1 (w_ticks w1)) (w1\<lparr>w_ticks := Suc (w_ticks w1)\<rparr>) = Inr (u, w')"
      using r by (simp add: new_date_bind)
    show ?thesis using exhaust_moves [OF e] d L(1,2,4) by simp
  next
    case False
    then have e: "update_delivery (dt_id input) (wait_delivery_data input 0 (w_clock w1 (w_ticks w1))) (w1\<lparr>w_ticks := Suc (w_ticks w1)\<rparr>) = Inr (u, w')"
      using r by (simp add: new_date_bind)
    have "w_deliveries w' = update_rows (\<lambda>x. dlv_id x = dlv_id q) (wait_delivery_data input 0 (w_clock w1 (w_ticks w1))) (w_deliveries w)"
      using update_delivery_Inr(1) [OF e] L(1,3) by simp
    then show ?thesis using move_one [where f = "wait_delivery_data input 0 (w_clock w1 (w_ticks w1))", OF d L(2) dm_retry [OF L(4)]] by simp
  qed
qed

lemma defer_moves:
  assumes run: "deferWebhookDelivery input w = Inr (u, w')" and d: "distinct (map dlv_id (w_deliveries w))"
  shows "deliveries_move m (w_deliveries w) (w_deliveries w')"
proof -
  obtain q w1 where l: "lock_owned_delivery (dt_id input) (dt_owner input) w = Inr (q, w1)" and c: "1 \<le> dlv_attemptCount q"
    and e: "bind_tx new_date (\<lambda>now. update_delivery (dt_id input) (wait_delivery_data input 1 now)) w1 = Inr (u, w')"
    using run unfolding deferWebhookDelivery_def bind_tx_Inr_iff [of "lock_owned_delivery _ _"] bind_tx_Inr_iff [of "throw_if_tx _ _"]
      throw_if_tx_Inr_iff by auto
  note L = lock_owned_delivery_Inr [OF l]
  let ?t = "w_clock w1 (w_ticks w1)"
  have "w_deliveries w' = update_rows (\<lambda>x. dlv_id x = dlv_id q) (wait_delivery_data input 1 ?t) (w_deliveries w)"
    using update_delivery_Inr(1) [OF e [unfolded new_date_bind]] L(1,3) by simp
  then show ?thesis using move_one [where f = "wait_delivery_data input 1 ?t", OF d L(2) dm_defer [OF L(4) c]] by simp
qed

lemma renew_moves:
  assumes run: "renewWebhookDeliveryLease input w = Inr (u, w')" and d: "distinct (map dlv_id (w_deliveries w))"
  shows "deliveries_move m (w_deliveries w) (w_deliveries w')"
proof -
  have "\<exists>now t lease. w_deliveries w' = update_rows (owned_delivery (dl_id input) (dl_owner input) now)
      (\<lambda>d. d\<lparr>dlv_leaseExpiresAt := Some lease, dlv_updatedAt := t\<rparr>) (w_deliveries w)"
    using run unfolding renewWebhookDeliveryLease_def Let_def by (auto simp: tx_simps dest!: now_or_clock_world) blast
  then obtain now t lease where w': "w_deliveries w' = update_rows (owned_delivery (dl_id input) (dl_owner input) now)
      (\<lambda>d. d\<lparr>dlv_leaseExpiresAt := Some lease, dlv_updatedAt := t\<rparr>) (w_deliveries w)" by blast
  show ?thesis
    unfolding w' by (rule move_where [OF d]) (auto simp: owned_delivery_def intro!: dm_renew)
qed

lemma delivered_moves:
  assumes run: "markWebhookDelivered i owner s w = Inr (u, w')" and d: "distinct (map dlv_id (w_deliveries w))"
  shows "deliveries_move m (w_deliveries w) (w_deliveries w')"
proof -
  have "\<exists>now t. w_deliveries w' = update_rows (owned_delivery i owner now) (delivered_data s t) (w_deliveries w)"
    using run unfolding markWebhookDelivered_def by (auto simp: tx_simps)
  then obtain now t where w': "w_deliveries w' = update_rows (owned_delivery i owner now) (delivered_data s t) (w_deliveries w)"
    by blast
  show ?thesis
    unfolding w' by (rule move_where [OF d]) (auto simp: owned_delivery_def intro!: dm_deliver)
qed

text \<open>New deliveries.\<close>

definition extends :: "delivery_row list \<Rightarrow> world \<Rightarrow> bool" where
  "extends rows w \<longleftrightarrow> (\<exists>added. w_deliveries w = rows @ added \<and> (\<forall>d \<in> set added. fresh_delivery d) \<and>
     distinct (map dlv_id (w_deliveries w)))"

lemma extends_move: "extends rows w \<Longrightarrow> deliveries_move m rows (w_deliveries w)"
  unfolding extends_def deliveries_move_def using rows_change_refl [of "(delivery_moves m)\<^sup>*\<^sup>*" rows] by blast

lemma extends_insert:
  assumes "extends rows w" "fresh_delivery r" "dlv_id r \<notin> dlv_id ` set (w_deliveries w)" "w_deliveries w' = w_deliveries w @ [r]"
  shows "extends rows w'"
  using assms unfolding extends_def by auto

lemma new_delivery_fresh: "fresh_delivery (new_delivery_row i e s t)"
  by (simp add: fresh_delivery_def new_delivery_row_def)

lemma create_matching_extends: "keeps (extends rows) (create_matching_delivery e s)"
proof (rule tripleI)
  fix w u w' assume I: "extends rows w" and run: "create_matching_delivery e s w = Inr (u, w')"
  then obtain i t where "w_deliveries w' = w_deliveries w @ [new_delivery_row i e (sub_id s) t]"
    "\<not> list_ex (delivery_conflict (new_delivery_row i e (sub_id s) t)) (w_deliveries w)"
    by (auto simp: create_matching_delivery_def tx_simps)
  then show "extends rows w'"
    by (intro extends_insert [OF I new_delivery_fresh, of i e "sub_id s" t])
      (auto simp: delivery_conflict_def list_ex_iff new_delivery_row_def)
qed

lemma create_delivery_extends: "keeps (extends rows) (create_delivery e s)"
proof (rule tripleI)
  fix w u w' assume I: "extends rows w" and run: "create_delivery e s w = Inr (u, w')"
  then consider "w_deliveries w' = w_deliveries w"
    | i t where "w_deliveries w' = w_deliveries w @ [new_delivery_row i e (sub_id s) t]"
        "\<not> list_ex (delivery_conflict (new_delivery_row i e (sub_id s) t)) (w_deliveries w)"
    by (auto simp: create_delivery_def tx_simps new_delivery_row_def split: if_splits)
  then show "extends rows w'"
  proof cases
    case 1
    then show ?thesis using I by (simp add: extends_def)
  next
    case (2 i t)
    then show ?thesis
      by (intro extends_insert [OF I new_delivery_fresh, of i e "sub_id s" t])
        (auto simp: delivery_conflict_def list_ex_iff new_delivery_row_def)
  qed
qed

lemma enqueue_moves:
  assumes run: "enqueueWebhookEvent input w = Inr (u, w')" and d: "distinct (map dlv_id (w_deliveries w))"
  shows "deliveries_move m (w_deliveries w) (w_deliveries w')"
proof -
  obtain n w1 ms where n: "insert_webhook_event input w = Inr (n, w1)"
    and rest: "for_each_tx ms (create_delivery (webhook_event_id input)) w1 = Inr (u, w')"
    by (rule enqueueWebhookEvent_split [OF run])
  have "extends (w_deliveries w) w1" using insert_webhook_event_events(1) [OF n] d by (simp add: extends_def)
  then have "extends (w_deliveries w) w'" by (rule tripleD [OF for_each_keeps [OF create_delivery_extends] rest])
  then show ?thesis by (rule extends_move)
qed

lemma frame_extends: "preserves w_deliveries n \<Longrightarrow> keeps (extends rows) n"
  unfolding extends_def by (rule keeps_preserves [where g = w_deliveries])

lemma keeps_option:
  "keeps I m \<Longrightarrow> (\<And>y. keeps I (k y)) \<Longrightarrow> keeps I (case x of None \<Rightarrow> m | Some y \<Rightarrow> k y)"
  by (cases x) auto

lemma create_event_extends: "keeps (extends rows) (createWebhookEvent input)"
  unfolding createWebhookEvent_def
  by (intro keeps_bind keeps_option for_each_keeps create_matching_extends;
      intro frame_extends frame_intros control_event_deliveries; simp)

lemma event_moves:
  assumes run: "createWebhookEvent input w = Inr (r, w')" and d: "distinct (map dlv_id (w_deliveries w))"
  shows "deliveries_move m (w_deliveries w) (w_deliveries w')"
proof -
  have "extends (w_deliveries w) w" using d by (simp add: extends_def)
  with run have "extends (w_deliveries w) w'" by (rule tripleD [OF create_event_extends])
  then show ?thesis by (rule extends_move)
qed

section \<open>Every transaction follows the life of a delivery\<close>

inductive delivery_step :: "int \<Rightarrow> world \<Rightarrow> world \<Rightarrow> bool" for m where
  ds_claim: "claimWebhookDeliveries q w = Inr (cs, w') \<Longrightarrow> num_val (dq_maxAttempts q) = m \<Longrightarrow> delivery_step m w w'"
| ds_renew: "renewWebhookDeliveryLease l w = Inr (t, w') \<Longrightarrow> delivery_step m w w'"
| ds_delivered: "markWebhookDelivered i ow s w = Inr (u, w') \<Longrightarrow> delivery_step m w w'"
| ds_retry: "retryWebhookDelivery r w = Inr (u, w') \<Longrightarrow> delivery_step m w w'"
| ds_defer: "deferWebhookDelivery r w = Inr (u, w') \<Longrightarrow> delivery_step m w w'"
| ds_event: "createWebhookEvent e w = Inr (v, w') \<Longrightarrow> delivery_step m w w'"
| ds_enqueue: "enqueueWebhookEvent x w = Inr (u, w') \<Longrightarrow> delivery_step m w w'"
| ds_other: "w_deliveries w' = w_deliveries w \<Longrightarrow> delivery_step m w w'"

lemma delivery_step_moves:
  "delivery_step m w w' \<Longrightarrow> distinct (map dlv_id (w_deliveries w)) \<Longrightarrow> deliveries_move m (w_deliveries w) (w_deliveries w')"
proof (induction rule: delivery_step.induct)
  case (ds_claim q w cs w')
  then show ?case using claim_moves by blast
next
  case (ds_other w' w)
  then show ?case by (simp add: rows_change_move rows_change_refl)
qed (blast intro: renew_moves delivered_moves retry_moves defer_moves event_moves enqueue_moves)+

lemma delivery_step_ok:
  assumes "delivery_step m w w'" "deliveries_ok m w" "0 \<le> m"
  shows "deliveries_ok m w'"
proof -
  obtain moved added where w': "w_deliveries w' = moved @ added" "rows_change (delivery_moves m)\<^sup>*\<^sup>* (w_deliveries w) moved"
    "\<forall>d \<in> set added. fresh_delivery d" "distinct (map dlv_id (w_deliveries w'))"
    using delivery_step_moves [OF assms(1)] assms(2) unfolding deliveries_move_def deliveries_ok_def by blast
  have "delivery_ok m d" if "d \<in> set moved" for d
    using rows_change_in [OF w'(2) that] delivery_moves_star_ok assms(2) unfolding deliveries_ok_def by metis
  moreover have "delivery_ok m d" if "d \<in> set added" for d
    using w'(3) that assms(3) by (simp add: fresh_delivery_def delivery_ok_def)
  ultimately show ?thesis using w'(1,4) by (auto simp: deliveries_ok_def)
qed

lemma delivery_step_finished:
  assumes "delivery_step m w w'" "deliveries_ok m w" "d \<in> set (w_deliveries w)" "finished_delivery d"
  shows "d \<in> set (w_deliveries w')"
proof -
  obtain moved added where w': "w_deliveries w' = moved @ added" "rows_change (delivery_moves m)\<^sup>*\<^sup>* (w_deliveries w) moved"
    using delivery_step_moves [OF assms(1)] assms(2) unfolding deliveries_move_def deliveries_ok_def by blast
  obtain i where i: "i < length (w_deliveries w)" "w_deliveries w ! i = d" using assms(3) by (auto simp: in_set_conv_nth)
  then have "(delivery_moves m)\<^sup>*\<^sup>* d (moved ! i)" "i < length moved"
    using w'(2) by (auto simp: rows_change_def list_all2_conv_all_nth)
  then have "moved ! i = d" "i < length moved" using delivery_moves_star_finished assms(4) by auto
  then show ?thesis using w'(1) by (metis UnCI nth_mem set_append)
qed

section \<open>Leases\<close>

text \<open>A claimed delivery whose lease runs is neither claimed nor given up by another claim.\<close>

lemma leased_not_claimed:
  assumes run: "claimWebhookDeliveries input w = Inr (cs, w')" and d: "distinct (map dlv_id (w_deliveries w))"
    and q: "q \<in> set (w_deliveries w)" "dlv_status q = ''CLAIMED''" "dlv_leaseExpiresAt q = Some t"
    and now: "dq_now input = Some now" "now < t"
  shows "dlv_id q \<notin> wd_id ` set cs" "q \<in> set (w_deliveries w')"
proof -
  have "dlv_id q \<notin> wd_id ` set cs \<and> q \<in> set (w_deliveries w')"
    using run d
  proof (cases rule: claimWebhookDeliveries_cases)
    case (1 now' w1 rows)
    have [simp]: "now' = now" using 1(1) now(1) by simp
    have nl: "\<not> lease_over now q" using q(3) now(2) by (simp add: lease_over_def)
    obtain i where i: "i < length (w_deliveries w)" "w_deliveries w ! i = q" using q(1) by (auto simp: in_set_conv_nth)
    have l1: "length (w_deliveries w1) = length (w_deliveries w)" "length (w_deliveries w') = length (w_deliveries w1)"
      using 1(3,6) by (simp_all add: rows_change_def list_all2_lengthD)
    have "exhausted_or_same now (num_val (dq_maxAttempts input)) q (w_deliveries w1 ! i)"
      using 1(3) i by (auto simp: rows_change_def list_all2_conv_all_nth)
    then have q1: "w_deliveries w1 ! i = q" using nl by (auto simp: exhausted_or_same_def expired_final_def)
    have d1: "distinct (map dlv_id (w_deliveries w1))" using rows_change_ids [OF 1(3)] d by simp
    have "dlv_id q \<notin> dlv_id ` set rows"
    proof
      assume "dlv_id q \<in> dlv_id ` set rows"
      then obtain b where b: "b \<in> set rows" "dlv_id b = dlv_id q" by auto
      have "b \<in> set (w_deliveries w1) \<and> claimable_delivery now (num_val (dq_maxAttempts input)) b"
        using b(1) unfolding 1(4) claimable_rows_def by (auto dest!: in_set_takeD)
      moreover have "q \<in> set (w_deliveries w1)" using q1 i l1 by (metis nth_mem)
      ultimately have "b = q" "claimable_delivery now (num_val (dq_maxAttempts input)) b"
        using d1 b(2) by (metis distinct_map inj_onD, simp)
      then show False using nl q(2) by (simp add: claimable_delivery_def)
    qed
    moreover have "wd_id (the (delivery_claim w1 d)) = dlv_id d" if "d \<in> set rows" for d
      using that unfolding 1(4) claimable_rows_def
      by (auto simp: delivery_claim_def dest!: in_set_takeD split: option.splits)
    moreover have "claimed_or_same (dq_owner input) (now' + num_val (dq_leaseSeconds input) * 1000) (dlv_id ` set rows) q (w_deliveries w' ! i)"
      using 1(6) i q1 l1 by (auto simp: rows_change_def list_all2_conv_all_nth)
    ultimately show ?thesis
      using i l1 by (auto simp: 1(5) claimed_or_same_def)
  qed
  then show "dlv_id q \<notin> wd_id ` set cs" "q \<in> set (w_deliveries w')" by blast+
qed

text \<open>What a claim returns: deliveries that were due, now held by the caller.\<close>

lemma claimed_rows:
  assumes run: "claimWebhookDeliveries input w = Inr (cs, w')" and d: "distinct (map dlv_id (w_deliveries w))"
    and now: "dq_now input = Some now" and c: "c \<in> set cs"
  obtains q t where "q \<in> set (w_deliveries w)" "dlv_id q = wd_id c" "claimable_delivery now (num_val (dq_maxAttempts input)) q"
    "wd_attemptCount c = dlv_attemptCount q + 1"
    "claim_delivery_data (dq_owner input) (now + num_val (dq_leaseSeconds input) * 1000) t q \<in> set (w_deliveries w')"
    "\<exists>s \<in> set (w_subscriptions w). sub_id s = dlv_subscriptionId q \<and> sub_status s = ''ACTIVE'' \<and> sub_endpoint s = wd_endpoint c"
    "\<exists>e \<in> set (w_webhooks w). whe_eventId e = dlv_eventId q \<and> whe_rawBody e = wd_rawBody c"
  using run d
proof (cases rule: claimWebhookDeliveries_cases)
  case (1 now' w1 rows)
  have [simp]: "now' = now" using 1(1) now by simp
  let ?m = "num_val (dq_maxAttempts input)"
  obtain q where q: "q \<in> set rows" "c = the (delivery_claim w1 q)" using c 1(5) by auto
  have q1: "q \<in> set (w_deliveries w1)" "claimable_delivery now ?m q" "delivery_claim w1 q \<noteq> None"
    using q(1) unfolding 1(4) claimable_rows_def by (auto dest!: in_set_takeD)
  obtain s e where se: "List.find (\<lambda>s. sub_id s = dlv_subscriptionId q \<and> sub_status s = ''ACTIVE'') (w_subscriptions w1) = Some s"
    "List.find (\<lambda>e. whe_eventId e = dlv_eventId q) (w_webhooks w1) = Some e"
    using q1(3) by (auto simp: delivery_claim_def split: option.splits)
  have cc: "wd_id c = dlv_id q" "wd_attemptCount c = dlv_attemptCount q + 1" "wd_endpoint c = sub_endpoint s" "wd_rawBody c = whe_rawBody e"
    using q(2) se by (simp_all add: delivery_claim_def)
  obtain x where x: "x \<in> set (w_deliveries w)" "dlv_id q = dlv_id x" "exhausted_or_same now ?m x q"
    using rows_change_in [OF 1(3) q1(1)] by auto
  have "x = q" using x(3) q1(2) by (auto simp: exhausted_or_same_def claimable_delivery_def exhaust_delivery_data_def)
  obtain i where i: "i < length (w_deliveries w1)" "w_deliveries w1 ! i = q" using q1(1) by (auto simp: in_set_conv_nth)
  have "claimed_or_same (dq_owner input) (now + num_val (dq_leaseSeconds input) * 1000) (dlv_id ` set rows) q (w_deliveries w' ! i)"
    "i < length (w_deliveries w')"
    using 1(6) i by (auto simp: rows_change_def list_all2_conv_all_nth)
  then obtain t where "claim_delivery_data (dq_owner input) (now + num_val (dq_leaseSeconds input) * 1000) t q \<in> set (w_deliveries w')"
    using q(1) unfolding claimed_or_same_def by (metis image_eqI nth_mem)
  then show thesis
    using that [of q t] x(1) \<open>x = q\<close> q1(2) cc find_SomeD [OF se(1)] find_SomeD [OF se(2)] 1(7,8) by metis
qed

end
