(* ===== verification/Webhook_Properties.thy ===== *)
theory Webhook_Properties
  imports Webhook_Delivery Sample_World
begin

text \<open>
  What the webhook part of the control plane promises: two workers never hold the same delivery, a
  delivery is tried a bounded number of times and stays finished, and an address is judged by what it
  denotes and not by how it is written. Each property is followed by a witness.
\<close>

section \<open>Claims\<close>

text \<open>C26: two claims never share a delivery while the lease of the first one runs: a claim at a time
  before the lease of an earlier claim expires returns none of the deliveries of that claim, and these
  stay claimed by their owner.\<close>

theorem webhook_claims_disjoint:
  assumes "claimWebhookDeliveries first w = Inr (cs, w1)" "claimWebhookDeliveries second w1 = Inr (ds, w2)"
    and "distinct (map dlv_id (w_deliveries w))" "dq_now first = Some t" "dq_now second = Some u"
    and "u < t + num_val (dq_leaseSeconds first) * 1000"
  shows "wd_id ` set cs \<inter> wd_id ` set ds = {} \<and>
    (\<forall>c \<in> set cs. \<exists>d \<in> set (w_deliveries w2). dlv_id d = wd_id c \<and> dlv_status d = ''CLAIMED'' \<and>
       dlv_leaseOwner d = Some (dq_owner first))"
proof -
  have d1: "distinct (map dlv_id (w_deliveries w1))"
    using claim_moves [OF assms(1,3)] by (auto simp: deliveries_move_def)
  have "wd_id c \<notin> wd_id ` set ds \<and> (\<exists>d \<in> set (w_deliveries w2). dlv_id d = wd_id c \<and> dlv_status d = ''CLAIMED'' \<and>
      dlv_leaseOwner d = Some (dq_owner first))" if c: "c \<in> set cs" for c
  proof (rule claimed_rows [OF assms(1,3,4) c])
    fix q s
    let ?d = "claim_delivery_data (dq_owner first) (t + num_val (dq_leaseSeconds first) * 1000) s q"
    assume q: "dlv_id q = wd_id c" and m: "?d \<in> set (w_deliveries w1)"
    have f: "dlv_status ?d = ''CLAIMED''" "dlv_leaseExpiresAt ?d = Some (t + num_val (dq_leaseSeconds first) * 1000)"
      "dlv_leaseOwner ?d = Some (dq_owner first)"
      by (simp_all add: claim_delivery_data_def)
    have "dlv_id ?d \<notin> wd_id ` set ds" "?d \<in> set (w_deliveries w2)"
      using leased_not_claimed [OF assms(2) d1 m f(1,2) assms(5,6)] by auto
    then show ?thesis using q f by (intro conjI bexI [of _ ?d]) simp_all
  qed
  then show ?thesis by blast
qed

definition sample_subscription :: subscription_row where
  "sample_subscription = \<lparr>sub_id = ''s1'', sub_accountId = ''acc'', sub_endpoint = ''https://h.example/x'',
     sub_eventTypesJson = stringify (JArr [JStr ''payment.updated'']), sub_status = ''ACTIVE'', sub_signingKeyRef = ''key'',
     sub_signingKeyVersion = 1, sub_createdAt = 0, sub_archivedAt = None\<rparr>"

definition sample_event :: WebhookEventCreate where
  "sample_event = \<lparr>wc_id = ''we1'', wc_eventId = ''ev1'', wc_accountId = ''acc'', wc_resourceType = ''PAYMENT'',
     wc_resourceId = ''p1'', wc_resourceVersion = 1, wc_eventType = ''payment.updated'', wc_eventVersion = ''1'',
     wc_correlationId = None, wc_rawBody = ''{}''\<rparr>"

definition subscribed_world :: world where
  "subscribed_world = sample_world\<lparr>w_subscriptions := [sample_subscription]\<rparr>"

definition claim_at :: "int \<Rightarrow> string \<Rightarrow> DeliveryClaimInput" where
  "claim_at t owner = \<lparr>dq_limit = IntNum 5, dq_owner = owner, dq_leaseSeconds = IntNum 30, dq_maxAttempts = IntNum 3,
     dq_now = Some t\<rparr>"

definition waiting_world :: world where
  "waiting_world = subscribed_world\<lparr>w_webhooks := [\<lparr>whe_id = ''we1'', whe_eventId = ''ev1'', whe_resourceType = ''PAYMENT'',
       whe_resourceId = ''p1'', whe_resourceVersion = 1, whe_eventType = ''payment.updated'', whe_eventVersion = ''1'',
       whe_correlationId = None, whe_rawBody = ''{}'', whe_createdAt = 100\<rparr>],
     w_deliveries := [new_delivery_row ''d1'' ''ev1'' ''s1'' 100]\<rparr>"

lemma sample_claims:
  "succeeds (claimWebhookDeliveries (claim_at 200 ''a'')) waiting_world (\<lambda>cs w1. map wd_id cs = [''d1''] \<and>
     succeeds (claimWebhookDeliveries (claim_at 300 ''b'')) w1 (\<lambda>ds w2. True))"
  by code_simp

theorem webhook_claims_disjoint_witness:
  "\<exists>cs w1 ds w2. claimWebhookDeliveries (claim_at 200 ''a'') waiting_world = Inr (cs, w1) \<and> map wd_id cs = [''d1''] \<and>
     claimWebhookDeliveries (claim_at 300 ''b'') w1 = Inr (ds, w2) \<and> ''d1'' \<notin> wd_id ` set ds"
proof -
  obtain cs w1 where a: "claimWebhookDeliveries (claim_at 200 ''a'') waiting_world = Inr (cs, w1)" "map wd_id cs = [''d1'']"
    and s: "succeeds (claimWebhookDeliveries (claim_at 300 ''b'')) w1 (\<lambda>ds w2. True)"
    by (rule succeedsE [OF sample_claims]) auto
  obtain ds w2 where b: "claimWebhookDeliveries (claim_at 300 ''b'') w1 = Inr (ds, w2)" by (rule succeedsE [OF s])
  have "distinct (map dlv_id (w_deliveries waiting_world))" by (simp add: waiting_world_def)
  then have "wd_id ` set cs \<inter> wd_id ` set ds = {}"
    using webhook_claims_disjoint [OF a(1) b, of 200 300] by (simp add: claim_at_def)
  moreover have "wd_id ` set cs = {''d1''}" using arg_cong [OF a(2), of set] by simp
  ultimately show ?thesis using a b by auto
qed

section \<open>The life of a delivery\<close>

text \<open>C30: deliveries stay well formed under any sequence of claims, renewals, results, retries, deferrals
  and new events with at most m attempts: the count of attempts stays between zero and m, a lease belongs
  exactly to a claimed delivery, only the five states occur, identifiers are unique, and a delivery that was
  delivered or given up is never changed again.\<close>

theorem webhook_delivery_life:
  assumes "(delivery_step m)\<^sup>*\<^sup>* w w'" "deliveries_ok m w" "0 \<le> m"
  shows "deliveries_ok m w' \<and>
    (\<forall>d \<in> set (w_deliveries w). finished_delivery d \<longrightarrow> d \<in> set (w_deliveries w'))"
  using assms(1)
proof (induction rule: rtranclp_induct)
  case base
  then show ?case using assms(2) by blast
next
  case (step v v')
  then have ok: "deliveries_ok m v" by blast
  have "d \<in> set (w_deliveries v')" if "d \<in> set (w_deliveries w)" "finished_delivery d" for d
    using delivery_step_finished [OF step.hyps(2) ok] step.IH that by blast
  then show ?case using delivery_step_ok [OF step.hyps(2) ok assms(3)] by blast
qed

lemma sample_delivery_life:
  "succeeds (createWebhookEvent sample_event) subscribed_world (\<lambda>v w1.
     succeeds (claimWebhookDeliveries (claim_at 200 ''a'')) w1 (\<lambda>cs w2. length cs = 1))"
  by code_simp

theorem webhook_delivery_life_witness:
  "\<exists>v w1 cs w2. createWebhookEvent sample_event subscribed_world = Inr (v, w1) \<and>
     claimWebhookDeliveries (claim_at 200 ''a'') w1 = Inr (cs, w2) \<and> length cs = 1 \<and> deliveries_ok 3 w2"
proof -
  obtain v w1 where e: "createWebhookEvent sample_event subscribed_world = Inr (v, w1)"
    and s: "succeeds (claimWebhookDeliveries (claim_at 200 ''a'')) w1 (\<lambda>cs w2. length cs = 1)"
    by (rule succeedsE [OF sample_delivery_life])
  obtain cs w2 where c: "claimWebhookDeliveries (claim_at 200 ''a'') w1 = Inr (cs, w2)" "length cs = 1"
    by (rule succeedsE [OF s])
  have "delivery_step 3 subscribed_world w1" by (rule ds_event [OF e])
  moreover have "delivery_step 3 w1 w2" by (rule ds_claim [OF c(1)]) (simp add: claim_at_def)
  ultimately have "(delivery_step 3)\<^sup>*\<^sup>* subscribed_world w2" by (meson converse_rtranclp_into_rtranclp r_into_rtranclp)
  moreover have "deliveries_ok 3 subscribed_world" by (simp add: deliveries_ok_def subscribed_world_def sample_world_def)
  ultimately have "deliveries_ok 3 w2" using webhook_delivery_life by simp
  then show ?thesis using e c by blast
qed

section \<open>Addresses\<close>

text \<open>An IPv4 address and the IPv6 addresses that embed it are judged alike: the dotted address, its
  mapped spelling and its hexadecimal mapped spelling are all accepted or all refused, and they are
  refused exactly when the first two octets lie in a reserved range.\<close>

theorem mapped_address_judged:
  assumes "lower_hextet h" "lower_hextet l"
  defines "plain \<equiv> dotted (high_byte h) (low_byte h) (high_byte l) (low_byte l)"
  shows "assertSafeWebhookAddress (''::ffff:'' @ plain) = assertSafeWebhookAddress plain \<and>
    assertSafeWebhookAddress (''::ffff:'' @ h @ '':'' @ l) = assertSafeWebhookAddress plain \<and>
    (assertSafeWebhookAddress plain = Inr () \<longleftrightarrow> \<not> reserved_octets (high_byte h) (low_byte h))"
proof -
  note b = byte_bounds(1) [OF assms(1)] byte_bounds(2) [of h] byte_bounds(1) [OF assms(2)] byte_bounds(2) [of l]
  have p: "list_all plain_char plain" "list_all plain_char (''::ffff:'' @ plain)" "list_all plain_char (''::ffff:'' @ h @ '':'' @ l)"
    using plain_dotted plain_prefix plain_hextet [OF assms(1)] plain_hextet [OF assms(2)]
    by (simp_all add: plain_def plain_char_def)
  have "isIP plain = 4" using isIPv4_dotted [OF b(1) b(2) b(3) b(4)] by (simp add: isIP_def plain_def)
  then show ?thesis
    using mapped_dotted [OF b(1) b(2) b(3) b(4), folded plain_def] mapped_hex [OF assms(1,2)]
      isPrivate_dotted [OF b(1) b(2) b(3) b(4), folded plain_def]
    unfolding safe_address_plain [OF p(1)] safe_address_plain [OF p(2)] safe_address_plain [OF p(3)]
    by (simp add: throw_if_def)
qed

theorem mapped_address_judged_witness:
  "assertSafeWebhookAddress (''::ffff:'' @ ''7f00'' @ '':'' @ ''1'') \<noteq> Inr ()"
proof -
  have "lower_hextet ''7f00''" "lower_hextet ''1''" by code_simp+
  moreover have "reserved_octets (high_byte ''7f00'') (low_byte ''7f00'')" by code_simp
  ultimately show ?thesis using mapped_address_judged [of "''7f00''" "''1''"] by simp
qed

text \<open>The loopback address written without compression is not recognised as private.\<close>

lemma long_loopback_accepted:
  "assertSafeWebhookAddress ''::1'' \<noteq> Inr ()" "assertSafeWebhookAddress ''0:0:0:0:0:0:0:1'' = Inr ()"
  by code_simp+

end
