(* ===== verification/Account_Administration.thy ===== *)
theory Account_Administration
  imports Approvals
begin

text \<open>
  Accounts, credentials, recovery envelopes and receive requests as the operator's repository
  \<^verbatim>\<open>packages/db/src/v2-admin.ts\<close> keeps them: provisioning an account, issuing, rotating and
  revoking a credential, handing out the envelope that recovers a credential's secret, the life of an
  account and the requests for a payment. A record that the source returns unchanged
  (\<^verbatim>\<open>toAccountRecord\<close>, \<^verbatim>\<open>toRecoveryEnvelope\<close>, \<^verbatim>\<open>toReceiveRequestAdminRecord\<close>) is the row itself.
\<close>

section \<open>Records\<close>

definition parseScopes :: "string \<Rightarrow> string list result" where
  "parseScopes value =
     (case JSON_parse value of
        Some (JArr items) \<Rightarrow>
          (case json_strings items of
             Some scopes \<Rightarrow> Inr scopes
           | None \<Rightarrow> throwInvalidState ''Credential scopes are corrupt'')
      | _ \<Rightarrow> throwInvalidState ''Credential scopes are corrupt'')"

record V2CredentialRecord =
  vc_id :: string
  vc_accountId :: string
  vc_keyPrefix :: string
  vc_status :: AgentCredentialStatus
  vc_scopes :: "string list"
  vc_expiresAt :: "int option"
  vc_rotatedFromId :: "string option"
  vc_rowVersion :: int
  vc_createdAt :: int
  vc_revokedAt :: "int option"

definition toCredentialRecord :: "credential_row \<Rightarrow> V2CredentialRecord tx" where
  "toCredentialRecord c =
     bind_tx (lift_tx (parseScopes (cred_scopes c))) (\<lambda>scopes. return_tx
       \<lparr>vc_id = cred_id c, vc_accountId = cred_accountId c, vc_keyPrefix = cred_keyPrefix c,
        vc_status = cred_status c, vc_scopes = scopes, vc_expiresAt = cred_expiresAt c,
        vc_rotatedFromId = cred_rotatedFromId c, vc_rowVersion = cred_rowVersion c,
        vc_createdAt = cred_createdAt c, vc_revokedAt = cred_revokedAt c\<rparr>)"

section \<open>Shared writes\<close>

definition idempotencyKeyReused :: js_error where
  "idempotencyKeyReused = DomainErr
     (IdempotencyKeyReusedError ''Idempotency key was already used for another request'')"

definition account_conflict :: "account_row \<Rightarrow> account_row \<Rightarrow> bool" where
  "account_conflict r q \<longleftrightarrow> acc_id q = acc_id r \<or> acc_solanaPublicKey q = acc_solanaPublicKey r"

definition credential_conflict :: "credential_row \<Rightarrow> credential_row \<Rightarrow> bool" where
  "credential_conflict r q \<longleftrightarrow> cred_id q = cred_id r \<or> cred_keyHash q = cred_keyHash r"

definition envelope_conflict :: "envelope_row \<Rightarrow> envelope_row \<Rightarrow> bool" where
  "envelope_conflict r q \<longleftrightarrow> env_idempotencyKey q = env_idempotencyKey r"

definition receive_conflict :: "receive_row \<Rightarrow> receive_row \<Rightarrow> bool" where
  "receive_conflict r q \<longleftrightarrow> rcv_id q = rcv_id r \<or>
     (rcv_accountId q = rcv_accountId r \<and> rcv_reference q = rcv_reference r) \<or>
     (rcv_matchedIncomingPaymentId r \<noteq> None \<and> rcv_matchedIncomingPaymentId q = rcv_matchedIncomingPaymentId r)"

record RecoverySecret =
  rs_idempotencyKey :: string
  rs_ciphertext :: string
  rs_nonce :: string
  rs_authTag :: string
  rs_expiresAt :: int

definition envelope_row_of :: "RecoverySecret \<Rightarrow> string \<Rightarrow> string \<Rightarrow> int \<Rightarrow> envelope_row" where
  "envelope_row_of s accountId credentialId now =
     \<lparr>env_idempotencyKey = rs_idempotencyKey s, env_accountId = accountId, env_credentialId = credentialId,
      env_ciphertext = rs_ciphertext s, env_nonce = rs_nonce s, env_authTag = rs_authTag s,
      env_expiresAt = rs_expiresAt s, env_acknowledgedAt = None, env_createdAt = now\<rparr>"

definition create_envelope :: "RecoverySecret \<Rightarrow> string \<Rightarrow> string \<Rightarrow> envelope_row tx" where
  "create_envelope s accountId credentialId =
     bind_tx new_date (\<lambda>now.
     insert_tx ''credential_recovery_envelopes'' w_envelopes w_envelopes_update envelope_conflict
       (envelope_row_of s accountId credentialId now))"

definition create_credential_row :: "CredentialCreate \<Rightarrow> credential_row tx" where
  "create_credential_row input =
     bind_tx new_date (\<lambda>now.
     insert_tx ''api_credentials'' w_credentials w_credentials_update credential_conflict
       (credential_row_of input now))"

definition remember_request ::
    "string \<Rightarrow> string \<Rightarrow> string \<Rightarrow> string \<Rightarrow> string \<Rightarrow> string \<Rightarrow> string \<Rightarrow> int option \<Rightarrow> unit tx" where
  "remember_request owner operation key requestHash fingerprint resourceId snapshot expiresAt =
     bind_tx (createId ''idem'') (\<lambda>i.
     bind_tx new_date (\<lambda>now.
     bind_tx (insert_tx ''idempotency_records'' w_idempotency w_idempotency_update idempotency_conflict
       \<lparr>idem_id = i, idem_ownerAccountId = owner, idem_operation = operation, idem_key = key,
        idem_requestHash = requestHash, idem_fingerprint = Some fingerprint, idem_resourceId = resourceId,
        idem_responseSnapshot = Some snapshot, idem_expiresAt = expiresAt,
        idem_createdAt = now, idem_updatedAt = now\<rparr>) (\<lambda>_.
     return_tx ())))"

definition owned_request :: "string \<Rightarrow> string \<Rightarrow> string \<Rightarrow> idempotency_row \<Rightarrow> bool" where
  "owned_request owner operation key r \<longleftrightarrow>
     idem_ownerAccountId r = owner \<and> idem_operation r = operation \<and> idem_key r = key"

definition json_scopes :: "string list \<Rightarrow> json" where
  "json_scopes scopes = JArr (map JStr scopes)"

section \<open>Provisioning an account\<close>

record ProvisionInput =
  pv_requestHash :: string
  pv_accountId :: string
  pv_name :: string
  pv_solanaPublicKey :: string
  pv_encryptedSolanaSecret :: string
  pv_encryptionNonce :: string
  pv_encryptionAuthTag :: string
  pv_credentialId :: string
  pv_keyHash :: string
  pv_keyPrefix :: string
  pv_scopes :: "string list"
  pv_recovery :: RecoverySecret
  pv_receiveRequestId :: "string option"
  pv_receiveReference :: "string option"

text \<open>The idempotency key of the request is also the key of the envelope.\<close>

abbreviation pv_idempotencyKey :: "ProvisionInput \<Rightarrow> string" where
  "pv_idempotencyKey input \<equiv> rs_idempotencyKey (pv_recovery input)"

record V2ProvisionedAccount =
  pa_account :: account_row
  pa_credential :: V2CredentialRecord
  pa_recoveryEnvelope :: envelope_row
  pa_created :: bool

definition provisioned_request :: "string \<Rightarrow> idempotency_row \<Rightarrow> bool" where
  "provisioned_request key r \<longleftrightarrow> idem_operation r = ''ACCOUNT_PROVISION'' \<and> idem_key r = key"

definition first_by :: "('r \<Rightarrow> 'k::linorder) \<Rightarrow> 'r list \<Rightarrow> 'r option" where
  "first_by key rows = (case sort_key key rows of [] \<Rightarrow> None | r # _ \<Rightarrow> Some r)"

definition replay_provisioning :: "ProvisionInput \<Rightarrow> idempotency_row \<Rightarrow> V2ProvisionedAccount tx" where
  "replay_provisioning input existing =
     bind_tx (throw_if_tx (idem_requestHash existing \<noteq> pv_requestHash input) idempotencyConflict) (\<lambda>_.
     bind_tx (find_or_throw_tx ''agent_accounts'' w_accounts (\<lambda>a. acc_id a = idem_resourceId existing)) (\<lambda>account.
     bind_tx (find_or_throw_tx ''api_credentials'' w_credentials (\<lambda>c. cred_accountId c = acc_id account \<and>
        cred_id c = (case idem_responseSnapshot existing of None \<Rightarrow> '''' | Some i \<Rightarrow> i))) (\<lambda>credential.
     bind_tx (find_tx w_envelopes (\<lambda>e. env_idempotencyKey e = pv_idempotencyKey input)) (\<lambda>envelope.
     case envelope of
       None \<Rightarrow> throw_tx (DomainErr (InvalidStateError ''Credential recovery envelope is unavailable''))
     | Some e \<Rightarrow>
         bind_tx (toCredentialRecord credential) (\<lambda>c. return_tx
           \<lparr>pa_account = account, pa_credential = c, pa_recoveryEnvelope = e, pa_created = False\<rparr>)))))"

definition provisioned_account_row :: "ProvisionInput \<Rightarrow> int \<Rightarrow> account_row" where
  "provisioned_account_row input now =
     \<lparr>acc_id = pv_accountId input, acc_name = pv_name input, acc_status = AA_PROVISIONING,
      acc_solanaPublicKey = pv_solanaPublicKey input,
      acc_encryptedSolanaSecret = pv_encryptedSolanaSecret input,
      acc_encryptionNonce = pv_encryptionNonce input, acc_encryptionAuthTag = pv_encryptionAuthTag input,
      acc_workspaceId = None, acc_runtimeVersion = None, acc_provisioningFailureCode = None,
      acc_disabledAt = None, acc_disabledReason = None, acc_rowVersion = 1, acc_createdAt = now,
      acc_updatedAt = now\<rparr>"

definition create_account_row :: "ProvisionInput \<Rightarrow> account_row tx" where
  "create_account_row input =
     bind_tx new_date (\<lambda>now.
     insert_tx ''agent_accounts'' w_accounts w_accounts_update account_conflict (provisioned_account_row input now))"

definition provisioned_credential :: "ProvisionInput \<Rightarrow> CredentialCreate" where
  "provisioned_credential input =
     \<lparr>cc_id = pv_credentialId input, cc_accountId = pv_accountId input, cc_keyHash = pv_keyHash input,
      cc_keyPrefix = pv_keyPrefix input, cc_scopes = pv_scopes input, cc_expiresAt = None, cc_rotatedFromId = None\<rparr>"

definition receive_row_of ::
    "string \<Rightarrow> string \<Rightarrow> int option \<Rightarrow> string option \<Rightarrow> int option \<Rightarrow> string \<Rightarrow> string \<Rightarrow> int option \<Rightarrow> int \<Rightarrow> int \<Rightarrow>
     receive_row" where
  "receive_row_of i accountId amount denominationId scale currency reference expiresAt createdAt now =
     \<lparr>rcv_id = i, rcv_accountId = accountId, rcv_amountAtomic = amount, rcv_denominationId = denominationId,
      rcv_amountScale = scale, rcv_currency = currency, rcv_reference = reference, rcv_status = RR_OPEN,
      rcv_createdAt = createdAt, rcv_updatedAt = now, rcv_expiresAt = expiresAt, rcv_paidAt = None,
      rcv_matchedIncomingPaymentId = None\<rparr>"

definition create_first_receive :: "ProvisionInput \<Rightarrow> unit tx" where
  "create_first_receive input =
     (case (pv_receiveRequestId input, pv_receiveReference input) of
        (Some i, Some reference) \<Rightarrow>
          bind_tx new_date (\<lambda>now.
          bind_tx (insert_tx ''receive_requests'' w_receives w_receives_update receive_conflict
             (receive_row_of i (pv_accountId input) None None None ''USD'' reference None now now)) (\<lambda>_.
          return_tx ()))
      | _ \<Rightarrow> return_tx ())"

definition announce_provisioning :: "ProvisionInput \<Rightarrow> account_row \<Rightarrow> credential_row \<Rightarrow> unit tx" where
  "announce_provisioning input account credential =
     bind_tx (control_event (Some (acc_id account)) ''ACCOUNT'' (acc_id account) ''ACCOUNT_CREATED'' ''SYSTEM'' None None
        ''V2_ACCOUNT_PROVISIONING'' (Some (acc_createdAt account)) None
        (Some [(''status'', JStr (account_status_name (acc_status account)))])) (\<lambda>_.
     bind_tx (control_event (Some (acc_id account)) ''CREDENTIAL'' (cred_id credential) ''CREDENTIAL_CREATED'' ''SYSTEM''
        None None ''V2_ACCOUNT_PROVISIONING'' (Some (cred_createdAt credential)) None
        (Some [(''status'', JStr (credential_status_name (cred_status credential))),
          (''scopes'', json_scopes (pv_scopes input))])) (\<lambda>_.
     bind_tx (admin_webhook (acc_id account) ''ACCOUNT'' (acc_id account) (acc_rowVersion account) ''account.created''
        [(''id'', JStr (acc_id account)), (''name'', JStr (acc_name account)),
         (''status'', JStr (account_status_name (acc_status account)))]) (\<lambda>_.
     admin_webhook (acc_id account) ''CREDENTIAL'' (cred_id credential) (cred_rowVersion credential)
       ''credential.created''
       [(''id'', JStr (cred_id credential)), (''account_id'', JStr (cred_accountId credential)),
        (''status'', JStr (credential_status_name (cred_status credential))),
        (''scopes'', json_scopes (pv_scopes input))])))"

definition provision_new :: "ProvisionInput \<Rightarrow> V2ProvisionedAccount tx" where
  "provision_new input =
     bind_tx (create_account_row input) (\<lambda>account.
     bind_tx (create_credential_row (provisioned_credential input)) (\<lambda>credential.
     bind_tx (create_envelope (pv_recovery input) (pv_accountId input) (pv_credentialId input)) (\<lambda>envelope.
     bind_tx (create_first_receive input) (\<lambda>_.
     bind_tx (announce_provisioning input account credential) (\<lambda>_.
     bind_tx (remember_request (pv_accountId input) ''ACCOUNT_PROVISION'' (pv_idempotencyKey input)
        (pv_requestHash input) (pv_requestHash input) (acc_id account) (cred_id credential)
        (Some (rs_expiresAt (pv_recovery input)))) (\<lambda>_.
     bind_tx (toCredentialRecord credential) (\<lambda>c. return_tx
       \<lparr>pa_account = account, pa_credential = c, pa_recoveryEnvelope = envelope, pa_created = True\<rparr>)))))))"

definition provisionAccount :: "ProvisionInput \<Rightarrow> V2ProvisionedAccount tx" where
  "provisionAccount input =
     bind_tx (gets_tx (\<lambda>w. first_by (\<lambda>r. OrderKey (idem_createdAt r) (idem_id r))
        (filter (provisioned_request (pv_idempotencyKey input)) (w_idempotency w)))) (\<lambda>existing.
     case existing of
       Some r \<Rightarrow> replay_provisioning input r
     | None \<Rightarrow> provision_new input)"

text \<open>Without an order the database may return any of the matching rows; the model takes the first.\<close>

definition findProvisioningReplay :: "string \<Rightarrow> string \<Rightarrow> (string \<times> string) option tx" where
  "findProvisioningReplay key requestHash =
     bind_tx (find_tx w_idempotency (provisioned_request key)) (\<lambda>found.
     case found of
       None \<Rightarrow> return_tx None
     | Some r \<Rightarrow>
         (case idem_responseSnapshot r of
            None \<Rightarrow> return_tx None
          | Some credentialId \<Rightarrow>
              bind_tx (throw_if_tx (idem_requestHash r \<noteq> requestHash) idempotencyConflict) (\<lambda>_.
              return_tx (Some (idem_resourceId r, credentialId)))))"

section \<open>Issuing a credential\<close>

record CredentialIssue =
  is_accountId :: string
  is_idempotencyKey :: string
  is_requestHash :: string
  is_fingerprint :: string
  is_credentialId :: string
  is_keyHash :: string
  is_keyPrefix :: string
  is_scopes :: "string list"
  is_expiresAt :: "int option"
  is_recovery :: RecoverySecret
  is_actorId :: string

definition replay_credential :: "CredentialIssue \<Rightarrow> idempotency_row \<Rightarrow> (V2CredentialRecord \<times> bool) tx" where
  "replay_credential input existing =
     bind_tx (throw_if_tx (idem_requestHash existing \<noteq> is_requestHash input \<or>
        idem_fingerprint existing \<noteq> Some (is_fingerprint input)) idempotencyKeyReused) (\<lambda>_.
     bind_tx (find_tx w_credentials (\<lambda>c. cred_id c = idem_resourceId existing)) (\<lambda>found.
     case found of
       None \<Rightarrow> throw_tx (DomainErr (InvalidStateError ''Credential idempotency resource is unavailable''))
     | Some c \<Rightarrow>
         bind_tx (throw_if_tx (cred_accountId c \<noteq> is_accountId input)
           (DomainErr (InvalidStateError ''Credential idempotency resource is unavailable''))) (\<lambda>_.
         bind_tx (toCredentialRecord c) (\<lambda>r. return_tx (r, False)))))"

definition issued_credential :: "CredentialIssue \<Rightarrow> CredentialCreate" where
  "issued_credential input =
     \<lparr>cc_id = is_credentialId input, cc_accountId = is_accountId input, cc_keyHash = is_keyHash input,
      cc_keyPrefix = is_keyPrefix input, cc_scopes = is_scopes input, cc_expiresAt = is_expiresAt input,
      cc_rotatedFromId = None\<rparr>"

definition issue_credential :: "CredentialIssue \<Rightarrow> (V2CredentialRecord \<times> bool) tx" where
  "issue_credential input =
     bind_tx (create_credential_row (issued_credential input)) (\<lambda>credential.
     bind_tx (create_envelope (is_recovery input) (is_accountId input) (cred_id credential)) (\<lambda>_.
     bind_tx new_date (\<lambda>now.
     bind_tx (control_event (Some (is_accountId input)) ''CREDENTIAL'' (cred_id credential) ''CREDENTIAL_CREATED''
        ''OPERATOR'' (Some (is_actorId input)) None ''V2_CREDENTIAL_ISSUANCE'' (Some now) None
        (Some [(''account_id'', JStr (cred_accountId credential)),
          (''status'', JStr (credential_status_name (cred_status credential))),
          (''scopes'', json_scopes (is_scopes input)), (''expires_at'', json_date_opt (cred_expiresAt credential))])) (\<lambda>_.
     bind_tx (admin_webhook (cred_accountId credential) ''CREDENTIAL'' (cred_id credential) (cred_rowVersion credential)
        ''credential.created''
        [(''id'', JStr (cred_id credential)), (''account_id'', JStr (cred_accountId credential)),
         (''status'', JStr (credential_status_name (cred_status credential))),
         (''scopes'', json_scopes (is_scopes input)), (''expires_at'', json_date_opt (cred_expiresAt credential))]) (\<lambda>_.
     bind_tx (remember_request (is_accountId input) ''V2_CREDENTIAL_CREATE'' (is_idempotencyKey input)
        (is_requestHash input) (is_fingerprint input) (cred_id credential)
        (stringify (JObj [(''credential_id'', JStr (cred_id credential))]))
        (Some (rs_expiresAt (is_recovery input)))) (\<lambda>_.
     bind_tx (toCredentialRecord credential) (\<lambda>r. return_tx (r, True))))))))"

definition createCredential :: "CredentialIssue \<Rightarrow> (V2CredentialRecord \<times> bool) tx" where
  "createCredential input =
     bind_tx (find_tx w_accounts (\<lambda>a. acc_id a = is_accountId input)) (\<lambda>account.
     case account of
       None \<Rightarrow> throw_tx (DomainErr (NotFoundError ''Agent account was not found''))
     | Some a \<Rightarrow>
         bind_tx (find_tx w_idempotency (owned_request (is_accountId input) ''V2_CREDENTIAL_CREATE''
           (is_idempotencyKey input))) (\<lambda>existing.
         case existing of
           Some r \<Rightarrow> replay_credential input r
         | None \<Rightarrow>
             bind_tx (throw_if_tx (acc_status a \<noteq> AA_ACTIVE)
               (DomainErr (InvalidStateError ''Agent account is not active''))) (\<lambda>_.
             issue_credential input)))"

definition findCredentialIdempotency :: "string \<Rightarrow> string \<Rightarrow> (string \<times> string \<times> V2CredentialRecord) option tx" where
  "findCredentialIdempotency accountId key =
     bind_tx (find_tx w_idempotency (owned_request accountId ''V2_CREDENTIAL_CREATE'' key)) (\<lambda>found.
     case found of
       None \<Rightarrow> return_tx None
     | Some r \<Rightarrow>
         bind_tx (find_tx w_credentials (\<lambda>c. cred_id c = idem_resourceId r)) (\<lambda>credential.
         case credential of
           None \<Rightarrow> throw_tx (DomainErr (InvalidStateError ''Credential idempotency resource is unavailable''))
         | Some c \<Rightarrow>
             bind_tx (throw_if_tx (cred_accountId c \<noteq> accountId)
               (DomainErr (InvalidStateError ''Credential idempotency resource is unavailable''))) (\<lambda>_.
             bind_tx (toCredentialRecord c) (\<lambda>v. return_tx (Some (idem_requestHash r,
               (case idem_fingerprint r of None \<Rightarrow> idem_requestHash r | Some f \<Rightarrow> f), v))))))"

section \<open>Recovering the secret of a credential\<close>

definition recovery_event :: "string \<Rightarrow> envelope_row \<Rightarrow> string \<Rightarrow> string \<Rightarrow> unit tx" where
  "recovery_event accountId e eventType actorType =
     bind_tx new_date (\<lambda>now.
     control_event (Some accountId) ''CREDENTIAL_RECOVERY_ENVELOPE'' (env_credentialId e) eventType actorType None None
       ''V2_CREDENTIAL_RECOVERY'' (Some now) None
       (Some [(''credential_id'', JStr (env_credentialId e)), (''recovery_available'', JBool False)]))"

definition consumeRecoveryEnvelope :: "string \<Rightarrow> string \<Rightarrow> int option \<Rightarrow> envelope_row option tx" where
  "consumeRecoveryEnvelope accountId key at =
     bind_tx (now_or_clock at) (\<lambda>now.
     bind_tx (find_tx w_envelopes (\<lambda>e. env_idempotencyKey e = key)) (\<lambda>found.
     case found of
       None \<Rightarrow> return_tx None
     | Some e \<Rightarrow>
         if env_accountId e \<noteq> accountId then return_tx None
         else if env_expiresAt e \<le> now \<or> env_acknowledgedAt e \<noteq> None then
           bind_tx (delete_many_tx w_envelopes w_envelopes_update (\<lambda>q. env_idempotencyKey q = key)) (\<lambda>_.
           return_tx None)
         else
           bind_tx (delete_many_tx w_envelopes w_envelopes_update
              (\<lambda>q. env_idempotencyKey q = key \<and> env_acknowledgedAt q = None)) (\<lambda>count.
           if count \<noteq> 1 then return_tx None
           else
             bind_tx (recovery_event accountId e ''CREDENTIAL_RECOVERY_CONSUMED'' ''SYSTEM'') (\<lambda>_.
             return_tx (Some e)))))"

definition acknowledgeRecoveryEnvelope :: "string \<Rightarrow> string \<Rightarrow> unit tx" where
  "acknowledgeRecoveryEnvelope accountId key =
     bind_tx (find_tx w_envelopes (\<lambda>e. env_idempotencyKey e = key)) (\<lambda>found.
     case found of
       None \<Rightarrow> return_tx ()
     | Some e \<Rightarrow>
         if env_accountId e \<noteq> accountId then return_tx ()
         else
           bind_tx (delete_many_tx w_envelopes w_envelopes_update
              (\<lambda>q. env_accountId q = accountId \<and> env_idempotencyKey q = key)) (\<lambda>count.
           if count \<noteq> 1 then return_tx ()
           else recovery_event accountId e ''CREDENTIAL_RECOVERY_ACKNOWLEDGED'' ''OPERATOR''))"

section \<open>Accounts\<close>

definition findAccount :: "string \<Rightarrow> account_row option tx" where
  "findAccount accountId = find_tx w_accounts (\<lambda>a. acc_id a = accountId)"

definition listCredentials :: "string \<Rightarrow> V2CredentialRecord list tx" where
  "listCredentials accountId =
     bind_tx (gets_tx (\<lambda>w. sort_key (\<lambda>c. OrderKey (cred_createdAt c) (cred_id c))
       (filter (\<lambda>c. cred_accountId c = accountId) (w_credentials w)))) (\<lambda>credentials.
     map_tx toCredentialRecord credentials)"

definition account_update_data :: "AccountTransition \<Rightarrow> int \<Rightarrow> int \<Rightarrow> account_row \<Rightarrow> account_row" where
  "account_update_data input disabledAt now a =
     (let b = a\<lparr>acc_status := at_nextStatus input, acc_rowVersion := acc_rowVersion a + 1, acc_updatedAt := now\<rparr>
      in case at_nextStatus input of
           AA_DISABLED \<Rightarrow> b\<lparr>acc_disabledAt := Some disabledAt, acc_disabledReason := at_reason input\<rparr>
         | AA_ACTIVE \<Rightarrow> b\<lparr>acc_disabledAt := None, acc_disabledReason := None, acc_provisioningFailureCode := None\<rparr>
         | AA_PROVISIONING_FAILED \<Rightarrow> b\<lparr>acc_provisioningFailureCode :=
             Some (case at_reason input of None \<Rightarrow> ''PROVISIONING_FAILED'' | Some r \<Rightarrow> r)\<rparr>
         | AA_PROVISIONING \<Rightarrow> b)"

definition write_transition :: "AccountTransition \<Rightarrow> unit tx" where
  "write_transition input =
     bind_tx (if at_nextStatus input = AA_DISABLED then new_date else return_tx 0) (\<lambda>disabledAt.
     bind_tx new_date (\<lambda>now.
     bind_tx (update_many_tx w_accounts w_accounts_update (matches_account input)
        (account_update_data input disabledAt now)) (\<lambda>count.
     throw_if_tx (count \<noteq> 1) (DomainErr (ConflictError ''Account lifecycle changed concurrently'')))))"

definition transition_event :: "AccountTransition \<Rightarrow> string option \<Rightarrow> unit tx" where
  "transition_event input actorId =
     bind_tx new_date (\<lambda>occurredAt.
     control_event (Some (at_accountId input)) ''ACCOUNT'' (at_accountId input)
       (''ACCOUNT_'' @ account_status_name (at_nextStatus input)) ''OPERATOR''
       (Some (case actorId of None \<Rightarrow> at_accountId input | Some i \<Rightarrow> i)) None ''V2_ACCOUNT_LIFECYCLE''
       (Some occurredAt) (Some [(''status'', JStr (account_status_name (at_currentStatus input)))])
       (Some [(''status'', JStr (account_status_name (at_nextStatus input))),
         (''reason'', json_opt (at_reason input))]))"

definition transition_webhook :: "AccountTransition \<Rightarrow> account_row \<Rightarrow> unit tx" where
  "transition_webhook input updated =
     admin_webhook (acc_id updated) ''ACCOUNT'' (acc_id updated) (acc_rowVersion updated) ''account.updated''
       [(''id'', JStr (acc_id updated)), (''name'', JStr (acc_name updated)),
        (''status'', JStr (account_status_name (acc_status updated))), (''reason'', json_opt (at_reason input))]"

definition transitionAccount_admin :: "AccountTransition \<Rightarrow> string option \<Rightarrow> account_row tx" where
  "transitionAccount_admin input actorId =
     bind_tx (lift_tx (assertAgentAccountTransition (at_currentStatus input) (at_nextStatus input))) (\<lambda>_.
     bind_tx (find_tx w_accounts (\<lambda>a. acc_id a = at_accountId input)) (\<lambda>current.
     case current of
       None \<Rightarrow> throw_tx (DomainErr (NotFoundError ''Agent account was not found''))
     | Some c \<Rightarrow>
         bind_tx (throw_if_tx (acc_status c \<noteq> at_currentStatus input \<or> acc_rowVersion c \<noteq> at_rowVersion input)
           (DomainErr (ConflictError ''Account lifecycle changed concurrently''))) (\<lambda>_.
         bind_tx (write_transition input) (\<lambda>_.
         bind_tx (transition_event input actorId) (\<lambda>_.
         bind_tx (find_or_throw_tx ''agent_accounts'' w_accounts (\<lambda>a. acc_id a = at_accountId input)) (\<lambda>updated.
         bind_tx (transition_webhook input updated) (\<lambda>_.
         return_tx updated)))))))"

section \<open>Rotating and revoking a credential\<close>

record CredentialRotation =
  cr_accountId :: string
  cr_oldCredentialId :: string
  cr_newCredentialId :: string
  cr_keyHash :: string
  cr_keyPrefix :: string
  cr_scopes :: "string list"
  cr_expiresAt :: "int option"
  cr_recovery :: RecoverySecret
  cr_actorId :: "string option"

definition credentialNotFound :: js_error where
  "credentialNotFound = DomainErr (NotFoundError ''Credential was not found or already revoked'')"

definition rotatable :: "CredentialRotation \<Rightarrow> credential_row \<Rightarrow> bool" where
  "rotatable input c \<longleftrightarrow> cred_id c = cr_oldCredentialId input \<and> cred_accountId c = cr_accountId input"

definition rotated_credential :: "CredentialRotation \<Rightarrow> string \<Rightarrow> CredentialCreate" where
  "rotated_credential input old =
     \<lparr>cc_id = cr_newCredentialId input, cc_accountId = cr_accountId input, cc_keyHash = cr_keyHash input,
      cc_keyPrefix = cr_keyPrefix input, cc_scopes = cr_scopes input, cc_expiresAt = cr_expiresAt input,
      cc_rotatedFromId = Some old\<rparr>"

definition still_active :: "string \<Rightarrow> string \<Rightarrow> credential_row \<Rightarrow> bool" where
  "still_active accountId i c \<longleftrightarrow> cred_id c = i \<and> cred_accountId c = accountId \<and>
     cred_status c = AC_ACTIVE \<and> cred_revokedAt c = None"

definition revoke_rotated :: "CredentialRotation \<Rightarrow> credential_row \<Rightarrow> credential_row tx" where
  "revoke_rotated input old =
     bind_tx new_date (\<lambda>now.
     bind_tx (update_many_tx w_credentials w_credentials_update (still_active (cr_accountId input) (cred_id old))
        (revoke_credential_data now)) (\<lambda>count.
     bind_tx (throw_if_tx (count \<noteq> 1) credentialNotFound) (\<lambda>_.
     find_or_throw_tx ''api_credentials'' w_credentials (\<lambda>c. cred_id c = cred_id old))))"

definition revoked_webhook :: "string \<Rightarrow> credential_row \<Rightarrow> unit tx" where
  "revoked_webhook accountId c =
     admin_webhook accountId ''CREDENTIAL'' (cred_id c) (cred_rowVersion c) ''credential.revoked''
       [(''id'', JStr (cred_id c)), (''account_id'', JStr (cred_accountId c)),
        (''status'', JStr (credential_status_name (cred_status c)))]"

definition announce_rotated_out :: "CredentialRotation \<Rightarrow> credential_row \<Rightarrow> credential_row \<Rightarrow> unit tx" where
  "announce_rotated_out input old revoked =
     bind_tx (control_event (Some (cr_accountId input)) ''CREDENTIAL'' (cred_id revoked) ''CREDENTIAL_REVOKED'' ''OPERATOR''
        (cr_actorId input) None ''V2_CREDENTIAL_ROTATION'' (cred_revokedAt revoked)
        (Some [(''status'', JStr (credential_status_name (cred_status old)))])
        (Some [(''status'', JStr (credential_status_name (cred_status revoked)))])) (\<lambda>_.
     revoked_webhook (cred_accountId revoked) revoked)"

text \<open>\<^verbatim>\<open>upsert\<close> with an empty update: an envelope with this key stays as it is.\<close>

definition upsert_envelope :: "RecoverySecret \<Rightarrow> string \<Rightarrow> string \<Rightarrow> unit tx" where
  "upsert_envelope s accountId credentialId =
     bind_tx (find_tx w_envelopes (\<lambda>e. env_idempotencyKey e = rs_idempotencyKey s)) (\<lambda>found.
     case found of
       Some _ \<Rightarrow> return_tx ()
     | None \<Rightarrow> bind_tx (create_envelope s accountId credentialId) (\<lambda>_. return_tx ()))"

definition announce_rotated_in :: "CredentialRotation \<Rightarrow> credential_row \<Rightarrow> credential_row \<Rightarrow> unit tx" where
  "announce_rotated_in input old new =
     bind_tx (admin_webhook (cred_accountId new) ''CREDENTIAL'' (cred_id new) (cred_rowVersion new) ''credential.rotated''
        [(''id'', JStr (cred_id new)), (''account_id'', JStr (cred_accountId new)),
         (''status'', JStr (credential_status_name (cred_status new))), (''scopes'', json_scopes (cr_scopes input)),
         (''rotated_from_id'', JStr (cred_id old))]) (\<lambda>_.
     control_event (Some (cr_accountId input)) ''CREDENTIAL'' (cred_id new) ''CREDENTIAL_ROTATED'' ''OPERATOR''
       (cr_actorId input) None ''V2_CREDENTIAL_ROTATION'' (Some (cred_createdAt new)) None
       (Some [(''status'', JStr (credential_status_name (cred_status new))), (''scopes'', json_scopes (cr_scopes input)),
         (''rotated_from_id'', JStr (cred_id old))]))"

definition rotateCredential :: "CredentialRotation \<Rightarrow> V2CredentialRecord tx" where
  "rotateCredential input =
     bind_tx (find_tx w_credentials (rotatable input)) (\<lambda>found.
     case found of
       None \<Rightarrow> throw_tx credentialNotFound
     | Some old \<Rightarrow>
         bind_tx (throw_if_tx (cred_status old = AC_REVOKED) credentialNotFound) (\<lambda>_.
         bind_tx (create_credential_row (rotated_credential input (cred_id old))) (\<lambda>new.
         bind_tx (revoke_rotated input old) (\<lambda>revoked.
         bind_tx (announce_rotated_out input old revoked) (\<lambda>_.
         bind_tx (upsert_envelope (cr_recovery input) (cr_accountId input) (cred_id new)) (\<lambda>_.
         bind_tx (announce_rotated_in input old new) (\<lambda>_.
         toCredentialRecord new)))))))"

definition revokeCredential :: "string \<Rightarrow> string \<Rightarrow> string option \<Rightarrow> unit tx" where
  "revokeCredential accountId credentialId actorId =
     bind_tx new_date (\<lambda>now.
     bind_tx (update_many_tx w_credentials w_credentials_update (unrevoked accountId credentialId)
        (revoke_credential_data now)) (\<lambda>count.
     bind_tx (throw_if_tx (count \<noteq> 1) credentialNotFound) (\<lambda>_.
     bind_tx (find_or_throw_tx ''api_credentials'' w_credentials (\<lambda>c. cred_id c = credentialId)) (\<lambda>credential.
     bind_tx (control_event (Some accountId) ''CREDENTIAL'' (cred_id credential) ''CREDENTIAL_REVOKED'' ''OPERATOR''
        actorId None ''V2_CREDENTIAL_LIFECYCLE'' (cred_revokedAt credential) (Some [(''status'', JStr ''ACTIVE'')])
        (Some [(''status'', JStr (credential_status_name (cred_status credential)))])) (\<lambda>_.
     revoked_webhook accountId credential)))))"

section \<open>Receive requests\<close>

record ReceiveCreate =
  rq_id :: string
  rq_accountId :: string
  rq_idempotencyKey :: string
  rq_requestHash :: string
  rq_amountAtomic :: "int option"
  rq_denominationId :: "string option"
  rq_amountScale :: "int option"
  rq_currency :: string
  rq_reference :: string
  rq_createdAt :: int
  rq_expiresAt :: "int option"

definition receive_status_name :: "ReceiveRequestStatus \<Rightarrow> string" where
  "receive_status_name s = (case s of RR_OPEN \<Rightarrow> ''OPEN'' | RR_PAID \<Rightarrow> ''PAID'' | RR_EXPIRED \<Rightarrow> ''EXPIRED''
     | RR_CANCELLED \<Rightarrow> ''CANCELLED'')"

definition create_receive :: "ReceiveCreate \<Rightarrow> receive_row tx" where
  "create_receive input =
     bind_tx new_date (\<lambda>now.
     insert_tx ''receive_requests'' w_receives w_receives_update receive_conflict
       (receive_row_of (rq_id input) (rq_accountId input) (rq_amountAtomic input) (rq_denominationId input)
         (rq_amountScale input) (rq_currency input) (rq_reference input) (rq_expiresAt input) (rq_createdAt input) now))"

definition announce_receive :: "receive_row \<Rightarrow> unit tx" where
  "announce_receive r = admin_webhook (rcv_accountId r) ''RECEIVE_REQUEST'' (rcv_id r) 1 ''receive_request.created''
     [(''id'', JStr (rcv_id r)), (''account_id'', JStr (rcv_accountId r)),
      (''amount_atomic'', json_opt (map_option int_to_string (rcv_amountAtomic r))),
      (''denomination_id'', json_opt (rcv_denominationId r)), (''reference'', JStr (rcv_reference r)),
      (''status'', JStr (receive_status_name (rcv_status r))), (''expires_at'', json_date_opt (rcv_expiresAt r))]"

definition createReceiveRequestIdempotent :: "ReceiveCreate \<Rightarrow> receive_row tx" where
  "createReceiveRequestIdempotent input =
     bind_tx (find_tx w_idempotency (owned_request (rq_accountId input) ''V2_RECEIVE_REQUEST''
        (rq_idempotencyKey input))) (\<lambda>existing.
     case existing of
       Some r \<Rightarrow>
         bind_tx (throw_if_tx (idem_requestHash r \<noteq> rq_requestHash input) idempotencyConflict) (\<lambda>_.
         find_or_throw_tx ''receive_requests'' w_receives (\<lambda>q. rcv_id q = idem_resourceId r))
     | None \<Rightarrow>
         bind_tx (create_receive input) (\<lambda>request.
         bind_tx (announce_receive request) (\<lambda>_.
         bind_tx (remember_request (rq_accountId input) ''V2_RECEIVE_REQUEST'' (rq_idempotencyKey input)
            (rq_requestHash input) (rq_requestHash input) (rcv_id request)
            (stringify (JObj [(''receive_request_id'', JStr (rcv_id request))])) None) (\<lambda>_.
         return_tx request))))"

section \<open>What the operations write\<close>

lemma control_outputs [simp]: "outputs_frame w_control" "outputs_frame w_idempotency" "outputs_frame w_policies"
  "outputs_frame w_envelopes" "outputs_frame w_receives"
  by (simp_all add: outputs_frame_def)

interpretation credentials: keyed_table w_credentials w_credentials_update cred_id
  by unfold_locales simp

interpretation envelopes: keyed_table w_envelopes w_envelopes_update env_idempotencyKey
  by unfold_locales simp

lemma parse_stored_scopes: "parseScopes (stringify (JArr (map JStr scopes))) = Inr scopes"
  unfolding parseScopes_def parse_stringify_strings by simp

lemma toCredentialRecord_Inr:
  "toCredentialRecord c w = Inr (r, w') \<Longrightarrow> w' = w \<and> toCredentialRecord c v = Inr (r, v)"
  by (auto simp: toCredentialRecord_def bind_tx_def lift_tx_def return_tx_def split: sum.splits)

lemma toCredentialRecord_issued:
  "toCredentialRecord (credential_row_of input now) w = Inr (r, w') \<Longrightarrow>
     vc_scopes r = cc_scopes input \<and> vc_id r = cc_id input \<and> vc_status r = AC_ACTIVE \<and>
     vc_rotatedFromId r = cc_rotatedFromId input \<and> vc_expiresAt r = cc_expiresAt input \<and>
     vc_accountId r = cc_accountId input"
  using parse_stored_scopes [of "cc_scopes input"]
  by (auto simp: toCredentialRecord_def credential_row_of_def tx_simps)

lemma create_first_receive_Inr:
  "create_first_receive input w = Inr (u, w') \<Longrightarrow> w_accounts w' = w_accounts w \<and> w_credentials w' = w_credentials w \<and>
     w_envelopes w' = w_envelopes w \<and> w_idempotency w' = w_idempotency w"
  by (auto simp: create_first_receive_def tx_simps split: option.splits)

lemma announce_provisioning_preserves: "outputs_frame g \<Longrightarrow> preserves g (announce_provisioning input a c)"
  unfolding announce_provisioning_def by (intro frame_intros; simp)

definition provisioned_rows :: "ProvisionInput \<Rightarrow> account_row \<Rightarrow> credential_row \<Rightarrow> envelope_row \<Rightarrow> idempotency_row \<Rightarrow> bool" where
  "provisioned_rows input a c e i \<longleftrightarrow> acc_id a = pv_accountId input \<and> acc_status a = AA_PROVISIONING \<and>
     cred_id c = pv_credentialId input \<and> cred_accountId c = pv_accountId input \<and>
     (\<exists>now. c = credential_row_of (provisioned_credential input) now) \<and>
     env_idempotencyKey e = pv_idempotencyKey input \<and> env_credentialId e = pv_credentialId input \<and>
     provisioned_request (pv_idempotencyKey input) i \<and> idem_requestHash i = pv_requestHash input \<and>
     idem_resourceId i = acc_id a \<and> idem_responseSnapshot i = Some (cred_id c)"

lemma provision_new_Inr:
  assumes run: "provision_new input w = Inr (r, w')"
  obtains c i where "w_accounts w' = w_accounts w @ [pa_account r]" "\<not> list_ex (account_conflict (pa_account r)) (w_accounts w)"
    "w_credentials w' = w_credentials w @ [c]" "\<not> list_ex (credential_conflict c) (w_credentials w)"
    "w_envelopes w' = w_envelopes w @ [pa_recoveryEnvelope r]"
    "\<not> list_ex (envelope_conflict (pa_recoveryEnvelope r)) (w_envelopes w)"
    "w_idempotency w' = w_idempotency w @ [i]" "provisioned_rows input (pa_account r) c (pa_recoveryEnvelope r) i"
    "pa_created r" "\<And>v. toCredentialRecord c v = Inr (pa_credential r, v)"
proof -
  obtain a w1 c w2 e w3 w4 w5 w6 v
    where s: "create_account_row input w = Inr (a, w1)" "create_credential_row (provisioned_credential input) w1 = Inr (c, w2)"
      "create_envelope (pv_recovery input) (pv_accountId input) (pv_credentialId input) w2 = Inr (e, w3)"
      "create_first_receive input w3 = Inr ((), w4)" "announce_provisioning input a c w4 = Inr ((), w5)"
      "remember_request (pv_accountId input) ''ACCOUNT_PROVISION'' (pv_idempotencyKey input)
        (pv_requestHash input) (pv_requestHash input) (acc_id a) (cred_id c) (Some (rs_expiresAt (pv_recovery input))) w5 = Inr ((), w6)"
      "toCredentialRecord c w6 = Inr (v, w')"
      "r = \<lparr>pa_account = a, pa_credential = v, pa_recoveryEnvelope = e, pa_created = True\<rparr>"
    using run unfolding provision_new_def bind_tx_Inr_iff return_tx_def by auto
  note an = preservesD [OF announce_provisioning_preserves s(5)]
  note rec = create_first_receive_Inr [OF s(4)]
  have w': "w' = w6" using toCredentialRecord_Inr [OF s(7)] by blast
  obtain i where i: "w_idempotency w6 = w_idempotency w5 @ [i]" "provisioned_request (pv_idempotencyKey input) i"
      "idem_requestHash i = pv_requestHash input" "idem_resourceId i = acc_id a" "idem_responseSnapshot i = Some (cred_id c)"
    and k: "w_accounts w6 = w_accounts w5" "w_credentials w6 = w_credentials w5" "w_envelopes w6 = w_envelopes w5"
    using s(6) by (auto simp: remember_request_def createId_def tx_simps provisioned_request_def)
  obtain now where a: "a = provisioned_account_row input now" "\<not> list_ex (account_conflict a) (w_accounts w)"
      "w_accounts w1 = w_accounts w @ [a]" "w_credentials w1 = w_credentials w" "w_envelopes w1 = w_envelopes w"
      "w_idempotency w1 = w_idempotency w"
    using s(1) by (auto simp: create_account_row_def tx_simps)
  obtain now' where c: "c = credential_row_of (provisioned_credential input) now'"
      "\<not> list_ex (credential_conflict c) (w_credentials w1)" "w_credentials w2 = w_credentials w1 @ [c]"
      "w_accounts w2 = w_accounts w1" "w_envelopes w2 = w_envelopes w1" "w_idempotency w2 = w_idempotency w1"
    using s(2) by (auto simp: create_credential_row_def tx_simps)
  have e: "env_idempotencyKey e = pv_idempotencyKey input" "env_credentialId e = pv_credentialId input"
      "\<not> list_ex (envelope_conflict e) (w_envelopes w2)"
      "w_envelopes w3 = w_envelopes w2 @ [e]" "w_accounts w3 = w_accounts w2" "w_credentials w3 = w_credentials w2"
      "w_idempotency w3 = w_idempotency w2"
    using s(3) by (auto simp: create_envelope_def envelope_row_of_def tx_simps)
  show thesis
    by (rule that [of c i]; insert a c e i k an [of w_accounts] an [of w_credentials] an [of w_envelopes] an [of w_idempotency] rec
        toCredentialRecord_Inr [OF s(7)])
      (auto simp: s(8) w' provisioned_rows_def provisioned_account_row_def credential_row_of_def provisioned_credential_def)
qed

lemma first_by_single: "filter P rows = [r] \<Longrightarrow> first_by key (filter P rows) = Some r"
  by (simp add: first_by_def)

lemma first_by_None: "first_by key rows = None \<longleftrightarrow> rows = []"
  by (auto simp: first_by_def split: list.splits)

lemma find_appended: "\<not> list_ex P rows \<Longrightarrow> P r \<Longrightarrow> List.find P (rows @ [r]) = Some r"
  by (auto simp: find_append list_ex_iff find_None_iff split: option.splits dest: find_SomeD)

lemma replay_provisioning_created: "replay_provisioning input i w = Inr (r, w') \<Longrightarrow> \<not> pa_created r"
  by (auto simp: replay_provisioning_def tx_simps split: option.splits)

text \<open>A new provisioning is found again under its key: the same request is answered from it, another
  request with the key is refused.\<close>

lemma provisioned_found:
  assumes run: "provisionAccount input w = Inr (r, w')" and new: "pa_created r"
  obtains c i where "provision_new input w = Inr (r, w')" "provisioned_rows input (pa_account r) c (pa_recoveryEnvelope r) i"
    "filter (provisioned_request (pv_idempotencyKey input)) (w_idempotency w') = [i]"
    "List.find (\<lambda>a. acc_id a = pv_accountId input) (w_accounts w') = Some (pa_account r)"
    "List.find (\<lambda>q. cred_accountId q = pv_accountId input \<and> cred_id q = pv_credentialId input) (w_credentials w') = Some c"
    "List.find (\<lambda>e. env_idempotencyKey e = pv_idempotencyKey input) (w_envelopes w') = Some (pa_recoveryEnvelope r)"
    "\<And>v. toCredentialRecord c v = Inr (pa_credential r, v)"
proof -
  have none: "filter (provisioned_request (pv_idempotencyKey input)) (w_idempotency w) = []" and p: "provision_new input w = Inr (r, w')"
    using run new replay_provisioning_created
    by (auto simp: provisionAccount_def tx_simps first_by_None split: option.splits)
  obtain c i where x: "w_accounts w' = w_accounts w @ [pa_account r]" "\<not> list_ex (account_conflict (pa_account r)) (w_accounts w)"
    "w_credentials w' = w_credentials w @ [c]" "\<not> list_ex (credential_conflict c) (w_credentials w)"
    "w_envelopes w' = w_envelopes w @ [pa_recoveryEnvelope r]"
    "\<not> list_ex (envelope_conflict (pa_recoveryEnvelope r)) (w_envelopes w)"
    "w_idempotency w' = w_idempotency w @ [i]" "provisioned_rows input (pa_account r) c (pa_recoveryEnvelope r) i"
    "pa_created r" "\<And>v. toCredentialRecord c v = Inr (pa_credential r, v)"
    by (rule provision_new_Inr [OF p]) blast
  note ids = x(8) [unfolded provisioned_rows_def]
  show thesis
  proof (rule that [of c i])
    show "filter (provisioned_request (pv_idempotencyKey input)) (w_idempotency w') = [i]" using none x(7) ids by simp
    show "List.find (\<lambda>a. acc_id a = pv_accountId input) (w_accounts w') = Some (pa_account r)"
      unfolding x(1) by (rule find_appended) (use x(2) ids in \<open>auto simp: list_ex_iff account_conflict_def\<close>)
    show "List.find (\<lambda>q. cred_accountId q = pv_accountId input \<and> cred_id q = pv_credentialId input) (w_credentials w') = Some c"
      unfolding x(3) by (rule find_appended) (use x(4) ids in \<open>auto simp: list_ex_iff credential_conflict_def\<close>)
    show "List.find (\<lambda>e. env_idempotencyKey e = pv_idempotencyKey input) (w_envelopes w') = Some (pa_recoveryEnvelope r)"
      unfolding x(5) by (rule find_appended) (use x(6) ids in \<open>auto simp: list_ex_iff envelope_conflict_def\<close>)
  qed (use p x in blast)+
qed

lemma provisioning_replayed:
  assumes run: "provisionAccount input w = Inr (r, w')" and new: "pa_created r"
  shows "provisionAccount input w' = Inr (r\<lparr>pa_created := False\<rparr>, w')"
    "pv_requestHash other \<noteq> pv_requestHash input \<Longrightarrow> pv_idempotencyKey other = pv_idempotencyKey input \<Longrightarrow>
       provisionAccount other w' = Inl idempotencyConflict"
proof -
  obtain c i where x: "provisioned_rows input (pa_account r) c (pa_recoveryEnvelope r) i"
    "filter (provisioned_request (pv_idempotencyKey input)) (w_idempotency w') = [i]"
    "List.find (\<lambda>a. acc_id a = pv_accountId input) (w_accounts w') = Some (pa_account r)"
    "List.find (\<lambda>q. cred_accountId q = pv_accountId input \<and> cred_id q = pv_credentialId input) (w_credentials w') = Some c"
    "List.find (\<lambda>e. env_idempotencyKey e = pv_idempotencyKey input) (w_envelopes w') = Some (pa_recoveryEnvelope r)"
    "\<And>v. toCredentialRecord c v = Inr (pa_credential r, v)"
    by (rule provisioned_found [OF assms]) blast
  note ids = x(1) [unfolded provisioned_rows_def]
  have replay: "provisionAccount p w' = replay_provisioning p i w'" if "pv_idempotencyKey p = pv_idempotencyKey input" for p
    using first_by_single [OF x(2), of "\<lambda>r. OrderKey (idem_createdAt r) (idem_id r)"] that by (simp add: provisionAccount_def bind_tx_def gets_tx_def)
  show "provisionAccount input w' = Inr (r\<lparr>pa_created := False\<rparr>, w')"
    using x(3,4,5,6) ids by (simp add: replay replay_provisioning_def bind_tx_def throw_if_tx_def return_tx_def
      find_or_throw_tx_def find_tx_def gets_tx_def)
  show "pv_requestHash other \<noteq> pv_requestHash input \<Longrightarrow> pv_idempotencyKey other = pv_idempotencyKey input \<Longrightarrow>
       provisionAccount other w' = Inl idempotencyConflict"
    using ids by (simp add: replay replay_provisioning_def bind_tx_def throw_if_tx_def throw_tx_def)
qed

section \<open>A credential that is rotated out\<close>

lemma revoke_rotated_Inr:
  assumes "revoke_rotated input old w = Inr (c, w')"
  obtains now where "length (filter (still_active (cr_accountId input) (cred_id old)) (w_credentials w)) = 1"
    "w_credentials w' = update_rows (still_active (cr_accountId input) (cred_id old)) (revoke_credential_data now) (w_credentials w)"
    "w_control w' = w_control w"
  using assms by (auto simp: revoke_rotated_def tx_simps)

lemma upsert_envelope_Inr:
  assumes "upsert_envelope s accountId i w = Inr (u, w')"
  shows "w_credentials w' = w_credentials w"
  using assms by (auto simp: upsert_envelope_def create_envelope_def tx_simps split: option.splits)

lemma rotated_preserves: "outputs_frame g \<Longrightarrow> preserves g (announce_rotated_out input old c)"
  "outputs_frame g \<Longrightarrow> preserves g (announce_rotated_in input old c)"
  unfolding announce_rotated_out_def announce_rotated_in_def revoked_webhook_def by (intro frame_intros; simp)+

text \<open>The credential is replaced in one step: the old row is revoked, the new one is appended, all
  others are as they were.\<close>

lemma rotateCredential_rows:
  assumes run: "rotateCredential input w = Inr (r, w')"
  obtains old now now' where "old \<in> set (w_credentials w)" "rotatable input old"
    "w_credentials w' = update_rows (still_active (cr_accountId input) (cr_oldCredentialId input)) (revoke_credential_data now)
       (w_credentials w @ [credential_row_of (rotated_credential input (cr_oldCredentialId input)) now'])"
    "\<not> list_ex (credential_conflict (credential_row_of (rotated_credential input (cr_oldCredentialId input)) now')) (w_credentials w)"
    "\<forall>v. toCredentialRecord (credential_row_of (rotated_credential input (cr_oldCredentialId input)) now') v = Inr (r, v)"
    "length (filter (still_active (cr_accountId input) (cr_oldCredentialId input))
       (w_credentials w @ [credential_row_of (rotated_credential input (cr_oldCredentialId input)) now'])) = 1"
proof -
  obtain old new w1 c w2 w3 w4 w5
    where f: "List.find (rotatable input) (w_credentials w) = Some old" "cred_status old \<noteq> AC_REVOKED"
      and s: "create_credential_row (rotated_credential input (cred_id old)) w = Inr (new, w1)"
      "revoke_rotated input old w1 = Inr (c, w2)" "announce_rotated_out input old c w2 = Inr ((), w3)"
      "upsert_envelope (cr_recovery input) (cr_accountId input) (cred_id new) w3 = Inr ((), w4)"
      "announce_rotated_in input old new w4 = Inr ((), w5)" "toCredentialRecord new w5 = Inr (r, w')"
    using run unfolding rotateCredential_def by (auto simp: bind_tx_Inr_iff find_tx_apply throw_if_tx_Inr_iff throw_tx_def split: option.splits)
  have old: "old \<in> set (w_credentials w)" "rotatable input old" "cred_id old = cr_oldCredentialId input"
    using find_SomeD [OF f(1)] by (auto simp: rotatable_def)
  obtain now' where n: "new = credential_row_of (rotated_credential input (cred_id old)) now'"
    "\<not> list_ex (credential_conflict new) (w_credentials w)" "w_credentials w1 = w_credentials w @ [new]"
    using s(1) by (auto simp: create_credential_row_def tx_simps)
  obtain now where u: "length (filter (still_active (cr_accountId input) (cred_id old)) (w_credentials w1)) = 1"
    "w_credentials w2 = update_rows (still_active (cr_accountId input) (cred_id old)) (revoke_credential_data now) (w_credentials w1)"
    by (rule revoke_rotated_Inr [OF s(2)])
  have "w_credentials w' = w_credentials w2"
    using preservesD [OF rotated_preserves(1) s(3), of w_credentials] preservesD [OF rotated_preserves(2) s(5), of w_credentials]
      upsert_envelope_Inr [OF s(4)] toCredentialRecord_Inr [OF s(6)] by simp
  then show thesis
    using that [OF old(1,2), of now now'] u n toCredentialRecord_Inr [OF s(6)] by (simp add: old(3))
qed

lemma rotateCredential_settles:
  assumes run: "rotateCredential input w = Inr (r, w')" and d: "distinct (map cred_id (w_credentials w))"
  shows "\<forall>c \<in> set (w_credentials w'). cred_id c = cr_oldCredentialId input \<longrightarrow> cred_status c = AC_REVOKED"
    "\<forall>c \<in> set (w_credentials w). cred_id c \<noteq> cr_oldCredentialId input \<longrightarrow> c \<in> set (w_credentials w')"
    "vc_id r = cr_newCredentialId input \<and> vc_scopes r = cr_scopes input \<and> vc_status r = AC_ACTIVE \<and>
     vc_rotatedFromId r = Some (cr_oldCredentialId input) \<and> vc_expiresAt r = cr_expiresAt input"
    "\<exists>c \<in> set (w_credentials w'). cred_id c = cr_newCredentialId input \<and> cred_status c = AC_ACTIVE \<and> toCredentialRecord c w' = Inr (r, w')"
    "distinct (map cred_id (w_credentials w'))"
proof -
  obtain old now now' where x: "old \<in> set (w_credentials w)" "rotatable input old"
    "w_credentials w' = update_rows (still_active (cr_accountId input) (cr_oldCredentialId input)) (revoke_credential_data now)
       (w_credentials w @ [credential_row_of (rotated_credential input (cr_oldCredentialId input)) now'])"
    "\<not> list_ex (credential_conflict (credential_row_of (rotated_credential input (cr_oldCredentialId input)) now')) (w_credentials w)"
    "\<forall>v. toCredentialRecord (credential_row_of (rotated_credential input (cr_oldCredentialId input)) now') v = Inr (r, v)"
    "length (filter (still_active (cr_accountId input) (cr_oldCredentialId input))
       (w_credentials w @ [credential_row_of (rotated_credential input (cr_oldCredentialId input)) now'])) = 1"
    by (rule rotateCredential_rows [OF run])
  let ?n = "credential_row_of (rotated_credential input (cr_oldCredentialId input)) now'"
  let ?P = "still_active (cr_accountId input) (cr_oldCredentialId input)"
  have nid: "cred_id ?n = cr_newCredentialId input" "cred_status ?n = AC_ACTIVE"
    by (simp_all add: credential_row_of_def rotated_credential_def)
  have fresh: "cr_newCredentialId input \<notin> cred_id ` set (w_credentials w)"
    using x(4) by (auto simp: list_ex_iff credential_conflict_def nid)
  have oldid: "cred_id old = cr_oldCredentialId input" using x(2) by (simp add: rotatable_def)
  have ne: "cr_newCredentialId input \<noteq> cr_oldCredentialId input" using fresh x(1) oldid by (metis imageI)
  have nP: "\<not> ?P ?n" using ne by (simp add: still_active_def nid)
  show "\<forall>c \<in> set (w_credentials w). cred_id c \<noteq> cr_oldCredentialId input \<longrightarrow> c \<in> set (w_credentials w')"
    unfolding x(3) by (auto simp: set_update_rows still_active_def intro!: bexI)
  show "\<exists>c \<in> set (w_credentials w'). cred_id c = cr_newCredentialId input \<and> cred_status c = AC_ACTIVE \<and> toCredentialRecord c w' = Inr (r, w')"
    using nP x(5) nid unfolding x(3) by (intro bexI [of _ ?n]) (auto simp: set_update_rows)
  show "vc_id r = cr_newCredentialId input \<and> vc_scopes r = cr_scopes input \<and> vc_status r = AC_ACTIVE \<and>
     vc_rotatedFromId r = Some (cr_oldCredentialId input) \<and> vc_expiresAt r = cr_expiresAt input"
    using toCredentialRecord_issued [OF x(5) [rule_format]] by (simp add: rotated_credential_def)
  show "distinct (map cred_id (w_credentials w'))"
    using d fresh unfolding x(3) by (subst map_update_rows) (auto simp: revoke_credential_data_def nid)
  obtain q where q: "q \<in> set (w_credentials w)" "?P q" using filter_length_oneD [OF x(6)] nP by auto
  have old_P: "?P c" if "c \<in> set (w_credentials w @ [?n])" "cred_id c = cr_oldCredentialId input" for c
  proof -
    have "c \<in> set (w_credentials w)" using that ne nid by auto
    then have "c = q" using credentials.same_key [OF d _ q(1)] q(2) that(2) by (simp add: still_active_def)
    then show ?thesis using q(2) by simp
  qed
  show "\<forall>c \<in> set (w_credentials w'). cred_id c = cr_oldCredentialId input \<longrightarrow> cred_status c = AC_REVOKED"
  proof (intro ballI impI)
    fix c assume c: "c \<in> set (w_credentials w')" "cred_id c = cr_oldCredentialId input"
    then obtain b where b: "b \<in> set (w_credentials w @ [?n])" "c = (if ?P b then revoke_credential_data now b else b)"
      unfolding x(3) set_update_rows by blast
    show "cred_status c = AC_REVOKED"
    proof (cases "?P b")
      case True
      then show ?thesis using b(2) by (simp add: revoke_credential_data_def)
    next
      case False
      then show ?thesis using b c(2) old_P [OF b(1)] by simp
    qed
  qed
qed

section \<open>An envelope that is consumed\<close>

lemma recovery_event_control: "preserves w_control (recovery_event a e t u)"
  unfolding recovery_event_def by (intro frame_intros; simp)

lemma consumeRecovery_Some:
  assumes run: "consumeRecoveryEnvelope accountId key at w = Inr (Some e, w')"
    and d: "distinct (map env_idempotencyKey (w_envelopes w))"
  obtains now where "at = None \<or> at = Some now" "e \<in> set (w_envelopes w)" "env_idempotencyKey e = key"
    "env_accountId e = accountId" "now < env_expiresAt e" "env_acknowledgedAt e = None"
    "w_envelopes w' = filter (\<lambda>q. env_idempotencyKey q \<noteq> key) (w_envelopes w)"
proof -
  obtain now w1 where n: "now_or_clock at w = Inr (now, w1)"
    using run unfolding consumeRecoveryEnvelope_def bind_tx_Inr_iff by blast
  let ?del = "w_envelopes_update (filter (\<lambda>q. \<not> (env_idempotencyKey q = key \<and> env_acknowledgedAt q = None)))"
  note body = run [unfolded consumeRecoveryEnvelope_def bind_tx_step(1) [where m = "now_or_clock at", OF n]]
  have f: "List.find (\<lambda>q. env_idempotencyKey q = key) (w_envelopes w1) = Some e" "env_accountId e = accountId"
      "\<not> env_expiresAt e \<le> now" "env_acknowledgedAt e = None"
    and ev: "recovery_event accountId e ''CREDENTIAL_RECOVERY_CONSUMED'' ''SYSTEM'' (?del w1) = Inr ((), w')"
    using body by (auto simp: bind_tx_Inr_iff find_tx_apply delete_many_tx_apply return_tx_apply split: option.split_asm if_split_asm)
  have w1: "w_envelopes w1 = w_envelopes w" "at = None \<or> at = Some now"
    using n by (cases at; auto simp: now_or_clock_def tx_simps)+
  have e: "e \<in> set (w_envelopes w)" "env_idempotencyKey e = key" using find_SomeD [OF f(1)] w1 by auto
  have "filter (\<lambda>q. \<not> (env_idempotencyKey q = key \<and> env_acknowledgedAt q = None)) (w_envelopes w) =
      filter (\<lambda>q. env_idempotencyKey q \<noteq> key) (w_envelopes w)"
    by (rule filter_cong [OF refl]) (metis envelopes.same_key [OF d _ e(1)] e(2) f(4))
  then have "w_envelopes w' = filter (\<lambda>q. env_idempotencyKey q \<noteq> key) (w_envelopes w)"
    using preservesD [OF recovery_event_control ev] w1 by simp
  then show thesis using that e f w1 by (simp add: not_le)
qed

lemma consumeRecovery_gone:
  assumes "key \<notin> env_idempotencyKey ` set (w_envelopes w)"
  shows "\<exists>w'. consumeRecoveryEnvelope accountId key at w = Inr (None, w') \<and> w_envelopes w' = w_envelopes w"
proof -
  have "List.find (\<lambda>q. env_idempotencyKey q = key) (w_envelopes w) = None"
    using assms by (auto simp: find_None_iff)
  then show ?thesis
    by (cases at) (simp_all add: consumeRecoveryEnvelope_def now_or_clock_def bind_tx_def new_date_def return_tx_def find_tx_def gets_tx_def)
qed

section \<open>The life of an account\<close>

lemma write_transition_Inr:
  "write_transition input w = Inr (u, w') \<Longrightarrow>
     \<exists>t t'. w_accounts w' = update_rows (matches_account input) (account_update_data input t t') (w_accounts w)"
  by (cases "at_nextStatus input = AA_DISABLED") (auto simp: write_transition_def tx_simps)

lemma transition_outputs: "preserves w_accounts (transition_event input actorId)"
  "preserves w_accounts (transition_webhook input a)"
  unfolding transition_event_def transition_webhook_def by (intro frame_intros; simp)+

lemma account_update_data_id [simp]: "acc_id (account_update_data input t t' a) = acc_id a"
  "acc_status (account_update_data input t t' a) = at_nextStatus input"
  "acc_rowVersion (account_update_data input t t' a) = acc_rowVersion a + 1"
  by (simp_all add: account_update_data_def Let_def split: AgentAccountLifecycleStatus.splits)

lemma transitionAccount_admin_Inr:
  assumes run: "transitionAccount_admin input actorId w = Inr (r, w')" and d: "distinct (map acc_id (w_accounts w))"
  obtains t t' a where "a \<in> set (w_accounts w)" "matches_account input a"
    "assertAgentAccountTransition (at_currentStatus input) (at_nextStatus input) = Inr ()"
    "w_accounts w' = update_rows (matches_account input) (account_update_data input t t') (w_accounts w)"
    "r = account_update_data input t t' a" "distinct (map acc_id (w_accounts w'))"
proof -
  obtain c w1 w2 where c: "List.find (\<lambda>a. acc_id a = at_accountId input) (w_accounts w) = Some c"
      "acc_status c = at_currentStatus input" "acc_rowVersion c = at_rowVersion input"
    and t: "assertAgentAccountTransition (at_currentStatus input) (at_nextStatus input) = Inr ()"
    and s: "write_transition input w = Inr ((), w1)" "transition_event input actorId w1 = Inr ((), w2)"
      "List.find (\<lambda>a. acc_id a = at_accountId input) (w_accounts w2) = Some r" "transition_webhook input r w2 = Inr ((), w')"
    using run unfolding transitionAccount_admin_def
    by (auto simp: bind_tx_Inr_iff lift_tx_Inr_iff find_tx_apply throw_if_tx_Inr_iff throw_tx_apply find_or_throw_tx_Inr_iff
        return_tx_apply split: option.split_asm)
  have m: "c \<in> set (w_accounts w)" "matches_account input c"
    using find_SomeD [OF c(1)] c by (auto simp: matches_account_def)
  obtain t1 t2 where w1: "w_accounts w1 = update_rows (matches_account input) (account_update_data input t1 t2) (w_accounts w)"
    using write_transition_Inr [OF s(1)] by blast
  have w2: "w_accounts w2 = w_accounts w1" "w_accounts w' = w_accounts w1"
    using preservesD [OF transition_outputs(1) s(2)] preservesD [OF transition_outputs(2) s(4)] by auto
  let ?c = "account_update_data input t1 t2 c"
  have d1: "distinct (map acc_id (w_accounts w1))" using d by (simp add: w1 map_update_rows)
  have "?c \<in> set (w_accounts w1)" using m by (auto simp: w1 set_update_rows)
  then have "List.find (\<lambda>a. acc_id a = acc_id ?c) (w_accounts w1) = Some ?c" by (rule accounts.find_unique [OF d1])
  then have "r = ?c" using s(3) m(2) w2 by (simp add: matches_account_def)
  then show thesis using that m t w1 w2 d1 by simp
qed

end
