(* ===== verification/Policy_Administration.thy ===== *)
theory Policy_Administration
  imports Account_Administration
begin

text \<open>
  Spend policies, approved destinations, funding destinations and the list of approvals as the
  operator's repository \<^verbatim>\<open>packages/db/src/v2-admin.ts\<close> keeps them. A policy is written once as a
  draft and activated, or it replaces the active one; the policy that was active before is retired
  in the same transaction.
\<close>

section \<open>Spend policies\<close>

record PolicyCreate =
  pn_id :: string
  pn_accountId :: string
  pn_denominationId :: string
  pn_maxPerPaymentAtomic :: "int option"
  pn_rollingBudgetAtomic :: "int option"
  pn_rollingWindowSeconds :: "int option"
  pn_transactionCountCap :: "int option"
  pn_approvalThresholdAtomic :: "int option"
  pn_rollingBudgetEscalatable :: bool
  pn_transactionCountEscalatable :: bool
  pn_rulesJson :: string

definition policy_conflict :: "policy_row \<Rightarrow> policy_row \<Rightarrow> bool" where
  "policy_conflict r q \<longleftrightarrow> pol_id q = pol_id r \<or> (pol_accountId q = pol_accountId r \<and> pol_version q = pol_version r)"

definition policy_row_of :: "PolicyCreate \<Rightarrow> int \<Rightarrow> string \<Rightarrow> int option \<Rightarrow> int \<Rightarrow> policy_row" where
  "policy_row_of input version status activatedAt now =
     \<lparr>pol_id = pn_id input, pol_accountId = pn_accountId input, pol_version = version, pol_status = status,
      pol_denominationId = pn_denominationId input, pol_maxPerPaymentAtomic = pn_maxPerPaymentAtomic input,
      pol_rollingBudgetAtomic = pn_rollingBudgetAtomic input, pol_rollingWindowSeconds = pn_rollingWindowSeconds input,
      pol_transactionCountCap = pn_transactionCountCap input,
      pol_approvalThresholdAtomic = pn_approvalThresholdAtomic input,
      pol_rollingBudgetEscalatable = pn_rollingBudgetEscalatable input,
      pol_transactionCountEscalatable = pn_transactionCountEscalatable input, pol_rulesJson = pn_rulesJson input,
      pol_createdAt = now, pol_activatedAt = activatedAt, pol_retiredAt = None\<rparr>"

definition create_policy :: "PolicyCreate \<Rightarrow> int \<Rightarrow> string \<Rightarrow> int option \<Rightarrow> policy_row tx" where
  "create_policy input version status activatedAt =
     bind_tx new_date (\<lambda>now.
     insert_tx ''spend_policies'' w_policies w_policies_update policy_conflict
       (policy_row_of input version status activatedAt now))"

definition next_policy_version :: "string \<Rightarrow> world \<Rightarrow> int" where
  "next_policy_version accountId w =
     (case latest pol_version (filter (\<lambda>p. pol_accountId p = accountId) (w_policies w)) of
        None \<Rightarrow> 0 | Some p \<Rightarrow> pol_version p) + 1"

definition listSpendPolicies :: "string \<Rightarrow> policy_row list tx" where
  "listSpendPolicies accountId =
     gets_tx (\<lambda>w. sort_key (\<lambda>p. - pol_version p) (filter (\<lambda>p. pol_accountId p = accountId) (w_policies w)))"

definition policy_resource :: "policy_row \<Rightarrow> (string \<times> json) list" where
  "policy_resource p = [(''id'', JStr (pol_id p)), (''account_id'', JStr (pol_accountId p)),
     (''version'', json_int (pol_version p)), (''status'', JStr (pol_status p)),
     (''denomination_id'', JStr (pol_denominationId p))]"

definition createSpendPolicy :: "PolicyCreate \<Rightarrow> string option \<Rightarrow> policy_row tx" where
  "createSpendPolicy input actorId =
     bind_tx (lockAgentAccount (pn_accountId input)) (\<lambda>_.
     bind_tx (gets_tx (next_policy_version (pn_accountId input))) (\<lambda>version.
     bind_tx (create_policy input version ''DRAFT'' None) (\<lambda>created.
     bind_tx (control_event (Some (pol_accountId created)) ''SPEND_POLICY'' (pol_id created) ''SPEND_POLICY_CREATED''
        ''OPERATOR'' actorId None ''V2_POLICY_ADMIN'' (Some (pol_createdAt created)) None
        (Some [(''version'', json_int (pol_version created)), (''status'', JStr (pol_status created)),
          (''denomination_id'', JStr (pol_denominationId created))])) (\<lambda>_.
     bind_tx (admin_webhook (pol_accountId created) ''SPEND_POLICY'' (pol_id created) (pol_version created)
        ''policy.created'' (policy_resource created)) (\<lambda>_.
     return_tx created)))))"

definition active_of :: "string \<Rightarrow> policy_row \<Rightarrow> bool" where
  "active_of accountId p \<longleftrightarrow> pol_accountId p = accountId \<and> pol_status p = ''ACTIVE''"

definition retire_data :: "int \<Rightarrow> policy_row \<Rightarrow> policy_row" where
  "retire_data now p = p\<lparr>pol_status := ''RETIRED'', pol_retiredAt := Some now\<rparr>"

definition retire_active :: "string \<Rightarrow> int \<Rightarrow> unit tx" where
  "retire_active accountId now =
     bind_tx (update_many_tx w_policies w_policies_update (active_of accountId) (retire_data now)) (\<lambda>_.
     return_tx ())"

definition json_version :: "policy_row option \<Rightarrow> json" where
  "json_version p = (case p of None \<Rightarrow> JNull | Some q \<Rightarrow> json_int (pol_version q))"

definition check_expected_version :: "policy_row option \<Rightarrow> int option \<Rightarrow> unit tx" where
  "check_expected_version active expected =
     bind_tx (throw_if_tx (active \<noteq> None \<and> expected = None)
       (DomainErr (ConflictError ''Spend policy version is required for replacement''))) (\<lambda>_.
     throw_if_tx (case expected of None \<Rightarrow> False
         | Some v \<Rightarrow> (case active of None \<Rightarrow> 0 | Some p \<Rightarrow> pol_version p) \<noteq> v)
       (DomainErr (ConflictError ''Spend policy version changed concurrently'')))"

definition announce_replacement :: "PolicyCreate \<Rightarrow> string \<Rightarrow> policy_row option \<Rightarrow> int \<Rightarrow> policy_row \<Rightarrow> unit tx" where
  "announce_replacement input actorId active now created =
     bind_tx (control_event (Some (pn_accountId input)) ''SPEND_POLICY'' (pol_id created) ''SPEND_POLICY_REPLACED''
        ''OPERATOR'' (Some actorId) None ''V2_POLICY_ADMIN'' (Some now) None
        (Some [(''version'', json_int (pol_version created)), (''previous_version'', json_version active)])) (\<lambda>_.
     admin_webhook (pol_accountId created) ''SPEND_POLICY'' (pol_id created) (pol_version created) ''policy.updated''
       (policy_resource created @ [(''previous_version'', json_version active)]))"

definition replaceSpendPolicy :: "PolicyCreate \<Rightarrow> int option \<Rightarrow> string \<Rightarrow> policy_row tx" where
  "replaceSpendPolicy input expectedVersion actorId =
     bind_tx new_date (\<lambda>now.
     bind_tx (lockAgentAccount (pn_accountId input)) (\<lambda>_.
     bind_tx (gets_tx (\<lambda>w. latest pol_version (filter (active_of (pn_accountId input)) (w_policies w)))) (\<lambda>active.
     bind_tx (check_expected_version active expectedVersion) (\<lambda>_.
     bind_tx (gets_tx (next_policy_version (pn_accountId input))) (\<lambda>version.
     bind_tx (retire_active (pn_accountId input) now) (\<lambda>_.
     bind_tx (create_policy input version ''ACTIVE'' (Some now)) (\<lambda>created.
     bind_tx (announce_replacement input actorId active now created) (\<lambda>_.
     return_tx created))))))))"

definition find_draft :: "string \<Rightarrow> string \<Rightarrow> int option \<Rightarrow> policy_row tx" where
  "find_draft accountId policyId rowVersion =
     bind_tx (find_tx w_policies (\<lambda>p. pol_id p = policyId \<and> pol_accountId p = accountId)) (\<lambda>found.
     case found of
       None \<Rightarrow> throw_tx (DomainErr (NotFoundError ''Spend policy was not found''))
     | Some p \<Rightarrow>
         bind_tx (throw_if_tx (pol_status p \<noteq> ''DRAFT'')
           (DomainErr (ConflictError ''Only a DRAFT policy can be activated''))) (\<lambda>_.
         bind_tx (throw_if_tx (case rowVersion of None \<Rightarrow> False | Some v \<Rightarrow> pol_version p \<noteq> v)
           (DomainErr (ConflictError ''Spend policy version changed concurrently''))) (\<lambda>_.
         return_tx p)))"

definition activate_data :: "int \<Rightarrow> policy_row \<Rightarrow> policy_row" where
  "activate_data now p = p\<lparr>pol_status := ''ACTIVE'', pol_activatedAt := Some now\<rparr>"

definition announce_activation :: "string \<Rightarrow> string option \<Rightarrow> policy_row \<Rightarrow> unit tx" where
  "announce_activation accountId actorId activated =
     bind_tx new_date (\<lambda>now.
     bind_tx (control_event (Some accountId) ''SPEND_POLICY'' (pol_id activated) ''SPEND_POLICY_ACTIVATED''
        ''OPERATOR'' (Some (case actorId of None \<Rightarrow> accountId | Some i \<Rightarrow> i)) None ''V2_POLICY_ADMIN'' (Some now) None
        (Some [(''version'', json_int (pol_version activated))])) (\<lambda>_.
     admin_webhook (pol_accountId activated) ''SPEND_POLICY'' (pol_id activated) (pol_version activated)
       ''policy.activated'' (policy_resource activated)))"

definition activateSpendPolicy :: "string \<Rightarrow> string \<Rightarrow> int option \<Rightarrow> string option \<Rightarrow> policy_row tx" where
  "activateSpendPolicy accountId policyId rowVersion actorId =
     bind_tx (lockAgentAccount accountId) (\<lambda>_.
     bind_tx (find_draft accountId policyId rowVersion) (\<lambda>_.
     bind_tx new_date (\<lambda>retiredAt.
     bind_tx (retire_active accountId retiredAt) (\<lambda>_.
     bind_tx new_date (\<lambda>activatedAt.
     bind_tx (update_one_tx ''spend_policies'' w_policies w_policies_update (\<lambda>p. pol_id p = policyId)
        (activate_data activatedAt)) (\<lambda>activated.
     bind_tx (announce_activation accountId actorId activated) (\<lambda>_.
     return_tx activated)))))))"

section \<open>Approvals and destinations\<close>

definition listApprovals :: "string \<Rightarrow> approval_row list tx" where
  "listApprovals accountId =
     gets_tx (\<lambda>w. rev (sort_key (\<lambda>a. OrderKey (apv_createdAt a) (apv_id a))
       (filter (\<lambda>a. apv_accountId a = accountId) (w_approvals w))))"

definition listApprovedDestinations :: "string \<Rightarrow> destination_row list tx" where
  "listApprovedDestinations accountId =
     gets_tx (\<lambda>w. rev (sort_key (\<lambda>d. OrderKey (dst_createdAt d) (dst_id d))
       (filter (\<lambda>d. dst_accountId d = accountId) (w_destinations w))))"

definition destination_resource :: "destination_row \<Rightarrow> (string \<times> json) list" where
  "destination_resource d = [(''id'', JStr (dst_id d)), (''account_id'', JStr (dst_accountId d)),
     (''fingerprint'', JStr (dst_fingerprint d)), (''rail'', JStr (dst_rail d)), (''network'', JStr (dst_network d)),
     (''asset_reference'', JStr (dst_assetReference d)), (''destination'', JStr (dst_destination d)),
     (''status'', JStr (dst_status d))]"

definition createApprovedDestination_admin :: "DestinationCreate \<Rightarrow> destination_row tx" where
  "createApprovedDestination_admin input =
     bind_tx (lockAgentAccount (de_accountId input)) (\<lambda>_.
     bind_tx new_date (\<lambda>now.
     bind_tx (insert_tx ''approved_destinations'' w_destinations w_destinations_update destination_conflict
        (destination_row_of input now)) (\<lambda>created.
     bind_tx (control_event (Some (dst_accountId created)) ''APPROVED_DESTINATION'' (dst_id created)
        ''APPROVED_DESTINATION_CREATED'' ''OPERATOR'' (Some (dst_actorId created)) None ''V2_DESTINATION_ADMIN''
        (Some (dst_createdAt created)) None
        (Some [(''fingerprint'', JStr (dst_fingerprint created)), (''rail'', JStr (dst_rail created)),
          (''network'', JStr (dst_network created)), (''asset_reference'', JStr (dst_assetReference created)),
          (''status'', JStr (dst_status created))])) (\<lambda>_.
     bind_tx (admin_webhook (dst_accountId created) ''APPROVED_DESTINATION'' (dst_id created) 1 ''destination.created''
        (destination_resource created)) (\<lambda>_.
     return_tx created)))))"

definition announce_revocation :: "DestinationRevoke \<Rightarrow> destination_row \<Rightarrow> unit tx" where
  "announce_revocation input d =
     bind_tx (control_event (Some (dst_accountId d)) ''APPROVED_DESTINATION'' (dst_id d)
        ''APPROVED_DESTINATION_REVOKED'' ''OPERATOR'' (Some (dr_actorId input)) None ''V2_DESTINATION_ADMIN''
        (dst_revokedAt d) (Some [(''status'', JStr ''ACTIVE'')])
        (Some [(''status'', JStr (dst_status d)), (''reason'', json_opt (dst_reason d))])) (\<lambda>_.
     admin_webhook (dst_accountId d) ''APPROVED_DESTINATION'' (dst_id d) 2 ''destination.revoked''
       (destination_resource d @ [(''reason'', json_opt (dst_reason d))]))"

definition revokeApprovedDestination_admin :: "DestinationRevoke \<Rightarrow> unit tx" where
  "revokeApprovedDestination_admin input =
     bind_tx (lockAgentAccount (dr_accountId input)) (\<lambda>_.
     bind_tx new_date (\<lambda>now.
     bind_tx (update_many_tx w_destinations w_destinations_update (revocable input)
        (revoke_destination_data input now)) (\<lambda>count.
     bind_tx (throw_if_tx (count \<noteq> 1) (DomainErr (NotFoundError ''Approved destination was not found''))) (\<lambda>_.
     bind_tx (find_or_throw_tx ''approved_destinations'' w_destinations (\<lambda>d. dst_id d = dr_id input)) (\<lambda>destination.
     announce_revocation input destination)))))"

section \<open>Funding destinations\<close>

record FundingInput =
  fu_id :: string
  fu_accountId :: string
  fu_routeId :: string
  fu_network :: string
  fu_assetId :: string
  fu_destination :: string
  fu_readiness :: string
  fu_senderConstraintsJson :: string
  fu_lastValidatedAt :: "int option"
  fu_lastFailureCode :: "string option"

definition findFundingDestination :: "string \<Rightarrow> string option \<Rightarrow> funding_row option tx" where
  "findFundingDestination accountId routeId =
     gets_tx (\<lambda>w. latest fnd_updatedAt (filter (\<lambda>f. fnd_accountId f = accountId \<and>
       (case routeId of None \<Rightarrow> True | Some r \<Rightarrow> fnd_routeId f = r)) (w_funding w)))"

definition funding_key :: "FundingInput \<Rightarrow> funding_row \<Rightarrow> bool" where
  "funding_key input f \<longleftrightarrow> fnd_accountId f = fu_accountId input \<and> fnd_routeId f = fu_routeId input \<and>
     fnd_assetId f = fu_assetId input"

definition funding_conflict :: "funding_row \<Rightarrow> funding_row \<Rightarrow> bool" where
  "funding_conflict r q \<longleftrightarrow> fnd_id q = fnd_id r \<or> (fnd_accountId q = fnd_accountId r \<and>
     fnd_routeId q = fnd_routeId r \<and> fnd_assetId q = fnd_assetId r)"

definition funding_row_of :: "FundingInput \<Rightarrow> int \<Rightarrow> funding_row" where
  "funding_row_of input now =
     \<lparr>fnd_id = fu_id input, fnd_accountId = fu_accountId input, fnd_routeId = fu_routeId input,
      fnd_network = fu_network input, fnd_assetId = fu_assetId input, fnd_destination = fu_destination input,
      fnd_readiness = fu_readiness input, fnd_senderConstraintsJson = fu_senderConstraintsJson input,
      fnd_lastValidatedAt = fu_lastValidatedAt input, fnd_lastFailureCode = fu_lastFailureCode input,
      fnd_createdAt = now, fnd_updatedAt = now\<rparr>"

definition funding_data :: "FundingInput \<Rightarrow> int \<Rightarrow> funding_row \<Rightarrow> funding_row" where
  "funding_data input now f =
     f\<lparr>fnd_network := fu_network input, fnd_destination := fu_destination input, fnd_readiness := fu_readiness input,
       fnd_senderConstraintsJson := fu_senderConstraintsJson input,
       fnd_lastValidatedAt := set_col (fu_lastValidatedAt input) (fnd_lastValidatedAt f),
       fnd_lastFailureCode := set_col (fu_lastFailureCode input) (fnd_lastFailureCode f), fnd_updatedAt := now\<rparr>"

definition upsertFundingDestination :: "FundingInput \<Rightarrow> funding_row tx" where
  "upsertFundingDestination input =
     bind_tx (find_tx w_funding (funding_key input)) (\<lambda>found.
     bind_tx new_date (\<lambda>now.
     case found of
       None \<Rightarrow> insert_tx ''funding_destinations'' w_funding w_funding_update funding_conflict (funding_row_of input now)
     | Some _ \<Rightarrow> update_one_tx ''funding_destinations'' w_funding w_funding_update (funding_key input)
         (funding_data input now)))"

section \<open>What the operations on policies write\<close>

interpretation policies: keyed_table w_policies w_policies_update pol_id
  by unfold_locales simp

lemma latest_max: "latest version rows = Some r \<Longrightarrow> q \<in> set rows \<Longrightarrow> version q \<le> version r"
proof -
  assume l: "latest version rows = Some r" and q: "q \<in> set rows"
  obtain rs where s: "sort_key (\<lambda>r. - version r) rows = r # rs"
    using l by (auto simp: latest_def split: list.splits)
  have "sorted (map (\<lambda>r. - version r) (r # rs))" using sorted_sort_key [of "\<lambda>r. - version r" rows] s by simp
  moreover have "q \<in> set (r # rs)" using q s by (metis set_sort)
  ultimately show ?thesis by auto
qed

lemma latest_None [simp]: "latest version rows = None \<longleftrightarrow> rows = []"
  by (auto simp: latest_def split: list.splits)

lemma latest_exists: "q \<in> set rows \<Longrightarrow> \<exists>r. latest version rows = Some r"
  by (cases "latest version rows") auto

lemma next_version_larger:
  assumes "p \<in> set (w_policies w)" "pol_accountId p = accountId"
  shows "pol_version p < next_policy_version accountId w"
proof -
  let ?rows = "filter (\<lambda>p. pol_accountId p = accountId) (w_policies w)"
  have p: "p \<in> set ?rows" using assms by simp
  obtain r where "latest pol_version ?rows = Some r" using latest_exists [OF p, of pol_version] by blast
  then show ?thesis using latest_max [OF _ p] by (simp add: next_policy_version_def)
qed

lemma retire_active_Inr:
  "retire_active accountId now w = Inr (u, w') \<Longrightarrow> w' = w_policies_update (update_rows (active_of accountId) (retire_data now)) w"
  by (simp add: retire_active_def tx_simps)

lemma create_policy_Inr:
  assumes "create_policy input v s t w = Inr (r, w')"
  obtains now where "r = policy_row_of input v s t now" "w_policies w' = w_policies w @ [r]"
    "\<not> list_ex (policy_conflict r) (w_policies w)"
  using assms by (auto simp: create_policy_def tx_simps)

lemma policy_outputs: "preserves w_policies (announce_replacement input actor active now p)"
  "preserves w_policies (announce_activation a actor' p)"
  unfolding announce_replacement_def announce_activation_def by (intro frame_intros; simp)+

lemma next_version_ticks [simp]: "next_policy_version a (w\<lparr>w_ticks := n\<rparr>) = next_policy_version a w"
  by (simp add: next_policy_version_def)

lemma check_expected_version_Inr:
  "check_expected_version active expected w = Inr (u, w') \<Longrightarrow>
     w' = w \<and> (active \<noteq> None \<longrightarrow> expected \<noteq> None) \<and>
     (\<forall>v. expected = Some v \<longrightarrow> (case active of None \<Rightarrow> 0 | Some p \<Rightarrow> pol_version p) = v)"
  by (auto simp: check_expected_version_def tx_simps split: option.splits)

lemma replaceSpendPolicy_rows:
  assumes run: "replaceSpendPolicy input expected actor w = Inr (r, w')"
  obtains now now' where
    "w_policies w' = update_rows (active_of (pn_accountId input)) (retire_data now) (w_policies w) @ [r]"
    "r = policy_row_of input (next_policy_version (pn_accountId input) w) ''ACTIVE'' (Some now) now'"
    "\<not> list_ex (policy_conflict r) (update_rows (active_of (pn_accountId input)) (retire_data now) (w_policies w))"
    "\<forall>p \<in> set (w_policies w). active_of (pn_accountId input) p \<longrightarrow>
       (\<exists>q \<in> set (w_policies w). active_of (pn_accountId input) q \<and> expected = Some (pol_version q))"
proof -
  let ?a = "pn_accountId input"
  let ?active = "\<lambda>w. latest pol_version (filter (active_of ?a) (w_policies w))"
  obtain now w0 w2 w3 w4 w5 where t: "new_date w = Inr (now, w0)"
    and l: "lockAgentAccount ?a w0 = Inr ((), w2)" and c: "check_expected_version (?active w2) expected w2 = Inr ((), w3)"
    and s: "retire_active ?a now w3 = Inr ((), w4)" "create_policy input (next_policy_version ?a w3) ''ACTIVE'' (Some now) w4 = Inr (r, w5)"
      "announce_replacement input actor (?active w2) now r w5 = Inr ((), w')"
    using run unfolding replaceSpendPolicy_def by (auto simp: bind_tx_Inr_iff gets_tx_apply return_tx_apply)
  have w3: "w3 = w0" using check_expected_version_Inr [OF c] lockAgentAccount_Inr [OF l] by simp
  have w0: "w_policies w0 = w_policies w" "next_policy_version ?a w0 = next_policy_version ?a w"
    using t by (auto simp: tx_simps)
  obtain now' where r: "r = policy_row_of input (next_policy_version ?a w3) ''ACTIVE'' (Some now) now'"
    "w_policies w5 = w_policies w4 @ [r]" "\<not> list_ex (policy_conflict r) (w_policies w4)"
    by (rule create_policy_Inr [OF s(2)])
  have "\<exists>q \<in> set (w_policies w). active_of ?a q \<and> expected = Some (pol_version q)" if p: "p \<in> set (w_policies w)" "active_of ?a p" for p
  proof -
    have in_f: "p \<in> set (filter (active_of ?a) (w_policies w2))" using p w0 lockAgentAccount_Inr [OF l] by simp
    obtain q where q: "?active w2 = Some q" using latest_exists [OF in_f, of pol_version] by blast
    then have "expected = Some (pol_version q)" using check_expected_version_Inr [OF c] by (cases expected) auto
    moreover have "q \<in> set (w_policies w)" "active_of ?a q"
      using latest_SomeD [OF q] w0 lockAgentAccount_Inr [OF l] by auto
    ultimately show ?thesis by blast
  qed
  then show thesis
    using that [of now now'] r w0 preservesD [OF policy_outputs(1) s(3)] by (simp add: retire_active_Inr [OF s(1)] w3)
qed

lemma createSpendPolicy_rows:
  assumes run: "createSpendPolicy input actor w = Inr (r, w')"
  obtains now where "w_policies w' = w_policies w @ [r]" "\<not> list_ex (policy_conflict r) (w_policies w)"
    "r = policy_row_of input (next_policy_version (pn_accountId input) w) ''DRAFT'' None now"
proof -
  obtain w1 w2 w3 where s: "lockAgentAccount (pn_accountId input) w = Inr ((), w1)"
      "create_policy input (next_policy_version (pn_accountId input) w1) ''DRAFT'' None w1 = Inr (r, w2)"
    and e: "control_event (Some (pol_accountId r)) ''SPEND_POLICY'' (pol_id r) ''SPEND_POLICY_CREATED''
        ''OPERATOR'' actor None ''V2_POLICY_ADMIN'' (Some (pol_createdAt r)) None
        (Some [(''version'', json_int (pol_version r)), (''status'', JStr (pol_status r)),
          (''denomination_id'', JStr (pol_denominationId r))]) w2 = Inr ((), w3)"
      "admin_webhook (pol_accountId r) ''SPEND_POLICY'' (pol_id r) (pol_version r)
        ''policy.created'' (policy_resource r) w3 = Inr ((), w')"
    using run unfolding createSpendPolicy_def by (auto simp: bind_tx_Inr_iff gets_tx_apply return_tx_apply)
  obtain now where "r = policy_row_of input (next_policy_version (pn_accountId input) w1) ''DRAFT'' None now"
    "w_policies w2 = w_policies w1 @ [r]" "\<not> list_ex (policy_conflict r) (w_policies w1)"
    by (rule create_policy_Inr [OF s(2)])
  then show thesis
    using that preservesD [OF control_event_preserves e(1), of w_policies]
      preservesD [OF outputs_preserve(1) e(2), of w_policies] lockAgentAccount_Inr [OF s(1)] by simp
qed

lemma find_draft_Inr:
  assumes "find_draft accountId policyId v w = Inr (p, w')"
  shows "w' = w" "p \<in> set (w_policies w)" "pol_id p = policyId" "pol_accountId p = accountId" "pol_status p = ''DRAFT''"
    "\<forall>n. v = Some n \<longrightarrow> pol_version p = n"
  using assms find_SomeD [of _ "w_policies w" p]
  by (auto simp: find_draft_def tx_simps split: option.splits)

lemma activateSpendPolicy_rows:
  assumes run: "activateSpendPolicy accountId policyId v actor w = Inr (r, w')"
  obtains p now now' where "p \<in> set (w_policies w)" "pol_id p = policyId" "pol_accountId p = accountId" "pol_status p = ''DRAFT''"
    "\<forall>n. v = Some n \<longrightarrow> pol_version p = n"
    "w_policies w' = update_rows (\<lambda>q. pol_id q = policyId) (activate_data now')
       (update_rows (active_of accountId) (retire_data now) (w_policies w))"
    "\<exists>q. List.find (\<lambda>q. pol_id q = policyId) (update_rows (active_of accountId) (retire_data now) (w_policies w)) = Some q \<and>
       r = activate_data now' q"
proof -
  obtain w1 p w2 now w3 w4 now' w5 w6 where l: "lockAgentAccount accountId w = Inr ((), w1)"
    and p: "find_draft accountId policyId v w1 = Inr (p, w2)" and t: "new_date w2 = Inr (now, w3)"
    and s: "retire_active accountId now w3 = Inr ((), w4)" and t': "new_date w4 = Inr (now', w5)"
    and u: "update_one_tx ''spend_policies'' w_policies w_policies_update (\<lambda>p. pol_id p = policyId) (activate_data now') w5 = Inr (r, w6)"
    and a: "announce_activation accountId actor r w6 = Inr ((), w')"
    using run unfolding activateSpendPolicy_def by (auto simp: bind_tx_Inr_iff return_tx_apply)
  have w1: "w2 = w" using lockAgentAccount_Inr [OF l] find_draft_Inr(1) [OF p] by simp
  have w5: "w_policies w5 = update_rows (active_of accountId) (retire_data now) (w_policies w)"
    using t t' w1 by (auto simp: new_date_apply retire_active_Inr [OF s])
  show thesis
    using that [of p now' now] find_draft_Inr [OF p] lockAgentAccount_Inr [OF l] u w5 preservesD [OF policy_outputs(2) a]
    by (auto simp: update_one_tx_Inr_iff)
qed

section \<open>At most one active policy\<close>

text \<open>The policies of the database are well formed: identifiers are unique, an account has a version
  only once and at most one active policy.\<close>

definition policies_ok :: "world \<Rightarrow> bool" where
  "policies_ok w \<longleftrightarrow> distinct (map pol_id (w_policies w)) \<and>
     (\<forall>p \<in> set (w_policies w). \<forall>q \<in> set (w_policies w). pol_accountId p = pol_accountId q \<longrightarrow>
        (pol_version p = pol_version q \<longrightarrow> p = q) \<and> (pol_status p = ''ACTIVE'' \<longrightarrow> pol_status q = ''ACTIVE'' \<longrightarrow> p = q))"

lemma policies_okI:
  assumes "distinct (map pol_id (w_policies w))"
    and "\<And>p q. p \<in> set (w_policies w) \<Longrightarrow> q \<in> set (w_policies w) \<Longrightarrow> pol_accountId p = pol_accountId q \<Longrightarrow>
      pol_version p = pol_version q \<Longrightarrow> p = q"
    and "\<And>p q. p \<in> set (w_policies w) \<Longrightarrow> q \<in> set (w_policies w) \<Longrightarrow> pol_accountId p = pol_accountId q \<Longrightarrow>
      pol_status p = ''ACTIVE'' \<Longrightarrow> pol_status q = ''ACTIVE'' \<Longrightarrow> p = q"
  shows "policies_ok w"
  unfolding policies_ok_def using assms by blast

lemma policies_okD:
  assumes "policies_ok w" "p \<in> set (w_policies w)" "q \<in> set (w_policies w)" "pol_accountId p = pol_accountId q"
  shows "pol_version p = pol_version q \<Longrightarrow> p = q" "pol_status p = ''ACTIVE'' \<Longrightarrow> pol_status q = ''ACTIVE'' \<Longrightarrow> p = q"
  using assms unfolding policies_ok_def by blast+

definition retired_of :: "string \<Rightarrow> int \<Rightarrow> policy_row \<Rightarrow> policy_row" where
  "retired_of accountId now p = (if active_of accountId p then retire_data now p else p)"

lemma update_retired: "update_rows (active_of accountId) (retire_data now) rows = map (retired_of accountId now) rows"
  by (simp add: update_rows_def retired_of_def)

lemma retired_of_simps [simp]: "pol_id (retired_of a now p) = pol_id p" "pol_accountId (retired_of a now p) = pol_accountId p"
  "pol_version (retired_of a now p) = pol_version p"
  "pol_status (retired_of a now p) = ''ACTIVE'' \<longleftrightarrow> pol_status p = ''ACTIVE'' \<and> pol_accountId p \<noteq> a"
  by (auto simp: retired_of_def retire_data_def active_of_def)

lemma policies_ok_map:
  assumes ok: "policies_ok w" and w': "w_policies w' = map f (w_policies w)"
    and f: "\<And>p. p \<in> set (w_policies w) \<Longrightarrow> pol_id (f p) = pol_id p \<and> pol_accountId (f p) = pol_accountId p \<and> pol_version (f p) = pol_version p"
    and one: "\<And>p q. p \<in> set (w_policies w) \<Longrightarrow> q \<in> set (w_policies w) \<Longrightarrow> pol_accountId p = pol_accountId q \<Longrightarrow>
      pol_status (f p) = ''ACTIVE'' \<Longrightarrow> pol_status (f q) = ''ACTIVE'' \<Longrightarrow> p = q"
  shows "policies_ok w'"
proof -
  have ids: "map pol_id (w_policies w') = map pol_id (w_policies w)" using f by (simp add: w')
  show ?thesis
  proof (rule policies_okI)
    show "distinct (map pol_id (w_policies w'))" using ok by (simp add: ids policies_ok_def)
  next
    fix p q assume "p \<in> set (w_policies w')" "q \<in> set (w_policies w')"
    then obtain a b where ab: "a \<in> set (w_policies w)" "p = f a" "b \<in> set (w_policies w)" "q = f b" by (auto simp: w')
    assume same: "pol_accountId p = pol_accountId q"
    then have acc: "pol_accountId a = pol_accountId b" using f ab by simp
    show "p = q" if "pol_version p = pol_version q"
      using policies_okD(1) [OF ok ab(1,3) acc] that f ab by simp
    show "p = q" if "pol_status p = ''ACTIVE''" "pol_status q = ''ACTIVE''"
      using one [OF ab(1,3) acc] that ab by simp
  qed
qed

lemma policies_ok_retired:
  assumes "policies_ok w" "w_policies w' = map (retired_of a now) (w_policies w)"
  shows "policies_ok w'"
  by (rule policies_ok_map [OF assms]) (use policies_okD(2) [OF assms(1)] in auto)

lemma policies_ok_insert:
  assumes "policies_ok w" "w_policies w' = w_policies w @ [r]" "\<not> list_ex (policy_conflict r) (w_policies w)"
    and "pol_status r = ''ACTIVE'' \<Longrightarrow> (\<forall>q \<in> set (w_policies w). \<not> active_of (pol_accountId r) q)"
  shows "policies_ok w'"
  using assms unfolding policies_ok_def by (auto simp: policy_conflict_def list_ex_iff active_of_def)

lemma createSpendPolicy_ok: "createSpendPolicy input actor w = Inr (r, w') \<Longrightarrow> policies_ok w \<Longrightarrow> policies_ok w'"
  by (erule createSpendPolicy_rows, erule policies_ok_insert) (auto simp: policy_row_of_def)

lemma replaceSpendPolicy_ok:
  assumes run: "replaceSpendPolicy input expected actor w = Inr (r, w')" and ok: "policies_ok w"
  shows "policies_ok w'" "\<forall>p \<in> set (w_policies w'). active_of (pn_accountId input) p \<longleftrightarrow> p = r"
proof -
  obtain now now' where x:
    "w_policies w' = map (retired_of (pn_accountId input) now) (w_policies w) @ [r]"
    "r = policy_row_of input (next_policy_version (pn_accountId input) w) ''ACTIVE'' (Some now) now'"
    "\<not> list_ex (policy_conflict r) (map (retired_of (pn_accountId input) now) (w_policies w))"
    by (rule replaceSpendPolicy_rows [OF run, unfolded update_retired])
  let ?w = "w\<lparr>w_policies := map (retired_of (pn_accountId input) now) (w_policies w)\<rparr>"
  have acc: "pol_accountId r = pn_accountId input" "pol_status r = ''ACTIVE''" by (simp_all add: x(2) policy_row_of_def)
  have none: "\<not> active_of (pn_accountId input) q" if "q \<in> set (w_policies ?w)" for q
    using that by (auto simp: active_of_def)
  have "policies_ok ?w" by (rule policies_ok_retired [OF ok, of _ "pn_accountId input" now]) simp
  then show "policies_ok w'" by (rule policies_ok_insert) (use x none acc in auto)
  show "\<forall>p \<in> set (w_policies w'). active_of (pn_accountId input) p \<longleftrightarrow> p = r"
    using none acc by (auto simp: x(1) active_of_def)
qed

lemma activateSpendPolicy_ok:
  assumes run: "activateSpendPolicy accountId policyId v actor w = Inr (r, w')" and ok: "policies_ok w"
  shows "policies_ok w'" "\<forall>p \<in> set (w_policies w'). active_of accountId p \<longleftrightarrow> p = r" "r \<in> set (w_policies w')"
    "pol_id r = policyId"
proof -
  obtain p now now' q where x: "p \<in> set (w_policies w)" "pol_id p = policyId" "pol_accountId p = accountId" "pol_status p = ''DRAFT''"
    "w_policies w' = update_rows (\<lambda>q. pol_id q = policyId) (activate_data now') (map (retired_of accountId now) (w_policies w))"
    "List.find (\<lambda>q. pol_id q = policyId) (map (retired_of accountId now) (w_policies w)) = Some q" "r = activate_data now' q"
    by (rule activateSpendPolicy_rows [OF run, unfolded update_retired]) blast
  have d: "distinct (map pol_id (w_policies w))" using ok by (simp add: policies_ok_def)
  have one: "b = p" if "b \<in> set (w_policies w)" "pol_id b = policyId" for b
    using policies.same_key [OF d that(1) x(1)] that(2) x(2) by simp
  have keep: "retired_of accountId now p = p" using x(4) by (simp add: retired_of_def active_of_def)
  have q: "q = p" using find_SomeD [OF x(6)] one keep by auto
  have rows: "w_policies w' = map (\<lambda>b. if b = p then r else retired_of accountId now b) (w_policies w)"
    unfolding x(5) update_rows_def map_map
  proof (rule map_cong [OF refl])
    fix b assume b: "b \<in> set (w_policies w)"
    show "((\<lambda>r. if pol_id r = policyId then activate_data now' r else r) \<circ> retired_of accountId now) b =
        (if b = p then r else retired_of accountId now b)"
      by (cases "b = p") (use one [OF b] x(2,7) q keep in \<open>simp_all, blast\<close>)
  qed
  have r: "pol_id r = pol_id p" "pol_accountId r = accountId" "pol_version r = pol_version p" "pol_status r = ''ACTIVE''"
    by (simp_all add: x(3,7) q activate_data_def)
  show "policies_ok w'"
  proof (rule policies_ok_map [OF ok rows])
    fix b c assume bc: "b \<in> set (w_policies w)" "c \<in> set (w_policies w)" "pol_accountId b = pol_accountId c"
      "pol_status (if b = p then r else retired_of accountId now b) = ''ACTIVE''"
      "pol_status (if c = p then r else retired_of accountId now c) = ''ACTIVE''"
    then show "b = c" using policies_okD(2) [OF ok bc(1-3)] x(3) by (auto split: if_splits)
  qed (use r x(3) in auto)
  show "\<forall>b \<in> set (w_policies w'). active_of accountId b \<longleftrightarrow> b = r"
    using r by (auto simp: rows active_of_def)
  show "r \<in> set (w_policies w')" using x(1) by (auto simp: rows)
  show "pol_id r = policyId" using r x(2) by simp
qed

end
