(* ===== verification/Custody_Limits.thy ===== *)
theory Custody_Limits
  imports Approvals
begin

text \<open>
  The rest of the operator's repository \<^verbatim>\<open>packages/db/src/v2-admin.ts\<close>: versions of custody keys,
  signing requests, the account's history and the rate limiter. The comparison of two identifiers by
  \<^verbatim>\<open>localeCompare\<close> belongs to the JavaScript engine's collation and is a parameter of the history.
\<close>

section \<open>Custody keys\<close>

record CustodyKeyInput =
  ck_id :: string
  ck_accountId :: "string option"
  ck_keyVersion :: int
  ck_backendIdentity :: string
  ck_keyReference :: string
  ck_rootKeyFingerprint :: string

text \<open>The unique key on the account and the version does not bind rows without an account.\<close>

definition custody_conflict :: "custody_key_row \<Rightarrow> custody_key_row \<Rightarrow> bool" where
  "custody_conflict r q \<longleftrightarrow> ckv_id q = ckv_id r \<or>
     (ckv_accountId r \<noteq> None \<and> ckv_accountId q = ckv_accountId r \<and> ckv_keyVersion q = ckv_keyVersion r)"

definition custody_row_of :: "CustodyKeyInput \<Rightarrow> int \<Rightarrow> custody_key_row" where
  "custody_row_of input now =
     \<lparr>ckv_id = ck_id input, ckv_accountId = ck_accountId input, ckv_keyVersion = ck_keyVersion input,
      ckv_backendIdentity = ck_backendIdentity input, ckv_keyReference = ck_keyReference input,
      ckv_rootKeyFingerprint = ck_rootKeyFingerprint input, ckv_status = ''ACTIVE'', ckv_createdAt = now,
      ckv_retiredAt = None\<rparr>"

definition createCustodyKeyVersion :: "CustodyKeyInput \<Rightarrow> custody_key_row tx" where
  "createCustodyKeyVersion input =
     bind_tx new_date (\<lambda>now.
     bind_tx (insert_tx ''custody_key_versions'' w_custody_keys w_custody_keys_update custody_conflict
        (custody_row_of input now)) (\<lambda>created.
     bind_tx (control_event (ckv_accountId created) ''CUSTODY_KEY_VERSION'' (ckv_id created)
        ''CUSTODY_KEY_VERSION_CREATED'' ''SYSTEM'' None None ''V2_CUSTODY_CONTROL_PLANE'' (Some (ckv_createdAt created)) None
        (Some [(''key_version'', json_int (ckv_keyVersion created)), (''status'', JStr (ckv_status created)),
          (''backend_identity'', JStr (ckv_backendIdentity created)),
          (''root_key_fingerprint'', JStr (ckv_rootKeyFingerprint created))])) (\<lambda>_.
     return_tx created)))"

definition findActiveCustodyKeyVersion :: "string \<Rightarrow> custody_key_row option tx" where
  "findActiveCustodyKeyVersion accountId =
     gets_tx (\<lambda>w. latest ckv_keyVersion (filter (\<lambda>k. ckv_accountId k = Some accountId \<and> ckv_status k = ''ACTIVE'')
       (w_custody_keys w)))"

section \<open>Signing requests\<close>

record SigningInput =
  si_id :: string
  si_paymentId :: string
  si_attemptId :: string
  si_effectHash :: string
  si_routeId :: string
  si_network :: string
  si_assetReference :: string
  si_destination :: string
  si_amountAtomic :: int
  si_feePayerIdentity :: string
  si_keyVersion :: int
  si_serviceIdentity :: string

definition signing_conflict :: "signing_row \<Rightarrow> signing_row \<Rightarrow> bool" where
  "signing_conflict r q \<longleftrightarrow> sgr_id q = sgr_id r \<or> sgr_attemptId q = sgr_attemptId r"

definition signing_row_of :: "SigningInput \<Rightarrow> int \<Rightarrow> signing_row" where
  "signing_row_of input now =
     \<lparr>sgr_id = si_id input, sgr_paymentId = si_paymentId input, sgr_attemptId = si_attemptId input,
      sgr_effectHash = si_effectHash input, sgr_routeId = si_routeId input, sgr_network = si_network input,
      sgr_assetReference = si_assetReference input, sgr_destination = si_destination input,
      sgr_amountAtomic = si_amountAtomic input, sgr_feePayerIdentity = si_feePayerIdentity input,
      sgr_keyVersion = si_keyVersion input, sgr_status = ''PENDING'', sgr_serviceIdentity = si_serviceIdentity input,
      sgr_createdAt = now, sgr_completedAt = None\<rparr>"

definition signing_event ::
    "signing_row \<Rightarrow> payment_row \<Rightarrow> string \<Rightarrow> int option \<Rightarrow> (string \<times> json) list option \<Rightarrow> (string \<times> json) list \<Rightarrow> unit tx" where
  "signing_event r payment eventType occurredAt oldState newState =
     control_event (Some (pay_payerAccountId payment)) ''SIGNING_REQUEST'' (sgr_id r) eventType ''SERVICE''
       (Some (sgr_serviceIdentity r)) (pay_correlationId payment) ''V2_CUSTODY_CONTROL_PLANE'' occurredAt
       oldState (Some newState)"

definition createSigningRequest :: "SigningInput \<Rightarrow> signing_row tx" where
  "createSigningRequest input =
     bind_tx new_date (\<lambda>now.
     bind_tx (insert_tx ''signing_requests'' w_signing w_signing_update signing_conflict (signing_row_of input now)) (\<lambda>created.
     bind_tx (find_or_throw_tx ''payments'' w_payments (\<lambda>p. pay_id p = sgr_paymentId created)) (\<lambda>payment.
     bind_tx (signing_event created payment ''SIGNING_REQUEST_CREATED'' (Some (sgr_createdAt created)) None
        [(''payment_id'', JStr (sgr_paymentId created)), (''attempt_id'', JStr (sgr_attemptId created)),
         (''effect_hash'', JStr (sgr_effectHash created)), (''route_id'', JStr (sgr_routeId created)),
         (''network'', JStr (sgr_network created)), (''asset_reference'', JStr (sgr_assetReference created)),
         (''amount_atomic'', JStr (int_to_string (sgr_amountAtomic created))),
         (''key_version'', json_int (sgr_keyVersion created)), (''status'', JStr (sgr_status created))]) (\<lambda>_.
     return_tx created))))"

definition findSigningRequest :: "string \<Rightarrow> signing_row option tx" where
  "findSigningRequest attemptId = find_tx w_signing (\<lambda>r. sgr_attemptId r = attemptId)"

datatype SigningResult = SIGNED | REJECTED

definition signing_result_name :: "SigningResult \<Rightarrow> string" where
  "signing_result_name s = (case s of SIGNED \<Rightarrow> ''SIGNED'' | REJECTED \<Rightarrow> ''REJECTED'')"

definition pending_signing :: "string \<Rightarrow> string \<Rightarrow> signing_row \<Rightarrow> bool" where
  "pending_signing i effectHash r \<longleftrightarrow> sgr_id r = i \<and> sgr_effectHash r = effectHash \<and> sgr_status r = ''PENDING''"

definition complete_signing_data :: "SigningResult \<Rightarrow> int \<Rightarrow> signing_row \<Rightarrow> signing_row" where
  "complete_signing_data s now r = r\<lparr>sgr_status := signing_result_name s, sgr_completedAt := Some now\<rparr>"

definition completeSigningRequest :: "string \<Rightarrow> string \<Rightarrow> SigningResult \<Rightarrow> signing_row tx" where
  "completeSigningRequest i effectHash status =
     bind_tx new_date (\<lambda>now.
     bind_tx (update_many_tx w_signing w_signing_update (pending_signing i effectHash)
        (complete_signing_data status now)) (\<lambda>count.
     bind_tx (throw_if_tx (count \<noteq> 1) (DomainErr (ConflictError ''Signing request changed concurrently''))) (\<lambda>_.
     bind_tx (find_or_throw_tx ''signing_requests'' w_signing (\<lambda>r. sgr_id r = i)) (\<lambda>updated.
     bind_tx (find_or_throw_tx ''payments'' w_payments (\<lambda>p. pay_id p = sgr_paymentId updated)) (\<lambda>payment.
     bind_tx (signing_event updated payment ''SIGNING_REQUEST_COMPLETED'' (sgr_completedAt updated)
        (Some [(''status'', JStr ''PENDING'')])
        [(''status'', JStr (sgr_status updated)), (''effect_hash'', JStr (sgr_effectHash updated))]) (\<lambda>_.
     return_tx updated))))))"

section \<open>History\<close>

datatype HistoryDirection = INCOMING | OUTGOING

record V2HistoryRecord =
  hi_id :: string
  hi_direction :: HistoryDirection
  hi_kind :: string
  hi_status :: string
  hi_amountAtomic :: int
  hi_denominationId :: "string option"
  hi_currency :: string
  hi_recipientId :: "string option"
  hi_externalId :: "string option"
  hi_occurredAt :: int

definition incoming_status_name :: "IncomingPaymentStatus \<Rightarrow> string" where
  "incoming_status_name s = (case s of IPS_CONFIRMED \<Rightarrow> ''CONFIRMED'')"

definition outgoing_history :: "world \<Rightarrow> payment_row \<Rightarrow> V2HistoryRecord" where
  "outgoing_history w p =
     \<lparr>hi_id = pay_id p, hi_direction = OUTGOING, hi_kind = payment_kind_name (pay_kind p),
      hi_status = payment_status_name (pay_status p), hi_amountAtomic = pay_amountAtomic p,
      hi_denominationId = pay_denominationId p, hi_currency = pay_currency p, hi_recipientId = pay_recipientId p,
      hi_externalId = Option.bind (latest att_attemptNumber (filter (\<lambda>a. att_paymentId a = pay_id p) (w_attempts w)))
        att_railTransactionId,
      hi_occurredAt = pay_createdAt p\<rparr>"

definition incoming_history :: "incoming_row \<Rightarrow> V2HistoryRecord" where
  "incoming_history p =
     \<lparr>hi_id = inc_id p, hi_direction = INCOMING, hi_kind = ''RECEIVE'', hi_status = incoming_status_name (inc_status p),
      hi_amountAtomic = inc_amountAtomic p, hi_denominationId = None, hi_currency = inc_currency p,
      hi_recipientId = None, hi_externalId = Some (inc_signature p), hi_occurredAt = inc_confirmedAt p\<rparr>"

definition history_compare :: "(string \<Rightarrow> string \<Rightarrow> int) \<Rightarrow> V2HistoryRecord \<Rightarrow> V2HistoryRecord \<Rightarrow> int" where
  "history_compare localeCompare left right =
     (let time = hi_occurredAt right - hi_occurredAt left
      in if time = 0 then localeCompare (hi_id right) (hi_id left) else time)"

definition before_entry :: "(int \<times> string) option \<Rightarrow> int \<Rightarrow> string \<Rightarrow> bool" where
  "before_entry cursor t i = (case cursor of None \<Rightarrow> True
     | Some (occurredAt, j) \<Rightarrow> OrderKey t i < OrderKey occurredAt j)"

definition newest :: "('r \<Rightarrow> int) \<Rightarrow> ('r \<Rightarrow> string) \<Rightarrow> 'r list \<Rightarrow> 'r list" where
  "newest time i rows = rev (sort_key (\<lambda>r. OrderKey (time r) (i r)) rows)"

definition history_payments :: "string \<Rightarrow> (int \<times> string) option \<Rightarrow> world \<Rightarrow> payment_row list" where
  "history_payments accountId cursor w = newest pay_createdAt pay_id
     (filter (\<lambda>p. pay_payerAccountId p = accountId \<and> before_entry cursor (pay_createdAt p) (pay_id p)) (w_payments w))"

definition history_incoming :: "string \<Rightarrow> (int \<times> string) option \<Rightarrow> world \<Rightarrow> incoming_row list" where
  "history_incoming accountId cursor w = newest inc_confirmedAt inc_id
     (filter (\<lambda>p. inc_accountId p = accountId \<and> before_entry cursor (inc_confirmedAt p) (inc_id p)) (w_incoming w))"

definition listHistory ::
    "(string \<Rightarrow> string \<Rightarrow> int) \<Rightarrow> string \<Rightarrow> nat \<Rightarrow> (int \<times> string) option \<Rightarrow> V2HistoryRecord list tx" where
  "listHistory localeCompare accountId limit cursor =
     gets_tx (\<lambda>w. take limit (sort_by (history_compare localeCompare)
       (map (outgoing_history w) (take limit (history_payments accountId cursor w)) @
        map incoming_history (take limit (history_incoming accountId cursor w)))))"

section \<open>Rate limits\<close>

definition RATE_LIMIT_MAX_WINDOW_SECONDS :: int where "RATE_LIMIT_MAX_WINDOW_SECONDS = 86400"

definition RATE_LIMIT_RETENTION_SECONDS :: int where
  "RATE_LIMIT_RETENTION_SECONDS = RATE_LIMIT_MAX_WINDOW_SECONDS * 2"

definition RATE_LIMIT_CLEANUP_BATCH_SIZE :: nat where "RATE_LIMIT_CLEANUP_BATCH_SIZE = 32"

record RateLimitInput =
  rl_subjectType :: string
  rl_subjectId :: string
  rl_bucket :: string
  rl_windowSeconds :: number
  rl_limit :: number
  rl_now :: "int option"

record RateLimitResult =
  rr_allowed :: bool
  rr_count :: int
  rr_retryAt :: int

definition check_rate_input :: "RateLimitInput \<Rightarrow> unit tx" where
  "check_rate_input input =
     (if \<not> isInteger (rl_windowSeconds input) \<or> num_val (rl_windowSeconds input) \<le> 0 \<or>
         num_val (rl_windowSeconds input) > RATE_LIMIT_MAX_WINDOW_SECONDS
      then throw_tx (DomainErr (InvalidStateError (''Rate limit window must be from 1 to '' @
         int_to_string RATE_LIMIT_MAX_WINDOW_SECONDS @ '' seconds'')))
      else if \<not> isInteger (rl_limit input) \<or> num_val (rl_limit input) \<le> 0
      then throw_tx (DomainErr (InvalidStateError ''Rate limit must be positive''))
      else return_tx ())"

definition rate_window_start :: "int \<Rightarrow> int \<Rightarrow> int" where
  "rate_window_start seconds now = now div (seconds * 1000) * seconds * 1000"

definition in_bucket :: "RateLimitInput \<Rightarrow> int \<Rightarrow> rate_row \<Rightarrow> bool" where
  "in_bucket input start b \<longleftrightarrow> rlb_subjectType b = rl_subjectType input \<and> rlb_subjectId b = rl_subjectId input \<and>
     rlb_bucket b = rl_bucket input \<and> rlb_windowStartedAt b = start"

definition rate_conflict :: "rate_row \<Rightarrow> rate_row \<Rightarrow> bool" where
  "rate_conflict r q \<longleftrightarrow> rlb_id q = rlb_id r \<or> (rlb_subjectType q = rlb_subjectType r \<and>
     rlb_subjectId q = rlb_subjectId r \<and> rlb_bucket q = rlb_bucket r \<and> rlb_windowStartedAt q = rlb_windowStartedAt r)"

definition bucket_id :: "RateLimitInput \<Rightarrow> int \<Rightarrow> string" where
  "bucket_id input start = rl_subjectType input @ '':'' @ rl_subjectId input @ '':'' @ rl_bucket input @ '':'' @
     toISOString start"

definition bucket_row :: "RateLimitInput \<Rightarrow> int \<Rightarrow> int \<Rightarrow> rate_row" where
  "bucket_row input start now =
     \<lparr>rlb_id = bucket_id input start, rlb_subjectType = rl_subjectType input, rlb_subjectId = rl_subjectId input,
      rlb_bucket = rl_bucket input, rlb_windowStartedAt = start, rlb_requestCount = 0, rlb_updatedAt = now\<rparr>"

definition open_bucket :: "RateLimitInput \<Rightarrow> int \<Rightarrow> unit tx" where
  "open_bucket input start =
     bind_tx (find_tx w_rate_limits (in_bucket input start)) (\<lambda>found.
     case found of
       Some _ \<Rightarrow> return_tx ()
     | None \<Rightarrow>
         bind_tx new_date (\<lambda>now.
         bind_tx (insert_tx ''rate_limit_buckets'' w_rate_limits w_rate_limits_update rate_conflict
            (bucket_row input start now)) (\<lambda>_.
         return_tx ())))"

definition count_request :: "int \<Rightarrow> rate_row \<Rightarrow> rate_row" where
  "count_request now b = b\<lparr>rlb_requestCount := rlb_requestCount b + 1, rlb_updatedAt := now\<rparr>"

definition stale_buckets :: "int \<Rightarrow> rate_row list \<Rightarrow> rate_row list" where
  "stale_buckets cutoff rows = take RATE_LIMIT_CLEANUP_BATCH_SIZE
     (sort_key (\<lambda>b. OrderKey (rlb_windowStartedAt b) (rlb_id b)) (filter (\<lambda>b. rlb_windowStartedAt b < cutoff) rows))"

definition clean_buckets :: "int \<Rightarrow> unit tx" where
  "clean_buckets cutoff =
     bind_tx (gets_tx (\<lambda>w. stale_buckets cutoff (w_rate_limits w))) (\<lambda>stale.
     bind_tx (delete_many_tx w_rate_limits w_rate_limits_update (\<lambda>b. rlb_id b \<in> rlb_id ` set stale)) (\<lambda>_.
     return_tx ()))"

definition consumeRateLimit :: "RateLimitInput \<Rightarrow> RateLimitResult tx" where
  "consumeRateLimit input =
     bind_tx (check_rate_input input) (\<lambda>_.
     bind_tx (now_or_clock (rl_now input)) (\<lambda>now.
     let seconds = num_val (rl_windowSeconds input); start = rate_window_start seconds now in
     bind_tx (open_bucket input start) (\<lambda>_.
     bind_tx new_date (\<lambda>updatedAt.
     bind_tx (update_one_tx ''rate_limit_buckets'' w_rate_limits w_rate_limits_update
        (\<lambda>b. rlb_id b = bucket_id input start) (count_request updatedAt)) (\<lambda>updated.
     bind_tx (clean_buckets (now - RATE_LIMIT_RETENTION_SECONDS * 1000)) (\<lambda>_.
     return_tx \<lparr>rr_allowed = (rlb_requestCount updated \<le> num_val (rl_limit input)),
       rr_count = rlb_requestCount updated, rr_retryAt = start + seconds * 1000\<rparr>))))))"

section \<open>Counting the requests of a window\<close>

definition own_bucket_id :: "rate_row \<Rightarrow> string" where
  "own_bucket_id b = rlb_subjectType b @ '':'' @ rlb_subjectId b @ '':'' @ rlb_bucket b @ '':'' @
     toISOString (rlb_windowStartedAt b)"

definition buckets_ok :: "world \<Rightarrow> bool" where
  "buckets_ok w \<longleftrightarrow> distinct (map rlb_id (w_rate_limits w)) \<and> (\<forall>b \<in> set (w_rate_limits w). rlb_id b = own_bucket_id b)"

definition requests_in :: "RateLimitInput \<Rightarrow> int \<Rightarrow> rate_row list \<Rightarrow> int" where
  "requests_in input start rows = (case List.find (in_bucket input start) rows of None \<Rightarrow> 0 | Some b \<Rightarrow> rlb_requestCount b)"

interpretation buckets: keyed_table w_rate_limits w_rate_limits_update rlb_id
  by unfold_locales simp

lemma in_bucket_id: "in_bucket input start b \<Longrightarrow> rlb_id b = own_bucket_id b \<Longrightarrow> rlb_id b = bucket_id input start"
  by (simp add: in_bucket_def own_bucket_id_def bucket_id_def)

lemma check_rate_input_Inr:
  "check_rate_input input w = Inr (u, w') \<Longrightarrow> w' = w \<and> 0 < num_val (rl_windowSeconds input) \<and>
     num_val (rl_windowSeconds input) \<le> RATE_LIMIT_MAX_WINDOW_SECONDS \<and> 0 < num_val (rl_limit input)"
  by (auto simp: check_rate_input_def tx_simps split: if_splits)

lemma rate_window_bounds:
  assumes "0 < seconds"
  shows "rate_window_start seconds now \<le> now" "now < rate_window_start seconds now + seconds * 1000"
proof -
  have "now = seconds * 1000 * (now div (seconds * 1000)) + now mod (seconds * 1000)"
    "0 \<le> now mod (seconds * 1000)" "now mod (seconds * 1000) < seconds * 1000"
    using assms by simp_all
  then show "rate_window_start seconds now \<le> now" "now < rate_window_start seconds now + seconds * 1000"
    unfolding rate_window_start_def by (simp_all add: algebra_simps)
qed

lemma open_bucket_Inr:
  assumes run: "open_bucket input start w = Inr (u, w')" and ok: "buckets_ok w"
  shows "buckets_ok w'" "\<exists>b \<in> set (w_rate_limits w'). in_bucket input start b"
    "requests_in k s (w_rate_limits w') = requests_in k s (w_rate_limits w)"
proof -
  consider (old) b where "List.find (in_bucket input start) (w_rate_limits w) = Some b" "w' = w"
    | (new) now where "List.find (in_bucket input start) (w_rate_limits w) = None"
        "w_rate_limits w' = w_rate_limits w @ [bucket_row input start now]"
        "\<not> list_ex (rate_conflict (bucket_row input start now)) (w_rate_limits w)"
    using run by (auto simp: open_bucket_def tx_simps split: option.split_asm)
  then have "buckets_ok w' \<and> (\<exists>b \<in> set (w_rate_limits w'). in_bucket input start b) \<and>
      requests_in k s (w_rate_limits w') = requests_in k s (w_rate_limits w)"
  proof cases
    case old
    then show ?thesis using ok find_SomeD [OF old(1)] by auto
  next
    case new
    let ?r = "bucket_row input start now"
    have "in_bucket input start ?r" "rlb_id ?r = own_bucket_id ?r" "rlb_requestCount ?r = 0"
      by (simp_all add: bucket_row_def in_bucket_def own_bucket_id_def bucket_id_def)
    then show ?thesis
      using new ok by (auto simp: buckets_ok_def requests_in_def find_append rate_conflict_def list_ex_iff split: option.splits)
  qed
  then show "buckets_ok w'" "\<exists>b \<in> set (w_rate_limits w'). in_bucket input start b"
    "requests_in k s (w_rate_limits w') = requests_in k s (w_rate_limits w)" by blast+
qed

lemma buckets_find:
  assumes "buckets_ok w" "b \<in> set (w_rate_limits w)" "in_bucket input start b"
  shows "List.find (in_bucket input start) (w_rate_limits w) = Some b"
    "List.find (\<lambda>q. rlb_id q = bucket_id input start) (w_rate_limits w) = Some b"
proof -
  have d: "distinct (map rlb_id (w_rate_limits w))" and i: "\<And>q. q \<in> set (w_rate_limits w) \<Longrightarrow> rlb_id q = own_bucket_id q"
    using assms(1) by (auto simp: buckets_ok_def)
  have bi: "rlb_id b = bucket_id input start" using in_bucket_id [OF assms(3) i [OF assms(2)]] .
  then show "List.find (\<lambda>q. rlb_id q = bucket_id input start) (w_rate_limits w) = Some b"
    using buckets.find_unique [OF d assms(2)] by simp
  obtain q where q: "List.find (in_bucket input start) (w_rate_limits w) = Some q"
    using assms(2,3) find_NoneD [of _ "w_rate_limits w" b] by (cases "List.find (in_bucket input start) (w_rate_limits w)") auto
  then have "q = b" using find_SomeD [OF q] in_bucket_id i bi buckets.same_key [OF d _ assms(2)] by metis
  then show "List.find (in_bucket input start) (w_rate_limits w) = Some b" using q by simp
qed

lemma clean_keeps:
  assumes "distinct (map rlb_id (w_rate_limits w))" "b \<in> set (w_rate_limits w)" "cutoff \<le> rlb_windowStartedAt b"
  shows "rlb_id b \<notin> rlb_id ` set (stale_buckets cutoff (w_rate_limits w))"
proof
  assume "rlb_id b \<in> rlb_id ` set (stale_buckets cutoff (w_rate_limits w))"
  then obtain q where q: "q \<in> set (w_rate_limits w)" "rlb_windowStartedAt q < cutoff" "rlb_id b = rlb_id q"
    unfolding stale_buckets_def by (auto dest!: in_set_takeD)
  then show False using buckets.same_key [OF assms(1,2) q(1)] assms(3) by auto
qed

lemma find_filter_same:
  "(\<And>x. x \<in> set rows \<Longrightarrow> P x \<Longrightarrow> Q x) \<Longrightarrow> List.find P (filter Q rows) = List.find P rows"
  by (induction rows) auto

lemma find_update_unmatched:
  "(\<And>x. x \<in> set rows \<Longrightarrow> P x \<Longrightarrow> \<not> Q x \<and> \<not> Q (f x)) \<Longrightarrow> List.find Q (update_rows P f rows) = List.find Q rows"
  by (induction rows) (auto simp: update_rows_def)

lemma clean_buckets_Inr:
  assumes run: "clean_buckets cutoff w = Inr (u, w')" and ok: "buckets_ok w"
  shows "buckets_ok w'" "cutoff \<le> s \<Longrightarrow> requests_in k s (w_rate_limits w') = requests_in k s (w_rate_limits w)"
proof -
  let ?stale = "rlb_id ` set (stale_buckets cutoff (w_rate_limits w))"
  have w': "w_rate_limits w' = filter (\<lambda>b. rlb_id b \<notin> ?stale) (w_rate_limits w)"
    using run by (auto simp: clean_buckets_def tx_simps)
  have d: "distinct (map rlb_id (w_rate_limits w))" using ok by (simp add: buckets_ok_def)
  show "buckets_ok w'" using ok by (auto simp: buckets_ok_def w' distinct_map_filter)
  assume "cutoff \<le> s"
  then have "List.find (in_bucket k s) (w_rate_limits w') = List.find (in_bucket k s) (w_rate_limits w)"
    unfolding w' by (intro find_filter_same clean_keeps [OF d]) (auto simp: in_bucket_def)
  then show "requests_in k s (w_rate_limits w') = requests_in k s (w_rate_limits w)" by (simp add: requests_in_def)
qed

definition same_bucket :: "RateLimitInput \<Rightarrow> RateLimitInput \<Rightarrow> bool" where
  "same_bucket k input \<longleftrightarrow> rl_subjectType k = rl_subjectType input \<and> rl_subjectId k = rl_subjectId input \<and>
     rl_bucket k = rl_bucket input"

lemma count_request_fields [simp]: "rlb_id (count_request t b) = rlb_id b" "own_bucket_id (count_request t b) = own_bucket_id b"
  "in_bucket k s (count_request t b) = in_bucket k s b" "rlb_requestCount (count_request t b) = rlb_requestCount b + 1"
  by (simp_all add: count_request_def own_bucket_id_def in_bucket_def)

lemma counted_requests:
  assumes ok: "buckets_ok w" and b: "b \<in> set (w_rate_limits w)" "in_bucket input start b"
    and w': "w_rate_limits w' = update_rows (\<lambda>q. rlb_id q = bucket_id input start) (count_request t) (w_rate_limits w)"
  shows "buckets_ok w'"
    "requests_in k s (w_rate_limits w') = requests_in k s (w_rate_limits w) + (if same_bucket k input \<and> s = start then 1 else 0)"
proof -
  show ok': "buckets_ok w'" using ok by (auto simp: buckets_ok_def w' map_update_rows set_update_rows)
  have bi: "rlb_id b = bucket_id input start" using in_bucket_id b ok by (auto simp: buckets_ok_def)
  have b': "count_request t b \<in> set (w_rate_limits w')" using b(1) bi by (auto simp: w' set_update_rows)
  show "requests_in k s (w_rate_limits w') = requests_in k s (w_rate_limits w) + (if same_bucket k input \<and> s = start then 1 else 0)"
  proof (cases "same_bucket k input \<and> s = start")
    case True
    then have k: "in_bucket k s b" using b(2) by (auto simp: in_bucket_def same_bucket_def)
    then show ?thesis
      using buckets_find(1) [OF ok b(1) k] buckets_find(1) [OF ok' b'] True by (simp add: requests_in_def)
  next
    case False
    have "\<not> in_bucket k s q" if q: "q \<in> set (w_rate_limits w)" "rlb_id q = bucket_id input start" for q
    proof -
      have "q = b" using ok q bi b(1) buckets.same_key [of w q b] by (simp add: buckets_ok_def)
      then show ?thesis using False b(2) by (auto simp: in_bucket_def same_bucket_def)
    qed
    then have "List.find (in_bucket k s) (w_rate_limits w') = List.find (in_bucket k s) (w_rate_limits w)"
      unfolding w' by (intro find_update_unmatched) auto
    then show ?thesis using False by (simp add: requests_in_def)
  qed
qed

text \<open>One call: its count is one more than the requests of its window so far, the clean-up deletes
  neither this window nor any other one that is not older than the retention.\<close>

lemma consumeRateLimit_step:
  assumes run: "consumeRateLimit input w = Inr (r, w')" and ok: "buckets_ok w" and now: "rl_now input = Some now"
  defines "start \<equiv> rate_window_start (num_val (rl_windowSeconds input)) now"
  shows "buckets_ok w'" "rr_count r = requests_in input start (w_rate_limits w) + 1"
    "rr_allowed r \<longleftrightarrow> rr_count r \<le> num_val (rl_limit input)"
    "now - RATE_LIMIT_RETENTION_SECONDS * 1000 \<le> s \<Longrightarrow>
       requests_in k s (w_rate_limits w') = requests_in k s (w_rate_limits w) + (if same_bucket k input \<and> s = start then 1 else 0)"
    "start \<le> now" "now < rr_retryAt r" "rr_retryAt r = start + num_val (rl_windowSeconds input) * 1000"
    "now - RATE_LIMIT_RETENTION_SECONDS * 1000 \<le> start"
proof -
  let ?cut = "now - RATE_LIMIT_RETENTION_SECONDS * 1000"
  obtain w0 w1 t w2 u w3 where c: "check_rate_input input w = Inr ((), w0)"
    and o: "open_bucket input start w0 = Inr ((), w1)" and t: "new_date w1 = Inr (t, w2)"
    and up: "update_one_tx ''rate_limit_buckets'' w_rate_limits w_rate_limits_update (\<lambda>b. rlb_id b = bucket_id input start)
        (count_request t) w2 = Inr (u, w3)"
    and cl: "clean_buckets ?cut w3 = Inr ((), w')"
    and r: "r = \<lparr>rr_allowed = (rlb_requestCount u \<le> num_val (rl_limit input)),
       rr_count = rlb_requestCount u, rr_retryAt = start + num_val (rl_windowSeconds input) * 1000\<rparr>"
    using run now unfolding consumeRateLimit_def Let_def start_def now_or_clock_def
    by (auto simp: bind_tx_Inr_iff return_tx_apply)
  obtain b where f: "List.find (\<lambda>b. rlb_id b = bucket_id input start) (w_rate_limits w1) = Some b" and u: "u = count_request t b"
    and w3: "w_rate_limits w3 = update_rows (\<lambda>b. rlb_id b = bucket_id input start) (count_request t) (w_rate_limits w1)"
    using up t by (auto simp: update_one_tx_Inr_iff new_date_apply)
  note inp = check_rate_input_Inr [OF c]
  have ok0: "buckets_ok w0" and w0: "w_rate_limits w0 = w_rate_limits w" using ok inp by auto
  obtain q where q: "q \<in> set (w_rate_limits w1)" "in_bucket input start q" using open_bucket_Inr(2) [OF o ok0] by blast
  have ok1: "buckets_ok w1" by (rule open_bucket_Inr(1) [OF o ok0])
  have bq: "b = q" using buckets_find(2) [OF ok1 q] f by simp
  have ok3: "buckets_ok w3" by (rule counted_requests(1) [OF ok1 q w3])
  show "buckets_ok w'" by (rule clean_buckets_Inr(1) [OF cl ok3])
  show "rr_count r = requests_in input start (w_rate_limits w) + 1"
    using open_bucket_Inr(3) [OF o ok0, of input start] buckets_find(1) [OF ok1 q] by (simp add: r u bq requests_in_def w0)
  show "rr_allowed r \<longleftrightarrow> rr_count r \<le> num_val (rl_limit input)" by (simp add: r)
  show "requests_in k s (w_rate_limits w') = requests_in k s (w_rate_limits w) + (if same_bucket k input \<and> s = start then 1 else 0)"
    if "?cut \<le> s"
    using clean_buckets_Inr(2) [OF cl ok3 that, of k] counted_requests(2) [OF ok1 q w3, of k s] open_bucket_Inr(3) [OF o ok0, of k s]
    by (simp add: w0)
  show "start \<le> now" "now < rr_retryAt r" using rate_window_bounds inp by (simp_all add: start_def r)
  show "rr_retryAt r = start + num_val (rl_windowSeconds input) * 1000" by (simp add: r)
  show "?cut \<le> start" using rate_window_bounds(2) [of "num_val (rl_windowSeconds input)" now] inp
    by (simp add: start_def RATE_LIMIT_RETENTION_SECONDS_def RATE_LIMIT_MAX_WINDOW_SECONDS_def)
qed

text \<open>A sequence of calls, with the ones that count in the window of \<open>k\<close> that starts at \<open>s\<close>.\<close>

definition counts_in :: "RateLimitInput \<Rightarrow> int \<Rightarrow> RateLimitInput \<Rightarrow> bool" where
  "counts_in k s input \<longleftrightarrow> same_bucket k input \<and>
     (case rl_now input of None \<Rightarrow> False | Some now \<Rightarrow> rate_window_start (num_val (rl_windowSeconds input)) now = s)"

definition within_retention :: "int \<Rightarrow> RateLimitInput \<Rightarrow> bool" where
  "within_retention s input \<longleftrightarrow>
     (case rl_now input of None \<Rightarrow> False | Some now \<Rightarrow> now \<le> s + RATE_LIMIT_RETENTION_SECONDS * 1000)"

definition results_in :: "RateLimitInput \<Rightarrow> int \<Rightarrow> RateLimitInput list \<Rightarrow> RateLimitResult list \<Rightarrow> RateLimitResult list" where
  "results_in k s inputs rs = map snd (filter (\<lambda>(input, r). counts_in k s input) (zip inputs rs))"

lemma consume_sequence:
  assumes "map_tx consumeRateLimit inputs w = Inr (rs, w')" "buckets_ok w"
    and "\<forall>input \<in> set inputs. within_retention s input"
  shows "map rr_count (results_in k s inputs rs) =
     map (\<lambda>i. requests_in k s (w_rate_limits w) + 1 + int i) [0..<length (results_in k s inputs rs)]"
  using assms
proof (induction inputs arbitrary: w rs)
  case Nil
  then show ?case by (simp add: results_in_def)
next
  case (Cons input inputs)
  obtain r w1 rs' where r: "consumeRateLimit input w = Inr (r, w1)" "map_tx consumeRateLimit inputs w1 = Inr (rs', w')" "rs = r # rs'"
    using Cons.prems(1) by (auto simp: tx_simps)
  obtain now where now: "rl_now input = Some now" "now \<le> s + RATE_LIMIT_RETENTION_SECONDS * 1000"
    using Cons.prems(3) by (auto simp: within_retention_def split: option.splits)
  note st = consumeRateLimit_step [OF r(1) Cons.prems(2) now(1)]
  let ?c = "\<lambda>w. requests_in k s (w_rate_limits w)"
  have IH: "map rr_count (results_in k s inputs rs') = map (\<lambda>i. ?c w1 + 1 + int i) [0..<length (results_in k s inputs rs')]"
    using Cons.IH [OF r(2) st(1)] Cons.prems(3) by simp
  have c1: "?c w1 = ?c w + (if counts_in k s input then 1 else 0)"
    using st(4) [of s k] now by (auto simp: counts_in_def)
  show ?case
  proof (cases "counts_in k s input")
    case True
    then have "in_bucket input s = in_bucket k s" by (auto simp: counts_in_def same_bucket_def in_bucket_def fun_eq_iff)
    then have "rr_count r = ?c w + 1" using st(2) True now(1) by (simp add: counts_in_def requests_in_def)
    then show ?thesis
      using IH True c1 by (simp add: r(3) results_in_def upt_conv_Cons map_Suc_upt [symmetric] del: upt_Suc)
  next
    case False
    then show ?thesis using IH c1 by (simp add: r(3) results_in_def)
  qed
qed

lemma consume_sequence_allowed:
  assumes "map_tx consumeRateLimit inputs w = Inr (rs, w')" "buckets_ok w" "\<forall>input \<in> set inputs. rl_now input \<noteq> None"
    and "\<forall>input \<in> set inputs. counts_in k s input \<longrightarrow> num_val (rl_limit input) = limit"
  shows "\<forall>r \<in> set (results_in k s inputs rs). rr_allowed r \<longleftrightarrow> rr_count r \<le> limit"
  using assms
proof (induction inputs arbitrary: w rs)
  case Nil
  then show ?case by (simp add: results_in_def)
next
  case (Cons input inputs)
  obtain r w1 rs' where r: "consumeRateLimit input w = Inr (r, w1)" "map_tx consumeRateLimit inputs w1 = Inr (rs', w')" "rs = r # rs'"
    using Cons.prems(1) by (auto simp: tx_simps)
  obtain now where now: "rl_now input = Some now" using Cons.prems(3) by auto
  note st = consumeRateLimit_step [OF r(1) Cons.prems(2) now]
  have "\<forall>r \<in> set (results_in k s inputs rs'). rr_allowed r \<longleftrightarrow> rr_count r \<le> limit"
    using Cons.IH [OF r(2) st(1)] Cons.prems(3,4) by simp
  then show ?case using st(3) Cons.prems(4) by (auto simp: r(3) results_in_def)
qed

section \<open>A page of the history\<close>

abbreviation descending :: "('a \<Rightarrow> int) \<Rightarrow> 'a list \<Rightarrow> bool" where
  "descending time xs \<equiv> sorted_wrt (\<lambda>x y. time y \<le> time x) xs"

lemma set_insert_by [simp]: "set (insert_by cmp x ys) = insert x (set ys)"
  by (induction ys) auto

lemma sort_by_descending:
  assumes before: "\<And>x y. cmp x y \<le> 0 \<Longrightarrow> time y \<le> time x" and after: "\<And>x y. 0 < cmp x y \<Longrightarrow> time x \<le> time y"
  shows "descending time (sort_by cmp xs)"
proof -
  have "descending time (insert_by cmp x ys)" if "descending time ys" for x ys
    using that
  proof (induction ys)
    case (Cons y ys)
    then show ?case
      by (cases "cmp x y \<le> 0") (auto simp: not_le dest: before after order_trans)
  qed simp
  then show ?thesis by (induction xs) (simp_all add: sort_by_def)
qed

lemma history_sorted: "descending hi_occurredAt (sort_by (history_compare loc) xs)"
  by (rule sort_by_descending) (auto simp: history_compare_def Let_def split: if_splits)

lemma order_key_time: "OrderKey t i \<le> OrderKey u j \<Longrightarrow> t \<le> u"
  by auto

lemma newest_descending: "descending time (newest time i rows)"
proof -
  have "sorted_wrt (\<lambda>x y. OrderKey (time x) (i x) \<le> OrderKey (time y) (i y)) (sort_key (\<lambda>r. OrderKey (time r) (i r)) rows)"
    using sorted_sort_key [of "\<lambda>r. OrderKey (time r) (i r)" rows] by (simp add: sorted_wrt_map)
  then show ?thesis unfolding newest_def sorted_wrt_rev by (rule sorted_wrt_mono_rel [rotated]) (auto dest: order_key_time)
qed

lemma set_newest [simp]: "set (newest time i rows) = set rows"
  by (simp add: newest_def)

text \<open>The first entries of a descending list are those above a bound, when there are enough of them.\<close>

lemma descending_take:
  assumes "descending time xs" "n \<le> length (filter (\<lambda>x. t \<le> time x) xs)" "x \<in> set (take n xs)"
  shows "t \<le> time x"
  using assms
proof (induction xs arbitrary: n)
  case (Cons y ys)
  show ?case
  proof (cases "t \<le> time y")
    case True
    then show ?thesis using Cons.prems Cons.IH [of "n - 1"] by (cases n) auto
  next
    case False
    then have "filter (\<lambda>x. t \<le> time x) ys = []" using Cons.prems(1) by (auto simp: filter_empty_conv dest: order_trans)
    then show ?thesis using Cons.prems False by simp
  qed
qed simp

lemma descending_dropped:
  assumes "descending time xs" "x \<in> set xs" "x \<notin> set (take n xs)" "y \<in> set (take n xs)"
  shows "time x \<le> time y"
proof -
  have "x \<in> set (drop n xs)" using assms(2,3) by (metis UnE append_take_drop_id set_append)
  moreover have "descending time (take n xs @ drop n xs)" using assms(1) by simp
  ultimately show ?thesis using assms(4) unfolding sorted_wrt_append by blast
qed

lemma take_all_above:
  assumes "descending time xs" "x \<in> set xs" "x \<notin> set (take n xs)"
  shows "length (filter (\<lambda>y. time x \<le> time y) (take n xs)) = n"
proof -
  have "n \<le> length xs" using assms(2,3) by (metis nle_le take_all)
  moreover have "filter (\<lambda>y. time x \<le> time y) (take n xs) = take n xs"
    using descending_dropped [OF assms] by (simp add: filter_id_conv)
  ultimately show ?thesis by simp
qed

text \<open>Merging the first \<open>n\<close> entries of two descending lists gives the newest \<open>n\<close> entries of both.\<close>

lemma merged_page:
  assumes xs: "descending time xs" and ys: "descending time ys"
    and zs: "descending time zs" "mset zs = mset (take n xs @ take n ys)"
  shows "set (take n zs) \<subseteq> set (xs @ ys)" "length (take n zs) = min n (length (xs @ ys))"
    "e \<in> set (xs @ ys) \<Longrightarrow> e \<notin> set (take n zs) \<Longrightarrow> p \<in> set (take n zs) \<Longrightarrow> time e \<le> time p"
    "length (take n zs) < n \<Longrightarrow> set (take n zs) = set (xs @ ys)"
proof -
  have sz: "set zs = set (take n xs) \<union> set (take n ys)" using zs(2) by (metis set_append set_mset_mset)
  have lz: "length zs = min n (length xs) + min n (length ys)" using arg_cong [OF zs(2), of size] by (simp add: min.commute)
  show "set (take n zs) \<subseteq> set (xs @ ys)" using sz by (auto dest!: in_set_takeD)
  show len: "length (take n zs) = min n (length (xs @ ys))" using lz by simp
  show "set (take n zs) = set (xs @ ys)" if "length (take n zs) < n"
  proof -
    have "length xs \<le> n" "length ys \<le> n" "length zs \<le> n" using that lz by auto
    then show ?thesis using sz by simp
  qed
  assume e: "e \<in> set (xs @ ys)" "e \<notin> set (take n zs)" and p: "p \<in> set (take n zs)"
  have count: "length (filter P zs) = length (filter P (take n xs)) + length (filter P (take n ys))" for P
    using arg_cong [OF zs(2), of "\<lambda>m. size (filter_mset P m)"] by (metis length_append filter_append mset_filter size_mset)
  show "time e \<le> time p"
  proof (cases "e \<in> set zs")
    case True
    then show ?thesis using descending_dropped [OF zs(1) _ e(2) p] by blast
  next
    case False
    then have "(e \<in> set xs \<and> e \<notin> set (take n xs)) \<or> (e \<in> set ys \<and> e \<notin> set (take n ys))" using e(1) sz by auto
    then have "n \<le> length (filter (\<lambda>y. time e \<le> time y) zs)"
      using take_all_above [OF xs, of e n] take_all_above [OF ys, of e n] count by fastforce
    then show ?thesis using descending_take [OF zs(1) _ p] by blast
  qed
qed

definition history_entries :: "string \<Rightarrow> (int \<times> string) option \<Rightarrow> world \<Rightarrow> V2HistoryRecord list" where
  "history_entries accountId cursor w = map (outgoing_history w) (history_payments accountId cursor w) @
     map incoming_history (history_incoming accountId cursor w)"

lemma history_page:
  assumes run: "listHistory loc accountId limit cursor w = Inr (shown, w')"
  defines "all \<equiv> history_entries accountId cursor w"
  shows "w' = w" "descending hi_occurredAt shown" "set shown \<subseteq> set all" "length shown = min limit (length all)"
    "e \<in> set all \<Longrightarrow> e \<notin> set shown \<Longrightarrow> p \<in> set shown \<Longrightarrow> hi_occurredAt e \<le> hi_occurredAt p"
    "length shown < limit \<Longrightarrow> set shown = set all"
proof -
  let ?xs = "map (outgoing_history w) (history_payments accountId cursor w)"
  let ?ys = "map incoming_history (history_incoming accountId cursor w)"
  let ?zs = "sort_by (history_compare loc) (take limit ?xs @ take limit ?ys)"
  have shown: "shown = take limit ?zs" and w': "w' = w" using run by (auto simp: listHistory_def tx_simps take_map)
  have xs: "descending hi_occurredAt ?xs" "descending hi_occurredAt ?ys"
    using newest_descending by (auto simp: sorted_wrt_map history_payments_def history_incoming_def outgoing_history_def incoming_history_def)
  note m = merged_page [OF xs history_sorted [of loc "take limit ?xs @ take limit ?ys"] mset_sort_by, folded shown]
  have all: "?xs @ ?ys = all" by (simp add: all_def history_entries_def)
  show "descending hi_occurredAt shown" unfolding shown using history_sorted [of loc] by (rule sorted_wrt_take)
  show "w' = w" by (rule w')
  show "set shown \<subseteq> set all" "length shown = min limit (length all)" using m(1,2) by (simp_all only: all)
  show "e \<in> set all \<Longrightarrow> e \<notin> set shown \<Longrightarrow> p \<in> set shown \<Longrightarrow> hi_occurredAt e \<le> hi_occurredAt p"
    using m(3) by (simp only: all)
  show "length shown < limit \<Longrightarrow> set shown = set all" using m(4) by (simp only: all)
qed

end
