(* ===== verification/Control_Plane.thy ===== *)
theory Control_Plane
  imports Operator_Exceptions
begin

text \<open>
  Platform costs, restore verifications and the health of the deployment,
  \<^verbatim>\<open>packages/db/src/v2-operations.ts\<close>. A record that the source returns unchanged
  (\<^verbatim>\<open>toCostRecord\<close>, \<^verbatim>\<open>toBackupRecord\<close>) is the row itself.
\<close>

section \<open>Platform costs\<close>

record CostEstimate =
  ce_id :: string
  ce_accountId :: string
  ce_paymentId :: "string option"
  ce_attemptId :: "string option"
  ce_assetId :: string
  ce_estimatedAmount :: int

definition cost_row_of :: "CostEstimate \<Rightarrow> int \<Rightarrow> cost_row" where
  "cost_row_of input now =
     \<lparr>pcr_id = ce_id input, pcr_accountId = ce_accountId input, pcr_paymentId = ce_paymentId input,
      pcr_attemptId = ce_attemptId input, pcr_assetId = ce_assetId input, pcr_estimatedAmount = ce_estimatedAmount input,
      pcr_actualAmount = None, pcr_reconciliationStatus = ''ESTIMATED'', pcr_observedAt = None,
      pcr_createdAt = now, pcr_updatedAt = now\<rparr>"

definition same_estimate :: "CostEstimate \<Rightarrow> cost_row \<Rightarrow> bool" where
  "same_estimate input c \<longleftrightarrow> pcr_accountId c = ce_accountId input \<and> pcr_paymentId c = ce_paymentId input \<and>
     pcr_attemptId c = ce_attemptId input \<and> pcr_assetId c = ce_assetId input \<and>
     pcr_estimatedAmount c = ce_estimatedAmount input"

definition cost_members :: "cost_row \<Rightarrow> (string \<times> json) list" where
  "cost_members c = [(''payment_id'', json_opt (pcr_paymentId c)), (''attempt_id'', json_opt (pcr_attemptId c)),
     (''asset_id'', JStr (pcr_assetId c)), (''estimated_amount'', JStr (int_to_string (pcr_estimatedAmount c)))]"

definition create_cost :: "CostEstimate \<Rightarrow> cost_row tx" where
  "create_cost input =
     bind_tx new_date (\<lambda>now.
     bind_tx (insert_tx ''platform_cost_records'' w_costs w_costs_update (\<lambda>r q. pcr_id q = pcr_id r)
        (cost_row_of input now)) (\<lambda>created.
     bind_tx (control_event (Some (pcr_accountId created)) ''PLATFORM_COST'' (pcr_id created) ''PLATFORM_COST_ESTIMATED''
        ''SYSTEM'' None None ''V2_COST_RECONCILIATION'' (Some (pcr_createdAt created)) None
        (Some (cost_members created @ [(''reconciliation_status'', JStr (pcr_reconciliationStatus created))]))) (\<lambda>_.
     return_tx created)))"

definition createPlatformCostEstimate :: "CostEstimate \<Rightarrow> cost_row tx" where
  "createPlatformCostEstimate input =
     bind_tx (find_tx w_costs (\<lambda>c. pcr_id c = ce_id input)) (\<lambda>existing.
     case existing of
       Some c \<Rightarrow>
         bind_tx (throw_if_tx (\<not> same_estimate input c)
           (DomainErr (ConflictError ''Platform cost estimate identity changed''))) (\<lambda>_.
         return_tx c)
     | None \<Rightarrow> create_cost input)"

definition costImmutable :: js_error where
  "costImmutable = DomainErr (ConflictError ''Platform cost actual amount is immutable'')"

definition unreconciled :: "string \<Rightarrow> cost_row \<Rightarrow> bool" where
  "unreconciled i c \<longleftrightarrow> pcr_id c = i \<and> pcr_actualAmount c = None"

definition reconcile_data :: "int \<Rightarrow> int \<Rightarrow> int \<Rightarrow> cost_row \<Rightarrow> cost_row" where
  "reconcile_data actual observedAt now c =
     c\<lparr>pcr_actualAmount := Some actual, pcr_reconciliationStatus := ''RECONCILED'',
       pcr_observedAt := Some observedAt, pcr_updatedAt := now\<rparr>"

definition announce_reconciled :: "cost_row \<Rightarrow> int \<Rightarrow> unit tx" where
  "announce_reconciled c observedAt =
     control_event (Some (pcr_accountId c)) ''PLATFORM_COST'' (pcr_id c) ''PLATFORM_COST_RECONCILED'' ''SYSTEM'' None None
       ''V2_COST_RECONCILIATION'' (Some (case pcr_observedAt c of None \<Rightarrow> observedAt | Some t \<Rightarrow> t)) None
       (Some (cost_members c @ [(''actual_amount'', json_opt (map_option int_to_string (pcr_actualAmount c))),
         (''reconciliation_status'', JStr (pcr_reconciliationStatus c))]))"

definition reconcilePlatformCost_record :: "string \<Rightarrow> int \<Rightarrow> int \<Rightarrow> cost_row tx" where
  "reconcilePlatformCost_record i actual observedAt =
     bind_tx (find_tx w_costs (\<lambda>c. pcr_id c = i)) (\<lambda>existing.
     case existing of
       None \<Rightarrow> throw_tx (DomainErr (NotFoundError ''Platform cost record was not found''))
     | Some c \<Rightarrow>
         (case pcr_actualAmount c of
            Some amount \<Rightarrow> bind_tx (throw_if_tx (amount \<noteq> actual) costImmutable) (\<lambda>_. return_tx c)
          | None \<Rightarrow>
              bind_tx new_date (\<lambda>now.
              bind_tx (update_many_tx w_costs w_costs_update (unreconciled (pcr_id c)) (reconcile_data actual observedAt now)) (\<lambda>count.
              bind_tx (find_or_throw_tx ''platform_cost_records'' w_costs (\<lambda>q. pcr_id q = pcr_id c)) (\<lambda>row.
              if count = 1 then bind_tx (announce_reconciled row observedAt) (\<lambda>_. return_tx row)
              else bind_tx (throw_if_tx (pcr_actualAmount row \<noteq> Some actual) costImmutable) (\<lambda>_. return_tx row))))))"

section \<open>Restore verifications\<close>

record BackupStart =
  bs_id :: string
  bs_backupReference :: string
  bs_environment :: string
  bs_schemaVersion :: string
  bs_custodyIdentity :: "string option"

definition backup_row_of :: "BackupStart \<Rightarrow> int \<Rightarrow> backup_row" where
  "backup_row_of input now =
     \<lparr>bkp_id = bs_id input, bkp_backupReference = bs_backupReference input, bkp_environment = bs_environment input,
      bkp_status = ''RUNNING'', bkp_schemaVersion = bs_schemaVersion input, bkp_invariantSummaryJson = ''{}'',
      bkp_custodyIdentity = bs_custodyIdentity input, bkp_verifiedAt = None, bkp_failureSafe = None, bkp_createdAt = now\<rparr>"

definition createBackupVerification :: "BackupStart \<Rightarrow> backup_row tx" where
  "createBackupVerification input =
     bind_tx new_date (\<lambda>now.
     bind_tx (insert_tx ''backup_restore_verifications'' w_backups w_backups_update (\<lambda>r q. bkp_id q = bkp_id r)
        (backup_row_of input now)) (\<lambda>created.
     bind_tx (control_event None ''RESTORE_VERIFICATION'' (bkp_id created) ''RESTORE_VERIFICATION_STARTED'' ''SYSTEM'' None
        None ''V2_BACKUP_CONTROL_PLANE'' (Some (bkp_createdAt created)) None
        (Some [(''backup_reference'', JStr (bkp_backupReference created)), (''environment'', JStr (bkp_environment created)),
          (''schema_version'', JStr (bkp_schemaVersion created)),
          (''custody_identity_present'', JBool (bkp_custodyIdentity created \<noteq> None))])) (\<lambda>_.
     return_tx created)))"

datatype BackupOutcome = VERIFIED | FAILED

definition backup_outcome_name :: "BackupOutcome \<Rightarrow> string" where
  "backup_outcome_name s = (case s of VERIFIED \<Rightarrow> ''VERIFIED'' | FAILED \<Rightarrow> ''FAILED'')"

record BackupFinish =
  bf_id :: string
  bf_status :: BackupOutcome
  bf_invariantSummaryJson :: string
  bf_failureSafe :: "string option"
  bf_verifiedAt :: "int option"

definition finish_backup_data :: "BackupFinish \<Rightarrow> backup_row \<Rightarrow> backup_row" where
  "finish_backup_data input b =
     b\<lparr>bkp_status := backup_outcome_name (bf_status input), bkp_invariantSummaryJson := bf_invariantSummaryJson input,
       bkp_failureSafe := set_col (bf_failureSafe input) (bkp_failureSafe b),
       bkp_verifiedAt := set_col (bf_verifiedAt input) (bkp_verifiedAt b)\<rparr>"

definition finishBackupVerification :: "BackupFinish \<Rightarrow> backup_row tx" where
  "finishBackupVerification input =
     bind_tx (update_one_tx ''backup_restore_verifications'' w_backups w_backups_update (\<lambda>b. bkp_id b = bf_id input)
        (finish_backup_data input)) (\<lambda>updated.
     bind_tx (control_event None ''RESTORE_VERIFICATION'' (bkp_id updated)
        (if bkp_status updated = ''VERIFIED'' then ''RESTORE_VERIFICATION_PASSED'' else ''RESTORE_VERIFICATION_FAILED'')
        ''SYSTEM'' None None ''V2_BACKUP_CONTROL_PLANE'' (bkp_verifiedAt updated) None
        (Some [(''status'', JStr (bkp_status updated)), (''backup_reference'', JStr (bkp_backupReference updated)),
          (''environment'', JStr (bkp_environment updated)),
          (''invariant_summary_present'', JBool (bkp_invariantSummaryJson updated \<noteq> [])),
          (''failure_present'', JBool (bkp_failureSafe updated \<noteq> None))])) (\<lambda>_.
     return_tx updated))"

definition newest_backup :: "world \<Rightarrow> backup_row option" where
  "newest_backup w = (case rev (sort_key (\<lambda>b. OrderKey (bkp_createdAt b) (bkp_id b)) (w_backups w)) of
     [] \<Rightarrow> None | b # _ \<Rightarrow> Some b)"

definition findLatestBackupVerification :: "backup_row option tx" where
  "findLatestBackupVerification = gets_tx newest_backup"

section \<open>Health\<close>

record V2DomainHealthInput =
  dh_expectedRuntimeIdentity :: "string option"
  dh_databaseCapacityPerWindow :: "int option"
  dh_capacityWindowSeconds :: "int option"

text \<open>The smaller of one and the quotient of two numbers; \<open>NotANumber\<close> is zero divided by zero. The
  exact quotient stands for the floating-point one.\<close>

datatype ratio = Quotient int int | One | NotANumber

definition capped_quotient :: "int \<Rightarrow> int \<Rightarrow> ratio" where
  "capped_quotient n d =
     (if d = 0 then (if n = 0 then NotANumber else if n > 0 then One else Quotient n d)
      else if (d > 0 \<and> n \<ge> d) \<or> (d < 0 \<and> n \<le> d) then One else Quotient n d)"

record V2DomainHealth =
  hl_reviewRequiredPayments :: nat
  hl_oldestReviewRequiredAgeSeconds :: "int option"
  hl_oldestWorkItemAgeSeconds :: "int option"
  hl_exhaustedIncomingIssues :: nat
  hl_custodyFailures :: nat
  hl_databaseSaturationRatio :: "ratio option"
  hl_pendingWebhookDeliveries :: nat
  hl_restoreVerificationFailed :: bool
  hl_runtimeIdentityMismatch :: bool

definition oldest :: "('r \<Rightarrow> int) \<Rightarrow> 'r list \<Rightarrow> 'r option" where
  "oldest time rows = (case sort_key time rows of [] \<Rightarrow> None | r # _ \<Rightarrow> Some r)"

definition ageSeconds :: "int option \<Rightarrow> int option tx" where
  "ageSeconds timestamp = (case timestamp of
     None \<Rightarrow> return_tx None
   | Some t \<Rightarrow> bind_tx new_date (\<lambda>now. return_tx (Some (max 0 ((now - t) div 1000)))))"

fun contains :: "string \<Rightarrow> string \<Rightarrow> bool" where
  "contains pat [] \<longleftrightarrow> pat = []"
| "contains pat (c # s) \<longleftrightarrow> take (length pat) (c # s) = pat \<or> contains pat s"

definition capacity_bucket :: "V2DomainHealthInput \<Rightarrow> int \<Rightarrow> world \<Rightarrow> rate_row option" where
  "capacity_bucket input now w = (case (dh_databaseCapacityPerWindow input, dh_capacityWindowSeconds input) of
     (Some _, Some seconds) \<Rightarrow> List.find (\<lambda>b. rlb_subjectType b = ''RUNTIME_CAPACITY'' \<and> rlb_subjectId b = ''global'' \<and>
       rlb_bucket b = ''database'' \<and> rlb_windowStartedAt b = now div (seconds * 1000) * seconds * 1000) (w_rate_limits w)
   | _ \<Rightarrow> None)"

definition runtime_mismatch :: "V2DomainHealthInput \<Rightarrow> world \<Rightarrow> bool" where
  "runtime_mismatch input w = (case dh_expectedRuntimeIdentity input of
     None \<Rightarrow> False
   | Some expected \<Rightarrow> (case List.find (\<lambda>m. rtm_key m = ''runtime_identity'') (w_metadata w) of
       None \<Rightarrow> False | Some m \<Rightarrow> rtm_value m \<noteq> expected))"

text \<open>A capacity window of zero seconds makes an invalid date, which the database client refuses.\<close>

definition getDomainHealth :: "V2DomainHealthInput \<Rightarrow> V2DomainHealth tx" where
  "getDomainHealth input =
     bind_tx new_date (\<lambda>now.
     bind_tx (throw_if_tx (dh_databaseCapacityPerWindow input \<noteq> None \<and> dh_capacityWindowSeconds input = Some 0) RangeError) (\<lambda>_.
     bind_tx (gets_tx id) (\<lambda>w.
     bind_tx (ageSeconds (map_option pay_updatedAt (oldest pay_updatedAt
        (filter (\<lambda>p. pay_status p = PS_REVIEW_REQUIRED) (w_payments w))))) (\<lambda>reviewAge.
     bind_tx (ageSeconds (map_option wi_updatedAt (oldest wi_updatedAt
        (filter (\<lambda>i. wi_status i \<in> {''AVAILABLE'', ''CLAIMED'', ''RETRY_WAIT''}) (w_works w))))) (\<lambda>workAge.
     return_tx
       \<lparr>hl_reviewRequiredPayments = length (filter (\<lambda>p. pay_status p = PS_REVIEW_REQUIRED) (w_payments w)),
        hl_oldestReviewRequiredAgeSeconds = reviewAge, hl_oldestWorkItemAgeSeconds = workAge,
        hl_exhaustedIncomingIssues = length (filter (\<lambda>i. iri_status i = II_EXHAUSTED) (w_issues w)),
        hl_custodyFailures = length (filter (\<lambda>x. opx_status x \<in> {''OPEN'', ''ACKNOWLEDGED''} \<and>
          contains ''CUSTODY'' (opx_detailsJson x)) (w_exceptions w)),
        hl_databaseSaturationRatio = (case (capacity_bucket input now w, dh_databaseCapacityPerWindow input) of
          (Some b, Some capacity) \<Rightarrow> Some (capped_quotient (rlb_requestCount b) capacity) | _ \<Rightarrow> None),
        hl_pendingWebhookDeliveries = length (filter (\<lambda>d. dlv_status d \<in> {''AVAILABLE'', ''RETRY_WAIT'', ''CLAIMED''})
          (w_deliveries w)),
        hl_restoreVerificationFailed = (case newest_backup w of None \<Rightarrow> False | Some b \<Rightarrow> bkp_status b = ''FAILED''),
        hl_runtimeIdentityMismatch = runtime_mismatch input w\<rparr>)))))"

section \<open>What the operations write\<close>

interpretation costs: keyed_table w_costs w_costs_update pcr_id
  by unfold_locales simp

lemma cost_outputs: "outputs_frame w_control"
  by (simp add: outputs_frame_def)

lemma announce_reconciled_preserves: "preserves w_control (announce_reconciled c t)"
  unfolding announce_reconciled_def by (intro frame_intros; simp add: cost_outputs)

lemma reconcile_rows:
  assumes run: "reconcilePlatformCost_record i actual t w = Inr (r, w')" and d: "distinct (map pcr_id (w_costs w))"
  obtains c now where "c \<in> set (w_costs w)" "pcr_id c = i"
    "(pcr_actualAmount c = Some actual \<and> r = c \<and> w' = w) \<or>
     (pcr_actualAmount c = None \<and> r = reconcile_data actual t now c \<and>
      w_costs w' = update_rows (unreconciled i) (reconcile_data actual t now) (w_costs w))"
proof -
  obtain c where f: "List.find (\<lambda>c. pcr_id c = i) (w_costs w) = Some c"
    using run by (auto simp: reconcilePlatformCost_record_def tx_simps split: option.split_asm)
  have c: "c \<in> set (w_costs w)" "pcr_id c = i" using find_SomeD [OF f] by auto
  show thesis
  proof (cases "pcr_actualAmount c")
    case (Some amount)
    then show thesis
      using that [OF c] run f by (auto simp: reconcilePlatformCost_record_def tx_simps)
  next
    case None
    let ?now = "w_clock w (w_ticks w)"
    let ?rows = "update_rows (unreconciled i) (reconcile_data actual t ?now) (w_costs w)"
    let ?r = "reconcile_data actual t ?now c"
    have u: "unreconciled i c" using None c(2) by (simp add: unreconciled_def)
    have d': "distinct (map pcr_id ?rows)" using d by (subst map_update_rows) (simp_all add: reconcile_data_def)
    have r: "?r \<in> set ?rows" using c(1) u by (auto simp: set_update_rows)
    have fr: "List.find (\<lambda>q. pcr_id q = i) ?rows = Some ?r"
      using costs.find_unique [of "w_costs_update (\<lambda>_. ?rows) w" ?r] d' r c(2) by (simp add: reconcile_data_def)
    have "r = ?r \<and> w_costs w' = ?rows"
      using run f None c(2) fr
      by (auto simp: reconcilePlatformCost_record_def tx_simps split: if_split_asm dest!: preservesD [OF announce_reconciled_preserves])
    then show thesis using that [OF c] None by blast
  qed
qed

end
