(* ===== verification/Control_Properties.thy ===== *)
theory Control_Properties
  imports Policy_Administration Custody_Limits Control_Plane Sample_World
begin

text \<open>
  What the operator's control plane promises: provisioning is idempotent, a rotation replaces a
  credential in one step, a recovery envelope is handed out once, an account has at most one active
  policy, the rate limiter admits exactly its limit, a page of the history misses nothing newer, and a
  reconciled cost is final. Each property is followed by a witness.
\<close>

section \<open>Accounts and credentials\<close>

text \<open>Provisioning an account is idempotent: repeating the request returns the same account, the same
  credential and the same envelope, marked as not created, and writes nothing; another request with the same
  key fails with an idempotency conflict. The new account does not create payments yet.\<close>

theorem provisioning_idempotent:
  assumes "provisionAccount input w = Inr (r, w')" "pa_created r"
  shows "provisionAccount input w' = Inr (r\<lparr>pa_created := False\<rparr>, w') \<and>
    (\<forall>other. pv_idempotencyKey other = pv_idempotencyKey input \<longrightarrow> pv_requestHash other \<noteq> pv_requestHash input \<longrightarrow>
       provisionAccount other w' = Inl idempotencyConflict) \<and>
    (\<forall>payment. ci_accountId payment = pv_accountId input \<longrightarrow>
       createV2Payment payment w' = Inl (DomainErr (InvalidStateError ''Agent account is not active'')))"
proof -
  obtain c i where x: "provisioned_rows input (pa_account r) c (pa_recoveryEnvelope r) i"
    "List.find (\<lambda>a. acc_id a = pv_accountId input) (w_accounts w') = Some (pa_account r)"
    by (rule provisioned_found [OF assms])
  then have "acc_status (pa_account r) \<noteq> AA_ACTIVE" by (simp add: provisioned_rows_def)
  then show ?thesis
    using provisioning_replayed [OF assms] inactive_account_cannot_pay [of _ w' "pa_account r"] x(2) by simp
qed

definition sample_secret :: RecoverySecret where
  "sample_secret = \<lparr>rs_idempotencyKey = ''prov'', rs_ciphertext = ''c'', rs_nonce = ''n'', rs_authTag = ''t'', rs_expiresAt = 900\<rparr>"

definition provision_input :: ProvisionInput where
  "provision_input = \<lparr>pv_requestHash = ''h'', pv_accountId = ''new'', pv_name = ''bot'', pv_solanaPublicKey = ''pk'',
     pv_encryptedSolanaSecret = ''s'', pv_encryptionNonce = ''n'', pv_encryptionAuthTag = ''t'', pv_credentialId = ''cr'',
     pv_keyHash = ''kh'', pv_keyPrefix = ''kp'', pv_scopes = [''payments:read''], pv_recovery = sample_secret,
     pv_receiveRequestId = Some ''rq'', pv_receiveReference = Some ''ref''\<rparr>"

lemma sample_provisioned: "succeeds (provisionAccount provision_input) sample_world (\<lambda>r w'. pa_created r)"
  by code_simp

theorem provisioning_idempotent_witness:
  "\<exists>r w'. provisionAccount provision_input sample_world = Inr (r, w') \<and> pa_created r \<and>
     provisionAccount provision_input w' = Inr (r\<lparr>pa_created := False\<rparr>, w')"
proof -
  obtain r w' where run: "provisionAccount provision_input sample_world = Inr (r, w')" "pa_created r"
    by (rule succeedsE [OF sample_provisioned])
  then show ?thesis using provisioning_idempotent by blast
qed

text \<open>A rotation replaces a credential in one step: afterwards the old credential is revoked and no
  longer usable for any scope, the new one is usable exactly for the scopes it was given until it expires, it
  records where it came from, and every other credential is as it was. The old credential cannot be rotated
  again.\<close>

theorem rotation_replaces_credential:
  assumes "rotateCredential input w = Inr (r, w')" "distinct (map cred_id (w_credentials w))"
  shows "(\<forall>c \<in> set (w_credentials w'). cred_id c = cr_oldCredentialId input \<longrightarrow>
       (\<forall>now scope scopes. assertCredentialUsable (cred_status c) (cred_expiresAt c) now scope scopes \<noteq> Inr ())) \<and>
    (\<forall>now scope. assertCredentialUsable (vc_status r) (vc_expiresAt r) now scope (vc_scopes r) = Inr () \<longleftrightarrow>
       (\<forall>t. cr_expiresAt input = Some t \<longrightarrow> now < t) \<and> scope \<in> set (cr_scopes input)) \<and>
    vc_rotatedFromId r = Some (cr_oldCredentialId input) \<and>
    (\<forall>c \<in> set (w_credentials w). cred_id c \<noteq> cr_oldCredentialId input \<longrightarrow> c \<in> set (w_credentials w')) \<and>
    (\<forall>again. cr_oldCredentialId again = cr_oldCredentialId input \<longrightarrow> rotateCredential again w' = Inl credentialNotFound)"
proof -
  note R = rotateCredential_settles [OF assms]
  have "assertCredentialUsable (vc_status r) (vc_expiresAt r) now scope (vc_scopes r) = Inr () \<longleftrightarrow>
      (\<forall>t. cr_expiresAt input = Some t \<longrightarrow> now < t) \<and> scope \<in> set (cr_scopes input)" for now scope
    using R(3) by (cases "cr_expiresAt input") (auto simp: assertCredentialUsable_def throw_if_def)
  moreover have "rotateCredential again w' = Inl credentialNotFound" if "cr_oldCredentialId again = cr_oldCredentialId input" for again
  proof (cases "List.find (rotatable again) (w_credentials w')")
    case None
    then show ?thesis by (simp add: rotateCredential_def bind_tx_def find_tx_def gets_tx_def throw_tx_def)
  next
    case (Some c)
    then have "c \<in> set (w_credentials w')" "cred_id c = cr_oldCredentialId input"
      using find_SomeD [OF Some] that by (auto simp: rotatable_def)
    then have "cred_status c = AC_REVOKED" using R(1) by blast
    then show ?thesis using Some by (simp add: rotateCredential_def bind_tx_def find_tx_def gets_tx_def throw_if_tx_def throw_tx_def)
  qed
  moreover have "assertCredentialUsable AC_REVOKED e now scope scopes \<noteq> Inr ()" for e now scope scopes
    by (simp add: assertCredentialUsable_def throw_if_def)
  ultimately show ?thesis using R(1,2,3) by auto
qed

definition old_credential :: credential_row where
  "old_credential = credential_row_of \<lparr>cc_id = ''old'', cc_accountId = ''acc'', cc_keyHash = ''h0'', cc_keyPrefix = ''p'',
     cc_scopes = [''payments:read''], cc_expiresAt = None, cc_rotatedFromId = None\<rparr> 10"

definition credential_world :: world where
  "credential_world = sample_world\<lparr>w_credentials := [old_credential]\<rparr>"

definition rotate_input :: CredentialRotation where
  "rotate_input = \<lparr>cr_accountId = ''acc'', cr_oldCredentialId = ''old'', cr_newCredentialId = ''fresh'', cr_keyHash = ''h1'',
     cr_keyPrefix = ''p'', cr_scopes = [''payments:read'', ''payments:write''], cr_expiresAt = Some 500,
     cr_recovery = sample_secret, cr_actorId = None\<rparr>"

lemma sample_rotated: "succeeds (rotateCredential rotate_input) credential_world (\<lambda>r w'. True)"
  by code_simp

theorem rotation_replaces_credential_witness:
  "\<exists>r w'. rotateCredential rotate_input credential_world = Inr (r, w') \<and>
     assertCredentialUsable (vc_status r) (vc_expiresAt r) 300 ''payments:write'' (vc_scopes r) = Inr () \<and>
     rotateCredential rotate_input w' = Inl credentialNotFound"
proof -
  obtain r w' where run: "rotateCredential rotate_input credential_world = Inr (r, w')"
    by (rule succeedsE [OF sample_rotated])
  have "distinct (map cred_id (w_credentials credential_world))" by (simp add: credential_world_def)
  then show ?thesis using rotation_replaces_credential [OF run] run by (simp add: rotate_input_def)
qed

text \<open>A recovery envelope is handed out at most once: a call that returns it was made for the account of
  the envelope before the envelope expired, and after it no call for the key returns an envelope and no
  replay of the provisioning does either.\<close>

theorem recovery_handed_out_once:
  assumes "consumeRecoveryEnvelope accountId key (Some now) w = Inr (Some e, w')"
    and "distinct (map env_idempotencyKey (w_envelopes w))"
  shows "e \<in> set (w_envelopes w) \<and> env_accountId e = accountId \<and> now < env_expiresAt e \<and>
    (\<forall>a t. \<exists>v. consumeRecoveryEnvelope a key t w' = Inr (None, v)) \<and>
    (\<forall>input r v. provisionAccount input w' = Inr (r, v) \<longrightarrow> pv_idempotencyKey input = key \<longrightarrow> pa_created r)"
proof -
  obtain t where t: "Some now = None \<or> Some now = Some t" "e \<in> set (w_envelopes w)" "env_accountId e = accountId"
    "t < env_expiresAt e" "w_envelopes w' = filter (\<lambda>q. env_idempotencyKey q \<noteq> key) (w_envelopes w)"
    by (rule consumeRecovery_Some [OF assms])
  have gone: "key \<notin> env_idempotencyKey ` set (w_envelopes w')" by (auto simp: t(5))
  have none: "List.find (\<lambda>q. env_idempotencyKey q = key) (w_envelopes w') = None"
    using gone by (auto simp: find_None_iff)
  have "pa_created r" if p: "provisionAccount input w' = Inr (r, v)" "pv_idempotencyKey input = key" for input r v
  proof (cases "first_by (\<lambda>r. OrderKey (idem_createdAt r) (idem_id r))
      (filter (provisioned_request (pv_idempotencyKey input)) (w_idempotency w'))")
    case None
    then have "provision_new input w' = Inr (r, v)" using p by (simp add: provisionAccount_def tx_simps)
    then show ?thesis by (rule provision_new_Inr)
  next
    case (Some i)
    then have "replay_provisioning input i w' = Inr (r, v)" using p by (simp add: provisionAccount_def tx_simps)
    then show ?thesis using none p(2) by (auto simp: replay_provisioning_def tx_simps)
  qed
  then show ?thesis using t consumeRecovery_gone [OF gone] by blast
qed

definition sample_envelope :: envelope_row where
  "sample_envelope = envelope_row_of sample_secret ''acc'' ''old'' 10"

definition envelope_world :: world where
  "envelope_world = w_envelopes_update (\<lambda>_. [sample_envelope]) credential_world"

lemma sample_consumed:
  "succeeds (consumeRecoveryEnvelope ''acc'' ''prov'' (Some 100)) envelope_world (\<lambda>e w'. e = Some sample_envelope)"
  by code_simp

theorem recovery_handed_out_once_witness:
  "\<exists>w' v. consumeRecoveryEnvelope ''acc'' ''prov'' (Some 100) envelope_world = Inr (Some sample_envelope, w') \<and>
     consumeRecoveryEnvelope ''acc'' ''prov'' (Some 110) w' = Inr (None, v)"
proof -
  obtain w' where run: "consumeRecoveryEnvelope ''acc'' ''prov'' (Some 100) envelope_world = Inr (Some sample_envelope, w')"
    by (rule succeedsE [OF sample_consumed]) blast
  have "distinct (map env_idempotencyKey (w_envelopes envelope_world))" by (simp add: envelope_world_def)
  then show ?thesis using recovery_handed_out_once [OF run] run by blast
qed

section \<open>Policies\<close>

inductive policy_step :: "world \<Rightarrow> world \<Rightarrow> bool" where
  ps_create: "createSpendPolicy input actor w = Inr (p, w') \<Longrightarrow> policy_step w w'"
| ps_replace: "replaceSpendPolicy input expected actor' w = Inr (p, w') \<Longrightarrow> policy_step w w'"
| ps_activate: "activateSpendPolicy accountId policyId v actor w = Inr (p, w') \<Longrightarrow> policy_step w w'"
| ps_other: "w_policies w' = w_policies w \<Longrightarrow> policy_step w w'"

lemma policy_step_ok: "policy_step w w' \<Longrightarrow> policies_ok w \<Longrightarrow> policies_ok w'"
proof (induction rule: policy_step.induct)
  case (ps_other w' w)
  then show ?case by (simp add: policies_ok_def)
qed (blast intro: createSpendPolicy_ok replaceSpendPolicy_ok(1) activateSpendPolicy_ok(1))+

text \<open>C21: an account has at most one active policy after any sequence of creations, replacements and
  activations, and its versions are distinct. A replacement makes the new policy the only active one of the
  account with a version above all earlier ones, and succeeds over an active policy only when the caller names
  the current version.\<close>

theorem one_active_policy:
  assumes "policy_step\<^sup>*\<^sup>* w0 w" "policies_ok w0" "replaceSpendPolicy input expected actor w = Inr (r, w')"
  shows "policies_ok w \<and> policies_ok w' \<and>
    (\<forall>p \<in> set (w_policies w'). active_of (pn_accountId input) p \<longleftrightarrow> p = r) \<and> r \<in> set (w_policies w') \<and>
    (\<forall>p \<in> set (w_policies w). pol_accountId p = pn_accountId input \<longrightarrow> pol_version p < pol_version r) \<and>
    (\<forall>p \<in> set (w_policies w). active_of (pn_accountId input) p \<longrightarrow> expected = Some (pol_version p))"
proof -
  have ok: "policies_ok w" using assms(1,2) by (induction rule: rtranclp_induct) (auto intro: policy_step_ok)
  obtain now now' where x:
    "w_policies w' = update_rows (active_of (pn_accountId input)) (retire_data now) (w_policies w) @ [r]"
    "r = policy_row_of input (next_policy_version (pn_accountId input) w) ''ACTIVE'' (Some now) now'"
    "\<forall>p \<in> set (w_policies w). active_of (pn_accountId input) p \<longrightarrow> 
       (\<exists>q \<in> set (w_policies w). active_of (pn_accountId input) q \<and> expected = Some (pol_version q))"
    by (rule replaceSpendPolicy_rows [OF assms(3)])
  have "pol_version p < pol_version r" if "p \<in> set (w_policies w)" "pol_accountId p = pn_accountId input" for p
    using next_version_larger [OF that] by (simp add: x(2) policy_row_of_def)
  moreover have "expected = Some (pol_version p)" if p: "p \<in> set (w_policies w)" "active_of (pn_accountId input) p" for p
  proof -
    obtain q where q: "q \<in> set (w_policies w)" "active_of (pn_accountId input) q" "expected = Some (pol_version q)"
      using x(3) p by blast
    have "p = q" using policies_okD(2) [OF ok p(1) q(1)] p(2) q(2) by (simp add: active_of_def)
    then show ?thesis using q(3) by simp
  qed
  ultimately show ?thesis
    using ok replaceSpendPolicy_ok [OF assms(3) ok] x(1) by auto
qed

definition policy_input :: "string \<Rightarrow> PolicyCreate" where
  "policy_input i = \<lparr>pn_id = i, pn_accountId = ''acc'', pn_denominationId = ''den'', pn_maxPerPaymentAtomic = Some 20,
     pn_rollingBudgetAtomic = None, pn_rollingWindowSeconds = None, pn_transactionCountCap = None,
     pn_approvalThresholdAtomic = None, pn_rollingBudgetEscalatable = False, pn_transactionCountEscalatable = False,
     pn_rulesJson = ''{}''\<rparr>"

lemma sample_policies:
  "succeeds (createSpendPolicy (policy_input ''d'') None) sample_world (\<lambda>d w1.
     succeeds (replaceSpendPolicy (policy_input ''n'') (Some 1) ''op'') w1 (\<lambda>r w2. pol_version r = 3))"
  by code_simp

theorem one_active_policy_witness:
  "\<exists>d w1 r w2. createSpendPolicy (policy_input ''d'') None sample_world = Inr (d, w1) \<and>
     replaceSpendPolicy (policy_input ''n'') (Some 1) ''op'' w1 = Inr (r, w2) \<and> pol_version r = 3 \<and>
     (\<forall>p \<in> set (w_policies w2). active_of ''acc'' p \<longleftrightarrow> p = r)"
proof -
  obtain d w1 where c: "createSpendPolicy (policy_input ''d'') None sample_world = Inr (d, w1)"
    and s: "succeeds (replaceSpendPolicy (policy_input ''n'') (Some 1) ''op'') w1 (\<lambda>r w2. pol_version r = 3)"
    by (rule succeedsE [OF sample_policies])
  obtain r w2 where r: "replaceSpendPolicy (policy_input ''n'') (Some 1) ''op'' w1 = Inr (r, w2)" "pol_version r = 3"
    by (rule succeedsE [OF s])
  have "policy_step\<^sup>*\<^sup>* sample_world w1" by (rule r_into_rtranclp) (rule ps_create [OF c])
  moreover have "policies_ok sample_world" by (simp add: policies_ok_def sample_world_def)
  ultimately have "\<forall>p \<in> set (w_policies w2). active_of (pn_accountId (policy_input ''n'')) p \<longleftrightarrow> p = r"
    using one_active_policy [OF _ _ r(1)] by blast
  then show ?thesis using c r by (auto simp: policy_input_def)
qed

section \<open>Rate limits\<close>

text \<open>C19: the rate limiter admits exactly its limit: in any sequence of calls, of any subjects and at any
  times within the retention, the calls of one subject, bucket and window that find it unused are counted
  one, two, three and so on, and exactly those up to the limit are allowed; the clean-up never resets a
  window that is still in use.\<close>

theorem rate_limit_exact:
  assumes "map_tx consumeRateLimit inputs w = Inr (rs, w')" "buckets_ok w"
    and "\<forall>input \<in> set inputs. within_retention s input" "requests_in k s (w_rate_limits w) = 0"
    and "\<forall>input \<in> set inputs. counts_in k s input \<longrightarrow> num_val (rl_limit input) = limit"
  shows "map rr_count (results_in k s inputs rs) = map (\<lambda>i. int i + 1) [0..<length (results_in k s inputs rs)] \<and>
    map rr_allowed (results_in k s inputs rs) = map (\<lambda>i. int i + 1 \<le> limit) [0..<length (results_in k s inputs rs)]"
proof -
  let ?rs = "results_in k s inputs rs"
  have now: "\<forall>input \<in> set inputs. rl_now input \<noteq> None" using assms(3) by (auto simp: within_retention_def split: option.splits)
  have c: "map rr_count ?rs = map (\<lambda>i. int i + 1) [0..<length ?rs]"
    using consume_sequence [OF assms(1-3), of k] assms(4) by (simp add: add.commute)
  have "map rr_allowed ?rs = map (\<lambda>n. n \<le> limit) (map rr_count ?rs)"
    using consume_sequence_allowed [OF assms(1,2) now assms(5)] by simp
  then show ?thesis using c by (simp add: o_def)
qed

definition rate_call :: "string \<Rightarrow> int \<Rightarrow> RateLimitInput" where
  "rate_call subject t = \<lparr>rl_subjectType = ''I'', rl_subjectId = subject, rl_bucket = ''l'', rl_windowSeconds = IntNum 60,
     rl_limit = IntNum 1, rl_now = Some t\<rparr>"

definition rate_calls :: "RateLimitInput list" where
  "rate_calls = [rate_call ''a'' 60000, rate_call ''a'' 61000]"

lemma sample_rates:
  "succeeds (map_tx consumeRateLimit rate_calls) sample_world
     (\<lambda>rs w'. length (results_in (rate_call ''a'' 0) 60000 rate_calls rs) = 2)"
  by code_simp

theorem rate_limit_exact_witness:
  "\<exists>rs w'. map_tx consumeRateLimit rate_calls sample_world = Inr (rs, w') \<and>
     map rr_allowed (results_in (rate_call ''a'' 0) 60000 rate_calls rs) = [True, False]"
proof -
  let ?k = "rate_call ''a'' 0"
  obtain rs w' where run: "map_tx consumeRateLimit rate_calls sample_world = Inr (rs, w')"
    "length (results_in ?k 60000 rate_calls rs) = 2"
    by (rule succeedsE [OF sample_rates])
  have "buckets_ok sample_world" by (simp add: buckets_ok_def sample_world_def empty_control_def)
  moreover have "\<forall>input \<in> set rate_calls. within_retention 60000 input"
    by (simp add: rate_calls_def rate_call_def within_retention_def RATE_LIMIT_RETENTION_SECONDS_def RATE_LIMIT_MAX_WINDOW_SECONDS_def)
  moreover have "requests_in ?k 60000 (w_rate_limits sample_world) = 0"
    by (simp add: requests_in_def sample_world_def empty_control_def)
  moreover have "\<forall>input \<in> set rate_calls. counts_in ?k 60000 input \<longrightarrow> num_val (rl_limit input) = 1"
    by (simp add: rate_calls_def rate_call_def)
  ultimately have "map rr_allowed (results_in ?k 60000 rate_calls rs) =
      map (\<lambda>i. int i + 1 \<le> 1) [0..<length (results_in ?k 60000 rate_calls rs)]"
    using rate_limit_exact [OF run(1)] by blast
  also have "\<dots> = [True, False]" unfolding run(2) by code_simp
  finally show ?thesis using run(1) by (intro exI [of _ rs] exI [of _ w'] conjI)
qed

section \<open>History\<close>

text \<open>A page of the history misses nothing newer: it is in descending order of time, has as many entries
  as the account has before the cursor or the limit, and every entry of the account that is not on the page
  is at most as new as each entry on it, although each of the two tables is cut at the limit before they are
  merged; whatever the collation of the identifiers is.\<close>

theorem history_page_newest:
  assumes "listHistory loc accountId limit cursor w = Inr (entries, w')"
  shows "w' = w \<and> sorted_wrt (\<lambda>x y. hi_occurredAt y \<le> hi_occurredAt x) entries \<and>
    length entries = min limit (length (history_entries accountId cursor w)) \<and>
    set entries \<subseteq> set (history_entries accountId cursor w) \<and>
    (\<forall>e \<in> set (history_entries accountId cursor w). e \<notin> set entries \<longrightarrow>
       (\<forall>p \<in> set entries. hi_occurredAt e \<le> hi_occurredAt p)) \<and>
    (length entries < limit \<longrightarrow> set entries = set (history_entries accountId cursor w))"
  using history_page [OF assms] by blast

definition received :: "string \<Rightarrow> int \<Rightarrow> incoming_row" where
  "received i t = \<lparr>inc_id = i, inc_accountId = ''acc'', inc_signature = i, inc_amountAtomic = 5, inc_tokenAtomicUnits = 5,
     inc_tokenDecimals = 2, inc_currency = ''USD'', inc_sourceAddress = None, inc_reference = None, inc_tokenAccount = ''ta'',
     inc_settlementMint = ''m'', inc_status = IPS_CONFIRMED, inc_createdAt = t, inc_confirmedAt = t, inc_receiveRequestId = None\<rparr>"

definition history_world :: world where
  "history_world = w_incoming_update (\<lambda>_. [received ''in1'' 40, received ''in2'' 60]) (running_world ''NOT_STARTED'')"

definition plain_compare :: "string \<Rightarrow> string \<Rightarrow> int" where
  "plain_compare a b = (if a < b then - 1 else if a = b then 0 else 1)"

lemma sample_history:
  "succeeds (listHistory plain_compare ''acc'' 2 None) history_world (\<lambda>es w'. map hi_id es = [''in2'', ''p1''])"
proof -
  have "map hi_id (take 2 (sort_by (history_compare plain_compare)
      (map (outgoing_history history_world) (take 2 (history_payments ''acc'' None history_world)) @
       map incoming_history (take 2 (history_incoming ''acc'' None history_world))))) = [''in2'', ''p1'']"
    by code_simp
  then show ?thesis by (simp add: succeeds_def listHistory_def gets_tx_def)
qed

theorem history_page_newest_witness:
  "\<exists>es. listHistory plain_compare ''acc'' 2 None history_world = Inr (es, history_world) \<and> map hi_id es = [''in2'', ''p1''] \<and>
     (\<forall>e \<in> set (history_entries ''acc'' None history_world). e \<notin> set es \<longrightarrow> (\<forall>p \<in> set es. hi_occurredAt e \<le> hi_occurredAt p))"
proof -
  obtain es w' where run: "listHistory plain_compare ''acc'' 2 None history_world = Inr (es, w')" "map hi_id es = [''in2'', ''p1'']"
    by (rule succeedsE [OF sample_history])
  note newest = history_page_newest [OF run(1)]
  then have "w' = history_world" by (rule conjunct1)
  then show ?thesis using run newest by (intro exI [of _ es] conjI) simp_all
qed

section \<open>Platform costs\<close>

text \<open>The actual amount of a cost is written once: after a reconciliation the same amount is answered
  with the same record and nothing is written, another amount fails as immutable.\<close>

theorem reconciled_cost_final:
  assumes "reconcilePlatformCost_record i actual t w = Inr (r, w')" "distinct (map pcr_id (w_costs w))"
  shows "pcr_actualAmount r = Some actual \<and> reconcilePlatformCost_record i actual u w' = Inr (r, w') \<and>
    (other \<noteq> actual \<longrightarrow> reconcilePlatformCost_record i other u w' = Inl costImmutable)"
proof -
  obtain c now where c: "c \<in> set (w_costs w)" "pcr_id c = i"
    "(pcr_actualAmount c = Some actual \<and> r = c \<and> w' = w) \<or>
     (pcr_actualAmount c = None \<and> r = reconcile_data actual t now c \<and>
      w_costs w' = update_rows (unreconciled i) (reconcile_data actual t now) (w_costs w))"
    by (rule reconcile_rows [OF assms])
  have amount: "pcr_actualAmount r = Some actual" "pcr_id r = i" using c(2,3) by (auto simp: reconcile_data_def)
  have "r \<in> set (w_costs w')"
    using c(3)
  proof
    assume n: "pcr_actualAmount c = None \<and> r = reconcile_data actual t now c \<and>
      w_costs w' = update_rows (unreconciled i) (reconcile_data actual t now) (w_costs w)"
    have "reconcile_data actual t now c \<in> set (update_rows (unreconciled i) (reconcile_data actual t now) (w_costs w))"
      by (rule updated_member [OF c(1)]) (use n c(2) in \<open>simp add: unreconciled_def\<close>)
    then show ?thesis using n by simp
  qed (use c(1) in simp)
  moreover have "distinct (map pcr_id (w_costs w'))"
    using c(3) assms(2) by (auto simp: reconcile_data_def map_update_rows)
  ultimately have "List.find (\<lambda>q. pcr_id q = i) (w_costs w') = Some r" using costs.find_unique [of w' r] amount(2) by simp
  then show ?thesis
    using amount by (simp add: reconcilePlatformCost_record_def bind_tx_def find_tx_def gets_tx_def throw_if_tx_def throw_tx_def return_tx_def)
qed

definition cost_world :: world where
  "cost_world = w_costs_update (\<lambda>_. [cost_row_of \<lparr>ce_id = ''c1'', ce_accountId = ''acc'', ce_paymentId = None, ce_attemptId = None,
     ce_assetId = ''ast'', ce_estimatedAmount = 9\<rparr> 10]) sample_world"

lemma sample_reconciled: "succeeds (reconcilePlatformCost_record ''c1'' 7 50) cost_world (\<lambda>r w'. True)"
  by code_simp

theorem reconciled_cost_final_witness:
  "\<exists>r w'. reconcilePlatformCost_record ''c1'' 7 50 cost_world = Inr (r, w') \<and> pcr_actualAmount r = Some 7 \<and>
     reconcilePlatformCost_record ''c1'' 8 60 w' = Inl costImmutable"
proof -
  obtain r w' where run: "reconcilePlatformCost_record ''c1'' 7 50 cost_world = Inr (r, w')"
    by (rule succeedsE [OF sample_reconciled])
  have "distinct (map pcr_id (w_costs cost_world))" by (simp add: cost_world_def)
  then show ?thesis using reconciled_cost_final [OF run, of 60 8] run by simp
qed

end
