(* ===== verification/Receive_Ledger.thy ===== *)
theory Receive_Ledger
  imports Account_Administration Custody_Limits
begin

text \<open>
  Receive requests and incoming payments of \<^verbatim>\<open>packages/db/src/index.ts\<close>: a request is created, expired,
  cancelled or paid by one incoming payment; an incoming payment is recorded once per transaction signature
  and settles at most one request. The lemmas give the rows after each operation and the invariant that
  links the two tables.
\<close>

section \<open>Webhook events\<close>

definition receive_event :: "receive_row \<Rightarrow> string \<Rightarrow> int \<Rightarrow> unit tx" where
  "receive_event request transition resourceVersion =
     admin_webhook (rcv_accountId request) ''RECEIVE_REQUEST'' (rcv_id request) resourceVersion
       (''receive_request.'' @ transition)
       [(''id'', JStr (rcv_id request)), (''account_id'', JStr (rcv_accountId request)),
        (''amount_atomic'', json_opt (map_option int_to_string (rcv_amountAtomic request))),
        (''denomination_id'', json_opt (rcv_denominationId request)), (''reference'', JStr (rcv_reference request)),
        (''status'', JStr (receive_status_name (rcv_status request))), (''expires_at'', json_date_opt (rcv_expiresAt request)),
        (''paid_at'', json_date_opt (rcv_paidAt request)),
        (''matched_incoming_payment_id'', json_opt (rcv_matchedIncomingPaymentId request))]"

definition incoming_event :: "incoming_row \<Rightarrow> string \<Rightarrow> int \<Rightarrow> unit tx" where
  "incoming_event payment transition resourceVersion =
     admin_webhook (inc_accountId payment) ''INCOMING_PAYMENT'' (inc_id payment) resourceVersion
       (''incoming.'' @ transition)
       [(''id'', JStr (inc_id payment)), (''account_id'', JStr (inc_accountId payment)),
        (''signature'', JStr (inc_signature payment)), (''amount_atomic'', JStr (int_to_string (inc_amountAtomic payment))),
        (''currency'', JStr (inc_currency payment)), (''reference'', json_opt (inc_reference payment)),
        (''status'', JStr (incoming_status_name (inc_status payment))),
        (''confirmed_at'', JStr (toISOString (inc_confirmedAt payment))),
        (''receive_request_id'', json_opt (inc_receiveRequestId payment))]"

section \<open>Receive requests\<close>

record CreateReceiveRequestInput =
  rn_id :: string
  rn_accountId :: string
  rn_amountAtomic :: "int option"
  rn_denominationId :: "string option"
  rn_amountScale :: "int option"
  rn_currency :: string
  rn_reference :: string
  rn_createdAt :: "int option"
  rn_expiresAt :: "int option"

text \<open>\<^verbatim>\<open>try { m } catch (error) { if (unique constraint) ... }\<close>: the transaction is rolled back, so the handler
  starts in the world before it.\<close>

definition catch_unique :: "'a tx \<Rightarrow> (js_error \<Rightarrow> 'a tx) \<Rightarrow> 'a tx" where
  "catch_unique m handler = (\<lambda>w. case m w of
       Inl (UniqueViolation t) \<Rightarrow> handler (UniqueViolation t) w
     | r \<Rightarrow> r)"

definition insert_receive :: "CreateReceiveRequestInput \<Rightarrow> receive_row tx" where
  "insert_receive input =
     bind_tx new_date (\<lambda>now.
     insert_tx ''receive_requests'' w_receives w_receives_update receive_conflict
       (receive_row_of (rn_id input) (rn_accountId input) (rn_amountAtomic input) (rn_denominationId input)
         (rn_amountScale input) (rn_currency input) (rn_reference input) (rn_expiresAt input)
         (case rn_createdAt input of None \<Rightarrow> now | Some t \<Rightarrow> t) now))"

definition createReceiveRequest :: "CreateReceiveRequestInput \<Rightarrow> receive_row tx" where
  "createReceiveRequest input = catch_unique
     (bind_tx (insert_receive input) (\<lambda>created.
      bind_tx (receive_event created ''created'' 1) (\<lambda>_.
      return_tx created)))
     (\<lambda>_. throw_tx (DomainErr (ConflictError ''Receive reference is already in use'')))"

definition findReceiveRequestForOwner :: "string \<Rightarrow> string \<Rightarrow> receive_row option tx" where
  "findReceiveRequestForOwner accountId i = find_tx w_receives (\<lambda>r. rcv_id r = i \<and> rcv_accountId r = accountId)"

definition receive_key :: "receive_row \<Rightarrow> order_key" where
  "receive_key r = OrderKey (rcv_createdAt r) (rcv_id r)"

definition listReceiveRequests :: "string \<Rightarrow> receive_row list tx" where
  "listReceiveRequests accountId =
     gets_tx (\<lambda>w. rev (sort_key receive_key (filter (\<lambda>r. rcv_accountId r = accountId) (w_receives w))))"

definition listReceiveRequestsPage :: "string \<Rightarrow> nat \<Rightarrow> (int \<times> string) option \<Rightarrow> receive_row list tx" where
  "listReceiveRequestsPage accountId limit cursor =
     gets_tx (\<lambda>w. take limit (rev (sort_key receive_key
       (filter (\<lambda>r. rcv_accountId r = accountId \<and> before_entry cursor (rcv_createdAt r) (rcv_id r)) (w_receives w)))))"

definition receive_data :: "ReceiveRequestStatus \<Rightarrow> int \<Rightarrow> receive_row \<Rightarrow> receive_row" where
  "receive_data status now r = r\<lparr>rcv_status := status, rcv_updatedAt := now\<rparr>"

definition due_receive :: "string \<Rightarrow> int \<Rightarrow> receive_row \<Rightarrow> bool" where
  "due_receive accountId now r \<longleftrightarrow> rcv_accountId r = accountId \<and> rcv_status r = RR_OPEN \<and>
     (case rcv_expiresAt r of None \<Rightarrow> False | Some t \<Rightarrow> t \<le> now)"

definition open_receive :: "string \<Rightarrow> receive_row \<Rightarrow> bool" where
  "open_receive i r \<longleftrightarrow> rcv_id r = i \<and> rcv_status r = RR_OPEN"

definition expire_receive :: "receive_row \<Rightarrow> unit tx" where
  "expire_receive request =
     bind_tx new_date (\<lambda>now.
     bind_tx (update_many_tx w_receives w_receives_update (open_receive (rcv_id request)) (receive_data RR_EXPIRED now)) (\<lambda>count.
     if count \<noteq> 1 then return_tx ()
     else bind_tx (find_or_throw_tx ''receive_requests'' w_receives (\<lambda>r. rcv_id r = rcv_id request)) (\<lambda>r.
          receive_event r ''expired'' 2)))"

definition expireOpenReceiveRequests :: "string \<Rightarrow> int \<Rightarrow> unit tx" where
  "expireOpenReceiveRequests accountId now =
     bind_tx (gets_tx (\<lambda>w. filter (due_receive accountId now) (w_receives w))) (\<lambda>expiring.
     for_each_tx expiring expire_receive)"

definition cancelReceiveRequest :: "string \<Rightarrow> string \<Rightarrow> int option \<Rightarrow> receive_row tx" where
  "cancelReceiveRequest accountId i at =
     bind_tx (now_or_clock at) (\<lambda>now.
     bind_tx (update_many_tx w_receives w_receives_update (\<lambda>r. open_receive i r \<and> rcv_accountId r = accountId)
        (receive_data RR_CANCELLED now)) (\<lambda>count.
     if count \<noteq> 1 then
       bind_tx (findReceiveRequestForOwner accountId i) (\<lambda>current.
       throw_tx (case current of
           None \<Rightarrow> DomainErr (ValidationError ''Receive request was not found'' None)
         | Some _ \<Rightarrow> DomainErr (ConflictError ''Receive request is already terminal'')))
     else
       bind_tx (find_or_throw_tx ''receive_requests'' w_receives (\<lambda>r. rcv_id r = i)) (\<lambda>updated.
       bind_tx (receive_event updated ''cancelled'' 2) (\<lambda>_.
       return_tx updated))))"

section \<open>Matching an incoming payment with a request\<close>

record IncomingMatchInput =
  im_incomingPaymentId :: string
  im_accountId :: string
  im_amountAtomic :: int
  im_reference :: "string option"
  im_confirmedAt :: int

text \<open>The confirmed payment of another managed account that this incoming payment is the other side of.\<close>

definition managed_payment :: "string \<Rightarrow> string \<Rightarrow> string \<Rightarrow> world \<Rightarrow> payment_row \<Rightarrow> bool" where
  "managed_payment accountId reference signature w p \<longleftrightarrow> pay_status p = PS_CONFIRMED \<and>
     pay_recipientManagedAccountId p = Some accountId \<and> pay_externalReference p = Some reference \<and>
     list_ex (\<lambda>a. att_paymentId a = pay_id p \<and> att_railTransactionId a = Some signature) (w_attempts w)"

text \<open>The time at which the payment counts as confirmed and the latest creation of a request it may settle.\<close>

definition match_times :: "payment_row option \<Rightarrow> int \<Rightarrow> int \<times> int" where
  "match_times managed confirmedAt =
     (case managed of
        None \<Rightarrow> (confirmedAt, confirmedAt)
      | Some p \<Rightarrow> (case pay_confirmedAt p of
            None \<Rightarrow> (confirmedAt, confirmedAt)
          | Some t \<Rightarrow> if t > confirmedAt then (t, pay_createdAt p) else (confirmedAt, confirmedAt)))"

definition matchable :: "IncomingMatchInput \<Rightarrow> string \<Rightarrow> int \<Rightarrow> int \<Rightarrow> receive_row \<Rightarrow> bool" where
  "matchable input reference confirmedAt latest_creation r \<longleftrightarrow>
     rcv_accountId r = im_accountId input \<and> rcv_reference r = reference \<and>
     rcv_status r \<in> {RR_OPEN, RR_EXPIRED} \<and> rcv_matchedIncomingPaymentId r = None \<and>
     rcv_createdAt r \<le> latest_creation \<and>
     (case rcv_expiresAt r of None \<Rightarrow> True | Some t \<Rightarrow> t > confirmedAt) \<and>
     (case rcv_amountAtomic r of None \<Rightarrow> True | Some a \<Rightarrow> a = im_amountAtomic input)"

text \<open>An update of a column with a unique index fails when another row has the value already.\<close>

definition link_incoming :: "string \<Rightarrow> string \<Rightarrow> nat tx" where
  "link_incoming i requestId =
     bind_tx (gets_tx (\<lambda>w. list_ex (\<lambda>p. inc_id p = i \<and> inc_receiveRequestId p = None) (w_incoming w) \<and>
        list_ex (\<lambda>p. inc_receiveRequestId p = Some requestId) (w_incoming w))) (\<lambda>taken.
     bind_tx (throw_if_tx taken (UniqueViolation ''incoming_payments'')) (\<lambda>_.
     update_many_tx w_incoming w_incoming_update (\<lambda>p. inc_id p = i \<and> inc_receiveRequestId p = None)
       (\<lambda>p. p\<lparr>inc_receiveRequestId := Some requestId\<rparr>)))"

definition payable_receive :: "string \<Rightarrow> receive_row \<Rightarrow> bool" where
  "payable_receive requestId r \<longleftrightarrow> rcv_id r = requestId \<and> rcv_status r \<in> {RR_OPEN, RR_EXPIRED} \<and>
     rcv_matchedIncomingPaymentId r = None"

definition pay_receive_data :: "string \<Rightarrow> int \<Rightarrow> int \<Rightarrow> receive_row \<Rightarrow> receive_row" where
  "pay_receive_data i paidAt now r =
     r\<lparr>rcv_status := RR_PAID, rcv_paidAt := Some paidAt, rcv_matchedIncomingPaymentId := Some i, rcv_updatedAt := now\<rparr>"

definition pay_receive :: "string \<Rightarrow> string \<Rightarrow> int \<Rightarrow> nat tx" where
  "pay_receive requestId i paidAt =
     bind_tx (gets_tx (\<lambda>w. list_ex (payable_receive requestId) (w_receives w) \<and>
        list_ex (\<lambda>r. rcv_matchedIncomingPaymentId r = Some i) (w_receives w))) (\<lambda>taken.
     bind_tx (throw_if_tx taken (UniqueViolation ''receive_requests'')) (\<lambda>_.
     bind_tx new_date (\<lambda>now.
     update_many_tx w_receives w_receives_update (payable_receive requestId) (pay_receive_data i paidAt now))))"

definition announce_match :: "string \<Rightarrow> string \<Rightarrow> unit tx" where
  "announce_match i requestId =
     bind_tx (find_or_throw_tx ''incoming_payments'' w_incoming (\<lambda>p. inc_id p = i)) (\<lambda>matchedIncoming.
     bind_tx (find_or_throw_tx ''receive_requests'' w_receives (\<lambda>r. rcv_id r = requestId)) (\<lambda>matchedRequest.
     bind_tx (incoming_event matchedIncoming ''updated'' 2) (\<lambda>_.
     receive_event matchedRequest ''updated'' 2)))"

definition settle_request :: "IncomingMatchInput \<Rightarrow> int \<Rightarrow> string \<Rightarrow> string option tx" where
  "settle_request input confirmedAt requestId =
     bind_tx (link_incoming (im_incomingPaymentId input) requestId) (\<lambda>linked.
     if linked \<noteq> 1 then return_tx None
     else
       bind_tx (pay_receive requestId (im_incomingPaymentId input) confirmedAt) (\<lambda>paid.
       bind_tx (throw_if_tx (paid \<noteq> 1) (DomainErr (ConflictError ''Receive request was claimed concurrently''))) (\<lambda>_.
       bind_tx (announce_match (im_incomingPaymentId input) requestId) (\<lambda>_.
       return_tx (Some requestId)))))"

definition match_reference :: "IncomingMatchInput \<Rightarrow> string \<Rightarrow> incoming_row \<Rightarrow> string option tx" where
  "match_reference input reference incoming =
     bind_tx (gets_tx (\<lambda>w. List.find (managed_payment (im_accountId input) reference (inc_signature incoming) w)
        (w_payments w))) (\<lambda>managed.
     let (confirmedAt, latest_creation) = match_times managed (im_confirmedAt input) in
     bind_tx new_date (\<lambda>now.
     bind_tx (update_many_tx w_receives w_receives_update (due_receive (im_accountId input) confirmedAt)
        (receive_data RR_EXPIRED now)) (\<lambda>_.
     bind_tx (gets_tx (\<lambda>w. first_by receive_key
        (filter (matchable input reference confirmedAt latest_creation) (w_receives w)))) (\<lambda>candidate.
     case candidate of
       None \<Rightarrow> return_tx None
     | Some r \<Rightarrow> settle_request input confirmedAt (rcv_id r)))))"

definition matchIncomingPaymentInTransaction :: "IncomingMatchInput \<Rightarrow> string option tx" where
  "matchIncomingPaymentInTransaction input =
     (if im_amountAtomic input \<le> 0 then return_tx None
      else case im_reference input of
        None \<Rightarrow> return_tx None
      | Some reference \<Rightarrow>
          bind_tx (find_tx w_incoming (\<lambda>p. inc_id p = im_incomingPaymentId input)) (\<lambda>incoming.
          case incoming of
            None \<Rightarrow> return_tx None
          | Some p \<Rightarrow> match_reference input reference p))"

definition matchIncomingPayment :: "IncomingMatchInput \<Rightarrow> string option tx" where
  "matchIncomingPayment input = matchIncomingPaymentInTransaction input"

section \<open>Incoming payments\<close>

record CreateIncomingPaymentInput =
  ip_id :: string
  ip_accountId :: string
  ip_signature :: string
  ip_amountAtomic :: int
  ip_tokenAtomicUnits :: "int option"
  ip_tokenDecimals :: "int option"
  ip_currency :: string
  ip_sourceAddress :: "string option"
  ip_reference :: "string option"
  ip_tokenAccount :: string
  ip_settlementMint :: string
  ip_confirmedAt :: int

definition incoming_row_of :: "CreateIncomingPaymentInput \<Rightarrow> int \<Rightarrow> incoming_row" where
  "incoming_row_of input now =
     \<lparr>inc_id = ip_id input, inc_accountId = ip_accountId input, inc_signature = ip_signature input,
      inc_amountAtomic = ip_amountAtomic input,
      inc_tokenAtomicUnits = (case ip_tokenAtomicUnits input of None \<Rightarrow> ip_amountAtomic input | Some n \<Rightarrow> n),
      inc_tokenDecimals = (case ip_tokenDecimals input of None \<Rightarrow> 2 | Some n \<Rightarrow> n),
      inc_currency = ip_currency input, inc_sourceAddress = ip_sourceAddress input, inc_reference = ip_reference input,
      inc_tokenAccount = ip_tokenAccount input, inc_settlementMint = ip_settlementMint input, inc_status = IPS_CONFIRMED,
      inc_createdAt = now, inc_confirmedAt = ip_confirmedAt input, inc_receiveRequestId = None\<rparr>"

definition incoming_conflict :: "incoming_row \<Rightarrow> incoming_row \<Rightarrow> bool" where
  "incoming_conflict r q \<longleftrightarrow> inc_id q = inc_id r \<or>
     (inc_accountId q = inc_accountId r \<and> inc_signature q = inc_signature r) \<or>
     (inc_receiveRequestId r \<noteq> None \<and> inc_receiveRequestId q = inc_receiveRequestId r)"

definition same_transfer :: "CreateIncomingPaymentInput \<Rightarrow> incoming_row \<Rightarrow> bool" where
  "same_transfer input p \<longleftrightarrow> inc_accountId p = ip_accountId input \<and> inc_signature p = ip_signature input"

definition match_of :: "CreateIncomingPaymentInput \<Rightarrow> IncomingMatchInput" where
  "match_of input = \<lparr>im_incomingPaymentId = ip_id input, im_accountId = ip_accountId input,
     im_amountAtomic = ip_amountAtomic input, im_reference = ip_reference input, im_confirmedAt = ip_confirmedAt input\<rparr>"

definition record_incoming :: "CreateIncomingPaymentInput \<Rightarrow> (incoming_row \<times> bool) tx" where
  "record_incoming input =
     bind_tx new_date (\<lambda>now.
     bind_tx (insert_tx ''incoming_payments'' w_incoming w_incoming_update incoming_conflict (incoming_row_of input now)) (\<lambda>incoming.
     bind_tx (incoming_event incoming ''created'' 1) (\<lambda>_.
     bind_tx (matchIncomingPaymentInTransaction (match_of input)) (\<lambda>_.
     bind_tx (find_or_throw_tx ''incoming_payments'' w_incoming (\<lambda>p. inc_id p = inc_id incoming)) (\<lambda>createdPayment.
     return_tx (createdPayment, True))))))"

definition createIncomingPayment :: "CreateIncomingPaymentInput \<Rightarrow> (incoming_row \<times> bool) tx" where
  "createIncomingPayment input = catch_unique
     (bind_tx (find_tx w_incoming (same_transfer input)) (\<lambda>existing.
      case existing of Some p \<Rightarrow> return_tx (p, False) | None \<Rightarrow> record_incoming input))
     (\<lambda>e. bind_tx (find_tx w_incoming (same_transfer input)) (\<lambda>existing.
          case existing of None \<Rightarrow> throw_tx e | Some p \<Rightarrow> return_tx (p, False)))"

text \<open>An unmatched incoming payment of a request that a confirmed managed payment was made for.\<close>

definition managed_settlement :: "world \<Rightarrow> incoming_row \<Rightarrow> receive_row \<Rightarrow> bool" where
  "managed_settlement w p r \<longleftrightarrow> list_ex (\<lambda>a. att_railTransactionId a = Some (inc_signature p) \<and>
     list_ex (\<lambda>q. pay_id q = att_paymentId a \<and> pay_status q = PS_CONFIRMED \<and>
       pay_recipientManagedAccountId q = Some (inc_accountId p) \<and>
       (inc_reference p \<noteq> None \<and> pay_externalReference q = inc_reference p) \<and> pay_createdAt q \<ge> rcv_createdAt r \<and>
       (case pay_confirmedAt q of None \<Rightarrow> False
        | Some t \<Rightarrow> (case rcv_expiresAt r of None \<Rightarrow> True | Some e \<Rightarrow> e > t))) (w_payments w)) (w_attempts w)"

definition unmatched_pair :: "world \<Rightarrow> incoming_row \<Rightarrow> receive_row \<Rightarrow> bool" where
  "unmatched_pair w p r \<longleftrightarrow> rcv_accountId r = inc_accountId p \<and> inc_reference p = Some (rcv_reference r) \<and>
     inc_receiveRequestId p = None \<and> rcv_status r \<in> {RR_OPEN, RR_EXPIRED} \<and> rcv_matchedIncomingPaymentId r = None \<and>
     (case rcv_amountAtomic r of None \<Rightarrow> True | Some a \<Rightarrow> a = inc_amountAtomic p) \<and> managed_settlement w p r"

definition unmatched_incoming :: "nat \<Rightarrow> world \<Rightarrow> incoming_row list" where
  "unmatched_incoming limit w = take limit (sort_key inc_createdAt
     (concat (map (\<lambda>p. map (\<lambda>_. p) (filter (unmatched_pair w p) (w_receives w))) (w_incoming w))))"

definition rematch :: "incoming_row \<Rightarrow> nat \<Rightarrow> nat tx" where
  "rematch p matched =
     bind_tx (matchIncomingPaymentInTransaction
       \<lparr>im_incomingPaymentId = inc_id p, im_accountId = inc_accountId p, im_amountAtomic = inc_amountAtomic p,
        im_reference = inc_reference p, im_confirmedAt = inc_confirmedAt p\<rparr>) (\<lambda>requestId.
     return_tx (if requestId \<noteq> None then matched + 1 else matched))"

fun rematch_all :: "incoming_row list \<Rightarrow> nat \<Rightarrow> nat tx" where
  "rematch_all [] matched = return_tx matched"
| "rematch_all (p # ps) matched = bind_tx (rematch p matched) (\<lambda>m. rematch_all ps m)"

definition reconcileUnmatchedManagedIncoming :: "nat \<Rightarrow> nat tx" where
  "reconcileUnmatchedManagedIncoming limit =
     bind_tx (gets_tx (unmatched_incoming limit)) (\<lambda>candidates. rematch_all candidates 0)"

definition findIncomingPaymentForOwner :: "string \<Rightarrow> string \<Rightarrow> incoming_row option tx" where
  "findIncomingPaymentForOwner accountId i = find_tx w_incoming (\<lambda>p. inc_id p = i \<and> inc_accountId p = accountId)"

text \<open>\<^verbatim>\<open>orderBy: { createdAt: 'desc' }\<close> without a second key: the order of payments of one instant is that of the
  table.\<close>

definition listIncomingPayments :: "string \<Rightarrow> incoming_row list tx" where
  "listIncomingPayments accountId =
     gets_tx (\<lambda>w. sort_key (\<lambda>p. - inc_createdAt p) (filter (\<lambda>p. inc_accountId p = accountId) (w_incoming w)))"

definition listIncomingPaymentsPage :: "string \<Rightarrow> nat \<Rightarrow> (int \<times> string) option \<Rightarrow> incoming_row list tx" where
  "listIncomingPaymentsPage accountId limit cursor =
     gets_tx (\<lambda>w. take limit (rev (sort_key (\<lambda>p. OrderKey (inc_createdAt p) (inc_id p))
       (filter (\<lambda>p. inc_accountId p = accountId \<and> before_entry cursor (inc_createdAt p) (inc_id p)) (w_incoming w)))))"

section \<open>The link between the two tables\<close>

text \<open>A payment settles a request when it is of the same account, carries the reference of the request and has
  the amount that was asked for, if one was.\<close>

definition settles :: "incoming_row \<Rightarrow> receive_row \<Rightarrow> bool" where
  "settles p r \<longleftrightarrow> inc_accountId p = rcv_accountId r \<and> inc_reference p = Some (rcv_reference r) \<and> 0 < inc_amountAtomic p \<and>
     (\<forall>a. rcv_amountAtomic r = Some a \<longrightarrow> inc_amountAtomic p = a)"

definition linked_tables :: "incoming_row list \<Rightarrow> receive_row list \<Rightarrow> bool" where
  "linked_tables ps rs \<longleftrightarrow> distinct (map inc_id ps) \<and> distinct (map rcv_id rs) \<and>
     (\<forall>r \<in> set rs. rcv_status r = RR_PAID \<longleftrightarrow> rcv_matchedIncomingPaymentId r \<noteq> None) \<and>
     (\<forall>r \<in> set rs. \<forall>i. rcv_matchedIncomingPaymentId r = Some i \<longrightarrow>
        (\<exists>p \<in> set ps. inc_id p = i \<and> inc_receiveRequestId p = Some (rcv_id r) \<and> settles p r)) \<and>
     (\<forall>p \<in> set ps. \<forall>q. inc_receiveRequestId p = Some q \<longrightarrow>
        (\<exists>r \<in> set rs. rcv_id r = q \<and> rcv_matchedIncomingPaymentId r = Some (inc_id p)))"

abbreviation receipts_ok :: "world \<Rightarrow> bool" where
  "receipts_ok w \<equiv> linked_tables (w_incoming w) (w_receives w)"

lemma linked_tablesI:
  assumes "distinct (map inc_id ps)" "distinct (map rcv_id rs)"
    and "\<And>r. r \<in> set rs \<Longrightarrow> rcv_status r = RR_PAID \<longleftrightarrow> rcv_matchedIncomingPaymentId r \<noteq> None"
    and "\<And>r i. r \<in> set rs \<Longrightarrow> rcv_matchedIncomingPaymentId r = Some i \<Longrightarrow>
      \<exists>p \<in> set ps. inc_id p = i \<and> inc_receiveRequestId p = Some (rcv_id r) \<and> settles p r"
    and "\<And>p q. p \<in> set ps \<Longrightarrow> inc_receiveRequestId p = Some q \<Longrightarrow>
      \<exists>r \<in> set rs. rcv_id r = q \<and> rcv_matchedIncomingPaymentId r = Some (inc_id p)"
  shows "linked_tables ps rs"
  using assms unfolding linked_tables_def by blast

lemma linked_tablesD:
  assumes "linked_tables ps rs"
  shows "distinct (map inc_id ps)" "distinct (map rcv_id rs)"
    "r \<in> set rs \<Longrightarrow> rcv_status r = RR_PAID \<longleftrightarrow> rcv_matchedIncomingPaymentId r \<noteq> None"
    "r \<in> set rs \<Longrightarrow> rcv_matchedIncomingPaymentId r = Some i \<Longrightarrow>
      \<exists>p \<in> set ps. inc_id p = i \<and> inc_receiveRequestId p = Some (rcv_id r) \<and> settles p r"
    "p \<in> set ps \<Longrightarrow> inc_receiveRequestId p = Some q \<Longrightarrow>
      \<exists>r \<in> set rs. rcv_id r = q \<and> rcv_matchedIncomingPaymentId r = Some (inc_id p)"
  using assms unfolding linked_tables_def by blast+

lemma same_id_row: "distinct (map key rows) \<Longrightarrow> r \<in> set rows \<Longrightarrow> q \<in> set rows \<Longrightarrow> key q = key r \<Longrightarrow> q = r"
  by (auto dest: inj_onD simp: distinct_map)

lemma unchanged_member: "r \<in> set rows \<Longrightarrow> \<not> P r \<Longrightarrow> r \<in> set (update_rows P f rows)"
  by (auto simp: set_update_rows)

text \<open>Requests that are still unpaid may change their status and times.\<close>

lemma linked_unpaid:
  assumes ok: "linked_tables ps rs" and P: "\<And>r. P r \<Longrightarrow> rcv_status r \<noteq> RR_PAID"
    and f: "\<And>r. rcv_id (f r) = rcv_id r \<and> rcv_accountId (f r) = rcv_accountId r \<and> rcv_reference (f r) = rcv_reference r \<and>
      rcv_amountAtomic (f r) = rcv_amountAtomic r \<and> rcv_status (f r) \<noteq> RR_PAID \<and>
      rcv_matchedIncomingPaymentId (f r) = rcv_matchedIncomingPaymentId r"
  shows "linked_tables ps (update_rows P f rs)"
proof (rule linked_tablesI)
  show "distinct (map inc_id ps)" by (rule linked_tablesD [OF ok])
  show "distinct (map rcv_id (update_rows P f rs))"
    using linked_tablesD(2) [OF ok] by (simp add: map_update_rows f)
next
  fix r assume "r \<in> set (update_rows P f rs)"
  then obtain q where q: "q \<in> set rs" "r = (if P q then f q else q)" by (auto simp: set_update_rows)
  show "rcv_status r = RR_PAID \<longleftrightarrow> rcv_matchedIncomingPaymentId r \<noteq> None"
    using linked_tablesD(3) [OF ok q(1)] P [of q] f [of q] q(2) by auto
next
  fix r i assume "r \<in> set (update_rows P f rs)" and m: "rcv_matchedIncomingPaymentId r = Some i"
  then obtain q where q: "q \<in> set rs" "r = (if P q then f q else q)" by (auto simp: set_update_rows)
  have "\<not> P q" using linked_tablesD(3) [OF ok q(1)] P [of q] f [of q] q(2) m by auto
  then show "\<exists>p \<in> set ps. inc_id p = i \<and> inc_receiveRequestId p = Some (rcv_id r) \<and> settles p r"
    using linked_tablesD(4) [OF ok q(1)] q(2) m by simp
next
  fix p q assume "p \<in> set ps" "inc_receiveRequestId p = Some q"
  then obtain r where r: "r \<in> set rs" "rcv_id r = q" "rcv_matchedIncomingPaymentId r = Some (inc_id p)"
    using linked_tablesD(5) [OF ok] by blast
  then have "\<not> P r" using linked_tablesD(3) [OF ok r(1)] P [of r] by auto
  then have "r \<in> set (update_rows P f rs)" by (rule unchanged_member [OF r(1)])
  then show "\<exists>r \<in> set (update_rows P f rs). rcv_id r = q \<and> rcv_matchedIncomingPaymentId r = Some (inc_id p)"
    using r by blast
qed

text \<open>A free payment and an unpaid request that it settles are linked.\<close>

lemma linked_settled:
  assumes ok: "linked_tables ps rs" and p: "p \<in> set ps" "inc_receiveRequestId p = None"
    and r: "r \<in> set rs" "payable_receive (rcv_id r) r" and s: "settles p r"
  shows "linked_tables (update_rows (\<lambda>q. inc_id q = inc_id p \<and> inc_receiveRequestId q = None)
        (\<lambda>q. q\<lparr>inc_receiveRequestId := Some (rcv_id r)\<rparr>) ps)
      (update_rows (payable_receive (rcv_id r)) (pay_receive_data (inc_id p) t now) rs)"
    (is "linked_tables (update_rows ?P ?f ps) (update_rows ?Q ?g rs)")
proof -
  note D = linked_tablesD [OF ok]
  have oneP: "?P q \<longleftrightarrow> q = p" if "q \<in> set ps" for q
    using same_id_row [OF D(1) p(1) that] p(2) by auto
  have oneQ: "?Q q \<longleftrightarrow> q = r" if "q \<in> set rs" for q
    using same_id_row [OF D(2) r(1) that] r(2) by (auto simp: payable_receive_def)
  have p': "?f p \<in> set (update_rows ?P ?f ps)" by (rule updated_member [where f = ?f, OF p(1)]) (simp add: p(2))
  have r': "?g r \<in> set (update_rows ?Q ?g rs)" by (rule updated_member [where f = ?g and P = ?Q, OF r])
  have g: "rcv_id (?g q) = rcv_id q" "rcv_status (?g q) = RR_PAID" "rcv_matchedIncomingPaymentId (?g q) = Some (inc_id p)"
    "settles (?f p) (?g r)" for q
    using s by (simp_all add: pay_receive_data_def settles_def)
  show ?thesis
  proof (rule linked_tablesI)
    show "distinct (map inc_id (update_rows ?P ?f ps))" using D(1) by (simp add: map_update_rows)
    show "distinct (map rcv_id (update_rows ?Q ?g rs))" using D(2) by (simp add: map_update_rows g)
  next
    fix q assume "q \<in> set (update_rows ?Q ?g rs)"
    then obtain z where z: "z \<in> set rs" "q = (if ?Q z then ?g z else z)" by (auto simp: set_update_rows)
    show "rcv_status q = RR_PAID \<longleftrightarrow> rcv_matchedIncomingPaymentId q \<noteq> None"
      using D(3) [OF z(1)] z(2) by (cases "?Q z") (auto simp: g)
  next
    fix q i assume "q \<in> set (update_rows ?Q ?g rs)" and m: "rcv_matchedIncomingPaymentId q = Some i"
    then obtain z where z: "z \<in> set rs" "q = (if ?Q z then ?g z else z)" by (auto simp: set_update_rows)
    show "\<exists>x \<in> set (update_rows ?P ?f ps). inc_id x = i \<and> inc_receiveRequestId x = Some (rcv_id q) \<and> settles x q"
    proof (cases "?Q z")
      case True
      then have "z = r" using oneQ [OF z(1)] by blast
      then have "q = ?g r" using z(2) True by simp
      then show ?thesis using m g p' by (intro bexI [OF _ p']) simp_all
    next
      case False
      then have q: "q = z" using z(2) by simp
      obtain x where x: "x \<in> set ps" "inc_id x = i" "inc_receiveRequestId x = Some (rcv_id q)" "settles x q"
        using D(4) [OF z(1), of i] m q by blast
      have "x \<in> set (update_rows ?P ?f ps)" by (rule unchanged_member [OF x(1)]) (simp add: x(3))
      then show ?thesis using x by blast
    qed
  next
    fix q i assume "q \<in> set (update_rows ?P ?f ps)" and m: "inc_receiveRequestId q = Some i"
    then obtain z where z: "z \<in> set ps" "q = (if ?P z then ?f z else z)" by (auto simp: set_update_rows)
    show "\<exists>x \<in> set (update_rows ?Q ?g rs). rcv_id x = i \<and> rcv_matchedIncomingPaymentId x = Some (inc_id q)"
    proof (cases "?P z")
      case True
      then have "z = p" using oneP [OF z(1)] by blast
      then have "q = ?f p" using z(2) True by simp
      then show ?thesis using m g r' by (intro bexI [OF _ r']) simp_all
    next
      case False
      then have q: "q = z" using z(2) by simp
      obtain x where x: "x \<in> set rs" "rcv_id x = i" "rcv_matchedIncomingPaymentId x = Some (inc_id q)"
        using D(5) [OF z(1), of i] m q by blast
      then have "\<not> ?Q x" by (simp add: payable_receive_def)
      then have "x \<in> set (update_rows ?Q ?g rs)" by (rule unchanged_member [OF x(1)])
      then show ?thesis using x by blast
    qed
  qed
qed

text \<open>New rows enter both tables unlinked.\<close>

lemma linked_new_receive:
  assumes "linked_tables ps rs" "rcv_id r \<notin> rcv_id ` set rs" "rcv_status r = RR_OPEN" "rcv_matchedIncomingPaymentId r = None"
  shows "linked_tables ps (rs @ [r])"
  using assms unfolding linked_tables_def by (auto 0 3 simp: image_iff)

lemma linked_new_incoming:
  assumes "linked_tables ps rs" "inc_id p \<notin> inc_id ` set ps" "inc_receiveRequestId p = None"
  shows "linked_tables (ps @ [p]) rs"
  using assms unfolding linked_tables_def by (auto 0 3 simp: image_iff)

section \<open>What the operations keep\<close>

lemma receipt_events_control:
  "preserves w_control (receive_event r tr v)" "preserves w_control (incoming_event p tr v)"
  "preserves w_control (announce_match i q)"
  unfolding receive_event_def incoming_event_def announce_match_def by (intro frame_intros; simp)+

text \<open>What an incoming payment is apart from the request it is linked to.\<close>

definition transfer_of :: "incoming_row \<Rightarrow> incoming_row" where
  "transfer_of p = p\<lparr>inc_receiveRequestId := None\<rparr>"

definition agrees :: "IncomingMatchInput \<Rightarrow> incoming_row list \<Rightarrow> bool" where
  "agrees input ps \<longleftrightarrow> (\<forall>p \<in> set ps. inc_id p = im_incomingPaymentId input \<longrightarrow> inc_accountId p = im_accountId input \<and>
     inc_reference p = im_reference input \<and> inc_amountAtomic p = im_amountAtomic input)"

lemma transfers_of_link:
  "map transfer_of (update_rows P (\<lambda>p. p\<lparr>inc_receiveRequestId := q\<rparr>) ps) = map transfer_of ps"
  by (simp add: map_update_rows transfer_of_def)

lemma transfer_fields: "inc_id p = inc_id (transfer_of p)" "inc_accountId p = inc_accountId (transfer_of p)"
  "inc_reference p = inc_reference (transfer_of p)" "inc_amountAtomic p = inc_amountAtomic (transfer_of p)"
  "inc_signature p = inc_signature (transfer_of p)"
  by (simp_all add: transfer_of_def)

lemma agrees_transfers: "map transfer_of ps = map transfer_of qs \<Longrightarrow> agrees input ps \<Longrightarrow> agrees input qs"
proof -
  have "agrees input ps \<longleftrightarrow> agrees input (map transfer_of ps)" for ps
    unfolding agrees_def by (simp add: transfer_of_def)
  then show "map transfer_of ps = map transfer_of qs \<Longrightarrow> agrees input ps \<Longrightarrow> agrees input qs" by metis
qed

lemma update_rows_none: "\<forall>r \<in> set rows. \<not> P r \<Longrightarrow> update_rows P f rows = rows"
  by (simp add: update_rows_def map_idI)

lemma settle_request_ok:
  assumes run: "settle_request input t (rcv_id r) w = Inr (x, w')" and ok: "receipts_ok w"
    and r: "r \<in> set (w_receives w)" "matchable input reference t c r" and a: "agrees input (w_incoming w)"
    and i: "0 < im_amountAtomic input" "im_reference input = Some reference"
  shows "receipts_ok w' \<and> map transfer_of (w_incoming w') = map transfer_of (w_incoming w)"
proof -
  let ?i = "im_incomingPaymentId input"
  let ?P = "\<lambda>p. inc_id p = ?i \<and> inc_receiveRequestId p = None"
  let ?ps = "update_rows ?P (\<lambda>p. p\<lparr>inc_receiveRequestId := Some (rcv_id r)\<rparr>) (w_incoming w)"
  obtain w1 where l: "link_incoming ?i (rcv_id r) w = Inr (length (filter ?P (w_incoming w)), w1)"
    and w1: "w_incoming w1 = ?ps" "w_receives w1 = w_receives w"
    using run by (auto simp: settle_request_def link_incoming_def tx_simps)
  show ?thesis
  proof (cases "length (filter ?P (w_incoming w)) = 1")
    case False
    then have w': "w' = w1" using run l by (auto simp: settle_request_def tx_simps)
    have "\<not> ?P p" if "p \<in> set (w_incoming w)" for p
    proof
      assume "?P p"
      then have "?P q \<longleftrightarrow> q = p" if "q \<in> set (w_incoming w)" for q
        using same_id_row [OF linked_tablesD(1) [OF ok] \<open>p \<in> set (w_incoming w)\<close> that] by auto
      then have "filter ?P (w_incoming w) = filter (\<lambda>q. q = p) (w_incoming w)" by (intro filter_cong) auto
      moreover have "distinct (w_incoming w)" using linked_tablesD(1) [OF ok] by (simp add: distinct_map)
      ultimately have "length (filter ?P (w_incoming w)) = 1"
        using that by (simp add: distinct_length_filter Collect_conv_if)
      then show False using False by simp
    qed
    then have "?ps = w_incoming w" by (intro update_rows_none) blast
    then show ?thesis using ok w' w1 by simp
  next
    case True
    obtain p where p: "p \<in> set (w_incoming w)" "inc_id p = ?i" "inc_receiveRequestId p = None"
      using filter_length_oneD [OF True] by blast
    obtain n u now w2 where pr: "pay_receive (rcv_id r) ?i t w1 = Inr (n, w2)"
      and an: "announce_match ?i (rcv_id r) w2 = Inr (u, w')"
      using run l True by (auto simp: settle_request_def tx_simps)
    obtain now where w2: "w_receives w2 = update_rows (payable_receive (rcv_id r)) (pay_receive_data ?i t now) (w_receives w)"
      "w_incoming w2 = ?ps"
      using pr w1 by (auto simp: pay_receive_def tx_simps)
    have "settles p r" using a p r(2) i by (auto simp: agrees_def settles_def matchable_def split: option.splits)
    moreover have "payable_receive (rcv_id r) r" using r(2) by (auto simp: matchable_def payable_receive_def)
    ultimately have "receipts_ok w2"
      using linked_settled [OF ok p(1,3) r(1), of t now] w2 p(2) by simp
    then show ?thesis
      using preservesD [OF receipt_events_control(3) an] w2 by (simp add: transfers_of_link)
  qed
qed

lemma first_by_SomeD:
  assumes "first_by key rows = Some r"
  shows "r \<in> set rows"
proof -
  obtain rest where "sort_key key rows = r # rest" using assms by (auto simp: first_by_def split: list.splits)
  then have "r \<in> set (sort_key key rows)" by (simp only: list.set_intros)
  then show ?thesis by simp
qed

lemma due_receive_open: "due_receive a t r \<Longrightarrow> rcv_status r = RR_OPEN"
  by (simp add: due_receive_def)

lemma match_ok:
  assumes run: "matchIncomingPaymentInTransaction input w = Inr (x, w')" and ok: "receipts_ok w"
    and a: "agrees input (w_incoming w)"
  shows "receipts_ok w' \<and> map transfer_of (w_incoming w') = map transfer_of (w_incoming w)"
proof (cases "w' = w")
  case False
  obtain reference p where i: "0 < im_amountAtomic input" "im_reference input = Some reference"
    and m: "match_reference input reference p w = Inr (x, w')"
    using run False by (auto simp: matchIncomingPaymentInTransaction_def tx_simps not_le split: if_splits option.splits)
  obtain t c now w1 where w1: "w_incoming w1 = w_incoming w"
      "w_receives w1 = update_rows (due_receive (im_accountId input) t) (receive_data RR_EXPIRED now) (w_receives w)"
    and cand: "(case first_by receive_key (filter (matchable input reference t c) (w_receives w1)) of
       None \<Rightarrow> return_tx None | Some r \<Rightarrow> settle_request input t (rcv_id r)) w1 = Inr (x, w')"
  proof -
    let ?m = "match_times (List.find (managed_payment (im_accountId input) reference (inc_signature p) w) (w_payments w)) (im_confirmedAt input)"
    obtain t c where tc: "?m = (t, c)" by (cases ?m)
    let ?w1 = "w_receives_update (update_rows (due_receive (im_accountId input) t)
      (receive_data RR_EXPIRED (w_clock w (w_ticks w)))) (w\<lparr>w_ticks := Suc (w_ticks w)\<rparr>)"
    show thesis by (rule that [of ?w1 t "w_clock w (w_ticks w)" c]) (use m tc in \<open>simp_all add: match_reference_def tx_simps\<close>)
  qed
  have ok1: "receipts_ok w1" unfolding w1
    by (rule linked_unpaid [OF ok]) (auto simp: receive_data_def dest: due_receive_open)
  show ?thesis
  proof (cases "first_by receive_key (filter (matchable input reference t c) (w_receives w1))")
    case None
    then show ?thesis using cand ok1 w1 by (simp add: tx_simps)
  next
    case (Some r)
    have r: "r \<in> set (w_receives w1)" "matchable input reference t c r" using first_by_SomeD [OF Some] by simp_all
    have "settle_request input t (rcv_id r) w1 = Inr (x, w')" using cand Some by simp
    from settle_request_ok [OF this ok1 r _ i] a w1(1) show ?thesis by simp
  qed
qed (use ok in simp)

lemma keeps_if: "(b \<Longrightarrow> keeps I m) \<Longrightarrow> (\<not> b \<Longrightarrow> keeps I n) \<Longrightarrow> keeps I (if b then m else n)"
  by simp

lemma keeps_tx_option: "(x = None \<Longrightarrow> keeps I m) \<Longrightarrow> (\<And>y. x = Some y \<Longrightarrow> keeps I (k y)) \<Longrightarrow>
    keeps I (case x of None \<Rightarrow> m | Some y \<Rightarrow> k y)"
  by (cases x) auto

lemma keeps_for_each: "(\<And>x. keeps I (f x)) \<Longrightarrow> keeps I (for_each_tx xs f)"
proof (induction xs)
  case (Cons x xs)
  show ?case unfolding for_each_tx.simps by (rule keeps_bind [OF Cons.prems Cons.IH [OF Cons.prems]])
qed (simp add: triple_def tx_simps)

lemma keeps_basic: "keeps I (return_tx x)" "keeps I (throw_tx e)" "keeps I (throw_if_tx b e)" "keeps I (lift_tx r)"
  "keeps I (gets_tx f)" "keeps I (find_tx sel P)" "keeps I (find_or_throw_tx name sel P)"
  by (auto simp: triple_def tx_simps)

lemmas keeps_rules = keeps_bind keeps_if keeps_tx_option keeps_for_each keeps_basic

lemma catch_unique_Inr_iff [tx_simps]: "catch_unique m h w = Inr r \<longleftrightarrow>
    m w = Inr r \<or> (\<exists>t. m w = Inl (UniqueViolation t) \<and> h (UniqueViolation t) w = Inr r)"
  by (auto simp: catch_unique_def split: sum.splits js_error.splits)

lemma keeps_same_tables: "w_receives w' = w_receives w \<Longrightarrow> w_incoming w' = w_incoming w \<Longrightarrow> receipts_ok w \<Longrightarrow> receipts_ok w'"
  by simp

lemma keeps_control: "preserves w_control m \<Longrightarrow> keeps receipts_ok m"
  by (rule tripleI) (metis preservesD)

lemma insert_open_receive_ok:
  assumes "\<And>t. rcv_status (row t) = RR_OPEN \<and> rcv_matchedIncomingPaymentId (row t) = None"
  shows "keeps receipts_ok (bind_tx new_date (\<lambda>now.
    insert_tx ''receive_requests'' w_receives w_receives_update receive_conflict (row now)))"
proof (rule tripleI)
  fix w x w'
  assume ok: "receipts_ok w" and run: "bind_tx new_date (\<lambda>now.
    insert_tx ''receive_requests'' w_receives w_receives_update receive_conflict (row now)) w = Inr (x, w')"
  obtain t where r: "w_receives w' = w_receives w @ [row t]" "w_incoming w' = w_incoming w"
    "\<not> list_ex (receive_conflict (row t)) (w_receives w)"
    using run by (auto simp: tx_simps)
  then have "rcv_id (row t) \<notin> rcv_id ` set (w_receives w)" by (auto simp: list_ex_iff receive_conflict_def)
  then show "receipts_ok w'" unfolding r using linked_new_receive [OF ok] assms by blast
qed

lemma open_row: "rcv_status (receive_row_of i a am d s c r e t now) = RR_OPEN \<and>
    rcv_matchedIncomingPaymentId (receive_row_of i a am d s c r e t now) = None"
  by (simp add: receive_row_of_def)

lemma createReceiveRequest_ok: "keeps receipts_ok (createReceiveRequest input)"
proof -
  have "keeps receipts_ok (bind_tx (insert_receive input) (\<lambda>created.
      bind_tx (receive_event created ''created'' 1) (\<lambda>_. return_tx created)))"
    unfolding insert_receive_def
    by (intro keeps_bind insert_open_receive_ok open_row keeps_control frame_intros receipt_events_control)
  then show ?thesis by (auto simp: createReceiveRequest_def triple_def tx_simps)
qed

lemma unpaid_update_ok:
  assumes "\<And>r. P r \<Longrightarrow> rcv_status r = RR_OPEN" "status \<noteq> RR_PAID"
  shows "keeps receipts_ok (update_many_tx w_receives w_receives_update P (receive_data status now))"
proof (rule tripleI)
  fix w x w'
  assume ok: "receipts_ok w" and run: "update_many_tx w_receives w_receives_update P (receive_data status now) w = Inr (x, w')"
  have "linked_tables (w_incoming w) (update_rows P (receive_data status now) (w_receives w))"
    by (rule linked_unpaid [OF ok]) (use assms in \<open>auto simp: receive_data_def\<close>)
  then show "receipts_ok w'" using run by (auto simp: tx_simps)
qed

lemma expire_receive_ok: "keeps receipts_ok (expire_receive r)"
  unfolding expire_receive_def
  by (intro triple_intros keeps_control frame_intros receipt_events_control unpaid_update_ok; simp add: open_receive_def)

lemma expireOpenReceiveRequests_ok: "keeps receipts_ok (expireOpenReceiveRequests a now)"
  unfolding expireOpenReceiveRequests_def by (intro keeps_rules expire_receive_ok)

lemma cancelReceiveRequest_ok: "keeps receipts_ok (cancelReceiveRequest a i now)"
  unfolding cancelReceiveRequest_def findReceiveRequestForOwner_def
  by (intro triple_intros keeps_control frame_intros receipt_events_control unpaid_update_ok; simp add: open_receive_def)


lemma keeps_clock: "keeps receipts_ok new_date" "keeps receipts_ok randomId" "keeps receipts_ok (createId p)"
  by (intro keeps_control frame_intros; simp)+

lemma createReceiveRequestIdempotent_ok: "keeps receipts_ok (createReceiveRequestIdempotent input)"
  unfolding createReceiveRequestIdempotent_def create_receive_def announce_receive_def remember_request_def
  by (intro keeps_rules insert_open_receive_ok open_row keeps_control frame_intros; simp)

lemma create_first_receive_ok: "keeps receipts_ok (create_first_receive input)"
proof (cases "pv_receiveRequestId input"; cases "pv_receiveReference input")
  fix i r assume s: "pv_receiveRequestId input = Some i" "pv_receiveReference input = Some r"
  have "create_first_receive input = bind_tx (bind_tx new_date (\<lambda>now.
      insert_tx ''receive_requests'' w_receives w_receives_update receive_conflict
        (receive_row_of i (pv_accountId input) None None None ''USD'' r None now now))) (\<lambda>_. return_tx ())"
    by (simp add: create_first_receive_def s bind_tx_def fun_eq_iff split: sum.splits)
  then show ?thesis by (simp only:) (intro keeps_rules insert_open_receive_ok open_row)
qed (simp_all add: create_first_receive_def keeps_basic)

lemma provisionAccount_ok: "keeps receipts_ok (provisionAccount input)"
proof -
  have e: "keeps receipts_ok (create_envelope s a c)" for s a c
    unfolding create_envelope_def by (rule tripleI) (auto simp: tx_simps)
  show ?thesis
    unfolding provisionAccount_def replay_provisioning_def provision_new_def create_account_row_def
      create_credential_row_def toCredentialRecord_def remember_request_def announce_provisioning_def
    by (intro keeps_rules create_first_receive_ok e keeps_control frame_intros; simp)
qed

text \<open>A transfer is recorded once: payments are told apart by their account and signature.\<close>

abbreviation transfers_distinct :: "world \<Rightarrow> bool" where
  "transfers_distinct w \<equiv> distinct (map (\<lambda>p. (inc_accountId p, inc_signature p)) (w_incoming w))"

lemma transfers_distinct_cong: "map transfer_of (w_incoming w') = map transfer_of (w_incoming w) \<Longrightarrow> transfers_distinct w \<Longrightarrow>
    transfers_distinct w'"
proof -
  have "map (\<lambda>p. (inc_accountId p, inc_signature p)) ps = map (\<lambda>p. (inc_accountId p, inc_signature p)) (map transfer_of ps)" for ps
    by (simp add: transfer_of_def)
  then show "map transfer_of (w_incoming w') = map transfer_of (w_incoming w) \<Longrightarrow> transfers_distinct w \<Longrightarrow> transfers_distinct w'"
    by metis
qed

text \<open>What recording a transfer does: one new payment with the fields of the transfer, which is returned.\<close>

lemma record_incoming_rows:
  assumes run: "record_incoming input w = Inr (x, w')" and ok: "receipts_ok w"
  obtains now p where "x = (p, True)" "p \<in> set (w_incoming w')" "inc_id p = ip_id input" "receipts_ok w'"
    "map transfer_of (w_incoming w') = map transfer_of (w_incoming w @ [incoming_row_of input now])"
    "\<not> list_ex (incoming_conflict (incoming_row_of input now)) (w_incoming w)"
proof -
  obtain now where now: "new_date w = Inr (now, w\<lparr>w_ticks := Suc (w_ticks w)\<rparr>)" by (simp add: tx_simps)
  let ?r = "incoming_row_of input now"
  obtain u w1 v w2 p where c: "\<not> list_ex (incoming_conflict ?r) (w_incoming w)"
    and e: "incoming_event ?r ''created'' 1
      (w_incoming_update (\<lambda>rows. rows @ [?r]) (w\<lparr>w_ticks := Suc (w_ticks w)\<rparr>)) = Inr (u, w1)"
    and m: "matchIncomingPaymentInTransaction (match_of input) w1 = Inr (v, w')"
    and p: "List.find (\<lambda>p. inc_id p = inc_id ?r) (w_incoming w') = Some p" "x = (p, True)"
    using run now by (auto simp: record_incoming_def tx_simps)
  have w1: "w_incoming w1 = w_incoming w @ [?r]" "w_receives w1 = w_receives w"
    using preservesD [OF receipt_events_control(2) e] by simp_all
  have fresh: "inc_id ?r \<notin> inc_id ` set (w_incoming w)" using c by (auto simp: list_ex_iff incoming_conflict_def)
  have "receipts_ok w1" unfolding w1 using linked_new_incoming [OF ok fresh] by (simp add: incoming_row_of_def)
  moreover have "agrees (match_of input) (w_incoming w1)"
    using fresh by (auto simp: w1 agrees_def match_of_def incoming_row_of_def image_iff)
  ultimately have "receipts_ok w' \<and> map transfer_of (w_incoming w') = map transfer_of (w_incoming w1)"
    using match_ok [OF m] by blast
  then show thesis
    using that [of p now] p find_SomeD [OF p(1)] c w1(1) by (auto simp: incoming_row_of_def)
qed

lemma createIncomingPayment_cases:
  assumes "createIncomingPayment input w = Inr (x, w')"
  obtains (known) p where "List.find (same_transfer input) (w_incoming w) = Some p" "x = (p, False)" "w' = w"
  | (new) "List.find (same_transfer input) (w_incoming w) = None" "record_incoming input w = Inr (x, w')"
  using assms by (auto simp: createIncomingPayment_def tx_simps split: option.splits)

lemma createIncomingPayment_ok:
  assumes "createIncomingPayment input w = Inr (x, w')" "receipts_ok w" "transfers_distinct w"
  shows "receipts_ok w' \<and> transfers_distinct w'"
  using assms(1)
proof (cases rule: createIncomingPayment_cases)
  case new
  obtain now p where r: "receipts_ok w'"
    "map transfer_of (w_incoming w') = map transfer_of (w_incoming w @ [incoming_row_of input now])"
    "\<not> list_ex (incoming_conflict (incoming_row_of input now)) (w_incoming w)"
    by (rule record_incoming_rows [OF new(2) assms(2)]) blast
  let ?v = "w_incoming_update (\<lambda>rows. rows @ [incoming_row_of input now]) w"
  have "transfers_distinct ?v" using assms(3) r(3) by (auto simp: list_ex_iff incoming_conflict_def)
  then have "transfers_distinct w'" using transfers_distinct_cong [of w' ?v] r(2) by simp
  then show ?thesis using r(1) by simp
qed (use assms in simp)

lemma rematch_all_ok:
  "rematch_all ps m w = Inr (x, w') \<Longrightarrow> receipts_ok w \<Longrightarrow> map transfer_of ` {w_incoming w} = map transfer_of ` {w_incoming w0} \<Longrightarrow>
   distinct (map inc_id (w_incoming w0)) \<Longrightarrow> set ps \<subseteq> set (w_incoming w0) \<Longrightarrow>
   receipts_ok w' \<and> map transfer_of (w_incoming w') = map transfer_of (w_incoming w0)"
proof (induction ps arbitrary: m w)
  case (Cons p ps)
  let ?input = "\<lparr>im_incomingPaymentId = inc_id p, im_accountId = inc_accountId p, im_amountAtomic = inc_amountAtomic p,
        im_reference = inc_reference p, im_confirmedAt = inc_confirmedAt p\<rparr>"
  obtain v w1 k where s: "matchIncomingPaymentInTransaction ?input w = Inr (v, w1)" "rematch_all ps k w1 = Inr (x, w')"
    using Cons.prems(1) by (auto simp: rematch_def tx_simps)
  have t: "map transfer_of (w_incoming w0) = map transfer_of (w_incoming w)" using Cons.prems(3) by simp
  have "agrees ?input (w_incoming w0)"
    using same_id_row [OF Cons.prems(4), of p] Cons.prems(5) by (auto simp: agrees_def)
  then have "agrees ?input (w_incoming w)" by (rule agrees_transfers [OF t])
  then have "receipts_ok w1 \<and> map transfer_of (w_incoming w1) = map transfer_of (w_incoming w)"
    by (rule match_ok [OF s(1) Cons.prems(2)])
  then show ?case using Cons.IH [OF s(2)] t Cons.prems(4,5) by simp
qed (simp add: tx_simps)

lemma reconcile_ok:
  assumes "reconcileUnmatchedManagedIncoming limit w = Inr (n, w')" "receipts_ok w"
  shows "receipts_ok w' \<and> map transfer_of (w_incoming w') = map transfer_of (w_incoming w)"
proof -
  have "set (unmatched_incoming limit w) \<subseteq> set (w_incoming w)"
    by (auto simp: unmatched_incoming_def dest!: in_set_takeD)
  then show ?thesis
    using rematch_all_ok [of "unmatched_incoming limit w" 0 w n w' w] assms linked_tablesD(1) [OF assms(2)]
    by (simp add: reconcileUnmatchedManagedIncoming_def tx_simps)
qed

section \<open>The two tables over time\<close>

text \<open>Every operation that writes one of the two tables; a match is made with the data of the payment it is for.\<close>

inductive receipt_step :: "world \<Rightarrow> world \<Rightarrow> bool" where
  rs_create: "createReceiveRequest input w = Inr (r, w') \<Longrightarrow> receipt_step w w'"
| rs_create_once: "createReceiveRequestIdempotent q w = Inr (r, w') \<Longrightarrow> receipt_step w w'"
| rs_provision: "provisionAccount v w = Inr (a, w') \<Longrightarrow> receipt_step w w'"
| rs_expire: "expireOpenReceiveRequests i now w = Inr (u, w') \<Longrightarrow> receipt_step w w'"
| rs_cancel: "cancelReceiveRequest i k at w = Inr (r, w') \<Longrightarrow> receipt_step w w'"
| rs_incoming: "createIncomingPayment p w = Inr (x, w') \<Longrightarrow> receipt_step w w'"
| rs_match: "matchIncomingPayment m w = Inr (y, w') \<Longrightarrow> agrees m (w_incoming w) \<Longrightarrow> receipt_step w w'"
| rs_reconcile: "reconcileUnmatchedManagedIncoming limit w = Inr (n, w') \<Longrightarrow> receipt_step w w'"
| rs_other: "w_receives w' = w_receives w \<Longrightarrow> w_incoming w' = w_incoming w \<Longrightarrow> receipt_step w w'"

lemma receive_operation_step:
  assumes "keeps receipts_ok m" "preserves w_incoming m" "m w = Inr (x, w')" "receipts_ok w \<and> transfers_distinct w"
  shows "receipts_ok w' \<and> transfers_distinct w'"
  using tripleD [OF assms(1,3)] preservesD [OF assms(2,3)] assms(4) by simp

lemma receive_operations_incoming:
  "preserves w_incoming (createReceiveRequest input)" "preserves w_incoming (createReceiveRequestIdempotent q)"
  "preserves w_incoming (provisionAccount v)" "preserves w_incoming (expireOpenReceiveRequests i now)"
  "preserves w_incoming (cancelReceiveRequest i k at)"
proof -
  have c: "preserves g (catch_unique m h)" if "preserves g m" "\<And>e. preserves g (h e)" for g :: "world \<Rightarrow> 'b" and m :: "'c tx" and h
    using that by (auto simp: preserves_def tx_simps)
  show "preserves w_incoming (createReceiveRequest input)"
    unfolding createReceiveRequest_def insert_receive_def receive_event_def
    by (intro c frame_intros; simp add: outputs_frame_def)
  show "preserves w_incoming (createReceiveRequestIdempotent q)"
    unfolding createReceiveRequestIdempotent_def create_receive_def announce_receive_def remember_request_def
    by (intro frame_intros; simp add: outputs_frame_def)
  show "preserves w_incoming (provisionAccount v)"
    unfolding provisionAccount_def replay_provisioning_def provision_new_def create_account_row_def create_envelope_def
      create_credential_row_def toCredentialRecord_def remember_request_def announce_provisioning_def create_first_receive_def
    by (intro frame_intros; simp add: outputs_frame_def)
  show "preserves w_incoming (expireOpenReceiveRequests i now)"
    unfolding expireOpenReceiveRequests_def expire_receive_def receive_event_def by (intro frame_intros; simp add: outputs_frame_def)
  show "preserves w_incoming (cancelReceiveRequest i k at)"
    unfolding cancelReceiveRequest_def findReceiveRequestForOwner_def receive_event_def by (intro frame_intros; simp add: outputs_frame_def)
qed

lemmas receive_operation_steps =
  receive_operation_step [OF createReceiveRequest_ok receive_operations_incoming(1)]
  receive_operation_step [OF createReceiveRequestIdempotent_ok receive_operations_incoming(2)]
  receive_operation_step [OF provisionAccount_ok receive_operations_incoming(3)]
  receive_operation_step [OF expireOpenReceiveRequests_ok receive_operations_incoming(4)]
  receive_operation_step [OF cancelReceiveRequest_ok receive_operations_incoming(5)]

lemma receipt_step_ok: "receipt_step w w' \<Longrightarrow> receipts_ok w \<and> transfers_distinct w \<Longrightarrow> receipts_ok w' \<and> transfers_distinct w'"
proof (induction rule: receipt_step.induct)
  case (rs_incoming p w x w')
  then show ?case using createIncomingPayment_ok by blast
next
  case (rs_match m w y w')
  then show ?case using match_ok [of m w y w'] transfers_distinct_cong by (simp add: matchIncomingPayment_def)
next
  case (rs_reconcile limit w n w')
  then show ?case using reconcile_ok transfers_distinct_cong by blast
next
  case (rs_other w' w)
  then show ?case by simp
qed (erule receive_operation_steps; assumption)+

lemma receipts_reachable:
  "receipt_step\<^sup>*\<^sup>* w w' \<Longrightarrow> receipts_ok w \<Longrightarrow> transfers_distinct w \<Longrightarrow> receipts_ok w' \<and> transfers_distinct w'"
  by (induction rule: rtranclp_induct) (auto dest: receipt_step_ok)

end
