(* ===== verification/Incoming_Issues.thy ===== *)
theory Incoming_Issues
  imports Approvals
begin

text \<open>
  The bookkeeping of the incoming indexer in \<^verbatim>\<open>packages/db/src/index.ts\<close>: one checkpoint per account and
  address, held under a lease, and the transactions that could not be read, which are retried a bounded
  number of times. The loop that claims issues is a \<open>function\<close> whose termination proof counts the issues that
  are due. The lemmas say who holds a partition, and that an issue is claimed at most nine times.
\<close>

section \<open>Partitions\<close>

record PartitionInput =
  pt_accountId :: string
  pt_rail :: string
  pt_address :: string
  pt_owner :: string
  pt_leaseSeconds :: number
  pt_now :: "int option"
  pt_leaseExpiresAt :: "int option"

record IncomingCursor =
  ic_accountId :: string
  ic_rail :: string
  ic_address :: string
  ic_cursorSignature :: "string option"
  ic_leaseExpiresAt :: "int option"

definition partition_of :: "string \<Rightarrow> string \<Rightarrow> string \<Rightarrow> checkpoint_row \<Rightarrow> bool" where
  "partition_of accountId rail address c \<longleftrightarrow> chk_accountId c = accountId \<and> chk_rail c = rail \<and> chk_address c = address"

abbreviation partition_at :: "PartitionInput \<Rightarrow> checkpoint_row \<Rightarrow> bool" where
  "partition_at input \<equiv> partition_of (pt_accountId input) (pt_rail input) (pt_address input)"

definition getIncomingCursor :: "string \<Rightarrow> string \<Rightarrow> string \<Rightarrow> IncomingCursor option tx" where
  "getIncomingCursor accountId rail address =
     bind_tx (find_tx w_checkpoints (partition_of accountId rail address)) (\<lambda>cursor.
     return_tx (map_option (\<lambda>c. \<lparr>ic_accountId = chk_accountId c, ic_rail = chk_rail c, ic_address = chk_address c,
       ic_cursorSignature = chk_cursorSignature c, ic_leaseExpiresAt = chk_leaseExpiresAt c\<rparr>) cursor))"

definition checkpoint_row_of :: "PartitionInput \<Rightarrow> string \<Rightarrow> int \<Rightarrow> checkpoint_row" where
  "checkpoint_row_of input i now =
     \<lparr>chk_id = i, chk_accountId = pt_accountId input, chk_rail = pt_rail input, chk_address = pt_address input,
      chk_cursorSignature = None, chk_leaseOwner = None, chk_leaseExpiresAt = None, chk_createdAt = now, chk_updatedAt = now\<rparr>"

text \<open>\<^verbatim>\<open>INSERT ... ON CONFLICT DO NOTHING\<close> on the key of the partition.\<close>

definition ensure_checkpoint :: "PartitionInput \<Rightarrow> int \<Rightarrow> unit tx" where
  "ensure_checkpoint input now =
     bind_tx randomId (\<lambda>rid.
     bind_tx (find_tx w_checkpoints (partition_at input)) (\<lambda>found.
     case found of
       Some _ \<Rightarrow> return_tx ()
     | None \<Rightarrow>
         bind_tx (insert_tx ''indexer_checkpoints'' w_checkpoints w_checkpoints_update (\<lambda>r q. chk_id q = chk_id r)
           (checkpoint_row_of input (''idx_'' @ rid) now)) (\<lambda>_. return_tx ())))"

definition held_by_other :: "string \<Rightarrow> int \<Rightarrow> checkpoint_row \<Rightarrow> bool" where
  "held_by_other owner now c =
     (case (chk_leaseOwner c, chk_leaseExpiresAt c) of (Some q, Some t) \<Rightarrow> t > now \<and> q \<noteq> owner | _ \<Rightarrow> False)"

definition lease_positive :: "number \<Rightarrow> unit tx" where
  "lease_positive seconds = throw_if_tx (\<not> isInteger seconds \<or> num_val seconds \<le> 0) (JsError ''Incoming partition lease must be positive'')"

definition lease_checkpoint :: "PartitionInput \<Rightarrow> int \<Rightarrow> checkpoint_row \<Rightarrow> IncomingCursor tx" where
  "lease_checkpoint input now c =
     (let leaseExpiresAt = now + num_val (pt_leaseSeconds input) * 1000 in
      bind_tx new_date (\<lambda>updatedAt.
      bind_tx (update_one_tx ''indexer_checkpoints'' w_checkpoints w_checkpoints_update (\<lambda>q. chk_id q = chk_id c)
         (\<lambda>q. q\<lparr>chk_leaseOwner := Some (pt_owner input), chk_leaseExpiresAt := Some leaseExpiresAt, chk_updatedAt := updatedAt\<rparr>)) (\<lambda>_.
      return_tx \<lparr>ic_accountId = pt_accountId input, ic_rail = pt_rail input, ic_address = pt_address input,
        ic_cursorSignature = chk_cursorSignature c, ic_leaseExpiresAt = Some leaseExpiresAt\<rparr>)))"

definition claimIncomingPartition :: "PartitionInput \<Rightarrow> IncomingCursor option tx" where
  "claimIncomingPartition input =
     bind_tx (lease_positive (pt_leaseSeconds input)) (\<lambda>_.
     bind_tx (now_or_clock (pt_now input)) (\<lambda>now.
     bind_tx (ensure_checkpoint input now) (\<lambda>_.
     bind_tx (find_tx w_checkpoints (partition_at input)) (\<lambda>found.
     case found of
       None \<Rightarrow> throw_tx (JsError ''Incoming partition checkpoint disappeared'')
     | Some c \<Rightarrow>
         if held_by_other (pt_owner input) now c then return_tx None
         else bind_tx (lease_checkpoint input now c) (\<lambda>cursor. return_tx (Some cursor))))))"

text \<open>A lease is named by its expiry, when the caller knows it, or else only has to be live.\<close>

definition lease_named :: "string \<Rightarrow> int option \<Rightarrow> int \<Rightarrow> checkpoint_row \<Rightarrow> bool" where
  "lease_named owner expected now c \<longleftrightarrow> chk_leaseOwner c = Some owner \<and>
     (case expected of
        Some t \<Rightarrow> chk_leaseExpiresAt c = Some t
      | None \<Rightarrow> (case chk_leaseExpiresAt c of None \<Rightarrow> False | Some t \<Rightarrow> t > now))"

definition clock_unless :: "int option \<Rightarrow> int tx" where
  "clock_unless expected = (if expected = None then new_date else return_tx 0)"

definition releaseIncomingPartition :: "PartitionInput \<Rightarrow> unit tx" where
  "releaseIncomingPartition input =
     bind_tx (clock_unless (pt_leaseExpiresAt input)) (\<lambda>now.
     bind_tx new_date (\<lambda>updatedAt.
     bind_tx (update_many_tx w_checkpoints w_checkpoints_update
        (\<lambda>c. partition_at input c \<and> lease_named (pt_owner input) (pt_leaseExpiresAt input) now c)
        (\<lambda>c. c\<lparr>chk_leaseOwner := None, chk_leaseExpiresAt := None, chk_updatedAt := updatedAt\<rparr>)) (\<lambda>_.
     return_tx ())))"

definition partition_lost :: js_error where
  "partition_lost = JsError ''Incoming partition lease is no longer owned''"

definition renewIncomingPartition :: "PartitionInput \<Rightarrow> unit tx" where
  "renewIncomingPartition input =
     bind_tx (lease_positive (pt_leaseSeconds input)) (\<lambda>_.
     bind_tx (now_or_clock (pt_now input)) (\<lambda>now.
     bind_tx new_date (\<lambda>updatedAt.
     bind_tx (update_many_tx w_checkpoints w_checkpoints_update
        (\<lambda>c. partition_at input c \<and> lease_named (pt_owner input) (pt_leaseExpiresAt input) now c)
        (\<lambda>c. c\<lparr>chk_leaseExpiresAt := Some (now + num_val (pt_leaseSeconds input) * 1000), chk_updatedAt := updatedAt\<rparr>)) (\<lambda>count.
     throw_if_tx (count \<noteq> 1) partition_lost))))"

record CursorInput =
  cs_accountId :: string
  cs_rail :: string
  cs_address :: string
  cs_cursorSignature :: string
  cs_leaseOwner :: "string option"
  cs_leaseExpiresAt :: "int option"

definition saveIncomingCursor :: "CursorInput \<Rightarrow> unit tx" where
  "saveIncomingCursor input =
     bind_tx (if cs_leaseOwner input = None then return_tx 0 else clock_unless (cs_leaseExpiresAt input)) (\<lambda>now.
     bind_tx new_date (\<lambda>updatedAt.
     bind_tx (update_many_tx w_checkpoints w_checkpoints_update
        (\<lambda>c. partition_of (cs_accountId input) (cs_rail input) (cs_address input) c \<and>
          (case cs_leaseOwner input of None \<Rightarrow> True | Some owner \<Rightarrow> lease_named owner (cs_leaseExpiresAt input) now c))
        (\<lambda>c. c\<lparr>chk_cursorSignature := Some (cs_cursorSignature input), chk_updatedAt := updatedAt\<rparr>)) (\<lambda>count.
     throw_if_tx (count \<noteq> 1) partition_lost)))"

definition listActiveAccountSettlements :: "(string \<times> string) list tx" where
  "listActiveAccountSettlements =
     gets_tx (\<lambda>w. map (\<lambda>a. (acc_id a, acc_solanaPublicKey a)) (filter (\<lambda>a. acc_status a = AA_ACTIVE) (w_accounts w)))"

section \<open>Issues\<close>

definition MAX_INCOMING_ISSUE_RETRIES :: int where "MAX_INCOMING_ISSUE_RETRIES = 8"

record IssueInput =
  iq_id :: string
  iq_accountId :: string
  iq_signature :: string
  iq_reason :: string

definition issue_row_of :: "IssueInput \<Rightarrow> int \<Rightarrow> issue_row" where
  "issue_row_of input now =
     \<lparr>iri_id = iq_id input, iri_accountId = iq_accountId input, iri_signature = iq_signature input, iri_status = II_PENDING,
      iri_reason = iq_reason input, iri_firstSeenAt = now, iri_lastTriedAt = None, iri_nextRetryAt = now,
      iri_retryCount = 0, iri_recoveryCount = 0, iri_resolvedAt = None\<rparr>"

definition same_issue :: "IssueInput \<Rightarrow> issue_row \<Rightarrow> bool" where
  "same_issue input r \<longleftrightarrow> iri_accountId r = iq_accountId input \<and> iri_signature r = iq_signature input"

definition issue_conflict :: "issue_row \<Rightarrow> issue_row \<Rightarrow> bool" where
  "issue_conflict r q \<longleftrightarrow> iri_id q = iri_id r \<or> (iri_accountId q = iri_accountId r \<and> iri_signature q = iri_signature r)"

definition recordIncomingReconciliationIssue :: "IssueInput \<Rightarrow> unit tx" where
  "recordIncomingReconciliationIssue input =
     bind_tx new_date (\<lambda>now.
     bind_tx (find_tx w_issues (same_issue input)) (\<lambda>found.
     case found of
       Some _ \<Rightarrow>
         bind_tx (update_one_tx ''incoming_reconciliation_issues'' w_issues w_issues_update (same_issue input)
            (\<lambda>r. r\<lparr>iri_reason := iq_reason input\<rparr>)) (\<lambda>_. return_tx ())
     | None \<Rightarrow>
         bind_tx (insert_tx ''incoming_reconciliation_issues'' w_issues w_issues_update issue_conflict
            (issue_row_of input now)) (\<lambda>_. return_tx ())))"

definition pending_issue :: "string \<Rightarrow> issue_row \<Rightarrow> bool" where
  "pending_issue i r \<longleftrightarrow> iri_id r = i \<and> iri_status r = II_PENDING"

definition open_issue_exception :: "issue_row \<Rightarrow> string \<Rightarrow> int \<Rightarrow> unit tx" where
  "open_issue_exception issue reason now =
     (let details = stringify (JObj [(''signature'', JStr (iri_signature issue)), (''reason'', JStr reason)]);
          key = ''incoming-issue:'' @ iri_id issue in
     bind_tx randomId (\<lambda>rid.
     bind_tx (find_tx w_exceptions (\<lambda>x. opx_activeDedupeKey x = Some (''active:'' @ key))) (\<lambda>found.
     case found of
       Some _ \<Rightarrow>
         bind_tx (update_one_tx ''operational_exceptions'' w_exceptions w_exceptions_update
            (\<lambda>x. opx_activeDedupeKey x = Some (''active:'' @ key))
            (\<lambda>x. x\<lparr>opx_updatedAt := now, opx_detailsJson := details\<rparr>)) (\<lambda>_.
         return_tx ())
     | None \<Rightarrow>
         bind_tx new_date (\<lambda>createdAt.
         bind_tx (insert_tx ''operational_exceptions'' w_exceptions w_exceptions_update exception_conflict
            (exception_row_of
              \<lparr>oe_id = ''opx_incoming_'' @ rid, oe_accountId = Some (iri_accountId issue),
               oe_resourceType = ''INCOMING_RECONCILIATION_ISSUE'', oe_resourceId = iri_id issue, oe_dedupeKey = key,
               oe_reasonCode = ''INCOMING_ISSUE_RETRY_EXHAUSTED'', oe_severity = None, oe_detailsJson = Some details\<rparr> createdAt)) (\<lambda>_.
         return_tx ())))))"

definition markIncomingReconciliationIssueExhausted :: "string \<Rightarrow> string \<Rightarrow> int \<Rightarrow> unit tx" where
  "markIncomingReconciliationIssueExhausted issueId reason now =
     bind_tx (update_many_tx w_issues w_issues_update (pending_issue issueId)
        (\<lambda>r. r\<lparr>iri_status := II_EXHAUSTED, iri_reason := reason\<rparr>)) (\<lambda>count.
     if count \<noteq> 1 then return_tx ()
     else
       bind_tx (find_or_throw_tx ''incoming_reconciliation_issues'' w_issues (\<lambda>r. iri_id r = issueId)) (\<lambda>issue.
       bind_tx (open_issue_exception issue reason now) (\<lambda>_.
       control_event (Some (iri_accountId issue)) ''INCOMING_RECONCILIATION_ISSUE'' (iri_id issue) ''INCOMING_ISSUE_EXHAUSTED''
         ''SYSTEM'' None None ''INCOMING_RECONCILIATION'' (Some now) None
         (Some [(''status'', JStr ''EXHAUSTED''), (''reason'', JStr reason)]))))"

section \<open>Claiming issues\<close>

record IncomingReconciliationIssueRecord =
  ir_id :: string
  ir_accountId :: string
  ir_accountPublicKey :: string
  ir_signature :: string
  ir_reason :: string
  ir_retryCount :: int
  ir_retryCountBeforeClaim :: int
  ir_recoveryClaimed :: bool

definition due_issue :: "int \<Rightarrow> issue_row \<Rightarrow> bool" where
  "due_issue now r \<longleftrightarrow> iri_status r = II_PENDING \<and> iri_nextRetryAt r \<le> now"

definition final_issue :: "int \<Rightarrow> issue_row \<Rightarrow> bool" where
  "final_issue now r \<longleftrightarrow> due_issue now r \<and> iri_retryCount r \<ge> MAX_INCOMING_ISSUE_RETRIES + 1 \<and> iri_recoveryCount r \<ge> 1"

definition retryable_issue :: "int \<Rightarrow> issue_row \<Rightarrow> bool" where
  "retryable_issue now r \<longleftrightarrow> due_issue now r \<and>
     (iri_retryCount r < MAX_INCOMING_ISSUE_RETRIES + 1 \<or>
      (iri_retryCount r \<ge> MAX_INCOMING_ISSUE_RETRIES + 1 \<and> iri_recoveryCount r < 1))"

definition issue_key :: "issue_row \<Rightarrow> order_key" where
  "issue_key r = OrderKey (iri_nextRetryAt r) (iri_id r)"

definition issue_account :: "world \<Rightarrow> issue_row \<Rightarrow> account_row option" where
  "issue_account w r = List.find (\<lambda>a. acc_id a = iri_accountId r) (w_accounts w)"

definition claimable_issues :: "int \<Rightarrow> nat \<Rightarrow> world \<Rightarrow> issue_row list" where
  "claimable_issues now limit w =
     take limit (sort_key issue_key (filter (\<lambda>r. retryable_issue now r \<and> issue_account w r \<noteq> None) (w_issues w)))"

definition next_retry_count :: "issue_row \<Rightarrow> int" where
  "next_retry_count issue = min (iri_retryCount issue + 1) (MAX_INCOMING_ISSUE_RETRIES + 1)"

definition backoffMilliseconds :: "int \<Rightarrow> int" where
  "backoffMilliseconds retryCount = min (5 * 60000) (5000 * 2 ^ nat (min (retryCount - 1) 6))"

definition claim_issue_data :: "issue_row \<Rightarrow> int \<Rightarrow> issue_row \<Rightarrow> issue_row" where
  "claim_issue_data issue now r =
     r\<lparr>iri_lastTriedAt := Some now, iri_nextRetryAt := now + backoffMilliseconds (next_retry_count issue),
       iri_retryCount := next_retry_count issue,
       iri_recoveryCount := iri_recoveryCount r + (if iri_retryCount issue \<ge> MAX_INCOMING_ISSUE_RETRIES then 1 else 0)\<rparr>"

definition claim_issue :: "int \<Rightarrow> issue_row \<Rightarrow> IncomingReconciliationIssueRecord tx" where
  "claim_issue now issue =
     bind_tx (gets_tx (\<lambda>w. case issue_account w issue of None \<Rightarrow> '''' | Some a \<Rightarrow> acc_solanaPublicKey a)) (\<lambda>publicKey.
     bind_tx (update_one_tx ''incoming_reconciliation_issues'' w_issues w_issues_update (\<lambda>r. iri_id r = iri_id issue)
        (claim_issue_data issue now)) (\<lambda>_.
     return_tx \<lparr>ir_id = iri_id issue, ir_accountId = iri_accountId issue, ir_accountPublicKey = publicKey,
       ir_signature = iri_signature issue, ir_reason = iri_reason issue, ir_retryCount = next_retry_count issue,
       ir_retryCountBeforeClaim = iri_retryCount issue,
       ir_recoveryClaimed = (iri_retryCount issue \<ge> MAX_INCOMING_ISSUE_RETRIES)\<rparr>))"

fun claim_issues :: "int \<Rightarrow> issue_row list \<Rightarrow> IncomingReconciliationIssueRecord list tx" where
  "claim_issues now [] = return_tx []"
| "claim_issues now (r # rs) = bind_tx (claim_issue now r) (\<lambda>c. bind_tx (claim_issues now rs) (\<lambda>cs. return_tx (c # cs)))"

definition due_count :: "int \<Rightarrow> world \<Rightarrow> nat" where
  "due_count now w = length (filter (due_issue now) (w_issues w))"

lemma backoff_bounds: "1 \<le> n \<Longrightarrow> 5000 \<le> backoffMilliseconds n" "backoffMilliseconds n \<le> 300000"
  by (auto simp: backoffMilliseconds_def)

lemma backoff_positive: "0 < backoffMilliseconds n"
  by (simp add: backoffMilliseconds_def)

lemma claim_issue_not_due: "\<not> due_issue now (claim_issue_data issue now r)"
  using backoff_positive [of "next_retry_count issue"] by (simp add: due_issue_def claim_issue_data_def)

lemma find_update_rows_keep:
  "(\<And>r. P r \<Longrightarrow> Q (f r) = Q r) \<Longrightarrow>
   List.find Q (update_rows P f rows) = map_option (\<lambda>r. if P r then f r else r) (List.find Q rows)"
  by (induction rows) (auto simp: update_rows_def)

lemma filter_update_rows_le:
  assumes "\<And>r. P r \<Longrightarrow> Q (f r) \<Longrightarrow> Q r"
  shows "length (filter Q (update_rows P f rows)) \<le> length (filter Q rows)"
  using assms by (induction rows) (auto simp: update_rows_def intro: le_SucI)

lemma filter_update_rows_less:
  assumes "\<And>r. P r \<Longrightarrow> \<not> Q (f r)" "r \<in> set rows" "P r" "Q r"
  shows "length (filter Q (update_rows P f rows)) < length (filter Q rows)"
  using assms(2-)
proof (induction rows)
  case (Cons x xs)
  have le: "length (filter Q (update_rows P f xs)) \<le> length (filter Q xs)"
    by (rule filter_update_rows_le) (use assms(1) in blast)
  show ?case
  proof (cases "x = r")
    case True
    then show ?thesis using Cons.prems assms(1) [of r] le by (simp add: update_rows_def)
  next
    case False
    then have "length (filter Q (update_rows P f xs)) < length (filter Q xs)" using Cons by simp
    then show ?thesis using assms(1) [of x] by (auto simp: update_rows_def)
  qed
qed simp

lemma open_issue_exception_control: "preserves w_control (open_issue_exception issue reason now)"
  unfolding open_issue_exception_def by (intro frame_intros; simp)

lemma mark_exhausted_issues:
  assumes "markIncomingReconciliationIssueExhausted i reason now w = Inr (u, w')"
  shows "w_issues w' = update_rows (pending_issue i) (\<lambda>r. r\<lparr>iri_status := II_EXHAUSTED, iri_reason := reason\<rparr>) (w_issues w)"
proof (cases "length (filter (pending_issue i) (w_issues w)) = 1")
  case False
  then show ?thesis using assms by (auto simp: markIncomingReconciliationIssueExhausted_def tx_simps)
next
  case True
  let ?w = "w_issues_update (update_rows (pending_issue i) (\<lambda>r. r\<lparr>iri_status := II_EXHAUSTED, iri_reason := reason\<rparr>)) w"
  obtain issue w1 where s: "open_issue_exception issue reason now ?w = Inr ((), w1)"
    "control_event (Some (iri_accountId issue)) ''INCOMING_RECONCILIATION_ISSUE'' (iri_id issue) ''INCOMING_ISSUE_EXHAUSTED''
         ''SYSTEM'' None None ''INCOMING_RECONCILIATION'' (Some now) None
         (Some [(''status'', JStr ''EXHAUSTED''), (''reason'', JStr reason)]) w1 = Inr ((), w')"
    using assms True by (auto simp: markIncomingReconciliationIssueExhausted_def tx_simps)
  have "w_control w1 = w_control ?w" by (rule preservesD [OF open_issue_exception_control s(1)])
  moreover have "w_control w' = w_control w1"
    by (rule preservesD [OF control_event_preserves s(2)]) (simp add: outputs_frame_def)
  ultimately show ?thesis by simp
qed

lemma claim_issue_rows:
  assumes "claim_issue now issue w = Inr (c, w')"
  shows "w_issues w' = update_rows (\<lambda>r. iri_id r = iri_id issue) (claim_issue_data issue now) (w_issues w)"
    "w_accounts w' = w_accounts w" "ir_id c = iri_id issue"
  using assms by (auto simp: claim_issue_def tx_simps)

lemma claim_issues_due_le: "claim_issues now rs w = Inr (cs, w') \<Longrightarrow> due_count now w' \<le> due_count now w"
proof (induction rs arbitrary: w cs)
  case (Cons r rs)
  obtain c w1 ds where s: "claim_issue now r w = Inr (c, w1)" "claim_issues now rs w1 = Inr (ds, w')"
    using Cons.prems by (auto simp: tx_simps)
  have "due_count now w1 \<le> due_count now w"
    unfolding due_count_def claim_issue_rows(1) [OF s(1)] by (rule filter_update_rows_le) (simp add: claim_issue_not_due)
  then show ?case using Cons.IH [OF s(2)] by simp
qed (simp add: tx_simps)

lemma claim_issues_due_less:
  assumes "claim_issues now rs w = Inr (cs, w')" "rs = claimable_issues now limit w" "rs \<noteq> []"
  shows "due_count now w' < due_count now w"
proof -
  obtain r rest where rs: "rs = r # rest" using assms(3) by (cases rs) auto
  have "r \<in> set (sort_key issue_key (filter (\<lambda>r. retryable_issue now r \<and> issue_account w r \<noteq> None) (w_issues w)))"
    using assms(2) rs unfolding claimable_issues_def by (metis in_set_takeD list.set_intros(1))
  then have r: "r \<in> set (w_issues w)" "due_issue now r" by (simp_all add: retryable_issue_def)
  obtain c w1 ds where s: "claim_issue now r w = Inr (c, w1)" "claim_issues now rest w1 = Inr (ds, w')"
    using assms(1) rs by (auto simp: tx_simps)
  have "due_count now w1 < due_count now w"
    unfolding due_count_def claim_issue_rows(1) [OF s(1)]
    by (rule filter_update_rows_less [where r = r and Q = "due_issue now"]) (simp_all add: r claim_issue_not_due)
  then show ?thesis using claim_issues_due_le [OF s(2)] by simp
qed

lemma mark_exhausted_due_less:
  assumes "markIncomingReconciliationIssueExhausted (iri_id row) reason now w = Inr (u, w')"
    and row: "row \<in> set (w_issues w)" "final_issue now row"
  shows "due_count now w' < due_count now w"
  unfolding due_count_def mark_exhausted_issues [OF assms(1)]
  by (rule filter_update_rows_less [where r = row and Q = "due_issue now"])
    (use row in \<open>simp_all add: pending_issue_def due_issue_def final_issue_def\<close>)

definition first_issue :: "(issue_row \<Rightarrow> bool) \<Rightarrow> issue_row list \<Rightarrow> issue_row option" where
  "first_issue P rows = (case sort_key issue_key (filter P rows) of [] \<Rightarrow> None | r # _ \<Rightarrow> Some r)"

lemma first_issue_SomeD: "first_issue P rows = Some r \<Longrightarrow> r \<in> set rows \<and> P r"
proof -
  assume "first_issue P rows = Some r"
  then obtain rest where "sort_key issue_key (filter P rows) = r # rest" by (auto simp: first_issue_def split: list.splits)
  then have "r \<in> set (sort_key issue_key (filter P rows))" by (simp only: list.set_intros)
  then show ?thesis by simp
qed

lemma first_issue_NoneD: "first_issue P rows = None \<Longrightarrow> r \<in> set rows \<Longrightarrow> \<not> P r"
proof
  assume "first_issue P rows = None" and r: "r \<in> set rows" "P r"
  then have "sort_key issue_key (filter P rows) = []" by (auto simp: first_issue_def split: list.splits)
  then have "filter P rows = []" by (metis length_0_conv length_sort)
  then show False using r by (simp add: filter_empty_conv)
qed

text \<open>The loop gives up the issues whose last retry has passed, one after the other, and then claims what is due
  until the limit is reached or nothing is left.\<close>

function claim_issues_loop :: "nat \<Rightarrow> int \<Rightarrow> IncomingReconciliationIssueRecord list \<Rightarrow> world \<Rightarrow>
    (IncomingReconciliationIssueRecord list \<times> world) result" where
  "claim_issues_loop limit now claims w =
     (if length claims < limit then
        (case first_issue (final_issue now) (w_issues w) of
           Some row \<Rightarrow>
             (case markIncomingReconciliationIssueExhausted (iri_id row) (iri_reason row) now w of
                Inl e \<Rightarrow> Inl e
              | Inr (_, w') \<Rightarrow> claim_issues_loop limit now claims w')
         | None \<Rightarrow>
             (let issues = claimable_issues now (limit - length claims) w in
              if issues = [] then Inr (claims, w)
              else (case claim_issues now issues w of
                 Inl e \<Rightarrow> Inl e
               | Inr (new, w') \<Rightarrow> claim_issues_loop limit now (claims @ new) w')))
      else Inr (claims, w))"
  by pat_completeness auto

termination
proof (relation "measure (\<lambda>(limit, now, claims, w). due_count now w)", goal_cases)
  case (2 limit now claims w issues p new w')
  then show ?case using claim_issues_due_less by auto
next
  case (3 limit now claims w row p u w')
  then have "row \<in> set (w_issues w) \<and> final_issue now row" using first_issue_SomeD by blast
  then show ?case using 3 mark_exhausted_due_less [of row "iri_reason row" now w "fst p" "snd p"] by auto
qed simp

declare claim_issues_loop.simps [simp del]

definition claimIncomingReconciliationIssues :: "number \<Rightarrow> int option \<Rightarrow> IncomingReconciliationIssueRecord list tx" where
  "claimIncomingReconciliationIssues limit at =
     bind_tx (now_or_clock at) (\<lambda>now.
     bind_tx (throw_if_tx (\<not> isInteger limit \<or> num_val limit < 1 \<or> num_val limit > 100)
       (JsError ''Incoming reconciliation issue batch limit must be 1 to 100'')) (\<lambda>_.
     claim_issues_loop (nat (num_val limit)) now []))"

section \<open>What becomes of a claimed issue\<close>

record IssueDeferral =
  df_issueId :: string
  df_retryAt :: int
  df_retryCount :: number
  df_retryCountBeforeClaim :: number
  df_recoveryClaimed :: bool

definition check_deferral :: "IssueDeferral \<Rightarrow> unit tx" where
  "check_deferral input =
     (let before = num_val (df_retryCountBeforeClaim input) in
      throw_if_tx (\<not> isInteger (df_retryCount input) \<or> \<not> isInteger (df_retryCountBeforeClaim input) \<or>
         before < 0 \<or> before > MAX_INCOMING_ISSUE_RETRIES + 1 \<or>
         num_val (df_retryCount input) \<noteq> min (before + 1) (MAX_INCOMING_ISSUE_RETRIES + 1) \<or>
         df_recoveryClaimed input \<noteq> (before \<ge> MAX_INCOMING_ISSUE_RETRIES))
       (DomainErr (InvalidStateError ''Incoming reconciliation claim is invalid'')))"

definition deferrable_issue :: "IssueDeferral \<Rightarrow> issue_row \<Rightarrow> bool" where
  "deferrable_issue input r \<longleftrightarrow> pending_issue (df_issueId input) r \<and> iri_retryCount r = num_val (df_retryCount input) \<and>
     (df_recoveryClaimed input \<longrightarrow> iri_recoveryCount r \<ge> 1)"

definition defer_issue_data :: "IssueDeferral \<Rightarrow> issue_row \<Rightarrow> issue_row" where
  "defer_issue_data input r =
     r\<lparr>iri_nextRetryAt := df_retryAt input,
       iri_retryCount := (if num_val (df_retryCount input) > num_val (df_retryCountBeforeClaim input)
          then num_val (df_retryCountBeforeClaim input) else iri_retryCount r),
       iri_recoveryCount := iri_recoveryCount r - (if df_recoveryClaimed input then 1 else 0)\<rparr>"

definition deferIncomingReconciliationIssue :: "IssueDeferral \<Rightarrow> unit tx" where
  "deferIncomingReconciliationIssue input =
     bind_tx (check_deferral input) (\<lambda>_.
     bind_tx (update_many_tx w_issues w_issues_update (deferrable_issue input) (defer_issue_data input)) (\<lambda>count.
     if count = 1 then return_tx ()
     else
       bind_tx (find_tx w_issues (\<lambda>r. iri_id r = df_issueId input)) (\<lambda>issue.
       throw_tx (case issue of
           None \<Rightarrow> DomainErr (NotFoundError ''Incoming reconciliation issue was not found'')
         | Some _ \<Rightarrow> DomainErr (ConflictError ''Incoming reconciliation issue changed concurrently'')))))"

definition resolveIncomingReconciliationIssue :: "string \<Rightarrow> int option \<Rightarrow> unit tx" where
  "resolveIncomingReconciliationIssue issueId at =
     bind_tx (now_or_clock at) (\<lambda>now.
     bind_tx (update_many_tx w_issues w_issues_update (pending_issue issueId)
        (\<lambda>r. r\<lparr>iri_status := II_RESOLVED, iri_resolvedAt := Some now\<rparr>)) (\<lambda>_.
     return_tx ()))"

definition updateIncomingReconciliationIssueReason :: "string \<Rightarrow> string \<Rightarrow> unit tx" where
  "updateIncomingReconciliationIssueReason issueId reason =
     bind_tx (update_many_tx w_issues w_issues_update (pending_issue issueId) (\<lambda>r. r\<lparr>iri_reason := reason\<rparr>)) (\<lambda>_.
     return_tx ())"

definition exhaustIncomingReconciliationIssue :: "string \<Rightarrow> string \<Rightarrow> int option \<Rightarrow> unit tx" where
  "exhaustIncomingReconciliationIssue issueId reason at =
     bind_tx (now_or_clock at) (\<lambda>now. markIncomingReconciliationIssueExhausted issueId reason now)"

section \<open>Who holds a partition\<close>

text \<open>While the lease of one owner runs, the row of the partition is not given to another owner.\<close>

lemma ensure_checkpoint_known:
  "List.find (partition_at input) (w_checkpoints w) = Some c \<Longrightarrow> ensure_checkpoint input now w = Inr (u, w') \<Longrightarrow>
   w_control w' = w_control w"
  by (auto simp: ensure_checkpoint_def tx_simps)

lemma claim_held_partition:
  assumes c: "List.find (partition_at input) (w_checkpoints w) = Some c"
    and held: "held_by_other (pt_owner input) now c" and now: "pt_now input = Some now"
    and lease: "isInteger (pt_leaseSeconds input)" "0 < num_val (pt_leaseSeconds input)"
  shows "\<exists>w'. claimIncomingPartition input w = Inr (None, w') \<and> w_control w' = w_control w"
proof -
  obtain rid w1 where r: "randomId w = Inr (rid, w1)" "w_control w1 = w_control w" by (auto simp: tx_simps)
  have "ensure_checkpoint input now w = Inr ((), w1)"
    using c r by (simp add: ensure_checkpoint_def bind_tx_def find_tx_apply return_tx_apply)
  then show ?thesis
    using c r held lease
    by (auto simp: claimIncomingPartition_def lease_positive_def throw_if_tx_def now_or_clock_def now bind_tx_def find_tx_apply return_tx_apply)
qed

lemma save_held_partition:
  assumes "\<And>c. c \<in> set (w_checkpoints w) \<Longrightarrow> partition_of (cs_accountId input) (cs_rail input) (cs_address input) c \<Longrightarrow>
      chk_leaseOwner c \<noteq> cs_leaseOwner input"
    and "cs_leaseOwner input = Some owner"
  shows "saveIncomingCursor input w = Inl partition_lost"
proof -
  obtain now w1 where n: "clock_unless (cs_leaseExpiresAt input) w = Inr (now, w1)" "w_checkpoints w1 = w_checkpoints w"
    by (cases "cs_leaseExpiresAt input = None") (auto simp: clock_unless_def tx_simps)
  obtain t w2 where t: "new_date w1 = Inr (t, w2)" "w_checkpoints w2 = w_checkpoints w1" by (auto simp: tx_simps)
  have "filter (\<lambda>c. partition_of (cs_accountId input) (cs_rail input) (cs_address input) c \<and>
      lease_named owner (cs_leaseExpiresAt input) now c) (w_checkpoints w2) = []"
    using assms n(2) t(2) by (auto simp: filter_empty_conv lease_named_def)
  then show ?thesis
    using assms(2) n t by (simp add: saveIncomingCursor_def bind_tx_def update_many_tx_apply throw_if_tx_def throw_tx_def)
qed

abbreviation partition_key :: "checkpoint_row \<Rightarrow> string \<times> string \<times> string" where
  "partition_key c \<equiv> (chk_accountId c, chk_rail c, chk_address c)"

abbreviation partitions_distinct :: "world \<Rightarrow> bool" where
  "partitions_distinct w \<equiv> distinct (map partition_key (w_checkpoints w))"

lemma partition_of_key: "partition_of a r d c \<longleftrightarrow> partition_key c = (a, r, d)"
  by (simp add: partition_of_def)

lemma same_partition:
  assumes "partitions_distinct w" "c \<in> set (w_checkpoints w)" "q \<in> set (w_checkpoints w)"
    "partition_of a r d c" "partition_of a r d q"
  shows "c = q"
  using assms inj_onD [of partition_key "set (w_checkpoints w)" c q] by (simp add: distinct_map partition_of_key)

lemma ensure_checkpoint_rows:
  assumes "ensure_checkpoint input now w = Inr (u, w')" "partitions_distinct w"
  shows "partitions_distinct w' \<and> List.find (partition_at input) (w_checkpoints w') \<noteq> None"
proof (cases "List.find (partition_at input) (w_checkpoints w)")
  case None
  then obtain row where row: "w_checkpoints w' = w_checkpoints w @ [row]" "partition_at input row"
    using assms(1) by (auto simp: ensure_checkpoint_def tx_simps checkpoint_row_of_def partition_of_def)
  have "partition_key row \<notin> partition_key ` set (w_checkpoints w)"
  proof
    assume "partition_key row \<in> partition_key ` set (w_checkpoints w)"
    then obtain c where c: "c \<in> set (w_checkpoints w)" "partition_key row = partition_key c" by blast
    show False using find_NoneD [OF None c(1)] row(2) c(2) by (simp add: partition_of_key)
  qed
  then show ?thesis using row assms(2) by (simp add: find_append None del: prod.inject)
next
  case (Some c)
  then show ?thesis using ensure_checkpoint_known [OF Some assms(1)] assms(2) by simp
qed

lemma claimIncomingPartition_SomeD:
  assumes "claimIncomingPartition input w = Inr (Some cursor, w')"
  obtains now w1 w2 c where "ensure_checkpoint input now w1 = Inr ((), w2)" "w_control w1 = w_control w"
    "List.find (partition_at input) (w_checkpoints w2) = Some c" "lease_checkpoint input now c w2 = Inr (cursor, w')"
proof -
  obtain now w1 w2 where s: "now_or_clock (pt_now input) w = Inr (now, w1)" "ensure_checkpoint input now w1 = Inr ((), w2)"
    "(case List.find (partition_at input) (w_checkpoints w2) of
       None \<Rightarrow> throw_tx (JsError ''Incoming partition checkpoint disappeared'')
     | Some c \<Rightarrow>
         if held_by_other (pt_owner input) now c then return_tx None
         else bind_tx (lease_checkpoint input now c) (\<lambda>cursor. return_tx (Some cursor))) w2 = Inr (Some cursor, w')"
    using assms unfolding claimIncomingPartition_def lease_positive_def by (simp only: tx_simps) auto
  have "w_control w1 = w_control w" using s(1) by (auto simp: now_or_clock_def tx_simps split: option.splits)
  then show thesis
    using that [OF s(2)] s(3) by (cases "List.find (partition_at input) (w_checkpoints w2)") (auto simp: tx_simps split: if_splits)
qed

lemma claim_partition_holds:
  assumes run: "claimIncomingPartition input w = Inr (Some cursor, w')" and d: "partitions_distinct w"
  obtains c where "List.find (partition_at input) (w_checkpoints w') = Some c" "chk_leaseOwner c = Some (pt_owner input)"
    "chk_leaseExpiresAt c = ic_leaseExpiresAt cursor" "partitions_distinct w'"
proof -
  obtain now w1 w2 c where s: "ensure_checkpoint input now w1 = Inr ((), w2)" "w_control w1 = w_control w"
    "List.find (partition_at input) (w_checkpoints w2) = Some c" "lease_checkpoint input now c w2 = Inr (cursor, w')"
    using run by (rule claimIncomingPartition_SomeD)
  have d2: "partitions_distinct w2" using ensure_checkpoint_rows [OF s(1)] d s(2) by simp
  obtain t where w': "w_checkpoints w' = update_rows (\<lambda>q. chk_id q = chk_id c)
      (\<lambda>q. q\<lparr>chk_leaseOwner := Some (pt_owner input), chk_leaseExpiresAt := ic_leaseExpiresAt cursor, chk_updatedAt := t\<rparr>) (w_checkpoints w2)"
    using s(4) by (auto simp: lease_checkpoint_def Let_def tx_simps)
  have "map partition_key (w_checkpoints w') = map partition_key (w_checkpoints w2)"
    unfolding w' by (rule map_update_rows) simp
  moreover have "List.find (partition_at input) (w_checkpoints w') =
      Some (c\<lparr>chk_leaseOwner := Some (pt_owner input), chk_leaseExpiresAt := ic_leaseExpiresAt cursor, chk_updatedAt := t\<rparr>)"
    unfolding w' by (subst find_update_rows_keep) (simp_all add: s(3), simp add: partition_of_def)
  ultimately show thesis using that d2 by simp
qed

section \<open>The budget of an issue\<close>

text \<open>An issue is tried eight times and once more as a recovery; then its counters admit no further claim.\<close>

definition issue_budget :: "issue_row \<Rightarrow> bool" where
  "issue_budget r \<longleftrightarrow> 0 \<le> iri_retryCount r \<and> iri_retryCount r \<le> MAX_INCOMING_ISSUE_RETRIES + 1 \<and>
     0 \<le> iri_recoveryCount r \<and> iri_recoveryCount r \<le> 1 \<and>
     (iri_recoveryCount r = 1 \<longrightarrow> iri_retryCount r = MAX_INCOMING_ISSUE_RETRIES + 1)"

definition issues_ok :: "world \<Rightarrow> bool" where
  "issues_ok w \<longleftrightarrow> distinct (map iri_id (w_issues w)) \<and> list_all issue_budget (w_issues w)"

lemma issues_ok_update:
  assumes "issues_ok w" "w_issues w' = update_rows P f (w_issues w)"
    and "\<And>r. r \<in> set (w_issues w) \<Longrightarrow> P r \<Longrightarrow> issue_budget r \<Longrightarrow> issue_budget (f r)" "\<And>r. P r \<Longrightarrow> iri_id (f r) = iri_id r"
  shows "issues_ok w'"
proof -
  have "map iri_id (w_issues w') = map iri_id (w_issues w)" unfolding assms(2) by (rule map_update_rows) (rule assms(4))
  moreover have "list_all issue_budget (w_issues w')"
    using assms(1,3) by (auto simp: issues_ok_def list_all_iff assms(2) set_update_rows)
  ultimately show ?thesis using assms(1) by (simp add: issues_ok_def)
qed

lemma issues_ok_same: "w_issues w' = w_issues w \<Longrightarrow> issues_ok w \<Longrightarrow> issues_ok w'"
  by (simp add: issues_ok_def)

lemma mark_exhausted_ok:
  "markIncomingReconciliationIssueExhausted i reason now w = Inr (u, w') \<Longrightarrow> issues_ok w \<Longrightarrow> issues_ok w'"
  by (rule issues_ok_update [OF _ mark_exhausted_issues]) (auto simp: issue_budget_def)

lemma claim_issue_budget:
  "issue_budget r \<Longrightarrow> retryable_issue now r \<Longrightarrow> issue_budget (claim_issue_data r now r)"
  by (auto simp: issue_budget_def claim_issue_data_def next_retry_count_def retryable_issue_def MAX_INCOMING_ISSUE_RETRIES_def)

text \<open>Claiming one issue leaves the other issues as they are, so a batch is claimed row by row.\<close>

lemma claim_issues_keep:
  assumes step: "\<And>r w c w'. J w \<Longrightarrow> r \<in> set (w_issues w) \<Longrightarrow> retryable_issue now r \<Longrightarrow> claim_issue now r w = Inr (c, w') \<Longrightarrow> J w'"
    and "claim_issues now rs w = Inr (cs, w')" "J w" "distinct (map iri_id rs)"
    "\<And>r. r \<in> set rs \<Longrightarrow> r \<in> set (w_issues w) \<and> retryable_issue now r"
  shows "J w'"
  using assms(2-)
proof (induction rs arbitrary: w cs)
  case (Cons r rs)
  obtain c w1 ds where s: "claim_issue now r w = Inr (c, w1)" "claim_issues now rs w1 = Inr (ds, w')"
    using Cons.prems(1) by (auto simp: tx_simps)
  have J: "J w1" using step [OF Cons.prems(2) _ _ s(1)] Cons.prems(4) by simp
  have "q \<in> set (w_issues w1) \<and> retryable_issue now q" if "q \<in> set rs" for q
  proof -
    have "iri_id q \<noteq> iri_id r" "q \<in> set (w_issues w)" "retryable_issue now q" using Cons.prems(3,4) that by (auto simp: image_iff)
    then show ?thesis unfolding claim_issue_rows(1) [OF s(1)] by (auto simp: set_update_rows)
  qed
  then show ?case using Cons.IH [OF s(2) J] Cons.prems(3) by simp
qed (simp add: tx_simps)

lemma claimable_issues_rows:
  "r \<in> set (claimable_issues now limit w) \<Longrightarrow> r \<in> set (w_issues w) \<and> retryable_issue now r"
  "distinct (map iri_id (w_issues w)) \<Longrightarrow> distinct (map iri_id (claimable_issues now limit w))"
  "length (claimable_issues now limit w) \<le> limit"
proof -
  show "r \<in> set (claimable_issues now limit w) \<Longrightarrow> r \<in> set (w_issues w) \<and> retryable_issue now r"
    by (auto simp: claimable_issues_def dest!: in_set_takeD)
  show "length (claimable_issues now limit w) \<le> limit" by (simp add: claimable_issues_def)
  assume d: "distinct (map iri_id (w_issues w))"
  have "distinct (map iri_id (filter P (w_issues w)))" for P using d by (simp add: distinct_map_filter)
  then have "distinct (map iri_id (sort_key issue_key (filter P (w_issues w))))" for P
    by (simp add: distinct_map)
  then show "distinct (map iri_id (claimable_issues now limit w))"
    by (simp add: claimable_issues_def take_map [symmetric] distinct_take)
qed

lemma claim_issue_ok:
  assumes "issues_ok w" "r \<in> set (w_issues w)" "retryable_issue now r" "claim_issue now r w = Inr (c, w')"
  shows "issues_ok w'"
proof (rule issues_ok_update [OF assms(1) claim_issue_rows(1) [OF assms(4)]])
  fix q assume q: "q \<in> set (w_issues w)" "iri_id q = iri_id r" "issue_budget q"
  then have "q = r" using assms(1,2) inj_onD [of iri_id "set (w_issues w)" q r] by (simp add: issues_ok_def distinct_map)
  then show "issue_budget (claim_issue_data r now q)" using claim_issue_budget q(3) assms(3) by simp
qed (simp add: claim_issue_data_def)

lemma claim_issues_loop_step:
  assumes "claim_issues_loop limit now claims w = Inr (r, w')" "length claims < limit"
  obtains (exhaust) row u w1 where "first_issue (final_issue now) (w_issues w) = Some row"
      "markIncomingReconciliationIssueExhausted (iri_id row) (iri_reason row) now w = Inr (u, w1)"
      "claim_issues_loop limit now claims w1 = Inr (r, w')"
  | (idle) "first_issue (final_issue now) (w_issues w) = None" "claimable_issues now (limit - length claims) w = []"
      "r = claims" "w' = w"
  | (claim) new w1 where "first_issue (final_issue now) (w_issues w) = None"
      "claimable_issues now (limit - length claims) w \<noteq> []"
      "claim_issues now (claimable_issues now (limit - length claims) w) w = Inr (new, w1)"
      "claim_issues_loop limit now (claims @ new) w1 = Inr (r, w')"
proof (cases "first_issue (final_issue now) (w_issues w)")
  case None
  note run = assms(1) [unfolded claim_issues_loop.simps [of limit now claims w]]
  show ?thesis
  proof (cases "claimable_issues now (limit - length claims) w = []")
    case True
    then show ?thesis using idle [OF None] run assms(2) None by (simp add: Let_def)
  next
    case False
    then show ?thesis using claim [OF None] run assms(2) None by (auto simp: Let_def split: sum.splits)
  qed
next
  case (Some row)
  note run = assms(1) [unfolded claim_issues_loop.simps [of limit now claims w]]
  show ?thesis using exhaust [OF Some] run assms(2) Some by (auto split: sum.splits)
qed

text \<open>The rule for the loop: what both branches keep holds at the end, and if the limit is not reached then nothing
  that could have been claimed or given up is left.\<close>

lemma claim_issues_loop_rule:
  assumes mark: "\<And>cl w (row :: issue_row) u w1. J cl w \<Longrightarrow> markIncomingReconciliationIssueExhausted (iri_id row) (iri_reason row) now w = Inr (u, w1) \<Longrightarrow> J cl w1"
    and claim: "\<And>cl w new w1. J cl w \<Longrightarrow> length cl < limit \<Longrightarrow>
      claim_issues now (claimable_issues now (limit - length cl) w) w = Inr (new, w1) \<Longrightarrow> J (cl @ new) w1"
  shows "claim_issues_loop limit now claims w = Inr (r, w') \<Longrightarrow> J claims w \<Longrightarrow>
    J r w' \<and> (length r < limit \<longrightarrow> first_issue (final_issue now) (w_issues w') = None \<and> claimable_issues now (limit - length r) w' = [])"
proof (induction "due_count now w" arbitrary: claims w rule: less_induct)
  case less
  show ?case
  proof (cases "length claims < limit")
    case True
    from less.prems(1) True show ?thesis
    proof (cases rule: claim_issues_loop_step)
      case (exhaust row u w1)
      have "due_count now w1 < due_count now w" using mark_exhausted_due_less [OF exhaust(2)] first_issue_SomeD [OF exhaust(1)] by simp
      then show ?thesis using less.hyps exhaust(3) mark [OF less.prems(2) exhaust(2)] by simp
    next
      case (claim new w1)
      have "due_count now w1 < due_count now w" by (rule claim_issues_due_less [OF claim(3) refl claim(2)])
      then show ?thesis using less.hyps claim(4) assms(2) [OF less.prems(2) True claim(3)] by simp
    qed (use less.prems in simp)
  next
    case False
    then show ?thesis using less.prems claim_issues_loop.simps [of limit now claims w] by simp
  qed
qed

lemma claim_issues_length: "claim_issues now rs w = Inr (cs, w') \<Longrightarrow> length cs = length rs"
proof (induction rs arbitrary: w cs)
  case (Cons r rs)
  obtain c w1 ds where s: "claim_issues now rs w1 = Inr (ds, w')" "cs = c # ds" using Cons.prems by (auto simp: tx_simps)
  show ?case using Cons.IH [OF s(1)] s(2) by simp
qed (simp add: tx_simps)

lemma claim_batch_ok:
  assumes "issues_ok w" "claim_issues now (claimable_issues now n w) w = Inr (new, w')"
  shows "issues_ok w'"
proof -
  have "distinct (map iri_id (w_issues w))" using assms(1) by (simp add: issues_ok_def)
  then have "distinct (map iri_id (claimable_issues now n w))" by (rule claimable_issues_rows(2))
  with assms show ?thesis
    by (intro claim_issues_keep [where J = issues_ok, OF _ assms(2)]) (auto intro: claim_issue_ok dest: claimable_issues_rows(1))
qed

lemma claim_issues_loop_ok:
  "claim_issues_loop limit now claims w = Inr (r, w') \<Longrightarrow> issues_ok w \<Longrightarrow> issues_ok w'"
  using claim_issues_loop_rule [of "\<lambda>_. issues_ok" now limit] mark_exhausted_ok claim_batch_ok by blast

lemma claim_issues_loop_result:
  assumes "claim_issues_loop limit now [] w = Inr (claims, w')"
  shows "length claims \<le> limit"
    and "length claims < limit \<Longrightarrow> r \<in> set (w_issues w') \<Longrightarrow> due_issue now r \<Longrightarrow> issue_account w' r = None"
proof -
  have "length (cl @ new) \<le> limit" if "length cl \<le> limit" "length cl < limit"
    "claim_issues now (claimable_issues now (limit - length cl) w) w = Inr (new, w1)" for cl new w w1
    using claimable_issues_rows(3) [of now "limit - length cl" w] claim_issues_length [OF that(3)] that(1) by simp
  then have *: "length claims \<le> limit \<and> (length claims < limit \<longrightarrow> first_issue (final_issue now) (w_issues w') = None \<and>
      claimable_issues now (limit - length claims) w' = [])"
    using claim_issues_loop_rule [of "\<lambda>cl _. length cl \<le> limit" now limit] assms by simp
  then show "length claims \<le> limit" by simp
  assume r: "length claims < limit" "r \<in> set (w_issues w')" "due_issue now r"
  have "\<not> final_issue now r" using first_issue_NoneD [of "final_issue now" "w_issues w'" r] * r by simp
  then have "retryable_issue now r" using r(3) by (auto simp: final_issue_def retryable_issue_def)
  moreover have "filter (\<lambda>r. retryable_issue now r \<and> issue_account w' r \<noteq> None) (w_issues w') = []"
    using * r(1) unfolding claimable_issues_def by (metis (no_types, lifting) diff_is_0_eq leD length_0_conv length_sort take_eq_Nil)
  ultimately show "issue_account w' r = None" using r(2) by (auto simp: filter_empty_conv)
qed

lemma record_issue_ok:
  assumes "recordIncomingReconciliationIssue input w = Inr (u, w')" "issues_ok w"
  shows "issues_ok w'"
proof (cases "List.find (same_issue input) (w_issues w)")
  case None
  obtain now where r: "w_issues w' = w_issues w @ [issue_row_of input now]"
    "\<not> list_ex (issue_conflict (issue_row_of input now)) (w_issues w)"
    using assms(1) None by (auto simp: recordIncomingReconciliationIssue_def tx_simps)
  then have "iri_id (issue_row_of input now) \<notin> iri_id ` set (w_issues w)" by (auto simp: list_ex_iff issue_conflict_def)
  then show ?thesis
    using assms(2) by (simp add: issues_ok_def r(1) issue_budget_def issue_row_of_def MAX_INCOMING_ISSUE_RETRIES_def)
next
  case (Some q)
  then have "w_issues w' = update_rows (same_issue input) (\<lambda>r. r\<lparr>iri_reason := iq_reason input\<rparr>) (w_issues w)"
    using assms(1) by (auto simp: recordIncomingReconciliationIssue_def tx_simps)
  then show ?thesis by (rule issues_ok_update [OF assms(2)]) (auto simp: issue_budget_def)
qed

lemma defer_rows:
  assumes "deferIncomingReconciliationIssue input w = Inr (u, w')"
  shows "w_issues w' = update_rows (deferrable_issue input) (defer_issue_data input) (w_issues w)"
    and "check_deferral input w = Inr ((), w)"
  using assms by (auto simp: deferIncomingReconciliationIssue_def check_deferral_def Let_def tx_simps split: if_splits)

lemma defer_issue_budget:
  assumes "check_deferral input w = Inr (u, w')" "deferrable_issue input r" "issue_budget r"
  shows "issue_budget (defer_issue_data input r)"
  using assms by (auto simp: check_deferral_def Let_def tx_simps deferrable_issue_def issue_budget_def defer_issue_data_def
    MAX_INCOMING_ISSUE_RETRIES_def)

lemma defer_issue_ok: "deferIncomingReconciliationIssue input w = Inr (u, w') \<Longrightarrow> issues_ok w \<Longrightarrow> issues_ok w'"
  by (rule issues_ok_update [OF _ defer_rows(1)]) (auto intro: defer_issue_budget [OF defer_rows(2)], simp add: defer_issue_data_def)

inductive issue_step :: "world \<Rightarrow> world \<Rightarrow> bool" where
  is_record: "recordIncomingReconciliationIssue input w = Inr (u, w') \<Longrightarrow> issue_step w w'"
| is_claim: "claimIncomingReconciliationIssues limit at w = Inr (cs, w') \<Longrightarrow> issue_step w w'"
| is_defer: "deferIncomingReconciliationIssue d w = Inr (u, w') \<Longrightarrow> issue_step w w'"
| is_resolve: "resolveIncomingReconciliationIssue i at w = Inr (u, w') \<Longrightarrow> issue_step w w'"
| is_reason: "updateIncomingReconciliationIssueReason i reason w = Inr (u, w') \<Longrightarrow> issue_step w w'"
| is_exhaust: "exhaustIncomingReconciliationIssue i reason at w = Inr (u, w') \<Longrightarrow> issue_step w w'"
| is_other: "w_issues w' = w_issues w \<Longrightarrow> issue_step w w'"

lemma claim_runs_loop:
  assumes "claimIncomingReconciliationIssues limit at w = Inr (cs, w')"
  obtains now w1 where "now_or_clock at w = Inr (now, w1)" "w_control w1 = w_control w"
    "1 \<le> num_val limit" "num_val limit \<le> 100" "claim_issues_loop (nat (num_val limit)) now [] w1 = Inr (cs, w')"
  using assms
  by (auto simp: claimIncomingReconciliationIssues_def now_or_clock_def tx_simps split: option.splits)

lemma issue_step_ok: "issue_step w w' \<Longrightarrow> issues_ok w \<Longrightarrow> issues_ok w'"
proof (induction rule: issue_step.induct)
  case (is_record input w u w')
  then show ?case by (rule record_issue_ok)
next
  case (is_claim limit at w cs w')
  from is_claim(1) obtain now w1 where "w_control w1 = w_control w" "claim_issues_loop (nat (num_val limit)) now [] w1 = Inr (cs, w')"
    by (rule claim_runs_loop)
  then show ?case using claim_issues_loop_ok issues_ok_same [of w1 w] is_claim(2) by simp
next
  case (is_defer d w u w')
  then show ?case by (rule defer_issue_ok)
next
  case (is_resolve i at w u w')
  then obtain now where "w_issues w' = update_rows (pending_issue i) (\<lambda>r. r\<lparr>iri_status := II_RESOLVED, iri_resolvedAt := Some now\<rparr>) (w_issues w)"
    by (auto simp: resolveIncomingReconciliationIssue_def now_or_clock_def tx_simps split: option.splits)
  then show ?case by (rule issues_ok_update [OF is_resolve(2)]) (auto simp: issue_budget_def)
next
  case (is_reason i reason w u w')
  then have "w_issues w' = update_rows (pending_issue i) (\<lambda>r. r\<lparr>iri_reason := reason\<rparr>) (w_issues w)"
    by (auto simp: updateIncomingReconciliationIssueReason_def tx_simps)
  then show ?case by (rule issues_ok_update [OF is_reason(2)]) (auto simp: issue_budget_def)
next
  case (is_exhaust i reason at w u w')
  then obtain now w1 where "markIncomingReconciliationIssueExhausted i reason now w1 = Inr (u, w')" "w_issues w1 = w_issues w"
    by (auto simp: exhaustIncomingReconciliationIssue_def now_or_clock_def tx_simps split: option.splits)
  then show ?case using mark_exhausted_ok issues_ok_same is_exhaust(2) by blast
next
  case (is_other w' w)
  then show ?case by (rule issues_ok_same)
qed

lemma issues_reachable: "issue_step\<^sup>*\<^sup>* w w' \<Longrightarrow> issues_ok w \<Longrightarrow> issues_ok w'"
  by (induction rule: rtranclp_induct) (auto dest: issue_step_ok)

text \<open>A claim uses up one unit of the budget of nine tries and one recovery; what a claim uses, its deferral gives back.\<close>

definition tries_left :: "issue_row \<Rightarrow> int" where
  "tries_left r = (MAX_INCOMING_ISSUE_RETRIES + 1 - iri_retryCount r) + (1 - iri_recoveryCount r)"

lemma claim_uses_budget:
  "issue_budget r \<Longrightarrow> retryable_issue now r \<Longrightarrow> tries_left (claim_issue_data r now r) < tries_left r \<and> 0 < tries_left r"
  by (auto simp: issue_budget_def claim_issue_data_def next_retry_count_def retryable_issue_def tries_left_def MAX_INCOMING_ISSUE_RETRIES_def)

definition deferral_of :: "IncomingReconciliationIssueRecord \<Rightarrow> int \<Rightarrow> IssueDeferral" where
  "deferral_of c at = \<lparr>df_issueId = ir_id c, df_retryAt = at, df_retryCount = IntNum (ir_retryCount c),
     df_retryCountBeforeClaim = IntNum (ir_retryCountBeforeClaim c), df_recoveryClaimed = ir_recoveryClaimed c\<rparr>"

definition claim_record :: "issue_row \<Rightarrow> string \<Rightarrow> IncomingReconciliationIssueRecord" where
  "claim_record r publicKey = \<lparr>ir_id = iri_id r, ir_accountId = iri_accountId r, ir_accountPublicKey = publicKey,
       ir_signature = iri_signature r, ir_reason = iri_reason r, ir_retryCount = next_retry_count r,
       ir_retryCountBeforeClaim = iri_retryCount r, ir_recoveryClaimed = (iri_retryCount r \<ge> MAX_INCOMING_ISSUE_RETRIES)\<rparr>"

lemma defer_claimed_row:
  fixes key at
  assumes "issue_budget r" "retryable_issue now r"
  defines "d \<equiv> deferral_of (claim_record r key) at"
  shows "check_deferral d w = Inr ((), w)" "deferrable_issue d (claim_issue_data r now r)"
    "defer_issue_data d (claim_issue_data r now r) = r\<lparr>iri_lastTriedAt := Some now, iri_nextRetryAt := at\<rparr>"
  using assms(1,2)
  by (cases r; auto simp: d_def deferral_of_def claim_record_def check_deferral_def throw_if_tx_def return_tx_apply
      deferrable_issue_def pending_issue_def defer_issue_data_def claim_issue_data_def issue_budget_def retryable_issue_def
      due_issue_def next_retry_count_def MAX_INCOMING_ISSUE_RETRIES_def)+

lemma filter_unique_row:
  assumes "distinct (map k rows)" "r \<in> set rows" "P r" "\<And>q. q \<in> set rows \<Longrightarrow> P q \<Longrightarrow> k q = k r"
  shows "filter P rows = [r]"
proof -
  have "q = r" if "q \<in> set (filter P rows)" for q
    using that assms(1,2) assms(4) [of q] inj_onD [of k "set rows" q r] by (simp add: distinct_map)
  then have "set (filter P rows) \<subseteq> {r}" by blast
  moreover have "r \<in> set (filter P rows)" using assms(2,3) by simp
  moreover have "distinct (filter P rows)" using assms(1) by (simp add: distinct_map)
  ultimately show ?thesis
    by (cases "filter P rows"; cases "tl (filter P rows)") (auto simp del: set_filter filter_eq_Cons_iff)
qed

lemma defer_undoes_claim:
  assumes ok: "issues_ok w" and r: "r \<in> set (w_issues w)" "retryable_issue now r" and run: "claim_issue now r w = Inr (c, w1)"
  shows "\<exists>w2. deferIncomingReconciliationIssue (deferral_of c at) w1 = Inr ((), w2) \<and>
    w_issues w2 = update_rows (\<lambda>q. iri_id q = iri_id r) (\<lambda>q. q\<lparr>iri_lastTriedAt := Some now, iri_nextRetryAt := at\<rparr>) (w_issues w)"
proof -
  obtain key where c: "c = claim_record r key" using run by (auto simp: claim_issue_def claim_record_def tx_simps)
  have b: "issue_budget r" and d: "distinct (map iri_id (w_issues w))" using ok r(1) by (auto simp: issues_ok_def list_all_iff)
  note row = defer_claimed_row [OF b r(2), where key = key and at = at, folded c]
  have eq: "q = r" if "q \<in> set (w_issues w)" "iri_id q = iri_id r" for q
    using d r(1) that inj_onD [of iri_id "set (w_issues w)" q r] by (simp add: distinct_map)
  have w1: "w_issues w1 = update_rows (\<lambda>q. iri_id q = iri_id r) (claim_issue_data r now) (w_issues w)"
    by (rule claim_issue_rows(1) [OF run])
  have id: "deferrable_issue (deferral_of c at) q \<Longrightarrow> iri_id q = iri_id r" for q
    by (simp add: c deferral_of_def claim_record_def deferrable_issue_def pending_issue_def)
  have mem: "claim_issue_data r now r \<in> set (w_issues w1)" unfolding w1 by (rule updated_member) (use r in simp_all)
  have "map iri_id (w_issues w1) = map iri_id (w_issues w)" unfolding w1 by (rule map_update_rows) (simp add: claim_issue_data_def)
  then have one: "filter (deferrable_issue (deferral_of c at)) (w_issues w1) = [claim_issue_data r now r]"
    by (intro filter_unique_row [where k = iri_id]) (use d mem row(2) id in \<open>auto simp: claim_issue_data_def\<close>)
  have "(if deferrable_issue (deferral_of c at) p then defer_issue_data (deferral_of c at) p else p) =
      (if iri_id q = iri_id r then q\<lparr>iri_lastTriedAt := Some now, iri_nextRetryAt := at\<rparr> else q)"
    if "q \<in> set (w_issues w)" "p = (if iri_id q = iri_id r then claim_issue_data r now q else q)" for p q
    using that eq row(2,3) id by (cases "iri_id q = iri_id r") auto
  then have "update_rows (deferrable_issue (deferral_of c at)) (defer_issue_data (deferral_of c at)) (w_issues w1) =
    update_rows (\<lambda>q. iri_id q = iri_id r) (\<lambda>q. q\<lparr>iri_lastTriedAt := Some now, iri_nextRetryAt := at\<rparr>) (w_issues w)"
    unfolding w1 update_rows_def by simp
  then show ?thesis
    using one row(1) by (simp add: deferIncomingReconciliationIssue_def bind_tx_def update_many_tx_apply return_tx_apply)
qed

end
