(* ===== verification/Usd_Money.thy ===== *)
theory Usd_Money
  imports Exact_Money
begin

text \<open>
  The two-decimal USD money of \<^verbatim>\<open>packages/core/src/money.ts\<close> and the rescaling of
  reservations to USD cents in \<^verbatim>\<open>packages/db/src/reservation-amount.ts\<close>.
\<close>

definition USD :: string where
  "USD = ''USD''"

definition USD_DECIMAL_PLACES :: int where
  "USD_DECIMAL_PLACES = 2"

record Money =
  m_currency :: string
  m_atomicUnits :: int

definition assertSupportedCurrency :: "string \<Rightarrow> unit result" where
  "assertSupportedCurrency currency = throw_if (currency \<noteq> USD) (unsupportedCurrency currency)"

definition assertSameCurrency :: "Money \<Rightarrow> Money \<Rightarrow> unit result" where
  "assertSameCurrency left right =
     throw_if (m_currency left \<noteq> m_currency right)
       (DomainErr (ValidationError ''Money values must use the same currency'' None))"

text \<open>The match of \<^verbatim>\<open>/^(0|[1-9]\d*)(?:\.(\d+))?$/\<close>.\<close>

definition match_plain_decimal :: "string \<Rightarrow> (string \<times> string option) option" where
  "match_plain_decimal value =
     (case match_decimal value of
        None \<Rightarrow> None
      | Some (whole, fraction) \<Rightarrow>
          if whole = ''0'' \<or> hd whole \<noteq> CHR ''0'' then Some (whole, fraction) else None)"

definition parseDecimalToAtomicUnits :: "string \<Rightarrow> number \<Rightarrow> int result" where
  "parseDecimalToAtomicUnits value decimalPlaces =
     (if \<not> isInteger decimalPlaces \<or> num_val decimalPlaces < 0
      then throwValidation ''Decimal places must be a non-negative integer''
      else if length value = 0
      then throwValidation ''Amount must be a non-empty decimal string''
      else case match_plain_decimal value of
        None \<Rightarrow> throwValidation ''Amount must be a plain decimal string''
      | Some (wholePart, fraction) \<Rightarrow>
          (let fractionPart = (case fraction of None \<Rightarrow> [] | Some f \<Rightarrow> f)
           in if int (length fractionPart) > num_val decimalPlaces
              then throwValidation (''Amount supports at most '' @
                     number_to_string decimalPlaces @ '' decimal places'')
              else bind_r (bigint_pow 10 (num_val decimalPlaces)) (\<lambda>scale.
                Inr (int (digits_val wholePart) * scale +
                     int (digits_val (padEnd (num_val decimalPlaces) fractionPart))))))"

definition createMoney :: "string \<Rightarrow> string \<Rightarrow> Money result" where
  "createMoney amount currency =
     bind_r (assertSupportedCurrency currency) (\<lambda>_.
     bind_r (parseDecimalToAtomicUnits amount (IntNum USD_DECIMAL_PLACES)) (\<lambda>units.
     Inr \<lparr>m_currency = currency, m_atomicUnits = units\<rparr>))"

definition createPositiveMoney :: "string \<Rightarrow> string \<Rightarrow> Money result" where
  "createPositiveMoney amount currency =
     bind_r (createMoney amount currency) (\<lambda>money.
     if m_atomicUnits money \<le> 0 then throwValidation ''Amount must be greater than zero''
     else Inr money)"

definition moneyFromAtomicUnits :: "int \<Rightarrow> string \<Rightarrow> Money result" where
  "moneyFromAtomicUnits atomicUnits currency =
     bind_r (assertSupportedCurrency currency) (\<lambda>_.
     if atomicUnits < 0 then throwValidation ''Atomic units cannot be negative''
     else Inr \<lparr>m_currency = currency, m_atomicUnits = atomicUnits\<rparr>)"

definition addMoney :: "Money \<Rightarrow> Money \<Rightarrow> Money result" where
  "addMoney left right =
     bind_r (assertSameCurrency left right) (\<lambda>_.
     moneyFromAtomicUnits (m_atomicUnits left + m_atomicUnits right) (m_currency left))"

definition subtractMoney :: "Money \<Rightarrow> Money \<Rightarrow> Money result" where
  "subtractMoney left right =
     bind_r (assertSameCurrency left right) (\<lambda>_.
     let units = m_atomicUnits left - m_atomicUnits right
     in if units < 0 then Inl insufficientFunds else moneyFromAtomicUnits units (m_currency left))"

definition compareMoney :: "Money \<Rightarrow> Money \<Rightarrow> int result" where
  "compareMoney left right =
     bind_r (assertSameCurrency left right) (\<lambda>_.
     Inr (if m_atomicUnits left < m_atomicUnits right then -1
          else if m_atomicUnits left > m_atomicUnits right then 1
          else 0))"

definition formatMoney :: "Money \<Rightarrow> string" where
  "formatMoney money =
     (let scale = 10 ^ nat USD_DECIMAL_PLACES;
          wholePart = m_atomicUnits money sdiv scale;
          fractionPart = padStart USD_DECIMAL_PLACES (int_to_string (m_atomicUnits money smod scale))
      in int_to_string wholePart @ CHR ''.'' # fractionPart)"

section \<open>Reservations in USD cents\<close>

definition reservationAmountInUsdAtomic :: "int \<Rightarrow> number option \<Rightarrow> int result" where
  "reservationAmountInUsdAtomic amountAtomic amountScale =
     (if amountAtomic < 0
      then throwValidation ''Outgoing reservation amount cannot be negative''
      else let scale = (case amountScale of None \<Rightarrow> IntNum USD_DECIMAL_PLACES | Some s \<Rightarrow> s) in
        if \<not> isInteger scale \<or> num_val scale < 0 \<or> num_val scale > DEFAULT_MAX_LOGICAL_MONEY_SCALE
        then throwValidation ''Outgoing reservation has an invalid amount scale''
        else let scaleDifference = num_val scale - USD_DECIMAL_PLACES in
          if scaleDifference = 0 then Inr amountAtomic
          else if scaleDifference < 0
          then bind_r (bigint_pow 10 (- scaleDifference)) (\<lambda>factor. Inr (amountAtomic * factor))
          else bind_r (bigint_pow 10 scaleDifference) (\<lambda>divisor.
            bind_r (bigint_mod amountAtomic divisor) (\<lambda>rest.
            if rest \<noteq> 0
            then throwValidation ''Outgoing reservation cannot be represented in USD cents''
            else bigint_div amountAtomic divisor)))"

section \<open>Lemmas\<close>

definition valid_money :: "Money \<Rightarrow> bool" where
  "valid_money m \<longleftrightarrow> m_currency m = USD \<and> 0 \<le> m_atomicUnits m"

lemma formatMoney_eq:
  assumes "0 \<le> m_atomicUnits m"
  shows "formatMoney m = nat_to_string (nat (m_atomicUnits m) div 100) @
     CHR ''.'' # padStart 2 (nat_to_string (nat (m_atomicUnits m) mod 100))"
proof -
  obtain n where n: "m_atomicUnits m = int n" using assms by (metis nonneg_int_cases)
  have "int n div 100 = int (n div 100)" "int n mod 100 = int (n mod 100)"
    by (simp_all add: zdiv_int zmod_int)
  then show ?thesis by (simp add: formatMoney_def USD_DECIMAL_PLACES_def n js_simps Let_def)
qed

lemma nat_to_string_hd: "nat_to_string n = ''0'' \<or> hd (nat_to_string n) \<noteq> CHR ''0''"
  using strip_leading_zeros_props [of "nat_to_string n"] by (auto simp: length_Suc_conv)

lemma parse_formatMoney:
  assumes "valid_money m"
  shows "createMoney (formatMoney m) USD = Inr m"
proof -
  define n where "n = nat (m_atomicUnits m)"
  let ?w = "nat_to_string (n div 100)" and ?f = "padStart 2 (nat_to_string (n mod 100))"
  have len: "length ?f = 2"
    using length_padStart [of "nat_to_string (n mod 100)" 2] length_nat_to_string [of "n mod 100" 2] by simp
  have fmt: "formatMoney m = ?w @ CHR ''.'' # ?f"
    using assms by (simp add: formatMoney_eq n_def valid_money_def)
  have "match_decimal (?w @ CHR ''.'' # ?f) = Some (?w, Some ?f)"
    using len by (intro match_decimal_fraction) auto
  then have "match_plain_decimal (formatMoney m) = Some (?w, Some ?f)"
    using nat_to_string_hd [of "n div 100"] by (auto simp: match_plain_decimal_def fmt)
  moreover have "padEnd 2 ?f = ?f" using len by (simp add: padEnd_def)
  ultimately have "parseDecimalToAtomicUnits (formatMoney m) (IntNum USD_DECIMAL_PLACES) =
      Inr (int (n div 100) * 100 + int (n mod 100))"
    using len by (simp add: parseDecimalToAtomicUnits_def USD_DECIMAL_PLACES_def js_simps fmt)
  also have "int (n div 100) * 100 + int (n mod 100) = m_atomicUnits m"
    using assms unfolding n_def valid_money_def by (simp add: zdiv_int zmod_int)
  finally show ?thesis
    using assms by (simp add: createMoney_def assertSupportedCurrency_def valid_money_def)
qed

lemma parseDecimal_nonneg: "parseDecimalToAtomicUnits s k = Inr u \<Longrightarrow> 0 \<le> u"
  by (auto simp: parseDecimalToAtomicUnits_def result_simps Let_def bigint_pow_def
      split: if_splits option.splits)

lemma createMoney_valid: "createMoney s USD = Inr m \<Longrightarrow> valid_money m"
  by (auto simp: createMoney_def result_simps valid_money_def dest: parseDecimal_nonneg)

interpretation usd_codec: decimal_codec formatMoney "\<lambda>s. createMoney s USD" valid_money
  by unfold_locales (auto intro: parse_formatMoney createMoney_valid)

lemma reservationAmount_exact:
  assumes "reservationAmountInUsdAtomic a (Some (IntNum s)) = Inr c"
  shows "0 \<le> s \<and> s \<le> 18 \<and> 0 \<le> a \<and> 0 \<le> c \<and> c * 10 ^ nat s = a * 100"
proof -
  have s: "0 \<le> a" "0 \<le> s" "s \<le> 18"
    using assms by (auto simp: reservationAmountInUsdAtomic_def Let_def DEFAULT_MAX_LOGICAL_MONEY_SCALE_def
        split: if_splits)
  consider "s = 2" | "s < 2" | "2 < s" by linarith
  then have "0 \<le> c \<and> c * 10 ^ nat s = a * 100"
  proof cases
    case 2
    then have "c = a * 10 ^ nat (2 - s)"
      using assms s by (simp add: reservationAmountInUsdAtomic_def Let_def USD_DECIMAL_PLACES_def
          DEFAULT_MAX_LOGICAL_MONEY_SCALE_def js_simps)
    moreover have "(10::int) ^ nat (2 - s) * 10 ^ nat s = 10 ^ 2"
      using 2 s by (simp add: power_add [symmetric] nat_add_distrib [symmetric])
    ultimately show ?thesis using s by (simp add: mult.assoc)
  next
    case 3
    let ?d = "(10::int) ^ nat (s - 2)"
    have "a mod ?d = 0" "c = a div ?d"
      using assms s 3 by (auto simp: reservationAmountInUsdAtomic_def Let_def USD_DECIMAL_PLACES_def
          DEFAULT_MAX_LOGICAL_MONEY_SCALE_def js_simps result_simps split: if_splits)
    then have "c * ?d = a" "0 \<le> c"
      using s by (auto simp: pos_imp_zdiv_nonneg_iff)
    moreover have "nat s = nat (s - 2) + 2" using 3 s by simp
    ultimately show ?thesis by (simp add: power_add mult.assoc [symmetric])
  qed (use assms s in \<open>simp add: reservationAmountInUsdAtomic_def Let_def USD_DECIMAL_PLACES_def
      DEFAULT_MAX_LOGICAL_MONEY_SCALE_def\<close>)
  with s show ?thesis by simp
qed

section \<open>Properties\<close>

text \<open>A dollar amount that is accepted prints to a string that is accepted as the same amount.\<close>

theorem usd_money_roundtrip:
  assumes "createMoney s USD = Inr m"
  shows "createMoney (formatMoney m) USD = Inr m \<and> 0 \<le> m_atomicUnits m"
  using usd_codec.reparse [OF assms] createMoney_valid [OF assms] by (simp add: valid_money_def)

theorem usd_money_roundtrip_witness:
  "\<exists>m. createMoney ''12.5'' USD = Inr m \<and> createMoney (formatMoney m) USD = Inr m \<and> formatMoney m = ''12.50''"
proof -
  let ?m = "\<lparr>m_currency = USD, m_atomicUnits = 1250\<rparr>"
  have p: "createMoney ''12.5'' USD = Inr ?m" by code_simp
  have "formatMoney ?m = ''12.50''" by code_simp
  then show ?thesis using p usd_money_roundtrip [OF p] by blast
qed

text \<open>The amount of a reservation in dollar cents is exact: scaled back it is the reserved
  amount, and an amount with a fraction of a cent is not rounded but refused.\<close>

theorem reservation_amount_rescaled:
  assumes "reservationAmountInUsdAtomic a (Some (IntNum s)) = Inr c"
  shows "0 \<le> s \<and> s \<le> 18 \<and> 0 \<le> c \<and> c * 10 ^ nat s = a * 100"
  using reservationAmount_exact [OF assms] by simp

theorem reservation_amount_rescaled_witness:
  "reservationAmountInUsdAtomic 2500000 (Some (IntNum 6)) = Inr 250 \<and> (250::int) * 10 ^ nat 6 = 2500000 * 100"
proof -
  have "reservationAmountInUsdAtomic 2500000 (Some (IntNum 6)) = Inr 250" by code_simp
  then show ?thesis using reservation_amount_rescaled by blast
qed

end
