(* ===== verification/Solana_Incoming.thy ===== *)
theory Solana_Incoming
  imports Outgoing_Worker Usd_Money
begin

text \<open>
  The reader of incoming transfers, \<^verbatim>\<open>packages/solana-rail/src/incoming.ts\<close>: the history of an address is
  collected page by page down to the cursor, every transaction of it is fetched and classified, and a transfer
  from outside is reported with its amount. The RPC node and the token account are parameters. Collecting the
  history is a loop that only ends when the node stops sending full pages, so it is a
  \<open>partial_function\<close>; that it returns is proved for a node that answers as documented.
\<close>

section \<open>Data of the RPC node\<close>

record IncomingTransfer =
  tf_signature :: string
  tf_amount :: Money
  tf_tokenAtomicUnits :: int
  tf_tokenDecimals :: int
  tf_sourceAddress :: "string option"
  tf_reference :: "string option"
  tf_tokenAccount :: string
  tf_settlementMint :: string
  tf_confirmedAt :: int

datatype IncomingReconciliationIssueReason =
    TRANSACTION_UNAVAILABLE | META_UNAVAILABLE | BLOCK_TIME_UNAVAILABLE | UNCLASSIFIED_TRANSFER | RPC_UNAVAILABLE

fun reason_name :: "IncomingReconciliationIssueReason \<Rightarrow> string" where
  "reason_name TRANSACTION_UNAVAILABLE = ''TRANSACTION_UNAVAILABLE''"
| "reason_name META_UNAVAILABLE = ''META_UNAVAILABLE''"
| "reason_name BLOCK_TIME_UNAVAILABLE = ''BLOCK_TIME_UNAVAILABLE''"
| "reason_name UNCLASSIFIED_TRANSFER = ''UNCLASSIFIED_TRANSFER''"
| "reason_name RPC_UNAVAILABLE = ''RPC_UNAVAILABLE''"

record UnresolvedIncomingSignature =
  ur_signature :: string
  ur_reason :: IncomingReconciliationIssueReason

datatype IncomingSignatureInspection =
    INCOMING IncomingTransfer | IRRELEVANT | UNRESOLVED IncomingReconciliationIssueReason

record SignatureInfo =
  sg_signature :: string
  sg_failed :: bool

record TokenBalance =
  tb_accountIndex :: nat
  tb_mint :: string
  tb_owner :: "string option"
  tb_amount :: string

record ParsedInstruction =
  ix_program :: "string option"
  ix_programId :: "string option"
  ix_parsed :: "json option"

record TransactionMeta =
  mt_failed :: bool
  mt_preTokenBalances :: "TokenBalance list option"
  mt_postTokenBalances :: "TokenBalance list option"
  mt_innerInstructions :: "ParsedInstruction list list option"

datatype AccountKey = KeyString string | KeyObject string

fun key_address :: "AccountKey \<Rightarrow> string" where
  "key_address (KeyString s) = s"
| "key_address (KeyObject s) = s"

record TransactionResponse =
  tr_blockTime :: "int option"
  tr_meta :: "TransactionMeta option"
  tr_accountKeys :: "AccountKey list option"
  tr_instructions :: "ParsedInstruction list option"

definition list_of :: "'a list option \<Rightarrow> 'a list" where
  "list_of xs = (case xs of None \<Rightarrow> [] | Some ys \<Rightarrow> ys)"

section \<open>Strings as BigInts\<close>

definition digits_of :: "nat \<Rightarrow> string \<Rightarrow> nat option" where
  "digits_of base s =
     (if s = [] then None
      else fold (\<lambda>c acc. case (acc, hex_val c) of (Some n, Some d) \<Rightarrow> if d < base then Some (n * base + d) else None | _ \<Rightarrow> None) s (Some 0))"

definition syntax_error :: js_error where
  "syntax_error = JsError ''Cannot convert to a BigInt''"

definition BigInt_of :: "string \<Rightarrow> int result" where
  "BigInt_of s =
     (let t = trim s;
          prefix = take 2 t;
          number = (if t = [] then Some 0
            else if prefix = ''0x'' \<or> prefix = ''0X'' then map_option int (digits_of 16 (drop 2 t))
            else if prefix = ''0o'' \<or> prefix = ''0O'' then map_option int (digits_of 8 (drop 2 t))
            else if prefix = ''0b'' \<or> prefix = ''0B'' then map_option int (digits_of 2 (drop 2 t))
            else if take 1 t = ''-'' then map_option (\<lambda>n. - int n) (digits_of 10 (drop 1 t))
            else if take 1 t = ''+'' then map_option int (digits_of 10 (drop 1 t))
            else map_option int (digits_of 10 t))
      in case number of None \<Rightarrow> Inl syntax_error | Some n \<Rightarrow> Inr n)"

fun String_of :: "json \<Rightarrow> string" where
  "String_of JNull = ''null''"
| "String_of (JBool b) = (if b then ''true'' else ''false'')"
| "String_of (JNumber n) = n"
| "String_of (JStr s) = s"
| "String_of (JArr xs) = join '','' (map (\<lambda>x. if x = JNull then [] else String_of x) xs)"
| "String_of (JObj _) = ''[object Object]''"

section \<open>Classifying a transaction\<close>

text \<open>A member of a value that is an object; an array has none of the members read here.\<close>

fun member :: "json option \<Rightarrow> string \<Rightarrow> json option" where
  "member (Some (JObj ms)) k = obj_get ms k"
| "member _ k = None"

fun is_object :: "json option \<Rightarrow> bool" where
  "is_object (Some (JObj _)) = True"
| "is_object (Some (JArr _)) = True"
| "is_object _ = False"

fun is_string :: "json option \<Rightarrow> bool" where
  "is_string (Some (JStr _)) = True"
| "is_string _ = False"

fun string_member :: "json option \<Rightarrow> string option" where
  "string_member (Some (JStr s)) = Some s"
| "string_member _ = None"

definition spl_token_parsed :: "ParsedInstruction \<Rightarrow> bool" where
  "spl_token_parsed i \<longleftrightarrow> ix_program i = Some ''spl-token'' \<and> is_object (ix_parsed i)"

definition isKnownNonTransferMutation :: "ParsedInstruction \<Rightarrow> bool" where
  "isKnownNonTransferMutation i \<longleftrightarrow> spl_token_parsed i \<and>
     (member (ix_parsed i) ''type'' = Some (JStr ''mintTo'') \<or> member (ix_parsed i) ''type'' = Some (JStr ''mintToChecked''))"

record ParsedTransfer =
  px_source :: string
  px_destination :: string
  px_amount :: "int option"
  px_mint :: "string option"

definition raw_amount :: "json option \<Rightarrow> json option" where
  "raw_amount info =
     (case member info ''amount'' of
        None \<Rightarrow> member (member info ''tokenAmount'') ''amount''
      | Some JNull \<Rightarrow> member (member info ''tokenAmount'') ''amount''
      | Some v \<Rightarrow> Some v)"

definition getParsedTransfer :: "ParsedInstruction \<Rightarrow> ParsedTransfer option" where
  "getParsedTransfer i =
     (let type = member (ix_parsed i) ''type''; info = member (ix_parsed i) ''info'' in
      if \<not> spl_token_parsed i then None
      else if type \<noteq> Some (JStr ''transfer'') \<and> type \<noteq> Some (JStr ''transferChecked'') then None
      else if \<not> is_object info then None
      else
        (case (case raw_amount info of None \<Rightarrow> Inr None
               | Some v \<Rightarrow> (case BigInt_of (String_of v) of Inl e \<Rightarrow> Inl e | Inr n \<Rightarrow> Inr (Some n))) of
           Inl _ \<Rightarrow> None
         | Inr amount \<Rightarrow>
             (case (member info ''source'', member info ''destination'') of
                (Some (JStr source), Some (JStr destination)) \<Rightarrow>
                  Some \<lparr>px_source = source, px_destination = destination, px_amount = amount,
                        px_mint = string_member (member info ''mint'')\<rparr>
              | _ \<Rightarrow> None)))"

text \<open>\<^verbatim>\<open>accountKeys?.findIndex(...)\<close>: the index of the first such key, \<open>-1\<close> when there is none.\<close>

fun first_index :: "('a \<Rightarrow> bool) \<Rightarrow> 'a list \<Rightarrow> int" where
  "first_index P [] = - 1"
| "first_index P (x # xs) = (if P x then 0 else (let i = first_index P xs in if i = - 1 then - 1 else i + 1))"

definition findAccountIndex :: "TransactionResponse \<Rightarrow> string \<Rightarrow> int option" where
  "findAccountIndex t value = map_option (first_index (\<lambda>k. key_address k = value)) (tr_accountKeys t)"

definition isDestinationAccount :: "TransactionResponse \<Rightarrow> nat \<Rightarrow> string \<Rightarrow> bool" where
  "isDestinationAccount t accountIndex tokenAccount =
     (case tr_accountKeys t of
        None \<Rightarrow> False
      | Some keys \<Rightarrow> accountIndex < length keys \<and> key_address (keys ! accountIndex) = tokenAccount)"

definition pre_balances :: "string \<Rightarrow> TransactionResponse \<Rightarrow> TokenBalance list" where
  "pre_balances mint t =
     (case tr_meta t of None \<Rightarrow> [] | Some m \<Rightarrow> filter (\<lambda>b. tb_mint b = mint) (list_of (mt_preTokenBalances m)))"

definition post_balances :: "TransactionResponse \<Rightarrow> TokenBalance list" where
  "post_balances t = (case tr_meta t of None \<Rightarrow> [] | Some m \<Rightarrow> list_of (mt_postTokenBalances m))"

text \<open>A \<^verbatim>\<open>Map\<close> filled in order: a later entry of the same account replaces the earlier one.\<close>

definition balance_before :: "TokenBalance list \<Rightarrow> int list \<Rightarrow> nat \<Rightarrow> int" where
  "balance_before balances amounts i =
     (case map_of (rev (zip (map tb_accountIndex balances) amounts)) i of None \<Rightarrow> 0 | Some n \<Rightarrow> n)"

definition pre_owner :: "TokenBalance list \<Rightarrow> int \<Rightarrow> string option" where
  "pre_owner balances i =
     (case List.find (\<lambda>b. int (tb_accountIndex b) = i) (rev balances) of None \<Rightarrow> None | Some b \<Rightarrow> tb_owner b)"

definition own_balance :: "TransactionResponse \<Rightarrow> string \<Rightarrow> string \<Rightarrow> string \<Rightarrow> TokenBalance \<Rightarrow> bool" where
  "own_balance t owner tokenAccount mint b \<longleftrightarrow> tb_mint b = mint \<and> tb_owner b = Some owner \<and>
     isDestinationAccount t (tb_accountIndex b) tokenAccount"

text \<open>How much the balance of the token account grew.\<close>

fun destination_delta :: "(nat \<Rightarrow> int) \<Rightarrow> TokenBalance list \<Rightarrow> int result" where
  "destination_delta before [] = Inr 0"
| "destination_delta before (b # bs) =
     bind_r (BigInt_of (tb_amount b)) (\<lambda>after.
     bind_r (destination_delta before bs) (\<lambda>rest.
     Inr (max 0 (after - before (tb_accountIndex b)) + rest)))"

definition getDestinationDelta :: "TransactionResponse \<Rightarrow> string \<Rightarrow> string \<Rightarrow> string \<Rightarrow> int result" where
  "getDestinationDelta t owner tokenAccount mint =
     bind_r (map_r (\<lambda>b. BigInt_of (tb_amount b)) (pre_balances mint t)) (\<lambda>amounts.
     destination_delta (balance_before (pre_balances mint t) amounts)
       (filter (own_balance t owner tokenAccount mint) (post_balances t)))"

record TransferTally =
  ty_external :: "(int \<times> string) list"
  ty_unknownSourceAmount :: int
  ty_selfTransferAmount :: int
  ty_targetTransferAmount :: int
  ty_hasUnclassifiedTransfer :: bool
  ty_hasKnownNonTransferMutation :: bool

definition empty_tally :: TransferTally where
  "empty_tally = \<lparr>ty_external = [], ty_unknownSourceAmount = 0, ty_selfTransferAmount = 0, ty_targetTransferAmount = 0,
     ty_hasUnclassifiedTransfer = False, ty_hasKnownNonTransferMutation = False\<rparr>"

definition credit_transfer :: "TransactionResponse \<Rightarrow> TokenBalance list \<Rightarrow> string \<Rightarrow> string \<Rightarrow> int \<Rightarrow> TransferTally \<Rightarrow> TransferTally" where
  "credit_transfer t balances owner source amount y =
     (let target = y\<lparr>ty_targetTransferAmount := ty_targetTransferAmount y + amount\<rparr>;
          unknown = target\<lparr>ty_unknownSourceAmount := ty_unknownSourceAmount y + amount\<rparr> in
      case findAccountIndex t source of
        None \<Rightarrow> unknown
      | Some i \<Rightarrow>
          (case pre_owner balances i of
             None \<Rightarrow> unknown
           | Some q \<Rightarrow>
               if q = owner then target\<lparr>ty_selfTransferAmount := ty_selfTransferAmount y + amount\<rparr>
               else target\<lparr>ty_external := ty_external y @ [(amount, q)]\<rparr>))"

definition tally_instruction ::
    "TransactionResponse \<Rightarrow> TokenBalance list \<Rightarrow> string \<Rightarrow> string \<Rightarrow> string \<Rightarrow> ParsedInstruction \<Rightarrow> TransferTally \<Rightarrow> TransferTally" where
  "tally_instruction t balances owner tokenAccount mint i y =
     (case getParsedTransfer i of
        None \<Rightarrow> y\<lparr>ty_hasKnownNonTransferMutation := ty_hasKnownNonTransferMutation y \<or> isKnownNonTransferMutation i\<rparr>
      | Some p \<Rightarrow>
          if px_destination p \<noteq> tokenAccount then y
          else if px_mint p \<noteq> None \<and> px_mint p \<noteq> Some mint then y
          else (case px_amount p of
             None \<Rightarrow> y\<lparr>ty_hasUnclassifiedTransfer := True\<rparr>
           | Some amount \<Rightarrow>
               if amount \<le> 0 then y\<lparr>ty_hasUnclassifiedTransfer := True\<rparr>
               else credit_transfer t balances owner (px_source p) amount y))"

definition all_instructions :: "TransactionResponse \<Rightarrow> ParsedInstruction list" where
  "all_instructions t = list_of (tr_instructions t) @
     (case tr_meta t of None \<Rightarrow> [] | Some m \<Rightarrow> concat (list_of (mt_innerInstructions m)))"

datatype TransferClass = ExternalTransfer int "string option" | IrrelevantTransfer | UnclassifiedTransfer

definition classify_tally :: "int \<Rightarrow> TransferTally \<Rightarrow> TransferClass" where
  "classify_tally delta y =
     (let externalAmount = sum_list (map fst (ty_external y));
          provenExternalAmount = externalAmount + ty_unknownSourceAmount y in
      if ty_hasKnownNonTransferMutation y \<and> ty_targetTransferAmount y = 0 then IrrelevantTransfer
      else if ty_hasUnclassifiedTransfer y \<or> ty_targetTransferAmount y \<noteq> delta then UnclassifiedTransfer
      else if provenExternalAmount > 0 then
        ExternalTransfer provenExternalAmount
          (if ty_unknownSourceAmount y = 0 \<and> length (remdups (map snd (ty_external y))) = 1
           then Some (snd (hd (ty_external y))) else None)
      else if ty_selfTransferAmount y = delta then IrrelevantTransfer else UnclassifiedTransfer)"

definition getExternalIncomingTransfer :: "TransactionResponse \<Rightarrow> string \<Rightarrow> string \<Rightarrow> string \<Rightarrow> TransferClass result" where
  "getExternalIncomingTransfer t owner tokenAccount mint =
     bind_r (getDestinationDelta t owner tokenAccount mint) (\<lambda>delta.
     if delta \<le> 0 then Inr IrrelevantTransfer
     else Inr (classify_tally delta
       (fold (tally_instruction t (pre_balances mint t) owner tokenAccount mint) (all_instructions t) empty_tally)))"

section \<open>Amount, reference and time\<close>

definition MEMO_PROGRAM_ID :: string where
  "MEMO_PROGRAM_ID = ''MemoSq4gqABAXKb96qnH8TysNcWxMyWCqXgDLGmfcHr''"

definition is_memo :: "ParsedInstruction \<Rightarrow> bool" where
  "is_memo i \<longleftrightarrow> (ix_programId i = Some MEMO_PROGRAM_ID \<or> ix_program i = Some ''spl-memo'') \<and>
     (case ix_parsed i of Some (JStr s) \<Rightarrow> length s \<le> 255 | _ \<Rightarrow> False)"

text \<open>What follows the first occurrence of the marker, or the whole memo.\<close>

fun after_marker :: "string \<Rightarrow> string \<Rightarrow> string option" where
  "after_marker marker [] = (if marker = [] then Some [] else None)"
| "after_marker marker (c # cs) =
     (if take (length marker) (c # cs) = marker then Some (drop (length marker) (c # cs)) else after_marker marker cs)"

definition getMemo :: "TransactionResponse \<Rightarrow> string option" where
  "getMemo t =
     (case List.find is_memo (list_of (tr_instructions t)) of
        Some i \<Rightarrow> (case ix_parsed i of
            Some (JStr s) \<Rightarrow> (case after_marker ''|reference:'' s of None \<Rightarrow> Some s | Some r \<Rightarrow> Some r)
          | _ \<Rightarrow> None)
      | None \<Rightarrow> None)"

definition inexact_transfer :: js_error where
  "inexact_transfer = DomainErr (ExternalRailError
     ''Incoming transfer cannot be represented exactly in the configured denomination'' DETERMINISTIC None)"

definition tokenAmountToUsd :: "int \<Rightarrow> int \<Rightarrow> Money result" where
  "tokenAmountToUsd tokenAtomicUnits decimals =
     (if decimals \<ge> 2 then
        (let divisor = 10 ^ nat (decimals - 2) in
         if tokenAtomicUnits mod divisor \<noteq> 0 then Inl inexact_transfer
         else Inr \<lparr>m_currency = ''USD'', m_atomicUnits = tokenAtomicUnits div divisor\<rparr>)
      else Inr \<lparr>m_currency = ''USD'', m_atomicUnits = tokenAtomicUnits * 10 ^ nat (2 - decimals)\<rparr>)"

definition MAX_DATE :: int where "MAX_DATE = 8640000000000000"

definition date_of_seconds :: "int \<Rightarrow> int option" where
  "date_of_seconds s = (if \<bar>s * 1000\<bar> \<le> MAX_DATE then Some (s * 1000) else None)"

section \<open>The reader\<close>

text \<open>What a request to the node comes to: an answer, a failure, or no answer in time.\<close>

datatype 'a rpc_outcome = Answer 'a | Failed | TimedOut

type_synonym 'a rpc = "world \<Rightarrow> 'a rpc_outcome \<times> world"

definition rpc_error :: "string \<Rightarrow> js_error" where
  "rpc_error message = DomainErr (ExternalRailError message RETRYABLE None)"

definition withRpcTimeout :: "'a rpc \<Rightarrow> 'a proc" where
  "withRpcTimeout request = (\<lambda>w. case request w of
       (Answer x, w') \<Rightarrow> (Inr x, w')
     | (Failed, w') \<Rightarrow> (Inl (rpc_error ''Incoming Solana reconciliation is unavailable''), w')
     | (TimedOut, w') \<Rightarrow> (Inl (rpc_error ''Incoming Solana RPC request timed out''), w'))"

record SolanaIncomingReaderOptions =
  rd_getSignaturesForAddress :: "string \<Rightarrow> string option \<Rightarrow> SignatureInfo list rpc"
  rd_getTransaction :: "string \<Rightarrow> TransactionResponse option rpc"
  rd_getReceiveDestination :: "string \<Rightarrow> string proc"
  rd_getTokenDecimals :: "string \<Rightarrow> int proc"
  rd_settlementMint :: string

record InspectionContext =
  cx_owner :: string
  cx_tokenAccount :: string
  cx_tokenDecimals :: int

definition createInspectionContext :: "SolanaIncomingReaderOptions \<Rightarrow> string \<Rightarrow> InspectionContext proc" where
  "createInspectionContext opts owner =
     bind_p (rd_getReceiveDestination opts owner) (\<lambda>tokenAccount.
     bind_p (rd_getTokenDecimals opts owner) (\<lambda>decimals.
     return_p \<lparr>cx_owner = owner, cx_tokenAccount = tokenAccount, cx_tokenDecimals = decimals\<rparr>))"

definition fetchTransaction :: "SolanaIncomingReaderOptions \<Rightarrow> string \<Rightarrow> TransactionResponse option proc" where
  "fetchTransaction opts signature = withRpcTimeout (rd_getTransaction opts signature)"

definition transfer_from ::
    "SolanaIncomingReaderOptions \<Rightarrow> InspectionContext \<Rightarrow> string \<Rightarrow> TransactionResponse \<Rightarrow> int \<Rightarrow> string option \<Rightarrow> IncomingSignatureInspection" where
  "transfer_from opts context signature t amount source =
     (case tr_blockTime t of
        None \<Rightarrow> UNRESOLVED BLOCK_TIME_UNAVAILABLE
      | Some s \<Rightarrow>
          (case date_of_seconds s of
             None \<Rightarrow> UNRESOLVED BLOCK_TIME_UNAVAILABLE
           | Some confirmedAt \<Rightarrow>
               (case tokenAmountToUsd amount (cx_tokenDecimals context) of
                  Inl _ \<Rightarrow> UNRESOLVED UNCLASSIFIED_TRANSFER
                | Inr usd \<Rightarrow> INCOMING
                    \<lparr>tf_signature = signature, tf_amount = usd, tf_tokenAtomicUnits = amount,
                     tf_tokenDecimals = cx_tokenDecimals context, tf_sourceAddress = source, tf_reference = getMemo t,
                     tf_tokenAccount = cx_tokenAccount context, tf_settlementMint = rd_settlementMint opts,
                     tf_confirmedAt = confirmedAt\<rparr>)))"

definition inspect_transaction ::
    "SolanaIncomingReaderOptions \<Rightarrow> InspectionContext \<Rightarrow> string \<Rightarrow> TransactionResponse option \<Rightarrow> IncomingSignatureInspection result" where
  "inspect_transaction opts context signature found =
     (case found of
        None \<Rightarrow> Inr (UNRESOLVED TRANSACTION_UNAVAILABLE)
      | Some t \<Rightarrow>
          (case tr_meta t of
             None \<Rightarrow> Inr (UNRESOLVED META_UNAVAILABLE)
           | Some m \<Rightarrow>
               if mt_failed m then Inr IRRELEVANT
               else bind_r (getExternalIncomingTransfer t (cx_owner context) (cx_tokenAccount context) (rd_settlementMint opts)) (\<lambda>classified.
                 Inr (case classified of
                     IrrelevantTransfer \<Rightarrow> IRRELEVANT
                   | UnclassifiedTransfer \<Rightarrow> UNRESOLVED UNCLASSIFIED_TRANSFER
                   | ExternalTransfer amount source \<Rightarrow> transfer_from opts context signature t amount source))))"

definition inspectWithContext ::
    "SolanaIncomingReaderOptions \<Rightarrow> InspectionContext \<Rightarrow> string \<Rightarrow> IncomingSignatureInspection proc" where
  "inspectWithContext opts context signature = (\<lambda>w.
     case fetchTransaction opts signature w of
       (Inl _, w') \<Rightarrow> (Inr (UNRESOLVED RPC_UNAVAILABLE), w')
     | (Inr found, w') \<Rightarrow> (inspect_transaction opts context signature found, w'))"

definition inspectSignature :: "SolanaIncomingReaderOptions \<Rightarrow> string \<Rightarrow> string \<Rightarrow> IncomingSignatureInspection proc" where
  "inspectSignature opts owner signature =
     bind_p (createInspectionContext opts owner) (\<lambda>context. inspectWithContext opts context signature)"

definition PAGE_LIMIT :: nat where "PAGE_LIMIT = 1000"

text \<open>The part of a items before the cursor.\<close>

definition new_items :: "string option \<Rightarrow> SignatureInfo list \<Rightarrow> SignatureInfo list" where
  "new_items cursor items = takeWhile (\<lambda>i. Some (sg_signature i) \<noteq> cursor) items"

definition reaches_cursor :: "string option \<Rightarrow> SignatureInfo list \<Rightarrow> bool" where
  "reaches_cursor cursor items = list_ex (\<lambda>i. Some (sg_signature i) = cursor) items"

record History =
  hi_signatures :: "SignatureInfo list"
  hi_nextCursor :: "string option"

definition history_of :: "SignatureInfo list \<Rightarrow> string option \<Rightarrow> string option \<Rightarrow> History" where
  "history_of signatures first cursor =
     \<lparr>hi_signatures = signatures, hi_nextCursor = (case first of None \<Rightarrow> cursor | Some s \<Rightarrow> Some s)\<rparr>"

partial_function (option) collect_pages ::
    "SolanaIncomingReaderOptions \<Rightarrow> string \<Rightarrow> string option \<Rightarrow> string option \<Rightarrow> string option \<Rightarrow> SignatureInfo list \<Rightarrow> world \<Rightarrow>
      (History result \<times> world) option" where
  "collect_pages opts account cursor before first signatures w =
     (case withRpcTimeout (rd_getSignaturesForAddress opts account before) w of
        (Inl e, w') \<Rightarrow> Some (Inl e, w')
      | (Inr items, w') \<Rightarrow>
          if items = [] then Some (Inr (history_of signatures first cursor), w')
          else
            (let first' = (if first = None then Some (sg_signature (hd items)) else first);
                 signatures' = signatures @ new_items cursor items in
             if reaches_cursor cursor items \<or> length items < PAGE_LIMIT then Some (Inr (history_of signatures' first' cursor), w')
             else collect_pages opts account cursor (Some (sg_signature (last items))) first' signatures' w'))"

definition collectHistory :: "SolanaIncomingReaderOptions \<Rightarrow> string \<Rightarrow> string option \<Rightarrow> world \<Rightarrow> (History result \<times> world) option" where
  "collectHistory opts account cursor = collect_pages opts account cursor None None []"

record IncomingScan =
  sn_transfers :: "IncomingTransfer list"
  sn_unresolved :: "UnresolvedIncomingSignature list"
  sn_nextCursor :: "string option"

fun inspect_all ::
    "SolanaIncomingReaderOptions \<Rightarrow> InspectionContext \<Rightarrow> SignatureInfo list \<Rightarrow>
      (IncomingTransfer list \<times> UnresolvedIncomingSignature list) proc" where
  "inspect_all opts context [] = return_p ([], [])"
| "inspect_all opts context (item # items) =
     (if sg_failed item then inspect_all opts context items
      else
        bind_p (inspectWithContext opts context (sg_signature item)) (\<lambda>inspection.
        bind_p (inspect_all opts context items) (\<lambda>(transfers, unresolved).
        return_p (case inspection of
            IRRELEVANT \<Rightarrow> (transfers, unresolved)
          | UNRESOLVED reason \<Rightarrow> (transfers, \<lparr>ur_signature = sg_signature item, ur_reason = reason\<rparr> # unresolved)
          | INCOMING transfer \<Rightarrow> (transfer # transfers, unresolved)))))"

definition scanWithCursor :: "SolanaIncomingReaderOptions \<Rightarrow> string \<Rightarrow> string option \<Rightarrow> world \<Rightarrow> (IncomingScan result \<times> world) option" where
  "scanWithCursor opts owner cursor w =
     (case createInspectionContext opts owner w of
        (Inl e, w1) \<Rightarrow> Some (Inl e, w1)
      | (Inr context, w1) \<Rightarrow>
          (case collectHistory opts (cx_tokenAccount context) cursor w1 of
             None \<Rightarrow> None
           | Some (Inl e, w2) \<Rightarrow> Some (Inl e, w2)
           | Some (Inr history, w2) \<Rightarrow>
               Some (bind_p (inspect_all opts context (rev (hi_signatures history))) (\<lambda>(transfers, unresolved).
                 return_p \<lparr>sn_transfers = transfers, sn_unresolved = unresolved, sn_nextCursor = hi_nextCursor history\<rparr>) w2)))"

definition scan :: "SolanaIncomingReaderOptions \<Rightarrow> string \<Rightarrow> string option \<Rightarrow> world \<Rightarrow> (IncomingTransfer list result \<times> world) option" where
  "scan opts owner cursor w =
     map_option (\<lambda>(r, w'). (case r of Inl e \<Rightarrow> Inl e | Inr s \<Rightarrow> Inr (sn_transfers s), w')) (scanWithCursor opts owner cursor w)"

section \<open>What is credited\<close>

text \<open>Every unit sent to the token account is external, of an unknown source, or the owner's own.\<close>

definition tally_balanced :: "TransferTally \<Rightarrow> bool" where
  "tally_balanced y \<longleftrightarrow> ty_targetTransferAmount y =
     sum_list (map fst (ty_external y)) + ty_unknownSourceAmount y + ty_selfTransferAmount y \<and> 0 \<le> ty_selfTransferAmount y"

lemma credit_balanced: "tally_balanced y \<Longrightarrow> 0 \<le> amount \<Longrightarrow> tally_balanced (credit_transfer t balances owner source amount y)"
  by (auto simp: tally_balanced_def credit_transfer_def Let_def split: option.splits)

lemma tally_instruction_balanced: "tally_balanced y \<Longrightarrow> tally_balanced (tally_instruction t balances owner account mint i y)"
proof -
  assume y: "tally_balanced y"
  have "tally_balanced (y\<lparr>ty_hasUnclassifiedTransfer := True\<rparr>)" "tally_balanced (y\<lparr>ty_hasKnownNonTransferMutation := b\<rparr>)" for b
    using y by (simp_all add: tally_balanced_def)
  then show ?thesis using y credit_balanced by (simp add: tally_instruction_def split: option.split)
qed

lemma tally_all_balanced:
  "tally_balanced y \<Longrightarrow> tally_balanced (fold (tally_instruction t balances owner account mint) is y)"
  by (induction "is" arbitrary: y) (simp_all add: tally_instruction_balanced)

lemma classify_external:
  assumes "classify_tally delta y = ExternalTransfer amount source" "tally_balanced y"
  shows "0 < amount" "amount = delta - ty_selfTransferAmount y" "amount \<le> delta"
  using assms by (auto simp: classify_tally_def tally_balanced_def Let_def split: if_splits)

lemma external_transfer_credit:
  assumes "getExternalIncomingTransfer t owner account mint = Inr (ExternalTransfer amount source)"
  obtains delta where "getDestinationDelta t owner account mint = Inr delta" "0 < amount" "amount \<le> delta"
proof -
  let ?y = "fold (tally_instruction t (pre_balances mint t) owner account mint) (all_instructions t) empty_tally"
  obtain delta where d: "getDestinationDelta t owner account mint = Inr delta"
    "classify_tally delta ?y = ExternalTransfer amount source"
    using assms by (auto simp: getExternalIncomingTransfer_def bind_r_def split: sum.splits if_splits)
  have "tally_balanced ?y" by (rule tally_all_balanced) (simp add: tally_balanced_def empty_tally_def)
  then show thesis using that classify_external [OF d(2)] d(1) by blast
qed

text \<open>The amount in cents stands for exactly the tokens that were received.\<close>

lemma tokenAmountToUsd_exact:
  assumes "tokenAmountToUsd units decimals = Inr m" "0 \<le> decimals"
  shows "m_currency m = ''USD''" "m_atomicUnits m * 10 ^ nat decimals = units * 100"
proof -
  show "m_currency m = ''USD''" using assms by (auto simp: tokenAmountToUsd_def Let_def split: if_splits)
  show "m_atomicUnits m * 10 ^ nat decimals = units * 100"
  proof (cases "decimals \<ge> 2")
    case True
    then have m: "m_atomicUnits m = units div 10 ^ nat (decimals - 2)" "units mod 10 ^ nat (decimals - 2) = 0"
      using assms(1) by (auto simp: tokenAmountToUsd_def Let_def split: if_splits)
    have "nat decimals = nat (decimals - 2) + 2" using True by simp
    then have "(10 :: int) ^ nat decimals = 10 ^ nat (decimals - 2) * 100" by (simp only: power_add) simp
    moreover have "units div 10 ^ nat (decimals - 2) * 10 ^ nat (decimals - 2) = units" using m(2) by auto
    ultimately show ?thesis by (simp add: m(1) mult.assoc [symmetric])
  next
    case False
    then have "decimals = 0 \<or> decimals = 1" using assms(2) by auto
    then show ?thesis using assms(1) by (auto simp: tokenAmountToUsd_def)
  qed
qed

lemma inspection_amount:
  assumes "inspect_transaction opts context signature found = Inr (INCOMING f)"
  obtains t delta where "found = Some t" "tf_signature f = signature"
    "getDestinationDelta t (cx_owner context) (cx_tokenAccount context) (rd_settlementMint opts) = Inr delta"
    "0 < tf_tokenAtomicUnits f" "tf_tokenAtomicUnits f \<le> delta"
    "tokenAmountToUsd (tf_tokenAtomicUnits f) (cx_tokenDecimals context) = Inr (tf_amount f)"
proof -
  obtain t amount source where t: "found = Some t"
    "getExternalIncomingTransfer t (cx_owner context) (cx_tokenAccount context) (rd_settlementMint opts) = Inr (ExternalTransfer amount source)"
    "transfer_from opts context signature t amount source = INCOMING f"
    using assms by (auto simp: inspect_transaction_def bind_r_def split: option.splits if_splits sum.splits TransferClass.splits)
  have "tf_signature f = signature" "tf_tokenAtomicUnits f = amount"
    "tokenAmountToUsd amount (cx_tokenDecimals context) = Inr (tf_amount f)"
    using t(3) by (auto simp: transfer_from_def split: option.splits sum.splits)
  then show thesis using external_transfer_credit [OF t(2)] t(1) that by metis
qed

section \<open>The history is complete\<close>

text \<open>The documented answer of \<^verbatim>\<open>getSignaturesForAddress\<close>: the signatures of the address, newest first, after
  \<^verbatim>\<open>before\<close>, at most a page of them. The chain is the list of all of them.\<close>

definition chain_page :: "SignatureInfo list \<Rightarrow> string option \<Rightarrow> SignatureInfo list" where
  "chain_page chain before = take PAGE_LIMIT
     (case before of None \<Rightarrow> chain | Some s \<Rightarrow> drop 1 (dropWhile (\<lambda>i. sg_signature i \<noteq> s) chain))"

definition answers_history :: "SolanaIncomingReaderOptions \<Rightarrow> string \<Rightarrow> SignatureInfo list \<Rightarrow> bool" where
  "answers_history opts account chain \<longleftrightarrow>
     (\<forall>before w. fst (rd_getSignaturesForAddress opts account before w) = Answer (chain_page chain before))"

lemma chain_page_after:
  assumes "distinct (map sg_signature (old @ rest))"
  shows "chain_page (old @ rest) (if old = [] then None else Some (sg_signature (last old))) = take PAGE_LIMIT rest"
proof (cases old rule: rev_cases)
  case (snoc ys y)
  then have "\<forall>i \<in> set ys. sg_signature i \<noteq> sg_signature y" using assms by (auto simp: image_iff)
  then have "dropWhile (\<lambda>i. sg_signature i \<noteq> sg_signature y) (ys @ y # rest) = y # rest" by (simp add: dropWhile_append2)
  then show ?thesis by (simp add: snoc chain_page_def)
qed (simp add: chain_page_def)

lemma collect_pages_complete:
  assumes "answers_history opts account chain" "distinct (map sg_signature chain)"
  shows "chain = old @ rest \<Longrightarrow> cursor \<notin> (Some \<circ> sg_signature) ` set old \<Longrightarrow>
    \<exists>w'. collect_pages opts account cursor (if old = [] then None else Some (sg_signature (last old)))
        (if old = [] then None else Some (sg_signature (hd chain))) old w =
      Some (Inr (history_of (new_items cursor chain) (if chain = [] then None else Some (sg_signature (hd chain))) cursor), w')"
proof (induction "length rest" arbitrary: old rest w rule: less_induct)
  case less
  let ?before = "if old = [] then None else Some (sg_signature (last old))"
  let ?page = "take PAGE_LIMIT rest"
  have "fst (rd_getSignaturesForAddress opts account ?before w) = Answer ?page"
    using assms less.prems(1) chain_page_after [of old rest] by (simp add: answers_history_def)
  then obtain w1 where rpc: "withRpcTimeout (rd_getSignaturesForAddress opts account ?before) w = (Inr ?page, w1)"
    by (cases "rd_getSignaturesForAddress opts account ?before w") (simp add: withRpcTimeout_def)
  have new: "new_items cursor (old @ xs) = old @ new_items cursor xs" for xs
    using less.prems(2) unfolding new_items_def by (subst takeWhile_append2) auto
  show ?case
  proof (cases "rest = []")
    case True
    have "new_items cursor chain = old" using new [of "[]"] True less.prems(1) by (simp add: new_items_def)
    then show ?thesis using rpc less.prems(1) True by (subst collect_pages.simps) (simp add: history_of_def)
  next
    case False
    have page: "?page \<noteq> []" using False by (simp add: PAGE_LIMIT_def)
    have first: "sg_signature (hd chain) = (if old = [] then sg_signature (hd ?page) else sg_signature (hd chain))"
      using less.prems(1) False by (cases rest) (auto simp: PAGE_LIMIT_def)
    show ?thesis
    proof (cases "reaches_cursor cursor ?page \<or> length ?page < PAGE_LIMIT")
      case True
      have "new_items cursor rest = new_items cursor ?page"
      proof (cases "reaches_cursor cursor ?page")
        case True
        then obtain i where i: "i \<in> set ?page" "\<not> Some (sg_signature i) \<noteq> cursor" by (auto simp: reaches_cursor_def list_ex_iff)
        show ?thesis using takeWhile_append1 [where P = "\<lambda>i. Some (sg_signature i) \<noteq> cursor", OF i, of "drop PAGE_LIMIT rest"] unfolding new_items_def append_take_drop_id .
      qed (use True in simp)
      then show ?thesis using rpc page True first less.prems(1) new
        by (subst collect_pages.simps) (auto simp: Let_def)
    next
      case more: False
      let ?old = "old @ ?page"
      have len: "length (drop PAGE_LIMIT rest) < length rest" using False by (simp add: PAGE_LIMIT_def)
      have chain: "chain = ?old @ drop PAGE_LIMIT rest" using less.prems(1) by simp
      have fresh: "cursor \<notin> (Some \<circ> sg_signature) ` set ?old"
        using less.prems(2) more by (auto simp: reaches_cursor_def list_ex_iff)
      have "new_items cursor ?page = ?page" using more by (auto simp: new_items_def reaches_cursor_def list_ex_iff)
      then have "collect_pages opts account cursor ?before (if old = [] then None else Some (sg_signature (hd chain))) old w =
        collect_pages opts account cursor (Some (sg_signature (last ?page))) (Some (sg_signature (hd chain))) ?old w1"
        using rpc page more first by (subst collect_pages.simps) (auto simp: Let_def)
      then show ?thesis using less.hyps [OF len chain fresh, of w1] page by simp
    qed
  qed
qed

lemma collectHistory_complete:
  assumes "answers_history opts account chain" "distinct (map sg_signature chain)"
  shows "\<exists>w'. collectHistory opts account cursor w =
    Some (Inr (history_of (new_items cursor chain) (if chain = [] then None else Some (sg_signature (hd chain))) cursor), w')"
  using collect_pages_complete [OF assms, of "[]" chain cursor w] by (simp add: collectHistory_def)

text \<open>What became of a transaction of the history.\<close>

definition accounted :: "SolanaIncomingReaderOptions \<Rightarrow> InspectionContext \<Rightarrow> IncomingTransfer list \<Rightarrow> UnresolvedIncomingSignature list \<Rightarrow> string \<Rightarrow> bool" where
  "accounted opts context transfers unresolved s \<longleftrightarrow>
     s \<in> tf_signature ` set transfers \<or> s \<in> ur_signature ` set unresolved \<or>
     (\<exists>v. fst (inspectWithContext opts context s v) = Inr IRRELEVANT)"

lemma inspect_incoming_signature:
  "inspectWithContext opts context s w = (Inr (INCOMING f), w') \<Longrightarrow> tf_signature f = s"
  by (auto simp: inspectWithContext_def split: prod.splits sum.splits elim: inspection_amount)

lemma inspect_all_accounts:
  "inspect_all opts context items w = (Inr (transfers, unresolved), w') \<Longrightarrow> item \<in> set items \<Longrightarrow> \<not> sg_failed item \<Longrightarrow>
   accounted opts context transfers unresolved (sg_signature item)"
proof (induction items arbitrary: w transfers unresolved)
  case (Cons x items)
  show ?case
  proof (cases "sg_failed x")
    case True
    then show ?thesis using Cons by auto
  next
    case False
    obtain inspection w1 fs us where s: "inspectWithContext opts context (sg_signature x) w = (Inr inspection, w1)"
      "inspect_all opts context items w1 = (Inr (fs, us), w')"
      "(transfers, unresolved) = (case inspection of
            IRRELEVANT \<Rightarrow> (fs, us)
          | UNRESOLVED reason \<Rightarrow> (fs, \<lparr>ur_signature = sg_signature x, ur_reason = reason\<rparr> # us)
          | INCOMING transfer \<Rightarrow> (transfer # fs, us))"
      using Cons.prems(1) False by (auto simp: bind_p_def return_p_def split: prod.splits sum.splits)
    show ?thesis
    proof (cases "item = x")
      case True
      then show ?thesis using s inspect_incoming_signature [OF s(1) [THEN trans]]
        by (cases inspection) (auto simp: accounted_def image_iff intro: exI [of _ w] dest: inspect_incoming_signature)
    next
      case False
      then have "accounted opts context fs us (sg_signature item)" using Cons.IH [OF s(2)] Cons.prems(2,3) by simp
      then show ?thesis using s(3) by (cases inspection) (auto simp: accounted_def)
    qed
  qed
qed simp

lemma scan_accounts:
  assumes node: "answers_history opts (cx_tokenAccount context) chain" "distinct (map sg_signature chain)"
    and ctx: "createInspectionContext opts owner w = (Inr context, w1)"
    and run: "scanWithCursor opts owner cursor w = Some (Inr result, w')"
  shows "sn_nextCursor result = (if chain = [] then cursor else Some (sg_signature (hd chain)))"
    and "item \<in> set (new_items cursor chain) \<Longrightarrow> \<not> sg_failed item \<Longrightarrow>
      accounted opts context (sn_transfers result) (sn_unresolved result) (sg_signature item)"
proof -
  obtain w2 where h: "collectHistory opts (cx_tokenAccount context) cursor w1 =
    Some (Inr (history_of (new_items cursor chain) (if chain = [] then None else Some (sg_signature (hd chain))) cursor), w2)"
    using collectHistory_complete [OF node] by blast
  then obtain fs us where s: "inspect_all opts context (rev (new_items cursor chain)) w2 = (Inr (fs, us), w')"
    "result = \<lparr>sn_transfers = fs, sn_unresolved = us, sn_nextCursor = (if chain = [] then cursor else Some (sg_signature (hd chain)))\<rparr>"
    using run ctx by (auto simp: scanWithCursor_def history_of_def bind_p_def return_p_def split: prod.splits sum.splits)
  show "sn_nextCursor result = (if chain = [] then cursor else Some (sg_signature (hd chain)))" by (simp add: s(2))
  show "item \<in> set (new_items cursor chain) \<Longrightarrow> \<not> sg_failed item \<Longrightarrow>
      accounted opts context (sn_transfers result) (sn_unresolved result) (sg_signature item)"
    using inspect_all_accounts [OF s(1), of item] by (simp add: s(2))
qed

end
