(* ===== verification/Incoming_Service.thy ===== *)
theory Incoming_Service
  imports Receive_Ledger Incoming_Issues Solana_Incoming Outgoing_Safety
begin

text \<open>
  The service that indexes incoming transfers, \<^verbatim>\<open>apps/api/src/incoming.ts\<close>, as processes: it leases the
  partition of an account, reads what is new, records it, and then moves the cursor; afterwards it retries the
  issues. The reader and the capacity controller are parameters, and so is what other processes do before each
  call of the repository (\<open>ro_others\<close>), which includes the other accounts that are reconciled at the same time.
  The timer that renews the lease fires \<open>ro_renewals\<close> times before the cursor is saved and again before the lease
  is released; a renewal writes only the lease, so where it falls between the earlier calls makes no difference.
  The optional operations of the repository are those of \<^verbatim>\<open>index.ts\<close>, which has all of them; logging is left
  out.
\<close>

section \<open>Options\<close>

record SolanaIncomingReader =
  re_scan :: "string \<Rightarrow> string option \<Rightarrow> IncomingTransfer list proc"
  re_scanWithCursor :: "(string \<Rightarrow> string option \<Rightarrow> IncomingScan proc) option"
  re_inspectSignature :: "(string \<Rightarrow> string \<Rightarrow> IncomingSignatureInspection proc) option"

record IncomingReconciliationOptions =
  ro_others :: "world \<Rightarrow> world"
  ro_renewals :: "world \<Rightarrow> nat"
  ro_reader :: SolanaIncomingReader
  ro_owner :: string
  ro_leaseSeconds :: "number option"
  ro_capacity :: "(int \<Rightarrow> CapacityResult proc) option"

record IndexedAccount =
  xa_accountId :: string
  xa_solanaPublicKey :: string

definition ISSUE_RETRY_BATCH_SIZE :: int where "ISSUE_RETRY_BATCH_SIZE = 50"

definition MAX_ISSUE_RETRIES :: int where "MAX_ISSUE_RETRIES = 8"

definition repository :: "IncomingReconciliationOptions \<Rightarrow> 'a tx \<Rightarrow> 'a proc" where
  "repository opts m = (\<lambda>w. commit m (ro_others opts w))"

definition lease_seconds :: "IncomingReconciliationOptions \<Rightarrow> number" where
  "lease_seconds opts = (case ro_leaseSeconds opts of None \<Rightarrow> IntNum 60 | Some n \<Rightarrow> n)"

fun for_each_p :: "'a list \<Rightarrow> ('a \<Rightarrow> unit proc) \<Rightarrow> unit proc" where
  "for_each_p [] f = return_p ()"
| "for_each_p (x # xs) f = bind_p (f x) (\<lambda>_. for_each_p xs f)"

section \<open>Capacity\<close>

definition acquireRpcCapacity :: "IncomingReconciliationOptions \<Rightarrow> CapacityResult proc" where
  "acquireRpcCapacity opts =
     bind_p this_now (\<lambda>now.
     case ro_capacity opts of
       None \<Rightarrow> return_p \<lparr>cap_allowed = True, cap_retryAt = now\<rparr>
     | Some acquire \<Rightarrow> acquire now)"

definition hasRpcCapacity :: "IncomingReconciliationOptions \<Rightarrow> bool proc" where
  "hasRpcCapacity opts = bind_p (acquireRpcCapacity opts) (\<lambda>result. return_p (cap_allowed result))"

section \<open>One account\<close>

definition persistTransfer :: "IncomingReconciliationOptions \<Rightarrow> string \<Rightarrow> IncomingTransfer \<Rightarrow> unit proc" where
  "persistTransfer opts accountId transfer =
     bind_p randomUUID (\<lambda>rid.
     bind_p (repository opts (createIncomingPayment
       \<lparr>ip_id = ''in_'' @ rid, ip_accountId = accountId, ip_signature = tf_signature transfer,
        ip_amountAtomic = m_atomicUnits (tf_amount transfer), ip_tokenAtomicUnits = Some (tf_tokenAtomicUnits transfer),
        ip_tokenDecimals = Some (tf_tokenDecimals transfer), ip_currency = m_currency (tf_amount transfer),
        ip_sourceAddress = tf_sourceAddress transfer, ip_reference = tf_reference transfer,
        ip_tokenAccount = tf_tokenAccount transfer, ip_settlementMint = tf_settlementMint transfer,
        ip_confirmedAt = tf_confirmedAt transfer\<rparr>)) (\<lambda>_.
     return_p ()))"

definition record_unresolved :: "IncomingReconciliationOptions \<Rightarrow> string \<Rightarrow> UnresolvedIncomingSignature \<Rightarrow> unit proc" where
  "record_unresolved opts accountId issue =
     bind_p randomUUID (\<lambda>rid.
     repository opts (recordIncomingReconciliationIssue
       \<lparr>iq_id = ''issue_'' @ rid, iq_accountId = accountId, iq_signature = ur_signature issue,
        iq_reason = reason_name (ur_reason issue)\<rparr>))"

definition partition_input ::
    "IncomingReconciliationOptions \<Rightarrow> IndexedAccount \<Rightarrow> int option \<Rightarrow> int option \<Rightarrow> PartitionInput" where
  "partition_input opts account now lease =
     \<lparr>pt_accountId = xa_accountId account, pt_rail = ''SOLANA_SPL'', pt_address = xa_solanaPublicKey account,
      pt_owner = ro_owner opts, pt_leaseSeconds = lease_seconds opts, pt_now = now, pt_leaseExpiresAt = lease\<rparr>"

text \<open>The timer: a renewal that succeeds moves the expiry the service knows of.\<close>

definition renew_lease :: "IncomingReconciliationOptions \<Rightarrow> IndexedAccount \<Rightarrow> int option \<Rightarrow> int option proc" where
  "renew_lease opts account lease =
     bind_p this_now (\<lambda>now.
     try_p (bind_p (repository opts (renewIncomingPartition (partition_input opts account (Some now) lease))) (\<lambda>_.
        return_p (Some (now + num_val (lease_seconds opts) * 1000))))
       (\<lambda>_. return_p lease))"

fun renew_times :: "nat \<Rightarrow> IncomingReconciliationOptions \<Rightarrow> IndexedAccount \<Rightarrow> int option \<Rightarrow> int option proc" where
  "renew_times 0 opts account lease = return_p lease"
| "renew_times (Suc n) opts account lease = bind_p (renew_lease opts account lease) (renew_times n opts account)"

definition heartbeat :: "IncomingReconciliationOptions \<Rightarrow> IndexedAccount \<Rightarrow> int option \<Rightarrow> int option proc" where
  "heartbeat opts account lease = (\<lambda>w. renew_times (ro_renewals opts w) opts account lease w)"

definition read_transfers :: "IncomingReconciliationOptions \<Rightarrow> string \<Rightarrow> string option \<Rightarrow> IncomingScan proc" where
  "read_transfers opts address cursor =
     (case re_scanWithCursor (ro_reader opts) of
        Some read \<Rightarrow> read address cursor
      | None \<Rightarrow> bind_p (re_scan (ro_reader opts) address cursor) (\<lambda>transfers.
          return_p \<lparr>sn_transfers = transfers, sn_unresolved = [], sn_nextCursor = None\<rparr>))"

definition record_scan :: "IncomingReconciliationOptions \<Rightarrow> IndexedAccount \<Rightarrow> IncomingScan \<Rightarrow> unit proc" where
  "record_scan opts account result =
     bind_p (for_each_p (sn_transfers result) (persistTransfer opts (xa_accountId account))) (\<lambda>_.
     bind_p (for_each_p (sn_unresolved result) (record_unresolved opts (xa_accountId account))) (\<lambda>_.
     bind_p this_now (\<lambda>now.
     repository opts (expireOpenReceiveRequests (xa_accountId account) now))))"

text \<open>What is done before the cursor is saved; the value is the cursor to save, if any.\<close>

definition process_scan :: "IncomingReconciliationOptions \<Rightarrow> IndexedAccount \<Rightarrow> string option \<Rightarrow> string option proc" where
  "process_scan opts account cursor =
     bind_p (hasRpcCapacity opts) (\<lambda>allowed.
     if \<not> allowed then return_p None
     else
       bind_p (read_transfers opts (xa_solanaPublicKey account) cursor) (\<lambda>result.
       bind_p (record_scan opts account result) (\<lambda>_.
       return_p (if sn_nextCursor result \<noteq> cursor then sn_nextCursor result else None))))"

definition save_cursor :: "IncomingReconciliationOptions \<Rightarrow> IndexedAccount \<Rightarrow> int option \<Rightarrow> string \<Rightarrow> unit proc" where
  "save_cursor opts account lease next =
     repository opts (saveIncomingCursor
       \<lparr>cs_accountId = xa_accountId account, cs_rail = ''SOLANA_SPL'', cs_address = xa_solanaPublicKey account,
        cs_cursorSignature = next, cs_leaseOwner = Some (ro_owner opts), cs_leaseExpiresAt = lease\<rparr>)"

text \<open>The \<^verbatim>\<open>try\<close> block, whose errors are logged, and the expiry of the lease after it.\<close>

definition scan_partition :: "IncomingReconciliationOptions \<Rightarrow> IndexedAccount \<Rightarrow> string option \<Rightarrow> int option \<Rightarrow> int option proc" where
  "scan_partition opts account cursor lease = (\<lambda>w.
     case process_scan opts account cursor w of
       (Inr (Some next), w1) \<Rightarrow>
         bind_p (heartbeat opts account lease) (\<lambda>lease'.
         try_p (bind_p (save_cursor opts account lease' next) (\<lambda>_. return_p lease')) (\<lambda>_. return_p lease')) w1
     | (_, w1) \<Rightarrow> (Inr lease, w1))"

definition reconcileAccount :: "IncomingReconciliationOptions \<Rightarrow> IndexedAccount \<Rightarrow> unit proc" where
  "reconcileAccount opts account =
     bind_p this_now (\<lambda>now.
     bind_p (repository opts (claimIncomingPartition (partition_input opts account (Some now) None))) (\<lambda>claimed.
     case claimed of
       None \<Rightarrow> return_p ()
     | Some cursor \<Rightarrow>
         bind_p (scan_partition opts account (ic_cursorSignature cursor) (ic_leaseExpiresAt cursor)) (\<lambda>lease.
         bind_p (heartbeat opts account lease) (\<lambda>lease'.
         repository opts (releaseIncomingPartition (partition_input opts account None lease'))))))"

section \<open>The issues\<close>

definition exhaust_issue :: "IncomingReconciliationOptions \<Rightarrow> string \<Rightarrow> unit proc" where
  "exhaust_issue opts i = repository opts (exhaustIncomingReconciliationIssue i ''INCOMING_ISSUE_RETRY_EXHAUSTED'' None)"

definition settle_issue ::
    "IncomingReconciliationOptions \<Rightarrow> IncomingReconciliationIssueRecord \<Rightarrow> IncomingSignatureInspection \<Rightarrow> unit proc" where
  "settle_issue opts issue inspection =
     (case inspection of
        UNRESOLVED reason \<Rightarrow>
          if ir_retryCount issue \<ge> MAX_ISSUE_RETRIES then exhaust_issue opts (ir_id issue)
          else repository opts (updateIncomingReconciliationIssueReason (ir_id issue) (reason_name reason))
      | INCOMING transfer \<Rightarrow>
          bind_p (persistTransfer opts (ir_accountId issue) transfer) (\<lambda>_.
          repository opts (resolveIncomingReconciliationIssue (ir_id issue) None))
      | IRRELEVANT \<Rightarrow> repository opts (resolveIncomingReconciliationIssue (ir_id issue) None))"

definition retry_issue ::
    "IncomingReconciliationOptions \<Rightarrow> (string \<Rightarrow> string \<Rightarrow> IncomingSignatureInspection proc) \<Rightarrow>
      IncomingReconciliationIssueRecord \<Rightarrow> unit proc" where
  "retry_issue opts inspect issue =
     (if ir_retryCount issue > MAX_ISSUE_RETRIES then exhaust_issue opts (ir_id issue)
      else
        bind_p (acquireRpcCapacity opts) (\<lambda>capacity.
        if \<not> cap_allowed capacity then repository opts (deferIncomingReconciliationIssue (deferral_of issue (cap_retryAt capacity)))
        else bind_p (inspect (ir_accountPublicKey issue) (ir_signature issue)) (settle_issue opts issue)))"

definition handle_issue ::
    "IncomingReconciliationOptions \<Rightarrow> (string \<Rightarrow> string \<Rightarrow> IncomingSignatureInspection proc) \<Rightarrow>
      IncomingReconciliationIssueRecord \<Rightarrow> unit proc" where
  "handle_issue opts inspect issue =
     try_p (retry_issue opts inspect issue) (\<lambda>_.
       if ir_retryCount issue \<ge> MAX_ISSUE_RETRIES
       then try_p (exhaust_issue opts (ir_id issue)) (\<lambda>_. return_p ())
       else return_p ())"

definition reconcilePendingIssues :: "IncomingReconciliationOptions \<Rightarrow> unit proc" where
  "reconcilePendingIssues opts =
     (case re_inspectSignature (ro_reader opts) of
        None \<Rightarrow> return_p ()
      | Some inspect \<Rightarrow>
          bind_p (repository opts (claimIncomingReconciliationIssues (IntNum ISSUE_RETRY_BATCH_SIZE) None)) (\<lambda>issues.
          for_each_p issues (handle_issue opts inspect)))"

section \<open>A run\<close>

definition reconcileAllAccounts :: "IncomingReconciliationOptions \<Rightarrow> unit proc" where
  "reconcileAllAccounts opts =
     bind_p (repository opts listActiveAccountSettlements) (\<lambda>accounts.
     bind_p (for_each_p (map (\<lambda>(i, k). \<lparr>xa_accountId = i, xa_solanaPublicKey = k\<rparr>) accounts) (reconcileAccount opts)) (\<lambda>_.
     bind_p (reconcilePendingIssues opts) (\<lambda>_.
     bind_p (repository opts (reconcileUnmatchedManagedIncoming (nat ISSUE_RETRY_BATCH_SIZE))) (\<lambda>_.
     return_p ()))))"

text \<open>The flags of the service: a stopped service starts no run, and a run in progress is shared.\<close>

record IncomingServiceState =
  iv_stopped :: bool
  iv_running :: bool

datatype RunRequest = RunSkipped | RunShared | RunStarted

definition runOnce :: "IncomingServiceState \<Rightarrow> RunRequest \<times> IncomingServiceState" where
  "runOnce s = (if iv_stopped s then (RunSkipped, s) else if iv_running s then (RunShared, s) else (RunStarted, s\<lparr>iv_running := True\<rparr>))"

definition run_finished :: "IncomingServiceState \<Rightarrow> IncomingServiceState" where
  "run_finished s = s\<lparr>iv_running := False\<rparr>"

definition stop_service :: "IncomingServiceState \<Rightarrow> IncomingServiceState" where
  "stop_service s = s\<lparr>iv_stopped := True\<rparr>"

section \<open>Nothing is skipped\<close>

definition recorded :: "string \<Rightarrow> world \<Rightarrow> string set" where
  "recorded accountId w = {s. (accountId, s) \<in> set (map (\<lambda>p. (inc_accountId p, inc_signature p)) (w_incoming w))}"

definition noted :: "string \<Rightarrow> world \<Rightarrow> string set" where
  "noted accountId w = {s. (accountId, s) \<in> set (map (\<lambda>r. (iri_accountId r, iri_signature r)) (w_issues w))}"

definition saved_cursor :: "IndexedAccount \<Rightarrow> world \<Rightarrow> string option" where
  "saved_cursor account w =
     (case List.find (partition_of (xa_accountId account) ''SOLANA_SPL'' (xa_solanaPublicKey account)) (w_checkpoints w) of
        None \<Rightarrow> None | Some c \<Rightarrow> chk_cursorSignature c)"

text \<open>What every step but the saving of the cursor does: no payment and no issue disappears, and the cursor of the
  account stays.\<close>

definition scan_frame :: "IndexedAccount \<Rightarrow> world \<Rightarrow> world \<Rightarrow> bool" where
  "scan_frame account w w' \<longleftrightarrow> recorded (xa_accountId account) w \<subseteq> recorded (xa_accountId account) w' \<and>
     noted (xa_accountId account) w \<subseteq> noted (xa_accountId account) w' \<and> saved_cursor account w' = saved_cursor account w"

interpretation indexing: guarantee "\<lambda>_. True" "scan_frame account" for account
  by unfold_locales (auto simp: scan_frame_def)

lemma scan_frame_control: "w_control w' = w_control w \<Longrightarrow> scan_frame account w w'"
  by (simp add: scan_frame_def recorded_def noted_def saved_cursor_def)

lemma link_incoming_rows:
  "preserves (\<lambda>w. map transfer_of (w_incoming w)) (link_incoming i r)" "preserves w_issues (link_incoming i r)"
  "preserves w_checkpoints (link_incoming i r)"
  by (auto simp: preserves_def link_incoming_def tx_simps transfers_of_link)

lemma match_rows:
  "preserves (\<lambda>w. map transfer_of (w_incoming w)) (matchIncomingPaymentInTransaction input)"
  "preserves w_issues (matchIncomingPaymentInTransaction input)" "preserves w_checkpoints (matchIncomingPaymentInTransaction input)"
  unfolding matchIncomingPaymentInTransaction_def match_reference_def settle_request_def pay_receive_def announce_match_def
    receive_event_def incoming_event_def
  by (intro frame_intros link_incoming_rows; simp add: outputs_frame_def)+

lemma recorded_transfers:
  "map transfer_of (w_incoming w) = map transfer_of rows \<Longrightarrow>
   recorded a w = {s. (a, s) \<in> set (map (\<lambda>p. (inc_accountId p, inc_signature p)) rows)}"
proof -
  assume same: "map transfer_of (w_incoming w) = map transfer_of rows"
  have keys: "map (\<lambda>p. (inc_accountId p, inc_signature p)) ps = map (\<lambda>p. (inc_accountId p, inc_signature p)) (map transfer_of ps)" for ps
    by (simp add: transfer_of_def)
  show ?thesis unfolding recorded_def keys [of "w_incoming w"] keys [of rows] same ..
qed

lemma record_incoming_frame:
  assumes "record_incoming input w = Inr (x, w')"
  shows "scan_frame account w w'" "ip_signature input \<in> recorded (ip_accountId input) w'"
proof -
  obtain now where now: "new_date w = Inr (now, w\<lparr>w_ticks := Suc (w_ticks w)\<rparr>)" by (simp add: tx_simps)
  let ?r = "incoming_row_of input now"
  obtain u w1 v where e: "incoming_event ?r ''created'' 1
      (w_incoming_update (\<lambda>rows. rows @ [?r]) (w\<lparr>w_ticks := Suc (w_ticks w)\<rparr>)) = Inr (u, w1)"
    and m: "matchIncomingPaymentInTransaction (match_of input) w1 = Inr (v, w')"
    using assms now by (auto simp: record_incoming_def tx_simps)
  have w1: "w_incoming w1 = w_incoming w @ [?r]" "w_issues w1 = w_issues w" "w_checkpoints w1 = w_checkpoints w"
    using preservesD [OF receipt_events_control(2) e] by simp_all
  have w': "map transfer_of (w_incoming w') = map transfer_of (w_incoming w @ [?r])" "w_issues w' = w_issues w" "w_checkpoints w' = w_checkpoints w"
    using preservesD [OF match_rows(1) m] preservesD [OF match_rows(2) m] preservesD [OF match_rows(3) m] w1 by simp_all
  have r: "recorded a w' = recorded a w \<union> (if ip_accountId input = a then {ip_signature input} else {})" for a
    unfolding recorded_transfers [OF w'(1)] by (auto simp: recorded_def incoming_row_of_def)
  show "ip_signature input \<in> recorded (ip_accountId input) w'" by (simp add: r)
  show "scan_frame account w w'" by (auto simp: scan_frame_def r noted_def saved_cursor_def w'(2,3))
qed

lemma createIncomingPayment_frame:
  assumes "createIncomingPayment input w = Inr (x, w')"
  shows "scan_frame account w w'" "ip_signature input \<in> recorded (ip_accountId input) w'"
  using assms
proof -
  have "scan_frame account w w' \<and> ip_signature input \<in> recorded (ip_accountId input) w'"
    using assms
  proof (cases rule: createIncomingPayment_cases)
    case (known p)
    then show ?thesis using find_SomeD [OF known(1)] by (auto simp: recorded_def same_transfer_def scan_frame_def image_iff intro!: bexI [of _ p])
  qed (use record_incoming_frame in blast)
  then show "scan_frame account w w'" "ip_signature input \<in> recorded (ip_accountId input) w'" by blast+
qed

lemma record_issue_frame:
  assumes "recordIncomingReconciliationIssue input w = Inr (x, w')"
  shows "scan_frame account w w'" "iq_signature input \<in> noted (iq_accountId input) w'"
proof -
  have same: "w_incoming w' = w_incoming w" "w_checkpoints w' = w_checkpoints w"
    using assms by (auto simp: recordIncomingReconciliationIssue_def tx_simps split: option.splits)
  have n: "noted a w' = noted a w \<union> (if iq_accountId input = a then {iq_signature input} else {})" for a
  proof (cases "List.find (same_issue input) (w_issues w)")
    case None
    then obtain now where "w_issues w' = w_issues w @ [issue_row_of input now]"
      using assms by (auto simp: recordIncomingReconciliationIssue_def tx_simps)
    then show ?thesis by (auto simp: noted_def issue_row_of_def)
  next
    case (Some q)
    then have "w_issues w' = update_rows (same_issue input) (\<lambda>r. r\<lparr>iri_reason := iq_reason input\<rparr>) (w_issues w)"
      using assms by (auto simp: recordIncomingReconciliationIssue_def tx_simps)
    then have "map (\<lambda>r. (iri_accountId r, iri_signature r)) (w_issues w') = map (\<lambda>r. (iri_accountId r, iri_signature r)) (w_issues w)"
      by (simp add: map_update_rows)
    then have "noted a w' = noted a w" by (simp only: noted_def)
    moreover have "iq_accountId input = a \<Longrightarrow> iq_signature input \<in> noted a w"
      using find_SomeD [OF Some] by (auto simp: noted_def same_issue_def image_iff intro!: bexI [of _ q])
    ultimately show ?thesis by auto
  qed
  show "iq_signature input \<in> noted (iq_accountId input) w'" by (simp add: n)
  show "scan_frame account w w'" by (auto simp: scan_frame_def n recorded_def saved_cursor_def same)
qed

lemma scan_frame_checkpoints:
  "w_incoming w' = w_incoming w \<Longrightarrow> w_issues w' = w_issues w \<Longrightarrow> saved_cursor account w' = saved_cursor account w \<Longrightarrow> scan_frame account w w'"
  by (simp add: scan_frame_def recorded_def noted_def)

text \<open>A lease is written without the cursor.\<close>

lemma lease_update_cursor:
  assumes "w_checkpoints w' = update_rows P f (w_checkpoints w)"
    and "\<And>c. chk_accountId (f c) = chk_accountId c \<and> chk_rail (f c) = chk_rail c \<and> chk_address (f c) = chk_address c \<and>
      chk_cursorSignature (f c) = chk_cursorSignature c"
  shows "saved_cursor account w' = saved_cursor account w"
  unfolding saved_cursor_def assms(1)
  by (subst find_update_rows_keep) (simp_all add: partition_of_def assms(2) option.case_eq_if option.map_sel)

text \<open>A transaction all of whose writes are of this kind.\<close>

definition tx_frame :: "IndexedAccount \<Rightarrow> 'a tx \<Rightarrow> bool" where
  "tx_frame account m \<longleftrightarrow> (\<forall>w x w'. m w = Inr (x, w') \<longrightarrow> scan_frame account w w')"

lemma tx_frameD: "tx_frame account m \<Longrightarrow> m w = Inr (x, w') \<Longrightarrow> scan_frame account w w'"
  by (simp add: tx_frame_def)

lemma tx_frame_bind: "tx_frame account m \<Longrightarrow> (\<And>x. tx_frame account (k x)) \<Longrightarrow> tx_frame account (bind_tx m k)"
  unfolding tx_frame_def by (auto simp: tx_simps) (metis indexing.compose)

lemma tx_frame_control: "preserves w_control m \<Longrightarrow> tx_frame account m"
  by (simp add: tx_frame_def preserves_def scan_frame_control)

lemma tx_frame_cases:
  "(b \<Longrightarrow> tx_frame account m) \<Longrightarrow> (\<not> b \<Longrightarrow> tx_frame account n) \<Longrightarrow> tx_frame account (if b then m else n)"
  "(x = None \<Longrightarrow> tx_frame account m) \<Longrightarrow> (\<And>y. x = Some y \<Longrightarrow> tx_frame account (k y)) \<Longrightarrow>
   tx_frame account (case x of None \<Rightarrow> m | Some y \<Rightarrow> k y)"
  by (simp_all split: option.split)

lemma tx_frame_lease:
  assumes "\<And>c. chk_accountId (f c) = chk_accountId c \<and> chk_rail (f c) = chk_rail c \<and> chk_address (f c) = chk_address c \<and>
      chk_cursorSignature (f c) = chk_cursorSignature c"
  shows "tx_frame account (update_many_tx w_checkpoints w_checkpoints_update P f)"
    "tx_frame account (update_one_tx name w_checkpoints w_checkpoints_update P f)"
  unfolding tx_frame_def
  by (auto simp: tx_simps intro!: scan_frame_checkpoints lease_update_cursor [OF _ assms])

lemma partition_tx_frames:
  "tx_frame account (releaseIncomingPartition input)" "tx_frame account (renewIncomingPartition input)"
  unfolding releaseIncomingPartition_def renewIncomingPartition_def lease_positive_def now_or_clock_def clock_unless_def
  by (intro tx_frame_bind tx_frame_lease; (intro tx_frame_control frame_intros)?; simp)+

lemma ensure_checkpoint_frame: "tx_frame account (ensure_checkpoint input now)"
  unfolding tx_frame_def
proof (intro allI impI)
  fix w x w' assume run: "ensure_checkpoint input now w = Inr (x, w')"
  show "scan_frame account w w'"
  proof (cases "List.find (partition_at input) (w_checkpoints w)")
    case None
    then obtain i where w': "w_checkpoints w' = w_checkpoints w @ [checkpoint_row_of input i now]"
      "w_incoming w' = w_incoming w" "w_issues w' = w_issues w"
      using run by (auto simp: ensure_checkpoint_def tx_simps)
    show ?thesis
      by (rule scan_frame_checkpoints) (auto simp: w' saved_cursor_def find_append checkpoint_row_of_def split: option.split)
  qed (use run ensure_checkpoint_known scan_frame_control in blast)
qed

lemma claim_frame: "tx_frame account (claimIncomingPartition input)"
  unfolding claimIncomingPartition_def lease_positive_def lease_checkpoint_def now_or_clock_def Let_def
  by (intro tx_frame_bind tx_frame_cases tx_frame_lease ensure_checkpoint_frame; (intro tx_frame_control frame_intros)?; simp)

lemma claim_cursor:
  assumes "claimIncomingPartition (partition_input opts account now lease) w = Inr (Some cursor, w')"
  shows "ic_cursorSignature cursor = saved_cursor account w"
  using assms
proof (rule claimIncomingPartition_SomeD)
  fix t w1 w2 c
  assume s: "ensure_checkpoint (partition_input opts account now lease) t w1 = Inr ((), w2)" "w_control w1 = w_control w"
    "List.find (partition_at (partition_input opts account now lease)) (w_checkpoints w2) = Some c"
    "lease_checkpoint (partition_input opts account now lease) t c w2 = Inr (cursor, w')"
  have "ic_cursorSignature cursor = chk_cursorSignature c" using s(4) by (auto simp: lease_checkpoint_def Let_def tx_simps)
  also have "\<dots> = saved_cursor account w2" using s(3) by (simp add: saved_cursor_def partition_input_def)
  also have "\<dots> = saved_cursor account w1" using tx_frameD [OF ensure_checkpoint_frame s(1)] by (simp add: scan_frame_def)
  finally show ?thesis using s(2) by (simp add: saved_cursor_def)
qed

lemma expire_frame: "tx_frame account (expireOpenReceiveRequests i now)"
proof -
  have "preserves w_issues (expireOpenReceiveRequests i now)" "preserves w_checkpoints (expireOpenReceiveRequests i now)"
    unfolding expireOpenReceiveRequests_def expire_receive_def receive_event_def by (intro frame_intros; simp add: outputs_frame_def)+
  then show ?thesis
    using receive_operations_incoming(4) [of i now] by (simp add: tx_frame_def preserves_def scan_frame_checkpoints saved_cursor_def)
qed

section \<open>Where the cursor may move\<close>

text \<open>What is asked of the rest of the system: no other process deletes payments or issues of the account or moves its
  cursor, and neither do the reader and the capacity controller.\<close>

definition quiet_environment :: "IncomingReconciliationOptions \<Rightarrow> IndexedAccount \<Rightarrow> bool" where
  "quiet_environment opts account \<longleftrightarrow>
     (\<forall>w. scan_frame account w (ro_others opts w)) \<and>
     (\<forall>a c. ensures (\<lambda>_. True) (scan_frame account) (read_transfers opts a c)) \<and>
     (\<forall>acquire now. ro_capacity opts = Some acquire \<longrightarrow> ensures (\<lambda>_. True) (scan_frame account) (acquire now))"

abbreviation framed :: "IndexedAccount \<Rightarrow> 'a proc \<Rightarrow> bool" where
  "framed account m \<equiv> ensures (\<lambda>_. True) (scan_frame account) m"

lemma framedD: "framed account m \<Longrightarrow> m w = (r, w') \<Longrightarrow> scan_frame account w w'"
  unfolding ensures_def by (metis snd_conv)

lemma repository_frame:
  assumes "quiet_environment opts account" "tx_frame account m"
  shows "framed account (repository opts m)"
  unfolding ensures_def
proof (intro allI impI)
  fix w
  have q: "scan_frame account w (ro_others opts w)" using assms(1) by (simp add: quiet_environment_def)
  show "scan_frame account w (snd (repository opts m w))"
  proof (cases "m (ro_others opts w)")
    case (Inr p)
    then show ?thesis
      using indexing.compose [OF q] tx_frameD [OF assms(2), of "ro_others opts w" "fst p" "snd p"] by (cases p) (simp add: repository_def commit_def)
  qed (simp add: repository_def commit_def q)
qed

lemma repository_result:
  assumes "repository opts m w = (Inr x, w')"
  shows "m (ro_others opts w) = Inr (x, w')"
  using assms by (auto simp: repository_def commit_def split: sum.splits)

lemma clock_frame: "framed account this_now" "framed account randomUUID"
  unfolding this_now_def randomUUID_def by (auto intro!: indexing.ensures_commit scan_frame_control simp: tx_simps)

lemma capacity_frame:
  assumes "quiet_environment opts account"
  shows "framed account (acquireRpcCapacity opts)" "framed account (hasRpcCapacity opts)"
proof -
  show "framed account (acquireRpcCapacity opts)"
    unfolding acquireRpcCapacity_def using assms
    by (intro indexing.ensures_bind clock_frame ensures_option indexing.ensures_return) (simp add: quiet_environment_def)
  then show "framed account (hasRpcCapacity opts)"
    unfolding hasRpcCapacity_def by (intro indexing.ensures_bind indexing.ensures_return)
qed

lemma persistTransfer_frame:
  assumes "quiet_environment opts account" "xa_accountId account = i"
  shows "framed account (persistTransfer opts i t)"
    and "persistTransfer opts i t w = (Inr u, w') \<Longrightarrow> tf_signature t \<in> recorded i w'"
proof -
  have "tx_frame account (createIncomingPayment input)" for input by (simp add: tx_frame_def createIncomingPayment_frame(1))
  then show "framed account (persistTransfer opts i t)"
    unfolding persistTransfer_def
    by (intro indexing.ensures_bind clock_frame repository_frame [OF assms(1)] indexing.ensures_return)
  assume "persistTransfer opts i t w = (Inr u, w')"
  then obtain input v x where "createIncomingPayment input v = Inr (x, w')" "ip_signature input = tf_signature t" "ip_accountId input = i"
    unfolding persistTransfer_def by (auto simp: bind_p_def return_p_def split: prod.splits sum.splits dest!: repository_result)
  then show "tf_signature t \<in> recorded i w'" using createIncomingPayment_frame(2) by metis
qed

lemma record_unresolved_frame:
  assumes "quiet_environment opts account" "xa_accountId account = i"
  shows "framed account (record_unresolved opts i r)"
    and "record_unresolved opts i r w = (Inr u, w') \<Longrightarrow> ur_signature r \<in> noted i w'"
proof -
  have "tx_frame account (recordIncomingReconciliationIssue input)" for input by (simp add: tx_frame_def record_issue_frame(1))
  then show "framed account (record_unresolved opts i r)"
    unfolding record_unresolved_def by (intro indexing.ensures_bind clock_frame repository_frame [OF assms(1)])
  assume "record_unresolved opts i r w = (Inr u, w')"
  then obtain input v where "recordIncomingReconciliationIssue input v = Inr (u, w')" "iq_signature input = ur_signature r" "iq_accountId input = i"
    unfolding record_unresolved_def by (auto simp: bind_p_def split: prod.splits sum.splits dest!: repository_result)
  then show "ur_signature r \<in> noted i w'" using record_issue_frame(2) by metis
qed

lemma for_each_p_frame: "(\<And>x. framed account (f x)) \<Longrightarrow> framed account (for_each_p xs f)"
  by (induction xs) (simp_all add: indexing.ensures_return indexing.ensures_bind)

lemma for_each_p_all:
  assumes "\<And>x. framed account (f x)" "\<And>x w u w'. f x w = (Inr u, w') \<Longrightarrow> Q x w'" "\<And>x w w'. Q x w \<Longrightarrow> scan_frame account w w' \<Longrightarrow> Q x w'"
  shows "for_each_p xs f w = (Inr u, w') \<Longrightarrow> x \<in> set xs \<Longrightarrow> Q x w'"
proof (induction xs arbitrary: w)
  case (Cons y ys)
  then obtain v w1 where s: "f y w = (Inr v, w1)" "for_each_p ys f w1 = (Inr u, w')"
    by (auto simp: bind_p_def split: prod.splits sum.splits)
  show ?case
  proof (cases "x \<in> set ys")
    case False
    then have "x = y" using Cons.prems(2) by simp
    then show ?thesis using assms(2) [OF s(1)] assms(3) framedD [OF for_each_p_frame [OF assms(1)] s(2)] by blast
  qed (use Cons.IH [OF s(2)] in blast)
qed simp

text \<open>All that a scan reported is in the database.\<close>

definition scan_stored :: "string \<Rightarrow> IncomingScan \<Rightarrow> world \<Rightarrow> bool" where
  "scan_stored i result w \<longleftrightarrow> (\<forall>t \<in> set (sn_transfers result). tf_signature t \<in> recorded i w) \<and>
     (\<forall>r \<in> set (sn_unresolved result). ur_signature r \<in> noted i w)"

lemma scan_stored_frame: "scan_stored (xa_accountId account) result w \<Longrightarrow> scan_frame account w w' \<Longrightarrow> scan_stored (xa_accountId account) result w'"
  by (auto simp: scan_stored_def scan_frame_def)

lemma record_scan_frame:
  assumes q: "quiet_environment opts account"
  shows "framed account (record_scan opts account result)"
    and "record_scan opts account result w = (Inr u, w') \<Longrightarrow> scan_stored (xa_accountId account) result w'"
proof -
  note persist = persistTransfer_frame [OF q refl]
  note unresolved = record_unresolved_frame [OF q refl]
  have expire: "framed account (bind_p this_now (\<lambda>now. repository opts (expireOpenReceiveRequests (xa_accountId account) now)))"
    by (intro indexing.ensures_bind clock_frame repository_frame [OF q] expire_frame)
  show "framed account (record_scan opts account result)"
    unfolding record_scan_def by (intro indexing.ensures_bind for_each_p_frame persist(1) unresolved(1) expire)
  assume "record_scan opts account result w = (Inr u, w')"
  then obtain a w1 b w2 where s: "for_each_p (sn_transfers result) (persistTransfer opts (xa_accountId account)) w = (Inr a, w1)"
    "for_each_p (sn_unresolved result) (record_unresolved opts (xa_accountId account)) w1 = (Inr b, w2)"
    "bind_p this_now (\<lambda>now. repository opts (expireOpenReceiveRequests (xa_accountId account) now)) w2 = (Inr u, w')"
    unfolding record_scan_def by (subst (asm) (1 2) bind_p_def) (auto split: prod.splits sum.splits)
  have "tf_signature t \<in> recorded (xa_accountId account) w1" if "t \<in> set (sn_transfers result)" for t
    by (rule for_each_p_all [OF persist(1) persist(2) _ s(1) that]) (auto simp: scan_frame_def)
  moreover have "ur_signature r \<in> noted (xa_accountId account) w2" if "r \<in> set (sn_unresolved result)" for r
    by (rule for_each_p_all [OF unresolved(1) unresolved(2) _ s(2) that]) (auto simp: scan_frame_def)
  moreover have "scan_frame account w1 w2" by (rule framedD [OF for_each_p_frame [OF unresolved(1)] s(2)])
  ultimately have "scan_stored (xa_accountId account) result w2" by (auto simp: scan_stored_def scan_frame_def)
  then show "scan_stored (xa_accountId account) result w'" using framedD [OF expire s(3)] by (rule scan_stored_frame)
qed

lemma process_scan_frame:
  assumes q: "quiet_environment opts account"
  shows "framed account (process_scan opts account cursor)"
    and "process_scan opts account cursor w = (Inr (Some next), w') \<Longrightarrow>
      \<exists>v v' result. read_transfers opts (xa_solanaPublicKey account) cursor v = (Inr result, v') \<and>
        sn_nextCursor result = Some next \<and> scan_stored (xa_accountId account) result w'"
proof -
  have read: "framed account (read_transfers opts a c)" for a c using q by (simp add: quiet_environment_def)
  show "framed account (process_scan opts account cursor)"
    unfolding process_scan_def
    by (intro indexing.ensures_bind capacity_frame [OF q] ensures_if indexing.ensures_return read record_scan_frame [OF q])
  assume run: "process_scan opts account cursor w = (Inr (Some next), w')"
  obtain w1 result w2 u where s: "read_transfers opts (xa_solanaPublicKey account) cursor w1 = (Inr result, w2)"
    "record_scan opts account result w2 = (Inr u, w')"
    "Some next = (if sn_nextCursor result \<noteq> cursor then sn_nextCursor result else None)"
    using run unfolding process_scan_def by (auto simp: bind_p_def return_p_def split: prod.splits sum.splits if_splits)
  then show "\<exists>v v' result. read_transfers opts (xa_solanaPublicKey account) cursor v = (Inr result, v') \<and>
        sn_nextCursor result = Some next \<and> scan_stored (xa_accountId account) result w'"
    using record_scan_frame(2) [OF q s(2)] by (auto split: if_splits)
qed

lemma heartbeat_frame:
  assumes q: "quiet_environment opts account"
  shows "framed account (heartbeat opts account lease)"
proof -
  have "framed account (renew_lease opts account lease)" for lease
    unfolding renew_lease_def
    by (intro indexing.ensures_bind indexing.ensures_try clock_frame repository_frame [OF q] partition_tx_frames indexing.ensures_return)
  then have "framed account (renew_times n opts account lease)" for n
    by (induction n arbitrary: lease) (simp_all add: indexing.ensures_return indexing.ensures_bind)
  then show ?thesis by (simp add: heartbeat_def ensures_def)
qed

definition cursor_data :: "string \<Rightarrow> int \<Rightarrow> checkpoint_row \<Rightarrow> checkpoint_row" where
  "cursor_data s t c = c\<lparr>chk_cursorSignature := Some s, chk_updatedAt := t\<rparr>"

lemma saveIncomingCursor_rows:
  assumes "saveIncomingCursor input w = Inr (u, w')" "cs_leaseOwner input = Some owner"
  obtains Q t where "w_checkpoints w' = update_rows (\<lambda>c. partition_of (cs_accountId input) (cs_rail input) (cs_address input) c \<and> Q c)
      (cursor_data (cs_cursorSignature input) t) (w_checkpoints w)" "w_incoming w' = w_incoming w" "w_issues w' = w_issues w"
proof -
  obtain now w1 where n: "clock_unless (cs_leaseExpiresAt input) w = Inr (now, w1)" "w_control w1 = w_control w"
    by (cases "cs_leaseExpiresAt input") (auto simp: clock_unless_def tx_simps)
  let ?t = "w_clock w1 (w_ticks w1)"
  have "w' = w_checkpoints_update (update_rows (\<lambda>c. partition_of (cs_accountId input) (cs_rail input) (cs_address input) c \<and>
      lease_named owner (cs_leaseExpiresAt input) now c) (cursor_data (cs_cursorSignature input) ?t)) (w1\<lparr>w_ticks := Suc (w_ticks w1)\<rparr>)"
    using assms n(1) by (auto simp: saveIncomingCursor_def cursor_data_def [abs_def] tx_simps)
  then show thesis using n(2) by (intro that [of "lease_named owner (cs_leaseExpiresAt input) now" ?t]) simp_all
qed

lemma save_cursor_effect:
  assumes q: "quiet_environment opts account" and run: "save_cursor opts account lease next w = (r, w')"
  shows "scan_frame account w w' \<or> saved_cursor account w' = Some next"
    and "scan_stored (xa_accountId account) result w \<Longrightarrow> scan_stored (xa_accountId account) result w'"
proof -
  let ?v = "ro_others opts w"
  let ?P = "partition_of (xa_accountId account) ''SOLANA_SPL'' (xa_solanaPublicKey account)"
  have v: "scan_frame account w ?v" using q by (simp add: quiet_environment_def)
  have "scan_frame account ?v w' \<or> saved_cursor account w' = Some next \<and> w_incoming w' = w_incoming ?v \<and> w_issues w' = w_issues ?v"
  proof (cases r)
    case Inl
    then have "w' = ?v" using run by (auto simp: save_cursor_def repository_def commit_def split: sum.splits)
    then show ?thesis by (simp add: indexing.same)
  next
    case (Inr u)
    then have "saveIncomingCursor \<lparr>cs_accountId = xa_accountId account, cs_rail = ''SOLANA_SPL'', cs_address = xa_solanaPublicKey account,
        cs_cursorSignature = next, cs_leaseOwner = Some (ro_owner opts), cs_leaseExpiresAt = lease\<rparr> ?v = Inr (u, w')"
      using run by (simp add: save_cursor_def repository_result)
    then obtain Q t where w': "w_checkpoints w' = update_rows (\<lambda>c. ?P c \<and> Q c) (cursor_data next t) (w_checkpoints ?v)"
      "w_incoming w' = w_incoming ?v" "w_issues w' = w_issues ?v"
      by (rule saveIncomingCursor_rows) simp_all
    have "List.find ?P (w_checkpoints w') = map_option (\<lambda>c. if ?P c \<and> Q c then cursor_data next t c else c) (List.find ?P (w_checkpoints ?v))"
      unfolding w'(1) by (rule find_update_rows_keep) (simp add: cursor_data_def partition_of_def)
    then have "saved_cursor account w' = saved_cursor account ?v \<or> saved_cursor account w' = Some next"
      by (auto simp: saved_cursor_def cursor_data_def split: option.splits)
    then show ?thesis using w'(2,3) scan_frame_checkpoints by blast
  qed
  then show "scan_frame account w w' \<or> saved_cursor account w' = Some next"
    and "scan_stored (xa_accountId account) result w \<Longrightarrow> scan_stored (xa_accountId account) result w'"
    using v indexing.compose [OF v, of w'] scan_stored_frame [of account result w ?v] scan_stored_frame [of account result ?v w']
    by (auto simp: scan_stored_def recorded_def noted_def)
qed

text \<open>The cursor stays, or it moves to the end of a scan all of which is stored.\<close>

definition cursor_justified :: "IncomingReconciliationOptions \<Rightarrow> IndexedAccount \<Rightarrow> world \<Rightarrow> world \<Rightarrow> bool" where
  "cursor_justified opts account w w' \<longleftrightarrow> saved_cursor account w' = saved_cursor account w \<or>
     (\<exists>v v' result. read_transfers opts (xa_solanaPublicKey account) (saved_cursor account w) v = (Inr result, v') \<and>
       saved_cursor account w' = sn_nextCursor result \<and> scan_stored (xa_accountId account) result w')"

lemma cursor_justified_frame:
  "cursor_justified opts account w w1 \<Longrightarrow> scan_frame account w1 w2 \<Longrightarrow> cursor_justified opts account w w2"
  unfolding cursor_justified_def using scan_stored_frame by (metis scan_frame_def)

lemma scan_partition_justified:
  assumes q: "quiet_environment opts account"
    and run: "scan_partition opts account (saved_cursor account w) lease w = (r, w')"
  shows "cursor_justified opts account w w'"
proof -
  obtain p w1 where ps: "process_scan opts account (saved_cursor account w) w = (p, w1)" by (cases "process_scan opts account (saved_cursor account w) w")
  have f1: "scan_frame account w w1" by (rule framedD [OF process_scan_frame(1) [OF q] ps])
  show ?thesis
  proof (cases "\<exists>next. p = Inr (Some next)")
    case False
    then have "w' = w1" using run ps by (auto simp: scan_partition_def split: sum.splits option.splits)
    then show ?thesis using f1 by (simp add: cursor_justified_def scan_frame_def)
  next
    case True
    then obtain "next" where p: "p = Inr (Some next)" by blast
    obtain v v' result where scan: "read_transfers opts (xa_solanaPublicKey account) (saved_cursor account w) v = (Inr result, v')"
      "sn_nextCursor result = Some next" "scan_stored (xa_accountId account) result w1"
      using process_scan_frame(2) [OF q] ps p by blast
    obtain h w2 where hb: "heartbeat opts account lease w1 = (h, w2)" by (cases "heartbeat opts account lease w1")
    have f2: "scan_frame account w1 w2" by (rule framedD [OF heartbeat_frame [OF q] hb])
    have "w' = w2 \<or> (\<exists>l x. save_cursor opts account l next w2 = (x, w'))"
      using run ps p hb by (auto simp: scan_partition_def bind_p_def try_p_def return_p_def split: prod.splits sum.splits)
    then have "scan_frame account w2 w' \<or> saved_cursor account w' = Some next \<and> scan_stored (xa_accountId account) result w'"
      using save_cursor_effect [OF q] scan_stored_frame [OF scan(3) f2] indexing.same by blast
    then show ?thesis
      using scan(1,2) indexing.compose [OF f1 f2] by (auto simp: cursor_justified_def scan_frame_def)
  qed
qed

lemma bind_p_Inr: "m w = (Inr x, w') \<Longrightarrow> bind_p m k w = k x w'"
  by (simp add: bind_p_def)

lemma reconcileAccount_justified:
  assumes q: "quiet_environment opts account" and run: "reconcileAccount opts account w = (r, w')"
  shows "cursor_justified opts account w w'"
proof -
  obtain now w1 where now: "this_now w = (Inr now, w1)" by (auto simp: this_now_def commit_def tx_simps)
  let ?claim = "repository opts (claimIncomingPartition (partition_input opts account (Some now) None))"
  obtain c w2 where c: "?claim w1 = (c, w2)" by (cases "?claim w1")
  have f: "scan_frame account w w2"
    by (rule indexing.compose [OF framedD [OF clock_frame(1) now] framedD [OF repository_frame [OF q claim_frame] c]])
  have stay: "cursor_justified opts account w v" if "scan_frame account w2 v" for v
    using indexing.compose [OF f that] by (simp add: cursor_justified_def scan_frame_def)
  show ?thesis
  proof (cases "\<exists>cursor. c = Inr (Some cursor)")
    case False
    then have "w' = w2" using run now c by (auto simp: reconcileAccount_def bind_p_def return_p_def split: sum.splits option.splits)
    then show ?thesis using stay [of w2] indexing.same by simp
  next
    case True
    then obtain cursor where cu: "c = Inr (Some cursor)" by blast
    have v: "saved_cursor account (ro_others opts w1) = saved_cursor account w"
      using indexing.compose [OF framedD [OF clock_frame(1) now], of account "ro_others opts w1"] q
      by (simp add: quiet_environment_def scan_frame_def)
    have sc: "ic_cursorSignature cursor = saved_cursor account w2"
      using claim_cursor [OF repository_result [OF c [unfolded cu]]] v f by (simp add: scan_frame_def)
    obtain l w3 where s: "scan_partition opts account (saved_cursor account w2) (ic_leaseExpiresAt cursor) w2 = (l, w3)"
      by (cases "scan_partition opts account (saved_cursor account w2) (ic_leaseExpiresAt cursor) w2")
    have j: "cursor_justified opts account w w3"
      using scan_partition_justified [OF q s] f by (simp add: cursor_justified_def scan_frame_def)
    have tail: "framed account (bind_p (heartbeat opts account lease) (\<lambda>lease'.
         repository opts (releaseIncomingPartition (partition_input opts account None lease'))))" for lease
      by (intro indexing.ensures_bind heartbeat_frame [OF q] repository_frame [OF q] partition_tx_frames)
    have "scan_frame account w3 w'"
    proof (cases l)
      case (Inl e)
      then show ?thesis using run now c cu sc s by (simp add: reconcileAccount_def bind_p_def indexing.same)
    next
      case (Inr lease)
      have "bind_p (heartbeat opts account lease) (\<lambda>lease'.
         repository opts (releaseIncomingPartition (partition_input opts account None lease'))) w3 = (r, w')"
        using run
        by (simp add: reconcileAccount_def sc bind_p_Inr [where m = this_now and w = w, OF now]
          bind_p_Inr [where m = ?claim and w = w1, OF c [unfolded cu]]
          bind_p_Inr [where m = "scan_partition opts account (saved_cursor account w2) (ic_leaseExpiresAt cursor)" and w = w2, OF s [unfolded Inr]])
      then show ?thesis by (rule framedD [OF tail])
    qed
    then show ?thesis by (rule cursor_justified_frame [OF j])
  qed
qed

end
