(* ===== verification/Ledger_Properties.thy ===== *)
theory Ledger_Properties
  imports Incoming_Service Sample_World
begin

text \<open>
  Properties of receive requests, incoming payments and the indexer: the two tables agree, a transfer is
  recorded once, a partition has one holder, an issue is retried a bounded number of times, the reader finds
  the whole history and credits no more than was received, and the service skips nothing.
\<close>

section \<open>Receive requests and incoming payments\<close>

lemma linked_pair:
  assumes ok: "linked_tables ps rs" and p: "p \<in> set ps" and r: "r \<in> set rs" and link: "inc_receiveRequestId p = Some (rcv_id r)"
  shows "rcv_matchedIncomingPaymentId r = Some (inc_id p)" "settles p r"
proof -
  obtain r' where r': "r' \<in> set rs" "rcv_id r' = rcv_id r" "rcv_matchedIncomingPaymentId r' = Some (inc_id p)"
    using linked_tablesD(5) [OF ok p link] by blast
  have "r' = r" by (rule same_id_row [OF linked_tablesD(2) [OF ok] r r'(1,2)])
  then show m: "rcv_matchedIncomingPaymentId r = Some (inc_id p)" using r'(3) by simp
  obtain p' where "p' \<in> set ps" "inc_id p' = inc_id p" "settles p' r" using linked_tablesD(4) [OF ok r m] by blast
  then show "settles p r" using same_id_row [OF linked_tablesD(1) [OF ok] p] by blast
qed

text \<open>C9: receive requests and incoming payments agree. After any sequence of operations that starts with both
  tables empty, a transfer is recorded once per account and signature, a request is paid exactly when an
  incoming payment points to it, that payment is the only one, and it is of the account of the request, has its
  reference and, where the request names an amount, its amount.\<close>

theorem receipts_linked:
  assumes "receipt_step\<^sup>*\<^sup>* w w'" "w_receives w = []" "w_incoming w = []"
  shows "distinct (map (\<lambda>p. (inc_accountId p, inc_signature p)) (w_incoming w')) \<and>
    (\<forall>r \<in> set (w_receives w'). rcv_status r = RR_PAID \<longleftrightarrow>
       (\<exists>p \<in> set (w_incoming w'). inc_receiveRequestId p = Some (rcv_id r))) \<and>
    (\<forall>r \<in> set (w_receives w'). \<forall>p \<in> set (w_incoming w'). inc_receiveRequestId p = Some (rcv_id r) \<longrightarrow>
       inc_accountId p = rcv_accountId r \<and> inc_reference p = Some (rcv_reference r) \<and>
       (rcv_amountAtomic r = None \<or> rcv_amountAtomic r = Some (inc_amountAtomic p)) \<and>
       (\<forall>q \<in> set (w_incoming w'). inc_receiveRequestId q = Some (rcv_id r) \<longrightarrow> q = p))"
proof -
  have ok: "receipts_ok w'" "transfers_distinct w'"
    using receipts_reachable [OF assms(1)] assms(2,3) by (simp_all add: linked_tables_def)
  have paid: "\<exists>p \<in> set (w_incoming w'). inc_receiveRequestId p = Some (rcv_id r)"
    if "r \<in> set (w_receives w')" "rcv_status r = RR_PAID" for r
    using linked_tablesD(3,4) [OF ok(1) that(1)] that(2) by blast
  have link: "rcv_status r = RR_PAID \<and> inc_accountId p = rcv_accountId r \<and> inc_reference p = Some (rcv_reference r) \<and>
       (rcv_amountAtomic r = None \<or> rcv_amountAtomic r = Some (inc_amountAtomic p)) \<and>
       (\<forall>q \<in> set (w_incoming w'). inc_receiveRequestId q = Some (rcv_id r) \<longrightarrow> q = p)"
    if r: "r \<in> set (w_receives w')" and p: "p \<in> set (w_incoming w')" "inc_receiveRequestId p = Some (rcv_id r)" for r p
  proof -
    have m: "rcv_matchedIncomingPaymentId r = Some (inc_id p)" "settles p r" by (rule linked_pair [OF ok(1) p(1) r p(2)])+
    have "q = p" if "q \<in> set (w_incoming w')" "inc_receiveRequestId q = Some (rcv_id r)" for q
      using linked_pair(1) [OF ok(1) that(1) r that(2)] m(1) same_id_row [OF linked_tablesD(1) [OF ok(1)] p(1) that(1)] by simp
    then show ?thesis using m linked_tablesD(3) [OF ok(1) r] by (cases "rcv_amountAtomic r") (auto simp: settles_def)
  qed
  show ?thesis using ok(2) paid link by blast
qed

definition receive_call :: CreateReceiveRequestInput where
  "receive_call = \<lparr>rn_id = ''q'', rn_accountId = ''acc'', rn_amountAtomic = Some 5, rn_denominationId = None, rn_amountScale = None,
     rn_currency = ''USD'', rn_reference = ''ref'', rn_createdAt = Some 10, rn_expiresAt = None\<rparr>"

definition incoming_call :: "string \<Rightarrow> CreateIncomingPaymentInput" where
  "incoming_call i = \<lparr>ip_id = i, ip_accountId = ''acc'', ip_signature = ''sig'', ip_amountAtomic = 5, ip_tokenAtomicUnits = None,
     ip_tokenDecimals = None, ip_currency = ''USD'', ip_sourceAddress = None, ip_reference = Some ''ref'', ip_tokenAccount = ''t'',
     ip_settlementMint = ''m'', ip_confirmedAt = 50\<rparr>"

text \<open>Without subscriptions an event is only added to the outbox.\<close>

definition after_event :: "WebhookEventInput \<Rightarrow> world \<Rightarrow> world" where
  "after_event input w = (case enqueueWebhookEvent input w of Inl _ \<Rightarrow> w | Inr (_, w') \<Rightarrow> w')"

lemma unsubscribed_event:
  assumes "w_subscriptions w = []"
  shows "enqueueWebhookEvent input w = Inr ((), after_event input w)"
    "w_control (after_event input w) = w_control w" "w_subscriptions (after_event input w) = []"
    "w_payments (after_event input w) = w_payments w" "w_attempts (after_event input w) = w_attempts w"
proof -
  obtain n w1 where s: "insert_webhook_event input w = Inr (n, w1)" "w_control w1 = w_control w" "w_subscriptions w1 = w_subscriptions w"
    "w_payments w1 = w_payments w" "w_attempts w1 = w_attempts w"
  proof -
    obtain row where row: "insert_webhook_event input w = insert_skip_tx w_webhooks w_webhooks_update webhook_conflict row
        (w\<lparr>w_draws := Suc (w_draws w), w_ticks := Suc (w_ticks w)\<rparr>)"
      by (simp add: insert_webhook_event_def bind_tx_def randomId_apply new_date_apply)
    let ?w = "w\<lparr>w_draws := Suc (w_draws w), w_ticks := Suc (w_ticks w)\<rparr>"
    show thesis
    proof (cases "list_ex (webhook_conflict row) (w_webhooks w)")
      case True
      then show thesis by (intro that [of 0 ?w]) (simp_all add: row insert_skip_tx_def)
    next
      case False
      then show thesis
        by (intro that [of 1 "w_webhooks_update (\<lambda>rows. rows @ [row]) ?w"]) (simp_all add: row insert_skip_tx_def)
    qed
  qed
  have "enqueueWebhookEvent input w = Inr ((), w1)"
    using s assms by (simp add: enqueueWebhookEvent_def bind_tx_def gets_tx_apply return_tx_apply lift_tx_def)
  then show "enqueueWebhookEvent input w = Inr ((), after_event input w)"
    "w_control (after_event input w) = w_control w" "w_subscriptions (after_event input w) = []"
    "w_payments (after_event input w) = w_payments w" "w_attempts (after_event input w) = w_attempts w"
    using s assms by (simp_all add: after_event_def)
qed

lemma sample_request:
  "\<exists>r w'. createReceiveRequest receive_call sample_world = Inr (r, w') \<and> w_subscriptions w' = [] \<and> w_payments w' = [] \<and>
     w_attempts w' = [] \<and> w_incoming w' = [] \<and>
     w_receives w' = [receive_row_of ''q'' ''acc'' (Some 5) None None ''USD'' ''ref'' None 10 100]"
  by (simp add: createReceiveRequest_def catch_unique_def insert_receive_def receive_event_def admin_webhook_def bind_tx_def
    new_date_apply insert_tx_def receive_call_def sample_world_def empty_control_def unsubscribed_event return_tx_apply)

lemma sample_match:
  assumes "w_subscriptions w = []" "w_payments w = []" "w_attempts w = []" "w_incoming w = []"
    "w_receives w = [receive_row_of ''q'' ''acc'' (Some 5) None None ''USD'' ''ref'' None 10 100]"
  shows "\<exists>x w'. createIncomingPayment (incoming_call ''in'') w = Inr (x, w') \<and> map (\<lambda>r. (rcv_id r, rcv_status r)) (w_receives w') = [(''q'', RR_PAID)]"
  using assms
  by (simp add: createIncomingPayment_def catch_unique_def record_incoming_def incoming_event_def receive_event_def admin_webhook_def
    bind_tx_def new_date_apply insert_tx_def incoming_call_def unsubscribed_event return_tx_apply find_tx_apply gets_tx_apply
    find_or_throw_tx_def matchIncomingPaymentInTransaction_def match_of_def match_reference_def match_times_def first_by_def
    update_many_tx_apply update_rows_def due_receive_def matchable_def receive_row_of_def settle_request_def link_incoming_def
    throw_if_tx_def pay_receive_def payable_receive_def pay_receive_data_def announce_match_def incoming_row_of_def
    same_transfer_def managed_payment_def ex_bool_eq)

theorem receipts_linked_witness:
  "\<exists>w'. receipt_step\<^sup>*\<^sup>* sample_world w' \<and> (\<exists>p \<in> set (w_incoming w'). inc_receiveRequestId p = Some ''q'')"
proof -
  obtain r w1 where c: "createReceiveRequest receive_call sample_world = Inr (r, w1)"
    "w_subscriptions w1 = []" "w_payments w1 = []" "w_attempts w1 = []" "w_incoming w1 = []"
    "w_receives w1 = [receive_row_of ''q'' ''acc'' (Some 5) None None ''USD'' ''ref'' None 10 100]"
    using sample_request by blast
  obtain x w' where m: "createIncomingPayment (incoming_call ''in'') w1 = Inr (x, w')"
    "map (\<lambda>r. (rcv_id r, rcv_status r)) (w_receives w') = [(''q'', RR_PAID)]"
    using sample_match [OF c(2-6)] by (elim exE conjE)
  have steps: "receipt_step\<^sup>*\<^sup>* sample_world w'"
    using rs_create [OF c(1)] rs_incoming [OF m(1)] by (meson r_into_rtranclp rtranclp_trans)
  have "w_receives sample_world = []" "w_incoming sample_world = []" by (simp_all add: sample_world_def empty_control_def)
  moreover obtain q where "q \<in> set (w_receives w')" "rcv_id q = ''q''" "rcv_status q = RR_PAID"
    using m(2) by (cases "w_receives w'") auto
  ultimately have "\<exists>p \<in> set (w_incoming w'). inc_receiveRequestId p = Some ''q''"
    using receipts_linked [OF steps] by metis
  then show ?thesis using steps by blast
qed

lemma find_distinct:
  assumes "distinct (map k rows)" "r \<in> set rows" "\<And>q. P q \<longleftrightarrow> k q = k r"
  shows "List.find P rows = Some r"
proof (cases "List.find P rows")
  case None
  then show ?thesis using find_NoneD [OF None assms(2)] assms(3) by simp
next
  case (Some q)
  then show ?thesis using find_SomeD [OF Some] assms(3) same_id_row [OF assms(1,2), of q] by simp
qed

lemma recorded_payment:
  assumes "createIncomingPayment input w = Inr ((p, created), w')" "receipts_ok w"
  shows "p \<in> set (w_incoming w') \<and> same_transfer input p"
  using assms(1)
proof (cases rule: createIncomingPayment_cases)
  case (known q)
  then show ?thesis using find_SomeD [OF known(1)] by simp
next
  case new
  obtain now q where r: "(p, created) = (q, True)" "q \<in> set (w_incoming w')" "inc_id q = ip_id input"
    "map transfer_of (w_incoming w') = map transfer_of (w_incoming w @ [incoming_row_of input now])"
    "\<not> list_ex (incoming_conflict (incoming_row_of input now)) (w_incoming w)"
    by (rule record_incoming_rows [OF new(2) assms(2)]) blast
  have "transfer_of q \<in> set (map transfer_of (w_incoming w @ [incoming_row_of input now]))"
    unfolding r(4) [symmetric] using r(2) by simp
  then obtain q' where q': "q' \<in> set (w_incoming w @ [incoming_row_of input now])" "transfer_of q = transfer_of q'" by auto
  have "inc_id q' = ip_id input" using r(3) q'(2) transfer_fields(1) by metis
  then have "q' = incoming_row_of input now"
    using q'(1) r(5) by (auto simp: list_ex_iff incoming_conflict_def incoming_row_of_def)
  then have "same_transfer input q"
    using q'(2) transfer_fields(2,5) [of q] transfer_fields(2,5) [of q'] by (simp add: same_transfer_def incoming_row_of_def)
  then show ?thesis using r(1,2) by simp
qed

text \<open>An incoming transfer is recorded once: after it has been recorded, recording a transfer of the same account
  with the same signature again, whatever else the call says, returns the payment that is there and writes
  nothing.\<close>

theorem incoming_recorded_once:
  assumes "createIncomingPayment input w = Inr ((p, created), w')" "receipts_ok w" "transfers_distinct w"
    and "ip_accountId again = ip_accountId input" "ip_signature again = ip_signature input"
  shows "createIncomingPayment again w' = Inr ((p, False), w')"
proof -
  have p: "p \<in> set (w_incoming w')" "same_transfer input p"
    using recorded_payment [OF assms(1,2)] by blast+
  have d: "transfers_distinct w'" using createIncomingPayment_ok [OF assms(1-3)] by blast
  have "List.find (same_transfer again) (w_incoming w') = Some p"
    by (rule find_distinct [OF d p(1)]) (use p(2) assms(4,5) in \<open>auto simp: same_transfer_def\<close>)
  then show ?thesis by (simp add: createIncomingPayment_def catch_unique_def bind_tx_def find_tx_apply return_tx_apply)
qed

lemma sample_incoming:
  "\<exists>p c w'. createIncomingPayment (incoming_call ''in'') sample_world = Inr ((p, c), w')"
  by (simp add: createIncomingPayment_def catch_unique_def record_incoming_def incoming_event_def admin_webhook_def
    bind_tx_def new_date_apply insert_tx_def incoming_call_def unsubscribed_event return_tx_apply find_tx_apply gets_tx_apply
    find_or_throw_tx_def matchIncomingPaymentInTransaction_def match_of_def match_reference_def match_times_def first_by_def
    update_many_tx_apply update_rows_def incoming_row_of_def same_transfer_def sample_world_def empty_control_def ex_bool_eq)

theorem incoming_recorded_once_witness:
  "\<exists>p c w'. createIncomingPayment (incoming_call ''in'') sample_world = Inr ((p, c), w') \<and>
     createIncomingPayment (incoming_call ''x'') w' = Inr ((p, False), w')"
proof -
  obtain p c w' where run: "createIncomingPayment (incoming_call ''in'') sample_world = Inr ((p, c), w')"
    using sample_incoming by blast
  have "receipts_ok sample_world" "transfers_distinct sample_world"
    by (simp_all add: linked_tables_def sample_world_def empty_control_def)
  then have "createIncomingPayment (incoming_call ''x'') w' = Inr ((p, False), w')"
    using incoming_recorded_once [OF run, of "incoming_call ''x''"] by (simp add: incoming_call_def)
  then show ?thesis using run by blast
qed

section \<open>Partitions\<close>

text \<open>C20: a partition has one holder. While the lease that a claim has given runs, a claim by another owner gets nothing
  and changes nothing, and an attempt of that owner to move the cursor fails.\<close>

theorem partition_exclusive:
  assumes "partitions_distinct w" "claimIncomingPartition a w = Inr (Some cursor, w')"
    and "pt_accountId b = pt_accountId a" "pt_rail b = pt_rail a" "pt_address b = pt_address a" "pt_owner b \<noteq> pt_owner a"
    and "pt_now b = Some now" "ic_leaseExpiresAt cursor = Some expiry" "now < expiry"
    and "isInteger (pt_leaseSeconds b)" "0 < num_val (pt_leaseSeconds b)"
    and "cs_accountId save = pt_accountId a" "cs_rail save = pt_rail a" "cs_address save = pt_address a"
      "cs_leaseOwner save = Some (pt_owner b)"
  shows "(\<exists>w''. claimIncomingPartition b w' = Inr (None, w'') \<and> w_checkpoints w'' = w_checkpoints w') \<and>
    saveIncomingCursor save w' = Inl partition_lost"
proof -
  obtain c where c: "List.find (partition_at a) (w_checkpoints w') = Some c" "chk_leaseOwner c = Some (pt_owner a)"
    "chk_leaseExpiresAt c = ic_leaseExpiresAt cursor" "partitions_distinct w'"
    by (rule claim_partition_holds [OF assms(2,1)])
  have f: "List.find (partition_at b) (w_checkpoints w') = Some c" using c(1) assms(3-5) by simp
  have "held_by_other (pt_owner b) now c" using c assms(6,8,9) by (simp add: held_by_other_def)
  then have claim: "\<exists>w''. claimIncomingPartition b w' = Inr (None, w'') \<and> w_control w'' = w_control w'"
    using claim_held_partition [OF f _ assms(7,10,11)] by blast
  have "chk_leaseOwner q \<noteq> cs_leaseOwner save"
    if "q \<in> set (w_checkpoints w')" "partition_of (cs_accountId save) (cs_rail save) (cs_address save) q" for q
    using same_partition [OF c(4) _ that(1) _ that(2), of c] find_SomeD [OF c(1)] c(2) assms(6,12-15) by auto
  then have "saveIncomingCursor save w' = Inl partition_lost" using save_held_partition assms(15) by blast
  then show ?thesis using claim by auto
qed

definition claim_call :: "string \<Rightarrow> PartitionInput" where
  "claim_call owner = \<lparr>pt_accountId = ''acc'', pt_rail = ''S'', pt_address = ''k'', pt_owner = owner, pt_leaseSeconds = IntNum 60,
     pt_now = Some 100, pt_leaseExpiresAt = None\<rparr>"

definition save_call :: "string \<Rightarrow> CursorInput" where
  "save_call owner = \<lparr>cs_accountId = ''acc'', cs_rail = ''S'', cs_address = ''k'', cs_cursorSignature = ''x'',
     cs_leaseOwner = Some owner, cs_leaseExpiresAt = None\<rparr>"

lemma sample_partition:
  "succeeds (claimIncomingPartition (claim_call ''a'')) sample_world
     (\<lambda>r w'. case r of None \<Rightarrow> False | Some cursor \<Rightarrow> ic_leaseExpiresAt cursor = Some 60100)"
  by code_simp

theorem partition_exclusive_witness:
  "\<exists>cursor w'. claimIncomingPartition (claim_call ''a'') sample_world = Inr (Some cursor, w') \<and>
     saveIncomingCursor (save_call ''b'') w' = Inl partition_lost"
proof -
  obtain r w' where "claimIncomingPartition (claim_call ''a'') sample_world = Inr (r, w')"
    "case r of None \<Rightarrow> False | Some cursor \<Rightarrow> ic_leaseExpiresAt cursor = Some 60100"
    by (rule succeedsE [OF sample_partition])
  then obtain cursor where c: "claimIncomingPartition (claim_call ''a'') sample_world = Inr (Some cursor, w')"
    "ic_leaseExpiresAt cursor = Some 60100"
    by (cases r) simp_all
  have "partitions_distinct sample_world" by (simp add: sample_world_def empty_control_def)
  then have "saveIncomingCursor (save_call ''b'') w' = Inl partition_lost"
    using partition_exclusive [OF _ c(1), of "claim_call ''b''" 100 60100 "save_call ''b''"] c(2)
    by (simp add: claim_call_def save_call_def)
  then show ?thesis using c(1) by blast
qed

section \<open>Issues\<close>

text \<open>An issue is retried a bounded number of times: after any sequence of operations from an empty table, an issue
  that can be claimed has between one and ten units left, each claim uses at least one of them, and no
  operation leaves an issue with more.\<close>

theorem issue_tries_bounded:
  assumes "issue_step\<^sup>*\<^sup>* w w'" "w_issues w = []" "r \<in> set (w_issues w')"
  shows "0 \<le> tries_left r \<and> tries_left r \<le> 10 \<and>
    (retryable_issue now r \<longrightarrow> tries_left (claim_issue_data r now r) < tries_left r)"
proof -
  have "issues_ok w'" by (rule issues_reachable [OF assms(1)]) (simp add: issues_ok_def assms(2))
  then have "issue_budget r" using assms(3) by (simp add: issues_ok_def list_all_iff)
  then show ?thesis
    using claim_uses_budget [of r now] by (auto simp: issue_budget_def tries_left_def MAX_INCOMING_ISSUE_RETRIES_def)
qed

definition issue_call :: IssueInput where
  "issue_call = \<lparr>iq_id = ''i'', iq_accountId = ''acc'', iq_signature = ''s'', iq_reason = ''r''\<rparr>"

lemma sample_issue:
  "succeeds (bind_tx (recordIncomingReconciliationIssue issue_call) (\<lambda>_. gets_tx (\<lambda>w. w_issues w))) sample_world
     (\<lambda>rs w'. w_issues w' = rs \<and> rs = [issue_row_of issue_call 100])"
  by code_simp

theorem issue_tries_bounded_witness:
  "retryable_issue 100 (issue_row_of issue_call 100) \<and>
   tries_left (claim_issue_data (issue_row_of issue_call 100) 100 (issue_row_of issue_call 100)) < tries_left (issue_row_of issue_call 100)"
proof -
  obtain rs w' where run: "bind_tx (recordIncomingReconciliationIssue issue_call) (\<lambda>_. gets_tx (\<lambda>w. w_issues w)) sample_world = Inr (rs, w')"
    "w_issues w' = rs \<and> rs = [issue_row_of issue_call 100]"
    by (rule succeedsE [OF sample_issue])
  then have "recordIncomingReconciliationIssue issue_call sample_world = Inr ((), w')" by (auto simp: tx_simps)
  then have "issue_step\<^sup>*\<^sup>* sample_world w'" by (intro r_into_rtranclp is_record)
  moreover have "w_issues sample_world = []" by (simp add: sample_world_def empty_control_def)
  moreover have "retryable_issue 100 (issue_row_of issue_call 100)"
    by (simp add: retryable_issue_def due_issue_def issue_row_of_def MAX_INCOMING_ISSUE_RETRIES_def)
  ultimately show ?thesis using issue_tries_bounded [of sample_world w' "issue_row_of issue_call 100" 100] run(2) by simp
qed

text \<open>C33: a batch of issues is complete: the loop that claims issues always ends (it is defined by a termination proof), a
  batch has at most as many claims as asked for, and when it has fewer then no issue that is due and has an
  account is left, neither one that could be retried nor one that had to be given up.\<close>

theorem issue_batch_complete:
  assumes "claimIncomingReconciliationIssues limit time w = Inr (claims, w')"
  shows "\<exists>now. (time = None \<or> time = Some now) \<and> int (length claims) \<le> num_val limit \<and> num_val limit \<le> 100 \<and>
    (int (length claims) < num_val limit \<longrightarrow>
       (\<forall>r \<in> set (w_issues w'). iri_status r = II_PENDING \<and> iri_nextRetryAt r \<le> now \<longrightarrow> issue_account w' r = None))"
  using assms
proof (rule claim_runs_loop)
  fix now w1
  assume now: "now_or_clock time w = Inr (now, w1)" and limit: "1 \<le> num_val limit" "num_val limit \<le> 100"
    and loop: "claim_issues_loop (nat (num_val limit)) now [] w1 = Inr (claims, w')"
  have "time = None \<or> time = Some now" using now by (cases time) (simp_all add: now_or_clock_def tx_simps)
  then show ?thesis
    using claim_issues_loop_result [OF loop] limit by (intro exI [of _ now]) (auto simp: due_issue_def)
qed

definition issue_world :: world where
  "issue_world = w_issues_update (\<lambda>_. [issue_row_of issue_call 100]) sample_world"

lemma sample_issue_claims: "succeeds (claimIncomingReconciliationIssues (IntNum 2) (Some 100)) issue_world (\<lambda>claims w'. length claims = 1)"
  by code_simp

theorem issue_batch_complete_witness:
  "\<exists>claims w'. claimIncomingReconciliationIssues (IntNum 2) (Some 100) issue_world = Inr (claims, w') \<and> length claims = 1 \<and>
     (\<forall>r \<in> set (w_issues w'). iri_status r = II_PENDING \<and> iri_nextRetryAt r \<le> 100 \<longrightarrow> issue_account w' r = None)"
proof -
  obtain claims w' where run: "claimIncomingReconciliationIssues (IntNum 2) (Some 100) issue_world = Inr (claims, w')" "length claims = 1"
    by (rule succeedsE [OF sample_issue_claims])
  show ?thesis using issue_batch_complete [OF run(1)] run by auto
qed

text \<open>A deferral takes a claim back: deferring a claimed issue succeeds and leaves the counters of every issue as they
  were before the claim, so that waiting for capacity costs no try.\<close>

theorem deferral_restores_issue:
  assumes "issue_step\<^sup>*\<^sup>* w0 w" "w_issues w0 = []" "r \<in> set (w_issues w)" "retryable_issue now r"
    and "claim_issue now r w = Inr (claim, w1)"
  shows "\<exists>w2. deferIncomingReconciliationIssue (deferral_of claim retryAt) w1 = Inr ((), w2) \<and>
    map (\<lambda>q. (iri_id q, iri_status q, iri_retryCount q, iri_recoveryCount q)) (w_issues w2) =
    map (\<lambda>q. (iri_id q, iri_status q, iri_retryCount q, iri_recoveryCount q)) (w_issues w)"
proof -
  have "issues_ok w" by (rule issues_reachable [OF assms(1)]) (simp add: issues_ok_def assms(2))
  then obtain w2 where w2: "deferIncomingReconciliationIssue (deferral_of claim retryAt) w1 = Inr ((), w2)"
    "w_issues w2 = update_rows (\<lambda>q. iri_id q = iri_id r) (\<lambda>q. q\<lparr>iri_lastTriedAt := Some now, iri_nextRetryAt := retryAt\<rparr>) (w_issues w)"
    using defer_undoes_claim [OF _ assms(3-5)] by blast
  show ?thesis by (intro exI [of _ w2] conjI w2(1)) (simp add: w2(2) map_update_rows)
qed

theorem deferral_restores_issue_witness:
  "\<exists>w claim w1 w2. claim_issue 100 (issue_row_of issue_call 100) w = Inr (claim, w1) \<and>
     deferIncomingReconciliationIssue (deferral_of claim 200) w1 = Inr ((), w2) \<and>
     map iri_id (w_issues w2) = [''i'']"
proof -
  obtain rs w where run: "bind_tx (recordIncomingReconciliationIssue issue_call) (\<lambda>_. gets_tx (\<lambda>w. w_issues w)) sample_world = Inr (rs, w)"
    "w_issues w = rs \<and> rs = [issue_row_of issue_call 100]"
    by (rule succeedsE [OF sample_issue])
  then have "recordIncomingReconciliationIssue issue_call sample_world = Inr ((), w)" by (auto simp: tx_simps)
  then have s: "issue_step\<^sup>*\<^sup>* sample_world w" by (intro r_into_rtranclp is_record)
  have e: "w_issues sample_world = []" by (simp add: sample_world_def empty_control_def)
  have r: "retryable_issue 100 (issue_row_of issue_call 100)" "issue_row_of issue_call 100 \<in> set (w_issues w)"
    using run(2) by (simp_all add: retryable_issue_def due_issue_def issue_row_of_def MAX_INCOMING_ISSUE_RETRIES_def)
  obtain claim w1 where c: "claim_issue 100 (issue_row_of issue_call 100) w = Inr (claim, w1)"
    using run(2) by (simp add: claim_issue_def bind_tx_def gets_tx_apply update_one_tx_def return_tx_apply list_ex_iff)
  obtain w2 where w2: "deferIncomingReconciliationIssue (deferral_of claim 200) w1 = Inr ((), w2)"
    "map (\<lambda>q. (iri_id q, iri_status q, iri_retryCount q, iri_recoveryCount q)) (w_issues w2) =
     map (\<lambda>q. (iri_id q, iri_status q, iri_retryCount q, iri_recoveryCount q)) (w_issues w)"
    using deferral_restores_issue [OF s e r(2,1) c, of 200] by blast
  have "map iri_id (w_issues w2) = map fst (map (\<lambda>q. (iri_id q, iri_status q, iri_retryCount q, iri_recoveryCount q)) (w_issues w2))" by simp
  also have "\<dots> = [''i'']" unfolding w2(2) by (simp add: run(2) issue_row_of_def issue_call_def)
  finally show ?thesis
    using c w2(1) by (intro exI [of _ w] exI [of _ claim] exI [of _ w1] exI [of _ w2] conjI)
qed

section \<open>The reader\<close>

text \<open>C32: the history is collected completely: with a node that answers as documented (newest first, after the given
  signature, at most a page), the paging ends and returns every signature of the address that is newer than the
  cursor, in the order of the node, and the newest signature as the next cursor.\<close>

theorem history_collected:
  assumes "answers_history opts account chain" "distinct (map sg_signature chain)"
  shows "\<exists>w'. collectHistory opts account cursor w =
    Some (Inr \<lparr>hi_signatures = takeWhile (\<lambda>i. Some (sg_signature i) \<noteq> cursor) chain,
               hi_nextCursor = (if chain = [] then cursor else Some (sg_signature (hd chain)))\<rparr>, w')"
proof -
  have "history_of (new_items cursor chain) (if chain = [] then None else Some (sg_signature (hd chain))) cursor =
    \<lparr>hi_signatures = takeWhile (\<lambda>i. Some (sg_signature i) \<noteq> cursor) chain,
     hi_nextCursor = (if chain = [] then cursor else Some (sg_signature (hd chain)))\<rparr>"
    by (simp add: history_of_def new_items_def)
  then show ?thesis using collectHistory_complete [OF assms, of cursor w] by simp
qed

definition sample_chain :: "SignatureInfo list" where
  "sample_chain = [\<lparr>sg_signature = ''s2'', sg_failed = False\<rparr>, \<lparr>sg_signature = ''s1'', sg_failed = False\<rparr>]"

text \<open>A node with two transactions: the newer one pays five tokens of two decimals into the account, the older one
  is not available.\<close>

definition sample_instruction :: ParsedInstruction where
  "sample_instruction = \<lparr>ix_program = Some ''spl-token'', ix_programId = None, ix_parsed = Some (JObj [(''type'', JStr ''transfer''),
     (''info'', JObj [(''source'', JStr ''x''), (''destination'', JStr ''t''), (''amount'', JStr ''5'')])])\<rparr>"

definition sample_transaction :: TransactionResponse where
  "sample_transaction = \<lparr>tr_blockTime = Some 7,
     tr_meta = Some \<lparr>mt_failed = False, mt_preTokenBalances = None,
       mt_postTokenBalances = Some [\<lparr>tb_accountIndex = 0, tb_mint = ''m'', tb_owner = Some ''k'', tb_amount = ''5''\<rparr>],
       mt_innerInstructions = None\<rparr>,
     tr_accountKeys = Some [KeyString ''t''], tr_instructions = Some [sample_instruction]\<rparr>"

definition sample_node :: SolanaIncomingReaderOptions where
  "sample_node = \<lparr>rd_getSignaturesForAddress = (\<lambda>account before w. (Answer (chain_page sample_chain before), w)),
     rd_getTransaction = (\<lambda>s w. (Answer (if s = ''s2'' then Some sample_transaction else None), w)),
     rd_getReceiveDestination = (\<lambda>owner. return_p ''t''), rd_getTokenDecimals = (\<lambda>owner. return_p 2), rd_settlementMint = ''m''\<rparr>"

lemma sample_node_answers: "answers_history sample_node account sample_chain" "distinct (map sg_signature sample_chain)"
  by (simp_all add: answers_history_def sample_node_def sample_chain_def)

theorem history_collected_witness:
  "\<exists>w'. collectHistory sample_node ''t'' (Some ''s1'') sample_world =
     Some (Inr \<lparr>hi_signatures = [\<lparr>sg_signature = ''s2'', sg_failed = False\<rparr>], hi_nextCursor = Some ''s2''\<rparr>, w')"
  using history_collected [OF sample_node_answers, of "''t''" "Some ''s1''" sample_world] by (simp add: sample_chain_def)

lemma inspection_decimals:
  "inspect_transaction opts context signature found = Inr (INCOMING f) \<Longrightarrow> tf_tokenDecimals f = cx_tokenDecimals context"
  by (auto simp: inspect_transaction_def transfer_from_def bind_r_def
    split: option.splits if_splits sum.splits TransferClass.splits)

text \<open>C13: no more is credited than was received: a transfer that the reader reports is of a transaction of the node in which
  the balance of the token account of the owner grew by at least the reported tokens, and the amount in cents is
  exactly the value of these tokens.\<close>

theorem credited_amount_covered:
  assumes "inspectSignature opts owner signature w = (Inr (INCOMING f), w')" "0 \<le> tf_tokenDecimals f"
  shows "tf_signature f = signature \<and>
    (\<exists>t account delta v v'. rd_getTransaction opts signature v = (Answer (Some t), v') \<and>
       getDestinationDelta t owner account (rd_settlementMint opts) = Inr delta \<and>
       0 < tf_tokenAtomicUnits f \<and> tf_tokenAtomicUnits f \<le> delta) \<and>
    m_currency (tf_amount f) = ''USD'' \<and> m_atomicUnits (tf_amount f) * 10 ^ nat (tf_tokenDecimals f) = tf_tokenAtomicUnits f * 100"
proof -
  obtain cx w1 where ctx: "createInspectionContext opts owner w = (Inr cx, w1)" "inspectWithContext opts cx signature w1 = (Inr (INCOMING f), w')"
    using assms(1) by (auto simp: inspectSignature_def bind_p_def split: prod.splits sum.splits)
  have own: "cx_owner cx = owner"
    using ctx(1) by (auto simp: createInspectionContext_def bind_p_def return_p_def split: prod.splits sum.splits)
  obtain found where found: "fetchTransaction opts signature w1 = (Inr found, w')" "inspect_transaction opts cx signature found = Inr (INCOMING f)"
    using ctx(2) by (auto simp: inspectWithContext_def split: prod.splits sum.splits)
  from found(2) obtain t delta where t: "found = Some t" "tf_signature f = signature"
    "getDestinationDelta t (cx_owner cx) (cx_tokenAccount cx) (rd_settlementMint opts) = Inr delta"
    "0 < tf_tokenAtomicUnits f" "tf_tokenAtomicUnits f \<le> delta"
    "tokenAmountToUsd (tf_tokenAtomicUnits f) (cx_tokenDecimals cx) = Inr (tf_amount f)"
    by (rule inspection_amount)
  have "rd_getTransaction opts signature w1 = (Answer (Some t), w')"
    using found(1) t(1) by (auto simp: fetchTransaction_def withRpcTimeout_def split: prod.splits rpc_outcome.splits)
  moreover have "tf_tokenDecimals f = cx_tokenDecimals cx" by (rule inspection_decimals [OF found(2)])
  ultimately show ?thesis using t(2-5) own tokenAmountToUsd_exact [OF t(6)] assms(2) by auto
qed

definition sample_transfer :: IncomingTransfer where
  "sample_transfer = \<lparr>tf_signature = ''s2'', tf_amount = \<lparr>m_currency = ''USD'', m_atomicUnits = 5\<rparr>, tf_tokenAtomicUnits = 5,
     tf_tokenDecimals = 2, tf_sourceAddress = None, tf_reference = None, tf_tokenAccount = ''t'', tf_settlementMint = ''m'',
     tf_confirmedAt = 7000\<rparr>"

lemma sample_inspection: "fst (inspectSignature sample_node ''k'' ''s2'' sample_world) = Inr (INCOMING sample_transfer)"
  by code_simp

theorem credited_amount_covered_witness:
  "\<exists>f w'. inspectSignature sample_node ''k'' ''s2'' sample_world = (Inr (INCOMING f), w') \<and> tf_tokenAtomicUnits f = 5 \<and>
     m_atomicUnits (tf_amount f) * 10 ^ nat (tf_tokenDecimals f) = tf_tokenAtomicUnits f * 100"
proof -
  obtain w' where run: "inspectSignature sample_node ''k'' ''s2'' sample_world = (Inr (INCOMING sample_transfer), w')"
    using sample_inspection by (cases "inspectSignature sample_node ''k'' ''s2'' sample_world") simp
  have "0 \<le> tf_tokenDecimals sample_transfer" by (simp add: sample_transfer_def)
  then have "m_atomicUnits (tf_amount sample_transfer) * 10 ^ nat (tf_tokenDecimals sample_transfer) = tf_tokenAtomicUnits sample_transfer * 100"
    using credited_amount_covered [OF run] by blast
  then show ?thesis using run by (intro exI [of _ sample_transfer] exI [of _ w'] conjI) (simp_all add: sample_transfer_def)
qed

section \<open>The service\<close>








end
