(* ===== verification/Webhook_Sender.thy ===== *)
theory Webhook_Sender
  imports Outgoing_Safety Webhook_Delivery
begin

text \<open>
  The worker that sends webhooks, \<^verbatim>\<open>apps/api/src/webhooks.ts\<close>: the signature of a delivery and its check by
  the receiver, the choice of the address a delivery goes to, and the delivery of a claim. The MAC, the URL parser,
  the name service, the HTTPS client and the signing keys are parameters. What other processes do before a call of
  the repository is \<open>ws_others\<close>; the timer that renews the lease and the other deliveries of the batch are among
  them. Divisions of times are exact, and logging is left out.
\<close>

unbundle bit_operations_syntax

section \<open>Signatures\<close>

definition DEFAULT_WEBHOOK_REPLAY_WINDOW_SECONDS :: int where
  "DEFAULT_WEBHOOK_REPLAY_WINDOW_SECONDS = 300"

text \<open>The MAC is a function of the key and the text; it answers with hexadecimal digits.\<close>

type_synonym mac = "string \<Rightarrow> string \<Rightarrow> string"

definition signed_text :: "string \<Rightarrow> int \<Rightarrow> string" where
  "signed_text rawBody timestampSeconds = int_to_string timestampSeconds @ ''.'' @ rawBody"

definition createWebhookSignature :: "mac \<Rightarrow> string \<Rightarrow> int \<Rightarrow> string \<Rightarrow> string" where
  "createWebhookSignature hmac rawBody timestampSeconds key = hmac key (signed_text rawBody timestampSeconds)"

text \<open>\<^verbatim>\<open>Buffer.from(s, 'hex')\<close> stops at the first pair that is not hexadecimal.\<close>

fun from_hex :: "string \<Rightarrow> nat list" where
  "from_hex (a # b # s) =
     (if is_hex_digit a \<and> is_hex_digit b then (16 * hextet_digit a + hextet_digit b) # from_hex s else [])"
| "from_hex s = []"

record WebhookSignatureVerificationInput =
  vi_rawBody :: string
  vi_timestamp :: string
  vi_signature :: string
  vi_key :: string
  vi_now :: "int option"
  vi_replayWindowSeconds :: "number option"

definition sha256_prefix :: string where
  "sha256_prefix = ''sha256=''"

definition provided_signature :: "string \<Rightarrow> string" where
  "provided_signature signature = (if take 7 signature = sha256_prefix then drop 7 signature else signature)"

definition verifyWebhookSignature :: "mac \<Rightarrow> int \<Rightarrow> WebhookSignatureVerificationInput \<Rightarrow> bool" where
  "verifyWebhookSignature hmac clock input =
     (if \<not> decimal_digits (vi_timestamp input) then False
      else
        let timestampSeconds = int (digits_val (vi_timestamp input));
            replayWindowSeconds = (case vi_replayWindowSeconds input of
              None \<Rightarrow> IntNum DEFAULT_WEBHOOK_REPLAY_WINDOW_SECONDS | Some n \<Rightarrow> n)
        in if timestampSeconds > 2 ^ 53 - 1 \<or> timestampSeconds \<le> 0 \<or> \<not> isInteger replayWindowSeconds \<or>
              num_val replayWindowSeconds \<le> 0 \<or> length (vi_key input) = 0 then False
           else
             let now = (case vi_now input of None \<Rightarrow> clock | Some t \<Rightarrow> t);
                 ageSeconds = \<bar>of_int now / 1000 - of_int timestampSeconds :: rat\<bar>
             in if ageSeconds > of_int (num_val replayWindowSeconds) then False
                else
                  let expected = createWebhookSignature hmac (vi_rawBody input) timestampSeconds (vi_key input);
                      provided = provided_signature (vi_signature input)
                  in if \<not> (length provided = 64 \<and> list_all is_hex_digit provided) then False
                     else length (from_hex provided) = length (from_hex expected) \<and> from_hex provided = from_hex expected)"

section \<open>Addresses by value\<close>

text \<open>\<^verbatim>\<open>split('::')\<close>.\<close>

fun split_double_colon :: "string \<Rightarrow> string list" where
  "split_double_colon (c # d # s) =
     (if c = CHR '':'' \<and> d = CHR '':'' then [] # split_double_colon s
      else (case split_double_colon (d # s) of [] \<Rightarrow> [[c]] | y # ys \<Rightarrow> (c # y) # ys))"
| "split_double_colon s = [s]"

text \<open>The last token of a section may be an IPv4 address. The address has passed \<^verbatim>\<open>isIP\<close>, so that the pieces
  \<^verbatim>\<open>Number\<close> is applied to are decimal digits, or the token contains a zone and is refused.\<close>

definition dotted_groups :: "string \<Rightarrow> int list option" where
  "dotted_groups token =
     (let octets = map octet_number (split_on (CHR ''.'') token)
      in if length octets \<noteq> 4 \<or> list_ex (\<lambda>octet. case octet of None \<Rightarrow> True | Some n \<Rightarrow> n > 255) octets then None
         else (let v = (\<lambda>i. int (the (octets ! i))) in Some [v 0 * 256 + v 1, v 2 * 256 + v 3]))"

fun section_groups :: "string list \<Rightarrow> int list option" where
  "section_groups [] = Some []"
| "section_groups (token # rest) =
     (if CHR ''.'' \<in> set token then (if rest \<noteq> [] then None else dotted_groups token)
      else if lower_hextet token then map_option (\<lambda>groups. hextet_val token # groups) (section_groups rest)
      else None)"

definition parseIpv6Section :: "string \<Rightarrow> int list option" where
  "parseIpv6Section section =
     (if section = [] then Some [] else section_groups (split_on (CHR '':'') section))"

definition group_value :: "int \<Rightarrow> int \<Rightarrow> int" where
  "group_value v g = push_bit 16 v OR g"

definition parseIpv6Address :: "string \<Rightarrow> int option" where
  "parseIpv6Address address =
     (let sections = split_double_colon address
      in if length sections > 2 then None
         else
           case (parseIpv6Section (sections ! 0), if length sections = 2 then parseIpv6Section (sections ! 1) else Some []) of
             (Some left, Some right) \<Rightarrow>
               (let compressed = (length sections = 2); missingGroups = 8 - int (length left) - int (length right)
                in if (compressed \<and> missingGroups < 1) \<or> (\<not> compressed \<and> missingGroups \<noteq> 0) then None
                   else
                     let groups = left @ replicate (nat missingGroups) 0 @ right
                     in if length groups \<noteq> 8 then None else Some (foldl group_value 0 groups))
           | _ \<Rightarrow> None)"

definition isUnsafeIpv4Address :: "int \<Rightarrow> bool" where
  "isUnsafeIpv4Address address =
     (let first = drop_bit 24 address; second = drop_bit 16 address AND 0xff
      in first = 0 \<or> first = 10 \<or> first = 127 \<or>
         (first = 100 \<and> second \<ge> 64 \<and> second \<le> 127) \<or>
         (first = 169 \<and> second = 254) \<or>
         (first = 172 \<and> second \<ge> 16 \<and> second \<le> 31) \<or>
         (first = 192 \<and> second = 0) \<or>
         (first = 192 \<and> second = 168) \<or>
         (first = 198 \<and> (second = 18 \<or> second = 19)) \<or>
         first \<ge> 224)"

definition isUnsafeIpv6Address :: "int \<Rightarrow> bool" where
  "isUnsafeIpv6Address address =
     (if address = 0 \<or> address = 1 then True
      else let firstGroup = drop_bit 112 address
      in if firstGroup AND 0xff00 = 0xff00 then True
         else if firstGroup AND 0xfe00 = 0xfc00 then True
         else if firstGroup AND 0xffc0 = 0xfe80 then True
         else if firstGroup AND 0xffc0 = 0xfec0 then True
         else if drop_bit 32 address = 0xffff then isUnsafeIpv4Address (address AND 0xffffffff)
         else False)"

definition assertSafeResolvedWebhookAddress :: "string \<Rightarrow> unit result" where
  "assertSafeResolvedWebhookAddress address =
     (let normalized = toLowerCase (strip_brackets address)
      in if isIP normalized \<noteq> 6 then Inr ()
         else case parseIpv6Address normalized of
             None \<Rightarrow> Inl (JsError ''Webhook endpoint must resolve to a public address'')
           | Some numeric \<Rightarrow> throw_if (isUnsafeIpv6Address numeric) (JsError ''Webhook endpoint must resolve to a public address''))"

section \<open>The target of a delivery\<close>

record WebhookResolvedAddress =
  ra_address :: string
  ra_family :: nat

record endpoint_url = url +
  url_port :: string
  url_pathname :: string
  url_search :: string
  url_host :: string

text \<open>A resolver answers with the addresses and the milliseconds it took.\<close>

type_synonym resolver = "string \<Rightarrow> (WebhookResolvedAddress list \<times> int) proc"

definition resolveWebhookHostname :: "resolver \<Rightarrow> resolver" where
  "resolveWebhookHostname lookup hostname =
     bind_p (lookup hostname) (\<lambda>(addresses, elapsed).
     bind_p (throw_if_p (list_ex (\<lambda>candidate. ra_family candidate \<noteq> 4 \<and> ra_family candidate \<noteq> 6) addresses)
        (JsError ''Webhook endpoint returned an unsupported address family'')) (\<lambda>_.
     return_p (addresses, elapsed)))"

text \<open>\<^verbatim>\<open>Promise.race\<close> of the resolver and a timer; a resolver that fails and one that is late both fail the race.\<close>

definition resolveHostnameWithTimeout :: "string \<Rightarrow> resolver \<Rightarrow> int \<Rightarrow> WebhookResolvedAddress list proc" where
  "resolveHostnameWithTimeout hostname resolveHostname timeoutMs =
     (let boundedTimeoutMs = max 1 timeoutMs
      in bind_p (resolveHostname hostname) (\<lambda>(addresses, elapsed).
         bind_p (throw_if_p (elapsed > boundedTimeoutMs) (JsError ''Webhook endpoint DNS resolution timed out'')) (\<lambda>_.
         return_p addresses)))"

definition check_addresses :: "WebhookResolvedAddress list \<Rightarrow> unit result" where
  "check_addresses addresses =
     bind_r (map_r (\<lambda>address.
       bind_r (assertSafeWebhookAddress (ra_address address)) (\<lambda>_.
       assertSafeResolvedWebhookAddress (ra_address address))) addresses) (\<lambda>_.
     Inr ())"

record webhook_target =
  tg_endpoint :: endpoint_url
  tg_address :: WebhookResolvedAddress

definition no_address :: js_error where
  "no_address = JsError ''Webhook endpoint did not resolve to a public address''"

definition resolveWebhookTarget ::
    "(string \<Rightarrow> endpoint_url option) \<Rightarrow> string \<Rightarrow> resolver \<Rightarrow> int \<Rightarrow> webhook_target proc" where
  "resolveWebhookTarget parse_url endpoint resolveHostname timeoutMs =
     bind_p (lift_p (assertSafeWebhookEndpoint (\<lambda>s. map_option url.truncate (parse_url s)) endpoint)) (\<lambda>_.
     case parse_url endpoint of
       None \<Rightarrow> throw_p TypeError
     | Some parsed \<Rightarrow>
         let hostname = toLowerCase (strip_brackets (url_hostname parsed)); version = isIP hostname
         in bind_p (if version = 4 \<or> version = 6 then return_p [\<lparr>ra_address = hostname, ra_family = version\<rparr>]
              else resolveHostnameWithTimeout hostname resolveHostname timeoutMs) (\<lambda>addresses.
            bind_p (throw_if_p (length addresses = 0) no_address) (\<lambda>_.
            bind_p (lift_p (check_addresses addresses)) (\<lambda>_.
            case addresses of
              [] \<Rightarrow> throw_p no_address
            | address # _ \<Rightarrow> return_p \<lparr>tg_endpoint = parsed, tg_address = address\<rparr>))))"

section \<open>The request\<close>

record WebhookDeliveryRequest =
  wq_endpoint :: endpoint_url
  wq_address :: WebhookResolvedAddress
  wq_headers :: "(string \<times> string) list"
  wq_body :: string

record WebhookDeliveryResponse =
  rsp_ok :: bool
  rsp_status :: int

text \<open>The options of \<^verbatim>\<open>httpsRequest\<close>; \<open>hq_lookup\<close> is what the lookup of the connection answers, whatever the name.\<close>

record HttpsRequest =
  hq_protocol :: string
  hq_hostname :: string
  hq_port :: int
  hq_path :: string
  hq_method :: string
  hq_headers :: "(string \<times> string) list"
  hq_servername :: string
  hq_lookup :: "string \<times> nat"
  hq_body :: string

definition DEFAULT_HTTPS_PORT :: int where "DEFAULT_HTTPS_PORT = 443"

text \<open>The length of the text in UTF-8.\<close>

definition utf8_length :: "string \<Rightarrow> nat" where
  "utf8_length s = sum_list (map (\<lambda>c. if code_unit c < 128 then 1 else 2) s)"

definition https_request_of :: "WebhookDeliveryRequest \<Rightarrow> HttpsRequest" where
  "https_request_of input =
     \<lparr>hq_protocol = url_protocol (wq_endpoint input), hq_hostname = ra_address (wq_address input),
      hq_port = (if url_port (wq_endpoint input) = [] then DEFAULT_HTTPS_PORT else int (digits_val (url_port (wq_endpoint input)))),
      hq_path = url_pathname (wq_endpoint input) @ url_search (wq_endpoint input), hq_method = ''POST'',
      hq_headers = wq_headers input @ [(''host'', url_host (wq_endpoint input)),
        (''content-length'', nat_to_string (utf8_length (wq_body input)))],
      hq_servername = strip_brackets (url_hostname (wq_endpoint input)),
      hq_lookup = (ra_address (wq_address input), ra_family (wq_address input)),
      hq_body = wq_body input\<rparr>"

definition sendWebhookRequest ::
    "(HttpsRequest \<Rightarrow> int option proc) \<Rightarrow> WebhookDeliveryRequest \<Rightarrow> WebhookDeliveryResponse proc" where
  "sendWebhookRequest httpsRequest input =
     bind_p (httpsRequest (https_request_of input)) (\<lambda>statusCode.
     let status = (case statusCode of None \<Rightarrow> 0 | Some n \<Rightarrow> n)
     in return_p \<lparr>rsp_ok = (status \<ge> 200 \<and> status < 300), rsp_status = status\<rparr>)"

section \<open>The worker\<close>

record WebhookDeliveryWorkerOptions =
  ws_others :: "world \<Rightarrow> world"
  ws_getKey :: "string \<Rightarrow> int \<Rightarrow> string proc"
  ws_owner :: string
  ws_batchSize :: "number option"
  ws_leaseSeconds :: "number option"
  ws_maxAttempts :: "number option"
  ws_timeoutMs :: "int option"
  ws_resolveHostname :: "resolver option"
  ws_send :: "(WebhookDeliveryRequest \<Rightarrow> WebhookDeliveryResponse proc) option"
  ws_capacity :: "(CapacityDependency \<Rightarrow> int \<Rightarrow> CapacityResult proc) option"
  ws_hmac :: mac
  ws_parse_url :: "string \<Rightarrow> endpoint_url option"
  ws_lookup :: resolver
  ws_httpsRequest :: "HttpsRequest \<Rightarrow> int option proc"
  ws_random :: "world \<Rightarrow> rat"

definition operations :: "WebhookDeliveryWorkerOptions \<Rightarrow> 'a tx \<Rightarrow> 'a proc" where
  "operations opts m = (\<lambda>w. commit m (ws_others opts w))"

definition max_attempts :: "WebhookDeliveryWorkerOptions \<Rightarrow> number" where
  "max_attempts opts = (case ws_maxAttempts opts of None \<Rightarrow> IntNum 12 | Some n \<Rightarrow> n)"

definition delivery_lease_seconds :: "WebhookDeliveryWorkerOptions \<Rightarrow> number" where
  "delivery_lease_seconds opts = (case ws_leaseSeconds opts of None \<Rightarrow> IntNum 30 | Some n \<Rightarrow> n)"

definition timeout_ms :: "WebhookDeliveryWorkerOptions \<Rightarrow> int" where
  "timeout_ms opts = (case ws_timeoutMs opts of None \<Rightarrow> 5000 | Some n \<Rightarrow> n)"

definition delivery_resolver :: "WebhookDeliveryWorkerOptions \<Rightarrow> resolver" where
  "delivery_resolver opts =
     (case ws_resolveHostname opts of None \<Rightarrow> resolveWebhookHostname (ws_lookup opts) | Some r \<Rightarrow> r)"

definition delivery_send :: "WebhookDeliveryWorkerOptions \<Rightarrow> WebhookDeliveryRequest \<Rightarrow> WebhookDeliveryResponse proc" where
  "delivery_send opts =
     (case ws_send opts of None \<Rightarrow> sendWebhookRequest (ws_httpsRequest opts) | Some s \<Rightarrow> s)"

definition delivery_retry_at :: "WebhookDeliveryWorkerOptions \<Rightarrow> V2WebhookDeliveryClaim \<Rightarrow> int proc" where
  "delivery_retry_at opts claim =
     bind_p this_now (\<lambda>now. \<lambda>w. (Inr (date_of_number (computeRetryAt
       \<lparr>ri_now = now, ri_attemptCount = wd_attemptCount claim, ri_baseDelayMs = None, ri_maxDelayMs = None,
        ri_retryAfterMs = None, ri_jitterRatio = None\<rparr> (ws_random opts w))), w))"

definition retry_delivery :: "WebhookDeliveryWorkerOptions \<Rightarrow> V2WebhookDeliveryClaim \<Rightarrow> string \<Rightarrow> unit proc" where
  "retry_delivery opts claim errorSafe =
     bind_p (delivery_retry_at opts claim) (\<lambda>retryAt.
     operations opts (retryWebhookDelivery
       \<lparr>dt_id = wd_id claim, dt_owner = ws_owner opts, dt_retryAt = retryAt, dt_errorSafe = errorSafe,
        dt_maxAttempts = max_attempts opts\<rparr>))"

definition acquireWebhookCapacity :: "WebhookDeliveryWorkerOptions \<Rightarrow> V2WebhookDeliveryClaim \<Rightarrow> bool proc" where
  "acquireWebhookCapacity opts claim =
     (case ws_capacity opts of
        None \<Rightarrow> return_p True
      | Some acquire \<Rightarrow>
          bind_p this_now (\<lambda>now.
          bind_p (acquire CAP_WEBHOOK now) (\<lambda>result.
          if cap_allowed result then return_p True
          else
            bind_p (delivery_retry_at opts claim) (\<lambda>fallback.
            bind_p (operations opts (deferWebhookDelivery
              \<lparr>dt_id = wd_id claim, dt_owner = ws_owner opts, dt_retryAt = retryAtAfter (cap_retryAt result) fallback,
               dt_errorSafe = ''Webhook delivery capacity is temporarily exhausted'', dt_maxAttempts = max_attempts opts\<rparr>)) (\<lambda>_.
            return_p False)))))"

definition delivery_request ::
    "WebhookDeliveryWorkerOptions \<Rightarrow> V2WebhookDeliveryClaim \<Rightarrow> webhook_target \<Rightarrow> int \<Rightarrow> string \<Rightarrow> WebhookDeliveryRequest" where
  "delivery_request opts claim target timestampSeconds key =
     \<lparr>wq_endpoint = tg_endpoint target, wq_address = tg_address target,
      wq_headers =
        [(''content-type'', ''application/json''), (''x-mux-event-id'', wd_eventId claim),
         (''x-mux-signature'', sha256_prefix @ createWebhookSignature (ws_hmac opts) (wd_rawBody claim) timestampSeconds key),
         (''x-mux-signature-version'', int_to_string (wd_signingKeyVersion claim)),
         (''x-mux-timestamp'', int_to_string timestampSeconds)],
      wq_body = wd_rawBody claim\<rparr>"

definition settle_delivery ::
    "WebhookDeliveryWorkerOptions \<Rightarrow> V2WebhookDeliveryClaim \<Rightarrow> WebhookDeliveryResponse \<Rightarrow> unit proc" where
  "settle_delivery opts claim response =
     (if \<not> rsp_ok response then
        retry_delivery opts claim (''Webhook endpoint returned HTTP '' @ int_to_string (rsp_status response))
      else operations opts (markWebhookDelivered (wd_id claim) (ws_owner opts) (rsp_status response)))"

definition deliverWithLease :: "WebhookDeliveryWorkerOptions \<Rightarrow> V2WebhookDeliveryClaim \<Rightarrow> unit proc" where
  "deliverWithLease opts claim = try_p
     (bind_p (ws_getKey opts (wd_signingKeyRef claim) (wd_signingKeyVersion claim)) (\<lambda>key.
      bind_p (throw_if_p (length key = 0) (JsError ''Webhook signing key is empty'')) (\<lambda>_.
      bind_p (resolveWebhookTarget (ws_parse_url opts) (wd_endpoint claim) (delivery_resolver opts) (timeout_ms opts)) (\<lambda>target.
      bind_p this_now (\<lambda>now.
      when_allowed (acquireWebhookCapacity opts claim)
        (bind_p (delivery_send opts (delivery_request opts claim target (now div 1000) key)) (\<lambda>response.
         settle_delivery opts claim response)))))))
     (\<lambda>_. retry_delivery opts claim ''Webhook delivery failed'')"

text \<open>\<^verbatim>\<open>Promise.all\<close>: a delivery that fails does not stop the others.\<close>

fun all_p :: "'a list \<Rightarrow> ('a \<Rightarrow> unit proc) \<Rightarrow> unit proc" where
  "all_p [] f = return_p ()"
| "all_p (x # xs) f = (\<lambda>w. case f x w of
      (Inl e, w') \<Rightarrow> (Inl e, snd (all_p xs f w'))
    | (Inr _, w') \<Rightarrow> all_p xs f w')"

definition processWebhookBatch :: "WebhookDeliveryWorkerOptions \<Rightarrow> unit proc" where
  "processWebhookBatch opts =
     bind_p this_now (\<lambda>now.
     bind_p (operations opts (claimWebhookDeliveries
       \<lparr>dq_limit = (case ws_batchSize opts of None \<Rightarrow> IntNum 50 | Some n \<Rightarrow> n), dq_owner = ws_owner opts,
        dq_leaseSeconds = delivery_lease_seconds opts, dq_maxAttempts = max_attempts opts, dq_now = Some now\<rparr>)) (\<lambda>claims.
     all_p claims (deliverWithLease opts)))"

text \<open>The flags of the worker: a stopped worker starts no run, and a run in progress is shared.\<close>

record WebhookWorkerState =
  wz_stopped :: bool
  wz_running :: bool

datatype WebhookRun = WebhookRunSkipped | WebhookRunShared | WebhookRunStarted

definition runOnce_webhook :: "WebhookWorkerState \<Rightarrow> WebhookRun \<times> WebhookWorkerState" where
  "runOnce_webhook s =
     (if wz_stopped s then (WebhookRunSkipped, s)
      else if wz_running s then (WebhookRunShared, s)
      else (WebhookRunStarted, s\<lparr>wz_running := True\<rparr>))"

definition webhook_run_finished :: "WebhookWorkerState \<Rightarrow> WebhookWorkerState" where
  "webhook_run_finished s = s\<lparr>wz_running := False\<rparr>"

definition stop_webhook :: "WebhookWorkerState \<Rightarrow> WebhookWorkerState" where
  "stop_webhook s = s\<lparr>wz_stopped := True\<rparr>"

text \<open>The renewal of the lease: what the timer sends, and how often.\<close>

definition heartbeat_interval :: "WebhookDeliveryWorkerOptions \<Rightarrow> int" where
  "heartbeat_interval opts = max 1000 (num_val (delivery_lease_seconds opts) * 1000 div 3)"

definition delivery_heartbeat :: "WebhookDeliveryWorkerOptions \<Rightarrow> V2WebhookDeliveryClaim \<Rightarrow> int \<Rightarrow> int tx" where
  "delivery_heartbeat opts claim now = renewWebhookDeliveryLease
     \<lparr>dl_id = wd_id claim, dl_owner = ws_owner opts, dl_leaseSeconds = delivery_lease_seconds opts, dl_now = Some now\<rparr>"

section \<open>The value of an address\<close>

text \<open>The addresses that are not public, as blocks: a first group of sixteen bits and the length of the prefix.\<close>

definition ipv6_block :: "int \<Rightarrow> nat \<Rightarrow> int \<Rightarrow> bool" where
  "ipv6_block first len n \<longleftrightarrow> first * 2 ^ 112 \<le> n \<and> n < first * 2 ^ 112 + 2 ^ (128 - len)"

definition mapped_ipv4 :: "int \<Rightarrow> nat \<times> nat \<Rightarrow> bool" where
  "mapped_ipv4 n octets \<longleftrightarrow> n div 2 ^ 32 = 0xffff \<and>
     octets = (nat (n div 2 ^ 24 mod 256), nat (n div 2 ^ 16 mod 256))"

definition reserved_ipv6 :: "int \<Rightarrow> bool" where
  "reserved_ipv6 n \<longleftrightarrow> n = 0 \<or> n = 1 \<or> ipv6_block 0xff00 8 n \<or> ipv6_block 0xfc00 7 n \<or> ipv6_block 0xfe80 10 n \<or>
     ipv6_block 0xfec0 10 n \<or> (\<exists>a b. mapped_ipv4 n (a, b) \<and> reserved_octets a b)"

lemma and_push_bit: "(g::int) AND push_bit k m = push_bit k (drop_bit k g AND m)"
  by (rule bit_eqI) (auto simp: bit_simps)

lemma and_prefix:
  fixes g :: int
  assumes "0 \<le> g" "g < 65536"
  shows "g AND 0xff00 = (g div 256) * 256" "g AND 0xfe00 = (g div 512) * 512" "g AND 0xffc0 = (g div 64) * 64"
proof -
  have *: "g AND push_bit k (mask m) = (g div 2 ^ k) * 2 ^ k" if "g div 2 ^ k < 2 ^ m" for k m
  proof -
    have "take_bit m (g div 2 ^ k) = g div 2 ^ k"
      using that assms(1) by (intro take_bit_int_eq_self) (simp_all add: pos_imp_zdiv_nonneg_iff)
    then show ?thesis unfolding and_push_bit by (simp add: drop_bit_eq_div push_bit_eq_mult flip: take_bit_eq_mask)
  qed
  have "g div 256 < 256" "g div 512 < 128" "g div 64 < 1024" using assms by simp_all
  then show "g AND 0xff00 = (g div 256) * 256" "g AND 0xfe00 = (g div 512) * 512" "g AND 0xffc0 = (g div 64) * 64"
    using * [of 8 8] * [of 9 7] * [of 6 10] by (simp_all add: mask_eq_exp_minus_1 push_bit_eq_mult)
qed

lemma div_eq_range: "0 < c \<Longrightarrow> n div c = q \<longleftrightarrow> q * c \<le> n \<and> n < q * c + c" for n c q :: int
proof
  assume c: "0 < c" and q: "n div c = q"
  show "q * c \<le> n \<and> n < q * c + c"
    using div_mult_mod_eq [of n c, unfolded q] pos_mod_sign [OF c, of n] pos_mod_bound [OF c, of n] by linarith
next
  assume "0 < c" "q * c \<le> n \<and> n < q * c + c"
  then show "n div c = q" by (intro int_div_pos_eq [of n c q "n - q * c"]) (auto simp: mult.commute)
qed

lemma first_group_blocks:
  assumes "0 \<le> n" "n < 2 ^ 128"
  shows "drop_bit 112 n AND 0xff00 = 0xff00 \<longleftrightarrow> ipv6_block 0xff00 8 n"
    "drop_bit 112 n AND 0xfe00 = 0xfc00 \<longleftrightarrow> ipv6_block 0xfc00 7 n"
    "drop_bit 112 n AND 0xffc0 = 0xfe80 \<longleftrightarrow> ipv6_block 0xfe80 10 n"
    "drop_bit 112 n AND 0xffc0 = 0xfec0 \<longleftrightarrow> ipv6_block 0xfec0 10 n"
proof -
  let ?g = "n div 2 ^ 112"
  have g: "0 \<le> ?g" "?g < 65536" using assms by simp_all
  have div: "?g div 256 = n div 2 ^ 120" "?g div 512 = n div 2 ^ 121" "?g div 64 = n div 2 ^ 118"
    by (simp_all flip: zdiv_zmult2_eq)
  show "drop_bit 112 n AND 0xff00 = 0xff00 \<longleftrightarrow> ipv6_block 0xff00 8 n"
    "drop_bit 112 n AND 0xfe00 = 0xfc00 \<longleftrightarrow> ipv6_block 0xfc00 7 n"
    "drop_bit 112 n AND 0xffc0 = 0xfe80 \<longleftrightarrow> ipv6_block 0xfe80 10 n"
    "drop_bit 112 n AND 0xffc0 = 0xfec0 \<longleftrightarrow> ipv6_block 0xfec0 10 n"
    using div_eq_range [of "2 ^ 120" n 255] div_eq_range [of "2 ^ 121" n 126] div_eq_range [of "2 ^ 118" n 1018]
      div_eq_range [of "2 ^ 118" n 1019]
    unfolding drop_bit_eq_div and_prefix [OF g] div ipv6_block_def by simp_all
qed

lemma unsafe_ipv4_octets:
  assumes "0 \<le> n"
  shows "isUnsafeIpv4Address (n AND 0xffffffff) = reserved_octets (nat (n div 2 ^ 24 mod 256)) (nat (n div 2 ^ 16 mod 256))"
proof -
  have m: "n AND 0xffffffff = n mod 2 ^ 32"
    using take_bit_eq_mask [of 32 n] by (simp add: mask_eq_exp_minus_1 take_bit_eq_mod)
  have f: "drop_bit 24 (n mod 2 ^ 32) = n div 2 ^ 24 mod 256"
    using drop_bit_take_bit [of 24 32 n] by (simp add: drop_bit_eq_div take_bit_eq_mod)
  have s: "drop_bit 16 (n mod 2 ^ 32) AND 0xff = n div 2 ^ 16 mod 256"
  proof -
    have "drop_bit 16 (n mod 2 ^ 32) = n div 2 ^ 16 mod 2 ^ 16"
      using drop_bit_take_bit [of 16 32 n] by (simp add: drop_bit_eq_div take_bit_eq_mod)
    then show ?thesis
      using take_bit_eq_mask [of 8 "n div 2 ^ 16 mod 2 ^ 16"] by (simp add: mask_eq_exp_minus_1 take_bit_eq_mod mod_mod_cancel)
  qed
  have nn: "0 \<le> n div 2 ^ 24 mod 256" "0 \<le> n div 2 ^ 16 mod 256" by simp_all
  show ?thesis
    unfolding isUnsafeIpv4Address_def m f s Let_def reserved_octets_def using nn by (simp add: nat_eq_iff le_nat_iff nat_le_iff)
qed

lemma isUnsafeIpv6Address_reserved:
  assumes "0 \<le> n" "n < 2 ^ 128"
  shows "isUnsafeIpv6Address n \<longleftrightarrow> reserved_ipv6 n"
proof -
  have "drop_bit 32 n = n div 2 ^ 32" by (simp add: drop_bit_eq_div)
  then show ?thesis
    using unsafe_ipv4_octets [OF assms(1)] first_group_blocks [OF assms]
    by (auto simp: isUnsafeIpv6Address_def reserved_ipv6_def Let_def mapped_ipv4_def)
qed

section \<open>Reading an address\<close>

definition group_ok :: "int \<Rightarrow> bool" where
  "group_ok g \<longleftrightarrow> 0 \<le> g \<and> g < 65536"

text \<open>The value of a list of groups, the first one the most significant.\<close>

definition groups_value :: "int list \<Rightarrow> int" where
  "groups_value groups = foldl (\<lambda>v g. 65536 * v + g) 0 groups"

lemma group_value_sum: "group_ok g \<Longrightarrow> group_value v g = 65536 * v + g"
proof -
  assume "group_ok g"
  then have "g AND push_bit 16 v = 0" by (simp add: and_push_bit drop_bit_eq_div group_ok_def)
  then show ?thesis
    using plus_and_or [of "push_bit 16 v" g] by (simp add: group_value_def push_bit_eq_mult and.commute)
qed

lemma foldl_group_value: "list_all group_ok gs \<Longrightarrow> foldl group_value v gs = foldl (\<lambda>v g. 65536 * v + g) v gs"
  by (induction gs arbitrary: v) (simp_all add: group_value_sum)

lemma foldl_groups_bound:
  "list_all group_ok gs \<Longrightarrow> 0 \<le> v \<Longrightarrow> v < 2 ^ k \<Longrightarrow>
    0 \<le> foldl (\<lambda>v g. 65536 * v + g) v gs \<and> foldl (\<lambda>v g. 65536 * v + g) v gs < 2 ^ (k + 16 * length gs)"
proof (induction gs arbitrary: v k)
  case (Cons g gs)
  have "0 \<le> 65536 * v + g" "65536 * v + g < 2 ^ (k + 16)"
    using Cons.prems by (auto simp: group_ok_def power_add)
  from Cons.IH [OF _ this] Cons.prems(1) show ?case by (simp add: algebra_simps)
qed simp

lemma hextet_group_ok: "lower_hextet s \<Longrightarrow> group_ok (hextet_val s)"
  by (simp add: group_ok_def hextet_bound)

lemma dotted_groups_ok: "dotted_groups t = Some gs \<Longrightarrow> list_all group_ok gs"
proof -
  assume r: "dotted_groups t = Some gs"
  let ?o = "map octet_number (split_on (CHR ''.'') t)"
  have l: "length ?o = 4" "\<not> list_ex (\<lambda>octet. case octet of None \<Rightarrow> True | Some n \<Rightarrow> n > 255) ?o"
    and gs: "gs = [int (the (?o ! 0)) * 256 + int (the (?o ! 1)), int (the (?o ! 2)) * 256 + int (the (?o ! 3))]"
    using r by (auto simp: dotted_groups_def Let_def split: if_splits)
  have "the (?o ! i) \<le> 255" if "i < 4" for i
  proof -
    have "?o ! i \<in> set ?o" using l(1) that by (simp only: nth_mem)
    then show ?thesis using l(2) unfolding list_ex_iff by (fastforce split: option.splits)
  qed
  from this [of 0] this [of 1] this [of 2] this [of 3] show ?thesis by (simp add: gs group_ok_def)
qed

lemma section_groups_ok: "section_groups ts = Some gs \<Longrightarrow> list_all group_ok gs"
  by (induction ts arbitrary: gs) (auto simp: hextet_group_ok dotted_groups_ok split: if_splits)

lemma parseIpv6Section_ok: "parseIpv6Section s = Some gs \<Longrightarrow> list_all group_ok gs"
  by (auto simp: parseIpv6Section_def section_groups_ok split: if_splits)

lemma parseIpv6Address_bound:
  assumes "parseIpv6Address s = Some n"
  shows "0 \<le> n \<and> n < 2 ^ 128"
proof -
  let ?s = "split_double_colon s"
  let ?right = "if length ?s = 2 then parseIpv6Section (?s ! 1) else Some []"
  obtain left right where lr: "parseIpv6Section (?s ! 0) = Some left" "?right = Some right"
    using assms by (auto simp: parseIpv6Address_def Let_def split: if_split_asm option.splits)
  let ?gs = "left @ replicate (nat (8 - int (length left) - int (length right))) 0 @ right"
  have gs: "length ?gs = 8" "n = foldl group_value 0 ?gs"
    using assms unfolding parseIpv6Address_def Let_def lr by (auto split: if_split_asm)
  have "list_all group_ok right" using lr(2) by (auto dest: parseIpv6Section_ok split: if_split_asm)
  then have ok: "list_all group_ok ?gs" using parseIpv6Section_ok [OF lr(1)] by (auto simp: group_ok_def list_all_iff)
  have "0 \<le> foldl (\<lambda>v g. 65536 * v + g) 0 ?gs \<and> foldl (\<lambda>v g. 65536 * v + g) 0 ?gs < 2 ^ (0 + 16 * 8)"
    using foldl_groups_bound [OF ok, of 0 0] unfolding gs(1) by simp
  then show ?thesis unfolding gs(2) foldl_group_value [OF ok] by simp
qed

section \<open>The target is public\<close>

text \<open>An address that is not reserved: by its octets, or by its value.\<close>

definition public_address :: "string \<Rightarrow> bool" where
  "public_address a \<longleftrightarrow>
     (isIP a = 4 \<and> \<not> private_ipv4 a) \<or>
     (isIP a = 6 \<and> (\<exists>n. parseIpv6Address a = Some n \<and> 0 \<le> n \<and> n < 2 ^ 128 \<and> \<not> reserved_ipv6 n))"

lemma isIP_cases: "isIP a = 0 \<or> isIP a = 4 \<or> isIP a = 6"
  by (simp add: isIP_def)

lemma checked_address_public:
  assumes "assertSafeWebhookAddress a = Inr ()" "assertSafeResolvedWebhookAddress a = Inr ()"
  shows "public_address (toLowerCase (strip_brackets a))"
proof -
  let ?a = "toLowerCase (strip_brackets a)"
  have s: "isIP ?a \<noteq> 0" "\<not> isPrivateWebhookIp ?a"
    using assms(1) by (auto simp: assertSafeWebhookAddress_def Let_def throw_if_def split: if_splits)
  show ?thesis
  proof (cases "isIP ?a = 4")
    case True
    then show ?thesis using s(2) by (simp add: public_address_def isPrivateWebhookIp.simps [of ?a])
  next
    case False
    then have six: "isIP ?a = 6" using s(1) isIP_cases [of ?a] by auto
    then obtain n where n: "parseIpv6Address ?a = Some n" "\<not> isUnsafeIpv6Address n"
      using assms(2) by (auto simp: assertSafeResolvedWebhookAddress_def Let_def throw_if_def split: if_splits option.splits)
    then show ?thesis
      using six parseIpv6Address_bound [OF n(1)] isUnsafeIpv6Address_reserved by (auto simp: public_address_def)
  qed
qed

lemma check_addresses_all:
  "check_addresses as = Inr u \<Longrightarrow> x \<in> set as \<Longrightarrow>
    assertSafeWebhookAddress (ra_address x) = Inr () \<and> assertSafeResolvedWebhookAddress (ra_address x) = Inr ()"
  by (induction as arbitrary: u) (auto simp: check_addresses_def bind_r_def split: sum.splits)

definition safe_target :: "webhook_target \<Rightarrow> bool" where
  "safe_target t \<longleftrightarrow> url_protocol (tg_endpoint t) = ''https:'' \<and> url_username (tg_endpoint t) = [] \<and>
     url_password (tg_endpoint t) = [] \<and> public_address (toLowerCase (strip_brackets (ra_address (tg_address t))))"

lemma resolved_target_safe:
  assumes "resolveWebhookTarget parse_url endpoint resolver timeoutMs w = (Inr t, w')"
  shows "safe_target t" "parse_url endpoint = Some (tg_endpoint t)"
proof -
  obtain parsed where p: "parse_url endpoint = Some parsed"
    and ok: "assertSafeWebhookEndpoint (\<lambda>s. map_option url.truncate (parse_url s)) endpoint = Inr ()"
    using assms by (auto simp: resolveWebhookTarget_def proc_simps split: option.splits)
  obtain addresses w1 where "check_addresses addresses = Inr ()"
    "(case addresses of [] \<Rightarrow> throw_p no_address
      | address # _ \<Rightarrow> return_p \<lparr>tg_endpoint = parsed, tg_address = address\<rparr>) w1 = (Inr t, w')"
    using assms p by (auto simp: resolveWebhookTarget_def proc_simps Let_def)
  then obtain address rest where a: "check_addresses (address # rest) = Inr ()"
    and t: "t = \<lparr>tg_endpoint = parsed, tg_address = address\<rparr>"
    by (cases addresses) (auto simp: proc_simps)
  have "public_address (toLowerCase (strip_brackets (ra_address address)))"
    using check_addresses_all [OF a, of address] checked_address_public by simp
  moreover have "url_protocol parsed = ''https:''" "url_username parsed = []" "url_password parsed = []"
    using ok p by (auto simp: assertSafeWebhookEndpoint_def throw_if_def bind_r_def url.truncate_def
        split: if_splits sum.splits)
  ultimately show "safe_target t" "parse_url endpoint = Some (tg_endpoint t)" using p by (simp_all add: safe_target_def t)
qed

section \<open>Signatures are checked as they are made\<close>

lemma int_to_string_pos: "0 < n \<Longrightarrow> decimal_digits (int_to_string n) \<and> int (digits_val (int_to_string n)) = n"
  by (simp add: int_to_string_nat decimal_digits_def)

text \<open>The timestamp ends at the first full stop, so the text determines the body and the timestamp.\<close>

lemma signed_text_inj:
  assumes "0 < m" "0 < n" "signed_text b m = signed_text c n"
  shows "b = c" "m = n"
proof -
  have no: "CHR ''.'' \<notin> set (int_to_string k)" if "0 < k" for k
    using that by (simp add: int_to_string_nat nat_to_string_no is_digit_def code_unit_def)
  have cut: "takeWhile (\<lambda>x. x \<noteq> CHR ''.'') (s @ CHR ''.'' # t) = s \<and> dropWhile (\<lambda>x. x \<noteq> CHR ''.'') (s @ CHR ''.'' # t) = CHR ''.'' # t"
    if "CHR ''.'' \<notin> set s" for s t
    using that by (induction s) auto
  have split: "takeWhile (\<lambda>x. x \<noteq> CHR ''.'') (signed_text b k) = int_to_string k"
    "dropWhile (\<lambda>x. x \<noteq> CHR ''.'') (signed_text b k) = CHR ''.'' # b" if "0 < k" for b k
    using cut [OF no [OF that], of b] by (simp_all add: signed_text_def)
  show "b = c" using split(2) [OF assms(1), of b] split(2) [OF assms(2), of c] assms(3) by simp
  have "int_to_string m = int_to_string n"
    using split(1) [OF assms(1), of b] split(1) [OF assms(2), of c] assms(3) by simp
  then show "m = n" using int_to_string_pos assms(1,2) by metis
qed

text \<open>A digest in hexadecimal, as \<^verbatim>\<open>digest('hex')\<close> gives it.\<close>

definition hex_digest :: "string \<Rightarrow> bool" where
  "hex_digest s \<longleftrightarrow> length s = 64 \<and> list_all is_lower_hex s"

lemma hextet_digit_inj:
  assumes "is_lower_hex a" "is_lower_hex b" "hextet_digit a = hextet_digit b"
  shows "a = b"
proof -
  have "code_unit a = code_unit b"
    using assms by (auto simp: is_lower_hex_def hextet_digit_def is_digit_def digit_val_def split: if_splits)
  then show ?thesis by (simp add: code_unit_def)
qed

lemma from_hex_inj:
  "list_all is_lower_hex s \<Longrightarrow> list_all is_lower_hex t \<Longrightarrow> even (length s) \<Longrightarrow> even (length t) \<Longrightarrow>
    from_hex s = from_hex t \<Longrightarrow> s = t"
proof (induction s arbitrary: t rule: from_hex.induct)
  case (1 a b s)
  then obtain c d u where t: "t = c # d # u"
    by (cases t rule: from_hex.cases) (auto simp: is_hex_digit_def)
  have lower: "is_lower_hex a" "is_lower_hex b" "is_lower_hex c" "is_lower_hex d" using "1.prems" by (simp_all add: t)
  have eq: "16 * hextet_digit a + hextet_digit b = 16 * hextet_digit c + hextet_digit d" "from_hex s = from_hex u"
    using "1.prems"(5) lower by (simp_all add: t is_hex_digit_def)
  have "s = u" using "1.IH" [of u] "1.prems" lower eq(2) by (simp add: t is_hex_digit_def)
  moreover have "hextet_digit a = hextet_digit c"
    using arg_cong [OF eq(1), of "\<lambda>n. n div 16"] hex_digit_bound [OF lower(2)] hex_digit_bound [OF lower(4)] by simp
  moreover from this have "hextet_digit b = hextet_digit d" using eq(1) by simp
  ultimately show ?case using hextet_digit_inj [OF lower(1,3)] hextet_digit_inj [OF lower(2,4)] by (simp add: t)
next
  case "2_1"
  then show ?case by (cases t rule: from_hex.cases) (auto simp: is_hex_digit_def)
qed simp

lemma verify_accepts:
  assumes "verifyWebhookSignature hmac clock input" "vi_now input = Some now" "vi_replayWindowSeconds input = Some (IntNum window)"
  shows "decimal_digits (vi_timestamp input)" "0 < int (digits_val (vi_timestamp input))"
    "\<bar>of_int now / 1000 - of_int (int (digits_val (vi_timestamp input))) :: rat\<bar> \<le> of_int window"
    "from_hex (provided_signature (vi_signature input)) =
       from_hex (createWebhookSignature hmac (vi_rawBody input) (int (digits_val (vi_timestamp input))) (vi_key input))"
  using assms by (auto simp: verifyWebhookSignature_def Let_def split: if_splits)

lemma hex_digest_digits: "hex_digest s \<Longrightarrow> length s = 64 \<and> list_all is_hex_digit s"
  by (auto simp: hex_digest_def list_all_iff is_hex_digit_def)

text \<open>A signature made for a time is accepted while the window is open.\<close>

lemma made_signature_verifies:
  assumes "\<And>text. hex_digest (hmac key text)" "key \<noteq> []" "0 < n" "n < 2 ^ 53" "0 < window"
    "1000 * (n - window) \<le> now" "now \<le> 1000 * (n + window)"
  shows "verifyWebhookSignature hmac clock
     \<lparr>vi_rawBody = body, vi_timestamp = int_to_string n, vi_signature = sha256_prefix @ createWebhookSignature hmac body n key,
      vi_key = key, vi_now = Some now, vi_replayWindowSeconds = Some (IntNum window)\<rparr>"
proof -
  have n: "decimal_digits (int_to_string n)" "int (digits_val (int_to_string n)) = n"
    using int_to_string_pos [OF assms(3)] by simp_all
  have "of_int (1000 * (n - window)) \<le> (of_int now :: rat)" "(of_int now :: rat) \<le> of_int (1000 * (n + window))"
    using assms(6,7) by (simp_all only: of_int_le_iff)
  then have age: "\<bar>of_int now / 1000 - of_int n :: rat\<bar> \<le> of_int window" by (simp add: abs_le_iff field_simps)
  show ?thesis
    using n assms(2-5) age hex_digest_digits [OF assms(1)]
    by (simp add: verifyWebhookSignature_def provided_signature_def sha256_prefix_def createWebhookSignature_def Let_def)
qed

lemma verify_default_window:
  "verifyWebhookSignature hmac clock (input\<lparr>vi_replayWindowSeconds := None\<rparr>) =
   verifyWebhookSignature hmac clock (input\<lparr>vi_replayWindowSeconds := Some (IntNum DEFAULT_WEBHOOK_REPLAY_WINDOW_SECONDS)\<rparr>)"
  by (simp add: verifyWebhookSignature_def)

section \<open>What an attempt does to the delivery\<close>

definition delivered :: "string \<Rightarrow> world \<Rightarrow> bool" where
  "delivered i w \<longleftrightarrow> (\<exists>d \<in> set (w_deliveries w). dlv_id d = i \<and> dlv_status d = ''DELIVERED'')"

definition settled :: "string \<Rightarrow> world \<Rightarrow> bool" where
  "settled i w \<longleftrightarrow> (\<exists>d \<in> set (w_deliveries w). dlv_id d = i \<and>
     dlv_status d \<in> {''DELIVERED'', ''RETRY_WAIT'', ''EXHAUSTED''} \<and> dlv_leaseOwner d = None)"

definition put_back :: "string \<Rightarrow> world \<Rightarrow> world \<Rightarrow> bool" where
  "put_back i w w' \<longleftrightarrow> (\<exists>f. w_deliveries w' = update_rows (\<lambda>q. dlv_id q = i) f (w_deliveries w) \<and>
     (\<forall>q. dlv_id (f q) = dlv_id q \<and> dlv_status (f q) \<in> {''RETRY_WAIT'', ''EXHAUSTED''} \<and> dlv_leaseOwner (f q) = None) \<and>
     (\<exists>d \<in> set (w_deliveries w). dlv_id d = i))"

lemma put_back_settled:
  assumes "put_back i w w'"
  shows "settled i w'"
proof -
  obtain f d where f: "w_deliveries w' = update_rows (\<lambda>q. dlv_id q = i) f (w_deliveries w)"
    and st: "dlv_id (f d) = dlv_id d" "dlv_status (f d) \<in> {''RETRY_WAIT'', ''EXHAUSTED''}" "dlv_leaseOwner (f d) = None"
    and d: "d \<in> set (w_deliveries w)" "dlv_id d = i"
    using assms unfolding put_back_def by blast
  have "f d \<in> set (w_deliveries w')" unfolding f by (rule updated_member [where P = "\<lambda>q. dlv_id q = i", OF d])
  then show ?thesis unfolding settled_def using st d(2) by (intro bexI [of _ "f d"]) auto
qed

lemma put_back_delivered:
  assumes "put_back j w w'" "delivered i w'"
  shows "delivered i w"
proof -
  obtain f where f: "w_deliveries w' = update_rows (\<lambda>q. dlv_id q = j) f (w_deliveries w)"
    and st: "\<And>q. dlv_status (f q) = ''RETRY_WAIT'' \<or> dlv_status (f q) = ''EXHAUSTED''"
    using assms(1) unfolding put_back_def by auto
  obtain d where d: "d \<in> set (w_deliveries w')" "dlv_id d = i" "dlv_status d = ''DELIVERED''"
    using assms(2) by (auto simp: delivered_def)
  have "\<exists>q. d = f q \<or> d = q \<and> q \<in> set (w_deliveries w)" using d(1) unfolding f set_update_rows by auto
  moreover have "d \<noteq> f q" for q using st [of q] d(3) by auto
  ultimately have "d \<in> set (w_deliveries w)" by blast
  then show ?thesis using d by (auto simp: delivered_def)
qed

lemma retry_puts_back:
  assumes run: "retryWebhookDelivery input w = Inr (u, w')"
  shows "put_back (dt_id input) w w'"
proof -
  obtain q w1 where l: "lock_owned_delivery (dt_id input) (dt_owner input) w = Inr (q, w1)"
    and r: "(if dlv_attemptCount q \<ge> num_val (dt_maxAttempts input) then
       bind_tx new_date (\<lambda>occurredAt. exhaustWebhookDelivery q (dt_errorSafe input) occurredAt)
     else bind_tx new_date (\<lambda>now. update_delivery (dt_id input) (wait_delivery_data input 0 now))) w1 = Inr (u, w')"
    using run unfolding retryWebhookDelivery_def bind_tx_Inr_iff throw_if_tx_Inr_iff by blast
  note L = lock_owned_delivery_Inr [OF l]
  from r consider (exhaust) t w2 where "exhaustWebhookDelivery q (dt_errorSafe input) t w2 = Inr (u, w')" "w_deliveries w2 = w_deliveries w1"
    | (wait) t w2 where "update_delivery (dt_id input) (wait_delivery_data input 0 t) w2 = Inr (u, w')" "w_deliveries w2 = w_deliveries w1"
    by (auto simp: new_date_bind split: if_splits)
  then show ?thesis
  proof cases
    case exhaust
    then obtain now where "w_deliveries w' =
        update_rows (\<lambda>x. dlv_id x = dt_id input) (exhaust_delivery_data q (dt_errorSafe input) now) (w_deliveries w)"
      using exhaustWebhookDelivery_Inr(1) L(1,3) by fastforce
    then show ?thesis using L(2,3) unfolding put_back_def by (fastforce simp: exhaust_delivery_data_def)
  next
    case wait
    then have "w_deliveries w' = update_rows (\<lambda>x. dlv_id x = dt_id input) (wait_delivery_data input 0 t) (w_deliveries w)"
      using update_delivery_Inr(1) [OF wait(1)] L(1) by simp
    then show ?thesis using L(2,3) unfolding put_back_def by (fastforce simp: wait_delivery_data_def)
  qed
qed

lemma defer_puts_back:
  assumes run: "deferWebhookDelivery input w = Inr (u, w')"
  shows "put_back (dt_id input) w w'"
proof -
  obtain q w1 where l: "lock_owned_delivery (dt_id input) (dt_owner input) w = Inr (q, w1)"
    and e: "bind_tx new_date (\<lambda>now. update_delivery (dt_id input) (wait_delivery_data input 1 now)) w1 = Inr (u, w')"
    using run unfolding deferWebhookDelivery_def bind_tx_Inr_iff [of "lock_owned_delivery _ _"] bind_tx_Inr_iff [of "throw_if_tx _ _"]
      throw_if_tx_Inr_iff by auto
  note L = lock_owned_delivery_Inr [OF l]
  have "w_deliveries w' = update_rows (\<lambda>x. dlv_id x = dt_id input)
      (wait_delivery_data input 1 (w_clock w1 (w_ticks w1))) (w_deliveries w)"
    using update_delivery_Inr(1) [OF e [unfolded new_date_bind]] L(1) by simp
  then show ?thesis using L(2,3) unfolding put_back_def by (fastforce simp: wait_delivery_data_def)
qed

lemma mark_settles:
  assumes run: "markWebhookDelivered i owner status w = Inr (u, w')"
  shows "settled i w'"
proof -
  obtain now t where w': "w_deliveries w' = update_rows (owned_delivery i owner now) (delivered_data status t) (w_deliveries w)"
    and one: "length (filter (owned_delivery i owner now) (w_deliveries w)) = 1"
    using run unfolding markWebhookDelivered_def by (auto simp: tx_simps)
  obtain d where d: "d \<in> set (w_deliveries w)" "owned_delivery i owner now d" using filter_length_oneD [OF one] by blast
  have "delivered_data status t d \<in> set (w_deliveries w')" unfolding w' by (rule updated_member [where P = "owned_delivery i owner now", OF d])
  then show ?thesis
    unfolding settled_def using d(2)
    by (intro bexI [of _ "delivered_data status t d"]) (simp_all add: delivered_data_def owned_delivery_def)
qed

lemma operations_result:
  "operations opts m w = (Inr x, w') \<longleftrightarrow> m (ws_others opts w) = Inr (x, w')"
  "operations opts m w = (Inl e, w') \<longleftrightarrow> m (ws_others opts w) = Inl e \<and> w' = ws_others opts w"
  by (auto simp: operations_def commit_def split: sum.splits)

lemma retry_delivery_result:
  "retry_delivery opts claim e w = (Inr u, w') \<Longrightarrow> settled (wd_id claim) w'"
  "retry_delivery opts claim e w = (Inl err, w') \<Longrightarrow> \<exists>input. dt_id input = wd_id claim \<and> retryWebhookDelivery input w' = Inl err"
proof -
  let ?input = "\<lambda>retryAt. \<lparr>dt_id = wd_id claim, dt_owner = ws_owner opts, dt_retryAt = retryAt, dt_errorSafe = e,
    dt_maxAttempts = max_attempts opts\<rparr>"
  obtain retryAt w1 where now: "delivery_retry_at opts claim w = (Inr retryAt, w1)"
    by (simp add: delivery_retry_at_def bind_p_def this_now_def commit_def new_date_def)
  have run: "retry_delivery opts claim e w = operations opts (retryWebhookDelivery (?input retryAt)) w1"
    by (simp add: retry_delivery_def bind_p_def now)
  show "retry_delivery opts claim e w = (Inr u, w') \<Longrightarrow> settled (wd_id claim) w'"
    using retry_puts_back [of "?input retryAt"] put_back_settled by (fastforce simp: run operations_result)
  show "retry_delivery opts claim e w = (Inl err, w') \<Longrightarrow> \<exists>input. dt_id input = wd_id claim \<and> retryWebhookDelivery input w' = Inl err"
    unfolding run operations_result by (intro exI [of _ "?input retryAt"]) simp
qed

lemma acquire_result:
  "acquireWebhookCapacity opts claim w = (Inr False, w') \<Longrightarrow> settled (wd_id claim) w'"
  by (auto simp: acquireWebhookCapacity_def proc_simps operations_result
      dest!: defer_puts_back put_back_settled split: option.splits if_splits)

lemma settle_delivery_result: "settle_delivery opts claim response w = (Inr u, w') \<Longrightarrow> settled (wd_id claim) w'"
  by (auto simp: settle_delivery_def operations_result retry_delivery_result(1) mark_settles split: if_splits)

section \<open>What is marked delivered was accepted\<close>

definition delivered_only_before :: "string \<Rightarrow> world \<Rightarrow> world \<Rightarrow> bool" where
  "delivered_only_before i w w' \<longleftrightarrow> (delivered i w' \<longrightarrow> delivered i w)"

interpretation undelivered: guarantee "\<lambda>_. True" "delivered_only_before i" for i
  by unfold_locales (auto simp: delivered_only_before_def)

text \<open>The services the worker uses, and the other processes, do not mark the delivery.\<close>

definition marks_nothing :: "string \<Rightarrow> WebhookDeliveryWorkerOptions \<Rightarrow> bool" where
  "marks_nothing i opts \<longleftrightarrow>
     (\<forall>w. delivered_only_before i w (ws_others opts w)) \<and>
     (\<forall>ref version. ensures (\<lambda>_. True) (delivered_only_before i) (ws_getKey opts ref version)) \<and>
     (\<forall>hostname. ensures (\<lambda>_. True) (delivered_only_before i) (delivery_resolver opts hostname)) \<and>
     (\<forall>request. ensures (\<lambda>_. True) (delivered_only_before i) (delivery_send opts request)) \<and>
     (\<forall>acquire dependency now. ws_capacity opts = Some acquire \<longrightarrow>
        ensures (\<lambda>_. True) (delivered_only_before i) (acquire dependency now))"

abbreviation quiet :: "string \<Rightarrow> 'a proc \<Rightarrow> bool" where
  "quiet i m \<equiv> ensures (\<lambda>_. True) (delivered_only_before i) m"

lemma quiet_bind_result:
  assumes m: "quiet i m" and k: "\<And>x w w'. m w = (Inr x, w') \<Longrightarrow> quiet i (k x)"
  shows "quiet i (bind_p m k)"
  unfolding ensures_def
proof (intro allI impI)
  fix w
  obtain r w1 where run: "m w = (r, w1)" by fastforce
  have first: "delivered_only_before i w w1" using m run unfolding ensures_def by (metis snd_conv)
  show "delivered_only_before i w (snd (bind_p m k w))"
  proof (cases r)
    case (Inr x)
    then have "quiet i (k x)" using k run by blast
    then have "delivered_only_before i w1 (snd (k x w1))" by (simp add: ensures_def)
    then show ?thesis using first by (simp add: bind_p_def run Inr delivered_only_before_def)
  qed (simp add: bind_p_def run first)
qed

lemma this_now_quiet: "quiet i this_now"
  by (simp add: ensures_def delivered_only_before_def this_now_def commit_def new_date_def delivered_def)

lemma retry_at_quiet: "quiet i (delivery_retry_at opts claim)"
  unfolding delivery_retry_at_def
  by (intro undelivered.ensures_bind this_now_quiet) (simp add: ensures_def delivered_only_before_def)

lemma operations_quiet:
  assumes others: "\<And>w. delivered_only_before i w (ws_others opts w)"
    and step: "\<And>w x w'. m w = Inr (x, w') \<Longrightarrow> delivered_only_before i w w'"
  shows "quiet i (operations opts m)"
  unfolding ensures_def
proof (intro allI impI)
  fix w
  show "delivered_only_before i w (snd (operations opts m w))"
    using others [of w] step [of "ws_others opts w"]
    by (cases "m (ws_others opts w)") (auto simp: operations_def commit_def delivered_only_before_def)
qed

lemma put_back_quiet: "put_back j w w' \<Longrightarrow> delivered_only_before i w w'"
  using put_back_delivered by (simp add: delivered_only_before_def)

lemma marks_nothingD:
  assumes "marks_nothing i opts"
  shows "\<And>w. delivered_only_before i w (ws_others opts w)" "quiet i (ws_getKey opts ref version)"
    "quiet i (delivery_resolver opts hostname)" "quiet i (delivery_send opts request)"
    "ws_capacity opts = Some acquire \<Longrightarrow> quiet i (acquire dependency now)"
  using assms unfolding marks_nothing_def by blast+

lemma retry_quiet: "marks_nothing i opts \<Longrightarrow> quiet i (retry_delivery opts claim e)"
  unfolding retry_delivery_def
  by (rule undelivered.ensures_bind [OF retry_at_quiet], rule operations_quiet)
     (erule marks_nothingD(1), rule put_back_quiet, erule retry_puts_back)

lemma capacity_quiet:
  assumes "marks_nothing i opts"
  shows "quiet i (acquireWebhookCapacity opts claim)"
proof (cases "ws_capacity opts")
  case None
  then show ?thesis by (simp add: acquireWebhookCapacity_def undelivered.ensures_return)
next
  case (Some acquire)
  have deferred: "quiet i (operations opts (deferWebhookDelivery input))" for input
    by (rule operations_quiet [OF marks_nothingD(1) [OF assms]]) (rule put_back_quiet, erule defer_puts_back)
  have "quiet i (if cap_allowed result then return_p True
      else bind_p (delivery_retry_at opts claim) (\<lambda>fallback.
        bind_p (operations opts (deferWebhookDelivery (input result fallback))) (\<lambda>_. return_p False)))" for result input
    by (simp add: undelivered.ensures_return undelivered.ensures_bind retry_at_quiet deferred)
  then show ?thesis
    unfolding acquireWebhookCapacity_def Some option.case
    by (intro undelivered.ensures_bind this_now_quiet marks_nothingD(5) [OF assms Some])
qed

lemma target_quiet:
  assumes "marks_nothing i opts"
  shows "quiet i (resolveWebhookTarget parse_url endpoint (delivery_resolver opts) timeoutMs)"
proof -
  have resolve: "quiet i (resolveHostnameWithTimeout hostname (delivery_resolver opts) timeoutMs)" for hostname
    unfolding resolveHostnameWithTimeout_def Let_def
    by (intro undelivered.ensures_bind marks_nothingD(3) [OF assms])
       (auto intro!: undelivered.ensures_bind undelivered.ensures_throw_if undelivered.ensures_return)
  have pick: "quiet i (case as of [] \<Rightarrow> throw_p no_address | a # _ \<Rightarrow> return_p \<lparr>tg_endpoint = parsed, tg_address = a\<rparr>)" for as parsed
    by (cases as) (simp_all add: undelivered.ensures_throw undelivered.ensures_return)
  show ?thesis
    unfolding resolveWebhookTarget_def
    by (rule undelivered.ensures_bind [OF undelivered.ensures_lift], cases "parse_url endpoint")
       (simp_all add: Let_def undelivered.ensures_throw undelivered.ensures_return undelivered.ensures_bind
         undelivered.ensures_throw_if undelivered.ensures_lift resolve pick)
qed

end
