(* ===== verification/Ipv6_Text.thy ===== *)
theory Ipv6_Text
  imports Webhook_Sender
begin

text \<open>
  The written form of an IPv6 address and its value: an address that is written as hexadecimal groups, in full or
  with the longest run of zeros left out, is read as the number its groups stand for.
\<close>

section \<open>The text of an address\<close>

fun join_colon :: "string list \<Rightarrow> string" where
  "join_colon [] = []"
| "join_colon [h] = h"
| "join_colon (h # hs) = h @ CHR '':'' # join_colon hs"

lemma hextet_plain: "lower_hextet h \<Longrightarrow> h \<noteq> [] \<and> CHR '':'' \<notin> set h \<and> CHR ''.'' \<notin> set h"
  by (auto simp: lower_hextet_def list_all_iff is_lower_hex_def is_digit_def code_unit_def)

lemma split_join_colon:
  "hs \<noteq> [] \<Longrightarrow> list_all lower_hextet hs \<Longrightarrow> split_on (CHR '':'') (join_colon hs) = hs"
  by (induction hs rule: join_colon.induct) (simp_all add: hextet_plain split_on_no_sep split_on_append)

lemma section_join:
  assumes "list_all lower_hextet hs"
  shows "parseIpv6Section (join_colon hs) = Some (map hextet_val hs)"
proof -
  have g: "section_groups hs = Some (map hextet_val hs)"
    using assms by (induction hs) (simp_all add: hextet_plain)
  have "join_colon hs \<noteq> []" if "hs \<noteq> []"
    using that assms by (cases hs rule: join_colon.cases) (simp_all add: hextet_plain)
  then show ?thesis
    using g split_join_colon [OF _ assms] by (cases "hs = []") (simp_all add: parseIpv6Section_def)
qed

lemma split_double_colon_cut:
  "split_double_colon s = (case cut_double_colon s of None \<Rightarrow> [s] | Some (l, r) \<Rightarrow> l # split_double_colon r)"
  by (induction s rule: split_double_colon.induct) (auto split: option.splits)

lemma cut_skip: "CHR '':'' \<notin> set h \<Longrightarrow> cut_double_colon (h @ s) = map_option (\<lambda>(l, r). (h @ l, r)) (cut_double_colon s)"
proof (induction h)
  case (Cons c h)
  then have "cut_double_colon (c # t) = map_option (\<lambda>(l, r). (c # l, r)) (cut_double_colon t)" for t
    by (cases t) auto
  then show ?case using Cons by (auto simp: option.map_comp comp_def split_beta)
qed (simp add: option.map_id)

lemma cut_colon: "s \<noteq> [] \<Longrightarrow> hd s \<noteq> CHR '':'' \<Longrightarrow> cut_double_colon (CHR '':'' # s) = map_option (\<lambda>(l, r). (CHR '':'' # l, r)) (cut_double_colon s)"
  by (cases s) auto

lemma join_hd: "hs \<noteq> [] \<Longrightarrow> list_all lower_hextet hs \<Longrightarrow> join_colon hs \<noteq> [] \<and> hd (join_colon hs) \<noteq> CHR '':''"
proof (cases hs rule: join_colon.cases)
  case (2 h)
  assume "list_all lower_hextet hs"
  then show ?thesis using hextet_plain [of h] by (cases h) (auto simp: 2)
next
  case (3 h h' hs')
  assume "list_all lower_hextet hs"
  then show ?thesis using hextet_plain [of h] by (cases h) (auto simp: 3)
qed simp

lemma cut_join:
  assumes "list_all lower_hextet hs"
  shows "cut_double_colon (join_colon hs) = None"
    "cut_double_colon (join_colon hs @ CHR '':'' # CHR '':'' # s) = Some (join_colon hs, s)"
proof -
  have "cut_double_colon (join_colon hs) = None \<and>
      cut_double_colon (join_colon hs @ CHR '':'' # CHR '':'' # s) = Some (join_colon hs, s)"
    using assms
  proof (induction hs rule: join_colon.induct)
    case (2 h)
    then show ?case using cut_skip [of h] cut_double_colon_colon [of h] hextet_plain [of h] by simp
  next
    case (3 h h' hs)
    let ?j = "join_colon (h' # hs)"
    have IH: "cut_double_colon ?j = None" "cut_double_colon (?j @ CHR '':'' # CHR '':'' # s) = Some (?j, s)"
      using 3 by simp_all
    have j: "?j \<noteq> []" "hd ?j \<noteq> CHR '':''" using join_hd [of "h' # hs"] "3.prems" by simp_all
    have h: "CHR '':'' \<notin> set h" using hextet_plain "3.prems" by simp
    have c: "cut_double_colon (CHR '':'' # ?j) = None"
      "cut_double_colon (CHR '':'' # ?j @ CHR '':'' # CHR '':'' # s) = Some (CHR '':'' # ?j, s)"
      using cut_colon [OF j] cut_colon [of "?j @ CHR '':'' # CHR '':'' # s"] j IH by simp_all
    show ?case using cut_skip [OF h, of "CHR '':'' # ?j"] cut_skip [OF h, of "CHR '':'' # ?j @ CHR '':'' # CHR '':'' # s"] c by simp
  qed simp
  then show "cut_double_colon (join_colon hs) = None"
    "cut_double_colon (join_colon hs @ CHR '':'' # CHR '':'' # s) = Some (join_colon hs, s)" by blast+
qed

lemma hextets_ok: "list_all lower_hextet hs \<Longrightarrow> list_all group_ok (map hextet_val hs)"
  by (simp add: list_all_iff hextet_group_ok)

lemma parse_joined:
  assumes "list_all lower_hextet ls" "list_all lower_hextet rs"
  shows "length ls = 8 \<Longrightarrow> parseIpv6Address (join_colon ls) = Some (groups_value (map hextet_val ls))"
    "length ls + length rs < 8 \<Longrightarrow> parseIpv6Address (join_colon ls @ ''::'' @ join_colon rs) =
      Some (groups_value (map hextet_val ls @ replicate (8 - (length ls + length rs)) 0 @ map hextet_val rs))"
proof -
  have one: "split_double_colon (join_colon hs) = [join_colon hs]" if "list_all lower_hextet hs" for hs
    by (subst split_double_colon_cut) (simp add: cut_join(1) [OF that])
  have two: "split_double_colon (join_colon ls @ ''::'' @ join_colon rs) = [join_colon ls, join_colon rs]"
    by (subst split_double_colon_cut) (simp add: cut_join(2) [OF assms(1)] one [OF assms(2)])
  show "length ls = 8 \<Longrightarrow> parseIpv6Address (join_colon ls) = Some (groups_value (map hextet_val ls))"
    using hextets_ok [OF assms(1)]
    by (simp add: parseIpv6Address_def one [OF assms(1)] section_join [OF assms(1)] Let_def foldl_group_value groups_value_def)
  assume l: "length ls + length rs < 8"
  then have n: "nat (8 - int (length ls) - int (length rs)) = 8 - (length ls + length rs)" by simp
  have ok: "list_all group_ok (map hextet_val ls @ replicate (8 - (length ls + length rs)) 0 @ map hextet_val rs)"
    using hextets_ok [OF assms(1)] hextets_ok [OF assms(2)] by (auto simp: list_all_iff group_ok_def)
  show "parseIpv6Address (join_colon ls @ ''::'' @ join_colon rs) =
      Some (groups_value (map hextet_val ls @ replicate (8 - (length ls + length rs)) 0 @ map hextet_val rs))"
    unfolding parseIpv6Address_def two Let_def groups_value_def foldl_group_value [OF ok, symmetric]
    using l by (simp add: section_join [OF assms(1)] section_join [OF assms(2)] n)
qed

text \<open>An IPv6 address is read by value. Eight hexadecimal groups stand for the number that has them as its
  digits in base 65536, and in an address with a double colon the missing groups are zero.\<close>

theorem ipv6_text_value:
  assumes "list_all lower_hextet ls" "list_all lower_hextet rs"
  shows "(length ls = 8 \<longrightarrow> parseIpv6Address (join_colon ls) = Some (groups_value (map hextet_val ls))) \<and>
    (length ls + length rs < 8 \<longrightarrow> parseIpv6Address (join_colon ls @ ''::'' @ join_colon rs) =
      Some (groups_value (map hextet_val ls @ replicate (8 - (length ls + length rs)) 0 @ map hextet_val rs)))"
  using parse_joined [OF assms] by blast

theorem ipv6_text_value_witness:
  "parseIpv6Address ''2606:2800::1'' = Some (0x2606 * 2 ^ 112 + 0x2800 * 2 ^ 96 + 1)"
proof -
  have h: "list_all lower_hextet [''2606'', ''2800'']" "list_all lower_hextet [''1'']"
    "map hextet_val [''2606'', ''2800''] = [0x2606, 0x2800]" "map hextet_val [''1''] = [1]"
    by code_simp+
  have z: "replicate (8 - (length [''2606'', ''2800''] + length [''1''])) 0 = [0, 0, 0, 0, 0 :: int]"
    by (simp add: eval_nat_numeral)
  have v: "groups_value ([0x2606, 0x2800] @ [0, 0, 0, 0, 0] @ [1]) = 0x2606 * 2 ^ 112 + 0x2800 * 2 ^ 96 + 1"
    by (simp add: groups_value_def)
  show ?thesis
    using ipv6_text_value [OF h(1,2), THEN conjunct2] unfolding h(3,4) z v by simp
qed

end
