(* ===== verification/Ids.thy ===== *)
theory Ids
  imports Prelude
begin

text \<open>
  \<^verbatim>\<open>packages/core/src/ids.ts\<close>: the prefixed opaque identifiers. The value of
  \<^verbatim>\<open>randomUUID()\<close> is an argument of the constructors.
\<close>

definition createOpaqueId :: "string \<Rightarrow> string \<Rightarrow> string" where
  "createOpaqueId prefix uuid = prefix @ ''_'' @ filter (\<lambda>c. c \<noteq> CHR ''-'') uuid"

definition parseOpaqueId :: "string \<Rightarrow> string \<Rightarrow> string result" where
  "parseOpaqueId value prefix =
     (let expectedPrefix = prefix @ ''_''
      in if take (length expectedPrefix) value \<noteq> expectedPrefix \<or>
            length value \<le> length expectedPrefix
         then throwValidation (''Invalid '' @ prefix @ '' identifier'')
         else Inr value)"

definition createAccountId :: "string \<Rightarrow> string" where
  "createAccountId uuid = createOpaqueId ''acct'' uuid"

definition createRecipientId :: "string \<Rightarrow> string" where
  "createRecipientId uuid = createOpaqueId ''rcpt'' uuid"

definition createPaymentId :: "string \<Rightarrow> string" where
  "createPaymentId uuid = createOpaqueId ''pay'' uuid"

definition createPaymentAttemptId :: "string \<Rightarrow> string" where
  "createPaymentAttemptId uuid = createOpaqueId ''att'' uuid"

definition createReceiveId :: "string \<Rightarrow> string" where
  "createReceiveId uuid = createOpaqueId ''recv'' uuid"

definition createCredentialId :: "string \<Rightarrow> string" where
  "createCredentialId uuid = createOpaqueId ''cred'' uuid"

definition parseAccountId :: "string \<Rightarrow> string result" where
  "parseAccountId value = parseOpaqueId value ''acct''"

definition parseRecipientId :: "string \<Rightarrow> string result" where
  "parseRecipientId value = parseOpaqueId value ''rcpt''"

definition parsePaymentId :: "string \<Rightarrow> string result" where
  "parsePaymentId value = parseOpaqueId value ''pay''"

definition parsePaymentAttemptId :: "string \<Rightarrow> string result" where
  "parsePaymentAttemptId value = parseOpaqueId value ''att''"

definition parseReceiveId :: "string \<Rightarrow> string result" where
  "parseReceiveId value = parseOpaqueId value ''recv''"

definition parseCredentialId :: "string \<Rightarrow> string result" where
  "parseCredentialId value = parseOpaqueId value ''cred''"

section \<open>Lemmas\<close>

lemma parse_create_id:
  "filter (\<lambda>c. c \<noteq> CHR ''-'') uuid \<noteq> [] \<Longrightarrow>
     parseOpaqueId (createOpaqueId prefix uuid) prefix = Inr (createOpaqueId prefix uuid)"
  by (simp add: parseOpaqueId_def createOpaqueId_def)

text \<open>The six prefixes are pairwise incompatible: an identifier of one kind never parses as
  another.\<close>

lemma parse_two_prefixes:
  assumes "parseOpaqueId s p = Inr a" "parseOpaqueId s q = Inr b" "CHR ''_'' \<notin> set p" "CHR ''_'' \<notin> set q"
  shows "p = q"
proof -
  obtain x where x: "s = p @ CHR ''_'' # x"
    using assms(1) unfolding parseOpaqueId_def Let_def
    by (metis (no_types, lifting) Inl_Inr_False append.assoc append_Cons append_Nil append_take_drop_id)
  obtain y where y: "s = q @ CHR ''_'' # y"
    using assms(2) unfolding parseOpaqueId_def Let_def
    by (metis (no_types, lifting) Inl_Inr_False append.assoc append_Cons append_Nil append_take_drop_id)
  have "takeWhile (\<lambda>c. c \<noteq> CHR ''_'') s = p" unfolding x using assms(3) by (induction p) auto
  moreover have "takeWhile (\<lambda>c. c \<noteq> CHR ''_'') s = q" unfolding y using assms(4) by (induction q) auto
  ultimately show ?thesis by simp
qed

section \<open>Properties\<close>

text \<open>A new identifier parses as its own kind, and a string never parses as identifiers of two
  kinds.\<close>

theorem identifiers_typed:
  assumes "filter (\<lambda>c. c \<noteq> CHR ''-'') uuid \<noteq> []"
  shows "parsePaymentId (createPaymentId uuid) = Inr (createPaymentId uuid) \<and>
    parseAccountId (createAccountId uuid) = Inr (createAccountId uuid) \<and>
    (\<forall>a. parseAccountId (createPaymentId uuid) \<noteq> Inr a) \<and> (\<forall>a. parsePaymentAttemptId (createPaymentId uuid) \<noteq> Inr a)"
proof -
  have P: "parseOpaqueId (createPaymentId uuid) ''pay'' = Inr (createPaymentId uuid)"
    using parse_create_id [OF assms, of "''pay''"] by (simp add: createPaymentId_def)
  have A: "parseOpaqueId (createAccountId uuid) ''acct'' = Inr (createAccountId uuid)"
    using parse_create_id [OF assms, of "''acct''"] by (simp add: createAccountId_def)
  have "parseOpaqueId (createPaymentId uuid) ''acct'' \<noteq> Inr a" "parseOpaqueId (createPaymentId uuid) ''att'' \<noteq> Inr a" for a
    using parse_two_prefixes [OF P, of "''acct''" a] parse_two_prefixes [OF P, of "''att''" a] by auto
  then show ?thesis
    using P A by (simp add: parsePaymentId_def parseAccountId_def parsePaymentAttemptId_def)
qed

theorem identifiers_typed_witness:
  "parsePaymentId (createPaymentId ''0a-1b'') = Inr ''pay_0a1b''"
proof -
  have "createPaymentId ''0a-1b'' = ''pay_0a1b''" by code_simp
  moreover have "filter (\<lambda>c. c \<noteq> CHR ''-'') ''0a-1b'' \<noteq> []" by simp
  ultimately show ?thesis using identifiers_typed by metis
qed

end
