(* ===== verification/Spec2Isabelle.thy ===== *)
theory Spec2Isabelle
  imports Repository_Properties Administration_Properties Outgoing_Properties Operator_Properties
    Webhook_Properties Control_Properties Ledger_Properties Sender_Properties Usd_Money Ids Retry
begin

text \<open>
  A verification of the payment backend for agent accounts: the domain library
  (\<^verbatim>\<open>packages/core\<close>), the payment repository (\<^verbatim>\<open>packages/db/src/v2.ts\<close>) that keeps the ledger of
  payments, attempts, reservations and durable work items, the operator repositories
  (\<^verbatim>\<open>packages/db/src/v2-admin.ts\<close> and \<^verbatim>\<open>v2-operations.ts\<close>), the worker that executes payments
  (\<^verbatim>\<open>apps/api/src/outgoing-v2.ts\<close>), the worker that sends webhooks (\<^verbatim>\<open>apps/api/src/webhooks.ts\<close>), and the
  path of incoming transfers: the reader of the chain
  (\<^verbatim>\<open>packages/solana-rail/src/incoming.ts\<close>), the indexing service (\<^verbatim>\<open>apps/api/src/incoming.ts\<close>) and the
  ledger of receive requests and incoming payments (\<^verbatim>\<open>packages/db/src/index.ts\<close>).

  \<^bold>\<open>How the parts fit.\<close> A request becomes a payment through \<open>createV2Payment\<close>: the repository
  locks the account, looks the idempotency key up, evaluates the spend policy of the core library
  again on the spending it reads inside the transaction, checks the settled funds against the
  reservations that are held, and writes payment, attempt, reservation, work item, timeline and
  webhook rows. A payment that needs an approval waits until an operator decides (\<open>decideApproval\<close>).
  The worker claims the work item under a lease, prepares, signs and submits the effect through the
  rail, moves the attempt through its outcomes and finalizes the payment; the status of a payment is a
  projection of policy, approval and outcome computed by the core library. What stays unresolved
  becomes an operational exception that an operator settles with evidence. Events enter an outbox; the
  sender claims the deliveries, signs the body of the event and posts it to a public address of the
  subscribed endpoint. In the other direction the indexer leases the partition of an
  account, reads the history of its token account down to the saved cursor, records every transfer as an
  incoming payment, which may settle a receive request, or every unreadable transaction as an issue that is
  retried, and then moves the cursor.

  \<^bold>\<open>Theories.\<close>
  \<^item> \<open>Prelude\<close>, \<open>Errors\<close>, \<open>Json\<close>: the proof collections, results that may be errors, the parts of the
    standard library the sources use (numbers, BigInt, strings, JSON, dates, sorting) and the error
    classes of \<^verbatim>\<open>core/src/errors.ts\<close>. A thrown error is \<open>Inl\<close> of \<open>js_error\<close>.
  \<^item> \<open>Exact_Money\<close>, \<open>Usd_Money\<close>, \<open>Ids\<close>, \<open>Retry\<close>, \<open>Payment_Status\<close>, \<open>Agent_Account\<close>, \<open>Policy\<close>, \<open>Routing\<close>:
    one theory per module of \<^verbatim>\<open>packages/core/src\<close>, one definition per exported function.
  \<^item> \<open>Database\<close>: the tables as lists of records in one record \<open>world\<close>, together with the clock readings
    and random identifiers still to be drawn; a transaction \<open>'a tx\<close> is a function from a world to an error
    or a result with the next world, so a thrown error keeps no writes. The client's calls
    (\<open>find_tx\<close>, \<open>insert_tx\<close>, \<open>update_many_tx\<close>, \<open>update_one_tx\<close>, \<open>delete_many_tx\<close>) are defined once. The
    locale \<open>keyed_table\<close> is the interface of a table with a unique key; it is interpreted on the tables
    the proofs use, each in the theory of the component that writes it.
  \<^item> \<open>Timeline_Webhooks\<close>, \<open>Payment_Creation\<close>, \<open>Payment_Attempts\<close>, \<open>Work_Queue\<close>, \<open>Administration\<close>: the
    operations of \<^verbatim>\<open>v2.ts\<close>, in the order of the source.
  \<^item> \<open>Approvals\<close>, \<open>Account_Administration\<close>, \<open>Policy_Administration\<close>, \<open>Custody_Limits\<close>: the operations of
    \<^verbatim>\<open>v2-admin.ts\<close>: decisions on approvals; provisioning, credentials, recovery and receive requests;
    policies, destinations and funding; custody records, history and the rate limiter.
  \<^item> \<open>Operator_Exceptions\<close>, \<open>Webhook_Addresses\<close>, \<open>Webhook_Delivery\<close>, \<open>Control_Plane\<close>: the operations of
    \<^verbatim>\<open>v2-operations.ts\<close>: exceptions and their resolution; the check of webhook addresses; subscriptions
    and the delivery queue; costs, backups and the health report.
  \<^item> \<open>Payment_System\<close>, \<open>Attempt_History\<close>: the repositories as a step relation, one constructor per
    transaction that touches the ledger (operator decisions included), with the reachable worlds and the
    ledger invariant by rule induction, and how the attempts of a payment may change along a run.
  \<^item> \<open>Outgoing_Effects\<close>, \<open>Outgoing_Worker\<close>, \<open>Outgoing_Safety\<close>: the durable form of prepared and signed
    effects; the worker as a process \<open>'a proc\<close> that alternates its transactions with steps of other
    processes and with calls to the rail, the custody service and the cipher, which are parameters; and
    the proof that each part of it only does steps of the service.
  \<^item> \<open>Receive_Ledger\<close>, \<open>Incoming_Issues\<close>: the operations of \<^verbatim>\<open>index.ts\<close> on receive requests and incoming
    payments, with the step relation and the invariant that links the two tables; and on partitions and
    issues, with the budget of an issue.
  \<^item> \<open>Solana_Incoming\<close>, \<open>Incoming_Service\<close>: the reader, with the RPC node as a parameter, and the indexing
    service as processes; the locale \<open>guarantee\<close> of the worker is interpreted again, on the frame that
    every step but the saving of the cursor keeps.
  \<^item> \<open>Webhook_Sender\<close>, \<open>Ipv6_Text\<close>: the sender of webhooks as processes, with the MAC, the URL parser, the
    name service, the HTTPS client and the signing keys as parameters; the locale \<open>guarantee\<close> is interpreted
    on the frame of the steps that mark no delivery. \<open>Ipv6_Text\<close> relates the written form of an IPv6 address
    to the value by which it is judged.
  \<^item> \<open>Sample_World\<close> holds concrete data for the witnesses. \<open>Repository_Properties\<close>,
    \<open>Administration_Properties\<close>, \<open>Outgoing_Properties\<close>, \<open>Operator_Properties\<close>, \<open>Webhook_Properties\<close>,
    \<open>Control_Properties\<close>, \<open>Ledger_Properties\<close> and \<open>Sender_Properties\<close> hold the properties that span components.

  \<^bold>\<open>What is shown.\<close> Creation: funds, rolling budget, policy and refund caps hold in the world after a
  successful creation, idempotency keys replay or conflict, and a payment that is not allowed starts
  nothing. Approvals: an approval starts the payment once, within the settled funds. Execution: in every
  reachable world at most one attempt of a payment may have had an effect, finalizations follow the
  progression table and are not repeated, an abort happens only before an effect, and a settled
  reservation stays settled; the worker, interleaved with other processes, refines the service, keeps
  the reservations of a signed effect and sends nothing for an inactive account. Exceptions: an operator
  releases or consumes funds only on evidence of an accepted authority, and an exception is settled
  once. Queue: a claim takes the first claimable item, misses none, respects running leases, and the
  counters of items stay within their limits. Webhooks: an event enters the outbox once, two workers
  never hold the same delivery, a finished delivery stays finished, an address is judged alike in
  every notation of the IPv4 space, a request goes to an address outside the reserved blocks, its signature
  is accepted by the receiver and stands for one body and one time, and a delivery is marked only after the
  endpoint has accepted it. Control plane: provisioning is idempotent, credentials rotate in one
  step, a recovery envelope is handed out once, an account has one active policy, the rate limiter
  admits exactly its limit, and a page of the history misses nothing newer. Incoming
  transfers: requests and payments agree and a transfer is recorded once, a partition has one holder, an
  issue is tried a bounded number of times, a batch of issues is complete, a deferral takes a claim back,
  the history is collected completely, no more is credited than was received, and the cursor never skips
  a transfer. Core library: round trips
  of money and identifiers, an equivalent declarative form of the policy evaluation, finite chains of
  outcome changes, and order-independent route selection.

  \<^bold>\<open>Bounds and fuel.\<close> The JSON parser recurses on fuel; \<open>2 * length s + 2\<close> is enough for every text
  \<open>stringify\<close> writes, which the round trip of stored values proves. The loop of \<open>claimWorkItem\<close> that
  gives up exhausted items is a total function: each round takes one item out of the exhaustible ones.
  The loop that claims issues counts the issues that are due. Collecting a history is a
  \<open>partial_function\<close>, because a node may send full pages for ever; that it returns is proved for a node
  that answers as documented.
  \<open>isPrivateWebhookIp\<close> calls itself on the IPv4 address inside a mapped one and terminates because that
  address is no IPv6 address.

  \<^bold>\<open>Decisions.\<close> Strings are lists of code units below 256. Integer columns are unbounded; column widths
  and foreign keys are not enforced, unique keys are. Enumeration columns are datatypes, and a string
  cast to one is parsed with an error where the client would reject it. A transaction is atomic, so a
  row that another transaction has locked is never seen and \<^verbatim>\<open>SKIP LOCKED\<close> skips nothing; interleaving
  is the order of transactions. \<open>updatePaymentExecution\<close> reads before its transaction and is
  modelled in two parts. Hashes, random identifiers, clocks, the URL parser and the locale's order of
  strings are parameters. A function that returns a row as it is read (\<^verbatim>\<open>toAccountRecord\<close> and its like)
  is not a definition of its own.

  \<^bold>\<open>Not modelled.\<close> The set-up of the local configuration in \<^verbatim>\<open>v2.ts\<close>, the accounts, recipients and
  payments of the first version in \<^verbatim>\<open>index.ts\<close>, the HTTP services, the outgoing rails and the client library; the HTTP form of errors
  (\<^verbatim>\<open>statusCode\<close>, \<^verbatim>\<open>toJSON\<close>); logging, metrics and the timers of the processes.
\<close>

end
